(* ===== verification/Prelude.thy ===== *)
theory Prelude
  imports Complex_Main "HOL-Library.Word" "HOL-Library.Char_ord" "HOL-Library.List_Lexorder"
    "HOL-Library.Product_Lexorder"
begin

section \<open>Prelude: programs with exceptions, Python values, tables\<close>

text \<open>
  What every component of the development shares.

  \<^item> \<open>prog\<close>: a service function is a state transformer that either returns a value or
    raises an exception. The state at the moment of the raise is kept, because the
    program distinguishes what an exception handler finds in the session (a
    \<^verbatim>\<open>try/except\<close> around a call) from what a rolled-back transaction leaves.
  \<^item> \<open>confined R m\<close>: running \<open>m\<close> moves the state only along the relation \<open>R\<close>, whether it
    returns or raises. The locale \<open>step_relation\<close> gives the composition rules once for every
    reflexive and transitive \<open>R\<close>; frame conditions and invariants are instances.
  \<^item> Python's truthiness, \<open>or\<close>, string methods and decimal rendering.
  \<^item> tables as lists of rows, with the SQL shapes the services use.

  Strings are lists of bytes (UTF-8). The methods \<open>strip\<close>, \<open>lower\<close>, \<open>upper\<close> and
  \<open>isdigit\<close> are modelled on the ASCII range; a byte of a multi-byte character is neither
  a space, a digit nor a letter with case here.
\<close>

named_theorems run_simps \<open>equations that run a program on a state\<close>
named_theorems table_simps \<open>facts about tables\<close>

subsection \<open>Programs\<close>

type_synonym ('s, 'e, 'a) prog = "'s \<Rightarrow> ('e + 'a) \<times> 's"

definition ret :: "'a \<Rightarrow> ('s, 'e, 'a) prog" where
  "ret x = (\<lambda>s. (Inr x, s))"

definition raise :: "'e \<Rightarrow> ('s, 'e, 'a) prog" where
  "raise e = (\<lambda>s. (Inl e, s))"

definition bind :: "('s, 'e, 'a) prog \<Rightarrow> ('a \<Rightarrow> ('s, 'e, 'b) prog) \<Rightarrow> ('s, 'e, 'b) prog" where
  "bind m f = (\<lambda>s. case m s of (Inl e, t) \<Rightarrow> (Inl e, t) | (Inr x, t) \<Rightarrow> f x t)"

definition seq :: "('s, 'e, 'a) prog \<Rightarrow> ('s, 'e, 'b) prog \<Rightarrow> ('s, 'e, 'b) prog" where
  "seq m k = bind m (\<lambda>_. k)"

definition reads :: "('s \<Rightarrow> 'a) \<Rightarrow> ('s, 'e, 'a) prog" where
  "reads f = (\<lambda>s. (Inr (f s), s))"

definition writes :: "('s \<Rightarrow> 's) \<Rightarrow> ('s, 'e, unit) prog" where
  "writes f = (\<lambda>s. (Inr (), f s))"

definition require :: "bool \<Rightarrow> 'e \<Rightarrow> ('s, 'e, unit) prog" where
  "require b e = (if b then ret () else raise e)"

definition when_true :: "bool \<Rightarrow> ('s, 'e, unit) prog \<Rightarrow> ('s, 'e, unit) prog" where
  "when_true b m = (if b then m else ret ())"

text \<open>\<^verbatim>\<open>try: m except Exception: ...\<close>: the outcome as a value, the session as \<open>m\<close> left it.\<close>

definition attempt :: "('s, 'e, 'a) prog \<Rightarrow> ('s, 'e, 'e + 'a) prog" where
  "attempt m = (\<lambda>s. case m s of (r, t) \<Rightarrow> (Inr r, t))"

text \<open>A transaction (or a savepoint): an exception restores the state it began with.\<close>

definition atomically :: "('s, 'e, 'a) prog \<Rightarrow> ('s, 'e, 'a) prog" where
  "atomically m = (\<lambda>s. case m s of (Inl e, t) \<Rightarrow> (Inl e, s) | (Inr x, t) \<Rightarrow> (Inr x, t))"

primrec for_each :: "'x list \<Rightarrow> ('x \<Rightarrow> ('s, 'e, unit) prog) \<Rightarrow> ('s, 'e, unit) prog" where
  "for_each [] f = ret ()"
| "for_each (x # xs) f = bind (f x) (\<lambda>_. for_each xs f)"

lemma ret_run [run_simps, simp]: "ret x s = (Inr x, s)"
  by (simp add: ret_def)

lemma raise_run [run_simps, simp]: "raise e s = (Inl e, s)"
  by (simp add: raise_def)

lemma reads_run [run_simps, simp]: "reads f s = (Inr (f s), s)"
  by (simp add: reads_def)

lemma writes_run [run_simps, simp]: "writes f s = (Inr (), f s)"
  by (simp add: writes_def)

lemma bind_run [run_simps]:
  "bind m f s = (case m s of (Inl e, t) \<Rightarrow> (Inl e, t) | (Inr x, t) \<Rightarrow> f x t)"
  by (simp add: bind_def)

lemma seq_run [run_simps]:
  "seq m k s = (case m s of (Inl e, t) \<Rightarrow> (Inl e, t) | (Inr _, t) \<Rightarrow> k t)"
  by (simp add: seq_def bind_def)

lemma require_run [run_simps]: "require b e s = (if b then (Inr (), s) else (Inl e, s))"
  by (simp add: require_def)

lemma when_true_run [run_simps]: "when_true b m s = (if b then m s else (Inr (), s))"
  by (simp add: when_true_def)

lemma attempt_run [run_simps]: "attempt m s = (case m s of (r, t) \<Rightarrow> (Inr r, t))"
  by (simp add: attempt_def)

lemma atomically_run [run_simps]:
  "atomically m s = (case m s of (Inl e, t) \<Rightarrow> (Inl e, s) | (Inr x, t) \<Rightarrow> (Inr x, t))"
  by (simp add: atomically_def)

lemma bind_return_iff:
  "bind m f s = (Inr y, u) \<longleftrightarrow> (\<exists>x t. m s = (Inr x, t) \<and> f x t = (Inr y, u))"
  by (auto simp: bind_def split: prod.splits sum.splits)

lemma bind_raise_iff:
  "bind m f s = (Inl e, u) \<longleftrightarrow>
     m s = (Inl e, u) \<or> (\<exists>x t. m s = (Inr x, t) \<and> f x t = (Inl e, u))"
  by (auto simp: bind_def split: prod.splits sum.splits)

lemma seq_return_iff:
  "seq m k s = (Inr y, u) \<longleftrightarrow> (\<exists>x t. m s = (Inr x, t) \<and> k t = (Inr y, u))"
  by (simp add: seq_def bind_return_iff)

lemma require_return_iff: "require b e s = (Inr x, t) \<longleftrightarrow> b \<and> t = s"
  by (auto simp: require_def)

lemma when_true_return_iff:
  "when_true b m s = (Inr x, t) \<longleftrightarrow> (if b then m s = (Inr x, t) else t = s)"
  by (auto simp: when_true_def)

lemma atomically_return_iff: "atomically m s = (Inr x, t) \<longleftrightarrow> m s = (Inr x, t)"
  by (auto simp: atomically_def split: prod.splits sum.splits)

text \<open>What a program that returned must have done, step by step.\<close>

lemmas return_iffs = bind_return_iff seq_return_iff require_return_iff when_true_return_iff

lemma case_option_run_iff:
  "(case x of None \<Rightarrow> m | Some v \<Rightarrow> k v) s = y \<longleftrightarrow>
     (x = None \<and> m s = y) \<or> (\<exists>v. x = Some v \<and> k v s = y)"
  by (cases x) auto

lemma case_sum_run_iff:
  "(case x of Inl e \<Rightarrow> m e | Inr v \<Rightarrow> k v) s = y \<longleftrightarrow>
     (\<exists>e. x = Inl e \<and> m e s = y) \<or> (\<exists>v. x = Inr v \<and> k v s = y)"
  by (cases x) auto

lemma if_run_iff: "(if b then m else k) s = y \<longleftrightarrow> (b \<and> m s = y) \<or> (\<not> b \<and> k s = y)"
  by simp

lemmas case_iffs = case_option_run_iff case_sum_run_iff if_run_iff

lemma atomically_raise: "fst (atomically m s) = Inl e \<Longrightarrow> snd (atomically m s) = s"
  by (auto simp: atomically_def split: prod.splits sum.splits)

subsection \<open>Where a program can move the state\<close>

definition confined :: "('s \<Rightarrow> 's \<Rightarrow> bool) \<Rightarrow> ('s, 'e, 'a) prog \<Rightarrow> bool" where
  "confined R m \<longleftrightarrow> (\<forall>s. R s (snd (m s)))"

lemma confinedD: "confined R m \<Longrightarrow> m s = (r, t) \<Longrightarrow> R s t"
  unfolding confined_def by (metis snd_conv)

lemma confinedI: "(\<And>s r t. m s = (r, t) \<Longrightarrow> R s t) \<Longrightarrow> confined R m"
  by (auto simp: confined_def) (metis surjective_pairing)

locale step_relation =
  fixes R :: "'s \<Rightarrow> 's \<Rightarrow> bool"
  assumes R_refl: "R s s"
    and R_trans: "R s t \<Longrightarrow> R t u \<Longrightarrow> R s u"
begin

lemma confined_ret: "confined R (ret x)"
  by (simp add: confined_def R_refl)

lemma confined_raise: "confined R (raise e)"
  by (simp add: confined_def R_refl)

lemma confined_reads: "confined R (reads f)"
  by (simp add: confined_def R_refl)

lemma confined_require: "confined R (require b e)"
  by (simp add: confined_def R_refl require_def)

lemma confined_writes: "(\<And>s. R s (f s)) \<Longrightarrow> confined R (writes f)"
  by (simp add: confined_def)

lemma confined_bind:
  assumes m: "confined R m" and f: "\<And>x. confined R (f x)"
  shows "confined R (bind m f)"
proof (rule confinedI)
  fix s r t
  assume run: "bind m f s = (r, t)"
  obtain r' u where mu: "m s = (r', u)" by fastforce
  have su: "R s u" using confinedD [OF m mu] .
  show "R s t"
  proof (cases r')
    case (Inl e)
    with run mu su show ?thesis by (simp add: bind_def)
  next
    case (Inr x)
    with run mu have "f x u = (r, t)" by (simp add: bind_def)
    then have "R u t" by (rule confinedD [OF f])
    with su show ?thesis by (rule R_trans)
  qed
qed

lemma confined_seq: "confined R m \<Longrightarrow> confined R k \<Longrightarrow> confined R (seq m k)"
  unfolding seq_def by (rule confined_bind)

lemma confined_when_true: "(b \<Longrightarrow> confined R m) \<Longrightarrow> confined R (when_true b m)"
  by (simp add: when_true_def confined_ret)

lemma confined_attempt: "confined R m \<Longrightarrow> confined R (attempt m)"
  by (auto simp: confined_def attempt_def split: prod.splits) (metis snd_conv)

lemma confined_atomically: "confined R m \<Longrightarrow> confined R (atomically m)"
  by (auto simp: confined_def atomically_def R_refl split: prod.splits sum.splits)
    (metis snd_conv)

lemma confined_for_each: "(\<And>x. x \<in> set xs \<Longrightarrow> confined R (f x)) \<Longrightarrow> confined R (for_each xs f)"
  by (induction xs) (auto intro: confined_ret confined_bind)

lemma confined_if: "(b \<Longrightarrow> confined R m) \<Longrightarrow> (\<not> b \<Longrightarrow> confined R k) \<Longrightarrow> confined R (if b then m else k)"
  by simp

lemma confined_case_option:
  "(x = None \<Longrightarrow> confined R m) \<Longrightarrow> (\<And>y. x = Some y \<Longrightarrow> confined R (k y)) \<Longrightarrow>
   confined R (case x of None \<Rightarrow> m | Some y \<Rightarrow> k y)"
  by (cases x) auto

lemma confined_case_sum:
  "(\<And>e. x = Inl e \<Longrightarrow> confined R (m e)) \<Longrightarrow> (\<And>y. x = Inr y \<Longrightarrow> confined R (k y)) \<Longrightarrow>
   confined R (case x of Inl e \<Rightarrow> m e | Inr y \<Rightarrow> k y)"
  by (cases x) auto

lemma confined_case_prod:
  "(\<And>a b. x = (a, b) \<Longrightarrow> confined R (k a b)) \<Longrightarrow> confined R (case x of (a, b) \<Rightarrow> k a b)"
  by (cases x) auto

lemma confined_Let: "(\<And>x. x = v \<Longrightarrow> confined R (k x)) \<Longrightarrow> confined R (let x = v in k x)"
  by simp

lemmas confined_intros =
  confined_ret confined_raise confined_reads confined_writes confined_require confined_bind
  confined_seq
  confined_when_true confined_attempt confined_atomically confined_for_each
  confined_if confined_case_option confined_case_sum confined_case_prod confined_Let

end

text \<open>An invariant is the relation that it survives; a frame is an equality of projections.\<close>

definition preserves :: "('s \<Rightarrow> bool) \<Rightarrow> 's \<Rightarrow> 's \<Rightarrow> bool" where
  "preserves I s t \<longleftrightarrow> (I s \<longrightarrow> I t)"

definition same :: "('s \<Rightarrow> 'v) \<Rightarrow> 's \<Rightarrow> 's \<Rightarrow> bool" where
  "same f s t \<longleftrightarrow> f t = f s"

interpretation inv: step_relation "preserves I"
  by unfold_locales (auto simp: preserves_def)

interpretation frame: step_relation "same f"
  by unfold_locales (auto simp: same_def)

lemma confined_sameD: "confined (same f) m \<Longrightarrow> m s = (r, t) \<Longrightarrow> f t = f s"
  using confinedD [of "same f" m s r t] by (simp add: same_def)

lemma confined_preservesD: "confined (preserves I) m \<Longrightarrow> m s = (r, t) \<Longrightarrow> I s \<Longrightarrow> I t"
  using confinedD [of "preserves I" m s r t] by (simp add: preserves_def)

lemma confined_same_preserves:
  "confined (same f) m \<Longrightarrow> (\<And>s t. f t = f s \<Longrightarrow> I s \<Longrightarrow> I t) \<Longrightarrow> confined (preserves I) m"
  by (auto simp: confined_def same_def preserves_def)

subsection \<open>Programs that return\<close>

text \<open>
  \<open>safe I m\<close>: from a state of \<open>I\<close>, \<open>m\<close> returns and leaves \<open>I\<close>. The dual of a guard: with it, a
  lemma says that an operation does not fail, and not only what holds if it does not.
\<close>

definition safe :: "('s \<Rightarrow> bool) \<Rightarrow> ('s, 'e, 'a) prog \<Rightarrow> bool" where
  "safe I m \<longleftrightarrow> (\<forall>s. I s \<longrightarrow> (\<exists>x t. m s = (Inr x, t) \<and> I t))"

lemma safeD: "safe I m \<Longrightarrow> I s \<Longrightarrow> \<exists>x t. m s = (Inr x, t) \<and> I t"
  by (simp add: safe_def)

lemma safe_ret: "safe I (ret x)"
  by (simp add: safe_def)

lemma safe_reads: "safe I (reads f)"
  by (simp add: safe_def)

lemma safe_writes: "(\<And>s. I s \<Longrightarrow> I (f s)) \<Longrightarrow> safe I (writes f)"
  by (simp add: safe_def)

lemma safe_bind: "safe I m \<Longrightarrow> (\<And>x. safe I (f x)) \<Longrightarrow> safe I (bind m f)"
  unfolding safe_def bind_def by (fastforce split: prod.splits sum.splits)

lemma safe_seq: "safe I m \<Longrightarrow> safe I k \<Longrightarrow> safe I (seq m k)"
  unfolding seq_def by (rule safe_bind)

lemma safe_require: "b \<Longrightarrow> safe I (require b e)"
  by (simp add: safe_def require_def)

lemma safe_when_true: "(b \<Longrightarrow> safe I m) \<Longrightarrow> safe I (when_true b m)"
  by (simp add: when_true_def safe_ret)

lemma safe_attempt: "confined (preserves I) m \<Longrightarrow> safe I (attempt m)"
  by (auto simp: safe_def attempt_def confined_def preserves_def split: prod.splits)

lemma safe_if: "(b \<Longrightarrow> safe I m) \<Longrightarrow> (\<not> b \<Longrightarrow> safe I k) \<Longrightarrow> safe I (if b then m else k)"
  by simp

lemma safe_case_option:
  "(x = None \<Longrightarrow> safe I m) \<Longrightarrow> (\<And>y. x = Some y \<Longrightarrow> safe I (k y)) \<Longrightarrow>
   safe I (case x of None \<Rightarrow> m | Some y \<Rightarrow> k y)"
  by (cases x) auto

lemma safe_case_prod:
  "(\<And>a b. x = (a, b) \<Longrightarrow> safe I (k a b)) \<Longrightarrow> safe I (case x of (a, b) \<Rightarrow> k a b)"
  by (cases x) auto

lemma safe_for_each: "(\<And>x. x \<in> set xs \<Longrightarrow> safe I (f x)) \<Longrightarrow> safe I (for_each xs f)"
  by (induction xs) (auto intro: safe_ret safe_bind)

lemma safe_Let: "(\<And>x. x = v \<Longrightarrow> safe I (k x)) \<Longrightarrow> safe I (let x = v in k x)"
  by simp

lemmas safe_intros =
  safe_ret safe_reads safe_writes safe_bind safe_seq safe_require safe_when_true safe_if
  safe_case_option safe_case_prod safe_for_each safe_Let

subsection \<open>Python values and strings\<close>

datatype json =
    JNull
  | JBool bool
  | JInt int
  | JFloat rat
  | JStr string
  | JArr "json list"
  | JObj "(string \<times> json) list"

fun json_truthy :: "json \<Rightarrow> bool" where
  "json_truthy JNull = False"
| "json_truthy (JBool b) = b"
| "json_truthy (JInt i) = (i \<noteq> 0)"
| "json_truthy (JFloat q) = (q \<noteq> 0)"
| "json_truthy (JStr s) = (s \<noteq> '''')"
| "json_truthy (JArr xs) = (xs \<noteq> [])"
| "json_truthy (JObj kvs) = (kvs \<noteq> [])"

text \<open>\<^verbatim>\<open>d.get(k)\<close> with Python's default \<^verbatim>\<open>None\<close>.\<close>

definition obj_get :: "(string \<times> json) list \<Rightarrow> string \<Rightarrow> json" where
  "obj_get kvs k = (case map_of kvs k of None \<Rightarrow> JNull | Some v \<Rightarrow> v)"

definition jopt :: "('a \<Rightarrow> json) \<Rightarrow> 'a option \<Rightarrow> json" where
  "jopt f x = (case x of None \<Rightarrow> JNull | Some v \<Rightarrow> f v)"

definition str_truthy :: "string option \<Rightarrow> bool" where
  "str_truthy x = (case x of None \<Rightarrow> False | Some s \<Rightarrow> s \<noteq> '''')"

text \<open>\<^verbatim>\<open>x or d\<close> for an optional string.\<close>

definition str_or :: "string option \<Rightarrow> string \<Rightarrow> string" where
  "str_or x d = (case x of None \<Rightarrow> d | Some s \<Rightarrow> if s = '''' then d else s)"

definition is_space :: "char \<Rightarrow> bool" where
  "is_space c = (let n = (of_char c :: nat) in (9 \<le> n \<and> n \<le> 13) \<or> (28 \<le> n \<and> n \<le> 32))"

definition strip :: "string \<Rightarrow> string" where
  "strip s = rev (dropWhile is_space (rev (dropWhile is_space s)))"

definition lower_char :: "char \<Rightarrow> char" where
  "lower_char c = (let n = (of_char c :: nat) in if 65 \<le> n \<and> n \<le> 90 then char_of (n + 32) else c)"

definition upper_char :: "char \<Rightarrow> char" where
  "upper_char c = (let n = (of_char c :: nat) in if 97 \<le> n \<and> n \<le> 122 then char_of (n - 32) else c)"

definition lower :: "string \<Rightarrow> string" where "lower = map lower_char"
definition upper :: "string \<Rightarrow> string" where "upper = map upper_char"

definition is_digit_char :: "char \<Rightarrow> bool" where
  "is_digit_char c = (let n = (of_char c :: nat) in 48 \<le> n \<and> n \<le> 57)"

definition isdigit :: "string \<Rightarrow> bool" where
  "isdigit s = (s \<noteq> [] \<and> list_all is_digit_char s)"

definition starts_with :: "string \<Rightarrow> string \<Rightarrow> bool" where
  "starts_with s p = (take (length p) s = p)"

definition ends_with :: "string \<Rightarrow> string \<Rightarrow> bool" where
  "ends_with s p = (length p \<le> length s \<and> drop (length s - length p) s = p)"

text \<open>\<^verbatim>\<open>s.split(c)\<close> and \<^verbatim>\<open>sep.join(xs)\<close>.\<close>

fun split_on :: "char \<Rightarrow> string \<Rightarrow> string list" where
  "split_on c [] = [[]]"
| "split_on c (x # xs) =
     (case split_on c xs of
        [] \<Rightarrow> [[x]]
      | w # ws \<Rightarrow> if x = c then [] # w # ws else (x # w) # ws)"

fun join :: "string \<Rightarrow> string list \<Rightarrow> string" where
  "join sep [] = []"
| "join sep [x] = x"
| "join sep (x # y # xs) = x @ sep @ join sep (y # xs)"

definition replace_char :: "char \<Rightarrow> string \<Rightarrow> string \<Rightarrow> string" where
  "replace_char c r s = concat (map (\<lambda>x. if x = c then r else [x]) s)"

fun nat_str :: "nat \<Rightarrow> string" where
  "nat_str n = (if n < 10 then [char_of (48 + n)] else nat_str (n div 10) @ [char_of (48 + n mod 10)])"

declare nat_str.simps [simp del]

definition int_str :: "int \<Rightarrow> string" where
  "int_str i = (if i < 0 then ''-'' @ nat_str (nat (- i)) else nat_str (nat i))"

text \<open>The value of a string of ASCII digits, as \<^verbatim>\<open>int(s)\<close> reads it.\<close>

definition digit_val :: "char \<Rightarrow> nat" where
  "digit_val c = of_char c - 48"

definition nat_of_digits :: "string \<Rightarrow> nat" where
  "nat_of_digits s = fold (\<lambda>c acc. 10 * acc + digit_val c) s 0"

text \<open>The em dash of the source's user-visible strings, as UTF-8 bytes.\<close>

definition em_dash :: string where
  "em_dash = [char_of (226::nat), char_of (128::nat), char_of (148::nat)]"

text \<open>A value in single quotes, as the messages quote it.\<close>

definition quoted :: "string \<Rightarrow> string" where
  "quoted s = [CHR 0x27] @ s @ [CHR 0x27]"

definition newline :: char where "newline = char_of (10::nat)"

lemma strip_empty [simp]: "strip [] = []"
  by (simp add: strip_def)

lemma str_or_nonempty: "d \<noteq> '''' \<Longrightarrow> str_or x d \<noteq> ''''"
  by (simp add: str_or_def split: option.splits)

lemma split_on_not_Nil: "split_on c s \<noteq> []"
  by (induction s) (auto split: list.splits)

lemma join_split_on: "join [c] (split_on c s) = s"
proof (induction s)
  case Nil
  show ?case by simp
next
  case (Cons x xs)
  obtain w ws where w: "split_on c xs = w # ws"
    using split_on_not_Nil [of c xs] by (cases "split_on c xs") auto
  with Cons.IH show ?case by (cases ws) auto
qed

subsection \<open>Tables\<close>

text \<open>
  A table is the list of its rows, in insertion order; a \<^verbatim>\<open>SELECT\<close> without
  \<^verbatim>\<open>ORDER BY\<close> lists them in that order.
\<close>

definition update_where :: "('r \<Rightarrow> bool) \<Rightarrow> ('r \<Rightarrow> 'r) \<Rightarrow> 'r list \<Rightarrow> 'r list" where
  "update_where p f rows = map (\<lambda>r. if p r then f r else r) rows"

definition delete_where :: "('r \<Rightarrow> bool) \<Rightarrow> 'r list \<Rightarrow> 'r list" where
  "delete_where p rows = filter (\<lambda>r. \<not> p r) rows"

lemma length_update_where [table_simps, simp]: "length (update_where p f rows) = length rows"
  by (simp add: update_where_def)

lemma map_update_where [table_simps]:
  "(\<And>r. k (f r) = k r) \<Longrightarrow> map k (update_where p f rows) = map k rows"
  by (simp add: update_where_def)

lemma set_update_where:
  "r \<in> set (update_where p f rows) \<Longrightarrow> \<exists>r0 \<in> set rows. r = (if p r0 then f r0 else r0)"
  by (auto simp: update_where_def)

lemma update_where_id [table_simps]:
  "(\<And>r. r \<in> set rows \<Longrightarrow> p r \<Longrightarrow> f r = r) \<Longrightarrow> update_where p f rows = rows"
  by (simp add: update_where_def map_idI)

lemma filter_update_where_other:
  "(\<And>r. p r \<Longrightarrow> \<not> q r) \<Longrightarrow> (\<And>r. p r \<Longrightarrow> \<not> q (f r)) \<Longrightarrow>
   filter q (update_where p f rows) = filter q rows"
  by (induction rows) (auto simp: update_where_def)

lemma distinct_update_where [table_simps]:
  "(\<And>r. k (f r) = k r) \<Longrightarrow> distinct (map k (update_where p f rows)) = distinct (map k rows)"
  by (simp add: map_update_where)

lemma distinct_delete_where [table_simps]:
  "distinct (map k rows) \<Longrightarrow> distinct (map k (delete_where p rows))"
  by (simp add: delete_where_def distinct_map_filter)

lemma set_delete_where [table_simps, simp]: "set (delete_where p rows) = {r \<in> set rows. \<not> p r}"
  by (auto simp: delete_where_def)

lemma filter_delete_where [table_simps]:
  "filter q (delete_where p rows) = filter (\<lambda>r. q r \<and> \<not> p r) rows"
  by (simp add: delete_where_def conj_commute)

text \<open>A row found by a key that is distinct in the table is the only one.\<close>

lemma filter_key_distinct:
  assumes "distinct (map k rows)" "r \<in> set rows" "k r = v"
  shows "filter (\<lambda>x. k x = v) rows = [r]"
  using assms
proof (induction rows)
  case Nil
  then show ?case by simp
next
  case (Cons a rows)
  show ?case
  proof (cases "a = r")
    case True
    have "filter (\<lambda>x. k x = v) rows = []"
    proof (rule ccontr)
      assume "filter (\<lambda>x. k x = v) rows \<noteq> []"
      then obtain b where "b \<in> set rows" "k b = v"
        by (auto simp: filter_empty_conv)
      then show False using Cons.prems True by force
    qed
    with True Cons.prems show ?thesis by simp
  next
    case False
    then have "r \<in> set rows" using Cons.prems by simp
    then have "k a \<noteq> v" using Cons.prems by force
    with Cons \<open>r \<in> set rows\<close> show ?thesis by simp
  qed
qed

lemma filter_key_length:
  assumes "distinct (map k rows)"
  shows "length (filter (\<lambda>x. k x = v) rows) \<le> 1"
proof (cases "filter (\<lambda>x. k x = v) rows")
  case Nil
  then show ?thesis by simp
next
  case (Cons r rs)
  then have "r \<in> set (filter (\<lambda>x. k x = v) rows)" by simp
  then have "r \<in> set rows" "k r = v" by auto
  then show ?thesis using filter_key_distinct [OF assms] by fastforce
qed

text \<open>Sorting and searching commute with a map that keeps what they look at.\<close>

lemma filter_update_where_same:
  "(\<And>r. q (f r) = q r) \<Longrightarrow> filter q (update_where q f rows) = map f (filter q rows)"
  by (induction rows) (auto simp: update_where_def)

lemma distinct_map_sort_key: "distinct (map f (sort_key k xs)) = distinct (map f xs)"
  by (simp add: distinct_map)

lemma insort_key_map: "(\<And>x. k (f x) = k x) \<Longrightarrow> insort_key k (f x) (map f xs) = map f (insort_key k x xs)"
  by (induction xs) simp_all

lemma sort_key_map: "(\<And>x. k (f x) = k x) \<Longrightarrow> sort_key k (map f xs) = map f (sort_key k xs)"
  by (induction xs) (simp_all add: insort_key_map)

lemma find_map: "find p (map f xs) = map_option f (find (\<lambda>x. p (f x)) xs)"
  by (induction xs) simp_all

end
