(* ===== verification/PyStd.thy ===== *)
theory PyStd
  imports Prelude
begin

section \<open>The parts of Python's standard library the services rely on\<close>

text \<open>
  UUIDs (\<^verbatim>\<open>uuid.UUID\<close>, their canonical rendering and the parser of the constructor), UTC
  datetimes as microseconds since the epoch with \<^verbatim>\<open>isoformat\<close>, \<^verbatim>\<open>decimal.Decimal\<close> with its
  rendering and rounding, and the fixed-point formatting of numbers.

  A \<^verbatim>\<open>float\<close> of the program is a rational number here: the rounding of IEEE arithmetic is
  not modelled.
\<close>

subsection \<open>UUIDs\<close>

type_synonym uuid = "128 word"

definition hex_char :: "nat \<Rightarrow> char" where
  "hex_char d = (if d < 10 then char_of (48 + d) else char_of (87 + d))"

definition hex_val :: "char \<Rightarrow> nat option" where
  "hex_val c = (let n = (of_char c :: nat) in
     if 48 \<le> n \<and> n \<le> 57 then Some (n - 48)
     else if 97 \<le> n \<and> n \<le> 102 then Some (n - 87)
     else if 65 \<le> n \<and> n \<le> 70 then Some (n - 55)
     else None)"

primrec hex_fixed :: "nat \<Rightarrow> int \<Rightarrow> string" where
  "hex_fixed 0 n = []"
| "hex_fixed (Suc k) n = hex_fixed k (n div 16) @ [hex_char (nat (n mod 16))]"

text \<open>\<^verbatim>\<open>str(u)\<close>: 32 lower-case hexadecimal digits in groups of 8, 4, 4, 4 and 12.\<close>

definition dashed :: "string \<Rightarrow> string" where
  "dashed h = take 8 h @ ''-'' @ take 4 (drop 8 h) @ ''-'' @ take 4 (drop 12 h) @ ''-'' @
     take 4 (drop 16 h) @ ''-'' @ drop 20 h"

definition uuid_str :: "uuid \<Rightarrow> string" where
  "uuid_str u = dashed (hex_fixed 32 (uint u))"

text \<open>
  \<^verbatim>\<open>int(s, 16)\<close> on a string with no minus sign: surrounding space, a plus sign, the prefix
  \<^verbatim>\<open>0x\<close> and single underscores between digits are accepted.
\<close>

fun hex_num :: "int \<Rightarrow> string \<Rightarrow> int option" where
  "hex_num acc [] = Some acc"
| "hex_num acc [c] =
     (case hex_val c of None \<Rightarrow> None | Some v \<Rightarrow> Some (16 * acc + int v))"
| "hex_num acc (c # d # cs) =
     (if c = CHR ''_'' then
        (case hex_val d of None \<Rightarrow> None | Some v \<Rightarrow> hex_num (16 * acc + int v) cs)
      else
        (case hex_val c of None \<Rightarrow> None | Some v \<Rightarrow> hex_num (16 * acc + int v) (d # cs)))"

definition hex_int :: "string \<Rightarrow> int option" where
  "hex_int s =
     (let t = strip s;
          t = (if starts_with t ''+'' then tl t else t);
          p = starts_with t ''0x'' \<or> starts_with t ''0X'';
          t = (if p then drop 2 t else t);
          t = (if p \<and> starts_with t ''_'' then tl t else t)
      in case t of [] \<Rightarrow> None
         | c # cs \<Rightarrow> (case hex_val c of None \<Rightarrow> None | Some v \<Rightarrow> hex_num (int v) cs))"

function remove_sub :: "string \<Rightarrow> string \<Rightarrow> string" where
  "remove_sub p [] = []"
| "remove_sub p (c # cs) =
     (if p \<noteq> [] \<and> take (length p) (c # cs) = p then remove_sub p (drop (length p) (c # cs))
      else c # remove_sub p cs)"
  by pat_completeness auto
termination
  by (relation "measure (\<lambda>(p, s). length s)") auto

definition strip_braces :: "string \<Rightarrow> string" where
  "strip_braces s =
     (let brace = (\<lambda>c. c = CHR ''{'' \<or> c = CHR ''}'')
      in rev (dropWhile brace (rev (dropWhile brace s))))"

text \<open>\<^verbatim>\<open>uuid.UUID(s)\<close>; \<open>None\<close> is its \<^verbatim>\<open>ValueError\<close>.\<close>

definition uuid_parse :: "string \<Rightarrow> uuid option" where
  "uuid_parse s =
     (let h = filter (\<lambda>c. c \<noteq> CHR ''-'') (strip_braces (remove_sub ''uuid:'' (remove_sub ''urn:'' s)))
      in if length h \<noteq> 32 then None
         else case hex_int h of
             None \<Rightarrow> None
           | Some n \<Rightarrow> if n < 2 ^ 128 then Some (word_of_int n) else None)"

lemma of_char_hex_char:
  "d < 16 \<Longrightarrow> (of_char (hex_char d) :: nat) = (if d < 10 then 48 + d else 87 + d)"
  by (simp add: hex_char_def of_char_of)

lemma hex_val_hex_char: "d < 16 \<Longrightarrow> hex_val (hex_char d) = Some d"
  by (simp add: hex_val_def of_char_hex_char)

definition is_hex :: "char \<Rightarrow> bool" where
  "is_hex c \<longleftrightarrow> (\<exists>d<16. c = hex_char d)"

lemma is_hex_facts:
  assumes "is_hex c"
  shows "c \<noteq> CHR ''-''" "c \<noteq> CHR ''_''" "c \<noteq> CHR ''x''" "c \<noteq> CHR ''X''" "c \<noteq> CHR ''+''"
    "c \<noteq> CHR ''{''" "c \<noteq> CHR ''}''" "c \<noteq> CHR '':''" "\<not> is_space c" "\<exists>v. hex_val c = Some v"
proof -
  obtain d where d: "d < 16" "c = hex_char d" using assms by (auto simp: is_hex_def)
  have n: "(of_char c :: nat) = (if d < 10 then 48 + d else 87 + d)"
    using d of_char_hex_char by simp
  have ne: "c \<noteq> x" if "(of_char x :: nat) \<noteq> (if d < 10 then 48 + d else 87 + d)" for x
    using n that by auto
  show "c \<noteq> CHR ''-''" "c \<noteq> CHR ''_''" "c \<noteq> CHR ''x''" "c \<noteq> CHR ''X''" "c \<noteq> CHR ''+''"
    "c \<noteq> CHR ''{''" "c \<noteq> CHR ''}''" "c \<noteq> CHR '':''"
    by (rule ne; use d in simp)+
  show "\<not> is_space c" using n d(1) by (auto simp: is_space_def Let_def)
  show "\<exists>v. hex_val c = Some v" using d hex_val_hex_char by blast
qed

lemma length_hex_fixed [simp]: "length (hex_fixed k n) = k"
  by (induction k arbitrary: n) auto

lemma hex_fixed_is_hex: "c \<in> set (hex_fixed k n) \<Longrightarrow> is_hex c"
proof (induction k arbitrary: n)
  case (Suc k)
  have "is_hex (hex_char (nat (n mod 16)))"
    unfolding is_hex_def by (rule exI [of _ "nat (n mod 16)"]) auto
  with Suc show ?case by auto
qed simp

lemma hex_num_fold:
  "\<forall>c \<in> set cs. is_hex c \<Longrightarrow> hex_num acc cs = Some (fold (\<lambda>c a. 16 * a + int (the (hex_val c))) cs acc)"
proof (induction acc cs rule: hex_num.induct)
  case (3 acc c d cs)
  obtain v where v: "hex_val c = Some v" and "c \<noteq> CHR ''_''"
    using 3 is_hex_facts by (metis list.set_intros(1))
  with 3 show ?case by simp
qed (auto dest: is_hex_facts(10))

lemma fold_hex_fixed:
  "fold (\<lambda>c a. 16 * a + int (the (hex_val c))) (hex_fixed k n) acc = acc * 16 ^ k + n mod 16 ^ k"
proof (induction k arbitrary: n)
  case 0
  show ?case by simp
next
  case (Suc k)
  have "n mod 16 ^ Suc k = 16 * (n div 16 mod 16 ^ k) + n mod 16"
    by (simp add: zmod_zmult2_eq)
  moreover have "fold (\<lambda>c a. 16 * a + int (the (hex_val c))) (hex_fixed (Suc k) n) acc =
      16 * (acc * 16 ^ k + n div 16 mod 16 ^ k) + n mod 16"
    by (simp add: Suc.IH hex_val_hex_char)
  ultimately show ?case by (simp add: algebra_simps)
qed

lemma hex_int_hex_fixed: "0 < k \<Longrightarrow> hex_int (hex_fixed k n) = Some (n mod 16 ^ k)"
proof -
  assume k: "0 < k"
  let ?h = "hex_fixed k n"
  have all: "\<forall>c \<in> set ?h. is_hex c" using hex_fixed_is_hex by blast
  have "?h \<noteq> []" using k by (metis length_hex_fixed length_greater_0_conv)
  then obtain c cs where h: "?h = c # cs" by (cases ?h) auto
  have hc: "is_hex c" "\<forall>x \<in> set cs. is_hex x" using all h by auto
  have "dropWhile is_space xs = xs" if "\<forall>c \<in> set xs. is_hex c" for xs
    using that is_hex_facts(9) by (cases xs) auto
  then have "strip ?h = ?h" using all by (simp add: strip_def)
  moreover have "\<not> starts_with ?h ''+''" using h hc is_hex_facts(5) by (auto simp: starts_with_def)
  moreover have "\<not> starts_with ?h ''0x''" "\<not> starts_with ?h ''0X''"
    using h hc is_hex_facts(3,4) by (cases cs; auto simp: starts_with_def)+
  moreover obtain v where v: "hex_val c = Some v" using hc is_hex_facts(10) by blast
  ultimately have "hex_int ?h = hex_num (int v) cs" by (simp add: hex_int_def h)
  also have "\<dots> = Some (fold (\<lambda>c a. 16 * a + int (the (hex_val c))) ?h 0)"
    using hc v by (simp add: hex_num_fold h)
  finally show ?thesis by (simp add: fold_hex_fixed)
qed

lemma remove_sub_notin: "x \<in> set p \<Longrightarrow> x \<notin> set s \<Longrightarrow> remove_sub p s = s"
proof (induction p s rule: remove_sub.induct)
  case (2 p c cs)
  have "take (length p) (c # cs) \<noteq> p"
    using "2.prems" by (metis in_set_takeD)
  with 2 show ?case by auto
qed simp

lemma set_dashed: "set (dashed h) \<subseteq> insert (CHR ''-'') (set h)"
  by (auto simp: dashed_def dest: in_set_takeD in_set_dropD)

lemma filter_dashed:
  assumes "\<forall>c \<in> set h. c \<noteq> CHR ''-''" "length h = 32"
  shows "filter (\<lambda>c. c \<noteq> CHR ''-'') (dashed h) = h"
proof -
  have id: "filter (\<lambda>c. c \<noteq> CHR ''-'') (take n (drop m h)) = take n (drop m h)" for n m
    using assms(1) by (auto simp: filter_id_conv dest: in_set_takeD in_set_dropD)
  have id2: "filter (\<lambda>c. c \<noteq> CHR ''-'') (drop m h) = drop m h" for m
    using assms(1) by (auto simp: filter_id_conv dest: in_set_dropD)
  have "take 8 h @ take 4 (drop 8 h) @ take 4 (drop 12 h) @ take 4 (drop 16 h) @ drop 20 h = h"
  proof -
    have s: "take 4 (drop n h) @ drop (n + 4) h = drop n h" for n
      by (metis add.commute append_take_drop_id drop_drop)
    show ?thesis using s [of 8] s [of 12] s [of 16] append_take_drop_id [of 8 h] by simp
  qed
  then show ?thesis
    using id [of 8 0] by (simp add: dashed_def id id2)
qed

lemma strip_braces_id:
  "\<forall>c \<in> set s. c \<noteq> CHR ''{'' \<and> c \<noteq> CHR ''}'' \<Longrightarrow> strip_braces s = s"
proof -
  assume a: "\<forall>c \<in> set s. c \<noteq> CHR ''{'' \<and> c \<noteq> CHR ''}''"
  have "dropWhile (\<lambda>c. c = CHR ''{'' \<or> c = CHR ''}'') xs = xs" if "set xs \<subseteq> set s" for xs
    using a that by (cases xs) auto
  then show ?thesis by (simp add: strip_braces_def)
qed

lemma uuid_parse_str [simp]: "uuid_parse (uuid_str u) = Some u"
proof -
  let ?h = "hex_fixed 32 (uint u)"
  have hex: "\<forall>c \<in> set ?h. is_hex c" using hex_fixed_is_hex by blast
  have ds: "\<forall>c \<in> set (dashed ?h). c = CHR ''-'' \<or> is_hex c" using set_dashed hex by blast
  have nocolon: "CHR '':'' \<notin> set (dashed ?h)" using ds is_hex_facts(8) by force
  have r: "remove_sub ''uuid:'' (remove_sub ''urn:'' (dashed ?h)) = dashed ?h"
    using nocolon by (simp add: remove_sub_notin [where x = "CHR '':''"])
  have b: "strip_braces (dashed ?h) = dashed ?h"
    using ds is_hex_facts(6,7) by (intro strip_braces_id) force
  have f: "filter (\<lambda>c. c \<noteq> CHR ''-'') (dashed ?h) = ?h"
    using hex is_hex_facts(1) by (intro filter_dashed) auto
  have lt: "0 \<le> uint u" "uint u < 2 ^ 128" using unsigned_greater_eq [of u] unsigned_less [of u] by simp_all
  then have "hex_int ?h = Some (uint u)" by (simp add: hex_int_hex_fixed)
  with r b f lt show ?thesis by (simp add: uuid_parse_def uuid_str_def)
qed

lemma uuid_str_inject [simp]: "uuid_str u = uuid_str v \<longleftrightarrow> u = v"
  by (metis option.inject uuid_parse_str)

lemma length_uuid_str [simp]: "length (uuid_str u) = 36"
  by (simp add: uuid_str_def dashed_def)

lemma uuid_str_nonempty [simp]: "uuid_str u \<noteq> ''''"
  using length_uuid_str [of u] by (metis list.size(3) zero_neq_numeral)

text \<open>Keys built from a fixed prefix, a UUID and a tail are determined by the two parts.\<close>

lemma uuid_key_inject [simp]:
  "p @ uuid_str u @ x = p @ uuid_str v @ y \<longleftrightarrow> u = v \<and> x = y"
  by (simp add: append_eq_append_conv)

subsection \<open>Datetimes\<close>

text \<open>A timezone-aware UTC datetime is the number of microseconds since 1970-01-01T00:00Z.\<close>

type_synonym datetime = int

definition seconds :: "int \<Rightarrow> int" where "seconds n = n * 1000000"
definition minutes :: "int \<Rightarrow> int" where "minutes n = seconds (n * 60)"
definition days :: "int \<Rightarrow> int" where "days n = seconds (n * 86400)"

text \<open>\<^verbatim>\<open>len\<close> of a string: its code points, which in UTF-8 are the bytes that continue none.\<close>

definition char_count :: "string \<Rightarrow> nat" where
  "char_count s = length (filter (\<lambda>c. \<not> (128 \<le> (of_char c :: nat) \<and> (of_char c :: nat) < 192)) s)"

definition dt_second :: "datetime \<Rightarrow> int" where "dt_second t = (t div 1000000) mod 60"
definition dt_minute :: "datetime \<Rightarrow> int" where "dt_minute t = (t div 60000000) mod 60"
definition dt_hour :: "datetime \<Rightarrow> int" where "dt_hour t = (t div 3600000000) mod 24"
definition dt_micro :: "datetime \<Rightarrow> int" where "dt_micro t = t mod 1000000"

text \<open>Year, month and day of the proleptic Gregorian calendar from a day number.\<close>

definition civil_from_days :: "int \<Rightarrow> int \<times> int \<times> int" where
  "civil_from_days z0 =
     (let z = z0 + 719468;
          era = z div 146097;
          doe = z - era * 146097;
          yoe = (doe - doe div 1460 + doe div 36524 - doe div 146096) div 365;
          doy = doe - (365 * yoe + yoe div 4 - yoe div 100);
          mp = (5 * doy + 2) div 153;
          d = doy - (153 * mp + 2) div 5 + 1;
          m = (if mp < 10 then mp + 3 else mp - 9);
          y = yoe + era * 400 + (if m \<le> 2 then 1 else 0)
      in (y, m, d))"

definition pad_int :: "nat \<Rightarrow> int \<Rightarrow> string" where
  "pad_int w i = (let s = int_str i in replicate (w - length s) (CHR ''0'') @ s)"

definition isoformat :: "datetime \<Rightarrow> string" where
  "isoformat t =
     (case civil_from_days (t div 86400000000) of (y, m, d) \<Rightarrow>
        pad_int 4 y @ ''-'' @ pad_int 2 m @ ''-'' @ pad_int 2 d @ ''T'' @
        pad_int 2 (dt_hour t) @ '':'' @ pad_int 2 (dt_minute t) @ '':'' @ pad_int 2 (dt_second t) @
        (if dt_micro t = 0 then '''' else ''.'' @ pad_int 6 (dt_micro t)) @ ''+00:00'')"

subsection \<open>Decimals and rounding\<close>

text \<open>A finite \<^verbatim>\<open>Decimal\<close>: \<open>Dec c s\<close> is \<open>c / 10 ^ s\<close> with \<open>s\<close> digits after the point.\<close>

datatype decimal = Dec (dec_coeff: int) (dec_scale: nat)

definition dec_val :: "decimal \<Rightarrow> rat" where
  "dec_val d = of_int (dec_coeff d) / 10 ^ dec_scale d"

definition decimal_str :: "decimal \<Rightarrow> string" where
  "decimal_str x =
     (let digits = nat_str (nat \<bar>dec_coeff x\<bar>);
          left = int (length digits) - int (dec_scale x);
          place = (if left > -6 then left else 1);
          body = (if place \<le> 0 then ''0.'' @ replicate (nat (- place)) (CHR ''0'') @ digits
                  else if nat place \<ge> length digits
                  then digits @ replicate (nat place - length digits) (CHR ''0'')
                  else take (nat place) digits @ ''.'' @ drop (nat place) digits);
          expo = (if left = place then '''' else ''E'' @ int_str (left - place))
      in (if dec_coeff x < 0 then ''-'' else '''') @ body @ expo)"

text \<open>\<^verbatim>\<open>quantize(.., ROUND_HALF_UP)\<close>: half away from zero.\<close>

definition round_half_up :: "rat \<Rightarrow> int" where
  "round_half_up q = (if 0 \<le> q then \<lfloor>q + 1/2\<rfloor> else - \<lfloor>- q + 1/2\<rfloor>)"

definition round_half_even :: "rat \<Rightarrow> int" where
  "round_half_even q =
     (let f = \<lfloor>q\<rfloor>; r = q - of_int f
      in if r < 1/2 then f else if r > 1/2 then f + 1 else if even f then f else f + 1)"

text \<open>\<^verbatim>\<open>f"{q:.nf}"\<close> for \<open>n > 0\<close>.\<close>

definition fmt_fixed :: "nat \<Rightarrow> rat \<Rightarrow> string" where
  "fmt_fixed n q =
     (let i = round_half_even (q * 10 ^ n);
          a = nat \<bar>i\<bar>
      in (if q < 0 then ''-'' else '''') @ nat_str (a div 10 ^ n) @ ''.'' @
         pad_int n (int (a mod 10 ^ n)))"

text \<open>\<^verbatim>\<open>str(list)\<close> of plain words.\<close>

definition list_repr :: "string list \<Rightarrow> string" where
  "list_repr xs = ''['' @ join '', '' (map quoted xs) @ '']''"

end
