(* ===== verification/Models.thy ===== *)
theory Models
  imports PyStd
begin

section \<open>The database: rows, tables, the session, the outside world\<close>

text \<open>
  One record per class of \<^verbatim>\<open>api/database/models.py\<close> that the modelled services read or
  write, and the record \<open>db\<close> of the tables they live in. A column keeps its name behind a
  prefix for its table, because record fields are global. The columns \<^verbatim>\<open>created_at\<close> and
  \<^verbatim>\<open>updated_at\<close> are kept only where some service reads them. Relationship attributes
  (\<^verbatim>\<open>record.customer.user\<close>) are queries.

  \<open>db\<close> also holds the clock, which is constant during one operation, and the number of
  random draws made so far. What is not under \<^verbatim>\<open>src/\<close> (hash functions, JWT, Jinja, the HTTP
  services behind the geocoder, e-mail, SMS) is a field of \<open>env\<close>, an argument of the
  operations that use it.
\<close>

subsection \<open>Identity and access\<close>

record role =
  role_id :: uuid
  role_slug :: string
  role_display_name :: string

record user_role =
  ur_user_id :: uuid
  ur_role_id :: uuid
  ur_granted_at :: datetime
  ur_granted_by :: "uuid option"

record user =
  usr_id :: uuid
  usr_email :: string
  usr_password_hash :: "string option"
  usr_first_name :: string
  usr_last_name :: string
  usr_role_id :: uuid
  usr_status :: string
  usr_totp_secret_enc :: "string option"
  usr_totp_enabled :: bool
  usr_tos_accepted_at :: "datetime option"
  usr_tos_version :: "string option"
  usr_privacy_accepted_at :: "datetime option"
  usr_privacy_version :: "string option"
  usr_failed_login_count :: int
  usr_locked_until :: "datetime option"
  usr_google_id :: "string option"
  usr_profile_photo_url :: "string option"
  usr_deletion_requested_at :: "datetime option"
  usr_deletion_grace_until :: "datetime option"
  usr_created_at :: datetime

record user_session =
  ses_id :: uuid
  ses_user_id :: uuid
  ses_token_hash :: string
  ses_expires_at :: datetime
  ses_revoked_at :: "datetime option"
  ses_ip_address :: "string option"
  ses_user_agent :: "string option"

record recovery_code =
  rc_id :: uuid
  rc_user_id :: uuid
  rc_code_hash :: string
  rc_used_at :: "datetime option"

record consent_version =
  cv_id :: uuid
  cv_user_id :: uuid
  cv_consent_type :: string
  cv_version :: string
  cv_accepted_at :: datetime
  cv_ip_address :: "string option"
  cv_user_agent :: "string option"

record known_device =
  kd_id :: uuid
  kd_user_id :: uuid
  kd_fingerprint :: string

subsection \<open>Notifications\<close>

record device_token =
  dt_id :: uuid
  dt_user_id :: uuid
  dt_platform :: string
  dt_token :: string
  dt_environment :: string
  dt_last_seen_at :: datetime
  dt_deleted_at :: "datetime option"

record integration_credential =
  ic_name :: string
  ic_encrypted_value :: string
  ic_set_by :: "uuid option"
  ic_set_at :: datetime
  ic_last_tested_at :: "datetime option"
  ic_last_test_status :: "string option"
  ic_last_test_detail :: "string option"
  ic_last_test_latency_ms :: "int option"

record notification_preference =
  pref_id :: uuid
  pref_user_id :: uuid
  pref_channel :: string
  pref_slack_user_id :: "string option"
  pref_phone_number :: "string option"

record notification_job =
  job_id :: uuid
  job_idempotency_key :: string
  job_user_id :: "uuid option"
  job_channel :: string
  job_template :: string
  job_payload :: "(string \<times> json) list"
  job_status :: string
  job_attempts :: int
  job_max_attempts :: int
  job_scheduled_for :: datetime
  job_processed_at :: "datetime option"
  job_last_error :: "string option"

record template_override =
  ov_name :: string
  ov_subject_md :: "string option"
  ov_body_md :: string

record rate_limit_counter =
  rlc_id :: uuid
  rlc_key :: string
  rlc_window_start :: datetime
  rlc_count :: int

subsection \<open>Customers, equipment, appraisals\<close>

record customer =
  cus_id :: uuid
  cus_user_id :: "uuid option"
  cus_invite_email :: "string option"
  cus_business_name :: "string option"
  cus_submitter_name :: string
  cus_title :: "string option"
  cus_address_street :: "string option"
  cus_address_city :: "string option"
  cus_address_state :: "string option"
  cus_address_zip :: "string option"
  cus_business_phone :: "string option"
  cus_business_phone_ext :: "string option"
  cus_cell_phone :: "string option"
  cus_communication_prefs :: "json option"
  cus_created_at :: datetime
  cus_deleted_at :: "datetime option"

record equipment_record =
  er_id :: uuid
  er_customer_id :: uuid
  er_status :: string
  er_reference_number :: "string option"
  er_category_id :: "uuid option"
  er_customer_make :: "string option"
  er_customer_model :: "string option"
  er_customer_year :: "int option"
  er_customer_serial_number :: "string option"
  er_customer_hours :: "int option"
  er_customer_running_status :: "string option"
  er_customer_ownership_type :: "string option"
  er_customer_location_text :: "string option"
  er_customer_description :: "string option"
  er_customer_submitted_at :: "datetime option"
  er_assigned_sales_rep_id :: "uuid option"
  er_assigned_appraiser_id :: "uuid option"
  er_created_at :: datetime
  er_deleted_at :: "datetime option"

record status_event =
  ev_id :: uuid
  ev_equipment_record_id :: uuid
  ev_from_status :: "string option"
  ev_to_status :: string
  ev_changed_by :: "uuid option"
  ev_note :: "string option"
  ev_created_at :: datetime

record intake_photo =
  ip_id :: uuid
  ip_equipment_record_id :: uuid
  ip_storage_key :: string
  ip_caption :: "string option"
  ip_display_order :: int
  ip_uploaded_at :: datetime
  ip_scan_status :: string
  ip_content_type :: "string option"
  ip_sha256 :: "string option"

text \<open>The category tables; a row is current while \<^verbatim>\<open>replaced_at\<close> is null.\<close>

record category =
  cat_id :: uuid
  cat_name :: string
  cat_slug :: string
  cat_status :: string
  cat_display_order :: int
  cat_created_by :: "uuid option"
  cat_deleted_at :: "datetime option"
  cat_version :: int
  cat_replaced_at :: "datetime option"

record category_component =
  cc_id :: uuid
  cc_category_id :: uuid
  cc_name :: string
  cc_weight_pct :: decimal
  cc_display_order :: int
  cc_active :: bool

record inspection_prompt =
  ipr_id :: uuid
  ipr_category_id :: uuid
  ipr_label :: string
  ipr_response_type :: string
  ipr_required :: bool
  ipr_display_order :: int
  ipr_active :: bool
  ipr_version :: int
  ipr_replaced_at :: "datetime option"

record category_attachment =
  cat_at_id :: uuid
  cat_at_category_id :: uuid
  cat_at_label :: string
  cat_at_description :: "string option"
  cat_at_display_order :: int
  cat_at_active :: bool

record photo_slot =
  slot_id :: uuid
  slot_category_id :: uuid
  slot_label :: string
  slot_helper_text :: "string option"
  slot_required :: bool
  slot_display_order :: int
  slot_active :: bool

record appraisal_submission =
  sub_id :: uuid
  sub_equipment_record_id :: uuid
  sub_appraiser_id :: "uuid option"
  sub_status :: string
  sub_category_id :: "uuid option"
  sub_category_version :: "int option"
  sub_prompt_version_set :: "json option"
  sub_rule_version_set :: "json option"
  sub_make :: "string option"
  sub_model :: "string option"
  sub_year :: "int option"
  sub_hours_condition :: "string option"
  sub_running_status :: "string option"
  sub_serial_number :: "string option"
  sub_title_status :: "string option"
  sub_overall_score :: "decimal option"
  sub_score_band :: "string option"
  sub_management_review_required :: bool
  sub_hold_for_title_review :: bool
  sub_marketability_rating :: "string option"
  sub_review_notes :: "string option"
  sub_transport_notes :: "string option"
  sub_listing_notes :: "string option"
  sub_approved_purchase_offer :: "decimal option"
  sub_suggested_consignment_price :: "decimal option"
  sub_rejection_notes :: "string option"
  sub_approved_by_id :: "uuid option"
  sub_approved_at :: "datetime option"
  sub_red_flags :: "json option"
  sub_comparable_sales_data :: "json option"
  sub_field_values :: "json option"
  sub_submitted_at :: "datetime option"
  sub_created_at :: datetime
  sub_deleted_at :: "datetime option"

record red_flag_rule =
  rf_id :: uuid
  rf_category_id :: uuid
  rf_label :: string
  rf_condition_field :: string
  rf_condition_operator :: string
  rf_condition_value :: "string option"
  rf_actions :: "(string \<times> json) list"
  rf_active :: bool
  rf_version :: int
  rf_replaced_at :: "datetime option"

record appraisal_photo =
  aph_id :: uuid
  aph_submission_id :: uuid
  aph_slot_label :: string
  aph_gcs_path :: string
  aph_capture_timestamp :: "datetime option"
  aph_gps_latitude :: "rat option"
  aph_gps_longitude :: "rat option"
  aph_gps_missing :: bool
  aph_gps_out_of_range :: bool
  aph_file_size_bytes :: "int option"
  aph_sha256 :: "string option"
  aph_content_type :: "string option"
  aph_gps_timestamp :: "datetime option"
  aph_created_at :: datetime
  aph_deleted_at :: "datetime option"

record component_score =
  cs_id :: uuid
  cs_submission_id :: uuid
  cs_component_id :: uuid
  cs_raw_score :: decimal
  cs_weight_at_time_of_scoring :: decimal
  cs_notes :: "string option"

record appraisal_report =
  rep_id :: uuid
  rep_equipment_record_id :: uuid
  rep_submission_id :: "uuid option"
  rep_gcs_path :: string
  rep_generated_at :: datetime

record consignment_contract =
  con_id :: uuid
  con_equipment_record_id :: uuid
  con_envelope_id :: "string option"
  con_status :: string
  con_signed_at :: "datetime option"

record change_request =
  cr_id :: uuid
  cr_equipment_record_id :: uuid
  cr_request_type :: string
  cr_customer_notes :: "string option"
  cr_status :: string
  cr_resolution_notes :: "string option"
  cr_requires_manager_reapproval :: bool
  cr_proposed_consignment_price :: "decimal option"
  cr_submitted_at :: datetime
  cr_resolved_at :: "datetime option"
  cr_resolved_by :: "uuid option"

record public_listing =
  pub_id :: uuid
  pub_equipment_record_id :: uuid
  pub_listing_title :: string
  pub_asking_price :: "decimal option"
  pub_primary_photo_gcs_path :: "string option"
  pub_status :: string
  pub_published_at :: "datetime option"
  pub_sold_at :: "datetime option"

record inquiry =
  inq_id :: uuid
  inq_public_listing_id :: uuid
  inq_first_name :: string
  inq_last_name :: string
  inq_email :: string
  inq_phone :: "string option"
  inq_message :: "string option"
  inq_created_at :: datetime

record comparable_sale =
  cmp_id :: uuid
  cmp_make :: "string option"
  cmp_model :: "string option"
  cmp_year :: "int option"
  cmp_hours :: "int option"
  cmp_sale_price :: "decimal option"
  cmp_sale_date :: "datetime option"
  cmp_source :: "string option"
  cmp_source_url :: "string option"
  cmp_notes :: "string option"
  cmp_category_id :: "uuid option"
  cmp_created_by :: "uuid option"
  cmp_created_at :: datetime
  cmp_deleted_at :: "datetime option"

record record_watcher =
  wat_record_id :: uuid
  wat_user_id :: uuid
  wat_added_by :: "uuid option"
  wat_added_at :: datetime

subsection \<open>Operations\<close>

record routing_rule =
  rule_id :: uuid
  rule_type :: string
  rule_priority :: int
  rule_conditions :: "(string \<times> json) list option"
  rule_assigned_user_id :: "uuid option"
  rule_round_robin_index :: int
  rule_is_active :: bool
  rule_created_by :: "uuid option"
  rule_deleted_at :: "datetime option"

record calendar_event =
  cal_id :: uuid
  cal_equipment_record_id :: uuid
  cal_appraiser_id :: uuid
  cal_scheduled_at :: datetime
  cal_duration_minutes :: int
  cal_site_address :: "string option"
  cal_drive_time_buffer_minutes :: int
  cal_cancelled_at :: "datetime option"

record event_attendee =
  att_event_id :: uuid
  att_user_id :: uuid
  att_role :: string

record drive_time_cache =
  dtc_origin_hash :: string
  dtc_dest_hash :: string
  dtc_duration_seconds :: int
  dtc_fetched_at :: datetime
  dtc_expires_at :: datetime

record geocode_cache =
  gc_address_hash :: string
  gc_lat :: rat
  gc_lon :: rat
  gc_fetched_at :: datetime
  gc_expires_at :: datetime

record record_lock =
  lock_id :: uuid
  lock_record_id :: uuid
  lock_record_type :: string
  lock_locked_by :: uuid
  lock_locked_at :: datetime
  lock_expires_at :: datetime

record audit_log =
  aud_event_type :: string
  aud_actor_id :: "uuid option"
  aud_actor_role :: "string option"
  aud_target_type :: "string option"
  aud_target_id :: "uuid option"
  aud_before_state :: "json option"
  aud_after_state :: "json option"

record app_config =
  cfg_key :: string
  cfg_value :: json

record health_state =
  sh_service_name :: string
  sh_status :: string
  sh_last_checked_at :: "datetime option"
  sh_last_alerted_at :: "datetime option"
  sh_error_detail :: "json option"
  sh_latency_ms :: "int option"

subsection \<open>The session\<close>

record data_export_job =
  dej_id :: uuid
  dej_user_id :: uuid
  dej_status :: string
  dej_requested_at :: datetime
  dej_completed_at :: "datetime option"
  dej_storage_key :: "string option"
  dej_download_url :: "string option"
  dej_url_expires_at :: "datetime option"
  dej_error :: "string option"

record analytics_event =
  ana_id :: uuid
  ana_session_id :: "string option"
  ana_user_id :: "uuid option"
  ana_event_type :: string
  ana_page :: "string option"
  ana_metadata :: "json option"
  ana_created_at :: datetime

record db =
  roles :: "role list"
  user_roles :: "user_role list"
  users :: "user list"
  user_sessions :: "user_session list"
  recovery_codes :: "recovery_code list"
  consent_versions :: "consent_version list"
  known_devices :: "known_device list"
  device_tokens :: "device_token list"
  integration_credentials :: "integration_credential list"
  notification_preferences :: "notification_preference list"
  notification_jobs :: "notification_job list"
  template_overrides :: "template_override list"
  rate_limit_counters :: "rate_limit_counter list"
  customers :: "customer list"
  equipment_records :: "equipment_record list"
  status_events :: "status_event list"
  intake_photos :: "intake_photo list"
  categories :: "category list"
  category_components :: "category_component list"
  inspection_prompts :: "inspection_prompt list"
  category_attachments :: "category_attachment list"
  photo_slots :: "photo_slot list"
  appraisal_submissions :: "appraisal_submission list"
  red_flag_rules :: "red_flag_rule list"
  appraisal_photos :: "appraisal_photo list"
  component_scores :: "component_score list"
  appraisal_reports :: "appraisal_report list"
  consignment_contracts :: "consignment_contract list"
  change_requests :: "change_request list"
  public_listings :: "public_listing list"
  inquiries :: "inquiry list"
  comparable_sales :: "comparable_sale list"
  watchers :: "record_watcher list"
  routing_rules :: "routing_rule list"
  calendar_events :: "calendar_event list"
  event_attendees :: "event_attendee list"
  drive_times :: "drive_time_cache list"
  geocodes :: "geocode_cache list"
  record_locks :: "record_lock list"
  audit_logs :: "audit_log list"
  app_configs :: "app_config list"
  health_states :: "health_state list"
  data_export_jobs :: "data_export_job list"
  analytics_events :: "analytics_event list"
  outbox :: "(string \<times> json) list list"
  clock :: datetime
  draws :: nat

text \<open>
  \<open>outbox\<close> is what left the system: one entry per message handed to the mail, SMS, push or
  chat provider.
\<close>

definition empty_db :: db where
  "empty_db = \<lparr>roles = [], user_roles = [], users = [], user_sessions = [], recovery_codes = [],
     consent_versions = [],
     known_devices = [], device_tokens = [], integration_credentials = [],
     notification_preferences = [], notification_jobs = [],
     template_overrides = [], rate_limit_counters = [], customers = [], equipment_records = [],
     status_events = [],
     intake_photos = [],
     categories = [],
     category_components = [],
     inspection_prompts = [],
     category_attachments = [],
     photo_slots = [], appraisal_submissions = [], red_flag_rules = [],
     appraisal_photos = [],
     component_scores = [], appraisal_reports = [],
     consignment_contracts = [], change_requests = [], public_listings = [],
     inquiries = [],
     comparable_sales = [], watchers = [],
     routing_rules = [], calendar_events = [],
     event_attendees = [],
     drive_times = [],
     geocodes = [], record_locks = [], audit_logs = [],
     app_configs = [],
     health_states = [], data_export_jobs = [], analytics_events = [], outbox = [], clock = 0, draws = 0\<rparr>"

record lock_info =
  li_record_id :: uuid
  li_record_type :: string
  li_locked_by :: uuid
  li_locked_at :: datetime
  li_expires_at :: datetime

datatype exn =
    HTTPException nat string "(string \<times> string) list"
  | LookupError string
  | ValueError string
  | TypeError string
  | KeyError string
  | RuntimeError string
  | UndefinedError
  | IntegrityError string
  | MultipleResultsFound
  | NoResultFound
  | LockHeldError lock_info
  | LockExpiredError string
  | InvalidTokenError string
  | VaultDecryptError
  | FernetInvalidToken
  | TransientSlackError string
  | PermanentSlackError string
  | TransientAPNsError string
  | JSONDecodeError
  | AttributeError string
  | DataError string
  | SendError string
  | PermissionError string
  | ValidationError
  | StepUpFailed string
  | StepUpRateLimited string
  | UnknownIntegration string
  | CredentialNotFound string
  | ReportDataIncompleteError string

abbreviation http :: "nat \<Rightarrow> string \<Rightarrow> exn" where
  "http code detail \<equiv> HTTPException code detail []"

type_synonym 'a op = "(db, exn, 'a) prog"

record env =
  sha256_hex :: "string \<Rightarrow> string"
  hmac_sha256_hex :: "string \<Rightarrow> string \<Rightarrow> string"
  bcrypt_hash :: "nat \<Rightarrow> string \<Rightarrow> string"
  bcrypt_check :: "string \<Rightarrow> string \<Rightarrow> bool"
  jwt_encode :: "(string \<times> json) list \<Rightarrow> string"
  jwt_decode :: "datetime \<Rightarrow> string \<Rightarrow> (string \<times> json) list option"
  fernet_valid_key :: "string \<Rightarrow> bool"
  fernet_encrypt :: "string \<Rightarrow> nat \<Rightarrow> string \<Rightarrow> string"
  fernet_decrypt :: "string \<Rightarrow> string \<Rightarrow> string option"
  totp_verify :: "string \<Rightarrow> string \<Rightarrow> datetime \<Rightarrow> bool"
  totp_uri :: "string \<Rightarrow> string \<Rightarrow> string"
  jinja_render :: "bool \<Rightarrow> string \<Rightarrow> (string \<times> json) list \<Rightarrow> string option"
  random_uuid :: "nat \<Rightarrow> uuid"
  random_hex :: "nat \<Rightarrow> nat \<Rightarrow> string"
  random_base32 :: "nat \<Rightarrow> string"
  json_repr :: "json \<Rightarrow> string"
  json_loads :: "string \<Rightarrow> json option"
  bleach_plain :: "string \<Rightarrow> string"
  bleach_html :: "string \<Rightarrow> string"
  twilio_send :: "string \<Rightarrow> string \<Rightarrow> string option"
  slack_post :: "string \<Rightarrow> (string \<times> json) list \<Rightarrow> string + nat \<times> string"
  apns_jwt :: "(string \<times> json) list \<Rightarrow> json \<Rightarrow> json \<Rightarrow> string option"
  apns_post :: "string \<Rightarrow> (string \<times> string) list \<Rightarrow> (string \<times> json) list \<Rightarrow>
     string + nat \<times> string"
  google_get :: "string \<Rightarrow> (string \<times> string) list \<Rightarrow> json option"
  pydantic_uuid :: "string \<Rightarrow> uuid option"
  pydantic_float :: "json \<Rightarrow> rat option"
  pydantic_bool :: "json \<Rightarrow> bool option"
  presign :: "(string \<times> json) list \<Rightarrow> string"
  random_text :: "nat \<Rightarrow> string \<Rightarrow> nat \<Rightarrow> string"
  http_send :: "string \<Rightarrow> string \<Rightarrow> (string \<times> json) list \<Rightarrow> string + nat \<times> string"
  elapsed_ms :: "nat \<Rightarrow> int"
  json_dumps :: "json \<Rightarrow> string"
  json_dumps_indent :: "json \<Rightarrow> string"
  zip_files :: "(string \<times> string) list \<Rightarrow> string"
  object_put :: "string \<Rightarrow> string \<Rightarrow> string \<Rightarrow> string option"
  bucket_head :: "string \<Rightarrow> string option"
  cfg_refresh_token_days :: int
  cfg_access_token_minutes :: int
  cfg_twilio_sid :: string
  cfg_sales_ops_email :: string
  cfg_webhook_secret :: string
  cfg_totp_encryption_key :: string
  cfg_totp_encryption_keys :: string
  cfg_credentials_encryption_key :: string
  cfg_google_maps_api_key :: string
  cfg_r2_access_key_id :: string
  cfg_r2_secret_access_key :: string
  cfg_r2_bucket_photos :: string
  cfg_r2_bucket_reports :: string
  cfg_frontend_url :: string
  cfg_is_production :: bool
  cfg_slack_staging_channel :: string

text \<open>\<^verbatim>\<open>str(value)\<close> of a JSON value.\<close>

fun py_str :: "env \<Rightarrow> json \<Rightarrow> string" where
  "py_str E JNull = ''None''"
| "py_str E (JBool b) = (if b then ''True'' else ''False'')"
| "py_str E (JInt i) = int_str i"
| "py_str E (JStr s) = s"
| "py_str E v = json_repr E v"

subsection \<open>Session primitives\<close>

text \<open>\<^verbatim>\<open>scalar_one_or_none()\<close>, \<^verbatim>\<open>scalar_one()\<close> and \<^verbatim>\<open>first()\<close> on the rows of a result.\<close>

fun scalar_one_or_none :: "'r list \<Rightarrow> 'r option op" where
  "scalar_one_or_none [] = ret None"
| "scalar_one_or_none [r] = ret (Some r)"
| "scalar_one_or_none (r # r' # rs) = raise MultipleResultsFound"

fun scalar_one :: "'r list \<Rightarrow> 'r op" where
  "scalar_one [] = raise NoResultFound"
| "scalar_one [r] = ret r"
| "scalar_one (r # r' # rs) = raise MultipleResultsFound"

definition select_one :: "(db \<Rightarrow> 'r list) \<Rightarrow> ('r \<Rightarrow> bool) \<Rightarrow> 'r option op" where
  "select_one tbl p = bind (reads (\<lambda>s. filter p (tbl s))) scalar_one_or_none"

text \<open>\<^verbatim>\<open>db.get(Row, id)\<close>: the row of a primary key.\<close>

definition get_row :: "(db \<Rightarrow> 'r list) \<Rightarrow> ('r \<Rightarrow> uuid) \<Rightarrow> uuid \<Rightarrow> 'r option op" where
  "get_row tbl key i = reads (\<lambda>s. find (\<lambda>r. key r = i) (tbl s))"

definition now :: "datetime op" where "now = reads clock"

definition uuid4 :: "env \<Rightarrow> uuid op" where
  "uuid4 E = (\<lambda>s. (Inr (random_uuid E (draws s)), s\<lparr>draws := Suc (draws s)\<rparr>))"

definition token_hex :: "env \<Rightarrow> nat \<Rightarrow> string op" where
  "token_hex E n = (\<lambda>s. (Inr (random_hex E (draws s) n), s\<lparr>draws := Suc (draws s)\<rparr>))"

definition random_string :: "env \<Rightarrow> string \<Rightarrow> nat \<Rightarrow> string op" where
  "random_string E alphabet n =
     (\<lambda>s. (Inr (random_text E (draws s) alphabet n), s\<lparr>draws := Suc (draws s)\<rparr>))"

text \<open>The milliseconds between two readings of the performance counter.\<close>

definition perf_ms :: "env \<Rightarrow> int op" where
  "perf_ms E = (\<lambda>s. (Inr (elapsed_ms E (draws s)), s\<lparr>draws := Suc (draws s)\<rparr>))"

definition add_audit :: "audit_log \<Rightarrow> unit op" where
  "add_audit a = writes (\<lambda>s. s\<lparr>audit_logs := audit_logs s @ [a]\<rparr>)"

text \<open>
  The dependency \<^verbatim>\<open>get_db\<close> of every route: one transaction per request, committed when the
  handler returns and rolled back when it raises anything at all.
\<close>

definition get_db :: "'a op \<Rightarrow> 'a op" where
  "get_db handler = atomically handler"

lemma select_one_run [run_simps]:
  "select_one tbl p s =
     (case filter p (tbl s) of [] \<Rightarrow> (Inr None, s) | [r] \<Rightarrow> (Inr (Some r), s)
      | _ \<Rightarrow> (Inl MultipleResultsFound, s))"
  by (cases "filter p (tbl s)" rule: scalar_one_or_none.cases) (auto simp: select_one_def bind_run)

lemma scalar_one_or_none_pure: "scalar_one_or_none rs s = (r, t) \<Longrightarrow> t = s"
  by (cases rs rule: scalar_one_or_none.cases) auto

lemma scalar_one_pure: "scalar_one rs s = (r, t) \<Longrightarrow> t = s"
  by (cases rs rule: scalar_one.cases) auto

lemma scalar_one_return_iff: "scalar_one rs s = (Inr x, t) \<longleftrightarrow> rs = [x] \<and> t = s"
  by (cases rs rule: scalar_one.cases) auto

lemma select_one_return_iff:
  "select_one tbl p s = (Inr x, t) \<longleftrightarrow>
     t = s \<and> (case x of None \<Rightarrow> filter p (tbl s) = [] | Some r \<Rightarrow> filter p (tbl s) = [r])"
  by (cases "filter p (tbl s)" rule: scalar_one_or_none.cases)
    (auto simp: select_one_run split: option.splits)

lemma select_one_SomeD:
  "select_one tbl p s = (Inr (Some r), t) \<Longrightarrow> t = s \<and> r \<in> set (tbl s) \<and> p r"
  by (auto simp: select_one_return_iff filter_eq_Cons_iff)

lemma safe_select_one:
  assumes "\<And>s. I s \<Longrightarrow> length (filter p (tbl s)) \<le> 1"
  shows "safe I (select_one tbl p)"
  unfolding safe_def
proof (intro allI impI)
  fix s assume "I s"
  with assms [OF this] show "\<exists>x t. select_one tbl p s = (Inr x, t) \<and> I t"
    by (cases "filter p (tbl s)") (auto simp: select_one_run split: list.splits)
qed

lemma get_row_run [run_simps]: "get_row tbl key i s = (Inr (find (\<lambda>r. key r = i) (tbl s)), s)"
  by (simp add: get_row_def)

lemma find_SomeD: "find p xs = Some x \<Longrightarrow> x \<in> set xs \<and> p x"
  by (induction xs) (auto split: if_splits)

lemma find_key_distinct:
  "distinct (map k xs) \<Longrightarrow> x \<in> set xs \<Longrightarrow> find (\<lambda>r. k r = k x) xs = Some x"
proof (induction xs)
  case (Cons a xs)
  then show ?case by (cases "a = x") (auto simp: image_iff)
qed simp

lemma uuid4_run [run_simps]:
  "uuid4 E s = (Inr (random_uuid E (draws s)), s\<lparr>draws := Suc (draws s)\<rparr>)"
  by (simp add: uuid4_def)

lemma token_hex_run [run_simps]:
  "token_hex E n s = (Inr (random_hex E (draws s) n), s\<lparr>draws := Suc (draws s)\<rparr>)"
  by (simp add: token_hex_def)

lemma random_string_run [run_simps]:
  "random_string E a n s = (Inr (random_text E (draws s) a n), s\<lparr>draws := Suc (draws s)\<rparr>)"
  by (simp add: random_string_def)

lemma perf_ms_run [run_simps]:
  "perf_ms E s = (Inr (elapsed_ms E (draws s)), s\<lparr>draws := Suc (draws s)\<rparr>)"
  by (simp add: perf_ms_def)

lemma now_run [run_simps]: "now s = (Inr (clock s), s)"
  by (simp add: now_def)

lemma add_audit_run [run_simps]:
  "add_audit a s = (Inr (), s\<lparr>audit_logs := audit_logs s @ [a]\<rparr>)"
  by (simp add: add_audit_def)

lemma get_db_raise: "fst (get_db h s) = Inl e \<Longrightarrow> snd (get_db h s) = s"
  unfolding get_db_def by (rule atomically_raise)

text \<open>
  The composition rules for relations on the session: every such relation admits the reads,
  and the random draws too when it does not look at their counter.
\<close>

locale db_relation = step_relation R for R :: "db \<Rightarrow> db \<Rightarrow> bool" +
  assumes R_draws: "R s (s\<lparr>draws := n\<rparr>)"
begin

lemma confined_scalar_one_or_none: "confined R (scalar_one_or_none rs)"
  by (cases rs rule: scalar_one_or_none.cases) (auto intro: confined_ret confined_raise)

lemma confined_scalar_one: "confined R (scalar_one rs)"
  by (cases rs rule: scalar_one.cases) (auto intro: confined_ret confined_raise)

lemma confined_select_one: "confined R (select_one tbl p)"
  unfolding select_one_def
  by (intro confined_bind confined_reads confined_scalar_one_or_none)

lemma confined_get_row: "confined R (get_row tbl key i)"
  unfolding get_row_def by (rule confined_reads)

lemma confined_now: "confined R now"
  unfolding now_def by (rule confined_reads)

lemma confined_uuid4: "confined R (uuid4 E)"
  by (simp add: confined_def uuid4_run R_draws)

lemma confined_token_hex: "confined R (token_hex E n)"
  by (simp add: confined_def token_hex_run R_draws)

lemma confined_random_string: "confined R (random_string E a n)"
  by (simp add: confined_def random_string_run R_draws)

lemma confined_perf_ms: "confined R (perf_ms E)"
  by (simp add: confined_def perf_ms_run R_draws)

lemmas db_intros =
  confined_perf_ms confined_intros confined_scalar_one_or_none confined_scalar_one confined_select_one
  confined_now confined_uuid4 confined_token_hex confined_random_string confined_get_row

end

text \<open>A projection that does not mention the draws is such a relation's frame.\<close>

interpretation users_frame: db_relation "same users"
  by unfold_locales (simp add: same_def)

interpretation audit_frame: db_relation "same audit_logs"
  by unfold_locales (simp add: same_def)

end
