(* ===== verification/StatusMachine.thy ===== *)
theory StatusMachine
  imports Models
begin

section \<open>The equipment status machine\<close>

text \<open>
  \<^verbatim>\<open>api/services/equipment_status_machine.py\<close>: the eleven statuses of an equipment record,
  their metadata, and the denylist of transitions. The rest of the program passes statuses
  around as strings and parses them with \<^verbatim>\<open>Status(s)\<close>, so both forms are here.
\<close>

datatype Status =
    NEW_REQUEST
  | APPRAISER_ASSIGNED
  | APPRAISAL_SCHEDULED
  | APPRAISAL_COMPLETE
  | OFFER_READY
  | APPROVED_PENDING_ESIGN
  | ESIGNED_PENDING_PUBLISH
  | LISTED
  | SOLD
  | DECLINED
  | WITHDRAWN

primrec status_value :: "Status \<Rightarrow> string" where
  "status_value NEW_REQUEST = ''new_request''"
| "status_value APPRAISER_ASSIGNED = ''appraiser_assigned''"
| "status_value APPRAISAL_SCHEDULED = ''appraisal_scheduled''"
| "status_value APPRAISAL_COMPLETE = ''appraisal_complete''"
| "status_value OFFER_READY = ''offer_ready''"
| "status_value APPROVED_PENDING_ESIGN = ''approved_pending_esign''"
| "status_value ESIGNED_PENDING_PUBLISH = ''esigned_pending_publish''"
| "status_value LISTED = ''listed''"
| "status_value SOLD = ''sold''"
| "status_value DECLINED = ''declined''"
| "status_value WITHDRAWN = ''withdrawn''"

definition all_status :: "Status list" where
  "all_status = [NEW_REQUEST, APPRAISER_ASSIGNED, APPRAISAL_SCHEDULED, APPRAISAL_COMPLETE,
     OFFER_READY, APPROVED_PENDING_ESIGN, ESIGNED_PENDING_PUBLISH, LISTED, SOLD, DECLINED,
     WITHDRAWN]"

text \<open>\<^verbatim>\<open>Status(s)\<close>; \<open>None\<close> is its \<^verbatim>\<open>ValueError\<close>.\<close>

definition status_of :: "string \<Rightarrow> Status option" where
  "status_of s = find (\<lambda>x. status_value x = s) all_status"

record status_meta =
  display :: string
  meta_notifies_customer :: bool
  meta_notifies_sales_rep :: bool
  meta_is_terminal :: bool

definition meta :: "string \<Rightarrow> bool \<Rightarrow> bool \<Rightarrow> bool \<Rightarrow> status_meta" where
  "meta d c r t = \<lparr>display = d, meta_notifies_customer = c, meta_notifies_sales_rep = r,
     meta_is_terminal = t\<rparr>"

primrec registry :: "Status \<Rightarrow> status_meta" where
  "registry NEW_REQUEST = meta ''New request received'' False False False"
| "registry APPRAISER_ASSIGNED = meta ''An appraiser has been assigned'' False False False"
| "registry APPRAISAL_SCHEDULED = meta ''An appraisal has been scheduled'' True False False"
| "registry APPRAISAL_COMPLETE = meta ''Your appraisal is complete'' True False False"
| "registry OFFER_READY = meta ''Your offer is ready to review'' True False False"
| "registry APPROVED_PENDING_ESIGN =
     meta (''Approved '' @ em_dash @ '' ready for eSign'') False True False"
| "registry ESIGNED_PENDING_PUBLISH =
     meta (''Signed '' @ em_dash @ '' ready to publish'') False True False"
| "registry LISTED = meta ''Your equipment is now listed'' True False False"
| "registry SOLD = meta ''Your equipment has sold'' True False True"
| "registry DECLINED = meta ''Your submission has been declined'' True False True"
| "registry WITHDRAWN = meta ''Your submission has been withdrawn'' False False True"

definition FORBIDDEN_TRANSITIONS :: "(string \<times> string) list" where
  "FORBIDDEN_TRANSITIONS =
     [(status_value SOLD, status_value NEW_REQUEST),
      (status_value DECLINED, status_value NEW_REQUEST),
      (status_value SOLD, status_value LISTED),
      (status_value SOLD, status_value APPRAISAL_SCHEDULED)]"

definition all_status_values :: "string list" where
  "all_status_values = map status_value all_status"

definition is_known :: "string \<Rightarrow> bool" where
  "is_known status = (status \<in> set (map status_value all_status))"

definition display_name :: "string \<Rightarrow> string" where
  "display_name status = (case status_of status of Some x \<Rightarrow> display (registry x) | None \<Rightarrow> status)"

definition notifies_customer :: "string \<Rightarrow> bool" where
  "notifies_customer status =
     (case status_of status of Some x \<Rightarrow> meta_notifies_customer (registry x) | None \<Rightarrow> False)"

definition notifies_sales_rep :: "string \<Rightarrow> bool" where
  "notifies_sales_rep status =
     (case status_of status of Some x \<Rightarrow> meta_notifies_sales_rep (registry x) | None \<Rightarrow> False)"

definition is_terminal :: "string \<Rightarrow> bool" where
  "is_terminal status =
     (case status_of status of Some x \<Rightarrow> meta_is_terminal (registry x) | None \<Rightarrow> False)"

definition is_forbidden_transition :: "string \<Rightarrow> string \<Rightarrow> bool" where
  "is_forbidden_transition from_status to_status =
     ((from_status, to_status) \<in> set FORBIDDEN_TRANSITIONS)"

subsection \<open>Facts about the registry\<close>

lemma all_status_complete [simp]: "x \<in> set all_status"
  by (cases x) (simp_all add: all_status_def)

lemma status_value_inject [simp]: "status_value x = status_value y \<longleftrightarrow> x = y"
  by (cases x; cases y) simp_all

lemma status_of_value [simp]: "status_of (status_value x) = Some x"
  by (cases x) (simp_all add: status_of_def all_status_def)

lemma status_of_SomeD: "status_of s = Some x \<Longrightarrow> s = status_value x"
  by (auto simp: status_of_def find_Some_iff)

lemma status_of_None_iff: "status_of s = None \<longleftrightarrow> \<not> is_known s"
  by (auto simp: status_of_def is_known_def find_None_iff)

lemma is_known_iff: "is_known s \<longleftrightarrow> (\<exists>x. s = status_value x)"
  by (auto simp: is_known_def image_iff)

lemma is_known_value [simp]: "is_known (status_value x)"
  by (auto simp: is_known_iff)

lemma known_cases:
  assumes "is_known s"
  obtains x where "s = status_value x" and "status_of s = Some x"
  using assms by (auto simp: is_known_iff)

lemma is_known_iff_value: "is_known s \<longleftrightarrow> s \<in> set all_status_values"
  by (simp add: is_known_def all_status_values_def)

lemma forbidden_iff:
  "is_forbidden_transition f t \<longleftrightarrow>
     (f = ''sold'' \<and> t \<in> {''new_request'', ''listed'', ''appraisal_scheduled''}) \<or>
     (f = ''declined'' \<and> t = ''new_request'')"
  by (auto simp: is_forbidden_transition_def FORBIDDEN_TRANSITIONS_def)

lemma is_terminal_value [simp]: "is_terminal (status_value x) = meta_is_terminal (registry x)"
  by (simp add: is_terminal_def)

lemma notifies_customer_value [simp]:
  "notifies_customer (status_value x) = meta_notifies_customer (registry x)"
  by (simp add: notifies_customer_def)

lemma notifies_sales_rep_value [simp]:
  "notifies_sales_rep (status_value x) = meta_notifies_sales_rep (registry x)"
  by (simp add: notifies_sales_rep_def)

lemma forbidden_from_terminal: "is_forbidden_transition f t \<Longrightarrow> is_terminal f"
proof -
  assume "is_forbidden_transition f t"
  then have "f = status_value SOLD \<or> f = status_value DECLINED"
    by (auto simp: forbidden_iff)
  then show ?thesis
    using is_terminal_value [of SOLD] is_terminal_value [of DECLINED]
    by (auto simp: meta_def simp del: is_terminal_value status_value.simps)
qed

text \<open>No status writes to both the customer and the sales representative.\<close>

lemma notify_exclusive: "notifies_customer s \<Longrightarrow> \<not> notifies_sales_rep s"
proof -
  have "\<not> (meta_notifies_customer (registry x) \<and> meta_notifies_sales_rep (registry x))" for x
    by (cases x) (simp_all add: meta_def)
  then show "notifies_customer s \<Longrightarrow> \<not> notifies_sales_rep s"
    by (auto simp: notifies_customer_def notifies_sales_rep_def split: option.splits)
qed

end
