(* ===== verification/Templates.thy ===== *)
theory Templates
  imports Models
begin

section \<open>The notification template registry\<close>

text \<open>
  \<^verbatim>\<open>api/services/notification_templates.py\<close>: the registered templates with their sources,
  the checks of \<^verbatim>\<open>register\<close>, and rendering with the administrator's overrides. The Jinja
  engine is the parameter \<open>jinja_render\<close> of the environment: autoescape flag, template
  source and variables to the rendered text, or \<open>None\<close> where Jinja raises.
\<close>

record notification_template =
  tpl_name :: string
  tpl_channel :: string
  tpl_category :: string
  tpl_variables :: "string list"
  tpl_body :: string
  tpl_subject :: "string option"
  tpl_description :: string

record rendered_template =
  rt_subject :: "string option"
  rt_body :: string

subsection \<open>Registration\<close>

text \<open>\<^verbatim>\<open>_REGISTRY\<close>, a dict in insertion order.\<close>

type_synonym template_registry = "(string \<times> notification_template) list"

definition dict_set :: "string \<Rightarrow> 'v \<Rightarrow> (string \<times> 'v) list \<Rightarrow> (string \<times> 'v) list" where
  "dict_set k v d =
     (if k \<in> fst ` set d then map (\<lambda>e. if fst e = k then (k, v) else e) d else d @ [(k, v)])"

definition register :: "notification_template \<Rightarrow> template_registry \<Rightarrow> exn + template_registry" where
  "register spec reg =
     (if (case map_of reg (tpl_name spec) of None \<Rightarrow> False | Some existing \<Rightarrow> existing \<noteq> spec)
      then Inl (RuntimeError (''Notification template \"'' @ tpl_name spec @
                 ''\" already registered with a different spec; rename or deduplicate.''))
      else if tpl_channel spec \<in> {''email'', ''apns''} \<and> tpl_subject spec = None
      then Inl (RuntimeError (tpl_channel spec @ '' template '' @ tpl_name spec @
                 '' requires a subject_template''))
      else if tpl_channel spec \<notin> {''email'', ''sms'', ''apns''}
      then Inl (RuntimeError (''template '' @ tpl_name spec @ '' has invalid channel '' @
                 tpl_channel spec))
      else Inr (dict_set (tpl_name spec) spec reg))"

primrec register_all :: "notification_template list \<Rightarrow> template_registry \<Rightarrow> exn + template_registry" where
  "register_all [] reg = Inr reg"
| "register_all (t # ts) reg =
     (case register t reg of Inl e \<Rightarrow> Inl e | Inr reg' \<Rightarrow> register_all ts reg')"

subsection \<open>The built-in templates\<close>

definition STATUS_UPDATE :: notification_template where
  "STATUS_UPDATE =
     \<lparr>tpl_name = ''status_update'', tpl_channel = ''email'',
      tpl_category = ''equipment_status'',
      tpl_variables = [''first_name'', ''reference_number'', ''to_status_display'', ''to_status'', ''note_html''],
      tpl_body =
       (''<p>Hi {{ first_name }},</p><p>The status of your equipment submission '' @
       ''(<strong>{{ reference_number }}</strong>) has changed to <strong>{{ to_status '' @
       ''}}</strong>.</p>{{ note_html|safe }}<p>You can see the full timeline from '' @
       ''your customer portal.</p><p>'' @
       em_dash @
       '' The Temple Heavy Equipment team</p>''),
      tpl_subject = Some
       (''{{ to_status_display }} '' @
       em_dash @
       '' {{ reference_number }}''),
      tpl_description =
       (''Sent to the customer when their record reaches a customer-facing status.'')\<rparr>"

definition SALES_REP_APPROVED_PENDING_ESIGN :: notification_template where
  "SALES_REP_APPROVED_PENDING_ESIGN =
     \<lparr>tpl_name = ''sales_rep_approved_pending_esign'', tpl_channel = ''email'',
      tpl_category = ''sales_rep'',
      tpl_variables = [''first_name'', ''reference_number'', ''make_model''],
      tpl_body =
       (''<p>Hi {{ first_name }},</p><p>The manager has approved the appraisal for '' @
       ''<strong>{{ reference_number }}</strong> ({{ make_model }}). The record is now '' @
       ''<strong>ready for eSign</strong>.</p><p>Open the record in the sales '' @
       ''dashboard to start the eSign flow.</p>''),
      tpl_subject = Some
       (''[Approved] Appraisal for {{ reference_number }} '' @
       em_dash @
       '' Ready for eSign''),
      tpl_description =
       (''Sales rep notice when manager approves the appraisal '' @
       em_dash @
       '' eSign ready.'')\<rparr>"

definition SALES_REP_ESIGNED_PENDING_PUBLISH :: notification_template where
  "SALES_REP_ESIGNED_PENDING_PUBLISH =
     \<lparr>tpl_name = ''sales_rep_esigned_pending_publish'', tpl_channel = ''email'',
      tpl_category = ''sales_rep'',
      tpl_variables = [''first_name'', ''reference_number'', ''make_model''],
      tpl_body =
       (''<p>Hi {{ first_name }},</p><p>The customer has signed the consignment '' @
       ''agreement for <strong>{{ reference_number }}</strong> ({{ make_model }}). The '' @
       ''listing is <strong>ready to publish</strong>.</p><p>Open the record in the '' @
       ''sales dashboard and tap <em>Publish Listing</em> when you're ready.</p>''),
      tpl_subject = Some
       (''[Signed] {{ reference_number }} ready to publish''),
      tpl_description =
       (''Sales rep notice when customer signs '' @
       em_dash @
       '' listing ready to publish.'')\<rparr>"

definition SALES_REP_GENERIC_STATUS :: notification_template where
  "SALES_REP_GENERIC_STATUS =
     \<lparr>tpl_name = ''sales_rep_generic_status'', tpl_channel = ''email'',
      tpl_category = ''sales_rep'',
      tpl_variables = [''first_name'', ''reference_number'', ''to_status''],
      tpl_body =
       (''<p>Hi {{ first_name }},</p><p>Record <strong>{{ reference_number }}</strong> '' @
       ''moved to <strong>{{ to_status }}</strong>.</p>''),
      tpl_subject = Some
       (''Status update '' @
       em_dash @
       '' {{ reference_number }}''),
      tpl_description =
       (''Fallback sales-rep email for any status not covered by a dedicated template.'')\<rparr>"

definition SALES_REP_APPROVED_PENDING_ESIGN_SMS :: notification_template where
  "SALES_REP_APPROVED_PENDING_ESIGN_SMS =
     \<lparr>tpl_name = ''sales_rep_approved_pending_esign_sms'', tpl_channel = ''sms'',
      tpl_category = ''sales_rep'',
      tpl_variables = [''reference_number''],
      tpl_body =
       (''Manager approved {{ reference_number }}. Log in to initiate eSign.''),
      tpl_subject = None,
      tpl_description =
       (''Sales rep SMS when manager approves the appraisal.'')\<rparr>"

definition SALES_REP_ESIGNED_PENDING_PUBLISH_SMS :: notification_template where
  "SALES_REP_ESIGNED_PENDING_PUBLISH_SMS =
     \<lparr>tpl_name = ''sales_rep_esigned_pending_publish_sms'', tpl_channel = ''sms'',
      tpl_category = ''sales_rep'',
      tpl_variables = [''reference_number''],
      tpl_body =
       (''TempleHE: customer signed {{ reference_number }}. Ready to publish.''),
      tpl_subject = None,
      tpl_description =
       (''Sales rep SMS when customer signs.'')\<rparr>"

definition SALES_REP_GENERIC_STATUS_SMS :: notification_template where
  "SALES_REP_GENERIC_STATUS_SMS =
     \<lparr>tpl_name = ''sales_rep_generic_status_sms'', tpl_channel = ''sms'',
      tpl_category = ''sales_rep'',
      tpl_variables = [''reference_number'', ''to_status''],
      tpl_body =
       (''TempleHE: {{ reference_number }} moved to {{ to_status }}.''),
      tpl_subject = None,
      tpl_description =
       (''Fallback sales-rep SMS for any status not covered by a dedicated template.'')\<rparr>"

definition RECORD_LOCK_OVERRIDDEN_EMAIL :: notification_template where
  "RECORD_LOCK_OVERRIDDEN_EMAIL =
     \<lparr>tpl_name = ''record_lock_overridden'', tpl_channel = ''email'',
      tpl_category = ''record_lock'',
      tpl_variables = [''first_name'', ''reference'', ''manager_first_name''],
      tpl_body =
       (''<p>Hi {{ first_name }},</p><p>Your editing lock on <strong>{{ reference '' @
       ''}}</strong> was released by {{ manager_first_name }} so the record could be '' @
       ''edited.</p><p>Reopen the record from the sales dashboard if you still need to '' @
       ''make changes.</p>''),
      tpl_subject = Some
       (''Your editing lock on {{ reference }} was released''),
      tpl_description =
       (''Email to the user whose record-edit lock was overridden by a manager.'')\<rparr>"

definition RECORD_LOCK_OVERRIDDEN_SMS :: notification_template where
  "RECORD_LOCK_OVERRIDDEN_SMS =
     \<lparr>tpl_name = ''record_lock_overridden_sms'', tpl_channel = ''sms'',
      tpl_category = ''record_lock'',
      tpl_variables = [''reference'', ''manager_first_name''],
      tpl_body =
       (''TempleHE: your editing lock on {{ reference }} was released by {{ '' @
       ''manager_first_name }}.''),
      tpl_subject = None,
      tpl_description =
       (''SMS to the user whose record-edit lock was overridden by a manager.'')\<rparr>"

definition SERVICE_HEALTH_RED_ALERT_EMAIL :: notification_template where
  "SERVICE_HEALTH_RED_ALERT_EMAIL =
     \<lparr>tpl_name = ''service_health_red_alert'', tpl_channel = ''email'',
      tpl_category = ''health'',
      tpl_variables = [''service_name'', ''error_detail'', ''checked_at''],
      tpl_body =
       (''<p>Service <strong>{{ service_name }}</strong> flipped to red status at {{ '' @
       ''checked_at }}.</p><p>Detail: {{ error_detail }}</p><p>Visit /admin/health for '' @
       ''the live dashboard.</p>''),
      tpl_subject = Some
       (''[TempleHE] {{ service_name }} is unhealthy''),
      tpl_description =
       (''Email to admins when a monitored service flips to red status.'')\<rparr>"

definition SERVICE_HEALTH_RED_ALERT_SMS :: notification_template where
  "SERVICE_HEALTH_RED_ALERT_SMS =
     \<lparr>tpl_name = ''service_health_red_alert_sms'', tpl_channel = ''sms'',
      tpl_category = ''health'',
      tpl_variables = [''service_name'', ''error_detail''],
      tpl_body =
       (''TempleHE health alert: {{ service_name }} is red. {{ error_detail }}''),
      tpl_subject = None,
      tpl_description =
       (''SMS to admins when a monitored service flips to red status.'')\<rparr>"

definition SERVICE_HEALTH_RED_ALERT_SLACK :: notification_template where
  "SERVICE_HEALTH_RED_ALERT_SLACK =
     \<lparr>tpl_name = ''service_health_red_alert_slack'', tpl_channel = ''sms'',
      tpl_category = ''health'',
      tpl_variables = [''service_name'', ''error_detail'', ''checked_at''],
      tpl_body =
       ('':rotating_light: TempleHE health alert: *{{ service_name }}* is red as of {{ '' @
       ''checked_at }}. Detail: {{ error_detail }}''),
      tpl_subject = None,
      tpl_description =
       (''Slack message body when a monitored service flips to red. Routes through the '' @
       ''same plain-text env as SMS '' @
       em_dash @
       '' autoescape would corrupt block-kit JSON.'')\<rparr>"

definition ASSIGNMENT_NOTIFICATION_APNS :: notification_template where
  "ASSIGNMENT_NOTIFICATION_APNS =
     \<lparr>tpl_name = ''record_assigned_apns'', tpl_channel = ''apns'',
      tpl_category = ''appraiser'',
      tpl_variables = [''descriptor''],
      tpl_body =
       (''You've been assigned {{ descriptor }}.''),
      tpl_subject = Some
       (''New Assignment''),
      tpl_description =
       (''iOS push sent to an appraiser when they are assigned an equipment record.'')\<rparr>"

definition APPOINTMENT_REMINDER_APNS :: notification_template where
  "APPOINTMENT_REMINDER_APNS =
     \<lparr>tpl_name = ''appointment_reminder_apns'', tpl_channel = ''apns'',
      tpl_category = ''appraiser'',
      tpl_variables = [''descriptor'', ''scheduled_time''],
      tpl_body =
       (''{{ descriptor }} is scheduled for {{ scheduled_time }}.''),
      tpl_subject = Some
       (''Upcoming Appointment''),
      tpl_description =
       (''iOS push reminder sent to an appraiser before a scheduled appointment.'')\<rparr>"

definition SYNC_CONFIRMATION_APNS :: notification_template where
  "SYNC_CONFIRMATION_APNS =
     \<lparr>tpl_name = ''sync_confirmation_apns'', tpl_channel = ''apns'',
      tpl_category = ''appraiser'',
      tpl_variables = [''reference_number''],
      tpl_body =
       (''Appraisal {{ reference_number }} synced successfully.''),
      tpl_subject = Some
       (''Sync Complete''),
      tpl_description =
       (''Silent iOS push after a successful appraisal sync to prompt a data refresh.'')\<rparr>"

definition SYNC_FAILED_APNS :: notification_template where
  "SYNC_FAILED_APNS =
     \<lparr>tpl_name = ''sync_failed_apns'', tpl_channel = ''apns'',
      tpl_category = ''appraiser'',
      tpl_variables = [''reference_number'', ''error_reason''],
      tpl_body =
       (''Appraisal {{ reference_number }} could not be synced: {{ error_reason }}.''),
      tpl_subject = Some
       (''Sync Failed''),
      tpl_description =
       (''iOS push sent when an appraisal submission sync fails after max retries.'')\<rparr>"

definition MANAGEMENT_REVIEW_FLAGGED_EMAIL :: notification_template where
  "MANAGEMENT_REVIEW_FLAGGED_EMAIL =
     \<lparr>tpl_name = ''management_review_flagged_email'', tpl_channel = ''email'',
      tpl_category = ''approval'',
      tpl_variables = [''reference_number'', ''make'', ''model'', ''red_flag_summary''],
      tpl_body =
       (''<p>An appraisal submission requires your review.</p><p><strong>{{ make }} {{ '' @
       ''model }}</strong> ({{ reference_number }})</p><p><strong>Flagged '' @
       ''conditions:</strong><br>{{ red_flag_summary }}</p><p>Please log in to the '' @
       ''manager approval queue to review and approve or reject.</p>''),
      tpl_subject = Some
       (''Management Review Required: {{ reference_number }}''),
      tpl_description =
       (''Sent to all Sales Managers when an appraisal submission is flagged for '' @
       ''management review (structural damage, active leak, non-running, etc.).'')\<rparr>"

definition MANAGEMENT_REVIEW_FLAGGED_SMS :: notification_template where
  "MANAGEMENT_REVIEW_FLAGGED_SMS =
     \<lparr>tpl_name = ''management_review_flagged_sms'', tpl_channel = ''sms'',
      tpl_category = ''approval'',
      tpl_variables = [''reference_number'', ''make'', ''model'', ''red_flag_summary''],
      tpl_body =
       (''TempleHE: Management review required for {{ make }} {{ model }} ({{ '' @
       ''reference_number }}). Flags: {{ red_flag_summary }}''),
      tpl_subject = None,
      tpl_description =
       (''SMS variant of management_review_flagged_email. Sent to Sales Managers who '' @
       ''prefer SMS notifications.'')\<rparr>"

definition APPRAISAL_REJECTED_SALES_REP_EMAIL :: notification_template where
  "APPRAISAL_REJECTED_SALES_REP_EMAIL =
     \<lparr>tpl_name = ''appraisal_rejected_sales_rep_email'', tpl_channel = ''email'',
      tpl_category = ''approval'',
      tpl_variables = [''reference_number'', ''make'', ''model'', ''rejection_notes'', ''send_back''],
      tpl_body =
       (''<p>The appraisal for <strong>{{ make }} {{ model }}</strong> ({{ '' @
       ''reference_number }}) has been rejected.</p><p><strong>Manager notes:</strong> '' @
       ''{{ rejection_notes }}</p><p>{% if send_back %}The record has been returned '' @
       ''for re-appraisal.{% else %}The record has been declined.{% endif %}</p>''),
      tpl_subject = Some
       (''Appraisal Rejected: {{ reference_number }}''),
      tpl_description =
       (''Sent to the assigned Sales Rep when a manager rejects an appraisal, whether '' @
       ''permanently declined or sent back for re-appraisal.'')\<rparr>"

definition APPRAISAL_REJECTED_APPRAISER_EMAIL :: notification_template where
  "APPRAISAL_REJECTED_APPRAISER_EMAIL =
     \<lparr>tpl_name = ''appraisal_rejected_appraiser_email'', tpl_channel = ''email'',
      tpl_category = ''approval'',
      tpl_variables = [''reference_number'', ''make'', ''model'', ''rejection_notes''],
      tpl_body =
       (''<p>The appraisal you submitted for <strong>{{ make }} {{ model }}</strong> '' @
       ''({{ reference_number }}) requires a re-inspection.</p><p><strong>Manager '' @
       ''notes:</strong> {{ rejection_notes }}</p><p>Please log in to the app to begin '' @
       ''a new appraisal for this record.</p>''),
      tpl_subject = Some
       (''Re-Appraisal Required: {{ reference_number }}''),
      tpl_description =
       (''Sent to the Appraiser when a manager sends an appraisal back for '' @
       ''re-appraisal. Not sent on permanent declines '' @
       em_dash @
       '' the appraiser's role ends at submission.'')\<rparr>"

definition CUSTOMER_ESIGN_READY :: notification_template where
  "CUSTOMER_ESIGN_READY =
     \<lparr>tpl_name = ''customer_esign_ready'', tpl_channel = ''email'',
      tpl_category = ''customer'',
      tpl_variables = [''first_name'', ''reference_number'', ''make_model'', ''envelope_id''],
      tpl_body =
       (''<p>Hi {{ first_name }},</p><p>Your consignment agreement for <strong>{{ '' @
       ''make_model }}</strong> ({{ reference_number }}) is ready for your '' @
       ''signature.</p><p><a href='/api/v1/esign/sign/{{ envelope_id }}'>Sign '' @
       ''Agreement</a></p><p>If you have any questions, please contact us.</p><p>'' @
       em_dash @
       '' The Temple Heavy Equipment team</p>''),
      tpl_subject = Some
       (''Action Required: Sign Your Consignment Agreement for {{ reference_number }}''),
      tpl_description =
       (''Sent to the customer when the consignment agreement is ready to sign.'')\<rparr>"

definition MANAGER_PRICE_CHANGE_REAPPROVAL :: notification_template where
  "MANAGER_PRICE_CHANGE_REAPPROVAL =
     \<lparr>tpl_name = ''manager_price_change_reapproval'', tpl_channel = ''email'',
      tpl_category = ''approval'',
      tpl_variables = [''reference_number'', ''make_model'', ''approved_price'', ''proposed_price'', ''change_pct''],
      tpl_body =
       (''<p>A customer has requested a consignment price change that requires your '' @
       ''approval.</p><p>Record: <strong>{{ reference_number }}</strong> ({{ '' @
       ''make_model }})</p><p>Approved price: ${{ approved_price }}<br>Proposed price: '' @
       ''${{ proposed_price }}<br>Change: {{ change_pct }}%</p><p>Log in to the '' @
       ''manager approval queue to review and approve or reject this change.</p>''),
      tpl_subject = Some
       (''Re-Approval Required: Price Change on {{ reference_number }}''),
      tpl_description =
       (''Sent to managers when a customer's proposed price change exceeds the '' @
       ''re-approval threshold.'')\<rparr>"

definition builtin_templates :: "notification_template list" where
  "builtin_templates =
     [STATUS_UPDATE, SALES_REP_APPROVED_PENDING_ESIGN, SALES_REP_ESIGNED_PENDING_PUBLISH,
      SALES_REP_GENERIC_STATUS, SALES_REP_APPROVED_PENDING_ESIGN_SMS,
      SALES_REP_ESIGNED_PENDING_PUBLISH_SMS, SALES_REP_GENERIC_STATUS_SMS,
      RECORD_LOCK_OVERRIDDEN_EMAIL, RECORD_LOCK_OVERRIDDEN_SMS, SERVICE_HEALTH_RED_ALERT_EMAIL,
      SERVICE_HEALTH_RED_ALERT_SMS, SERVICE_HEALTH_RED_ALERT_SLACK, ASSIGNMENT_NOTIFICATION_APNS,
      APPOINTMENT_REMINDER_APNS, SYNC_CONFIRMATION_APNS, SYNC_FAILED_APNS,
      MANAGEMENT_REVIEW_FLAGGED_EMAIL, MANAGEMENT_REVIEW_FLAGGED_SMS,
      APPRAISAL_REJECTED_SALES_REP_EMAIL, APPRAISAL_REJECTED_APPRAISER_EMAIL,
      CUSTOMER_ESIGN_READY, MANAGER_PRICE_CHANGE_REAPPROVAL]"

text \<open>The registry after the module was imported.\<close>

definition builtin_registry :: template_registry where
  "builtin_registry = map (\<lambda>t. (tpl_name t, t)) builtin_templates"

subsection \<open>Lookup and rendering\<close>

definition get_template_spec :: "string \<Rightarrow> notification_template op" where
  "get_template_spec name =
     (case map_of builtin_registry name of None \<Rightarrow> raise (KeyError name) | Some t \<Rightarrow> ret t)"

definition all_specs :: "notification_template list" where
  "all_specs = sort_key (\<lambda>t. (tpl_category t, tpl_name t)) (map snd builtin_registry)"

definition jinja :: "env \<Rightarrow> bool \<Rightarrow> string \<Rightarrow> (string \<times> json) list \<Rightarrow> string op" where
  "jinja E autoescape src variables =
     (case jinja_render E autoescape src variables of
        None \<Rightarrow> raise UndefinedError | Some txt \<Rightarrow> ret (strip txt))"

definition render_spec ::
  "env \<Rightarrow> notification_template \<Rightarrow> (string \<times> json) list \<Rightarrow> string option \<Rightarrow> string option \<Rightarrow>
   rendered_template op" where
  "render_spec E spec variables subject_override body_override =
     (let esc = (tpl_channel spec = ''email'');
          body_src = (case body_override of Some b \<Rightarrow> b | None \<Rightarrow> tpl_body spec)
      in bind (jinja E esc body_src variables) (\<lambda>body.
         if tpl_channel spec \<in> {''email'', ''apns''}
         then let subject_src = (case subject_override of Some x \<Rightarrow> Some x | None \<Rightarrow> tpl_subject spec)
              in bind (jinja E esc (str_or subject_src '''') variables) (\<lambda>subject.
                 ret \<lparr>rt_subject = Some subject, rt_body = body\<rparr>)
         else ret \<lparr>rt_subject = None, rt_body = body\<rparr>))"

definition render :: "env \<Rightarrow> string \<Rightarrow> (string \<times> json) list \<Rightarrow> rendered_template op" where
  "render E name variables =
     bind (get_template_spec name) (\<lambda>spec. render_spec E spec variables None None)"

definition render_with_overrides ::
  "env \<Rightarrow> string \<Rightarrow> (string \<times> json) list \<Rightarrow> rendered_template op" where
  "render_with_overrides E name variables =
     bind (get_template_spec name) (\<lambda>spec.
     bind (select_one template_overrides (\<lambda>r. ov_name r = name)) (\<lambda>override.
     render_spec E spec variables
       (case override of Some r \<Rightarrow> ov_subject_md r | None \<Rightarrow> None)
       (case override of Some r \<Rightarrow> Some (ov_body_md r) | None \<Rightarrow> None)))"

subsection \<open>Facts\<close>

lemma render_spec_pure: "render_spec E t v so bo s = (r, s') \<Longrightarrow> s' = s"
  by (auto simp: render_spec_def jinja_def Let_def run_simps split: option.splits if_splits)

lemma render_with_overrides_pure: "render_with_overrides E n v s = (r, s') \<Longrightarrow> s' = s"
  by (auto simp: render_with_overrides_def get_template_spec_def run_simps
      split: option.splits list.splits dest: render_spec_pure)

context db_relation
begin

lemma confined_render_with_overrides: "confined R (render_with_overrides E n v)"
proof (rule confinedI)
  fix s r t
  assume "render_with_overrides E n v s = (r, t)"
  then have "t = s" by (rule render_with_overrides_pure)
  then show "R s t" by (simp add: R_refl)
qed

end

text \<open>Name, channel and subject of each template, so that proofs need not unfold the texts.\<close>

lemma tpl_names [simp]:
  "tpl_name STATUS_UPDATE = ''status_update''"
  "tpl_name SALES_REP_APPROVED_PENDING_ESIGN = ''sales_rep_approved_pending_esign''"
  "tpl_name SALES_REP_ESIGNED_PENDING_PUBLISH = ''sales_rep_esigned_pending_publish''"
  "tpl_name SALES_REP_GENERIC_STATUS = ''sales_rep_generic_status''"
  "tpl_name SALES_REP_APPROVED_PENDING_ESIGN_SMS = ''sales_rep_approved_pending_esign_sms''"
  "tpl_name SALES_REP_ESIGNED_PENDING_PUBLISH_SMS = ''sales_rep_esigned_pending_publish_sms''"
  "tpl_name SALES_REP_GENERIC_STATUS_SMS = ''sales_rep_generic_status_sms''"
  "tpl_name RECORD_LOCK_OVERRIDDEN_EMAIL = ''record_lock_overridden''"
  "tpl_name RECORD_LOCK_OVERRIDDEN_SMS = ''record_lock_overridden_sms''"
  "tpl_name SERVICE_HEALTH_RED_ALERT_EMAIL = ''service_health_red_alert''"
  "tpl_name SERVICE_HEALTH_RED_ALERT_SMS = ''service_health_red_alert_sms''"
  "tpl_name SERVICE_HEALTH_RED_ALERT_SLACK = ''service_health_red_alert_slack''"
  "tpl_name ASSIGNMENT_NOTIFICATION_APNS = ''record_assigned_apns''"
  "tpl_name APPOINTMENT_REMINDER_APNS = ''appointment_reminder_apns''"
  "tpl_name SYNC_CONFIRMATION_APNS = ''sync_confirmation_apns''"
  "tpl_name SYNC_FAILED_APNS = ''sync_failed_apns''"
  "tpl_name MANAGEMENT_REVIEW_FLAGGED_EMAIL = ''management_review_flagged_email''"
  "tpl_name MANAGEMENT_REVIEW_FLAGGED_SMS = ''management_review_flagged_sms''"
  "tpl_name APPRAISAL_REJECTED_SALES_REP_EMAIL = ''appraisal_rejected_sales_rep_email''"
  "tpl_name APPRAISAL_REJECTED_APPRAISER_EMAIL = ''appraisal_rejected_appraiser_email''"
  "tpl_name CUSTOMER_ESIGN_READY = ''customer_esign_ready''"
  "tpl_name MANAGER_PRICE_CHANGE_REAPPROVAL = ''manager_price_change_reapproval''"
  by (simp_all only: STATUS_UPDATE_def SALES_REP_APPROVED_PENDING_ESIGN_def SALES_REP_ESIGNED_PENDING_PUBLISH_def
      SALES_REP_GENERIC_STATUS_def SALES_REP_APPROVED_PENDING_ESIGN_SMS_def SALES_REP_ESIGNED_PENDING_PUBLISH_SMS_def
      SALES_REP_GENERIC_STATUS_SMS_def RECORD_LOCK_OVERRIDDEN_EMAIL_def RECORD_LOCK_OVERRIDDEN_SMS_def
      SERVICE_HEALTH_RED_ALERT_EMAIL_def SERVICE_HEALTH_RED_ALERT_SMS_def SERVICE_HEALTH_RED_ALERT_SLACK_def
      ASSIGNMENT_NOTIFICATION_APNS_def APPOINTMENT_REMINDER_APNS_def SYNC_CONFIRMATION_APNS_def
      SYNC_FAILED_APNS_def MANAGEMENT_REVIEW_FLAGGED_EMAIL_def MANAGEMENT_REVIEW_FLAGGED_SMS_def
      APPRAISAL_REJECTED_SALES_REP_EMAIL_def APPRAISAL_REJECTED_APPRAISER_EMAIL_def CUSTOMER_ESIGN_READY_def
      MANAGER_PRICE_CHANGE_REAPPROVAL_def
      notification_template.select_convs)

lemma tpl_channels [simp]:
  "tpl_channel STATUS_UPDATE = ''email''"
  "tpl_channel SALES_REP_APPROVED_PENDING_ESIGN = ''email''"
  "tpl_channel SALES_REP_ESIGNED_PENDING_PUBLISH = ''email''"
  "tpl_channel SALES_REP_GENERIC_STATUS = ''email''"
  "tpl_channel SALES_REP_APPROVED_PENDING_ESIGN_SMS = ''sms''"
  "tpl_channel SALES_REP_ESIGNED_PENDING_PUBLISH_SMS = ''sms''"
  "tpl_channel SALES_REP_GENERIC_STATUS_SMS = ''sms''"
  "tpl_channel RECORD_LOCK_OVERRIDDEN_EMAIL = ''email''"
  "tpl_channel RECORD_LOCK_OVERRIDDEN_SMS = ''sms''"
  "tpl_channel SERVICE_HEALTH_RED_ALERT_EMAIL = ''email''"
  "tpl_channel SERVICE_HEALTH_RED_ALERT_SMS = ''sms''"
  "tpl_channel SERVICE_HEALTH_RED_ALERT_SLACK = ''sms''"
  "tpl_channel ASSIGNMENT_NOTIFICATION_APNS = ''apns''"
  "tpl_channel APPOINTMENT_REMINDER_APNS = ''apns''"
  "tpl_channel SYNC_CONFIRMATION_APNS = ''apns''"
  "tpl_channel SYNC_FAILED_APNS = ''apns''"
  "tpl_channel MANAGEMENT_REVIEW_FLAGGED_EMAIL = ''email''"
  "tpl_channel MANAGEMENT_REVIEW_FLAGGED_SMS = ''sms''"
  "tpl_channel APPRAISAL_REJECTED_SALES_REP_EMAIL = ''email''"
  "tpl_channel APPRAISAL_REJECTED_APPRAISER_EMAIL = ''email''"
  "tpl_channel CUSTOMER_ESIGN_READY = ''email''"
  "tpl_channel MANAGER_PRICE_CHANGE_REAPPROVAL = ''email''"
  by (simp_all only: STATUS_UPDATE_def SALES_REP_APPROVED_PENDING_ESIGN_def SALES_REP_ESIGNED_PENDING_PUBLISH_def
      SALES_REP_GENERIC_STATUS_def SALES_REP_APPROVED_PENDING_ESIGN_SMS_def SALES_REP_ESIGNED_PENDING_PUBLISH_SMS_def
      SALES_REP_GENERIC_STATUS_SMS_def RECORD_LOCK_OVERRIDDEN_EMAIL_def RECORD_LOCK_OVERRIDDEN_SMS_def
      SERVICE_HEALTH_RED_ALERT_EMAIL_def SERVICE_HEALTH_RED_ALERT_SMS_def SERVICE_HEALTH_RED_ALERT_SLACK_def
      ASSIGNMENT_NOTIFICATION_APNS_def APPOINTMENT_REMINDER_APNS_def SYNC_CONFIRMATION_APNS_def
      SYNC_FAILED_APNS_def MANAGEMENT_REVIEW_FLAGGED_EMAIL_def MANAGEMENT_REVIEW_FLAGGED_SMS_def
      APPRAISAL_REJECTED_SALES_REP_EMAIL_def APPRAISAL_REJECTED_APPRAISER_EMAIL_def CUSTOMER_ESIGN_READY_def
      MANAGER_PRICE_CHANGE_REAPPROVAL_def
      notification_template.select_convs)

lemma tpl_subjects [simp]:
  "\<exists>y. tpl_subject STATUS_UPDATE = Some y"
  "\<exists>y. tpl_subject SALES_REP_APPROVED_PENDING_ESIGN = Some y"
  "\<exists>y. tpl_subject SALES_REP_ESIGNED_PENDING_PUBLISH = Some y"
  "\<exists>y. tpl_subject SALES_REP_GENERIC_STATUS = Some y"
  "\<exists>y. tpl_subject RECORD_LOCK_OVERRIDDEN_EMAIL = Some y"
  "\<exists>y. tpl_subject SERVICE_HEALTH_RED_ALERT_EMAIL = Some y"
  "\<exists>y. tpl_subject ASSIGNMENT_NOTIFICATION_APNS = Some y"
  "\<exists>y. tpl_subject APPOINTMENT_REMINDER_APNS = Some y"
  "\<exists>y. tpl_subject SYNC_CONFIRMATION_APNS = Some y"
  "\<exists>y. tpl_subject SYNC_FAILED_APNS = Some y"
  "\<exists>y. tpl_subject MANAGEMENT_REVIEW_FLAGGED_EMAIL = Some y"
  "\<exists>y. tpl_subject APPRAISAL_REJECTED_SALES_REP_EMAIL = Some y"
  "\<exists>y. tpl_subject APPRAISAL_REJECTED_APPRAISER_EMAIL = Some y"
  "\<exists>y. tpl_subject CUSTOMER_ESIGN_READY = Some y"
  "\<exists>y. tpl_subject MANAGER_PRICE_CHANGE_REAPPROVAL = Some y"
  by (simp_all only: STATUS_UPDATE_def SALES_REP_APPROVED_PENDING_ESIGN_def SALES_REP_ESIGNED_PENDING_PUBLISH_def
      SALES_REP_GENERIC_STATUS_def SALES_REP_APPROVED_PENDING_ESIGN_SMS_def SALES_REP_ESIGNED_PENDING_PUBLISH_SMS_def
      SALES_REP_GENERIC_STATUS_SMS_def RECORD_LOCK_OVERRIDDEN_EMAIL_def RECORD_LOCK_OVERRIDDEN_SMS_def
      SERVICE_HEALTH_RED_ALERT_EMAIL_def SERVICE_HEALTH_RED_ALERT_SMS_def SERVICE_HEALTH_RED_ALERT_SLACK_def
      ASSIGNMENT_NOTIFICATION_APNS_def APPOINTMENT_REMINDER_APNS_def SYNC_CONFIRMATION_APNS_def
      SYNC_FAILED_APNS_def MANAGEMENT_REVIEW_FLAGGED_EMAIL_def MANAGEMENT_REVIEW_FLAGGED_SMS_def
      APPRAISAL_REJECTED_SALES_REP_EMAIL_def APPRAISAL_REJECTED_APPRAISER_EMAIL_def CUSTOMER_ESIGN_READY_def
      MANAGER_PRICE_CHANGE_REAPPROVAL_def
      notification_template.select_convs option.inject simp_thms)

text \<open>Every e-mail and push template has a subject; no template uses another channel.\<close>

lemma builtin_channels:
  "\<forall>t \<in> set builtin_templates.
     tpl_channel t \<in> {''email'', ''sms'', ''apns''} \<and>
     (tpl_channel t \<in> {''email'', ''apns''} \<longrightarrow> tpl_subject t \<noteq> None)"
  by (simp add: builtin_templates_def)

lemma builtin_names_distinct: "distinct (map tpl_name builtin_templates)"
  by (simp add: builtin_templates_def)

definition template_names :: "string set" where
  "template_names = set (map tpl_name builtin_templates)"

lemma template_known: "n \<in> template_names \<Longrightarrow> \<exists>t. map_of builtin_registry n = Some t"
  by (auto simp: template_names_def builtin_registry_def map_of_eq_None_iff image_image
      simp flip: not_None_eq)

lemma template_names_simps [simp]:
  "''status_update'' \<in> template_names"
  "''sales_rep_approved_pending_esign'' \<in> template_names"
  "''sales_rep_esigned_pending_publish'' \<in> template_names"
  "''sales_rep_generic_status'' \<in> template_names"
  "''sales_rep_approved_pending_esign_sms'' \<in> template_names"
  "''sales_rep_esigned_pending_publish_sms'' \<in> template_names"
  "''sales_rep_generic_status_sms'' \<in> template_names"
  "''record_lock_overridden'' \<in> template_names"
  "''record_lock_overridden_sms'' \<in> template_names"
  by (simp_all add: template_names_def builtin_templates_def)

text \<open>The import of the module succeeds, and leaves the registry in declaration order.\<close>

lemma register_fresh:
  "tpl_name t \<notin> fst ` set reg \<Longrightarrow>
   tpl_channel t \<in> {''email'', ''sms'', ''apns''} \<Longrightarrow>
   (tpl_channel t \<in> {''email'', ''apns''} \<longrightarrow> tpl_subject t \<noteq> None) \<Longrightarrow>
   register t reg = Inr (reg @ [(tpl_name t, t)])"
  by (auto simp: register_def dict_set_def map_of_eq_None_iff [THEN iffD2])

lemma register_all_fresh:
  assumes "distinct (map fst reg @ map tpl_name ts)"
    and "\<forall>t \<in> set ts. tpl_channel t \<in> {''email'', ''sms'', ''apns''} \<and>
           (tpl_channel t \<in> {''email'', ''apns''} \<longrightarrow> tpl_subject t \<noteq> None)"
  shows "register_all ts reg = Inr (reg @ map (\<lambda>t. (tpl_name t, t)) ts)"
  using assms
proof (induction ts arbitrary: reg)
  case (Cons t ts)
  have "register t reg = Inr (reg @ [(tpl_name t, t)])"
    using Cons.prems by (intro register_fresh) auto
  with Cons show ?case by simp
qed simp

lemma register_builtin: "register_all builtin_templates [] = Inr builtin_registry"
  using register_all_fresh [of "[]" builtin_templates] builtin_names_distinct builtin_channels
  by (simp add: builtin_registry_def)

subsection \<open>When rendering cannot fail\<close>

definition overrides_ok :: "db \<Rightarrow> bool" where
  "overrides_ok s \<longleftrightarrow> distinct (map ov_name (template_overrides s))"

definition renders :: "env \<Rightarrow> bool" where
  "renders E \<longleftrightarrow> (\<forall>esc src vars. jinja_render E esc src vars \<noteq> None)"

lemma render_spec_total: "renders E \<Longrightarrow> \<exists>r. render_spec E t v so bo s = (Inr r, s)"
proof -
  assume "renders E"
  then have "\<exists>y. jinja E esc src v s = (Inr y, s)" for esc src
    by (auto simp: jinja_def renders_def split: option.splits)
  then obtain f where "jinja E esc src v s = (Inr (f esc src), s)" for esc src by metis
  then show ?thesis by (simp add: render_spec_def Let_def bind_run)
qed

lemma render_with_overrides_total:
  assumes "renders E" "overrides_ok s" "n \<in> template_names"
  shows "\<exists>r. render_with_overrides E n v s = (Inr r, s)"
proof -
  obtain t where t: "map_of builtin_registry n = Some t" using template_known assms(3) by blast
  have "length (filter (\<lambda>r. ov_name r = n) (template_overrides s)) \<le> 1"
    using assms(2) by (intro filter_key_length) (simp add: overrides_ok_def)
  then consider "filter (\<lambda>r. ov_name r = n) (template_overrides s) = []"
    | o' where "filter (\<lambda>r. ov_name r = n) (template_overrides s) = [o']"
    by (cases "filter (\<lambda>r. ov_name r = n) (template_overrides s)") auto
  then show ?thesis
    by cases (use t render_spec_total [OF assms(1)] in
      \<open>auto simp: render_with_overrides_def get_template_spec_def run_simps\<close>)
qed

end
