(* ===== verification/AppConfig.thy ===== *)
theory AppConfig
  imports Models
begin

section \<open>The application configuration registry\<close>

text \<open>
  \<^verbatim>\<open>api/services/app_config_registry.py\<close>: the declared keys of the \<^verbatim>\<open>app_config\<close> table with
  their defaults, parsers and validators, and the typed read and write. Every registered key
  stores its value under one field of a JSON object, so the parser and the serializer of a
  key are given by that field's name. A value read back for a Python name is a \<open>json\<close>, with
  \<open>JNull\<close> for \<^verbatim>\<open>None\<close>.
\<close>

subsection \<open>Validators\<close>

text \<open>A validator returns the exception it raises, if it does.\<close>

type_synonym validator = "json \<Rightarrow> exn option"

text \<open>\<^verbatim>\<open>isinstance(v, int)\<close>: a \<^verbatim>\<open>bool\<close> is an \<^verbatim>\<open>int\<close> in Python.\<close>

fun as_int :: "json \<Rightarrow> int option" where
  "as_int (JInt i) = Some i"
| "as_int (JBool b) = Some (if b then 1 else 0)"
| "as_int _ = None"

fun as_str :: "json \<Rightarrow> string option" where
  "as_str (JStr s) = Some s"
| "as_str _ = None"

definition validate_positive_int :: validator where
  "validate_positive_int v =
     (case as_int v of
        Some i \<Rightarrow> if i \<le> 0 then Some (ValueError ''must be a positive integer'') else None
      | None \<Rightarrow> Some (ValueError ''must be a positive integer''))"

fun validate_uuid_or_none :: validator where
  "validate_uuid_or_none JNull = None"
| "validate_uuid_or_none (JStr s) =
     (case uuid_parse s of None \<Rightarrow> Some (ValueError ''must be a valid UUID'') | Some u \<Rightarrow> None)"
| "validate_uuid_or_none _ = Some (ValueError ''must be a UUID string or null'')"

fun validate_role_list :: validator where
  "validate_role_list (JArr xs) =
     (if list_all (\<lambda>x. as_str x \<noteq> None) xs then None
      else Some (ValueError ''every entry must be a role slug string''))"
| "validate_role_list _ = Some (ValueError ''must be a list of role slugs'')"

fun validate_nonempty_string :: validator where
  "validate_nonempty_string (JStr s) =
     (if strip s = '''' then Some (ValueError ''must be a non-empty string'') else None)"
| "validate_nonempty_string _ = Some (ValueError ''must be a non-empty string'')"

definition validate_int_at_least :: "int \<Rightarrow> validator" where
  "validate_int_at_least min_value v =
     (let e = Some (ValueError (''must be an integer at least '' @ int_str min_value))
      in case as_int v of Some i \<Rightarrow> if i < min_value then e else None | None \<Rightarrow> e)"

definition validate_int_in_range :: "int \<Rightarrow> int \<Rightarrow> validator" where
  "validate_int_in_range min_value max_value v =
     (let e = Some (ValueError (''must be an integer in ['' @ int_str min_value @ '', '' @
                int_str max_value @ '']''))
      in case as_int v of
           Some i \<Rightarrow> if i < min_value \<or> i > max_value then e else None
         | None \<Rightarrow> e)"

fun validate_string_list :: validator where
  "validate_string_list (JArr xs) =
     (if list_all (\<lambda>x. case as_str x of None \<Rightarrow> False | Some s \<Rightarrow> strip s \<noteq> '''') xs then None
      else Some (ValueError ''every entry must be a non-empty string''))"
| "validate_string_list _ = Some (ValueError ''must be a list of strings'')"

definition INTAKE_FIELDS_CANONICAL :: "string list" where
  "INTAKE_FIELDS_CANONICAL =
     [''category_id'', ''make'', ''model'', ''year'', ''serial_number'', ''hours'',
      ''running_status'', ''ownership_type'', ''location_text'', ''description'']"

definition validate_intake_field_subset :: validator where
  "validate_intake_field_subset v =
     (case validate_string_list v of
        Some e \<Rightarrow> Some e
      | None \<Rightarrow>
          (case v of
             JArr xs \<Rightarrow>
               if list_all (\<lambda>x. x \<in> set (map JStr INTAKE_FIELDS_CANONICAL)) xs then None
               else Some (ValueError ''unknown intake field(s)'')
           | _ \<Rightarrow> None))"

fun validate_bool :: validator where
  "validate_bool (JBool b) = None"
| "validate_bool _ = Some (ValueError ''must be true or false'')"

text \<open>\<^verbatim>\<open>v not in allowed\<close> raises \<^verbatim>\<open>TypeError\<close> for an unhashable value.\<close>

fun validate_page_size :: validator where
  "validate_page_size (JStr s) =
     (if s \<in> {''A4'', ''Letter''} then None else Some (ValueError ''must be one of [A4, Letter]''))"
| "validate_page_size (JArr xs) = Some (TypeError ''unhashable type: list'')"
| "validate_page_size (JObj kvs) = Some (TypeError ''unhashable type: dict'')"
| "validate_page_size _ = Some (ValueError ''must be one of [A4, Letter]'')"

text \<open>The default validator of a key accepts everything.\<close>

definition validate_anything :: validator where
  "validate_anything v = None"

subsection \<open>Key specifications\<close>

record key_spec =
  ks_name :: string
  ks_category :: string
  ks_field_type :: string
  ks_default :: json
  ks_field :: string
  ks_validator :: validator

definition key_spec :: "string \<Rightarrow> string \<Rightarrow> string \<Rightarrow> json \<Rightarrow> string \<Rightarrow> validator \<Rightarrow> key_spec" where
  "key_spec n c t d f v = \<lparr>ks_name = n, ks_category = c, ks_field_type = t, ks_default = d,
     ks_field = f, ks_validator = v\<rparr>"

text \<open>\<^verbatim>\<open>_parse_dict_field\<close> and \<^verbatim>\<open>_serialize_dict_field\<close>.\<close>

fun parse_dict_field :: "string \<Rightarrow> json \<Rightarrow> json" where
  "parse_dict_field f (JObj kvs) = obj_get kvs f"
| "parse_dict_field f _ = JNull"

definition serialize_dict_field :: "string \<Rightarrow> json \<Rightarrow> json" where
  "serialize_dict_field f v = JObj [(f, v)]"

definition TOS_CURRENT_VERSION :: key_spec where
  "TOS_CURRENT_VERSION =
     key_spec ''tos_current_version'' ''legal'' ''string''
       (JNull) ''version'' validate_nonempty_string"

definition PRIVACY_CURRENT_VERSION :: key_spec where
  "PRIVACY_CURRENT_VERSION =
     key_spec ''privacy_current_version'' ''legal'' ''string''
       (JNull) ''version'' validate_nonempty_string"

definition DRIVE_TIME_FALLBACK_MINUTES :: key_spec where
  "DRIVE_TIME_FALLBACK_MINUTES =
     key_spec ''drive_time_fallback_minutes'' ''calendar'' ''int''
       (JInt 60) ''minutes'' validate_positive_int"

definition DEFAULT_SALES_REP_ID :: key_spec where
  "DEFAULT_SALES_REP_ID =
     key_spec ''default_sales_rep_id'' ''lead_routing'' ''uuid''
       (JNull) ''user_id'' validate_uuid_or_none"

definition NOTIFICATION_PREFERENCES_HIDDEN_ROLES :: key_spec where
  "NOTIFICATION_PREFERENCES_HIDDEN_ROLES =
     key_spec ''notification_preferences_hidden_roles'' ''notifications'' ''list[string]''
       (JArr []) ''roles'' validate_role_list"

definition INTAKE_FIELDS_VISIBLE :: key_spec where
  "INTAKE_FIELDS_VISIBLE =
     key_spec ''intake_fields_visible'' ''intake'' ''list[string]''
       (JArr (map JStr INTAKE_FIELDS_CANONICAL)) ''fields'' validate_intake_field_subset"

definition INTAKE_FIELDS_ORDER :: key_spec where
  "INTAKE_FIELDS_ORDER =
     key_spec ''intake_fields_order'' ''intake'' ''list[string]''
       (JArr (map JStr INTAKE_FIELDS_CANONICAL)) ''fields'' validate_intake_field_subset"

definition CONSIGNMENT_PRICE_CHANGE_THRESHOLD_PCT :: key_spec where
  "CONSIGNMENT_PRICE_CHANGE_THRESHOLD_PCT =
     key_spec ''consignment_price_change_threshold_pct'' ''consignment'' ''int''
       (JInt 10) ''pct'' (validate_int_in_range 0 100)"

definition CALENDAR_BUFFER_MINUTES_DEFAULT :: key_spec where
  "CALENDAR_BUFFER_MINUTES_DEFAULT =
     key_spec ''calendar_buffer_minutes_default'' ''calendar'' ''int''
       (JInt 30) ''minutes'' validate_positive_int"

definition SECURITY_SESSION_TTL_MINUTES :: key_spec where
  "SECURITY_SESSION_TTL_MINUTES =
     key_spec ''security_session_ttl_minutes'' ''security'' ''int''
       (JInt 60) ''minutes'' (validate_int_in_range 5 720)"

definition NOTIFICATION_PREFERENCES_READ_ONLY_ROLES :: key_spec where
  "NOTIFICATION_PREFERENCES_READ_ONLY_ROLES =
     key_spec ''notification_preferences_read_only_roles'' ''notifications'' ''list[string]''
       (JArr [JStr ''customer'']) ''roles'' validate_role_list"

definition ENABLE_PLAYWRIGHT_VALUATION_SCRAPER :: key_spec where
  "ENABLE_PLAYWRIGHT_VALUATION_SCRAPER =
     key_spec ''enable_playwright_valuation_scraper'' ''valuation'' ''boolean''
       (JBool False) ''enabled'' validate_bool"

definition VALUATION_YEAR_RANGE :: key_spec where
  "VALUATION_YEAR_RANGE =
     key_spec ''valuation_year_range'' ''valuation'' ''int''
       (JInt 3) ''years'' (validate_int_at_least 1)"

definition VALUATION_HOURS_RANGE :: key_spec where
  "VALUATION_HOURS_RANGE =
     key_spec ''valuation_hours_range'' ''valuation'' ''int''
       (JInt 500) ''hours'' (validate_int_at_least 1)"

definition PHOTO_GPS_RADIUS_TOLERANCE_METERS :: key_spec where
  "PHOTO_GPS_RADIUS_TOLERANCE_METERS =
     key_spec ''photo_gps_radius_tolerance_meters'' ''photos'' ''int''
       (JInt 5000) ''meters'' (validate_int_at_least 1)"

definition EQUIPMENT_RECORD_OVERDUE_THRESHOLD_DAYS :: key_spec where
  "EQUIPMENT_RECORD_OVERDUE_THRESHOLD_DAYS =
     key_spec ''equipment_record_overdue_threshold_days'' ''operations'' ''int''
       (JInt 7) ''days'' (validate_int_at_least 1)"

definition PDF_PAGE_SIZE :: key_spec where
  "PDF_PAGE_SIZE =
     key_spec ''pdf_page_size'' ''pdf'' ''string''
       (JStr ''A4'') ''size'' validate_page_size"

definition PDF_BRAND_PRIMARY_COLOR :: key_spec where
  "PDF_BRAND_PRIMARY_COLOR =
     key_spec ''pdf_brand_primary_color'' ''pdf'' ''string''
       (JStr ''#1E3A5F'') ''color'' validate_anything"

definition PDF_FONT_FAMILY :: key_spec where
  "PDF_FONT_FAMILY =
     key_spec ''pdf_font_family'' ''pdf'' ''string''
       (JStr ''Inter, sans-serif'') ''font'' validate_anything"

definition COMPANY_LOGO_URL :: key_spec where
  "COMPANY_LOGO_URL =
     key_spec ''company_logo_url'' ''pdf'' ''string''
       (JStr '''') ''url'' validate_anything"

definition registry_keys :: "key_spec list" where
  "registry_keys =
     [TOS_CURRENT_VERSION, PRIVACY_CURRENT_VERSION, DRIVE_TIME_FALLBACK_MINUTES,
      DEFAULT_SALES_REP_ID, NOTIFICATION_PREFERENCES_HIDDEN_ROLES,
      INTAKE_FIELDS_VISIBLE, INTAKE_FIELDS_ORDER,
      CONSIGNMENT_PRICE_CHANGE_THRESHOLD_PCT, CALENDAR_BUFFER_MINUTES_DEFAULT,
      SECURITY_SESSION_TTL_MINUTES, NOTIFICATION_PREFERENCES_READ_ONLY_ROLES,
      ENABLE_PLAYWRIGHT_VALUATION_SCRAPER, VALUATION_YEAR_RANGE,
      VALUATION_HOURS_RANGE, PHOTO_GPS_RADIUS_TOLERANCE_METERS,
      EQUIPMENT_RECORD_OVERDUE_THRESHOLD_DAYS, PDF_PAGE_SIZE, PDF_BRAND_PRIMARY_COLOR,
      PDF_FONT_FAMILY, COMPANY_LOGO_URL]"

definition get_spec :: "string \<Rightarrow> key_spec op" where
  "get_spec key =
     (case find (\<lambda>k. ks_name k = key) registry_keys of
        None \<Rightarrow> raise (KeyError key) | Some k \<Rightarrow> ret k)"

subsection \<open>Typed access\<close>

definition get_typed :: "string \<Rightarrow> json op" where
  "get_typed key =
     bind (get_spec key) (\<lambda>spec.
     bind (select_one app_configs (\<lambda>c. cfg_key c = key)) (\<lambda>raw.
     case raw of
       None \<Rightarrow> ret (ks_default spec)
     | Some c \<Rightarrow>
         if cfg_value c = JNull then ret (ks_default spec)
         else ret (parse_dict_field (ks_field spec) (cfg_value c))))"

definition upsert_config :: "string \<Rightarrow> json \<Rightarrow> app_config list \<Rightarrow> app_config list" where
  "upsert_config key v cs =
     (if \<exists>c \<in> set cs. cfg_key c = key
      then update_where (\<lambda>c. cfg_key c = key) (\<lambda>c. c\<lparr>cfg_value := v\<rparr>) cs
      else cs @ [\<lparr>cfg_key = key, cfg_value = v\<rparr>])"

definition set_typed :: "string \<Rightarrow> json \<Rightarrow> unit op" where
  "set_typed key typed_value =
     bind (get_spec key) (\<lambda>spec.
     case ks_validator spec typed_value of
       Some e \<Rightarrow> raise e
     | None \<Rightarrow>
         writes (\<lambda>s. s\<lparr>app_configs :=
           upsert_config key (serialize_dict_field (ks_field spec) typed_value) (app_configs s)\<rparr>))"

definition config_keys_distinct :: "db \<Rightarrow> bool" where
  "config_keys_distinct s \<longleftrightarrow> distinct (map cfg_key (app_configs s))"

subsection \<open>Facts\<close>

lemma get_spec_run [run_simps]:
  "get_spec key s =
     (case find (\<lambda>k. ks_name k = key) registry_keys of
        None \<Rightarrow> (Inl (KeyError key), s) | Some k \<Rightarrow> (Inr k, s))"
  by (simp add: get_spec_def split: option.splits)

lemma keys_upsert_config:
  "map cfg_key (upsert_config key v cs) =
     (if key \<in> cfg_key ` set cs then map cfg_key cs else map cfg_key cs @ [key])"
  by (auto simp: upsert_config_def map_update_where)

lemma filter_upsert_config:
  assumes "distinct (map cfg_key cs)"
  shows "\<exists>c. filter (\<lambda>c. cfg_key c = key) (upsert_config key v cs) = [c] \<and> cfg_value c = v"
proof (cases "\<exists>c \<in> set cs. cfg_key c = key")
  case True
  then obtain c where c: "c \<in> set cs" "cfg_key c = key" by blast
  have "c\<lparr>cfg_value := v\<rparr> \<in> set (upsert_config key v cs)"
    using True c by (force simp: upsert_config_def update_where_def)
  moreover have "distinct (map cfg_key (upsert_config key v cs))"
    using True assms by (auto simp: keys_upsert_config)
  ultimately have "filter (\<lambda>c. cfg_key c = key) (upsert_config key v cs) = [c\<lparr>cfg_value := v\<rparr>]"
    using c by (intro filter_key_distinct) auto
  then show ?thesis by simp
next
  case False
  then show ?thesis by (auto simp: upsert_config_def filter_empty_conv)
qed

lemma config_keys_distinct_set_typed: "confined (preserves config_keys_distinct) (set_typed k v)"
proof (rule confinedI)
  fix s r t
  assume "set_typed k v s = (r, t)"
  then show "preserves config_keys_distinct s t"
    by (auto simp: preserves_def set_typed_def run_simps config_keys_distinct_def
        keys_upsert_config split: option.splits)
qed

lemma get_typed_pure: "get_typed key s = (r, t) \<Longrightarrow> t = s"
  by (auto simp: get_typed_def run_simps split: option.splits list.splits if_splits)

end
