(* ===== verification/Recipients.thy ===== *)
theory Recipients
  imports AppConfig
begin

section \<open>Who is notified, and where: preferences, device tokens, watchers\<close>

text \<open>
  \<^verbatim>\<open>api/services/notification_preferences_service.py\<close>,
  \<^verbatim>\<open>api/services/unified_notification_prefs_service.py\<close>,
  \<^verbatim>\<open>api/services/device_token_service.py\<close>, \<^verbatim>\<open>api/services/watchers_service.py\<close> and the routes
  \<^verbatim>\<open>api/routers/me_notifications.py\<close> and \<^verbatim>\<open>api/routers/me_device_tokens.py\<close>. The tables have
  one preference row per user, one token row per user and token, one watcher row per record
  and user: \<open>recipients_ok\<close> states these constraints, and every operation keeps them.
\<close>

subsection \<open>Notification preferences\<close>

definition ALLOWED_CHANNELS :: "string list" where
  "ALLOWED_CHANNELS = [''email'', ''sms'', ''slack'']"

record resolved_channel =
  rcv_channel :: string
  rcv_destination :: "string option"

definition resolved :: "string \<Rightarrow> string option \<Rightarrow> resolved_channel" where
  "resolved c d = \<lparr>rcv_channel = c, rcv_destination = d\<rparr>"

definition get_for_user :: "uuid \<Rightarrow> notification_preference option op" where
  "get_for_user user_id = select_one notification_preferences (\<lambda>p. pref_user_id p = user_id)"

definition upsert_for_user ::
  "env \<Rightarrow> uuid \<Rightarrow> string \<Rightarrow> string option \<Rightarrow> string option \<Rightarrow> notification_preference op" where
  "upsert_for_user E user_id channel phone_number slack_user_id =
     seq (require (channel \<in> set ALLOWED_CHANNELS)
            (ValueError ''channel must be one of [email, slack, sms]''))
     (bind (uuid4 E) (\<lambda>new_id.
      seq (writes (\<lambda>s. s\<lparr>notification_preferences :=
             (if \<exists>p \<in> set (notification_preferences s). pref_user_id p = user_id
              then update_where (\<lambda>p. pref_user_id p = user_id)
                     (\<lambda>p. p\<lparr>pref_channel := channel, pref_phone_number := phone_number,
                            pref_slack_user_id := slack_user_id\<rparr>) (notification_preferences s)
              else notification_preferences s @
                     [\<lparr>pref_id = new_id, pref_user_id = user_id, pref_channel = channel,
                       pref_slack_user_id = slack_user_id, pref_phone_number = phone_number\<rparr>])\<rparr>))
      (bind (reads (\<lambda>s. filter (\<lambda>p. pref_user_id p = user_id) (notification_preferences s)))
        scalar_one)))"

definition resolve_channel :: "user \<Rightarrow> resolved_channel op" where
  "resolve_channel user =
     bind (get_for_user (usr_id user)) (\<lambda>pref.
     case pref of
       None \<Rightarrow> ret (resolved ''email'' (Some (usr_email user)))
     | Some p \<Rightarrow>
         if pref_channel p = ''sms'' then
           if \<not> str_truthy (pref_phone_number p)
           then ret (resolved ''email'' (Some (usr_email user)))
           else ret (resolved ''sms'' (pref_phone_number p))
         else if pref_channel p = ''slack'' then ret (resolved ''email'' (Some (usr_email user)))
         else ret (resolved ''email'' (Some (usr_email user))))"

text \<open>\<^verbatim>\<open>role_slug in (roles or [])\<close> on a value read from the configuration.\<close>

fun slug_in :: "string \<Rightarrow> json \<Rightarrow> bool op" where
  "slug_in slug (JArr xs) = ret (JStr slug \<in> set xs)"
| "slug_in slug (JObj kvs) = ret (slug \<in> fst ` set kvs)"
| "slug_in slug (JStr t) = ret (\<exists>p q. t = p @ slug @ q \<and> t \<noteq> '''')"
| "slug_in slug v =
     (if json_truthy v then raise (TypeError ''argument is not iterable'') else ret False)"

definition is_hidden_for_role :: "string \<Rightarrow> bool op" where
  "is_hidden_for_role slug =
     bind (get_typed (ks_name NOTIFICATION_PREFERENCES_HIDDEN_ROLES)) (slug_in slug)"

definition is_read_only_for_role :: "string \<Rightarrow> bool op" where
  "is_read_only_for_role slug =
     bind (get_typed (ks_name NOTIFICATION_PREFERENCES_READ_ONLY_ROLES)) (slug_in slug)"

subsection \<open>The preference routes\<close>

record preference_out =
  po_channel :: string
  po_phone_number :: "string option"
  po_slack_user_id :: "string option"
  po_read_only :: bool

definition pref_role_slug :: "user \<Rightarrow> string op" where
  "pref_role_slug user =
     bind (select_one roles (\<lambda>r. role_id r = usr_role_id user)) (\<lambda>r.
     case r of None \<Rightarrow> raise (http 403 ''role not resolved'') | Some x \<Rightarrow> ret (role_slug x))"

definition get_preferences :: "user \<Rightarrow> preference_out op" where
  "get_preferences current_user =
     bind (pref_role_slug current_user) (\<lambda>role.
     bind (is_hidden_for_role role) (\<lambda>hidden.
     seq (require (\<not> hidden) (http 404 ''not found''))
     (bind (get_for_user (usr_id current_user)) (\<lambda>pref.
      bind (is_read_only_for_role role) (\<lambda>read_only.
      case pref of
        None \<Rightarrow> ret \<lparr>po_channel = ''email'', po_phone_number = None, po_slack_user_id = None,
                      po_read_only = read_only\<rparr>
      | Some p \<Rightarrow> ret \<lparr>po_channel = pref_channel p, po_phone_number = pref_phone_number p,
                        po_slack_user_id = pref_slack_user_id p, po_read_only = read_only\<rparr>)))))"

text \<open>
  The request body as \<^verbatim>\<open>NotificationPreferenceUpdate\<close> validates it: a literal channel, blank
  destinations collapsed to \<open>None\<close>, and the destination the channel needs. \<open>None\<close> is the 422.
\<close>

definition strip_or_none :: "string option \<Rightarrow> string option" where
  "strip_or_none v =
     (case v of None \<Rightarrow> None | Some x \<Rightarrow> if strip x = '''' then None else Some (strip x))"

definition validate_preference_update ::
  "string \<Rightarrow> string option \<Rightarrow> string option \<Rightarrow> (string \<times> string option \<times> string option) option" where
  "validate_preference_update channel phone slack =
     (let phone' = strip_or_none phone; slack' = strip_or_none slack
      in if channel \<notin> set ALLOWED_CHANNELS then None
         else if (case phone of Some x \<Rightarrow> length x > 20 | None \<Rightarrow> False) then None
         else if (case slack of Some x \<Rightarrow> length x > 100 | None \<Rightarrow> False) then None
         else if channel = ''sms'' \<and> phone' = None then None
         else if channel = ''slack'' \<and> slack' = None then None
         else Some (channel, phone', slack'))"

definition put_preferences ::
  "env \<Rightarrow> user \<Rightarrow> string \<Rightarrow> string option \<Rightarrow> string option \<Rightarrow> preference_out op" where
  "put_preferences E current_user channel phone slack =
     (case validate_preference_update channel phone slack of
        None \<Rightarrow> raise (http 422 ''validation error'')
      | Some (c, p, k) \<Rightarrow>
          bind (pref_role_slug current_user) (\<lambda>role.
          bind (is_hidden_for_role role) (\<lambda>hidden.
          seq (require (\<not> hidden) (http 404 ''not found''))
          (bind (is_read_only_for_role role) (\<lambda>read_only.
           seq (require (\<not> read_only)
                  (http 403 ''your role cannot edit notification preferences''))
           (bind (upsert_for_user E (usr_id current_user) c p k) (\<lambda>pref.
            ret \<lparr>po_channel = pref_channel pref, po_phone_number = pref_phone_number pref,
                 po_slack_user_id = pref_slack_user_id pref, po_read_only = False\<rparr>)))))))"

subsection \<open>The merged view of the administrator\<close>

record unified_view =
  uv_user_id :: uuid
  uv_email :: string
  uv_role_slug :: "string option"
  uv_channel :: string
  uv_phone_number :: "string option"
  uv_slack_user_id :: "string option"
  uv_intake_confirmations :: "bool option"
  uv_status_updates :: "bool option"
  uv_marketing :: "bool option"
  uv_sms_opt_in :: "bool option"

definition DEFAULT_PREFS :: "string \<Rightarrow> bool" where
  "DEFAULT_PREFS key = (key = ''intake_confirmations'' \<or> key = ''status_updates'')"

definition pref_lookup :: "customer option \<Rightarrow> string \<Rightarrow> bool option" where
  "pref_lookup customer key =
     (case customer of
        None \<Rightarrow> None
      | Some c \<Rightarrow>
          (case (case cus_communication_prefs c of
                   None \<Rightarrow> JObj [] | Some j \<Rightarrow> if json_truthy j then j else JObj []) of
             JObj kvs \<Rightarrow> (case obj_get kvs key of JBool b \<Rightarrow> Some b | _ \<Rightarrow> Some (DEFAULT_PREFS key))
           | _ \<Rightarrow> Some (DEFAULT_PREFS key)))"

definition unified_for_user :: "uuid \<Rightarrow> unified_view op" where
  "unified_for_user user_id =
     bind (bind (reads (\<lambda>s. filter (\<lambda>u. usr_id u = user_id) (users s))) scalar_one) (\<lambda>user.
     bind (select_one customers (\<lambda>c. cus_user_id c = Some user_id)) (\<lambda>customer.
     bind (get_for_user user_id) (\<lambda>pref.
     bind (reads (\<lambda>s. find (\<lambda>r. role_id r = usr_role_id user) (roles s))) (\<lambda>role.
     ret \<lparr>uv_user_id = usr_id user, uv_email = usr_email user,
          uv_role_slug = map_option role_slug role,
          uv_channel = (case pref of Some p \<Rightarrow> pref_channel p | None \<Rightarrow> ''email''),
          uv_phone_number = (case pref of Some p \<Rightarrow> pref_phone_number p | None \<Rightarrow> None),
          uv_slack_user_id = (case pref of Some p \<Rightarrow> pref_slack_user_id p | None \<Rightarrow> None),
          uv_intake_confirmations = pref_lookup customer ''intake_confirmations'',
          uv_status_updates = pref_lookup customer ''status_updates'',
          uv_marketing = pref_lookup customer ''marketing'',
          uv_sms_opt_in = pref_lookup customer ''sms_opt_in''\<rparr>))))"

subsection \<open>Device tokens\<close>

definition ALLOWED_PLATFORMS :: "string list" where "ALLOWED_PLATFORMS = [''ios'', ''android'']"
definition ALLOWED_ENVIRONMENTS :: "string list" where
  "ALLOWED_ENVIRONMENTS = [''development'', ''production'']"

definition upsert_token ::
  "uuid \<Rightarrow> datetime \<Rightarrow> uuid \<Rightarrow> string \<Rightarrow> string \<Rightarrow> string \<Rightarrow> device_token list \<Rightarrow> device_token list" where
  "upsert_token new_id t user_id platform token environment rows =
     (let same_key = (\<lambda>d. dt_user_id d = user_id \<and> dt_token d = token)
      in if \<exists>d \<in> set rows. same_key d
         then update_where same_key
                (\<lambda>d. d\<lparr>dt_last_seen_at := t, dt_deleted_at := None,
                       dt_environment := environment\<rparr>) rows
         else rows @ [\<lparr>dt_id = new_id, dt_user_id = user_id, dt_platform = platform,
                dt_token = token, dt_environment = environment, dt_last_seen_at = t,
                dt_deleted_at = None\<rparr>])"

definition register_token ::
  "env \<Rightarrow> user \<Rightarrow> string \<Rightarrow> string \<Rightarrow> string \<Rightarrow> device_token op" where
  "register_token E user platform token environment =
     seq (require (platform \<in> set ALLOWED_PLATFORMS) (ValueError ''platform must be one of''))
     (seq (require (environment \<in> set ALLOWED_ENVIRONMENTS)
             (ValueError ''environment must be one of''))
     (seq (require (token \<noteq> '''') (ValueError ''token must not be empty''))
     (bind (uuid4 E) (\<lambda>new_id.
      bind now (\<lambda>t.
      seq (writes (\<lambda>s. s\<lparr>device_tokens :=
             upsert_token new_id t (usr_id user) platform token environment (device_tokens s)\<rparr>))
      (bind (reads (\<lambda>s. filter (\<lambda>d. dt_user_id d = usr_id user \<and> dt_token d = token)
                           (device_tokens s)))
        scalar_one))))))"

definition soft_delete_tokens :: "(device_token \<Rightarrow> bool) \<Rightarrow> nat op" where
  "soft_delete_tokens p =
     bind now (\<lambda>t.
     bind (reads (\<lambda>s. length (filter (\<lambda>d. p d \<and> dt_deleted_at d = None) (device_tokens s)))) (\<lambda>n.
     seq (writes (\<lambda>s. s\<lparr>device_tokens := update_where (\<lambda>d. p d \<and> dt_deleted_at d = None)
            (\<lambda>d. d\<lparr>dt_deleted_at := Some t\<rparr>) (device_tokens s)\<rparr>))
     (ret n)))"

definition revoke_token :: "user \<Rightarrow> string \<Rightarrow> bool op" where
  "revoke_token user token =
     bind (soft_delete_tokens (\<lambda>d. dt_user_id d = usr_id user \<and> dt_token d = token)) (\<lambda>n.
     ret (n > 0))"

definition tokens_for_user :: "uuid \<Rightarrow> string option \<Rightarrow> device_token list op" where
  "tokens_for_user user_id platform =
     reads (\<lambda>s. filter (\<lambda>d. dt_user_id d = user_id \<and> dt_deleted_at d = None \<and>
       (case platform of None \<Rightarrow> True | Some p \<Rightarrow> dt_platform d = p)) (device_tokens s))"

definition revoke_by_id :: "uuid \<Rightarrow> unit op" where
  "revoke_by_id token_id = bind (soft_delete_tokens (\<lambda>d. dt_id d = token_id)) (\<lambda>_. ret ())"

definition revoke_all_for_user :: "user \<Rightarrow> nat op" where
  "revoke_all_for_user user = soft_delete_tokens (\<lambda>d. dt_user_id d = usr_id user)"

text \<open>The last eight characters that the token routes show.\<close>

definition token_preview :: "device_token \<Rightarrow> string" where
  "token_preview row =
     (if length (dt_token row) \<ge> 8 then drop (length (dt_token row) - 8) (dt_token row)
      else dt_token row)"

subsection \<open>Watchers\<close>

definition list_watchers :: "uuid \<Rightarrow> record_watcher list op" where
  "list_watchers record_id =
     reads (\<lambda>s. sort_key wat_added_at (filter (\<lambda>w. wat_record_id w = record_id) (watchers s)))"

definition is_watching :: "uuid \<Rightarrow> uuid \<Rightarrow> record_watcher \<Rightarrow> bool" where
  "is_watching record_id user_id w = (wat_record_id w = record_id \<and> wat_user_id w = user_id)"

definition add_watcher :: "uuid \<Rightarrow> uuid \<Rightarrow> uuid option \<Rightarrow> record_watcher op" where
  "add_watcher record_id user_id added_by =
     bind (select_one equipment_records (\<lambda>r. er_id r = record_id \<and> er_deleted_at r = None)) (\<lambda>rec.
     seq (require (rec \<noteq> None) (http 404 ''Equipment record not found.''))
     (bind (select_one users (\<lambda>u. usr_id u = user_id)) (\<lambda>user.
      seq (require (case user of None \<Rightarrow> False | Some u \<Rightarrow> usr_status u = ''active'')
             (http 422 ''Watcher target user not found or inactive.''))
      (bind now (\<lambda>t.
       seq (writes (\<lambda>s. s\<lparr>watchers :=
              (if \<exists>w \<in> set (watchers s). is_watching record_id user_id w then watchers s
               else watchers s @ [\<lparr>wat_record_id = record_id, wat_user_id = user_id,
                      wat_added_by = added_by, wat_added_at = t\<rparr>])\<rparr>))
       (bind (reads (\<lambda>s. filter (is_watching record_id user_id) (watchers s))) scalar_one))))))"

definition remove_watcher :: "uuid \<Rightarrow> uuid \<Rightarrow> bool op" where
  "remove_watcher record_id user_id =
     bind (select_one watchers (is_watching record_id user_id)) (\<lambda>existing.
     case existing of
       None \<Rightarrow> ret False
     | Some w \<Rightarrow>
         seq (writes (\<lambda>s. s\<lparr>watchers := delete_where (is_watching record_id user_id) (watchers s)\<rparr>))
           (ret True))"

definition watcher_user_ids :: "uuid \<Rightarrow> uuid list op" where
  "watcher_user_ids record_id =
     reads (\<lambda>s. map wat_user_id (filter (\<lambda>w. wat_record_id w = record_id) (watchers s)))"

subsection \<open>The uniqueness constraints\<close>

definition recipients_ok :: "db \<Rightarrow> bool" where
  "recipients_ok s \<longleftrightarrow>
     distinct (map pref_user_id (notification_preferences s)) \<and>
     distinct (map (\<lambda>d. (dt_user_id d, dt_token d)) (device_tokens s)) \<and>
     distinct (map (\<lambda>w. (wat_record_id w, wat_user_id w)) (watchers s))"

subsection \<open>Facts\<close>

lemma get_for_user_run [run_simps]:
  "get_for_user u s =
     (case filter (\<lambda>p. pref_user_id p = u) (notification_preferences s) of
        [] \<Rightarrow> (Inr None, s) | [r] \<Rightarrow> (Inr (Some r), s) | _ \<Rightarrow> (Inl MultipleResultsFound, s))"
  by (simp add: get_for_user_def select_one_run)

lemma resolve_channel_pure: "resolve_channel u s = (r, t) \<Longrightarrow> t = s"
  by (auto simp: resolve_channel_def run_simps split: list.splits if_splits option.splits)

text \<open>The channel is e-mail or SMS, and SMS always has a number: Slack collapses to e-mail.\<close>

lemma resolve_channel_cases:
  assumes "resolve_channel u s = (Inr c, t)"
  shows "c = resolved ''email'' (Some (usr_email u)) \<or>
    (\<exists>p. c = resolved ''sms'' (Some p) \<and> p \<noteq> '''')"
  using assms
  by (auto simp: resolve_channel_def run_simps resolved_def str_truthy_def
      split: list.splits if_splits option.splits)

lemma resolve_channel_returns:
  assumes "recipients_ok s"
  shows "\<exists>c. resolve_channel u s = (Inr c, s)"
proof -
  have "length (filter (\<lambda>p. pref_user_id p = usr_id u) (notification_preferences s)) \<le> 1"
    using assms by (intro filter_key_length) (simp add: recipients_ok_def)
  then show ?thesis
    by (auto simp: resolve_channel_def run_simps split: list.splits if_splits option.splits)
qed

context db_relation
begin

lemma confined_resolve_channel: "confined R (resolve_channel u)"
  using resolve_channel_pure R_refl by (intro confinedI) (metis (no_types))

lemma confined_tokens_for_user: "confined R (tokens_for_user u p)"
  unfolding tokens_for_user_def by (rule confined_reads)

lemma confined_watcher_user_ids: "confined R (watcher_user_ids r)"
  unfolding watcher_user_ids_def by (rule confined_reads)

end

interpretation recipients_inv: db_relation "preserves recipients_ok"
  by unfold_locales (simp add: preserves_def recipients_ok_def)

lemma recipients_ok_upsert: "confined (preserves recipients_ok) (upsert_for_user E u c p k)"
  unfolding upsert_for_user_def
  by (intro recipients_inv.db_intros)
    (auto simp: preserves_def recipients_ok_def map_update_where)

lemma upsert_token_keys:
  "distinct (map (\<lambda>d. (dt_user_id d, dt_token d)) rows) \<Longrightarrow>
   distinct (map (\<lambda>d. (dt_user_id d, dt_token d)) (upsert_token i t u p k e rows))"
  by (auto simp: upsert_token_def Let_def map_update_where)

lemma recipients_ok_register_token:
  "confined (preserves recipients_ok) (register_token E u p k e)"
  unfolding register_token_def
  by (intro recipients_inv.db_intros)
    (auto simp: preserves_def recipients_ok_def upsert_token_keys)

lemma recipients_ok_soft_delete: "confined (preserves recipients_ok) (soft_delete_tokens p)"
  unfolding soft_delete_tokens_def
  by (intro recipients_inv.db_intros)
    (auto simp: preserves_def recipients_ok_def map_update_where)

lemma recipients_ok_add_watcher: "confined (preserves recipients_ok) (add_watcher r u b)"
  unfolding add_watcher_def
  by (intro recipients_inv.db_intros)
    (auto simp: preserves_def recipients_ok_def is_watching_def)

lemma recipients_ok_remove_watcher: "confined (preserves recipients_ok) (remove_watcher r u)"
  unfolding remove_watcher_def
  by (intro recipients_inv.db_intros)
    (auto simp: preserves_def recipients_ok_def distinct_delete_where)

text \<open>What revoking leaves: no active row of the predicate.\<close>

lemma soft_delete_none_active:
  assumes "soft_delete_tokens p s = (r, t)" "\<And>d x. p (d\<lparr>dt_deleted_at := x\<rparr>) = p d"
  shows "\<forall>d \<in> set (device_tokens t). p d \<longrightarrow> dt_deleted_at d \<noteq> None"
  using assms by (auto simp: soft_delete_tokens_def run_simps update_where_def)

end
