(* ===== verification/Notifications.thy ===== *)
theory Notifications
  imports Recipients
begin

section \<open>The durable notification queue\<close>

text \<open>
  \<^verbatim>\<open>api/services/notification_service.py\<close>, the dispatchers
  \<^verbatim>\<open>api/services/slack_dispatch_service.py\<close> and \<^verbatim>\<open>api/services/apns_dispatch_service.py\<close>, the
  vault \<^verbatim>\<open>api/services/credentials_vault.py\<close> and the worker
  \<^verbatim>\<open>scripts/notification_worker.py\<close>. A job is inserted once per idempotency key; the worker
  claims due jobs, dispatches each, and settles or reschedules it with a backoff.

  What a provider received is appended to \<open>outbox\<close>. The mail helpers swallow every failure
  of the transport, so an e-mail counts as handed over as soon as it is attempted.
\<close>

subsection \<open>The credentials vault\<close>

definition resolve_keys :: "env \<Rightarrow> exn + string list" where
  "resolve_keys E =
     (let raw = (if strip (cfg_credentials_encryption_key E) \<noteq> ''''
                 then strip (cfg_credentials_encryption_key E)
                 else strip (cfg_totp_encryption_key E));
          keys = map strip (filter (\<lambda>k. strip k \<noteq> '''') (split_on (CHR '','') raw))
      in if raw = '''' then Inl (RuntimeError ''credentials_encryption_key (or totp_encryption_key) must be set; neither is configured.'')
         else if keys = [] then Inl (RuntimeError ''credentials_encryption_key parsed to empty list.'')
         else Inr keys)"

text \<open>\<^verbatim>\<open>MultiFernet([Fernet(k) for k in keys])\<close>: the first key encrypts, each one may decrypt.\<close>

definition build_keys :: "env \<Rightarrow> string list op" where
  "build_keys E =
     (case resolve_keys E of
        Inl e \<Rightarrow> raise e
      | Inr keys \<Rightarrow> if list_all (fernet_valid_key E) keys then ret keys
                     else raise (ValueError ''Fernet key must be 32 url-safe base64-encoded bytes.''))"

primrec multi_decrypt :: "env \<Rightarrow> string list \<Rightarrow> string \<Rightarrow> string option" where
  "multi_decrypt E [] c = None"
| "multi_decrypt E (k # ks) c =
     (case fernet_decrypt E k c of Some p \<Rightarrow> Some p | None \<Rightarrow> multi_decrypt E ks c)"

definition vault_encrypt :: "env \<Rightarrow> string \<Rightarrow> string op" where
  "vault_encrypt E plaintext =
     seq (require (plaintext \<noteq> '''') (ValueError ''plaintext must not be empty''))
     (bind (build_keys E) (\<lambda>keys.
      bind (reads draws) (\<lambda>n.
      seq (writes (\<lambda>s. s\<lparr>draws := Suc (draws s)\<rparr>))
      (ret (fernet_encrypt E (hd keys) n plaintext)))))"

definition vault_decrypt :: "env \<Rightarrow> string \<Rightarrow> string op" where
  "vault_decrypt E ciphertext =
     bind (build_keys E) (\<lambda>keys.
     case multi_decrypt E keys ciphertext of
       Some p \<Rightarrow> ret p | None \<Rightarrow> raise VaultDecryptError)"

subsection \<open>Enqueueing\<close>

definition BACKOFF_SECONDS :: "int list" where
  "BACKOFF_SECONDS = [30, 120, 600, 3600, 21600]"

definition CHANNELS :: "string list" where
  "CHANNELS = [''email'', ''sms'', ''slack'', ''apns'']"

definition new_job ::
  "uuid \<Rightarrow> string \<Rightarrow> uuid option \<Rightarrow> string \<Rightarrow> string \<Rightarrow> (string \<times> json) list \<Rightarrow> datetime \<Rightarrow>
   notification_job" where
  "new_job i key user_id channel template payload due =
     \<lparr>job_id = i, job_idempotency_key = key, job_user_id = user_id, job_channel = channel,
      job_template = template, job_payload = payload, job_status = ''pending'',
      job_attempts = 0, job_max_attempts = 5, job_scheduled_for = due,
      job_processed_at = None, job_last_error = None\<rparr>"

definition has_key :: "string \<Rightarrow> db \<Rightarrow> bool" where
  "has_key key s = (\<exists>j \<in> set (notification_jobs s). job_idempotency_key j = key)"

definition enqueue ::
  "env \<Rightarrow> string \<Rightarrow> uuid option \<Rightarrow> string \<Rightarrow> string \<Rightarrow> (string \<times> json) list \<Rightarrow>
   datetime option \<Rightarrow> notification_job option op" where
  "enqueue E idempotency_key user_id channel template payload scheduled_for =
     seq (require (channel \<in> set CHANNELS)
            (ValueError (''Unknown notification channel: '' @ channel)))
     (bind (uuid4 E) (\<lambda>new_id.
      bind now (\<lambda>t.
      bind (reads (has_key idempotency_key)) (\<lambda>taken.
      if taken then ret None
      else
        let job = new_job new_id idempotency_key user_id channel template payload
                    (case scheduled_for of None \<Rightarrow> t | Some d \<Rightarrow> d)
        in seq (writes (\<lambda>s. s\<lparr>notification_jobs := notification_jobs s @ [job]\<rparr>))
             (ret (Some job))))))"

subsection \<open>Claiming a batch\<close>

definition is_due :: "datetime \<Rightarrow> notification_job \<Rightarrow> bool" where
  "is_due t j = (job_status j = ''pending'' \<and> job_scheduled_for j \<le> t)"

definition claim_next_batch :: "nat \<Rightarrow> notification_job list op" where
  "claim_next_batch limit =
     bind now (\<lambda>t.
     bind (reads (\<lambda>s. map job_id
             (take limit (sort_key job_scheduled_for (filter (is_due t) (notification_jobs s)))))) (\<lambda>ids.
     if ids = [] then ret []
     else
       seq (writes (\<lambda>s. s\<lparr>notification_jobs := update_where (\<lambda>j. job_id j \<in> set ids)
              (\<lambda>j. j\<lparr>job_status := ''processing''\<rparr>) (notification_jobs s)\<rparr>))
       (reads (\<lambda>s. filter (\<lambda>j. job_id j \<in> set ids) (notification_jobs s)))))"

subsection \<open>Dispatching: e-mail and SMS\<close>

text \<open>\<^verbatim>\<open>str(v)\<close> of a payload value.\<close>

definition json_str :: "env \<Rightarrow> json \<Rightarrow> string" where
  "json_str E v = (case v of JStr x \<Rightarrow> x | _ \<Rightarrow> json_repr E v)"

text \<open>A dispatcher returns the new status and, where it sets one, \<open>last_error\<close>.\<close>

type_synonym outcome = "string \<times> string option"

definition deliver :: "(string \<times> json) list \<Rightarrow> unit op" where
  "deliver msg = writes (\<lambda>s. s\<lparr>outbox := outbox s @ [msg]\<rparr>)"

definition send_email :: "json \<Rightarrow> json \<Rightarrow> json \<Rightarrow> unit op" where
  "send_email to_email subject html_body =
     deliver [(''via'', JStr ''email''), (''to'', to_email), (''subject'', subject),
              (''html'', html_body)]"

definition dispatch_email :: "notification_job \<Rightarrow> outcome op" where
  "dispatch_email job =
     (let payload = job_payload job;
          to_email = obj_get payload ''to_email'';
          subject = obj_get payload ''subject'';
          html_body = obj_get payload ''html_body''
      in if \<not> (json_truthy to_email \<and> json_truthy subject \<and> json_truthy html_body)
         then ret (''failed'', Some ''email payload missing to_email/subject/html_body'')
         else seq (send_email to_email subject html_body) (ret (''delivered'', None)))"

definition dispatch_sms :: "env \<Rightarrow> notification_job \<Rightarrow> outcome op" where
  "dispatch_sms E job =
     (if cfg_twilio_sid E = '''' then ret (''skipped'', Some ''sms_skipped_not_configured'')
      else
        let payload = job_payload job;
            to_number = obj_get payload ''to_number'';
            body = obj_get payload ''body''
        in if \<not> (json_truthy to_number \<and> json_truthy body)
           then ret (''failed'', Some ''sms payload missing to_number/body'')
           else (case twilio_send E (json_str E to_number) (json_str E body) of
                   Some err \<Rightarrow> raise (SendError err)
                 | None \<Rightarrow> seq (deliver [(''via'', JStr ''sms''), (''to'', to_number),
                                          (''body'', body)])
                             (ret (''delivered'', None))))"

subsection \<open>Dispatching: Apple push\<close>

definition load_apns_credential :: "env \<Rightarrow> json option op" where
  "load_apns_credential E =
     bind (select_one integration_credentials (\<lambda>c. ic_name c = ''apns'')) (\<lambda>row.
     case row of
       None \<Rightarrow> ret None
     | Some c \<Rightarrow>
         bind (vault_decrypt E (ic_encrypted_value c)) (\<lambda>plaintext.
         case json_loads E plaintext of
           None \<Rightarrow> raise JSONDecodeError
         | Some j \<Rightarrow> ret (Some j)))"

text \<open>\<^verbatim>\<open>cred[k]\<close>.\<close>

fun json_index :: "json \<Rightarrow> string \<Rightarrow> json op" where
  "json_index (JObj kvs) k =
     (case map_of kvs k of None \<Rightarrow> raise (KeyError k) | Some v \<Rightarrow> ret v)"
| "json_index _ k = raise (TypeError ''indices must be integers'')"

definition sign_jwt :: "env \<Rightarrow> json \<Rightarrow> string op" where
  "sign_jwt E cred =
     bind (json_index cred ''team_id'') (\<lambda>team.
     bind now (\<lambda>t.
     bind (json_index cred ''private_key'') (\<lambda>key.
     bind (json_index cred ''key_id'') (\<lambda>kid.
     case apns_jwt E [(''iss'', team), (''iat'', JInt (t div 1000000))] key kid of
       None \<Rightarrow> raise (SendError ''jwt signing failed'')
     | Some tok \<Rightarrow> ret tok))))"

definition apns_host :: "json \<Rightarrow> string" where
  "apns_host device_environment =
     (if device_environment = JStr ''production'' then ''https://api.push.apple.com''
      else ''https://api.sandbox.push.apple.com'')"

definition apns_headers :: "string \<Rightarrow> (string \<times> string) list" where
  "apns_headers signed_jwt =
     [(''authorization'', ''bearer '' @ signed_jwt), (''apns-topic'', ''com.templehe.appraiser''),
      (''apns-push-type'', ''alert''), (''apns-priority'', ''10''),
      (''content-type'', ''application/json'')]"

text \<open>\<^verbatim>\<open>payload.update(data)\<close>: later keys replace earlier ones.\<close>

definition dict_update :: "(string \<times> json) list \<Rightarrow> (string \<times> json) list \<Rightarrow> (string \<times> json) list" where
  "dict_update d u = filter (\<lambda>e. fst e \<notin> fst ` set u) d @ u"

definition apns_payload :: "json \<Rightarrow> json \<Rightarrow> json \<Rightarrow> (string \<times> json) list op" where
  "apns_payload title body data =
     (let base = [(''aps'', JObj [(''alert'', JObj [(''title'', title), (''body'', body)]),
                    (''sound'', JStr ''default'')])]
      in if \<not> json_truthy data then ret base
         else (case data of JObj u \<Rightarrow> ret (dict_update base u)
               | _ \<Rightarrow> raise (TypeError ''cannot update dict'')))"

definition apns_reason :: "env \<Rightarrow> string \<Rightarrow> json" where
  "apns_reason E response_body =
     (case json_loads E response_body of
        Some (JObj kvs) \<Rightarrow> (case map_of kvs ''reason'' of Some r \<Rightarrow> r | None \<Rightarrow> JStr ''unknown'')
      | _ \<Rightarrow> JStr ''unparseable'')"

definition PERMANENT_REASONS :: "json list" where
  "PERMANENT_REASONS = [JStr ''BadDeviceToken'', JStr ''Unregistered'', JStr ''MissingDeviceToken'']"

fun hashable :: "json \<Rightarrow> bool" where
  "hashable (JArr _) = False" | "hashable (JObj _) = False" | "hashable _ = True"

text \<open>What the answer of the push service is taken for: its status code and body.\<close>

definition apns_response ::
  "env \<Rightarrow> json \<Rightarrow> (string \<times> json) list \<Rightarrow> uuid option \<Rightarrow> nat \<Rightarrow> string \<Rightarrow> string op" where
  "apns_response E token payload device_token_id code text =
     (let reason = apns_reason E text
      in if code = 200
         then seq (deliver [(''via'', JStr ''apns''), (''to'', token), (''payload'', JObj payload)])
                (ret ''delivered'')
         else if code = 410 \<or> (code = 400 \<and> hashable reason \<and> reason \<in> set PERMANENT_REASONS)
         then (case device_token_id of
                 None \<Rightarrow> ret ''failed''
               | Some i \<Rightarrow> seq (revoke_by_id i) (ret ''failed''))
         else if code = 400 \<and> \<not> hashable reason then raise (TypeError ''unhashable type'')
         else if code \<ge> 500
         then raise (TransientAPNsError (''APNs 5xx: '' @ nat_str code @ '' '' @ json_str E reason))
         else ret ''failed'')"

definition apns_send ::
  "env \<Rightarrow> json \<Rightarrow> json \<Rightarrow> json \<Rightarrow> json \<Rightarrow> json \<Rightarrow> uuid option \<Rightarrow> string op" where
  "apns_send E token device_environment title body data device_token_id =
     bind (load_apns_credential E) (\<lambda>cred.
     case cred of
       None \<Rightarrow> ret ''skipped''
     | Some c \<Rightarrow>
         bind (sign_jwt E c) (\<lambda>signed_jwt.
         bind (apns_payload title body data) (\<lambda>payload.
         case apns_post E (apns_host device_environment @ ''/3/device/'' @ json_str E token)
                (apns_headers signed_jwt) payload of
           Inl err \<Rightarrow> raise (TransientAPNsError (''APNs connection error: '' @ err))
         | Inr resp \<Rightarrow> apns_response E token payload device_token_id (fst resp) (snd resp))))"

definition payload_get_or :: "(string \<times> json) list \<Rightarrow> string \<Rightarrow> json \<Rightarrow> json" where
  "payload_get_or p k d = (case map_of p k of None \<Rightarrow> d | Some v \<Rightarrow> v)"

text \<open>The \<^verbatim>\<open>except TransientAPNsError\<close> clause.\<close>

fun reraise_apns :: "exn \<Rightarrow> exn" where
  "reraise_apns (TransientAPNsError m) = RuntimeError m"
| "reraise_apns e = e"

definition dispatch_apns :: "env \<Rightarrow> notification_job \<Rightarrow> outcome op" where
  "dispatch_apns E job =
     (let payload = job_payload job;
          token = obj_get payload ''token'';
          device_environment = payload_get_or payload ''device_environment'' (JStr ''development'');
          title = payload_get_or payload ''title'' (JStr '''');
          body = payload_get_or payload ''body'' (JStr '''');
          device_token_id = (case obj_get payload ''device_token_id'' of
                               JStr x \<Rightarrow> if x = '''' then None else uuid_parse x | _ \<Rightarrow> None)
      in if \<not> json_truthy token then ret (''failed'', Some ''apns payload missing token'')
         else
           bind (attempt (apns_send E token device_environment title body
                   (obj_get payload ''data'') device_token_id)) (\<lambda>r.
           case r of
             Inl e \<Rightarrow> raise (reraise_apns e)
           | Inr status \<Rightarrow>
               ret (status, if status = ''skipped'' then Some ''apns_skipped_not_configured''
                            else None)))"

subsection \<open>Dispatching: Slack\<close>

definition load_webhook_url :: "env \<Rightarrow> string option op" where
  "load_webhook_url E =
     bind (select_one integration_credentials (\<lambda>c. ic_name c = ''slack'')) (\<lambda>row.
     case row of
       None \<Rightarrow> ret None
     | Some c \<Rightarrow> bind (vault_decrypt E (ic_encrypted_value c)) (\<lambda>u. ret (Some u)))"

definition slack_payload :: "env \<Rightarrow> json \<Rightarrow> json \<Rightarrow> (string \<times> json) list" where
  "slack_payload E text_body blocks =
     [(''text'', text_body)] @
     (if json_truthy blocks then [(''blocks'', blocks)] else []) @
     (if \<not> cfg_is_production E \<and> cfg_slack_staging_channel E \<noteq> ''''
      then [(''channel'', JStr (cfg_slack_staging_channel E))] else [])"

definition slack_send :: "env \<Rightarrow> json \<Rightarrow> json \<Rightarrow> unit op" where
  "slack_send E text_body blocks =
     bind (load_webhook_url E) (\<lambda>url.
     if \<not> str_truthy url then raise (PermanentSlackError ''slack_skipped_not_configured'')
     else
       let payload = slack_payload E text_body blocks
       in case slack_post E (the url) payload of
            Inl err \<Rightarrow> raise (TransientSlackError err)
          | Inr (code, text) \<Rightarrow>
              let detail = ''Slack returned HTTP '' @ nat_str code @ '': '' @ take 200 text
              in if code = 200 \<and> strip text = ''ok''
                 then deliver [(''via'', JStr ''slack''), (''payload'', JObj payload)]
                 else if code \<in> {429, 500, 502, 503, 504} then raise (TransientSlackError detail)
                 else raise (PermanentSlackError detail))"

definition json_or :: "json \<Rightarrow> json \<Rightarrow> json" where
  "json_or a b = (if json_truthy a then a else b)"

text \<open>The \<^verbatim>\<open>except PermanentSlackError\<close> clause: an outcome, or the exception goes on.\<close>

fun except_slack :: "exn \<Rightarrow> exn + outcome" where
  "except_slack (PermanentSlackError m) =
     Inr (if m = ''slack_skipped_not_configured''
          then (''skipped'', Some ''slack_skipped_not_configured'')
          else (''failed'', Some (take 1000 (''slack_permanent: '' @ m))))"
| "except_slack e = Inl e"

definition dispatch_slack :: "env \<Rightarrow> notification_job \<Rightarrow> outcome op" where
  "dispatch_slack E job =
     (let payload = job_payload job;
          text_body = json_or (json_or (obj_get payload ''text'') (obj_get payload ''body'')) (JStr '''')
      in if \<not> json_truthy text_body then ret (''failed'', Some ''slack payload missing text'')
         else
           bind (attempt (slack_send E text_body (obj_get payload ''blocks''))) (\<lambda>r.
           case r of
             Inl e \<Rightarrow> (case except_slack e of Inl e' \<Rightarrow> raise e' | Inr out \<Rightarrow> ret out)
           | Inr _ \<Rightarrow> ret (''delivered'', None)))"

subsection \<open>Processing a job\<close>

text \<open>\<^verbatim>\<open>f"{type(exc).__name__}: {exc}"\<close>, as far as the program itself chooses the text.\<close>

fun exn_text :: "exn \<Rightarrow> string" where
  "exn_text (HTTPException c d hs) = ''HTTPException: '' @ nat_str c @ '': '' @ d"
| "exn_text (LookupError m) = ''LookupError: '' @ m"
| "exn_text (ValueError m) = ''ValueError: '' @ m"
| "exn_text (TypeError m) = ''TypeError: '' @ m"
| "exn_text (KeyError m) = ''KeyError: '' @ m"
| "exn_text (RuntimeError m) = ''RuntimeError: '' @ m"
| "exn_text UndefinedError = ''UndefinedError: ''"
| "exn_text (IntegrityError m) = ''IntegrityError: '' @ m"
| "exn_text MultipleResultsFound = ''MultipleResultsFound: Multiple rows were found when one or none was required''"
| "exn_text NoResultFound = ''NoResultFound: No row was found when one was required''"
| "exn_text (LockHeldError l) = ''LockHeldError: ''"
| "exn_text (LockExpiredError m) = ''LockExpiredError: '' @ m"
| "exn_text (InvalidTokenError m) = ''InvalidTokenError: '' @ m"
| "exn_text VaultDecryptError = ''VaultDecryptError: Could not decrypt credential''"
| "exn_text FernetInvalidToken = ''InvalidToken: ''"
| "exn_text (TransientSlackError m) = ''TransientSlackError: '' @ m"
| "exn_text (PermanentSlackError m) = ''PermanentSlackError: '' @ m"
| "exn_text (TransientAPNsError m) = ''TransientAPNsError: '' @ m"
| "exn_text JSONDecodeError = ''JSONDecodeError: ''"
| "exn_text (AttributeError m) = ''AttributeError: '' @ m"
| "exn_text (DataError m) = ''DataError: '' @ m"
| "exn_text (SendError m) = m"

definition dispatch :: "env \<Rightarrow> notification_job \<Rightarrow> outcome op" where
  "dispatch E job =
     (if job_channel job = ''email'' then dispatch_email job
      else if job_channel job = ''sms'' then dispatch_sms E job
      else if job_channel job = ''slack'' then dispatch_slack E job
      else if job_channel job = ''apns'' then dispatch_apns E job
      else ret (''failed'', Some (''unknown channel: '' @ job_channel job)))"

text \<open>The job after one dispatch: \<open>new_status\<close> is the dispatcher's, or \<^verbatim>\<open>retry\<close>.\<close>

definition settle :: "datetime \<Rightarrow> string \<Rightarrow> string option \<Rightarrow> notification_job \<Rightarrow> notification_job" where
  "settle t new_status err job =
     (let job = job\<lparr>job_last_error := (case err of None \<Rightarrow> job_last_error job | Some e \<Rightarrow> Some e),
                    job_attempts := job_attempts job + 1\<rparr>
      in if new_status = ''retry''
         then if job_attempts job \<ge> job_max_attempts job
              then job\<lparr>job_status := ''failed'', job_processed_at := Some t\<rparr>
              else let idx = min (job_attempts job - 1) (int (length BACKOFF_SECONDS) - 1)
                   in job\<lparr>job_status := ''pending'',
                          job_scheduled_for := t + seconds (BACKOFF_SECONDS ! nat idx)\<rparr>
         else job\<lparr>job_status := new_status, job_processed_at := Some t\<rparr>)"

definition process_job :: "env \<Rightarrow> notification_job \<Rightarrow> string op" where
  "process_job E job =
     bind (attempt (dispatch E job)) (\<lambda>r.
     bind now (\<lambda>t.
     let job' = (case r of
                   Inl exc \<Rightarrow> settle t ''retry'' (Some (take 1000 (exn_text exc))) job
                 | Inr (new_status, err) \<Rightarrow> settle t new_status err job)
     in seq (writes (\<lambda>s. s\<lparr>notification_jobs := update_where (\<lambda>j. job_id j = job_id job)
               (\<lambda>j. j\<lparr>job_status := job_status job', job_attempts := job_attempts job',
                      job_processed_at := job_processed_at job',
                      job_last_error := job_last_error job',
                      job_scheduled_for := job_scheduled_for job'\<rparr>) (notification_jobs s)\<rparr>))
          (ret (job_status job'))))"

subsection \<open>The worker\<close>

text \<open>
  \<^verbatim>\<open>_process_batch\<close>: the claim commits, then each job runs in a session of its own, which
  rolls back and stops the batch if \<open>process_job\<close> raises.
\<close>

primrec process_jobs :: "env \<Rightarrow> notification_job list \<Rightarrow> nat \<Rightarrow> nat op" where
  "process_jobs E [] n = ret n"
| "process_jobs E (j # js) n =
     bind (get_db (process_job E j)) (\<lambda>_. process_jobs E js (n + 1))"

definition process_batch :: "env \<Rightarrow> nat \<Rightarrow> nat op" where
  "process_batch E batch_size =
     bind (get_db (claim_next_batch batch_size)) (\<lambda>jobs.
     if jobs = [] then ret 0 else process_jobs E jobs 0)"

subsection \<open>The synchronisation pushes\<close>

definition sync_confirmation_payload :: "uuid \<Rightarrow> device_token \<Rightarrow> (string \<times> json) list" where
  "sync_confirmation_payload submission_id token =
     [(''token'', JStr (dt_token token)), (''device_environment'', JStr (dt_environment token)),
      (''device_token_id'', JStr (uuid_str (dt_id token))), (''title'', JStr ''''),
      (''body'', JStr ''''),
      (''data'', JObj [(''content-available'', JInt 1),
         (''reference_number'', JStr (uuid_str submission_id))])]"

definition enqueue_sync_confirmation :: "env \<Rightarrow> appraisal_submission \<Rightarrow> unit op" where
  "enqueue_sync_confirmation E submission =
     (case sub_appraiser_id submission of
        None \<Rightarrow> ret ()
      | Some appraiser \<Rightarrow>
          bind (tokens_for_user appraiser (Some ''ios'')) (\<lambda>tokens.
          for_each tokens (\<lambda>token.
            bind (enqueue E (''sync_confirmation:'' @ uuid_str (sub_id submission) @ '':'' @
                    uuid_str (dt_id token)) (Some appraiser) ''apns'' ''sync_confirmation_apns''
                    (sync_confirmation_payload (sub_id submission) token) None)
              (\<lambda>_. ret ()))))"

definition sync_failed_payload :: "uuid \<Rightarrow> string \<Rightarrow> device_token \<Rightarrow> (string \<times> json) list" where
  "sync_failed_payload submission_id reason token =
     [(''token'', JStr (dt_token token)), (''device_environment'', JStr (dt_environment token)),
      (''device_token_id'', JStr (uuid_str (dt_id token))), (''title'', JStr ''Sync Failed''),
      (''body'', JStr (''Appraisal could not be synced: '' @ reason)),
      (''data'', JObj [(''reference_number'', JStr (uuid_str submission_id)),
         (''error_reason'', JStr reason)])]"

definition enqueue_sync_failed :: "env \<Rightarrow> appraisal_submission \<Rightarrow> string \<Rightarrow> unit op" where
  "enqueue_sync_failed E submission reason =
     (case sub_appraiser_id submission of
        None \<Rightarrow> ret ()
      | Some appraiser \<Rightarrow>
          bind (tokens_for_user appraiser (Some ''ios'')) (\<lambda>tokens.
          for_each tokens (\<lambda>token.
            bind (enqueue E (''sync_failed:'' @ uuid_str (sub_id submission) @ '':'' @
                    uuid_str (dt_id token)) (Some appraiser) ''apns'' ''sync_failed_apns''
                    (sync_failed_payload (sub_id submission) reason token) None)
              (\<lambda>_. ret ()))))"

subsection \<open>The life of a job\<close>

text \<open>
  The abstract specification of the queue: what may happen to one job, and the invariant it
  keeps. A job is claimed when due, and a claimed job is finished or rescheduled.
\<close>

definition final_status :: "string \<Rightarrow> bool" where
  "final_status x = (x \<in> {''delivered'', ''failed'', ''skipped''})"

inductive job_step :: "notification_job \<Rightarrow> notification_job \<Rightarrow> bool" where
  claim: "job_status j = ''pending'' \<Longrightarrow> job_step j (j\<lparr>job_status := ''processing''\<rparr>)"
| finish: "job_status j = ''processing'' \<Longrightarrow> final_status st \<Longrightarrow>
    job_step j (j\<lparr>job_status := st, job_attempts := job_attempts j + 1,
                  job_processed_at := Some t, job_last_error := e\<rparr>)"
| retry: "job_status j = ''processing'' \<Longrightarrow> job_attempts j + 1 < job_max_attempts j \<Longrightarrow>
    delay \<in> set BACKOFF_SECONDS \<Longrightarrow>
    job_step j (j\<lparr>job_status := ''pending'', job_attempts := job_attempts j + 1,
                  job_scheduled_for := t + seconds delay, job_last_error := e\<rparr>)"

inductive_cases job_stepE: "job_step j j'"

definition job_ok :: "notification_job \<Rightarrow> bool" where
  "job_ok j \<longleftrightarrow>
     (job_status j \<in> {''pending'', ''processing''} \<or> final_status (job_status j)) \<and>
     0 \<le> job_attempts j \<and> job_attempts j \<le> job_max_attempts j \<and>
     (\<not> final_status (job_status j) \<longrightarrow> job_attempts j < job_max_attempts j) \<and>
     (final_status (job_status j) \<longleftrightarrow> job_processed_at j \<noteq> None)"

lemma final_status_simps [simp]:
  "final_status ''delivered''" "final_status ''failed''" "final_status ''skipped''"
  "\<not> final_status ''pending''" "\<not> final_status ''processing''"
  by (simp_all add: final_status_def)

lemma new_job_ok: "job_ok (new_job i k u c m p d)"
  by (simp add: job_ok_def new_job_def)

lemma job_step_ok: "job_step j j' \<Longrightarrow> job_ok j \<Longrightarrow> job_ok j'"
  by (induction rule: job_step.induct) (auto simp: job_ok_def)

lemma job_steps_ok: "job_step\<^sup>*\<^sup>* j j' \<Longrightarrow> job_ok j \<Longrightarrow> job_ok j'"
  by (induction rule: rtranclp_induct) (auto intro: job_step_ok)

lemma job_step_final: "job_step j j' \<Longrightarrow> \<not> final_status (job_status j)"
  by (induction rule: job_step.induct) auto

text \<open>Every step uses up part of the budget of \<open>max_attempts\<close>.\<close>

definition job_budget :: "notification_job \<Rightarrow> nat" where
  "job_budget j = 2 * nat (job_max_attempts j - job_attempts j) +
     (if job_status j = ''pending'' then 1 else 0)"

lemma job_step_budget: "job_step j j' \<Longrightarrow> job_ok j \<Longrightarrow> job_budget j' < job_budget j"
  by (induction rule: job_step.induct) (auto simp: job_ok_def job_budget_def)

lemma job_steps_bounded:
  "(job_step ^^ n) j j' \<Longrightarrow> job_ok j \<Longrightarrow> n + job_budget j' \<le> job_budget j"
proof (induction n arbitrary: j')
  case (Suc n)
  obtain i where i: "(job_step ^^ n) j i" "job_step i j'"
    using Suc.prems(1) by auto
  then have "job_ok i"
    using Suc.prems(2) job_steps_ok relpowp_imp_rtranclp by metis
  then have "job_budget j' < job_budget i" using i(2) job_step_budget by blast
  with Suc.IH [OF i(1) Suc.prems(2)] show ?case by simp
qed simp

subsection \<open>Running the queue's operations\<close>

lemma deliver_run [run_simps]: "deliver m s = (Inr (), s\<lparr>outbox := outbox s @ [m]\<rparr>)"
  by (simp add: deliver_def)

lemma enqueue_run [run_simps]:
  "enqueue E key u c m p d s =
     (if c \<notin> set CHANNELS then (Inl (ValueError (''Unknown notification channel: '' @ c)), s)
      else if has_key key s then (Inr None, s\<lparr>draws := Suc (draws s)\<rparr>)
      else let job = new_job (random_uuid E (draws s)) key u c m p
                       (case d of None \<Rightarrow> clock s | Some t \<Rightarrow> t)
           in (Inr (Some job), s\<lparr>draws := Suc (draws s),
                notification_jobs := notification_jobs s @ [job]\<rparr>))"
  by (simp add: enqueue_def run_simps Let_def has_key_def split: option.splits)

text \<open>
  The contract of \<open>enqueue\<close> towards its callers: a relation on databases that admits what
  \<open>enqueue\<close> does admits everything that only notifies.
\<close>

context db_relation
begin

lemma confined_enqueueI:
  "(\<And>s j. R s (s\<lparr>notification_jobs := notification_jobs s @ [j]\<rparr>)) \<Longrightarrow>
   confined R (enqueue E k u c m p d)"
  unfolding enqueue_def by (intro db_intros) auto

end

locale queue_relation = db_relation R for R :: "db \<Rightarrow> db \<Rightarrow> bool" +
  assumes confined_enqueue: "confined R (enqueue E k u c m p d)"
begin

lemmas queue_intros =
  db_intros confined_enqueue confined_resolve_channel confined_tokens_for_user
  confined_watcher_user_ids

end

text \<open>The tables of the workflow are out of the queue's reach; the queue itself only grows.\<close>

definition business :: "db \<Rightarrow> db" where
  "business s = s\<lparr>notification_jobs := [], draws := 0\<rparr>"

definition jobs_grow :: "db \<Rightarrow> db \<Rightarrow> bool" where
  "jobs_grow s t \<longleftrightarrow> (\<exists>js. notification_jobs t = notification_jobs s @ js)"

interpretation business_db: db_relation "same business"
  by unfold_locales (auto simp: same_def business_def)

interpretation business_frame: queue_relation "same business"
  by unfold_locales (rule business_db.confined_enqueueI, simp add: same_def business_def)

interpretation grow_db: db_relation jobs_grow
  by unfold_locales (auto simp: jobs_grow_def)

interpretation grow: queue_relation jobs_grow
  by unfold_locales (rule grow_db.confined_enqueueI, simp add: jobs_grow_def)

lemma has_key_grow: "jobs_grow s t \<Longrightarrow> has_key k s \<Longrightarrow> has_key k t"
  by (auto simp: jobs_grow_def has_key_def)

definition keys_unique :: "db \<Rightarrow> bool" where
  "keys_unique s \<longleftrightarrow> distinct (map job_idempotency_key (notification_jobs s))"

definition jobs_ok :: "db \<Rightarrow> bool" where
  "jobs_ok s \<longleftrightarrow> (\<forall>j \<in> set (notification_jobs s). job_ok j \<and> job_channel j \<in> set CHANNELS)"

lemma keys_unique_enqueue: "confined (preserves keys_unique) (enqueue E k u c m p d)"
  by (rule confinedI)
    (auto simp: preserves_def keys_unique_def run_simps new_job_def has_key_def Let_def
      split: if_splits)

lemma jobs_ok_enqueue: "confined (preserves jobs_ok) (enqueue E k u c m p d)"
proof (rule confinedI)
  fix s r t
  assume "enqueue E k u c m p d s = (r, t)"
  then show "preserves jobs_ok s t"
    using new_job_ok
    by (auto simp: preserves_def jobs_ok_def run_simps Let_def new_job_def split: if_splits)
qed

interpretation keys_inv: queue_relation "preserves keys_unique"
  by unfold_locales (simp add: preserves_def keys_unique_def, rule keys_unique_enqueue)

interpretation jobs_ok_inv: queue_relation "preserves jobs_ok"
  by unfold_locales (simp add: preserves_def jobs_ok_def, rule jobs_ok_enqueue)

subsection \<open>What a dispatch yields\<close>

lemma apns_response_status:
  "apns_response E tok p i code text s = (Inr st, t) \<Longrightarrow> final_status st"
  by (auto simp: apns_response_def Let_def seq_return_iff split: if_split_asm option.split_asm)

lemma apns_send_status:
  "apns_send E tok de ti bo da i s = (Inr st, t) \<Longrightarrow> final_status st"
  unfolding apns_send_def
  by (auto simp: bind_return_iff case_iffs dest: apns_response_status)

lemma dispatch_apns_status: "dispatch_apns E j s = (Inr (st, err), t) \<Longrightarrow> final_status st"
  unfolding dispatch_apns_def Let_def
  by (auto simp: bind_return_iff case_iffs attempt_run dest: apns_send_status
      split: prod.split_asm)

lemma except_slack_status: "except_slack e = Inr (st, err) \<Longrightarrow> final_status st"
  by (cases e) (auto split: if_splits)

lemma dispatch_slack_status: "dispatch_slack E j s = (Inr (st, err), t) \<Longrightarrow> final_status st"
  unfolding dispatch_slack_def Let_def
  by (auto simp: bind_return_iff case_iffs dest: except_slack_status)

lemma dispatch_status:
  assumes "dispatch E j s = (Inr (st, err), t)"
  shows "final_status st"
proof -
  have email: "dispatch_email j s = (Inr (st, err), t) \<Longrightarrow> ?thesis"
    by (auto simp: dispatch_email_def Let_def if_run_iff seq_return_iff)
  have sms: "dispatch_sms E j s = (Inr (st, err), t) \<Longrightarrow> ?thesis"
    by (auto simp: dispatch_sms_def Let_def case_iffs seq_return_iff)
  show ?thesis
    using assms email sms dispatch_slack_status dispatch_apns_status
    by (auto simp: dispatch_def if_run_iff)
qed

text \<open>An e-mail without recipient, subject or body can only fail.\<close>

lemma dispatch_email_incomplete:
  assumes "job_channel j = ''email''"
    and "\<not> (json_truthy (obj_get (job_payload j) ''to_email'') \<and>
            json_truthy (obj_get (job_payload j) ''subject'') \<and>
            json_truthy (obj_get (job_payload j) ''html_body''))"
  shows "dispatch E j s =
    (Inr (''failed'', Some ''email payload missing to_email/subject/html_body''), s)"
  using assms by (auto simp: dispatch_def dispatch_email_def Let_def)

lemma dispatch_email_complete:
  assumes "job_channel j = ''email''"
    and "json_truthy (obj_get (job_payload j) ''to_email'')"
    and "json_truthy (obj_get (job_payload j) ''subject'')"
    and "json_truthy (obj_get (job_payload j) ''html_body'')"
  shows "\<exists>m. dispatch E j s = (Inr (''delivered'', None), s\<lparr>outbox := outbox s @ [m]\<rparr>)"
  using assms by (auto simp: dispatch_def dispatch_email_def send_email_def run_simps Let_def)

subsection \<open>Settling refines the life of a job\<close>

lemma BACKOFF_nth: "i < 5 \<Longrightarrow> BACKOFF_SECONDS ! i \<in> set BACKOFF_SECONDS"
  by (rule nth_mem) (simp add: BACKOFF_SECONDS_def)

lemma settle_step:
  assumes "job_status j = ''processing''" "0 \<le> job_attempts j"
    and "st = ''retry'' \<or> final_status st"
  shows "job_step j (settle t st err j)"
proof -
  let ?e = "case err of None \<Rightarrow> job_last_error j | Some e \<Rightarrow> Some e"
  let ?i = "min (job_attempts j) (int (length BACKOFF_SECONDS) - 1)"
  consider (give_up) "st = ''retry''" "job_attempts j + 1 \<ge> job_max_attempts j"
    | (again) "st = ''retry''" "job_attempts j + 1 < job_max_attempts j"
    | (final) "st \<noteq> ''retry''" "final_status st"
    using assms(3) by fastforce
  then show ?thesis
  proof cases
    case give_up
    then have "settle t st err j = j\<lparr>job_status := ''failed'', job_attempts := job_attempts j + 1,
        job_processed_at := Some t, job_last_error := ?e\<rparr>"
      by (simp add: settle_def Let_def)
    then show ?thesis using job_step.finish [OF assms(1), where st = "''failed''" and t = t and e = ?e]
      by simp
  next
    case again
    have i: "nat ?i < 5" using assms(2) by (simp add: BACKOFF_SECONDS_def)
    from again have "settle t st err j = j\<lparr>job_status := ''pending'',
        job_attempts := job_attempts j + 1,
        job_scheduled_for := t + seconds (BACKOFF_SECONDS ! nat ?i), job_last_error := ?e\<rparr>"
      by (simp add: settle_def Let_def)
    then show ?thesis
      using job_step.retry [OF assms(1) again(2) BACKOFF_nth [OF i], where t = t and e = ?e] by simp
  next
    case final
    then have "settle t st err j = j\<lparr>job_status := st, job_attempts := job_attempts j + 1,
        job_processed_at := Some t, job_last_error := ?e\<rparr>"
      by (simp add: settle_def Let_def)
    then show ?thesis using job_step.finish [OF assms(1) final(2), where t = t and e = ?e] by simp
  qed
qed

lemma settle_same_key [simp]:
  "job_id (settle t st err j) = job_id j"
  "job_idempotency_key (settle t st err j) = job_idempotency_key j"
  "job_channel (settle t st err j) = job_channel j"
  by (simp_all add: settle_def Let_def)

subsection \<open>A dispatch does not touch the queue\<close>

interpretation jobs_frame: db_relation "same notification_jobs"
  by unfold_locales (simp add: same_def)

lemma jobs_frame_vault_decrypt: "confined (same notification_jobs) (vault_decrypt E c)"
  unfolding vault_decrypt_def build_keys_def by (intro jobs_frame.db_intros)

lemma jobs_frame_deliver: "confined (same notification_jobs) (deliver m)"
  unfolding deliver_def by (intro jobs_frame.db_intros) (simp add: same_def)

lemma jobs_frame_revoke_by_id: "confined (same notification_jobs) (revoke_by_id i)"
  unfolding revoke_by_id_def soft_delete_tokens_def
  by (intro jobs_frame.db_intros) (simp add: same_def)

lemma jobs_frame_json_index: "confined (same notification_jobs) (json_index c k)"
  by (cases c) (auto intro!: jobs_frame.db_intros)

lemma jobs_frame_apns_payload: "confined (same notification_jobs) (apns_payload t b d)"
  unfolding apns_payload_def Let_def
  by (cases d) (auto intro!: jobs_frame.db_intros)

lemmas jobs_frame_intros =
  jobs_frame.db_intros jobs_frame_vault_decrypt jobs_frame_deliver jobs_frame_revoke_by_id
  jobs_frame_json_index jobs_frame_apns_payload

lemma jobs_frame_apns_send: "confined (same notification_jobs) (apns_send E a b c d e f)"
  unfolding apns_send_def load_apns_credential_def sign_jwt_def apns_response_def
  by (intro jobs_frame_intros)

lemma jobs_frame_slack_send: "confined (same notification_jobs) (slack_send E a b)"
  unfolding slack_send_def load_webhook_url_def
  by (intro jobs_frame_intros)

lemma jobs_frame_dispatch: "confined (same notification_jobs) (dispatch E j)"
  unfolding dispatch_def dispatch_email_def dispatch_sms_def dispatch_slack_def
    dispatch_apns_def send_email_def
  by (intro jobs_frame_intros jobs_frame_apns_send jobs_frame_slack_send)

subsection \<open>Processing a claimed job\<close>

definition job_after :: "exn + outcome \<Rightarrow> datetime \<Rightarrow> notification_job \<Rightarrow> notification_job" where
  "job_after r t j =
     (case r of Inl exc \<Rightarrow> settle t ''retry'' (Some (take 1000 (exn_text exc))) j
      | Inr (st, err) \<Rightarrow> settle t st err j)"

lemma process_job_run:
  assumes "dispatch E j s = (r, u)"
  shows "process_job E j s = (Inr (job_status (job_after r (clock u) j)),
    u\<lparr>notification_jobs := update_where (\<lambda>x. job_id x = job_id j)
        (\<lambda>x. x\<lparr>job_status := job_status (job_after r (clock u) j),
               job_attempts := job_attempts (job_after r (clock u) j),
               job_processed_at := job_processed_at (job_after r (clock u) j),
               job_last_error := job_last_error (job_after r (clock u) j),
               job_scheduled_for := job_scheduled_for (job_after r (clock u) j)\<rparr>)
        (notification_jobs s)\<rparr>)"
  using assms confined_sameD [OF jobs_frame_dispatch assms]
  by (simp add: process_job_def run_simps job_after_def Let_def)

lemma job_after_written:
  "j\<lparr>job_status := job_status (job_after r t j), job_attempts := job_attempts (job_after r t j),
     job_processed_at := job_processed_at (job_after r t j),
     job_last_error := job_last_error (job_after r t j),
     job_scheduled_for := job_scheduled_for (job_after r t j)\<rparr> = job_after r t j"
  by (auto simp: job_after_def settle_def Let_def split: sum.splits prod.splits)

lemma job_after_step:
  assumes "job_status j = ''processing''" "0 \<le> job_attempts j"
    and "dispatch E j s = (r, u)"
  shows "job_step j (job_after r t j)"
proof (cases r)
  case (Inl e)
  then show ?thesis using settle_step [OF assms(1,2)] by (simp add: job_after_def)
next
  case (Inr o')
  obtain st err where o': "o' = (st, err)" by fastforce
  have "final_status st" using dispatch_status assms(3) Inr o' by blast
  then show ?thesis using settle_step [OF assms(1,2)] Inr o' by (simp add: job_after_def)
qed

text \<open>
  On a table whose job ids are distinct, processing a row of it replaces that row by its
  successor in the life of the job, and leaves the others.
\<close>

lemma process_job_refines:
  assumes "j \<in> set (notification_jobs s)" "distinct (map job_id (notification_jobs s))"
    and "job_status j = ''processing''" "0 \<le> job_attempts j"
  obtains j' u where "job_step j j'" "process_job E j s = (Inr (job_status j'), u)"
    and "notification_jobs u = map (\<lambda>x. if x = j then j' else x) (notification_jobs s)"
proof -
  obtain r u where d: "dispatch E j s = (r, u)" by fastforce
  have only: "x = j" if "x \<in> set (notification_jobs s)" "job_id x = job_id j" for x
    using that assms(1,2) by (auto simp: distinct_map dest: inj_onD)
  show thesis
  proof (rule that)
    show "job_step j (job_after r (clock u) j)"
      using job_after_step [OF assms(3,4) d] .
    show "process_job E j s = (Inr (job_status (job_after r (clock u) j)), snd (process_job E j s))"
      by (simp add: process_job_run [OF d])
    show "notification_jobs (snd (process_job E j s)) =
        map (\<lambda>x. if x = j then job_after r (clock u) j else x) (notification_jobs s)"
      using only job_after_written
      by (auto simp: process_job_run [OF d] update_where_def)
  qed
qed

subsection \<open>Claiming\<close>

lemma claim_run:
  "claim_next_batch limit s =
     (let ids = map job_id (take limit (sort_key job_scheduled_for
                  (filter (is_due (clock s)) (notification_jobs s))));
          js = update_where (\<lambda>j. job_id j \<in> set ids) (\<lambda>j. j\<lparr>job_status := ''processing''\<rparr>)
                 (notification_jobs s)
      in if ids = [] then (Inr [], s)
         else (Inr (filter (\<lambda>j. job_id j \<in> set ids) js), s\<lparr>notification_jobs := js\<rparr>))"
  by (simp add: claim_next_batch_def run_simps Let_def)

text \<open>What a claim hands out: at most \<open>limit\<close> rows, each due before and processing now.\<close>

lemma claim_spec:
  assumes run: "claim_next_batch limit s = (Inr js, t)"
    and ids: "distinct (map job_id (notification_jobs s))"
  shows "length js \<le> limit"
    and "\<And>j. j \<in> set js \<Longrightarrow> j \<in> set (notification_jobs t) \<and> job_status j = ''processing'' \<and>
           (\<exists>i \<in> set (notification_jobs s). is_due (clock s) i \<and>
              j = i\<lparr>job_status := ''processing''\<rparr>)"
proof -
  define due where "due = take limit (sort_key job_scheduled_for
      (filter (is_due (clock s)) (notification_jobs s)))"
  define I where "I = set (map job_id due)"
  define ns where "ns = update_where (\<lambda>j. job_id j \<in> I) (\<lambda>j. j\<lparr>job_status := ''processing''\<rparr>)
      (notification_jobs s)"
  have due: "set due \<subseteq> set (notification_jobs s)" "\<forall>i \<in> set due. is_due (clock s) i"
    using set_take_subset [of limit] by (fastforce simp: due_def)+
  have js: "js = filter (\<lambda>j. job_id j \<in> I) ns" "due \<noteq> [] \<Longrightarrow> notification_jobs t = ns"
    using run by (auto simp: claim_run Let_def due_def I_def ns_def split: if_splits)
  have "length js = length (filter (\<lambda>j. job_id j \<in> I) (notification_jobs s))"
    by (simp add: js(1) ns_def update_where_def filter_map o_def if_distrib cong: if_cong)
  also have "\<dots> = card (job_id ` set (filter (\<lambda>j. job_id j \<in> I) (notification_jobs s)))"
    using ids distinct_map_filter [OF ids]
    by (metis distinct_card length_map list.set_map)
  also have "\<dots> \<le> card I" by (rule card_mono) (auto simp: I_def)
  also have "\<dots> \<le> length due" unfolding I_def by (metis card_length length_map)
  also have "\<dots> \<le> limit" by (simp add: due_def)
  finally show "length js \<le> limit" .
  fix j assume "j \<in> set js"
  then obtain i where i: "i \<in> set (notification_jobs s)" "job_id i \<in> I"
      "j = i\<lparr>job_status := ''processing''\<rparr>" "j \<in> set ns"
    by (auto simp: js(1) ns_def update_where_def split: if_splits)
  obtain d where d: "d \<in> set due" "job_id d = job_id i" using i(2) by (auto simp: I_def)
  have "d = i" using ids i(1) d due(1) by (auto simp: distinct_map dest: inj_onD)
  moreover have "due \<noteq> []" using d(1) by auto
  ultimately show "j \<in> set (notification_jobs t) \<and> job_status j = ''processing'' \<and>
      (\<exists>i \<in> set (notification_jobs s). is_due (clock s) i \<and> j = i\<lparr>job_status := ''processing''\<rparr>)"
    using i d due(2) js(2) by auto
qed

lemma claim_rows_step:
  assumes "claim_next_batch limit s = (r, t)" "distinct (map job_id (notification_jobs s))"
  shows "list_all2 (\<lambda>j j'. job_step\<^sup>=\<^sup>= j j') (notification_jobs s) (notification_jobs t)"
proof -
  define due where "due = take limit (sort_key job_scheduled_for
      (filter (is_due (clock s)) (notification_jobs s)))"
  have due: "set due \<subseteq> set (notification_jobs s)" "\<forall>i \<in> set due. is_due (clock s) i"
    using set_take_subset [of limit] by (fastforce simp: due_def)+
  have pend: "job_status i = ''pending''"
    if "i \<in> set (notification_jobs s)" "job_id i \<in> job_id ` set due" for i
    using that due assms(2) by (fastforce simp: is_due_def distinct_map dest: inj_onD)
  have "notification_jobs t = update_where (\<lambda>j. job_id j \<in> job_id ` set due)
      (\<lambda>j. j\<lparr>job_status := ''processing''\<rparr>) (notification_jobs s)"
    using assms(1) by (auto simp: claim_run Let_def due_def split: if_splits
        intro!: update_where_id [symmetric])
  then show ?thesis
    using pend job_step.claim
    by (auto simp: update_where_def list_all2_conv_all_nth)
qed

end
