(* ===== verification/StatusService.thy ===== *)
theory StatusService
  imports StatusMachine Templates Notifications
begin

section \<open>Status transitions\<close>

text \<open>
  \<^verbatim>\<open>api/services/equipment_status_service.py\<close>: \<open>record_transition\<close>, the entry point for
  changes of \<^verbatim>\<open>equipment_records.status\<close>, with the notices it sends to the customer, the
  sales representative and the watchers. An equipment record is passed by value; the updated
  record is returned and its row written back by id. The \<^verbatim>\<open>CHECK\<close> constraint of migration
  013 admits only the known statuses.
\<close>

subsection \<open>Composing\<close>

definition note_html :: "string option \<Rightarrow> string" where
  "note_html note = (if str_truthy note then ''<p>'' @ the note @ ''</p>'' else '''')"

definition status_update_variables ::
  "string \<Rightarrow> string \<Rightarrow> string \<Rightarrow> string option \<Rightarrow> (string \<times> json) list" where
  "status_update_variables first_name ref to_status note =
     [(''first_name'', JStr first_name), (''reference_number'', JStr ref),
      (''to_status_display'', JStr (display_name to_status)), (''to_status'', JStr to_status),
      (''note_html'', JStr (note_html note))]"

definition compose_email ::
  "env \<Rightarrow> user \<Rightarrow> equipment_record \<Rightarrow> string \<Rightarrow> string option \<Rightarrow> (string \<times> string) op" where
  "compose_email E user record to_status note =
     bind (render_with_overrides E ''status_update''
       (status_update_variables (usr_first_name user)
         (str_or (er_reference_number record) ''(no reference yet)'') to_status note)) (\<lambda>rendered.
     ret (str_or (rt_subject rendered) '''', rt_body rendered))"

definition email_idempotency_key :: "uuid \<Rightarrow> string \<Rightarrow> string" where
  "email_idempotency_key record_id to_status =
     ''status_update:'' @ uuid_str record_id @ '':'' @ to_status"

definition sales_rep_idempotency_key :: "uuid \<Rightarrow> string \<Rightarrow> string" where
  "sales_rep_idempotency_key record_id to_status =
     ''sales_rep_status:'' @ uuid_str record_id @ '':'' @ to_status"

definition watcher_idempotency_key :: "uuid \<Rightarrow> string \<Rightarrow> uuid \<Rightarrow> string" where
  "watcher_idempotency_key record_id to_status watcher_id =
     ''status_watcher:'' @ uuid_str record_id @ '':'' @ to_status @ '':'' @ uuid_str watcher_id"

definition SALES_REP_EMAIL_TEMPLATES :: "(string \<times> string) list" where
  "SALES_REP_EMAIL_TEMPLATES =
     [(''approved_pending_esign'', ''sales_rep_approved_pending_esign''),
      (''esigned_pending_publish'', ''sales_rep_esigned_pending_publish'')]"

definition SALES_REP_SMS_TEMPLATES :: "(string \<times> string) list" where
  "SALES_REP_SMS_TEMPLATES =
     [(''approved_pending_esign'', ''sales_rep_approved_pending_esign_sms''),
      (''esigned_pending_publish'', ''sales_rep_esigned_pending_publish_sms'')]"

definition sales_rep_template_name :: "string \<Rightarrow> string \<Rightarrow> string" where
  "sales_rep_template_name to_status channel =
     (let table = (if channel = ''email'' then SALES_REP_EMAIL_TEMPLATES
                   else SALES_REP_SMS_TEMPLATES);
          fallback = (if channel = ''email'' then ''sales_rep_generic_status''
                      else ''sales_rep_generic_status_sms'')
      in case map_of table to_status of Some n \<Rightarrow> n | None \<Rightarrow> fallback)"

text \<open>\<^verbatim>\<open>" ".join(part for part in parts if part)\<close>.\<close>

definition join_present :: "string option list \<Rightarrow> string" where
  "join_present parts = join '' '' (map the (filter str_truthy parts))"

definition compose_sales_rep_email ::
  "env \<Rightarrow> user \<Rightarrow> equipment_record \<Rightarrow> string \<Rightarrow> (string \<times> string) op" where
  "compose_sales_rep_email E rep record to_status =
     (let ref = str_or (er_reference_number record) (uuid_str (er_id record));
          parts = join_present [er_customer_make record, er_customer_model record];
          make_model = (if parts = '''' then ''your equipment record'' else parts)
      in bind (render_with_overrides E (sales_rep_template_name to_status ''email'')
           [(''first_name'', JStr (if usr_first_name rep = '''' then ''team'' else usr_first_name rep)),
            (''reference_number'', JStr ref), (''make_model'', JStr make_model),
            (''to_status'', JStr to_status)]) (\<lambda>rendered.
         ret (str_or (rt_subject rendered) '''', rt_body rendered)))"

definition compose_sales_rep_sms :: "env \<Rightarrow> equipment_record \<Rightarrow> string \<Rightarrow> string op" where
  "compose_sales_rep_sms E record to_status =
     (let ref = str_or (er_reference_number record) (uuid_str (er_id record))
      in bind (render_with_overrides E (sales_rep_template_name to_status ''sms'')
           [(''reference_number'', JStr ref), (''to_status'', JStr to_status)]) (\<lambda>rendered.
         ret (rt_body rendered)))"

subsection \<open>Notifying\<close>

definition notify_customer ::
  "env \<Rightarrow> user \<Rightarrow> equipment_record \<Rightarrow> string \<Rightarrow> string option \<Rightarrow> unit op" where
  "notify_customer E customer record to_status note =
     bind (compose_email E customer record to_status note) (\<lambda>(subject, body).
     bind (enqueue E (email_idempotency_key (er_id record) to_status) (Some (usr_id customer))
             ''email'' (''status_'' @ to_status)
             [(''to_email'', JStr (usr_email customer)), (''subject'', JStr subject),
              (''html_body'', JStr body),
              (''reference_number'', jopt JStr (er_reference_number record)),
              (''to_status'', JStr to_status)] None)
       (\<lambda>_. ret ()))"

definition notify_sales_rep :: "env \<Rightarrow> equipment_record \<Rightarrow> string \<Rightarrow> unit op" where
  "notify_sales_rep E record to_status =
     bind (select_one users (\<lambda>u. Some (usr_id u) = er_assigned_sales_rep_id record)) (\<lambda>found.
     case found of
       None \<Rightarrow> ret ()
     | Some rep \<Rightarrow>
         if usr_status rep \<noteq> ''active'' then ret ()
         else
           bind (resolve_channel rep) (\<lambda>dest.
           let idem = sales_rep_idempotency_key (er_id record) to_status
           in if rcv_channel dest = ''sms'' \<and> str_truthy (rcv_destination dest)
              then
                bind (compose_sales_rep_sms E record to_status) (\<lambda>body.
                bind (enqueue E idem (Some (usr_id rep)) ''sms'' (''sales_rep_'' @ to_status)
                        [(''to_number'', jopt JStr (rcv_destination dest)), (''body'', JStr body),
                         (''reference_number'', jopt JStr (er_reference_number record)),
                         (''to_status'', JStr to_status)] None)
                  (\<lambda>_. ret ()))
              else if \<not> str_truthy (rcv_destination dest) then ret ()
              else
                bind (compose_sales_rep_email E rep record to_status) (\<lambda>(subject, body).
                bind (enqueue E idem (Some (usr_id rep)) ''email'' (''sales_rep_'' @ to_status)
                        [(''to_email'', jopt JStr (rcv_destination dest)), (''subject'', JStr subject),
                         (''html_body'', JStr body),
                         (''reference_number'', jopt JStr (er_reference_number record)),
                         (''to_status'', JStr to_status)] None)
                  (\<lambda>_. ret ()))))"

definition notify_watcher ::
  "env \<Rightarrow> equipment_record \<Rightarrow> string \<Rightarrow> rendered_template \<Rightarrow> uuid \<Rightarrow> unit op" where
  "notify_watcher E record to_status rendered watcher_id =
     bind (select_one users (\<lambda>u. usr_id u = watcher_id)) (\<lambda>found.
     case found of
       None \<Rightarrow> ret ()
     | Some watcher \<Rightarrow>
         if usr_status watcher \<noteq> ''active'' then ret ()
         else
           bind (resolve_channel watcher) (\<lambda>dest.
           if \<not> str_truthy (rcv_destination dest) then ret ()
           else
             bind (enqueue E (watcher_idempotency_key (er_id record) to_status watcher_id)
                     (Some (usr_id watcher))
                     (if rcv_channel dest \<noteq> ''sms'' then ''email'' else ''sms'')
                     ''status_update_watcher''
                     [(''to_email'', if rcv_channel dest \<noteq> ''sms''
                                     then jopt JStr (rcv_destination dest) else JNull),
                      (''to_number'', if rcv_channel dest = ''sms''
                                      then jopt JStr (rcv_destination dest) else JNull),
                      (''subject'', jopt JStr (rt_subject rendered)),
                      (''html_body'', JStr (rt_body rendered)), (''body'', JStr (rt_body rendered)),
                      (''reference_number'', jopt JStr (er_reference_number record)),
                      (''to_status'', JStr to_status)] None)
               (\<lambda>_. ret ())))"

definition notify_watchers ::
  "env \<Rightarrow> equipment_record \<Rightarrow> string \<Rightarrow> string option \<Rightarrow> unit op" where
  "notify_watchers E record to_status note =
     bind (watcher_user_ids (er_id record)) (\<lambda>user_ids.
     if user_ids = [] then ret ()
     else
       bind (render_with_overrides E ''status_update''
         (status_update_variables ''team''
           (str_or (er_reference_number record) ''(no reference yet)'') to_status note)) (\<lambda>rendered.
       for_each user_ids (notify_watcher E record to_status rendered)))"

subsection \<open>The transition\<close>

definition should_notify :: "bool option \<Rightarrow> bool \<Rightarrow> bool" where
  "should_notify notify_override registry_says =
     (case notify_override of Some b \<Rightarrow> b | None \<Rightarrow> registry_says)"

definition write_transition ::
  "env \<Rightarrow> equipment_record \<Rightarrow> string \<Rightarrow> user option \<Rightarrow> string option \<Rightarrow> status_event op" where
  "write_transition E record to_status changed_by note =
     seq (require (is_known to_status) (IntegrityError ''equipment_records.status''))
     (bind (uuid4 E) (\<lambda>new_id.
      bind now (\<lambda>t.
      let event = \<lparr>ev_id = new_id, ev_equipment_record_id = er_id record,
                   ev_from_status = Some (er_status record), ev_to_status = to_status,
                   ev_changed_by = map_option usr_id changed_by, ev_note = note,
                   ev_created_at = t\<rparr>
      in seq (writes (\<lambda>s. s\<lparr>status_events := status_events s @ [event],
                equipment_records := update_where (\<lambda>r. er_id r = er_id record)
                  (\<lambda>r. r\<lparr>er_status := to_status\<rparr>) (equipment_records s)\<rparr>))
           (ret event))))"

definition record_transition ::
  "env \<Rightarrow> equipment_record \<Rightarrow> string \<Rightarrow> user option \<Rightarrow> string option \<Rightarrow> user option \<Rightarrow>
   bool option \<Rightarrow> (status_event \<times> equipment_record) op" where
  "record_transition E record to_status changed_by note customer notify_override =
     (let from_status = er_status record
      in seq (require (from_status \<noteq> to_status)
                (http 409 (''Record is already in status '' @ quoted to_status @ ''.'')))
         (seq (require (\<not> is_forbidden_transition from_status to_status)
                 (http 409 (''Cannot transition from '' @ quoted from_status @ '' to '' @
                    quoted to_status @ ''.'')))
         (bind (write_transition E record to_status changed_by note) (\<lambda>event.
          let record = record\<lparr>er_status := to_status\<rparr>;
              customer_should_notify = should_notify notify_override (notifies_customer to_status);
              sales_rep_should_notify = should_notify notify_override (notifies_sales_rep to_status)
          in seq (case customer of
                    None \<Rightarrow> ret ()
                  | Some c \<Rightarrow> when_true customer_should_notify
                                (notify_customer E c record to_status note))
             (seq (when_true (sales_rep_should_notify \<and> er_assigned_sales_rep_id record \<noteq> None)
                     (notify_sales_rep E record to_status))
             (seq (when_true customer_should_notify (notify_watchers E record to_status note))
             (ret (event, record))))))))"

text \<open>Its effect without the notices: the abstract transition.\<close>

definition transition_event ::
  "uuid \<Rightarrow> datetime \<Rightarrow> equipment_record \<Rightarrow> string \<Rightarrow> user option \<Rightarrow> string option \<Rightarrow> status_event" where
  "transition_event i t record to_status changed_by note =
     \<lparr>ev_id = i, ev_equipment_record_id = er_id record, ev_from_status = Some (er_status record),
      ev_to_status = to_status, ev_changed_by = map_option usr_id changed_by, ev_note = note,
      ev_created_at = t\<rparr>"

definition allowed :: "string \<Rightarrow> string \<Rightarrow> bool" where
  "allowed from_status to_status \<longleftrightarrow>
     from_status \<noteq> to_status \<and> \<not> is_forbidden_transition from_status to_status \<and>
     is_known to_status"

subsection \<open>The notices only reach the queue\<close>

context queue_relation
begin

lemma confined_notify_customer: "confined R (notify_customer E c r st n)"
  unfolding notify_customer_def compose_email_def
  by (intro queue_intros confined_render_with_overrides)

lemma confined_notify_sales_rep: "confined R (notify_sales_rep E r st)"
  unfolding notify_sales_rep_def compose_sales_rep_sms_def compose_sales_rep_email_def
  by (intro queue_intros confined_render_with_overrides)

lemma confined_notify_watchers: "confined R (notify_watchers E r st n)"
  unfolding notify_watchers_def notify_watcher_def
  by (intro queue_intros confined_render_with_overrides)

lemmas notify_intros =
  queue_intros confined_notify_customer confined_notify_sales_rep confined_notify_watchers

end

definition written :: "equipment_record \<Rightarrow> string \<Rightarrow> status_event \<Rightarrow> db \<Rightarrow> db" where
  "written record to_status event s =
     s\<lparr>status_events := status_events s @ [event],
       equipment_records := update_where (\<lambda>r. er_id r = er_id record)
         (\<lambda>r. r\<lparr>er_status := to_status\<rparr>) (equipment_records s)\<rparr>"

lemma write_transition_run [run_simps]:
  "write_transition E record to_status changed_by note s =
     (if \<not> is_known to_status then (Inl (IntegrityError ''equipment_records.status''), s)
      else let event = transition_event (random_uuid E (draws s)) (clock s) record to_status
                         changed_by note
           in (Inr event, written record to_status event (s\<lparr>draws := Suc (draws s)\<rparr>)))"
  by (simp add: write_transition_def run_simps Let_def transition_event_def written_def)

lemma business_written: "business s = business t \<Longrightarrow> business (written r st e s) = business (written r st e t)"
proof -
  assume h: "business s = business t"
  have "written r st e (business x) = business (written r st e x)" for x
    by (simp add: written_def business_def)
  with h show ?thesis by metis
qed

text \<open>
  The specification of a transition: it returns exactly on allowed edges as far as the
  guards go, and then the business tables are those of the abstract transition.
\<close>

lemma record_transition_returns:
  assumes "record_transition E record to_status by note customer ov s = (Inr (event, record'), t)"
  shows "allowed (er_status record) to_status"
    and "event = transition_event (random_uuid E (draws s)) (clock s) record to_status by note"
    and "record' = record\<lparr>er_status := to_status\<rparr>"
    and "business t = business (written record to_status event s)"
proof -
  let ?e = "transition_event (random_uuid E (draws s)) (clock s) record to_status by note"
  let ?n = "seq (case customer of None \<Rightarrow> ret ()
        | Some c \<Rightarrow> when_true (should_notify ov (notifies_customer to_status))
            (notify_customer E c (record\<lparr>er_status := to_status\<rparr>) to_status note))
      (seq (when_true (should_notify ov (notifies_sales_rep to_status) \<and>
              er_assigned_sales_rep_id record \<noteq> None)
            (notify_sales_rep E (record\<lparr>er_status := to_status\<rparr>) to_status))
        (seq (when_true (should_notify ov (notifies_customer to_status))
              (notify_watchers E (record\<lparr>er_status := to_status\<rparr>) to_status note))
          (ret (?e, record\<lparr>er_status := to_status\<rparr>))))"
  have g: "allowed (er_status record) to_status"
    and run: "?n (written record to_status ?e (s\<lparr>draws := Suc (draws s)\<rparr>)) = (Inr (event, record'), t)"
    using assms
    by (auto simp: record_transition_def Let_def run_simps allowed_def split: if_splits)
  have fr: "confined (same business) ?n"
    by (intro business_frame.notify_intros)
  have "(event, record') = (?e, record\<lparr>er_status := to_status\<rparr>)"
    using run by (auto simp: seq_return_iff)
  with g show "allowed (er_status record) to_status" "event = ?e"
      "record' = record\<lparr>er_status := to_status\<rparr>" by simp_all
  then have "business t = business (written record to_status event (s\<lparr>draws := Suc (draws s)\<rparr>))"
    using confined_sameD [OF fr run] by simp
  also have "\<dots> = business (written record to_status event s)"
    by (rule business_written) (simp add: business_def)
  finally show "business t = business (written record to_status event s)" .
qed

lemma record_transition_refused:
  assumes "\<not> allowed (er_status record) to_status"
  shows "\<exists>e. record_transition E record to_status by note customer ov s = (Inl e, s)"
  using assms
  by (auto simp: record_transition_def Let_def run_simps allowed_def split: if_splits)

subsection \<open>Who hears of a transition\<close>

text \<open>The notices after the write, as one program.\<close>

definition notices ::
  "env \<Rightarrow> equipment_record \<Rightarrow> string \<Rightarrow> string option \<Rightarrow> user option \<Rightarrow> bool option \<Rightarrow> unit op" where
  "notices E record to_status note customer ov =
     seq (case customer of None \<Rightarrow> ret ()
          | Some c \<Rightarrow> when_true (should_notify ov (notifies_customer to_status))
              (notify_customer E c record to_status note))
     (seq (when_true (should_notify ov (notifies_sales_rep to_status) \<and>
             er_assigned_sales_rep_id record \<noteq> None)
            (notify_sales_rep E record to_status))
       (when_true (should_notify ov (notifies_customer to_status))
          (notify_watchers E record to_status note)))"

lemma record_transition_notices:
  "record_transition E record to_status by note customer ov s =
     (if \<not> allowed (er_status record) to_status
      then (fst (record_transition E record to_status by note customer ov s), s)
      else
        let event = transition_event (random_uuid E (draws s)) (clock s) record to_status by note;
            record' = record\<lparr>er_status := to_status\<rparr>
        in seq (notices E record' to_status note customer ov) (ret (event, record'))
             (written record to_status event (s\<lparr>draws := Suc (draws s)\<rparr>)))"
proof (cases "allowed (er_status record) to_status")
  case False
  then show ?thesis
    using record_transition_refused [of "record" to_status E "by" "note" customer ov s] by auto
next
  case True
  then show ?thesis
    by (auto simp: record_transition_def notices_def Let_def allowed_def run_simps
        split: prod.splits sum.splits)
qed

context queue_relation
begin

lemma confined_notices: "confined R (notices E r st n c ov)"
  unfolding notices_def by (intro notify_intros)

end

context queue_relation
begin

lemma record_transition_confined:
  assumes wr: "\<And>r st e s n. R s (written r st e (s\<lparr>draws := n\<rparr>))"
    and run: "record_transition E record to_status by note customer ov s = (r, t)"
  shows "R s t"
proof (cases "allowed (er_status record) to_status")
  case False
  then have "t = s" using run record_transition_notices by (metis snd_conv)
  then show ?thesis by (simp add: R_refl)
next
  case True
  let ?w = "written record to_status
      (transition_event (random_uuid E (draws s)) (clock s) record to_status by note)
      (s\<lparr>draws := Suc (draws s)\<rparr>)"
  obtain r' u where n: "notices E (record\<lparr>er_status := to_status\<rparr>) to_status note customer ov ?w
      = (r', u)" by fastforce
  then have "t = u"
    using run True record_transition_notices [of E "record" to_status "by" "note" customer ov s]
    by (auto simp: Let_def seq_run split: sum.splits)
  then show ?thesis using wr confinedD [OF confined_notices n] R_trans by blast
qed

end

lemma record_transition_jobs:
  assumes "record_transition E record to_status by note customer ov s = (r, t)"
  shows "jobs_grow s t" and "keys_unique s \<Longrightarrow> keys_unique t" and "jobs_ok s \<Longrightarrow> jobs_ok t"
proof -
  show "jobs_grow s t"
    by (rule grow.record_transition_confined [OF _ assms])
      (simp add: jobs_grow_def written_def)
  have "preserves keys_unique s t"
    by (rule keys_inv.record_transition_confined [OF _ assms])
      (simp add: preserves_def keys_unique_def written_def)
  then show "keys_unique s \<Longrightarrow> keys_unique t" by (simp add: preserves_def)
  have "preserves jobs_ok s t"
    by (rule jobs_ok_inv.record_transition_confined [OF _ assms])
      (simp add: preserves_def jobs_ok_def written_def)
  then show "jobs_ok s \<Longrightarrow> jobs_ok t" by (simp add: preserves_def)
qed

text \<open>The customer's notice: its job exists afterwards, and is the one sent unless the key is old.\<close>

definition customer_job :: "notification_job \<Rightarrow> user \<Rightarrow> equipment_record \<Rightarrow> string \<Rightarrow> bool" where
  "customer_job j customer record to_status \<longleftrightarrow>
     job_idempotency_key j = email_idempotency_key (er_id record) to_status \<and>
     job_user_id j = Some (usr_id customer) \<and> job_channel j = ''email'' \<and>
     obj_get (job_payload j) ''to_email'' = JStr (usr_email customer)"

lemma notify_customer_job:
  assumes "notify_customer E c record st note s = (Inr (), t)"
  shows "has_key (email_idempotency_key (er_id record) st) t"
    and "\<not> has_key (email_idempotency_key (er_id record) st) s \<Longrightarrow>
      \<exists>j. notification_jobs t = notification_jobs s @ [j] \<and> customer_job j c record st"
    and "has_key (email_idempotency_key (er_id record) st) s \<Longrightarrow>
      notification_jobs t = notification_jobs s"
  using assms unfolding notify_customer_def compose_email_def
  by (auto simp: bind_return_iff enqueue_run Let_def has_key_def new_job_def customer_job_def
      obj_get_def split: if_splits dest!: render_with_overrides_pure)

lemma transition_customer_job:
  assumes run: "record_transition E record st by note (Some c) ov s = (Inr x, t)"
    and say: "should_notify ov (notifies_customer st)"
  shows "has_key (email_idempotency_key (er_id record) st) t"
    and "\<not> has_key (email_idempotency_key (er_id record) st) s \<Longrightarrow>
      \<exists>j \<in> set (notification_jobs t). customer_job j c record st"
proof -
  let ?r = "record\<lparr>er_status := st\<rparr>"
  have al: "allowed (er_status record) st"
    using run record_transition_refused [of "record" st E "by" "note" "Some c" ov s] by auto
  let ?w = "written record st (transition_event (random_uuid E (draws s)) (clock s) record st
      by note) (s\<lparr>draws := Suc (draws s)\<rparr>)"
  have "seq (notices E ?r st note (Some c) ov) (ret (transition_event (random_uuid E (draws s))
      (clock s) record st by note, ?r)) ?w = (Inr x, t)"
    using run al by (simp add: record_transition_notices Let_def)
  then have "notices E ?r st note (Some c) ov ?w = (Inr (), t)"
    by (auto simp: seq_return_iff)
  then obtain u where u: "notify_customer E c ?r st note ?w = (Inr (), u)"
    and rest: "seq (when_true (should_notify ov (notifies_sales_rep st) \<and>
             er_assigned_sales_rep_id ?r \<noteq> None) (notify_sales_rep E ?r st))
       (when_true (should_notify ov (notifies_customer st)) (notify_watchers E ?r st note)) u
       = (Inr (), t)"
    by (auto simp: notices_def say seq_return_iff [of "when_true _ (notify_customer _ _ _ _ _)"]
        when_true_return_iff [of _ "notify_customer _ _ _ _ _"])
  have "confined jobs_grow (seq (when_true b (notify_sales_rep E ?r st))
      (when_true b' (notify_watchers E ?r st note)))" for b b'
    by (intro grow.notify_intros)
  then have g: "jobs_grow u t" using confinedD rest by metis
  show "has_key (email_idempotency_key (er_id record) st) t"
    using has_key_grow [OF g] notify_customer_job(1) [OF u] by simp
  assume "\<not> has_key (email_idempotency_key (er_id record) st) s"
  then obtain j where "notification_jobs u = notification_jobs s @ [j]" "customer_job j c ?r st"
    using notify_customer_job(2) [OF u] by (auto simp: has_key_def written_def)
  then show "\<exists>j \<in> set (notification_jobs t). customer_job j c record st"
    using g by (auto simp: jobs_grow_def customer_job_def)
qed

subsection \<open>The statuses of the table\<close>

definition statuses_known :: "db \<Rightarrow> bool" where
  "statuses_known s \<longleftrightarrow> (\<forall>r \<in> set (equipment_records s). is_known (er_status r))"

lemma statuses_known_business:
  "business t = business u \<Longrightarrow> statuses_known u \<Longrightarrow> statuses_known t"
  unfolding statuses_known_def
  by (drule arg_cong [where f = equipment_records]) (simp add: business_def)

lemma statuses_known_transition:
  assumes "record_transition E record st by note c ov s = (Inr x, t)" "statuses_known s"
  shows "statuses_known t"
proof -
  obtain e r' where x: "x = (e, r')" by fastforce
  note spec = record_transition_returns [OF assms(1) [unfolded x]]
  have "statuses_known (written record st e s)"
    using assms(2) spec(1)
    by (auto simp: statuses_known_def written_def allowed_def dest!: set_update_where)
  with spec(4) show ?thesis by (rule statuses_known_business)
qed

subsection \<open>An allowed transition succeeds\<close>

text \<open>
  What the notices need: one preference row per user, one row per user id, one override per
  template, and a template engine that renders. The queue operations keep it.
\<close>

definition notify_ready :: "env \<Rightarrow> db \<Rightarrow> bool" where
  "notify_ready E s \<longleftrightarrow>
     renders E \<and> recipients_ok s \<and> overrides_ok s \<and> distinct (map usr_id (users s))"

lemma notify_ready_draws [simp]: "notify_ready E (s\<lparr>draws := n\<rparr>) = notify_ready E s"
  by (simp add: notify_ready_def recipients_ok_def overrides_ok_def)

lemma notify_ready_written [simp]: "notify_ready E (written r st e s) = notify_ready E s"
  by (simp add: notify_ready_def recipients_ok_def overrides_ok_def written_def)

lemma safe_enqueue: "c \<in> set CHANNELS \<Longrightarrow> safe (notify_ready E) (enqueue E k u c t p d)"
  by (auto simp: safe_def enqueue_run Let_def notify_ready_def recipients_ok_def overrides_ok_def)

lemma safe_render: "n \<in> template_names \<Longrightarrow> safe (notify_ready E) (render_with_overrides E n v)"
  unfolding safe_def using render_with_overrides_total by (metis notify_ready_def)

lemma safe_resolve_channel: "safe (notify_ready E) (resolve_channel u)"
  unfolding safe_def using resolve_channel_returns by (metis notify_ready_def)

lemma filter_at_most_one_run:
  "length (filter p (tbl s)) \<le> 1 \<Longrightarrow> \<exists>x. select_one tbl p s = (Inr x, s)"
  by (cases "filter p (tbl s)") (auto simp: select_one_run)

lemma safe_select_user: "safe (notify_ready E) (select_one users (\<lambda>u. usr_id u = i))"
  unfolding safe_def notify_ready_def
  using filter_at_most_one_run [where tbl = users, OF filter_key_length [of usr_id]] by blast

lemma safe_select_rep: "safe (notify_ready E) (select_one users (\<lambda>u. Some (usr_id u) = i))"
proof (cases i)
  case None
  then show ?thesis by (simp add: safe_def select_one_run)
next
  case (Some j)
  then show ?thesis using safe_select_user [of E j] by simp
qed

lemma sales_rep_template_names: "sales_rep_template_name st ch \<in> template_names"
  by (simp add: sales_rep_template_name_def SALES_REP_EMAIL_TEMPLATES_def
      SALES_REP_SMS_TEMPLATES_def Let_def)

lemma CHANNELS_email [simp]: "''email'' \<in> set CHANNELS" "''sms'' \<in> set CHANNELS"
  by (simp_all add: CHANNELS_def)

lemmas notify_safe_intros =
  safe_intros safe_enqueue safe_render safe_resolve_channel safe_select_user safe_select_rep
  sales_rep_template_names template_names_simps CHANNELS_email

lemma safe_notify_customer: "safe (notify_ready E) (notify_customer E c r st n)"
  unfolding notify_customer_def compose_email_def by (intro notify_safe_intros)

lemma safe_notify_sales_rep: "safe (notify_ready E) (notify_sales_rep E r st)"
  unfolding notify_sales_rep_def compose_sales_rep_email_def compose_sales_rep_sms_def
  by (intro notify_safe_intros)

lemma safe_notify_watchers: "safe (notify_ready E) (notify_watchers E r st n)"
proof -
  have "(if rcv_channel d \<noteq> ''sms'' then ''email'' else ''sms'') \<in> set CHANNELS" for d
    by simp
  then show ?thesis
    unfolding notify_watchers_def notify_watcher_def watcher_user_ids_def
    by (intro notify_safe_intros)
qed

lemma record_transition_succeeds:
  assumes "allowed (er_status record) to_status" "notify_ready E s"
  shows "\<exists>x t. record_transition E record to_status by note customer ov s = (Inr x, t) \<and>
    notify_ready E t"
proof -
  let ?w = "written record to_status
      (transition_event (random_uuid E (draws s)) (clock s) record to_status by note)
      (s\<lparr>draws := Suc (draws s)\<rparr>)"
  have "safe (notify_ready E) (seq (notices E r to_status note customer ov) (ret x))" for r x
    unfolding notices_def
    by (intro notify_safe_intros safe_notify_customer safe_notify_sales_rep safe_notify_watchers)
  then have "\<exists>x t. seq (notices E (record\<lparr>er_status := to_status\<rparr>) to_status note customer ov)
      (ret (transition_event (random_uuid E (draws s)) (clock s) record to_status by note,
        record\<lparr>er_status := to_status\<rparr>)) ?w = (Inr x, t) \<and> notify_ready E t"
    by (rule safeD) (simp add: assms(2))
  then show ?thesis
    using assms(1) record_transition_notices [of E "record" to_status "by" "note" customer ov s]
    by (simp only: Let_def simp_thms if_False)
qed

end
