(* ===== verification/Roles.thy ===== *)
theory Roles
  imports Models
begin

section \<open>Authentication of a request and role checks\<close>

text \<open>
  \<^verbatim>\<open>api/services/user_roles_service.py\<close>, \<^verbatim>\<open>api/middleware/auth.py\<close> and
  \<^verbatim>\<open>api/middleware/rbac.py\<close>. The join table \<open>user_roles\<close> is what a role check reads; the
  invariant \<open>roles_mirrored\<close> says that the primary role of every user has its row there.
\<close>

subsection \<open>Grants\<close>

definition role_slugs_for_user :: "user \<Rightarrow> string set op" where
  "role_slugs_for_user user =
     reads (\<lambda>s. set (map role_slug (filter (\<lambda>r. \<exists>g \<in> set (user_roles s).
       ur_role_id g = role_id r \<and> ur_user_id g = usr_id user) (roles s))))"

definition resolve_role_id :: "string \<Rightarrow> uuid op" where
  "resolve_role_id slug =
     bind (select_one roles (\<lambda>r. role_slug r = slug)) (\<lambda>found.
     case found of
       None \<Rightarrow> raise (http 404 (''Unknown role slug: '' @ slug))
     | Some r \<Rightarrow> ret (role_id r))"

definition is_grant :: "uuid \<Rightarrow> uuid \<Rightarrow> user_role \<Rightarrow> bool" where
  "is_grant user_id rid g = (ur_user_id g = user_id \<and> ur_role_id g = rid)"

definition grant :: "user \<Rightarrow> string \<Rightarrow> uuid option \<Rightarrow> unit op" where
  "grant user slug granted_by =
     bind (resolve_role_id slug) (\<lambda>rid.
     bind now (\<lambda>t.
     writes (\<lambda>s. s\<lparr>user_roles :=
       (if \<exists>g \<in> set (user_roles s). is_grant (usr_id user) rid g then user_roles s
        else user_roles s @ [\<lparr>ur_user_id = usr_id user, ur_role_id = rid, ur_granted_at = t,
               ur_granted_by = granted_by\<rparr>])\<rparr>)))"

definition revoke :: "user \<Rightarrow> string \<Rightarrow> unit op" where
  "revoke user slug =
     bind (resolve_role_id slug) (\<lambda>rid.
     seq (require (rid \<noteq> usr_role_id user)
            (http 409 (''Cannot revoke '' @ quoted slug @ '' '' @ em_dash @
               '' it is the user'' @ [CHR 0x27] @ ''s primary role. Change the primary role first.'')))
     (bind (select_one user_roles (is_grant (usr_id user) rid)) (\<lambda>grant_row.
      case grant_row of
        None \<Rightarrow> ret ()
      | Some g \<Rightarrow> writes (\<lambda>s. s\<lparr>user_roles :=
                    delete_where (is_grant (usr_id user) rid) (user_roles s)\<rparr>))))"

definition set_primary_role :: "user \<Rightarrow> string \<Rightarrow> uuid option \<Rightarrow> user op" where
  "set_primary_role user slug granted_by =
     bind (resolve_role_id slug) (\<lambda>rid.
     let user = user\<lparr>usr_role_id := rid\<rparr>
     in seq (writes (\<lambda>s. s\<lparr>users := update_where (\<lambda>u. usr_id u = usr_id user)
               (\<lambda>u. u\<lparr>usr_role_id := rid\<rparr>) (users s)\<rparr>))
        (seq (grant user slug granted_by) (ret user)))"

subsection \<open>The current user of a request\<close>

definition bearer :: "(string \<times> string) list" where
  "bearer = [(''WWW-Authenticate'', ''Bearer'')]"

definition load_account :: "uuid \<Rightarrow> user op" where
  "load_account i =
     bind (select_one users (\<lambda>u. usr_id u = i)) (\<lambda>found.
     case found of
       None \<Rightarrow> raise (http 401 ''Account not found or inactive.'')
     | Some user \<Rightarrow>
         if usr_status user \<in> {''active'', ''pending_deletion''} then ret user
         else raise (http 401 ''Account not found or inactive.''))"

definition get_current_user :: "env \<Rightarrow> string option \<Rightarrow> user op" where
  "get_current_user E credentials =
     (case credentials of
        None \<Rightarrow> raise (HTTPException 401 ''Authentication required.'' bearer)
      | Some token \<Rightarrow>
          bind now (\<lambda>t.
          case jwt_decode E t token of
            None \<Rightarrow> raise (HTTPException 401 ''Token is invalid or expired.'' bearer)
          | Some payload \<Rightarrow>
              seq (require (obj_get payload ''type'' = JStr ''access'')
                     (HTTPException 401 ''Token is invalid or expired.'' bearer))
              (let sub = obj_get payload ''sub''
               in seq (require (json_truthy sub) (http 401 ''Token is invalid.''))
                  (case sub of
                     JStr x \<Rightarrow>
                       (case uuid_parse x of
                          None \<Rightarrow> raise (ValueError ''badly formed hexadecimal UUID string'')
                        | Some i \<Rightarrow> load_account i)
                   | _ \<Rightarrow> raise (AttributeError ''replace'')))))"

definition require_roles :: "string list \<Rightarrow> user \<Rightarrow> user op" where
  "require_roles role_slugs current_user =
     bind (role_slugs_for_user current_user) (\<lambda>held.
     seq (require (set role_slugs \<inter> held \<noteq> {})
            (http 403 ''You do not have permission to perform this action.''))
       (ret current_user))"

text \<open>A route guarded by \<^verbatim>\<open>Depends(require_roles(...))\<close>, in the request's transaction.\<close>

definition guarded_route :: "env \<Rightarrow> string list \<Rightarrow> string option \<Rightarrow> (user \<Rightarrow> 'a op) \<Rightarrow> 'a op" where
  "guarded_route E role_slugs credentials handler =
     get_db (bind (get_current_user E credentials) (\<lambda>user.
             bind (require_roles role_slugs user) handler))"

text \<open>\<^verbatim>\<open>_role_slug\<close> of the routers: the slug of the primary role.\<close>

definition primary_role_slug :: "user \<Rightarrow> string option op" where
  "primary_role_slug user =
     bind (select_one roles (\<lambda>r. role_id r = usr_role_id user)) (\<lambda>found.
     ret (map_option role_slug found))"

text \<open>
  \<^verbatim>\<open>select(User, Role.slug).join(Role, Role.id == User.role_id).where(User.id == ...)\<close> and
  \<^verbatim>\<open>first()\<close>: how sales, routing and the calendar look up a user's role. It is the primary one.
\<close>

definition slug_of_user :: "uuid \<Rightarrow> string option op" where
  "slug_of_user user_id =
     reads (\<lambda>s. case concat (map (\<lambda>u. map role_slug (filter (\<lambda>r. role_id r = usr_role_id u) (roles s)))
         (filter (\<lambda>u. usr_id u = user_id) (users s))) of
       [] \<Rightarrow> None
     | slug # _ \<Rightarrow> Some slug)"

subsection \<open>Invariants\<close>

definition holds_role :: "db \<Rightarrow> uuid \<Rightarrow> uuid \<Rightarrow> bool" where
  "holds_role s user_id rid \<longleftrightarrow> (\<exists>g \<in> set (user_roles s). is_grant user_id rid g)"

definition grants_unique :: "db \<Rightarrow> bool" where
  "grants_unique s \<longleftrightarrow> distinct (map (\<lambda>g. (ur_user_id g, ur_role_id g)) (user_roles s))"

definition roles_mirrored :: "db \<Rightarrow> bool" where
  "roles_mirrored s \<longleftrightarrow> (\<forall>u \<in> set (users s). holds_role s (usr_id u) (usr_role_id u))"

subsection \<open>Facts\<close>

lemma resolve_role_id_run [run_simps]:
  "resolve_role_id slug s =
     (case filter (\<lambda>r. role_slug r = slug) (roles s) of
        [] \<Rightarrow> (Inl (http 404 (''Unknown role slug: '' @ slug)), s)
      | [r] \<Rightarrow> (Inr (role_id r), s)
      | _ \<Rightarrow> (Inl MultipleResultsFound, s))"
  by (auto simp: resolve_role_id_def run_simps split: list.splits)

lemma holds_role_delete:
  "holds_role (s\<lparr>user_roles := delete_where (is_grant u r) (user_roles s)\<rparr>) v q \<longleftrightarrow>
     holds_role s v q \<and> (v, q) \<noteq> (u, r)"
  by (auto simp: holds_role_def is_grant_def)

lemma grant_spec:
  assumes "grant user slug by s = (Inr x, t)"
  obtains rid where "resolve_role_id slug s = (Inr rid, s)" "users t = users s" "roles t = roles s"
    and "\<And>v q. holds_role t v q \<longleftrightarrow> holds_role s v q \<or> (v = usr_id user \<and> q = rid)"
    and "grants_unique s \<Longrightarrow> grants_unique t"
proof -
  obtain r where r: "filter (\<lambda>r. role_slug r = slug) (roles s) = [r]"
    using assms by (auto simp: grant_def bind_return_iff run_simps split: list.splits)
  show thesis
  proof (rule that)
    show "resolve_role_id slug s = (Inr (role_id r), s)" by (simp add: run_simps r)
    show "users t = users s" "roles t = roles s"
      using assms by (auto simp: grant_def run_simps r)
    show "holds_role t v q \<longleftrightarrow> holds_role s v q \<or> (v = usr_id user \<and> q = role_id r)" for v q
      using assms by (auto simp: grant_def run_simps r holds_role_def is_grant_def split: if_splits)
    show "grants_unique s \<Longrightarrow> grants_unique t"
      using assms by (fastforce simp: grant_def run_simps r grants_unique_def is_grant_def
          split: if_splits)
  qed
qed

lemma roles_mirrored_grant:
  "grant user slug by s = (Inr x, t) \<Longrightarrow> roles_mirrored s \<Longrightarrow> roles_mirrored t"
  by (erule grant_spec) (simp add: roles_mirrored_def)

lemma revoke_spec:
  assumes "revoke user slug s = (Inr x, t)"
  obtains rid where "resolve_role_id slug s = (Inr rid, s)" "rid \<noteq> usr_role_id user"
    and "users t = users s"
    and "\<And>v q. holds_role t v q \<longleftrightarrow> holds_role s v q \<and> (v, q) \<noteq> (usr_id user, rid)"
proof -
  obtain r where r: "filter (\<lambda>r. role_slug r = slug) (roles s) = [r]"
    using assms by (auto simp: revoke_def bind_return_iff run_simps split: list.splits)
  let ?g = "filter (is_grant (usr_id user) (role_id r)) (user_roles s)"
  show thesis
  proof (rule that)
    show "resolve_role_id slug s = (Inr (role_id r), s)" by (simp add: run_simps r)
    show "role_id r \<noteq> usr_role_id user"
      using assms by (auto simp: revoke_def run_simps r split: if_splits)
    show "users t = users s"
      using assms by (auto simp: revoke_def run_simps r split: if_splits list.splits)
    show "holds_role t v q \<longleftrightarrow> holds_role s v q \<and> (v, q) \<noteq> (usr_id user, role_id r)" for v q
    proof (cases ?g)
      case Nil
      then have "t = s" using assms by (auto simp: revoke_def run_simps r split: if_splits)
      with Nil show ?thesis by (auto simp: holds_role_def filter_empty_conv)
    next
      case (Cons a as)
      then have "t = s\<lparr>user_roles := delete_where (is_grant (usr_id user) (role_id r)) (user_roles s)\<rparr>"
        using assms by (auto simp: revoke_def run_simps r split: if_splits list.splits)
      then show ?thesis using holds_role_delete by simp
    qed
  qed
qed

lemma roles_mirrored_revoke:
  assumes "revoke user slug s = (Inr x, t)" "roles_mirrored s"
    and "user \<in> set (users s)" "distinct (map usr_id (users s))"
  shows "roles_mirrored t"
proof -
  obtain rid where r: "rid \<noteq> usr_role_id user" "users t = users s"
    "\<And>v q. holds_role t v q \<longleftrightarrow> holds_role s v q \<and> (v, q) \<noteq> (usr_id user, rid)"
    using assms(1) by (rule revoke_spec) blast
  have "u = user" if "u \<in> set (users s)" "usr_id u = usr_id user" for u
    using that assms(3,4) by (auto simp: distinct_map dest: inj_onD)
  with r assms(2) show ?thesis by (auto simp: roles_mirrored_def)
qed

lemma roles_mirrored_set_primary:
  assumes run: "set_primary_role user slug by s = (Inr u', t)" and m: "roles_mirrored s"
  shows "roles_mirrored t"
proof -
  obtain rid where rid: "resolve_role_id slug s = (Inr rid, s)"
    using run by (auto simp: set_primary_role_def bind_return_iff run_simps split: list.splits)
  let ?s = "s\<lparr>users := update_where (\<lambda>u. usr_id u = usr_id user) (\<lambda>u. u\<lparr>usr_role_id := rid\<rparr>) (users s)\<rparr>"
  have g: "grant (user\<lparr>usr_role_id := rid\<rparr>) slug by ?s = (Inr (), t)"
    using run rid by (auto simp: set_primary_role_def bind_return_iff seq_return_iff Let_def)
  have r: "resolve_role_id slug ?s = (Inr rid, ?s)"
    using rid by (auto simp: run_simps split: list.splits)
  obtain q where q: "resolve_role_id slug ?s = (Inr q, ?s)" and h: "users t = users ?s"
    "\<And>v p. holds_role t v p \<longleftrightarrow> holds_role ?s v p \<or> (v = usr_id user \<and> p = q)"
    using g by (rule grant_spec) simp
  have "q = rid" using q r by simp
  have "holds_role ?s v q = holds_role s v q" for v q by (simp add: holds_role_def)
  with h m \<open>q = rid\<close> show ?thesis
    by (auto simp: roles_mirrored_def update_where_def)
qed

text \<open>Who passes the check: holders of one of the slugs, and nobody else.\<close>

lemma require_roles_iff:
  "require_roles slugs u s =
     (if \<exists>r \<in> set (roles s). role_slug r \<in> set slugs \<and> holds_role s (usr_id u) (role_id r)
      then (Inr u, s)
      else (Inl (http 403 ''You do not have permission to perform this action.''), s))"
  by (auto simp: require_roles_def role_slugs_for_user_def run_simps holds_role_def is_grant_def)

lemma get_current_user_returns:
  assumes "get_current_user E (Some token) s = (Inr u, t)"
  shows "t = s" "u \<in> set (users s)" "usr_status u \<in> {''active'', ''pending_deletion''}"
proof -
  have *: "(case j of JStr x \<Rightarrow> f x | _ \<Rightarrow> raise e) s = (Inr u, t) \<Longrightarrow> \<exists>x. f x s = (Inr u, t)"
    for j f e by (cases j) auto
  obtain i where "load_account i s = (Inr u, t)"
    using assms
    by (auto simp: get_current_user_def bind_return_iff [of now] now_run seq_return_iff
        require_return_iff case_option_run_iff Let_def dest!: *)
  then show "t = s" "u \<in> set (users s)" "usr_status u \<in> {''active'', ''pending_deletion''}"
    by (auto simp: load_account_def bind_return_iff case_iffs select_one_return_iff
        filter_eq_Cons_iff split: option.split_asm)
qed

text \<open>A request that is not authenticated or not permitted leaves no trace in the database.\<close>

lemma guarded_route_denied:
  assumes "fst (guarded_route E slugs cred handler s) = Inl e"
  shows "snd (guarded_route E slugs cred handler s) = s"
  using assms unfolding guarded_route_def by (rule get_db_raise)

lemma guarded_route_permitted:
  assumes "guarded_route E slugs cred handler s = (Inr x, t)"
  obtains u where "u \<in> set (users s)" "usr_status u \<in> {''active'', ''pending_deletion''}"
    and "\<exists>r \<in> set (roles s). role_slug r \<in> set slugs \<and> holds_role s (usr_id u) (role_id r)"
    and "handler u s = (Inr x, t)"
proof -
  obtain u v where u: "get_current_user E cred s = (Inr u, v)"
    and h: "bind (require_roles slugs u) handler v = (Inr x, t)"
    using assms by (auto simp: guarded_route_def get_db_def atomically_return_iff bind_return_iff)
  have "cred \<noteq> None" using u by (cases cred) (auto simp: get_current_user_def)
  then obtain tok where "cred = Some tok" by blast
  with u have "v = s" "u \<in> set (users s)" "usr_status u \<in> {''active'', ''pending_deletion''}"
    using get_current_user_returns by blast+
  with h that show thesis
    by (auto simp: bind_return_iff require_roles_iff split: if_splits)
qed

lemma guarded_route_returns:
  assumes "guarded_route E slugs cred handler s = (Inr x, t)"
  obtains u where "get_current_user E cred s = (Inr u, s)" and "u \<in> set (users s)"
    and "\<exists>r \<in> set (roles s). role_slug r \<in> set slugs \<and> holds_role s (usr_id u) (role_id r)"
    and "handler u s = (Inr x, t)"
proof -
  obtain u v where u: "get_current_user E cred s = (Inr u, v)"
    and h: "bind (require_roles slugs u) handler v = (Inr x, t)"
    using assms by (auto simp: guarded_route_def get_db_def atomically_return_iff bind_return_iff)
  have "cred \<noteq> None" using u by (cases cred) (auto simp: get_current_user_def)
  then obtain tok where "cred = Some tok" by blast
  with u have "v = s" "u \<in> set (users s)" using get_current_user_returns by blast+
  with h u that show thesis
    by (auto simp: bind_return_iff require_roles_iff split: if_splits)
qed

lemma guarded_route_run:
  assumes "get_current_user E cred s = (Inr u, s)"
    and "\<exists>r \<in> set (roles s). role_slug r \<in> set slugs \<and> holds_role s (usr_id u) (role_id r)"
  shows "guarded_route E slugs cred handler s =
    (case handler u s of (Inl e, t) \<Rightarrow> (Inl e, s) | (Inr x, t) \<Rightarrow> (Inr x, t))"
  using assms by (simp add: guarded_route_def get_db_def atomically_run bind_run require_roles_iff)

end
