(* ===== verification/RecordLocks.thy ===== *)
theory RecordLocks
  imports StatusService Roles
begin

section \<open>Pessimistic record locks\<close>

text \<open>
  \<^verbatim>\<open>api/services/record_lock_service.py\<close>, \<^verbatim>\<open>api/services/lock_registry.py\<close> and the routes of
  \<^verbatim>\<open>api/routers/record_locks.py\<close>. The table has one row per record and record type, by its
  unique constraint. \<open>acquire\<close> is a read followed by an insertion in a savepoint; because
  another transaction may commit in between, the second half is the separate program
  \<open>acquire_insert\<close>, which is correct from every state.

  The locale \<open>exclusive_lock\<close> is the contract that an editor relies on, and is interpreted on
  this service for every record type.
\<close>

definition LOCK_TTL_SECONDS :: int where "LOCK_TTL_SECONDS = 900"

definition new_expiry :: "datetime \<Rightarrow> datetime" where
  "new_expiry t = t + seconds LOCK_TTL_SECONDS"

definition to_info :: "record_lock \<Rightarrow> lock_info" where
  "to_info l = \<lparr>li_record_id = lock_record_id l, li_record_type = lock_record_type l,
     li_locked_by = lock_locked_by l, li_locked_at = lock_locked_at l,
     li_expires_at = lock_expires_at l\<rparr>"

subsection \<open>The service\<close>

definition is_lock_of :: "uuid \<Rightarrow> string \<Rightarrow> record_lock \<Rightarrow> bool" where
  "is_lock_of rid ty l = (lock_record_id l = rid \<and> lock_record_type l = ty)"

definition find_lock :: "uuid \<Rightarrow> string \<Rightarrow> record_lock option op" where
  "find_lock rid ty = select_one record_locks (is_lock_of rid ty)"

text \<open>
  The insertion in its savepoint. The primary key is the generated id, and there is a unique
  constraint on record id and type.
\<close>

definition insert_lock :: "env \<Rightarrow> uuid \<Rightarrow> string \<Rightarrow> uuid \<Rightarrow> record_lock op" where
  "insert_lock E rid ty user_id =
     bind (uuid4 E) (\<lambda>new_id.
     bind now (\<lambda>t.
     bind (reads (\<lambda>s. \<exists>l \<in> set (record_locks s). is_lock_of rid ty l \<or> lock_id l = new_id)) (\<lambda>taken.
     if taken then raise (IntegrityError ''record_locks'')
     else
       let row = \<lparr>lock_id = new_id, lock_record_id = rid, lock_record_type = ty,
                  lock_locked_by = user_id, lock_locked_at = t, lock_expires_at = new_expiry t\<rparr>
       in seq (writes (\<lambda>s. s\<lparr>record_locks := record_locks s @ [row]\<rparr>)) (ret row))))"

definition acquire_insert :: "env \<Rightarrow> uuid \<Rightarrow> string \<Rightarrow> uuid \<Rightarrow> lock_info op" where
  "acquire_insert E rid ty user_id =
     bind (attempt (atomically (insert_lock E rid ty user_id))) (\<lambda>r.
     case r of
       Inr row \<Rightarrow> ret (to_info row)
     | Inl (IntegrityError m) \<Rightarrow>
         bind (find_lock rid ty) (\<lambda>conflict.
         case conflict of
           None \<Rightarrow> raise (IntegrityError m)
         | Some c \<Rightarrow>
             if lock_locked_by c = user_id then ret (to_info c)
             else raise (LockHeldError (to_info c)))
     | Inl e \<Rightarrow> raise e)"

definition delete_lock :: "(record_lock \<Rightarrow> bool) \<Rightarrow> unit op" where
  "delete_lock p = writes (\<lambda>s. s\<lparr>record_locks := delete_where p (record_locks s)\<rparr>)"

definition acquire :: "env \<Rightarrow> uuid \<Rightarrow> string \<Rightarrow> uuid \<Rightarrow> lock_info op" where
  "acquire E rid ty user_id =
     bind (find_lock rid ty) (\<lambda>existing.
     bind now (\<lambda>t.
     case existing of
       None \<Rightarrow> acquire_insert E rid ty user_id
     | Some l \<Rightarrow>
         if lock_expires_at l \<le> t then
           seq (delete_lock (\<lambda>x. lock_id x = lock_id l)) (acquire_insert E rid ty user_id)
         else if lock_locked_by l = user_id then
           seq (writes (\<lambda>s. s\<lparr>record_locks := update_where (\<lambda>x. lock_id x = lock_id l)
                  (\<lambda>x. x\<lparr>lock_expires_at := new_expiry t\<rparr>) (record_locks s)\<rparr>))
             (ret (to_info (l\<lparr>lock_expires_at := new_expiry t\<rparr>)))
         else raise (LockHeldError (to_info l))))"

definition is_active_lock_of :: "uuid \<Rightarrow> string \<Rightarrow> uuid \<Rightarrow> datetime \<Rightarrow> record_lock \<Rightarrow> bool" where
  "is_active_lock_of rid ty user_id t l =
     (is_lock_of rid ty l \<and> lock_locked_by l = user_id \<and> lock_expires_at l > t)"

definition heartbeat :: "uuid \<Rightarrow> string \<Rightarrow> uuid \<Rightarrow> lock_info op" where
  "heartbeat rid ty user_id =
     bind now (\<lambda>t.
     bind (reads (\<lambda>s. map (\<lambda>l. l\<lparr>lock_expires_at := new_expiry t\<rparr>)
             (filter (is_active_lock_of rid ty user_id t) (record_locks s)))) (\<lambda>returned.
     seq (writes (\<lambda>s. s\<lparr>record_locks := update_where (is_active_lock_of rid ty user_id t)
            (\<lambda>l. l\<lparr>lock_expires_at := new_expiry t\<rparr>) (record_locks s)\<rparr>))
     (bind (scalar_one_or_none returned) (\<lambda>row.
      case row of
        None \<Rightarrow> raise (LockExpiredError (''no active lock for user '' @ uuid_str user_id @ '' on '' @
                  ty @ ''/'' @ uuid_str rid))
      | Some l \<Rightarrow> ret (to_info l)))))"

definition release :: "uuid \<Rightarrow> string \<Rightarrow> uuid \<Rightarrow> bool op" where
  "release rid ty user_id =
     (let p = (\<lambda>l. is_lock_of rid ty l \<and> lock_locked_by l = user_id)
      in bind (reads (\<lambda>s. \<exists>l \<in> set (record_locks s). p l)) (\<lambda>removed.
         seq (delete_lock p) (ret removed)))"

definition override_lock :: "uuid \<Rightarrow> string \<Rightarrow> lock_info option op" where
  "override_lock rid ty =
     bind (find_lock rid ty) (\<lambda>existing.
     case existing of
       None \<Rightarrow> ret None
     | Some l \<Rightarrow> seq (delete_lock (\<lambda>x. lock_id x = lock_id l)) (ret (Some (to_info l))))"

subsection \<open>The registry of lockable resources\<close>

record lockable_resource =
  lr_type :: string
  lr_display_name :: string
  lr_audit_prefix :: string
  lr_reference_loader :: "uuid \<Rightarrow> string op"

definition equipment_record_reference :: "uuid \<Rightarrow> string op" where
  "equipment_record_reference rid =
     bind (select_one equipment_records (\<lambda>r. er_id r = rid)) (\<lambda>found.
     ret (str_or (case found of None \<Rightarrow> None | Some r \<Rightarrow> er_reference_number r) (uuid_str rid)))"

definition EQUIPMENT_RECORD :: lockable_resource where
  "EQUIPMENT_RECORD =
     \<lparr>lr_type = ''equipment_record'', lr_display_name = ''equipment record'',
      lr_audit_prefix = ''equipment_record.lock'',
      lr_reference_loader = equipment_record_reference\<rparr>"

definition lock_registry :: "(string \<times> lockable_resource) list" where
  "lock_registry = [(lr_type EQUIPMENT_RECORD, EQUIPMENT_RECORD)]"

definition get_lockable :: "string \<Rightarrow> lockable_resource op" where
  "get_lockable ty =
     (case map_of lock_registry ty of
        None \<Rightarrow> raise (http 422 (''unsupported record_type: '' @ ty)) | Some x \<Rightarrow> ret x)"

definition all_lock_types :: "string list" where
  "all_lock_types = sort (map fst lock_registry)"

definition reference_for :: "uuid \<Rightarrow> string \<Rightarrow> string op" where
  "reference_for rid ty =
     (case map_of lock_registry ty of
        None \<Rightarrow> ret (uuid_str rid)
      | Some spec \<Rightarrow>
          bind (attempt (lr_reference_loader spec rid)) (\<lambda>r.
          ret (case r of Inl e \<Rightarrow> uuid_str rid | Inr x \<Rightarrow> x)))"

subsection \<open>The routes\<close>

definition audit_row ::
  "string \<Rightarrow> uuid option \<Rightarrow> string option \<Rightarrow> string \<Rightarrow> uuid \<Rightarrow> json option \<Rightarrow> json option \<Rightarrow> audit_log" where
  "audit_row event actor role ty target before after =
     \<lparr>aud_event_type = event, aud_actor_id = actor, aud_actor_role = role,
      aud_target_type = Some ty, aud_target_id = Some target, aud_before_state = before,
      aud_after_state = after\<rparr>"

text \<open>The answer of the acquire route: the lock, or the 409 body with the holder.\<close>

definition acquire_lock :: "env \<Rightarrow> user \<Rightarrow> uuid \<Rightarrow> string \<Rightarrow> (lock_info + lock_info) op" where
  "acquire_lock E current_user rid ty =
     bind (get_lockable ty) (\<lambda>_.
     bind (attempt (acquire E rid ty (usr_id current_user))) (\<lambda>r.
     case r of
       Inl (LockHeldError holder) \<Rightarrow> ret (Inl holder)
     | Inl e \<Rightarrow> raise e
     | Inr info \<Rightarrow>
         bind (primary_role_slug current_user) (\<lambda>role.
         seq (add_audit (audit_row ''record_lock.acquired'' (Some (usr_id current_user)) role ty rid
                None (Some (JObj [(''expires_at'', JStr (isoformat (li_expires_at info)))]))))
         (ret (Inr info)))))"

definition heartbeat_lock :: "user \<Rightarrow> uuid \<Rightarrow> string \<Rightarrow> lock_info op" where
  "heartbeat_lock current_user rid ty =
     bind (get_lockable ty) (\<lambda>_.
     bind (attempt (heartbeat rid ty (usr_id current_user))) (\<lambda>r.
     case r of
       Inl (LockExpiredError m) \<Rightarrow> raise (http 404 ''lock expired or not held'')
     | Inl e \<Rightarrow> raise e
     | Inr info \<Rightarrow> ret info))"

definition release_lock :: "user \<Rightarrow> uuid \<Rightarrow> string \<Rightarrow> unit op" where
  "release_lock current_user rid ty =
     bind (get_lockable ty) (\<lambda>_.
     bind (release rid ty (usr_id current_user)) (\<lambda>removed.
     if \<not> removed then ret ()
     else
       bind (primary_role_slug current_user) (\<lambda>role.
       add_audit (audit_row ''record_lock.released'' (Some (usr_id current_user)) role ty rid
         None None))))"

definition lock_overridden_key :: "uuid \<Rightarrow> uuid \<Rightarrow> string" where
  "lock_overridden_key rid prior_user_id =
     ''lock_overridden:'' @ uuid_str rid @ '':'' @ uuid_str prior_user_id"

definition notify_prior_lock_holder :: "env \<Rightarrow> uuid \<Rightarrow> uuid \<Rightarrow> string \<Rightarrow> string \<Rightarrow> unit op" where
  "notify_prior_lock_holder E prior_user_id rid ty manager_first_name =
     bind (select_one users (\<lambda>u. usr_id u = prior_user_id)) (\<lambda>found.
     case found of
       None \<Rightarrow> ret ()
     | Some prior \<Rightarrow>
         if usr_status prior \<noteq> ''active'' then ret ()
         else
           bind (reference_for rid ty) (\<lambda>ref.
           bind (resolve_channel prior) (\<lambda>dest.
           let idem = lock_overridden_key rid prior_user_id
           in if rcv_channel dest = ''sms'' \<and> str_truthy (rcv_destination dest)
              then
                bind (render_with_overrides E ''record_lock_overridden_sms''
                        [(''reference'', JStr ref),
                         (''manager_first_name'', JStr manager_first_name)]) (\<lambda>sms.
                bind (enqueue E idem (Some (usr_id prior)) ''sms'' ''record_lock_overridden_sms''
                        [(''to_number'', jopt JStr (rcv_destination dest)),
                         (''body'', JStr (rt_body sms)), (''reference_number'', JStr ref)] None)
                  (\<lambda>_. ret ()))
              else if \<not> str_truthy (rcv_destination dest) then ret ()
              else
                bind (render_with_overrides E ''record_lock_overridden''
                        [(''first_name'', JStr (if usr_first_name prior = '''' then ''team''
                                                else usr_first_name prior)),
                         (''reference'', JStr ref),
                         (''manager_first_name'', JStr manager_first_name)]) (\<lambda>rendered.
                bind (enqueue E idem (Some (usr_id prior)) ''email'' ''record_lock_overridden''
                        [(''to_email'', jopt JStr (rcv_destination dest)),
                         (''subject'', jopt JStr (rt_subject rendered)),
                         (''html_body'', JStr (rt_body rendered)),
                         (''reference_number'', JStr ref)] None)
                  (\<lambda>_. ret ())))))"

definition override_lock_route :: "env \<Rightarrow> user \<Rightarrow> uuid \<Rightarrow> string \<Rightarrow> unit op" where
  "override_lock_route E current_user rid ty =
     bind (require_roles [''sales_manager'', ''admin''] current_user) (\<lambda>current_user.
     bind (get_lockable ty) (\<lambda>_.
     bind (override_lock rid ty) (\<lambda>prior.
     case prior of
       None \<Rightarrow> raise (http 404 ''no lock to override'')
     | Some p \<Rightarrow>
         bind (primary_role_slug current_user) (\<lambda>role.
         seq (add_audit (audit_row ''record_lock.overridden'' (Some (usr_id current_user)) role ty rid
                (Some (JObj [(''locked_by'', JStr (uuid_str (li_locked_by p))),
                   (''locked_at'', JStr (isoformat (li_locked_at p))),
                   (''expires_at'', JStr (isoformat (li_expires_at p)))])) None))
         (notify_prior_lock_holder E (li_locked_by p) rid ty
            (if usr_first_name current_user = '''' then ''a manager''
             else usr_first_name current_user))))))"

subsection \<open>The table's invariant and how each operation changes it\<close>

definition locks_ok :: "db \<Rightarrow> bool" where
  "locks_ok s \<longleftrightarrow>
     distinct (map (\<lambda>l. (lock_record_id l, lock_record_type l)) (record_locks s)) \<and>
     distinct (map lock_id (record_locks s))"

text \<open>\<open>user_id\<close> has the lock on the record until \<open>e\<close>, expired or not.\<close>

definition locked_until :: "string \<Rightarrow> db \<Rightarrow> uuid \<Rightarrow> uuid \<Rightarrow> datetime \<Rightarrow> bool" where
  "locked_until ty s rid user_id e \<longleftrightarrow>
     (\<exists>l \<in> set (record_locks s). is_lock_of rid ty l \<and> lock_locked_by l = user_id \<and>
        lock_expires_at l = e)"

definition lock_free :: "string \<Rightarrow> db \<Rightarrow> uuid \<Rightarrow> bool" where
  "lock_free ty s rid \<longleftrightarrow> (\<forall>u e. locked_until ty s rid u e \<longrightarrow> e \<le> clock s)"

lemma lock_row_unique:
  assumes "locks_ok s" "l \<in> set (record_locks s)" "l' \<in> set (record_locks s)"
    and "is_lock_of rid ty l" "is_lock_of rid ty l'"
  shows "l = l'"
  using assms by (auto simp: locks_ok_def is_lock_of_def distinct_map dest!: inj_onD)

lemma filter_lock:
  assumes "locks_ok s" "l \<in> set (record_locks s)" "is_lock_of rid ty l"
  shows "filter (is_lock_of rid ty) (record_locks s) = [l]"
proof -
  have "filter (\<lambda>x. (lock_record_id x, lock_record_type x) = (rid, ty)) (record_locks s) = [l]"
    using assms by (intro filter_key_distinct) (auto simp: locks_ok_def is_lock_of_def)
  moreover have "is_lock_of rid ty = (\<lambda>x. (lock_record_id x, lock_record_type x) = (rid, ty))"
    by (auto simp: is_lock_of_def)
  ultimately show ?thesis by simp
qed

lemma find_lock_some:
  "locks_ok s \<Longrightarrow> l \<in> set (record_locks s) \<Longrightarrow> is_lock_of rid ty l \<Longrightarrow>
   find_lock rid ty s = (Inr (Some l), s)"
  by (simp add: find_lock_def run_simps filter_lock)

lemma find_lock_none:
  "\<forall>l \<in> set (record_locks s). \<not> is_lock_of rid ty l \<Longrightarrow> find_lock rid ty s = (Inr None, s)"
  by (simp add: find_lock_def run_simps filter_False)

lemma find_lock_cases:
  assumes "locks_ok s"
  obtains (none) "\<forall>l \<in> set (record_locks s). \<not> is_lock_of rid ty l"
      "find_lock rid ty s = (Inr None, s)"
    | (some) l where "l \<in> set (record_locks s)" "is_lock_of rid ty l"
      "find_lock rid ty s = (Inr (Some l), s)"
  using find_lock_some [OF assms] find_lock_none by blast

text \<open>The row of a lock found by its id is the only row that the id update or delete meets.\<close>

lemma same_lock_id:
  assumes "locks_ok s" "l \<in> set (record_locks s)" "x \<in> set (record_locks s)"
  shows "lock_id x = lock_id l \<longleftrightarrow> x = l"
  using assms by (auto simp: locks_ok_def distinct_map dest: inj_onD)

lemma acquire_insert_new:
  assumes "locks_ok s" "\<forall>l \<in> set (record_locks s). \<not> is_lock_of rid ty l"
    and "\<forall>l \<in> set (record_locks s). lock_id l \<noteq> random_uuid E (draws s)"
  shows "acquire_insert E rid ty u s =
    (Inr \<lparr>li_record_id = rid, li_record_type = ty, li_locked_by = u, li_locked_at = clock s,
          li_expires_at = new_expiry (clock s)\<rparr>,
     s\<lparr>draws := Suc (draws s), record_locks := record_locks s @
        [\<lparr>lock_id = random_uuid E (draws s), lock_record_id = rid, lock_record_type = ty,
          lock_locked_by = u, lock_locked_at = clock s, lock_expires_at = new_expiry (clock s)\<rparr>]\<rparr>)"
  using assms by (auto simp: acquire_insert_def insert_lock_def run_simps to_info_def Let_def)

text \<open>From any other state the savepoint is rolled back and the row in the way is looked at.\<close>

lemma acquire_insert_conflict:
  assumes "locks_ok s" "l \<in> set (record_locks s)" "is_lock_of rid ty l"
  shows "acquire_insert E rid ty u s =
    (if lock_locked_by l = u then (Inr (to_info l), s) else (Inl (LockHeldError (to_info l)), s))"
  using assms by (auto simp: acquire_insert_def insert_lock_def run_simps find_lock_some)

lemma acquire_insert_collision:
  assumes "\<forall>l \<in> set (record_locks s). \<not> is_lock_of rid ty l"
    and "\<exists>l \<in> set (record_locks s). lock_id l = random_uuid E (draws s)"
  shows "acquire_insert E rid ty u s = (Inl (IntegrityError ''record_locks''), s)"
  using assms by (auto simp: acquire_insert_def insert_lock_def run_simps find_lock_none)

text \<open>\<open>acquire\<close> by the state of the row: none, expired, own, foreign.\<close>

definition without :: "record_lock \<Rightarrow> db \<Rightarrow> db" where
  "without l s = s\<lparr>record_locks := delete_where (\<lambda>x. lock_id x = lock_id l) (record_locks s)\<rparr>"

definition renewed :: "record_lock \<Rightarrow> db \<Rightarrow> db" where
  "renewed l s = s\<lparr>record_locks := update_where (\<lambda>x. lock_id x = lock_id l)
     (\<lambda>x. x\<lparr>lock_expires_at := new_expiry (clock s)\<rparr>) (record_locks s)\<rparr>"

lemma acquire_none:
  "\<forall>l \<in> set (record_locks s). \<not> is_lock_of rid ty l \<Longrightarrow>
   acquire E rid ty u s = acquire_insert E rid ty u s"
  by (simp add: acquire_def run_simps find_lock_none)

lemma acquire_some:
  assumes "locks_ok s" "l \<in> set (record_locks s)" "is_lock_of rid ty l"
  shows "acquire E rid ty u s =
    (if lock_expires_at l \<le> clock s then acquire_insert E rid ty u (without l s)
     else if lock_locked_by l = u
     then (Inr (to_info (l\<lparr>lock_expires_at := new_expiry (clock s)\<rparr>)), renewed l s)
     else (Inl (LockHeldError (to_info l)), s))"
  using find_lock_some [OF assms]
  by (simp add: acquire_def run_simps delete_lock_def without_def renewed_def)

lemma without_rows:
  assumes "locks_ok s" "l \<in> set (record_locks s)"
  shows "set (record_locks (without l s)) = set (record_locks s) - {l}"
  using same_lock_id [OF assms] by (auto simp: without_def)

lemma without_ok: "locks_ok s \<Longrightarrow> locks_ok (without l s)"
  by (simp add: locks_ok_def without_def distinct_delete_where)

lemma renewed_rows:
  assumes "locks_ok s" "l \<in> set (record_locks s)"
  shows "set (record_locks (renewed l s)) =
    insert (l\<lparr>lock_expires_at := new_expiry (clock s)\<rparr>) (set (record_locks s) - {l})"
  using same_lock_id [OF assms] assms(2) by (auto simp: renewed_def update_where_def)

lemma renewed_ok: "locks_ok s \<Longrightarrow> locks_ok (renewed l s)"
  by (simp add: locks_ok_def renewed_def distinct_update_where)

definition new_row :: "env \<Rightarrow> db \<Rightarrow> uuid \<Rightarrow> string \<Rightarrow> uuid \<Rightarrow> record_lock" where
  "new_row E s rid ty u =
     \<lparr>lock_id = random_uuid E (draws s), lock_record_id = rid, lock_record_type = ty,
      lock_locked_by = u, lock_locked_at = clock s, lock_expires_at = new_expiry (clock s)\<rparr>"

definition others :: "uuid \<Rightarrow> string \<Rightarrow> db \<Rightarrow> record_lock set" where
  "others rid ty s = {l \<in> set (record_locks s). \<not> is_lock_of rid ty l}"

lemma acquire_insert_from_free:
  assumes "locks_ok s" "\<forall>l \<in> set (record_locks s). \<not> is_lock_of rid ty l"
    and "acquire_insert E rid ty u s = (r, t)"
  shows "locks_ok t \<and> clock t = clock s \<and>
    ((\<exists>i. r = Inr i \<and> set (record_locks t) = insert (new_row E s rid ty u) (set (record_locks s))) \<or>
     (\<exists>e. r = Inl e \<and> t = s \<and> (\<exists>l \<in> set (record_locks s). lock_id l = random_uuid E (draws s))))"
proof (cases "\<exists>l \<in> set (record_locks s). lock_id l = random_uuid E (draws s)")
  case True
  then show ?thesis using assms acquire_insert_collision by auto
next
  case False
  then have t: "t = s\<lparr>draws := Suc (draws s), record_locks := record_locks s @ [new_row E s rid ty u]\<rparr>"
    "\<exists>i. r = Inr i"
    using assms acquire_insert_new [OF assms(1,2), of E u] by (auto simp: new_row_def)
  have "locks_ok t"
    using assms(1,2) False by (auto simp: t locks_ok_def new_row_def is_lock_of_def)
  with t show ?thesis by auto
qed

lemma acquire_cases:
  assumes ok: "locks_ok s" and run: "acquire E rid ty u s = (r, t)"
  obtains
    (busy) l where "l \<in> set (record_locks s)" "is_lock_of rid ty l" "lock_locked_by l \<noteq> u"
      "lock_expires_at l > clock s" "r = Inl (LockHeldError (to_info l))" "t = s"
  | (own) l where "l \<in> set (record_locks s)" "is_lock_of rid ty l" "lock_locked_by l = u"
      "lock_expires_at l > clock s"
      "r = Inr (to_info (l\<lparr>lock_expires_at := new_expiry (clock s)\<rparr>))" "t = renewed l s"
  | (new) i where "lock_free ty s rid" "r = Inr i"
      "set (record_locks t) = insert (new_row E s rid ty u) (others rid ty s)" "locks_ok t"
      "clock t = clock s"
  | (collision) e where "lock_free ty s rid" "r = Inl e" "set (record_locks t) = others rid ty s"
      "locks_ok t" "clock t = clock s" "\<exists>l \<in> others rid ty s. lock_id l = random_uuid E (draws s)"
proof (cases "\<exists>l \<in> set (record_locks s). is_lock_of rid ty l")
  case False
  then have none: "\<forall>l \<in> set (record_locks s). \<not> is_lock_of rid ty l" by simp
  then have "others rid ty s = set (record_locks s)" "lock_free ty s rid"
    by (auto simp: others_def lock_free_def locked_until_def)
  note free = this
  have "acquire_insert E rid ty u s = (r, t)" using run acquire_none [OF none] by simp
  from acquire_insert_from_free [OF ok none this] show thesis
  proof (elim conjE disjE exE)
    fix i assume "r = Inr i" "locks_ok t" "clock t = clock s"
      "set (record_locks t) = insert (new_row E s rid ty u) (set (record_locks s))"
    then show thesis using new [OF free(2)] free(1) by simp
  next
    fix e assume "r = Inl e" "locks_ok t" "clock t = clock s" "t = s"
      "\<exists>l \<in> set (record_locks s). lock_id l = random_uuid E (draws s)"
    then show thesis using collision [OF free(2)] free(1) by simp
  qed
next
  case True
  then obtain l where l: "l \<in> set (record_locks s)" "is_lock_of rid ty l" by blast
  have uniq: "x = l" if "x \<in> set (record_locks s)" "is_lock_of rid ty x" for x
    using lock_row_unique [OF ok that(1) l(1) that(2) l(2)] .
  note a = acquire_some [OF ok l, of E u]
  show thesis
  proof (cases "lock_expires_at l \<le> clock s")
    case False
    show thesis
    proof (cases "lock_locked_by l = u")
      case True
      then show thesis using own [OF l] False a run by auto
    next
      case False
      then show thesis using busy [OF l] \<open>\<not> lock_expires_at l \<le> clock s\<close> a run by auto
    qed
  next
    case True
    have rows: "set (record_locks (without l s)) = others rid ty s"
      unfolding without_rows [OF ok l(1)] others_def using l uniq by blast
    have free: "lock_free ty s rid"
      unfolding lock_free_def locked_until_def using True uniq by blast
    have "acquire_insert E rid ty u (without l s) = (r, t)" using a True run by simp
    moreover have "new_row E (without l s) rid ty u = new_row E s rid ty u"
      "clock (without l s) = clock s" "draws (without l s) = draws s"
      by (simp_all add: new_row_def without_def)
    moreover have "\<forall>x \<in> set (record_locks (without l s)). \<not> is_lock_of rid ty x"
      by (simp add: rows others_def)
    ultimately have d: "locks_ok t \<and> clock t = clock s \<and>
        ((\<exists>i. r = Inr i \<and> set (record_locks t) = insert (new_row E s rid ty u) (others rid ty s)) \<or>
         (\<exists>e. r = Inl e \<and> t = without l s \<and>
            (\<exists>l \<in> others rid ty s. lock_id l = random_uuid E (draws s))))"
      using acquire_insert_from_free [OF without_ok [OF ok], of l rid ty E u r t] rows by simp
    then show thesis
    proof (elim conjE disjE exE)
      fix i assume "r = Inr i" "locks_ok t" "clock t = clock s"
        "set (record_locks t) = insert (new_row E s rid ty u) (others rid ty s)"
      then show thesis using new [OF free] by blast
    next
      fix e assume "r = Inl e" "locks_ok t" "clock t = clock s" "t = without l s"
        "\<exists>l \<in> others rid ty s. lock_id l = random_uuid E (draws s)"
      then show thesis using collision [OF free] rows by simp
    qed
  qed
qed

lemma locked_until_others:
  "rid' \<noteq> rid \<or> ty' \<noteq> ty \<Longrightarrow>
   locked_until ty' s rid' v e \<longleftrightarrow>
     (\<exists>l \<in> others rid ty s. is_lock_of rid' ty' l \<and> lock_locked_by l = v \<and> lock_expires_at l = e)"
  by (auto simp: locked_until_def others_def is_lock_of_def)

lemma others_same:
  "others rid ty t = others rid ty s \<Longrightarrow> rid' \<noteq> rid \<or> ty' \<noteq> ty \<Longrightarrow>
   locked_until ty' t rid' v e = locked_until ty' s rid' v e"
  using locked_until_others by metis

lemma others_renewed:
  assumes "locks_ok s" "l \<in> set (record_locks s)" "is_lock_of rid ty l"
  shows "others rid ty (renewed l s) = others rid ty s"
proof -
  have "is_lock_of rid ty (l\<lparr>lock_expires_at := e\<rparr>)" for e
    using assms(3) by (simp add: is_lock_of_def)
  then show ?thesis
    using renewed_rows [OF assms(1,2)] assms(3) by (auto simp: others_def)
qed

lemma acquire_keeps:
  assumes ok: "locks_ok s" and run: "acquire E rid ty u s = (r, t)"
  shows "locks_ok t" "clock t = clock s" "others rid ty t = others rid ty s"
proof -
  have n: "is_lock_of rid ty (new_row E s rid ty u)" by (simp add: is_lock_of_def new_row_def)
  have "locks_ok t \<and> clock t = clock s \<and> others rid ty t = others rid ty s"
    using ok run
  proof (cases rule: acquire_cases)
    case (own l)
    then show ?thesis
      using ok renewed_ok others_renewed [OF ok own(1,2)] by (simp add: renewed_def)
  next
    case (new i)
    with n show ?thesis by (auto simp: others_def)
  qed (auto simp: ok others_def)
  then show "locks_ok t" "clock t = clock s" "others rid ty t = others rid ty s" by auto
qed

lemma acquire_holds:
  assumes "locks_ok s" "acquire E rid ty u s = (Inr i, t)"
  shows "locked_until ty t rid u (new_expiry (clock s))"
  using assms
proof (cases rule: acquire_cases)
  case (own l)
  then have "l\<lparr>lock_expires_at := new_expiry (clock s)\<rparr> \<in> set (record_locks t)"
    using renewed_rows [OF assms(1) own(1)] by simp
  with own(2,3) show ?thesis
    unfolding locked_until_def
    by (intro bexI [where x = "l\<lparr>lock_expires_at := new_expiry (clock s)\<rparr>"])
      (simp_all add: is_lock_of_def)
next
  case (new j)
  then show ?thesis
    by (auto simp: locked_until_def new_row_def is_lock_of_def)
qed auto

lemma locked_until_unique:
  "locks_ok s \<Longrightarrow> locked_until ty s rid u e \<Longrightarrow> locked_until ty s rid v e' \<Longrightarrow> u = v \<and> e = e'"
  unfolding locked_until_def using lock_row_unique by blast

lemma acquire_busy:
  assumes ok: "locks_ok s" and held: "locked_until ty s rid v e" "clock s < e" "v \<noteq> u"
  shows "\<exists>x. acquire E rid ty u s = (Inl x, s)"
proof -
  obtain r t where run: "acquire E rid ty u s = (r, t)" by fastforce
  have nf: "\<not> lock_free ty s rid" using held unfolding lock_free_def by (meson not_le)
  from ok run show ?thesis
  proof (cases rule: acquire_cases)
    case (own l)
    then have "locked_until ty s rid u (lock_expires_at l)"
      by (auto simp: locked_until_def)
    then show ?thesis using locked_until_unique [OF ok held(1)] held(3) by blast
  qed (use nf run in auto)
qed

lemma acquire_available:
  assumes ok: "locks_ok s" and mine: "\<And>v e. locked_until ty s rid v e \<Longrightarrow> clock s < e \<Longrightarrow> v = u"
    and fresh: "\<forall>l \<in> set (record_locks s). lock_id l \<noteq> random_uuid E (draws s)"
  shows "\<exists>i t. acquire E rid ty u s = (Inr i, t)"
proof -
  obtain r t where run: "acquire E rid ty u s = (r, t)" by fastforce
  from ok run show ?thesis
  proof (cases rule: acquire_cases)
    case (busy l)
    then show ?thesis
      using mine [of "lock_locked_by l" "lock_expires_at l"] by (auto simp: locked_until_def)
  next
    case (collision e)
    then show ?thesis using fresh by (auto simp: others_def)
  qed (use run in auto)
qed

lemma release_spec:
  assumes "locks_ok s" "release rid ty u s = (r, t)"
  shows "locks_ok t" "clock t = clock s" "others rid ty t = others rid ty s"
    and "locked_until ty t rid v e \<longleftrightarrow> locked_until ty s rid v e \<and> v \<noteq> u"
    and "r = Inr (\<exists>e. locked_until ty s rid u e)"
  using assms
  by (auto simp: release_def run_simps delete_lock_def Let_def locks_ok_def distinct_delete_where
      others_def locked_until_def)

lemma heartbeat_iff:
  assumes ok: "locks_ok s"
  shows "(\<exists>i t. heartbeat rid ty u s = (Inr i, t)) \<longleftrightarrow>
    (\<exists>e. locked_until ty s rid u e \<and> clock s < e)"
proof -
  let ?p = "is_active_lock_of rid ty u (clock s)"
  have "?p = (\<lambda>x. is_lock_of rid ty x \<and> ?p x)"
    by (auto simp: is_active_lock_of_def)
  then have p: "filter ?p (record_locks s) = filter ?p (filter (is_lock_of rid ty) (record_locks s))"
    by (simp add: filter_filter)
  show ?thesis
    using ok
  proof (cases rule: find_lock_cases [of s rid ty])
    case none
    then show ?thesis
      by (auto simp: heartbeat_def run_simps filter_empty_conv is_active_lock_of_def
          locked_until_def filter_False)
  next
    case (some l)
    have l: "filter ?p (record_locks s) = (if ?p l then [l] else [])"
      using p filter_lock [OF ok some(1,2)] by simp
    have "?p l \<longleftrightarrow> (\<exists>e. locked_until ty s rid u e \<and> clock s < e)"
      unfolding locked_until_def is_active_lock_of_def
      using some(1,2) lock_row_unique [OF ok] by blast
    then show ?thesis by (simp add: heartbeat_def run_simps l)
  qed
qed

lemma heartbeat_extends:
  assumes ok: "locks_ok s" and run: "heartbeat rid ty u s = (Inr i, t)"
  shows "locks_ok t" "locked_until ty t rid u (new_expiry (clock s))" "others rid ty t = others rid ty s"
proof -
  let ?p = "is_active_lock_of rid ty u (clock s)"
  let ?f = "\<lambda>l. l\<lparr>lock_expires_at := new_expiry (clock s)\<rparr>"
  have t: "t = s\<lparr>record_locks := update_where ?p ?f (record_locks s)\<rparr>"
    using run by (auto simp: heartbeat_def bind_return_iff seq_return_iff now_run
        case_option_run_iff dest!: scalar_one_or_none_pure)
  show "locks_ok t" using ok by (simp add: t locks_ok_def distinct_update_where)
  obtain e where "locked_until ty s rid u e" "clock s < e"
    using heartbeat_iff [OF ok] run by blast
  then obtain l where l: "l \<in> set (record_locks s)" "?p l"
    by (auto simp: locked_until_def is_active_lock_of_def)
  then have "?f l \<in> set (record_locks t)" by (force simp: t update_where_def)
  then show "locked_until ty t rid u (new_expiry (clock s))"
    unfolding locked_until_def using l(2)
    by (intro bexI [where x = "?f l"]) (simp_all add: is_active_lock_of_def is_lock_of_def)
  show "others rid ty t = others rid ty s"
    by (force simp: t others_def update_where_def is_active_lock_of_def is_lock_of_def)
qed

lemma override_spec:
  assumes ok: "locks_ok s" and run: "override_lock rid ty s = (r, t)"
  shows "locks_ok t" "others rid ty t = others rid ty s" "\<not> locked_until ty t rid v e"
    and "r = Inr None \<longleftrightarrow> (\<forall>v e. \<not> locked_until ty s rid v e)"
proof -
  have "locks_ok t \<and> others rid ty t = others rid ty s \<and> \<not> locked_until ty t rid v e \<and>
    (r = Inr None \<longleftrightarrow> (\<forall>v e. \<not> locked_until ty s rid v e))"
    using ok
  proof (cases rule: find_lock_cases [of s rid ty])
    case none
    then show ?thesis using ok run by (auto simp: override_lock_def run_simps locked_until_def)
  next
    case (some l)
    have t: "t = without l s" and r: "r = Inr (Some (to_info l))"
      using run some(3) by (auto simp: override_lock_def run_simps delete_lock_def without_def)
    have "x = l" if "x \<in> set (record_locks s)" "is_lock_of rid ty x" for x
      using lock_row_unique [OF ok that(1) some(1) that(2) some(2)] .
    then show ?thesis
      using some(1,2) without_ok [OF ok] unfolding t r locked_until_def others_def
        without_rows [OF ok some(1)] by blast
  qed
  then show "locks_ok t" "others rid ty t = others rid ty s" "\<not> locked_until ty t rid v e"
    "r = Inr None \<longleftrightarrow> (\<forall>v e. \<not> locked_until ty s rid v e)" by auto
qed

subsection \<open>The contract of an exclusive lock\<close>

text \<open>
  What an editor of records relies on, in terms of \<open>until s r u e\<close>: user \<open>u\<close> has the lock on
  \<open>r\<close>, valid before time \<open>e\<close>.
\<close>

locale exclusive_lock =
  fixes ok :: "db \<Rightarrow> bool"
    and until :: "db \<Rightarrow> uuid \<Rightarrow> uuid \<Rightarrow> datetime \<Rightarrow> bool"
    and take_lock :: "uuid \<Rightarrow> uuid \<Rightarrow> 'i op"
    and drop_lock :: "uuid \<Rightarrow> uuid \<Rightarrow> 'd op"
  assumes until_unique: "ok s \<Longrightarrow> until s r u e \<Longrightarrow> until s r v e' \<Longrightarrow> u = v \<and> e = e'"
    and take_ok: "ok s \<Longrightarrow> take_lock r u s = (x, t) \<Longrightarrow> ok t"
    and take_until: "ok s \<Longrightarrow> take_lock r u s = (Inr i, t) \<Longrightarrow>
      \<exists>e. clock t < e \<and> until t r u e"
    and take_busy: "ok s \<Longrightarrow> until s r v e \<Longrightarrow> clock s < e \<Longrightarrow> v \<noteq> u \<Longrightarrow>
      \<exists>x. take_lock r u s = (Inl x, s)"
    and take_other: "ok s \<Longrightarrow> take_lock r u s = (x, t) \<Longrightarrow> r' \<noteq> r \<Longrightarrow>
      until t r' v e = until s r' v e"
    and drop_ok: "ok s \<Longrightarrow> drop_lock r u s = (y, t) \<Longrightarrow> ok t"
    and drop_own: "ok s \<Longrightarrow> drop_lock r u s = (y, t) \<Longrightarrow> \<not> until t r u e"
    and drop_other: "ok s \<Longrightarrow> drop_lock r u s = (y, t) \<Longrightarrow> r' \<noteq> r \<or> v \<noteq> u \<Longrightarrow>
      until t r' v e = until s r' v e"
    and ok_clock: "ok (s\<lparr>clock := c\<rparr>) = ok s"
    and until_clock: "until (s\<lparr>clock := c\<rparr>) r u e = until s r u e"
begin

text \<open>Requests of the users, each served at a time of its own.\<close>

primrec serve :: "(datetime \<times> uuid \<times> uuid \<times> bool) list \<Rightarrow> db \<Rightarrow> db" where
  "serve [] s = s"
| "serve (q # qs) s =
     (case q of (c, r, u, wants) \<Rightarrow>
        serve qs (if wants then snd (take_lock r u (s\<lparr>clock := c\<rparr>))
                  else snd (drop_lock r u (s\<lparr>clock := c\<rparr>))))"

text \<open>Nobody else's requests can take a lock away before it expires.\<close>

lemma kept:
  assumes "ok s" "until s r u e"
    and "\<forall>(c, r', v, w) \<in> set qs. c < e \<and> v \<noteq> u"
  shows "until (serve qs s) r u e"
  using assms
proof (induction qs arbitrary: s)
  case (Cons q qs)
  obtain c r' v w where q: "q = (c, r', v, w)" by (cases q) auto
  let ?s = "s\<lparr>clock := c\<rparr>"
  have pre: "ok ?s" "until ?s r u e" "clock ?s < e" "v \<noteq> u"
    using Cons.prems by (auto simp: q ok_clock until_clock)
  let ?t = "if w then snd (take_lock r' v ?s) else snd (drop_lock r' v ?s)"
  have "ok ?t \<and> until ?t r u e"
  proof (cases w)
    case True
    obtain x t where run: "take_lock r' v ?s = (x, t)" by fastforce
    have "until t r u e"
    proof (cases "r' = r")
      case True
      then show ?thesis using take_busy [OF pre(1,2,3), of v] pre run by auto
    next
      case False
      then show ?thesis using take_other [OF pre(1) run] pre(2) by simp
    qed
    with True run take_ok [OF pre(1) run] show ?thesis by simp
  next
    case False
    obtain y t where run: "drop_lock r' v ?s = (y, t)" by fastforce
    have "until t r u e" using drop_other [OF pre(1) run] pre by simp
    with False run drop_ok [OF pre(1) run] show ?thesis by simp
  qed
  with Cons.IH Cons.prems(3) show ?case by (simp add: q)
qed simp

lemma serve_ok: "ok s \<Longrightarrow> ok (serve qs s)"
proof (induction qs arbitrary: s)
  case (Cons q qs)
  obtain c r v w where q: "q = (c, r, v, w)" by (cases q) auto
  let ?s = "s\<lparr>clock := c\<rparr>"
  obtain x t where t: "take_lock r v ?s = (x, t)" by fastforce
  obtain y t' where d: "drop_lock r v ?s = (y, t')" by fastforce
  have "ok ?s" using Cons.prems by (simp add: ok_clock)
  then have "ok t" "ok t'" using take_ok [OF _ t] drop_ok [OF _ d] by simp_all
  then show ?case using Cons.IH t d by (simp add: q)
qed simp

text \<open>Two users cannot both get the lock within one validity period.\<close>

lemma exclusive:
  assumes "ok s" "take_lock r u s = (Inr i, t)" "take_lock r v t = (Inr j, t')"
  shows "v = u"
proof (rule ccontr)
  assume "v \<noteq> u"
  obtain e where "clock t < e" "until t r u e" using take_until [OF assms(1,2)] by blast
  then have "\<exists>x. take_lock r v t = (Inl x, t)"
    using take_busy [OF take_ok [OF assms(1,2)], of r u e v] \<open>v \<noteq> u\<close> by simp
  with assms(3) show False by simp
qed

end

lemma seconds_ttl_pos: "t < new_expiry t"
  by (simp add: new_expiry_def LOCK_TTL_SECONDS_def seconds_def)

interpretation rec_lock:
  exclusive_lock locks_ok "locked_until ty" "\<lambda>r u. acquire E r ty u" "\<lambda>r u. release r ty u"
proof unfold_locales
  fix s t :: db and r r' u v e e' x i c
  show "locks_ok s \<Longrightarrow> locked_until ty s r u e \<Longrightarrow> locked_until ty s r v e' \<Longrightarrow> u = v \<and> e = e'"
    by (rule locked_until_unique)
  show "locks_ok s \<Longrightarrow> acquire E r ty u s = (x, t) \<Longrightarrow> locks_ok t"
    by (rule acquire_keeps(1))
  show "locks_ok s \<Longrightarrow> acquire E r ty u s = (Inr i, t) \<Longrightarrow> \<exists>e. clock t < e \<and> locked_until ty t r u e"
    using acquire_holds [of s E r ty u i t] acquire_keeps(2) [of s E r ty u "Inr i" t]
      seconds_ttl_pos [of "clock s"] by auto
  show "locks_ok s \<Longrightarrow> locked_until ty s r v e \<Longrightarrow> clock s < e \<Longrightarrow> v \<noteq> u \<Longrightarrow>
      \<exists>x. acquire E r ty u s = (Inl x, s)"
    by (rule acquire_busy)
  show "locks_ok s \<Longrightarrow> acquire E r ty u s = (x, t) \<Longrightarrow> r' \<noteq> r \<Longrightarrow>
      locked_until ty t r' v e = locked_until ty s r' v e"
    by (rule others_same [OF acquire_keeps(3)]) auto
  show "locks_ok (s\<lparr>clock := c\<rparr>) = locks_ok s"
    "locked_until ty (s\<lparr>clock := c\<rparr>) r u e = locked_until ty s r u e"
    by (simp_all add: locks_ok_def locked_until_def)
next
  fix s t :: db and r r' u v e and x :: "exn + bool"
  assume a: "locks_ok s" "release r ty u s = (x, t)"
  show "locks_ok t" "\<not> locked_until ty t r u e"
    using release_spec [OF a] by blast+
  show "locked_until ty t r' v e = locked_until ty s r' v e" if "r' \<noteq> r \<or> v \<noteq> u"
  proof (cases "r' = r")
    case True
    with that show ?thesis using release_spec(4) [OF a, of v e] by simp
  next
    case False
    then show ?thesis by (intro others_same [OF release_spec(3) [OF a]]) simp
  qed
qed

end
