(* ===== verification/Demo.thy ===== *)
theory Demo
  imports RecordLocks
begin

section \<open>A concrete environment and database\<close>

text \<open>
  The parameters of the model instantiated by simple computable functions, and a small
  database, for the theorems that apply a property at a concrete input: the hash functions
  and codecs are injective functions, the template engine returns the template source, the
  generated ids count upwards, and every provider accepts.
\<close>

definition demo_env :: env where
  "demo_env =
     \<lparr>sha256_hex = (\<lambda>x. x), hmac_sha256_hex = (\<lambda>k m. k @ m), bcrypt_hash = (\<lambda>n p. p), bcrypt_check = (\<lambda>p h. p = h),
      jwt_encode = (\<lambda>claims. ''jwt''),
      jwt_decode = (\<lambda>t tok. if tok = ''tok-1'' then Some [(''type'', JStr ''access''),
        (''sub'', JStr (uuid_str 1))] else None),
      fernet_valid_key = (\<lambda>k. True), fernet_encrypt = (\<lambda>k n p. k @ CHR ''|'' # p),
      fernet_decrypt = (\<lambda>k c. if take (length k + 1) c = k @ ''|'' then Some (drop (length k + 1) c)
        else None),
      totp_verify = (\<lambda>s c t. c = s), totp_uri = (\<lambda>s e. s @ e),
      jinja_render = (\<lambda>esc src vars. Some src),
      random_uuid = (\<lambda>n. word_of_nat (n + 1000)), random_hex = (\<lambda>n k. nat_str n),
      random_base32 = nat_str, json_repr = (\<lambda>j. ''json''), json_loads = (\<lambda>s. Some (JStr s)),
      bleach_plain = (\<lambda>x. x), bleach_html = (\<lambda>x. x), twilio_send = (\<lambda>to body. None),
      slack_post = (\<lambda>url p. Inr (200, ''ok'')), apns_jwt = (\<lambda>c k kid. Some ''jwt''),
      apns_post = (\<lambda>url hs p. Inr (200, '''')), google_get = (\<lambda>u ps. None),
      pydantic_uuid = uuid_parse, pydantic_float = (\<lambda>j. None),
      pydantic_bool = (\<lambda>j. case j of JBool b \<Rightarrow> Some b | _ \<Rightarrow> None), presign = (\<lambda>ps. ''https''),
      random_text = (\<lambda>n a k. nat_str n), http_send = (\<lambda>m u r. Inr (200, ''ok'')), elapsed_ms = (\<lambda>n. 5),
      json_dumps = (\<lambda>j. ''json''), json_dumps_indent = (\<lambda>j. ''json''), zip_files = (\<lambda>fs. ''zip''),
      object_put = (\<lambda>b k x. None), bucket_head = (\<lambda>b. None), cfg_refresh_token_days = 7,
      cfg_access_token_minutes = 15, cfg_twilio_sid = ''MG1'', cfg_sales_ops_email = '''',
      cfg_webhook_secret = '''', cfg_totp_encryption_key = ''k1'', cfg_totp_encryption_keys = '''',
      cfg_credentials_encryption_key = '''', cfg_google_maps_api_key = '''',
      cfg_r2_access_key_id = '''', cfg_r2_secret_access_key = '''', cfg_r2_bucket_photos = ''photos'', cfg_r2_bucket_reports = ''reports'', cfg_frontend_url = ''web'',
      cfg_is_production = True,
      cfg_slack_staging_channel = ''''\<rparr>"

definition demo_user :: "uuid \<Rightarrow> uuid \<Rightarrow> user" where
  "demo_user i r =
     \<lparr>usr_id = i, usr_email = ''a@b.c'', usr_password_hash = Some ''pw'', usr_first_name = ''Ann'',
      usr_last_name = ''Lee'', usr_role_id = r, usr_status = ''active'', usr_totp_secret_enc = None,
      usr_totp_enabled = False, usr_tos_accepted_at = None, usr_tos_version = None,
      usr_privacy_accepted_at = None, usr_privacy_version = None, usr_failed_login_count = 0,
      usr_locked_until = None, usr_google_id = None, usr_profile_photo_url = None,
      usr_deletion_requested_at = None, usr_deletion_grace_until = None, usr_created_at = 0\<rparr>"

definition demo_record :: "uuid \<Rightarrow> string \<Rightarrow> equipment_record" where
  "demo_record i status =
     \<lparr>er_id = i, er_customer_id = 50, er_status = status, er_reference_number = Some ''REF-1'',
      er_category_id = None, er_customer_make = Some ''Volvo'', er_customer_model = None,
      er_customer_year = None, er_customer_serial_number = None, er_customer_hours = None,
      er_customer_running_status = None, er_customer_ownership_type = None,
      er_customer_location_text = None, er_customer_description = None,
      er_customer_submitted_at = Some 0, er_assigned_sales_rep_id = None,
      er_assigned_appraiser_id = None, er_created_at = 0, er_deleted_at = None\<rparr>"

definition demo_role :: role where
  "demo_role = \<lparr>role_id = 9, role_slug = ''sales'', role_display_name = ''Sales''\<rparr>"

definition demo_grant :: "uuid \<Rightarrow> uuid \<Rightarrow> user_role" where
  "demo_grant u r = \<lparr>ur_user_id = u, ur_role_id = r, ur_granted_at = 0, ur_granted_by = None\<rparr>"

text \<open>One sales user, one record that waits for its appraisal.\<close>

definition demo_db :: db where
  "demo_db = empty_db\<lparr>users := [demo_user 1 9], roles := [demo_role],
     user_roles := [demo_grant 1 9],
     equipment_records := [demo_record 2 ''appraiser_assigned''], clock := 1000000\<rparr>"

definition demo_submission :: "uuid \<Rightarrow> uuid \<Rightarrow> string \<Rightarrow> appraisal_submission" where
  "demo_submission i rid status =
     \<lparr>sub_id = i, sub_equipment_record_id = rid, sub_appraiser_id = Some 1, sub_status = status,
      sub_category_id = None, sub_category_version = None, sub_prompt_version_set = None,
      sub_rule_version_set = None, sub_make = Some ''Volvo'', sub_model = None, sub_year = None,
      sub_hours_condition = None, sub_running_status = None, sub_serial_number = None,
      sub_title_status = None, sub_overall_score = None, sub_score_band = None,
      sub_management_review_required = False, sub_hold_for_title_review = False,
      sub_marketability_rating = None, sub_review_notes = None, sub_transport_notes = None, sub_listing_notes = None,
      sub_approved_purchase_offer = None, sub_suggested_consignment_price = Some (Dec 10000 0),
      sub_rejection_notes = None, sub_approved_by_id = None, sub_approved_at = None,
      sub_red_flags = None, sub_comparable_sales_data = None, sub_field_values = None,
      sub_submitted_at = None, sub_created_at = 0, sub_deleted_at = None\<rparr>"

definition demo_contract :: "string \<Rightarrow> consignment_contract" where
  "demo_contract status =
     \<lparr>con_id = 30, con_equipment_record_id = 2, con_envelope_id = Some ''env-1'',
      con_status = status, con_signed_at = (if status = ''completed'' then Some 0 else None)\<rparr>"

definition demo_report :: appraisal_report where
  "demo_report = \<lparr>rep_id = 35, rep_equipment_record_id = 2, rep_submission_id = Some 20,
     rep_gcs_path = ''report'', rep_generated_at = 0\<rparr>"

definition demo_change :: "string \<Rightarrow> bool \<Rightarrow> change_request" where
  "demo_change type flagged =
     \<lparr>cr_id = 40, cr_equipment_record_id = 2, cr_request_type = type, cr_customer_notes = None,
      cr_status = ''pending'', cr_resolution_notes = None, cr_requires_manager_reapproval = flagged,
      cr_proposed_consignment_price = (if flagged then Some (Dec 20000 0) else None),
      cr_submitted_at = 0, cr_resolved_at = None, cr_resolved_by = None\<rparr>"

definition demo_customer :: "uuid option \<Rightarrow> customer" where
  "demo_customer u =
     \<lparr>cus_id = 50, cus_user_id = u, cus_invite_email = None, cus_business_name = None,
      cus_submitter_name = ''Ann Lee'', cus_title = None, cus_address_street = None, cus_address_city = None,
      cus_address_state = Some ''TX'', cus_address_zip = Some ''75001'', cus_business_phone = None, cus_business_phone_ext = None, cus_cell_phone = None,
      cus_communication_prefs = None, cus_created_at = 0, cus_deleted_at = None\<rparr>"

text \<open>A record that waits for a decision, its appraisal, a customer with an account.\<close>

definition demo_review :: db where
  "demo_review = demo_db\<lparr>equipment_records := [demo_record 2 ''appraisal_complete''],
     appraisal_submissions := [demo_submission 20 2 ''submitted''],
     customers := [demo_customer (Some 1)]\<rparr>"

lemmas demo_simps = demo_env_def demo_user_def demo_record_def demo_role_def demo_grant_def
  demo_db_def empty_db_def

lemmas review_simps = demo_simps demo_submission_def demo_contract_def demo_change_def
  demo_customer_def demo_review_def

end
