(* ===== verification/Scoring.thy ===== *)
theory Scoring
  imports PyStd
begin

section \<open>The overall appraisal score\<close>

text \<open>
  \<^verbatim>\<open>api/services/scoring_service.py\<close>: the weighted mean of the component scores, rounded half
  up to two decimals, clamped to \<open>[0, 5]\<close> and put into a band. Scores and weights are
  rational numbers: the rounding of binary floats is not modelled.
\<close>

definition SCORE_BANDS :: "(decimal \<times> string) list" where
  "SCORE_BANDS =
     [(Dec 450 2, ''Premium resale-ready''), (Dec 375 2, ''Strong resale candidate''),
      (Dec 300 2, ''Usable with value deductions''),
      (Dec 200 2, ''Heavy discount / repair candidate''),
      (Dec 100 2, ''Project, salvage, or parts-biased''), (Dec 0 2, ''Insufficient data'')]"

record scoring_result =
  overall :: decimal
  band :: string
  weight_normalized :: bool

definition dec_le :: "decimal \<Rightarrow> decimal \<Rightarrow> bool" where
  "dec_le x y = (dec_val x \<le> dec_val y)"

text \<open>The loop over the bands, with \<open>salvage\<close> for a score below all of them.\<close>

definition band_of :: "decimal \<Rightarrow> string" where
  "band_of x = (case find (\<lambda>(threshold, label). dec_le threshold x) SCORE_BANDS of
     Some (_, label) \<Rightarrow> label | None \<Rightarrow> ''salvage'')"

definition clamp_score :: "int \<Rightarrow> int" where
  "clamp_score n = max 0 (min 500 n)"

definition total_weight :: "(string \<times> rat \<times> rat) list \<Rightarrow> rat" where
  "total_weight cs = sum_list (map (\<lambda>(_, _, w). w) cs)"

definition weighted_sum :: "(string \<times> rat \<times> rat) list \<Rightarrow> rat" where
  "weighted_sum cs = sum_list (map (\<lambda>(_, s, w). s * w) cs)"

definition calculate_overall :: "(string \<times> rat \<times> rat) list \<Rightarrow> scoring_result" where
  "calculate_overall component_scores =
     (let zero = \<lparr>overall = Dec 0 2, band = ''Insufficient data'', weight_normalized = False\<rparr>
      in if component_scores = [] then zero
         else if total_weight component_scores = 0 then zero
         else
           let w = total_weight component_scores;
               overall_raw = weighted_sum component_scores / w;
               score = Dec (clamp_score (round_half_up (overall_raw * 100))) 2
           in \<lparr>overall = score, band = band_of score,
               weight_normalized = \<not> (99.5 \<le> w \<and> w \<le> 100.5)\<rparr>)"

subsection \<open>Facts\<close>

lemma clamp_bounds: "0 \<le> clamp_score n" "clamp_score n \<le> 500"
  by (simp_all add: clamp_score_def)

lemma clamp_mono: "m \<le> n \<Longrightarrow> clamp_score m \<le> clamp_score n"
  by (auto simp: clamp_score_def)

lemma clamp_id: "0 \<le> n \<Longrightarrow> n \<le> 500 \<Longrightarrow> clamp_score n = n"
  by (simp add: clamp_score_def)

lemma round_half_up_int: "round_half_up (of_int n) = n"
proof -
  have "\<lfloor>(of_int k :: rat) + 1 / 2\<rfloor> = k" for k by linarith
  from this [of n] this [of "- n"] show ?thesis
    by (auto simp: round_half_up_def)
qed

lemma round_half_up_mono: "p \<le> q \<Longrightarrow> round_half_up p \<le> round_half_up q"
proof -
  assume pq: "p \<le> q"
  consider "0 \<le> p" | "p < 0" "0 \<le> q" | "p < 0" "q < 0" using pq by linarith
  then show ?thesis
  proof cases
    case 1
    with pq show ?thesis by (simp add: round_half_up_def floor_mono)
  next
    case 2
    then have "0 \<le> \<lfloor>- p + 1 / 2\<rfloor>" "0 \<le> \<lfloor>q + 1 / 2\<rfloor>" by simp_all
    moreover have "round_half_up p = - \<lfloor>- p + 1 / 2\<rfloor>" "round_half_up q = \<lfloor>q + 1 / 2\<rfloor>"
      using 2 by (simp_all add: round_half_up_def)
    ultimately show ?thesis by linarith
  next
    case 3
    with pq show ?thesis by (simp add: round_half_up_def floor_mono)
  qed
qed

lemma round_half_up_error: "\<bar>of_int (round_half_up q) - q\<bar> \<le> 1 / 2"
proof (cases "0 \<le> q")
  case True
  then have "round_half_up q = \<lfloor>q + 1 / 2\<rfloor>" by (simp add: round_half_up_def)
  then show ?thesis by linarith
next
  case False
  then have "round_half_up q = - \<lfloor>- q + 1 / 2\<rfloor>" by (simp add: round_half_up_def)
  then show ?thesis by linarith
qed

lemma dec_le_2: "dec_le (Dec m 2) (Dec n 2) \<longleftrightarrow> m \<le> n"
  by (simp add: dec_le_def dec_val_def divide_le_cancel)

lemma band_of_2:
  "band_of (Dec n 2) =
     (if n \<ge> 450 then ''Premium resale-ready'' else if n \<ge> 375 then ''Strong resale candidate''
      else if n \<ge> 300 then ''Usable with value deductions''
      else if n \<ge> 200 then ''Heavy discount / repair candidate''
      else if n \<ge> 100 then ''Project, salvage, or parts-biased''
      else if n \<ge> 0 then ''Insufficient data'' else ''salvage'')"
  by (simp add: band_of_def SCORE_BANDS_def dec_le_2)

lemma calculate_overall_cases:
  obtains (zero) "cs = [] \<or> total_weight cs = 0"
      "calculate_overall cs = \<lparr>overall = Dec 0 2, band = ''Insufficient data'', weight_normalized = False\<rparr>"
    | (mean) n where "cs \<noteq> []" "total_weight cs \<noteq> 0"
      "n = clamp_score (round_half_up (weighted_sum cs / total_weight cs * 100))"
      "overall (calculate_overall cs) = Dec n 2" "band (calculate_overall cs) = band_of (Dec n 2)"
proof (cases "cs = [] \<or> total_weight cs = 0")
  case True
  then show thesis using zero by (auto simp: calculate_overall_def Let_def)
next
  case False
  then show thesis using mean by (auto simp: calculate_overall_def Let_def)
qed

lemma overall_in_range:
  obtains n where "overall (calculate_overall cs) = Dec n 2" "0 \<le> n" "n \<le> 500"
    "band (calculate_overall cs) = band_of (Dec n 2)"
  by (cases rule: calculate_overall_cases [of cs])
    (use that [of 0] that clamp_bounds in \<open>auto simp: band_of_2\<close>)

text \<open>With weights that are not negative, the sum lies between the bounds of the scores.\<close>

lemma weighted_sum_Cons:
  "weighted_sum ((k, s, w) # cs) = s * w + weighted_sum cs"
  "total_weight ((k, s, w) # cs) = w + total_weight cs"
  by (simp_all add: weighted_sum_def total_weight_def)

lemma weighted_sum_bounds:
  assumes "\<forall>(_, s, w) \<in> set cs. lo \<le> s \<and> s \<le> hi \<and> 0 \<le> w"
  shows "lo * total_weight cs \<le> weighted_sum cs \<and> weighted_sum cs \<le> hi * total_weight cs"
  using assms
proof (induction cs)
  case Nil
  show ?case by (simp add: weighted_sum_def total_weight_def)
next
  case (Cons c cs)
  obtain k s w where c: "c = (k, s, w)" by (cases c) auto
  have "lo * w \<le> s * w" "s * w \<le> hi * w"
    using Cons.prems by (auto simp: c intro: mult_right_mono)
  with Cons show ?case by (simp add: c weighted_sum_Cons distrib_left)
qed

lemma total_weight_nonneg: "\<forall>(_, s, w) \<in> set cs. 0 \<le> w \<Longrightarrow> 0 \<le> total_weight cs"
  unfolding total_weight_def by (rule sum_list_nonneg) auto

lemma mean_bounds:
  assumes "\<forall>(_, s, w) \<in> set cs. lo \<le> s \<and> s \<le> hi \<and> 0 \<le> w" "total_weight cs \<noteq> 0"
  shows "lo \<le> weighted_sum cs / total_weight cs" "weighted_sum cs / total_weight cs \<le> hi"
proof -
  have "0 < total_weight cs"
    using assms total_weight_nonneg [of cs] by fastforce
  then show "lo \<le> weighted_sum cs / total_weight cs" "weighted_sum cs / total_weight cs \<le> hi"
    using weighted_sum_bounds [OF assms(1)] by (simp_all add: pos_le_divide_eq pos_divide_le_eq)
qed

lemma overall_scale:
  assumes "c \<noteq> 0"
  shows "overall (calculate_overall (map (\<lambda>(k, s, w). (k, s, c * w)) cs)) = overall (calculate_overall cs)"
proof -
  let ?cs = "map (\<lambda>(k, s, w). (k, s, c * w)) cs"
  have t: "total_weight ?cs = c * total_weight cs"
    by (induction cs) (auto simp: total_weight_def algebra_simps)
  have w: "weighted_sum ?cs = c * weighted_sum cs"
    by (induction cs) (auto simp: weighted_sum_def algebra_simps)
  show ?thesis using assms by (simp add: calculate_overall_def t w Let_def)
qed

end
