(* ===== verification/RedFlags.thy ===== *)
theory RedFlags
  imports Notifications
begin

section \<open>Red flag rules\<close>

text \<open>
  \<^verbatim>\<open>api/services/red_flag_service.py\<close>: the evaluation of a category's red flag rules against
  the fields of an appraisal. Field values, actions and the text that actions set are JSON
  values, as they are in the database.
\<close>

definition MARKETABILITY_BANDS :: "string list" where
  "MARKETABILITY_BANDS = [''Fast Sell'', ''Average'', ''Slow Sell'', ''Salvage Risk'']"

record rule_spec =
  rs_id :: string
  rs_label :: string
  rs_condition_field :: string
  rs_condition_operator :: string
  rs_condition_value :: "string option"
  rs_actions :: "(string \<times> json) list"

record red_flag_result =
  rfr_management_review_required :: bool
  rfr_hold_for_title_review :: bool
  rfr_marketability_rating :: json
  rfr_review_notes :: json
  rfr_triggered_rules :: "string list"

definition condition_matches :: "env \<Rightarrow> rule_spec \<Rightarrow> (string \<times> json) list \<Rightarrow> bool" where
  "condition_matches E rule vals =
     (case map_of vals (rs_condition_field rule) of
        None \<Rightarrow> False
      | Some v \<Rightarrow>
          if rs_condition_operator rule = ''is_true'' then json_truthy v
          else if rs_condition_operator rule = ''is_false'' then \<not> json_truthy v
          else if rs_condition_operator rule = ''equals''
          then py_str E v = py_str E (jopt JStr (rs_condition_value rule))
          else False)"

definition downgrade :: "json \<Rightarrow> json" where
  "downgrade current =
     (case find (\<lambda>i. JStr (MARKETABILITY_BANDS ! i) = current) [0..<length MARKETABILITY_BANDS] of
        None \<Rightarrow> JStr ''Salvage Risk''
      | Some idx \<Rightarrow> JStr (MARKETABILITY_BANDS ! min (idx + 1) (length MARKETABILITY_BANDS - 1)))"

definition apply_actions :: "env \<Rightarrow> rule_spec \<Rightarrow> red_flag_result \<Rightarrow> red_flag_result" where
  "apply_actions E rule result =
     (let actions = rs_actions rule;
          r = result\<lparr>rfr_triggered_rules := rfr_triggered_rules result @ [rs_id rule]\<rparr>;
          r = (if json_truthy (obj_get actions ''set_management_review_required'') \<or>
                  obj_get actions ''flag'' = JStr ''management_review''
               then r\<lparr>rfr_management_review_required := True\<rparr> else r);
          r = (if json_truthy (obj_get actions ''hold_for_title_review'')
               then r\<lparr>rfr_hold_for_title_review := True\<rparr> else r);
          r = (if json_truthy (obj_get actions ''downgrade_marketability'')
               then r\<lparr>rfr_marketability_rating := downgrade (rfr_marketability_rating r)\<rparr> else r);
          forced = obj_get actions ''set_marketability'';
          r = (if json_truthy forced then r\<lparr>rfr_marketability_rating := forced\<rparr> else r);
          note = obj_get actions ''append_review_note''
      in if json_truthy note
         then if json_truthy (rfr_review_notes r)
              then r\<lparr>rfr_review_notes :=
                     JStr (py_str E (rfr_review_notes r) @ [newline] @ py_str E note)\<rparr>
              else r\<lparr>rfr_review_notes := note\<rparr>
         else r)"

definition evaluate_rules ::
  "env \<Rightarrow> rule_spec list \<Rightarrow> (string \<times> json) list \<Rightarrow> json \<Rightarrow> json \<Rightarrow> red_flag_result" where
  "evaluate_rules E rules vals current_marketability current_review_notes =
     fold (\<lambda>rule result. if condition_matches E rule vals then apply_actions E rule result
             else result) rules
       \<lparr>rfr_management_review_required = False, rfr_hold_for_title_review = False,
        rfr_marketability_rating = current_marketability, rfr_review_notes = current_review_notes,
        rfr_triggered_rules = []\<rparr>"

definition extract_fields :: "appraisal_submission \<Rightarrow> (string \<times> json) list" where
  "extract_fields submission =
     [(''running_status'', jopt JStr (sub_running_status submission)),
      (''title_status'', jopt JStr (sub_title_status submission)),
      (''hours_condition'', jopt JStr (sub_hours_condition submission)),
      (''marketability_rating'', jopt JStr (sub_marketability_rating submission)),
      (''serial_number'', jopt JStr (sub_serial_number submission))]"

definition to_rule_spec :: "red_flag_rule \<Rightarrow> rule_spec" where
  "to_rule_spec r =
     \<lparr>rs_id = uuid_str (rf_id r), rs_label = rf_label r, rs_condition_field = rf_condition_field r,
      rs_condition_operator = rf_condition_operator r, rs_condition_value = rf_condition_value r,
      rs_actions = rf_actions r\<rparr>"

definition evaluate_red_flags :: "env \<Rightarrow> appraisal_submission \<Rightarrow> red_flag_result op" where
  "evaluate_red_flags E submission =
     bind (case sub_category_id submission of
             None \<Rightarrow> ret []
           | Some c \<Rightarrow>
               reads (\<lambda>s. map to_rule_spec (filter (\<lambda>r. rf_category_id r = c \<and>
                 rf_replaced_at r = None \<and> rf_active r) (red_flag_rules s)))) (\<lambda>rules.
     ret (evaluate_rules E rules (extract_fields submission)
            (jopt JStr (sub_marketability_rating submission))
            (jopt JStr (sub_review_notes submission))))"

subsection \<open>Facts\<close>

text \<open>What the fold does to one flag: it is raised iff a matching rule raises it.\<close>

definition asks_review :: "rule_spec \<Rightarrow> bool" where
  "asks_review rule \<longleftrightarrow>
     json_truthy (obj_get (rs_actions rule) ''set_management_review_required'') \<or>
     obj_get (rs_actions rule) ''flag'' = JStr ''management_review''"

definition asks_hold :: "rule_spec \<Rightarrow> bool" where
  "asks_hold rule \<longleftrightarrow> json_truthy (obj_get (rs_actions rule) ''hold_for_title_review'')"

lemma apply_actions_fields:
  "rfr_management_review_required (apply_actions E rule r) \<longleftrightarrow>
     rfr_management_review_required r \<or> asks_review rule"
  "rfr_hold_for_title_review (apply_actions E rule r) \<longleftrightarrow>
     rfr_hold_for_title_review r \<or> asks_hold rule"
  "rfr_triggered_rules (apply_actions E rule r) = rfr_triggered_rules r @ [rs_id rule]"
  by (auto simp: apply_actions_def Let_def asks_review_def asks_hold_def)

lemma fold_flags:
  fixes rules E vals
  defines "run \<equiv> fold (\<lambda>rule r. if condition_matches E rule vals then apply_actions E rule r else r)"
  shows "rfr_management_review_required (run rules r) \<longleftrightarrow> rfr_management_review_required r \<or>
      (\<exists>rule \<in> set rules. condition_matches E rule vals \<and> asks_review rule)"
    and "rfr_hold_for_title_review (run rules r) \<longleftrightarrow> rfr_hold_for_title_review r \<or>
      (\<exists>rule \<in> set rules. condition_matches E rule vals \<and> asks_hold rule)"
    and "rfr_triggered_rules (run rules r) = rfr_triggered_rules r @
      map rs_id (filter (\<lambda>rule. condition_matches E rule vals) rules)"
  unfolding run_def by (induction rules arbitrary: r) (auto simp: apply_actions_fields)

text \<open>The band's position, with every value that is not a band at the bottom.\<close>

definition band_index :: "json \<Rightarrow> nat" where
  "band_index v =
     (if v = JStr ''Fast Sell'' then 0 else if v = JStr ''Average'' then 1
      else if v = JStr ''Slow Sell'' then 2 else 3)"

lemma band_index_le: "band_index v \<le> 3"
  by (simp add: band_index_def)

lemma downgrade_cases:
  "downgrade v =
     (if v = JStr ''Fast Sell'' then JStr ''Average''
      else if v = JStr ''Average'' then JStr ''Slow Sell'' else JStr ''Salvage Risk'')"
  by (auto simp: downgrade_def MARKETABILITY_BANDS_def upt_rec)

lemma downgrade_index: "band_index (downgrade v) = min 3 (Suc (band_index v))"
  by (auto simp: downgrade_cases band_index_def)

lemma downgrade_le: "band_index v \<le> band_index (downgrade v)"
  using band_index_le [of v] by (simp add: downgrade_index min_def)

lemma downgrade_power_index: "band_index ((downgrade ^^ n) v) = min 3 (band_index v + n)"
  using band_index_le [of v] by (induction n) (simp_all add: downgrade_index)

definition only_downgrades :: "rule_spec \<Rightarrow> bool" where
  "only_downgrades rule \<longleftrightarrow> \<not> json_truthy (obj_get (rs_actions rule) ''set_marketability'')"

lemma apply_actions_marketability:
  "only_downgrades rule \<Longrightarrow>
   band_index (rfr_marketability_rating r) \<le> band_index (rfr_marketability_rating (apply_actions E rule r))"
  using downgrade_le by (simp add: apply_actions_def Let_def only_downgrades_def)

lemma fold_marketability:
  "\<forall>rule \<in> set rules. only_downgrades rule \<Longrightarrow>
   band_index (rfr_marketability_rating r) \<le> band_index (rfr_marketability_rating
     (fold (\<lambda>rule r. if condition_matches E rule vals then apply_actions E rule r else r) rules r))"
proof (induction rules arbitrary: r)
  case (Cons rule rules)
  have "band_index (rfr_marketability_rating r) \<le> band_index (rfr_marketability_rating
      (if condition_matches E rule vals then apply_actions E rule r else r))"
    using Cons.prems apply_actions_marketability by simp
  also have "\<dots> \<le> band_index (rfr_marketability_rating (fold (\<lambda>rule r.
      if condition_matches E rule vals then apply_actions E rule r else r) rules
      (if condition_matches E rule vals then apply_actions E rule r else r)))"
    using Cons by (intro Cons.IH) simp
  finally show ?case by simp
qed simp

end
