(* ===== verification/Workflow.thy ===== *)
theory Workflow
  imports StatusService Roles
begin

section \<open>What the steps of the workflow have in common\<close>

text \<open>
  The services above \<open>record_transition\<close> (approval, signature, change requests, sales,
  calendar) are programs built from lookups, status transitions, notices, audit rows and the
  writes of their own tables. The locale below is their interface to the transition service: a
  relation on databases that admits an abstract transition and an audit row admits every such
  program, up to the service's own writes.
\<close>

locale transition_relation = queue_relation R for R :: "db \<Rightarrow> db \<Rightarrow> bool" +
  assumes R_written: "R s (written r st e (s\<lparr>draws := n\<rparr>))"
    and R_audit: "R s (s\<lparr>audit_logs := audit_logs s @ [a]\<rparr>)"
begin

lemma confined_record_transition: "confined R (record_transition E r st by note c ov)"
  by (rule confinedI, rule record_transition_confined [OF R_written])

lemma confined_add_audit: "confined R (add_audit a)"
  by (simp add: confined_def run_simps R_audit)

lemma confined_role_slugs_for_user: "confined R (role_slugs_for_user u)"
  unfolding role_slugs_for_user_def by (rule confined_reads)

lemma confined_primary_role_slug: "confined R (primary_role_slug u)"
  unfolding primary_role_slug_def by (intro db_intros)

lemmas transition_intros =
  queue_intros confined_record_transition confined_add_audit confined_role_slugs_for_user
  confined_primary_role_slug

end

text \<open>The tables that transitions and notices never write.\<close>

definition outside :: "db \<Rightarrow> db" where
  "outside s = s\<lparr>status_events := [], equipment_records := [], notification_jobs := [],
     audit_logs := [], draws := 0\<rparr>"

interpretation outside_db: db_relation "same outside"
  by unfold_locales (simp add: same_def outside_def)

interpretation outside_queue: queue_relation "same outside"
  by unfold_locales (rule outside_db.confined_enqueueI, simp add: same_def outside_def)

interpretation outside_frame: transition_relation "same outside"
  by unfold_locales (simp_all add: same_def outside_def written_def)

interpretation grow_tr: transition_relation jobs_grow
  by unfold_locales (simp_all add: jobs_grow_def written_def)

interpretation keys_tr: transition_relation "preserves keys_unique"
  by unfold_locales (simp_all add: preserves_def keys_unique_def written_def)

interpretation jobs_ok_tr: transition_relation "preserves jobs_ok"
  by unfold_locales (simp_all add: preserves_def jobs_ok_def written_def)

text \<open>The event log of a record only grows, and an event is never changed.\<close>

definition events_grow :: "db \<Rightarrow> db \<Rightarrow> bool" where
  "events_grow s t \<longleftrightarrow> (\<exists>es. status_events t = status_events s @ es)"

interpretation events_db: db_relation events_grow
  by unfold_locales (auto simp: events_grow_def)

interpretation events_queue: queue_relation events_grow
  by unfold_locales (rule events_db.confined_enqueueI, simp add: events_grow_def)

interpretation events_tr: transition_relation events_grow
  by unfold_locales (simp_all add: events_grow_def written_def)

text \<open>An e-mail job that no dispatch can deliver, because its payload is incomplete.\<close>

definition undeliverable :: "notification_job \<Rightarrow> bool" where
  "undeliverable j \<longleftrightarrow> job_channel j = ''email'' \<and>
     \<not> (json_truthy (obj_get (job_payload j) ''to_email'') \<and>
        json_truthy (obj_get (job_payload j) ''subject'') \<and>
        json_truthy (obj_get (job_payload j) ''html_body''))"

lemma dispatch_undeliverable:
  "undeliverable j \<Longrightarrow> dispatch E j s =
     (Inr (''failed'', Some ''email payload missing to_email/subject/html_body''), s)"
  unfolding undeliverable_def using dispatch_email_incomplete by blast

lemma process_undeliverable:
  assumes "undeliverable j"
  shows "fst (process_job E j s) = Inr ''failed'' \<and> outbox (snd (process_job E j s)) = outbox s"
  using process_job_run [OF dispatch_undeliverable [OF assms], of E s]
  by (simp add: job_after_def settle_def Let_def)

text \<open>What a transition that returned did to the tables, one by one.\<close>

lemma transition_tables:
  assumes "record_transition E r st by note c ov s = (Inr x, t)"
  shows "equipment_records t = update_where (\<lambda>y. er_id y = er_id r) (\<lambda>y. y\<lparr>er_status := st\<rparr>)
      (equipment_records s)"
    and "status_events t = status_events s @ [fst x]" and "snd x = r\<lparr>er_status := st\<rparr>"
    and "audit_logs t = audit_logs s" and "clock t = clock s" and "outside t = outside s"
    and "allowed (er_status r) st"
proof -
  obtain e r' where x: "x = (e, r')" by fastforce
  note spec = record_transition_returns [OF assms [unfolded x]]
  note eq = arg_cong [OF spec(4)]
  show "equipment_records t = update_where (\<lambda>y. er_id y = er_id r) (\<lambda>y. y\<lparr>er_status := st\<rparr>)
      (equipment_records s)"
    using eq [of equipment_records] by (simp add: business_def written_def)
  show "status_events t = status_events s @ [fst x]"
    using eq [of status_events] by (simp add: business_def written_def x)
  show "audit_logs t = audit_logs s" using eq [of audit_logs] by (simp add: business_def written_def)
  show "clock t = clock s" using eq [of clock] by (simp add: business_def written_def)
  show "snd x = r\<lparr>er_status := st\<rparr>" "allowed (er_status r) st" using spec by (simp_all add: x)
  show "outside t = outside s"
    by (rule confined_sameD [OF outside_frame.confined_record_transition assms])
qed

text \<open>A table that only depends on what is outside the reach of transitions.\<close>

lemma outside_tables:
  assumes "outside t = outside s"
  shows "consignment_contracts t = consignment_contracts s"
    and "appraisal_submissions t = appraisal_submissions s"
    and "change_requests t = change_requests s" and "public_listings t = public_listings s"
    and "appraisal_reports t = appraisal_reports s" and "users t = users s"
    and "roles t = roles s" and "user_roles t = user_roles s" and "customers t = customers s"
    and "record_locks t = record_locks s" and "calendar_events t = calendar_events s"
    and "app_configs t = app_configs s" and "clock t = clock s" and "outbox t = outbox s"
    and "routing_rules t = routing_rules s"
  using arg_cong [OF assms, of consignment_contracts] arg_cong [OF assms, of appraisal_submissions]
    arg_cong [OF assms, of change_requests] arg_cong [OF assms, of public_listings]
    arg_cong [OF assms, of appraisal_reports] arg_cong [OF assms, of users]
    arg_cong [OF assms, of roles] arg_cong [OF assms, of user_roles]
    arg_cong [OF assms, of customers] arg_cong [OF assms, of record_locks]
    arg_cong [OF assms, of calendar_events] arg_cong [OF assms, of app_configs]
    arg_cong [OF assms, of clock] arg_cong [OF assms, of outbox] arg_cong [OF assms, of routing_rules]
  by (simp_all add: outside_def)


subsection \<open>Keys of other services\<close>

text \<open>
  The jobs under a key. The notices of a transition use keys that begin with an \<open>s\<close>, so the
  jobs of the other services' notices are not affected by them.
\<close>

definition jobs_of :: "string \<Rightarrow> db \<Rightarrow> notification_job list" where
  "jobs_of k s = filter (\<lambda>j. job_idempotency_key j = k) (notification_jobs s)"

lemma jobs_of_empty: "jobs_of k s = [] \<longleftrightarrow> \<not> has_key k s"
  by (auto simp: jobs_of_def has_key_def filter_empty_conv)

lemma jobs_of_draws [simp]: "jobs_of k (s\<lparr>draws := n\<rparr>) = jobs_of k s"
  by (simp add: jobs_of_def)

lemma jobs_of_audit [simp]: "jobs_of k (s\<lparr>audit_logs := a\<rparr>) = jobs_of k s"
  by (simp add: jobs_of_def)

lemma jobs_of_written [simp]: "jobs_of k (written r st e s) = jobs_of k s"
  by (simp add: jobs_of_def written_def)

interpretation jobs_of_db: db_relation "same (jobs_of k)"
  by unfold_locales (simp add: same_def)

lemma jobs_of_enqueue_other: "k \<noteq> k' \<Longrightarrow> confined (same (jobs_of k)) (enqueue E k' u c m p d)"
  by (rule confinedI) (auto simp: same_def jobs_of_def run_simps new_job_def Let_def split: if_splits)

lemma jobs_of_enqueue:
  assumes "c \<in> set CHANNELS"
  shows "enqueue E k u c m p d s = (r, t) \<Longrightarrow> jobs_of k t =
    (if jobs_of k s = [] then [new_job (random_uuid E (draws s)) k u c m p
       (case d of None \<Rightarrow> clock s | Some x \<Rightarrow> x)] else jobs_of k s)"
  using assms
  by (cases "has_key k s") (auto simp: jobs_of_empty run_simps Let_def, auto simp: jobs_of_def
      new_job_def has_key_def filter_empty_conv)

lemma status_keys_differ:
  assumes "hd k \<noteq> CHR ''s''" "k \<noteq> ''''"
  shows "k \<noteq> email_idempotency_key i st" "k \<noteq> sales_rep_idempotency_key i st"
    "k \<noteq> watcher_idempotency_key i st w"
  using assms
  by (auto simp: email_idempotency_key_def sales_rep_idempotency_key_def watcher_idempotency_key_def)

lemma jobs_of_transition:
  assumes "hd k \<noteq> CHR ''s''" "k \<noteq> ''''"
  shows "confined (same (jobs_of k)) (record_transition E r st by note c ov)"
proof (rule confinedI)
  fix s x t assume run: "record_transition E r st by note c ov s = (x, t)"
  let ?r = "r\<lparr>er_status := st\<rparr>"
  let ?w = "written r st (transition_event (random_uuid E (draws s)) (clock s) r st by note)
      (s\<lparr>draws := Suc (draws s)\<rparr>)"
  note intros = jobs_of_db.db_intros jobs_of_enqueue_other
    jobs_of_db.confined_resolve_channel jobs_of_db.confined_watcher_user_ids jobs_of_db.confined_render_with_overrides
    status_keys_differ [OF assms]
  have "confined (same (jobs_of k)) (seq (notices E ?r st note c ov) (ret y))" for y
    unfolding notices_def notify_customer_def notify_sales_rep_def notify_watchers_def
      notify_watcher_def compose_email_def compose_sales_rep_email_def compose_sales_rep_sms_def Let_def
    by (intro intros)
  note keep = confined_sameD [OF this, of _ ?w]
  show "same (jobs_of k) s t"
  proof (cases "allowed (er_status r) st")
    case True
    then have "seq (notices E ?r st note c ov) (ret (transition_event (random_uuid E (draws s))
        (clock s) r st by note, ?r)) ?w = (x, t)"
      using run by (simp add: record_transition_notices Let_def)
    then show ?thesis using keep by (simp add: same_def)
  next
    case False
    then show ?thesis using run record_transition_refused [of r st E "by" "note" c ov s]
      by (auto simp: same_def)
  qed
qed

subsection \<open>Mapping errors and lists\<close>

text \<open>\<^verbatim>\<open>try: m except E as exc: raise F(str(exc))\<close>.\<close>

definition map_exn :: "(exn \<Rightarrow> exn) \<Rightarrow> 'a op \<Rightarrow> 'a op" where
  "map_exn f m = bind (attempt m) (\<lambda>r. case r of Inl e \<Rightarrow> raise (f e) | Inr x \<Rightarrow> ret x)"

lemma map_exn_run [run_simps]:
  "map_exn f m s = (case m s of (Inl e, t) \<Rightarrow> (Inl (f e), t) | (Inr x, t) \<Rightarrow> (Inr x, t))"
  by (simp add: map_exn_def run_simps split: prod.splits sum.splits)

lemma map_exn_return_iff: "map_exn f m s = (Inr x, t) \<longleftrightarrow> m s = (Inr x, t)"
  by (auto simp: map_exn_run split: prod.splits sum.splits)

text \<open>\<^verbatim>\<open>[f(x) for x in xs]\<close> with a body that may raise.\<close>

primrec map_each :: "'x list \<Rightarrow> ('x \<Rightarrow> 'y op) \<Rightarrow> 'y list op" where
  "map_each [] f = ret []"
| "map_each (x # xs) f = bind (f x) (\<lambda>y. bind (map_each xs f) (\<lambda>ys. ret (y # ys)))"

context db_relation
begin

lemma confined_map_exn: "confined R m \<Longrightarrow> confined R (map_exn f m)"
  unfolding map_exn_def by (intro db_intros)

lemma confined_map_each: "(\<And>x. confined R (f x)) \<Longrightarrow> confined R (map_each xs f)"
  by (induction xs) (auto intro: db_intros)

end

subsection \<open>What a guarded request keeps\<close>

text \<open>A request that is refused or fails is rolled back; otherwise its handler ran to the end.\<close>

lemma guarded_route_keeps:
  assumes "I s" "\<And>u x t. handler u s = (Inr x, t) \<Longrightarrow> I t"
  shows "I (snd (guarded_route E slugs cred handler s))"
proof (cases "guarded_route E slugs cred handler s")
  case (Pair r t)
  show ?thesis
  proof (cases r)
    case (Inl e)
    then show ?thesis using guarded_route_denied [of E slugs cred handler s e] Pair assms(1) by simp
  next
    case (Inr x)
    with Pair have "guarded_route E slugs cred handler s = (Inr x, t)" by simp
    then show ?thesis by (rule guarded_route_returns) (use assms(2) Pair in auto)
  qed
qed

end
