(* ===== verification/Esign.thy ===== *)
theory Esign
  imports Workflow
begin

section \<open>The consignment contract and its electronic signature\<close>

text \<open>
  \<^verbatim>\<open>api/services/esign_service.py\<close>, the stub provider of \<^verbatim>\<open>api/services/signing_service.py\<close>
  and the webhook of \<^verbatim>\<open>api/routers/esign.py\<close>. A contract belongs to one record, carries the
  id of its envelope, and is \<^verbatim>\<open>sent\<close>, \<^verbatim>\<open>completed\<close> or \<^verbatim>\<open>declined\<close>.
\<close>

subsection \<open>The signing service\<close>

datatype EnvelopeStatus = SENT | COMPLETED | DECLINED | VOIDED

definition create_envelope :: "env \<Rightarrow> uuid \<Rightarrow> string \<Rightarrow> string \<Rightarrow> string \<Rightarrow> string op" where
  "create_envelope E record_id customer_email customer_name document_data =
     bind (uuid4 E) (\<lambda>i. ret (''stub-'' @ uuid_str i))"

definition get_envelope_status :: "string \<Rightarrow> EnvelopeStatus op" where
  "get_envelope_status envelope_id = ret SENT"

definition void_envelope :: "string \<Rightarrow> string \<Rightarrow> bool op" where
  "void_envelope envelope_id reason = ret True"

definition get_signing_url :: "string \<Rightarrow> string \<Rightarrow> string op" where
  "get_signing_url envelope_id return_url = ret (''/api/v1/esign/stub-preview/'' @ envelope_id)"

subsection \<open>Dispatching a contract\<close>

text \<open>\<^verbatim>\<open>f"{x or 0}"\<close> for an optional decimal and \<^verbatim>\<open>f"{x or ''}"\<close> for an optional integer.\<close>

definition decimal_or_zero :: "decimal option \<Rightarrow> string" where
  "decimal_or_zero x =
     (case x of None \<Rightarrow> ''0'' | Some d \<Rightarrow> if dec_coeff d = 0 then ''0'' else decimal_str d)"

definition int_or_empty :: "int option \<Rightarrow> string" where
  "int_or_empty x = (case x of None \<Rightarrow> '''' | Some i \<Rightarrow> if i = 0 then '''' else int_str i)"

definition record_ref :: "equipment_record \<Rightarrow> string" where
  "record_ref r = str_or (er_reference_number r) (uuid_str (er_id r))"

definition contract_text :: "equipment_record \<Rightarrow> appraisal_submission \<Rightarrow> string" where
  "contract_text record submission =
     (let nl = [newline]
      in ''CONSIGNMENT AGREEMENT'' @ nl @ nl @
         ''This agreement is entered into between Temple Heavy Equipment and the customer '' @
         ''identified below for the consignment of the described equipment.'' @ nl @ nl @
         ''Equipment: '' @ str_or (sub_make submission) '''' @ '' '' @
         str_or (sub_model submission) '''' @ '' ('' @ int_or_empty (sub_year submission) @ '')'' @ nl @
         ''Reference Number: '' @ record_ref record @ nl @
         ''Approved Purchase Offer: $'' @ decimal_or_zero (sub_approved_purchase_offer submission) @ nl @
         ''Consignment Price: $'' @ decimal_or_zero (sub_suggested_consignment_price submission) @
         nl @ nl @
         ''By signing this agreement the customer authorizes Temple Heavy Equipment to list '' @
         ''and sell the described equipment on their behalf under the terms discussed.'' @ nl @ nl @
         ''[Signature block]'' @ nl)"

definition make_and_model :: "appraisal_submission \<Rightarrow> string" where
  "make_and_model submission =
     strip (str_or (sub_make submission) '''' @ '' '' @ str_or (sub_model submission) '''')"

definition set_contract ::
  "uuid \<Rightarrow> (consignment_contract \<Rightarrow> consignment_contract) \<Rightarrow> unit op" where
  "set_contract i f = writes (\<lambda>s. s\<lparr>consignment_contracts :=
     update_where (\<lambda>x. con_id x = i) f (consignment_contracts s)\<rparr>)"

text \<open>A declined contract is reused with a new envelope, otherwise a row is inserted.\<close>

definition send_contract ::
  "env \<Rightarrow> consignment_contract option \<Rightarrow> uuid \<Rightarrow> string \<Rightarrow> consignment_contract op" where
  "send_contract E contract record_id envelope_id =
     (case contract of
        Some c \<Rightarrow>
          let send = (\<lambda>x. x\<lparr>con_envelope_id := Some envelope_id, con_status := ''sent'',
                            con_signed_at := None\<rparr>)
          in seq (set_contract (con_id c) send) (ret (send c))
      | None \<Rightarrow>
          bind (uuid4 E) (\<lambda>i.
          let c' = \<lparr>con_id = i, con_equipment_record_id = record_id,
                    con_envelope_id = Some envelope_id, con_status = ''sent'',
                    con_signed_at = None\<rparr>
          in seq (writes (\<lambda>s. s\<lparr>consignment_contracts := consignment_contracts s @ [c']\<rparr>))
               (ret c')))"

definition esign_ready_payload ::
  "user \<Rightarrow> equipment_record \<Rightarrow> appraisal_submission \<Rightarrow> string \<Rightarrow> (string \<times> json) list" where
  "esign_ready_payload customer_user record submission envelope_id =
     [(''to_email'', JStr (usr_email customer_user)),
      (''first_name'', JStr (usr_first_name customer_user)),
      (''reference_number'', JStr (record_ref record)),
      (''make_model'', JStr (make_and_model submission)),
      (''envelope_id'', JStr envelope_id)]"

definition send_envelope ::
  "env \<Rightarrow> consignment_contract option \<Rightarrow> equipment_record \<Rightarrow> appraisal_submission \<Rightarrow> user \<Rightarrow>
   consignment_contract op" where
  "send_envelope E contract record submission customer_user =
     bind (create_envelope E (er_id record) (usr_email customer_user)
             (strip (usr_first_name customer_user @ '' '' @ usr_last_name customer_user))
             (contract_text record submission)) (\<lambda>envelope_id.
     bind (send_contract E contract (er_id record) envelope_id) (\<lambda>c.
     bind (enqueue E (''esign_dispatch:'' @ envelope_id) (Some (usr_id customer_user)) ''email''
             ''customer_esign_ready'' (esign_ready_payload customer_user record submission envelope_id)
             None) (\<lambda>_.
     ret c)))"

definition dispatch_contract :: "env \<Rightarrow> equipment_record \<Rightarrow> consignment_contract option op" where
  "dispatch_contract E record =
     bind (select_one consignment_contracts (\<lambda>c. con_equipment_record_id c = er_id record)) (\<lambda>contract.
     if contract \<noteq> None \<and> con_status (the contract) \<noteq> ''declined'' then ret contract
     else
       bind (select_one appraisal_submissions (\<lambda>x. sub_equipment_record_id x = er_id record \<and>
               sub_status x = ''approved'')) (\<lambda>found.
       case found of
         None \<Rightarrow> ret None
       | Some submission \<Rightarrow>
           bind (select_one customers (\<lambda>c. cus_id c = er_customer_id record)) (\<lambda>cus.
           case cus of
             None \<Rightarrow> ret None
           | Some customer \<Rightarrow>
               bind (select_one users (\<lambda>u. Some (usr_id u) = cus_user_id customer)) (\<lambda>usr.
               case usr of
                 None \<Rightarrow> ret None
               | Some customer_user \<Rightarrow>
                   bind (send_envelope E contract record submission customer_user)
                     (\<lambda>c. ret (Some c))))))"

subsection \<open>The webhook\<close>

text \<open>
  The envelope id comes from a JSON body: \<^verbatim>\<open>null\<close> compares with \<^verbatim>\<open>IS NULL\<close>, and a value
  that is not a string is refused by the driver.
\<close>

fun envelope_filter :: "json \<Rightarrow> string option op" where
  "envelope_filter (JStr x) = ret (Some x)"
| "envelope_filter JNull = ret None"
| "envelope_filter _ = raise (DataError ''invalid input for query argument'')"

definition fetch_contract :: "env \<Rightarrow> json \<Rightarrow> consignment_contract op" where
  "fetch_contract E envelope_id =
     bind (envelope_filter envelope_id) (\<lambda>i.
     bind (select_one consignment_contracts (\<lambda>c. con_envelope_id c = i)) (\<lambda>found.
     case found of
       None \<Rightarrow> raise (http 404 (''Envelope '' @
                 (case i of Some x \<Rightarrow> x | None \<Rightarrow> ''None'') @ '' not found''))
     | Some c \<Rightarrow> ret c))"

definition signing_redirect :: "env \<Rightarrow> string \<Rightarrow> string op" where
  "signing_redirect E envelope_id =
     seq (fetch_contract E (JStr envelope_id)) (get_signing_url envelope_id ''/portal'')"

definition handle_envelope_completed :: "env \<Rightarrow> json \<Rightarrow> unit op" where
  "handle_envelope_completed E envelope_id =
     bind (fetch_contract E envelope_id) (\<lambda>contract.
     if con_status contract = ''completed'' then ret ()
     else
       bind now (\<lambda>t.
       seq (set_contract (con_id contract)
              (\<lambda>x. x\<lparr>con_status := ''completed'', con_signed_at := Some t\<rparr>))
       (bind (get_row equipment_records er_id (con_equipment_record_id contract)) (\<lambda>found.
        case found of
          None \<Rightarrow> ret ()
        | Some record \<Rightarrow>
            seq (record_transition E record ''esigned_pending_publish'' None
                   (Some ''Customer signed consignment agreement.'') None None)
            (add_audit \<lparr>aud_event_type = ''consignment_contract.signed'', aud_actor_id = None,
               aud_actor_role = Some ''system'', aud_target_type = Some ''consignment_contract'',
               aud_target_id = Some (con_id contract), aud_before_state = None,
               aud_after_state = Some (JObj [(''envelope_id'', envelope_id),
                 (''signed_at'', JStr (isoformat t)),
                 (''equipment_record_id'', JStr (uuid_str (con_equipment_record_id contract)))])\<rparr>)))))"

definition handle_envelope_declined :: "env \<Rightarrow> json \<Rightarrow> unit op" where
  "handle_envelope_declined E envelope_id =
     bind (fetch_contract E envelope_id) (\<lambda>contract.
     if con_status contract = ''declined'' then ret ()
     else
       seq (set_contract (con_id contract) (\<lambda>x. x\<lparr>con_status := ''declined''\<rparr>))
       (bind (get_row equipment_records er_id (con_equipment_record_id contract)) (\<lambda>found.
        case found of
          None \<Rightarrow> ret ()
        | Some record \<Rightarrow>
            seq (when_true (er_status record \<noteq> ''approved_pending_esign'')
                   (seq (record_transition E record ''approved_pending_esign'' None
                      (Some (''Customer declined consignment agreement '' @ em_dash @
                         '' ready to re-send.'')) None None) (ret ())))
            (add_audit \<lparr>aud_event_type = ''consignment_contract.declined'', aud_actor_id = None,
               aud_actor_role = Some ''system'', aud_target_type = Some ''consignment_contract'',
               aud_target_id = Some (con_id contract), aud_before_state = None,
               aud_after_state = Some (JObj [(''envelope_id'', envelope_id)])\<rparr>))))"

definition stub_sign :: "env \<Rightarrow> string \<Rightarrow> (string \<times> json) list op" where
  "stub_sign E envelope_id =
     get_db (seq (handle_envelope_completed E (JStr envelope_id))
       (ret [(''status'', JStr ''signed''), (''envelope_id'', JStr envelope_id)]))"

text \<open>\<^verbatim>\<open>hmac.compare_digest\<close> on strings takes ASCII text only.\<close>

definition is_ascii :: "string \<Rightarrow> bool" where
  "is_ascii s = list_all (\<lambda>c. (of_char c :: nat) < 128) s"

definition check_signature :: "env \<Rightarrow> string \<Rightarrow> string option \<Rightarrow> unit op" where
  "check_signature E raw_body header =
     (let sig_header = (case header of None \<Rightarrow> '''' | Some x \<Rightarrow> x)
      in when_true (cfg_webhook_secret E \<noteq> '''')
           (seq (require (is_ascii sig_header) (TypeError ''comparing strings with non-ASCII characters''))
                (require (hmac_sha256_hex E (cfg_webhook_secret E) raw_body = sig_header)
                   (http 403 ''Invalid webhook signature''))))"

definition esign_webhook :: "env \<Rightarrow> string \<Rightarrow> string option \<Rightarrow> (string \<times> json) list op" where
  "esign_webhook E raw_body header =
     get_db
       (seq (check_signature E raw_body header)
       (case json_loads E raw_body of
          None \<Rightarrow> raise (http 400 ''Invalid JSON body'')
        | Some (JObj payload) \<Rightarrow>
            (let event = payload_get_or payload ''event'' (JStr '''');
                 envelope_id = payload_get_or payload ''envelope_id'' (JStr '''')
             in seq (if event = JStr ''envelope_completed''
                     then handle_envelope_completed E envelope_id
                     else if event = JStr ''envelope_declined''
                     then handle_envelope_declined E envelope_id
                     else ret ())
                  (ret [(''received'', JBool True)]))
        | Some _ \<Rightarrow> raise (AttributeError ''get'')))"

subsection \<open>The life of a contract\<close>

definition contract_ok :: "consignment_contract \<Rightarrow> bool" where
  "contract_ok c \<longleftrightarrow> con_status c \<in> {''sent'', ''completed'', ''declined''} \<and>
     (con_status c = ''sent'' \<longrightarrow> con_signed_at c = None) \<and>
     (con_status c = ''completed'' \<longrightarrow> con_signed_at c \<noteq> None)"

definition contracts_ok :: "db \<Rightarrow> bool" where
  "contracts_ok s \<longleftrightarrow> distinct (map con_equipment_record_id (consignment_contracts s)) \<and>
     (\<forall>c \<in> set (consignment_contracts s). contract_ok c)"

interpretation contracts_db: db_relation "preserves contracts_ok"
  by unfold_locales (simp add: preserves_def contracts_ok_def)

interpretation contracts_queue: queue_relation "preserves contracts_ok"
  by unfold_locales (rule contracts_db.confined_enqueueI, simp add: preserves_def contracts_ok_def)

interpretation contracts_tr: transition_relation "preserves contracts_ok"
  by unfold_locales (simp_all add: preserves_def contracts_ok_def written_def)

lemma contracts_ok_set_contract:
  assumes "\<And>c. con_equipment_record_id (f c) = con_equipment_record_id c"
    and "\<And>c. contract_ok c \<Longrightarrow> contract_ok (f c)"
  shows "confined (preserves contracts_ok) (set_contract i f)"
  using assms unfolding set_contract_def
  by (intro inv.confined_writes)
    (auto simp: preserves_def contracts_ok_def distinct_update_where dest!: set_update_where)

lemma confined_fetch_contract: "confined (same f) (fetch_contract E i)"
  unfolding fetch_contract_def
  by (cases i) (auto intro!: frame.confined_intros simp: confined_def same_def run_simps
      split: list.splits)

lemma fetch_contract_returns:
  assumes "fetch_contract E i s = (Inr c, t)"
  obtains e where "t = s" "con_envelope_id c = e" "envelope_filter i s = (Inr e, s)"
    and "filter (\<lambda>x. con_envelope_id x = e) (consignment_contracts s) = [c]"
    and "c \<in> set (consignment_contracts s)"
proof -
  obtain e u where e: "envelope_filter i s = (Inr e, u)"
    and f: "filter (\<lambda>x. con_envelope_id x = e) (consignment_contracts u) = [c]" and t: "t = u"
    using assms by (auto simp: fetch_contract_def bind_return_iff select_one_return_iff case_iffs
        split: option.splits)
  have "u = s" using e by (cases i) auto
  moreover have "c \<in> set (filter (\<lambda>x. con_envelope_id x = e) (consignment_contracts u))"
    using f by simp
  ultimately show thesis using that e f t by auto
qed

lemma fetch_contract_pure: "fetch_contract E i s = (r, t) \<Longrightarrow> t = s"
  using confined_sameD [OF confined_fetch_contract [where f = "\<lambda>x. x"]] by simp

lemma contracts_ok_fetch: "confined (preserves contracts_ok) (fetch_contract E i)"
  by (rule confinedI) (auto dest!: fetch_contract_pure simp: preserves_def)

lemma contracts_ok_completed: "confined (preserves contracts_ok) (handle_envelope_completed E i)"
  unfolding handle_envelope_completed_def
  by (intro contracts_tr.transition_intros contracts_ok_fetch contracts_ok_set_contract)
    (auto simp: contract_ok_def)

lemma contracts_ok_declined: "confined (preserves contracts_ok) (handle_envelope_declined E i)"
  unfolding handle_envelope_declined_def
  by (intro contracts_tr.transition_intros contracts_ok_fetch contracts_ok_set_contract)
    (auto simp: contract_ok_def)

text \<open>A contract is inserted only where the record has none.\<close>

lemma contracts_ok_send:
  assumes "contracts_ok s" "\<And>c. contract = Some c \<Longrightarrow> con_equipment_record_id c = rid"
    and "contract = None \<Longrightarrow> filter (\<lambda>c. con_equipment_record_id c = rid) (consignment_contracts s) = []"
    and "send_contract E contract rid e s = (r, t)"
  shows "contracts_ok t"
proof (cases contract)
  case None
  then have "rid \<notin> con_equipment_record_id ` set (consignment_contracts s)"
    using assms(3) by (auto simp: filter_empty_conv)
  then show ?thesis
    using assms(1,4) None
    by (auto simp: send_contract_def run_simps contracts_ok_def contract_ok_def Let_def)
next
  case (Some c)
  let ?send = "\<lambda>x. x\<lparr>con_envelope_id := Some e, con_status := ''sent'', con_signed_at := None\<rparr>"
  have "confined (preserves contracts_ok) (set_contract (con_id c) ?send)"
    by (rule contracts_ok_set_contract) (simp_all add: contract_ok_def)
  then have "confined (preserves contracts_ok) (send_contract E contract rid e)"
    unfolding Some send_contract_def Let_def option.case by (intro inv.confined_intros)
  then show ?thesis
    using confined_preservesD [of contracts_ok "send_contract E contract rid e" s r t] assms(1,4) by simp
qed

lemma send_contract_returns: "\<exists>c t. send_contract E contract rid e s = (Inr c, t) \<and>
    con_status c = ''sent'' \<and> con_envelope_id c = Some e"
  by (cases contract) (auto simp: send_contract_def set_contract_def run_simps Let_def)

lemma send_envelope_cases:
  assumes "send_envelope E contract record submission u s = (r, t)"
  obtains i c v where "send_contract E contract (er_id record) (''stub-'' @ uuid_str i)
      (s\<lparr>draws := Suc (draws s)\<rparr>) = (Inr c, v)" "r = Inr c"
    and "con_status c = ''sent''" and "consignment_contracts t = consignment_contracts v"
    and "outside t = outside v" and "audit_logs t = audit_logs v"
    and "equipment_records t = equipment_records v"
    and "notification_jobs t = notification_jobs v \<or>
      (\<exists>j. notification_jobs t = notification_jobs v @ [j] \<and> undeliverable j)"
proof -
  let ?i = "random_uuid E (draws s)"
  obtain c v where c: "send_contract E contract (er_id record) (''stub-'' @ uuid_str ?i)
      (s\<lparr>draws := Suc (draws s)\<rparr>) = (Inr c, v)"
    and st: "con_status c = ''sent''"
    using send_contract_returns by metis
  show thesis
    by (rule that [OF c _ st]; use assms c in
      \<open>auto simp: send_envelope_def create_envelope_def run_simps Let_def CHANNELS_def outside_def
         undeliverable_def new_job_def esign_ready_payload_def obj_get_def split: if_splits\<close>)
qed

lemma select_one_at_most:
  assumes "select_one tbl p s = (Inr x, t)"
  shows "t = s" and "x = None \<Longrightarrow> filter p (tbl s) = []"
    and "\<And>r. x = Some r \<Longrightarrow> r \<in> set (tbl s) \<and> p r"
  using assms by (auto simp: select_one_return_iff filter_eq_Cons_iff)

text \<open>Everything a dispatch can do, in one rule: nothing, or one contract sent and one notice.\<close>

lemma dispatch_contract_cases:
  assumes "dispatch_contract E record s = (r, t)"
  obtains (nothing) "t = s"
  | (sent) i contract c v where "r = Inr (Some c)" "con_status c = ''sent''"
    and "contract = None \<Longrightarrow>
      filter (\<lambda>x. con_equipment_record_id x = er_id record) (consignment_contracts s) = []"
    and "\<And>c'. contract = Some c' \<Longrightarrow> c' \<in> set (consignment_contracts s) \<and>
      con_equipment_record_id c' = er_id record \<and> con_status c' = ''declined''"
    and "send_contract E contract (er_id record) (''stub-'' @ uuid_str i)
      (s\<lparr>draws := Suc (draws s)\<rparr>) = (Inr c, v)"
    and "consignment_contracts t = consignment_contracts v"
    and "outside t = outside v" and "audit_logs t = audit_logs v"
    and "equipment_records t = equipment_records v"
    and "notification_jobs t = notification_jobs v \<or>
      (\<exists>j. notification_jobs t = notification_jobs v @ [j] \<and> undeliverable j)"
proof -
  obtain con u where con: "select_one consignment_contracts
      (\<lambda>c. con_equipment_record_id c = er_id record) s = (con, u)" by fastforce
  have u: "u = s" using con by (auto simp: select_one_def bind_run dest: scalar_one_or_none_pure)
  show thesis
  proof (cases con)
    case (Inl e)
    show thesis by (rule nothing; use assms con u Inl in \<open>auto simp: dispatch_contract_def bind_run\<close>)
  next
    case (Inr contract)
    note at = select_one_at_most [OF con [unfolded Inr]]
    show thesis
    proof (cases "contract \<noteq> None \<and> con_status (the contract) \<noteq> ''declined''")
      case True
      show thesis
        by (rule nothing; use True assms con u Inr in \<open>auto simp: dispatch_contract_def bind_run\<close>)
    next
      case False
      then have d: "\<And>c'. contract = Some c' \<Longrightarrow> con_status c' = ''declined''" by auto
      from False assms con u Inr have
        "t = s \<or> (\<exists>sub usr c. send_envelope E contract record sub usr s = (Inr c, t) \<and> r = Inr (Some c))
          \<or> (\<exists>sub usr e. send_envelope E contract record sub usr s = (Inl e, t))"
        by (auto simp: dispatch_contract_def bind_run select_one_run
            split: list.splits option.splits prod.splits sum.splits) blast+
      then show thesis
      proof (elim disjE exE conjE)
        assume "t = s" then show thesis by (rule nothing)
      next
        fix sub usr c assume e: "send_envelope E contract record sub usr s = (Inr c, t)" "r = Inr (Some c)"
        show thesis
          by (rule send_envelope_cases [OF e(1)], rule sent [where contract = contract])
            (use at d e(2) in auto)
      next
        fix sub usr e assume "send_envelope E contract record sub usr s = (Inl e, t)"
        then show thesis by (rule send_envelope_cases) simp
      qed
    qed
  qed
qed


lemma contracts_ok_draws [simp]: "contracts_ok (s\<lparr>draws := n\<rparr>) = contracts_ok s"
  by (simp add: contracts_ok_def)

lemma contracts_ok_cong: "consignment_contracts t = consignment_contracts s \<Longrightarrow> contracts_ok s \<Longrightarrow> contracts_ok t"
  by (simp add: contracts_ok_def)

lemma contracts_ok_dispatch: "confined (preserves contracts_ok) (dispatch_contract E record)"
proof (rule confinedI, unfold preserves_def, rule impI)
  fix s r t assume run: "dispatch_contract E record s = (r, t)" and ok: "contracts_ok s"
  from run show "contracts_ok t"
  proof (cases rule: dispatch_contract_cases)
    case nothing
    with ok show ?thesis by simp
  next
    case (sent i contract c v)
    have "contracts_ok v"
      by (rule contracts_ok_send [OF _ _ _ sent(5)]) (use ok sent(3,4) in auto)
    with sent(6) show ?thesis by (rule contracts_ok_cong)
  qed
qed

lemma jobs_grow_send_contract: "confined jobs_grow (send_contract E c r e)"
  unfolding send_contract_def set_contract_def Let_def
  by (intro grow.queue_intros) (simp_all add: jobs_grow_def)

lemma jobs_grow_dispatch: "confined jobs_grow (dispatch_contract E r)"
  unfolding dispatch_contract_def send_envelope_def create_envelope_def Let_def
  by (intro grow.queue_intros jobs_grow_send_contract)

subsection \<open>The webhook, step by step\<close>

lemma set_contract_run [run_simps]:
  "set_contract i f s = (Inr (), s\<lparr>consignment_contracts :=
     update_where (\<lambda>x. con_id x = i) f (consignment_contracts s)\<rparr>)"
  by (simp add: set_contract_def)

text \<open>A refused request reaches no table.\<close>

lemma esign_webhook_unsigned:
  assumes "cfg_webhook_secret E \<noteq> ''''"
    and "hmac_sha256_hex E (cfg_webhook_secret E) body \<noteq> (case header of None \<Rightarrow> '''' | Some x \<Rightarrow> x)"
  shows "\<exists>e. esign_webhook E body header s = (Inl e, s)"
  using assms
  by (auto simp: esign_webhook_def get_db_def check_signature_def Let_def run_simps
      split: option.splits)

text \<open>A completed contract ignores a further completion.\<close>

lemma completed_again:
  assumes "fetch_contract E i s = (Inr c, s)" "con_status c = ''completed''"
  shows "handle_envelope_completed E i s = (Inr (), s)"
  using assms by (simp add: handle_envelope_completed_def bind_run)

lemma declined_again:
  assumes "fetch_contract E i s = (Inr c, s)" "con_status c = ''declined''"
  shows "handle_envelope_declined E i s = (Inr (), s)"
  using assms by (simp add: handle_envelope_declined_def bind_run)

lemma fetch_after_set:
  assumes "fetch_contract E i s = (Inr c, u)"
    and "consignment_contracts t = update_where (\<lambda>x. con_id x = con_id c) f (consignment_contracts s)"
    and "\<And>x. con_envelope_id (f x) = con_envelope_id x"
  shows "fetch_contract E i t = (Inr (f c), t)"
proof -
  obtain e where e: "con_envelope_id c = e" "envelope_filter i s = (Inr e, s)"
    and f: "filter (\<lambda>x. con_envelope_id x = e) (consignment_contracts s) = [c]"
    by (rule fetch_contract_returns [OF assms(1)]) blast
  have "filter (\<lambda>x. con_envelope_id x = e) (update_where p f xs) =
      update_where p f (filter (\<lambda>x. con_envelope_id x = e) xs)" for p and xs
    by (induction xs) (auto simp: update_where_def assms(3))
  then have "filter (\<lambda>x. con_envelope_id x = e) (consignment_contracts t) = [f c]"
    using f by (simp add: assms(2) update_where_def)
  moreover have "envelope_filter i t = (Inr e, t)" using e(2) by (cases i) auto
  ultimately show ?thesis by (simp add: fetch_contract_def bind_run select_one_run)
qed

text \<open>What a first completion does.\<close>

lemma completed_spec:
  assumes run: "handle_envelope_completed E i s = (Inr (), t)"
    and f: "fetch_contract E i s = (Inr c, s)" and new: "con_status c \<noteq> ''completed''"
  shows "consignment_contracts t = update_where (\<lambda>x. con_id x = con_id c)
      (\<lambda>x. x\<lparr>con_status := ''completed'', con_signed_at := Some (clock s)\<rparr>) (consignment_contracts s)"
    and "find (\<lambda>r. er_id r = con_equipment_record_id c) (equipment_records s) = Some r \<Longrightarrow>
      allowed (er_status r) ''esigned_pending_publish'' \<and>
      equipment_records t = update_where (\<lambda>y. er_id y = er_id r)
        (\<lambda>y. y\<lparr>er_status := ''esigned_pending_publish''\<rparr>) (equipment_records s)"
proof -
  let ?u = "s\<lparr>consignment_contracts := update_where (\<lambda>x. con_id x = con_id c)
      (\<lambda>x. x\<lparr>con_status := ''completed'', con_signed_at := Some (clock s)\<rparr>) (consignment_contracts s)\<rparr>"
  let ?find = "find (\<lambda>r. er_id r = con_equipment_record_id c) (equipment_records s)"
  have con: "consignment_contracts t = consignment_contracts ?u"
  proof (cases ?find)
    case None
    then show ?thesis using run f new by (simp add: handle_envelope_completed_def run_simps)
  next
    case (Some r)
    then obtain x v where "record_transition E r ''esigned_pending_publish'' None
        (Some ''Customer signed consignment agreement.'') None None ?u = (Inr x, v)"
      and "consignment_contracts t = consignment_contracts v"
      using run f new by (auto simp: handle_envelope_completed_def run_simps split: prod.splits sum.splits)
    then show ?thesis using outside_tables(1) [OF transition_tables(6)] by metis
  qed
  then show "consignment_contracts t = update_where (\<lambda>x. con_id x = con_id c)
      (\<lambda>x. x\<lparr>con_status := ''completed'', con_signed_at := Some (clock s)\<rparr>) (consignment_contracts s)"
    by simp
  assume r: "?find = Some r"
  then obtain x v where x: "record_transition E r ''esigned_pending_publish'' None
        (Some ''Customer signed consignment agreement.'') None None ?u = (Inr x, v)"
      and "equipment_records t = equipment_records v"
    using run f new by (auto simp: handle_envelope_completed_def run_simps split: prod.splits sum.splits)
  then show "allowed (er_status r) ''esigned_pending_publish'' \<and>
      equipment_records t = update_where (\<lambda>y. er_id y = er_id r)
        (\<lambda>y. y\<lparr>er_status := ''esigned_pending_publish''\<rparr>) (equipment_records s)"
    using transition_tables(1,7) [OF x] by simp
qed

text \<open>A decline moves the record back from wherever it went, and returns.\<close>

lemma declined_spec:
  assumes f: "fetch_contract E i s = (Inr c, s)" and new: "con_status c \<noteq> ''declined''"
    and r: "find (\<lambda>r. er_id r = con_equipment_record_id c) (equipment_records s) = Some r"
    and al: "allowed (er_status r) ''approved_pending_esign''" and ready: "notify_ready E s"
  obtains t where "handle_envelope_declined E i s = (Inr (), t)"
    and "consignment_contracts t = update_where (\<lambda>x. con_id x = con_id c)
      (\<lambda>x. x\<lparr>con_status := ''declined''\<rparr>) (consignment_contracts s)"
    and "equipment_records t = update_where (\<lambda>y. er_id y = er_id r)
      (\<lambda>y. y\<lparr>er_status := ''approved_pending_esign''\<rparr>) (equipment_records s)"
proof -
  let ?u = "s\<lparr>consignment_contracts := update_where (\<lambda>x. con_id x = con_id c)
      (\<lambda>x. x\<lparr>con_status := ''declined''\<rparr>) (consignment_contracts s)\<rparr>"
  let ?n = "''Customer declined consignment agreement '' @ em_dash @ '' ready to re-send.''"
  have "notify_ready E ?u"
    using ready by (simp add: notify_ready_def recipients_ok_def overrides_ok_def)
  then obtain x v where x: "record_transition E r ''approved_pending_esign'' None (Some ?n) None None ?u
      = (Inr x, v)"
    using record_transition_succeeds [OF al] by metis
  have "er_status r \<noteq> ''approved_pending_esign''" using al by (auto simp: allowed_def)
  then have "handle_envelope_declined E i s = (Inr (), v\<lparr>audit_logs := audit_logs v @
      [\<lparr>aud_event_type = ''consignment_contract.declined'', aud_actor_id = None,
               aud_actor_role = Some ''system'', aud_target_type = Some ''consignment_contract'',
               aud_target_id = Some (con_id c), aud_before_state = None,
               aud_after_state = Some (JObj [(''envelope_id'', i)])\<rparr>]\<rparr>)"
    using f new r x by (simp add: handle_envelope_declined_def run_simps)
  then show thesis
    by (rule that) (use transition_tables(1) [OF x] outside_tables(1) [OF transition_tables(6) [OF x]]
        in simp_all)
qed


subsection \<open>A dispatch only writes contracts and the queue\<close>

definition sign_frame :: "db \<Rightarrow> db" where
  "sign_frame s = s\<lparr>consignment_contracts := [], notification_jobs := [], draws := 0\<rparr>"

interpretation sign_db: db_relation "same sign_frame"
  by unfold_locales (simp add: same_def sign_frame_def)

interpretation sign_queue: queue_relation "same sign_frame"
  by unfold_locales (rule sign_db.confined_enqueueI, simp add: same_def sign_frame_def)

lemma sign_frame_dispatch: "confined (same sign_frame) (dispatch_contract E r)"
  unfolding dispatch_contract_def send_envelope_def create_envelope_def send_contract_def
    set_contract_def Let_def
  by (intro sign_queue.queue_intros) (simp_all add: same_def sign_frame_def)

lemma sign_frame_tables:
  assumes "sign_frame t = sign_frame s"
  shows "equipment_records t = equipment_records s" "status_events t = status_events s"
    and "appraisal_submissions t = appraisal_submissions s" "audit_logs t = audit_logs s"
    and "change_requests t = change_requests s" "clock t = clock s" "users t = users s"
  using arg_cong [OF assms, of equipment_records] arg_cong [OF assms, of status_events]
    arg_cong [OF assms, of appraisal_submissions] arg_cong [OF assms, of audit_logs]
    arg_cong [OF assms, of change_requests] arg_cong [OF assms, of clock]
    arg_cong [OF assms, of users]
  by (simp_all add: sign_frame_def)

lemma jobs_of_dispatch:
  assumes "hd k \<noteq> CHR ''e''" "k \<noteq> ''''"
  shows "confined (same (jobs_of k)) (dispatch_contract E r)"
proof -
  have "k \<noteq> ''esign_dispatch:'' @ x" for x using assms by auto
  then show ?thesis
    unfolding dispatch_contract_def send_envelope_def create_envelope_def send_contract_def
      set_contract_def Let_def
    by (intro jobs_of_db.db_intros jobs_of_enqueue_other) (simp_all add: same_def jobs_of_def)
qed


lemma completed_succeeds:
  assumes f: "fetch_contract E i s = (Inr c, s)" and new: "con_status c \<noteq> ''completed''"
    and r: "find (\<lambda>r. er_id r = con_equipment_record_id c) (equipment_records s) = Some r"
    and al: "allowed (er_status r) ''esigned_pending_publish''" and ready: "notify_ready E s"
  obtains t where "handle_envelope_completed E i s = (Inr (), t)"
proof -
  let ?u = "s\<lparr>consignment_contracts := update_where (\<lambda>x. con_id x = con_id c)
      (\<lambda>x. x\<lparr>con_status := ''completed'', con_signed_at := Some (clock s)\<rparr>) (consignment_contracts s)\<rparr>"
  have "notify_ready E ?u"
    using ready by (simp add: notify_ready_def recipients_ok_def overrides_ok_def)
  then obtain x v where "record_transition E r ''esigned_pending_publish'' None
      (Some ''Customer signed consignment agreement.'') None None ?u = (Inr x, v)"
    using record_transition_succeeds [OF al] by metis
  then show thesis
    by (intro that) (simp add: handle_envelope_completed_def run_simps f new r)
qed

end
