(* ===== verification/Approval.thy ===== *)
theory Approval
  imports Esign
begin

section \<open>The manager's decisions\<close>

text \<open>
  \<^verbatim>\<open>api/services/approval_service.py\<close> with the routes of \<^verbatim>\<open>api/routers/manager_approvals.py\<close>:
  the queue of submitted appraisals, approval (prices, status, contract), rejection (back to the
  appraiser or declined) and the re-approval of a price change. The rendering of the PDF after
  an approval runs in a session of its own and is not modelled; \<^verbatim>\<open>Numeric\<close> columns keep the
  number they are given.
\<close>

subsection \<open>The queue\<close>

record queue_item =
  aq_submission_id :: uuid
  aq_equipment_record_id :: uuid
  aq_reference_number :: "string option"
  aq_make :: "string option"
  aq_model :: "string option"
  aq_year :: "int option"
  aq_overall_score :: "decimal option"
  aq_score_band :: "string option"
  aq_marketability_rating :: "string option"
  aq_appraiser_name :: "string option"
  aq_submitted_at :: "datetime option"
  aq_management_review_required :: bool
  aq_hold_for_title_review :: bool
  aq_red_flags :: "json option"

definition queue_row :: "db \<Rightarrow> equipment_record \<Rightarrow> appraisal_submission \<Rightarrow> queue_item" where
  "queue_row s er x =
     \<lparr>aq_submission_id = sub_id x, aq_equipment_record_id = er_id er,
      aq_reference_number = er_reference_number er, aq_make = sub_make x, aq_model = sub_model x,
      aq_year = sub_year x, aq_overall_score = sub_overall_score x,
      aq_score_band = sub_score_band x, aq_marketability_rating = sub_marketability_rating x,
      aq_appraiser_name = map_option (\<lambda>u. usr_first_name u @ '' '' @ usr_last_name u)
        (find (\<lambda>u. Some (usr_id u) = sub_appraiser_id x) (users s)),
      aq_submitted_at = sub_submitted_at x,
      aq_management_review_required = sub_management_review_required x,
      aq_hold_for_title_review = sub_hold_for_title_review x, aq_red_flags = sub_red_flags x\<rparr>"

definition awaits_decision :: "equipment_record \<Rightarrow> appraisal_submission \<Rightarrow> bool" where
  "awaits_decision er x =
     (sub_equipment_record_id x = er_id er \<and> sub_status x = ''submitted'' \<and>
      sub_deleted_at x = None \<and> er_status er = ''appraisal_complete'' \<and> er_deleted_at er = None)"

text \<open>\<^verbatim>\<open>ORDER BY .. ASC\<close> of a nullable column: nulls last.\<close>

definition nulls_last :: "int option \<Rightarrow> bool \<times> int" where
  "nulls_last x = (case x of None \<Rightarrow> (True, 0) | Some t \<Rightarrow> (False, t))"

definition get_queue :: "queue_item list op" where
  "get_queue =
     reads (\<lambda>s. sort_key (nulls_last \<circ> aq_submitted_at)
       (concat (map (\<lambda>er. map (queue_row s er) (filter (awaits_decision er) (appraisal_submissions s)))
          (equipment_records s))))"

subsection \<open>Shared steps\<close>

definition fetch_submission :: "uuid \<Rightarrow> appraisal_submission op" where
  "fetch_submission submission_id =
     bind (select_one appraisal_submissions
             (\<lambda>x. sub_id x = submission_id \<and> sub_deleted_at x = None)) (\<lambda>found.
     case found of
       None \<Rightarrow> raise (LookupError (''Submission '' @ uuid_str submission_id @ '' not found''))
     | Some x \<Rightarrow> ret x)"

definition resolve_actor_role :: "user \<Rightarrow> string op" where
  "resolve_actor_role user =
     bind (role_slugs_for_user user) (\<lambda>slugs.
     ret (if ''admin'' \<in> slugs then ''admin''
          else if ''sales_manager'' \<in> slugs then ''sales_manager'' else ''unknown''))"

definition save_submission :: "appraisal_submission \<Rightarrow> unit op" where
  "save_submission x = writes (\<lambda>s. s\<lparr>appraisal_submissions :=
     update_where (\<lambda>y. sub_id y = sub_id x) (\<lambda>_. x) (appraisal_submissions s)\<rparr>)"

definition save_change :: "change_request \<Rightarrow> unit op" where
  "save_change c = writes (\<lambda>s. s\<lparr>change_requests :=
     update_where (\<lambda>y. cr_id y = cr_id c) (\<lambda>_. c) (change_requests s)\<rparr>)"

definition record_of :: "appraisal_submission \<Rightarrow> equipment_record op" where
  "record_of submission =
     bind (get_row equipment_records er_id (sub_equipment_record_id submission)) (\<lambda>found.
     case found of
       None \<Rightarrow> raise (LookupError (''Equipment record for submission '' @
                 uuid_str (sub_id submission) @ '' not found''))
     | Some r \<Rightarrow> ret r)"

definition decision_audit ::
  "string \<Rightarrow> user \<Rightarrow> string \<Rightarrow> appraisal_submission \<Rightarrow> equipment_record \<Rightarrow>
   (string \<times> json) list \<Rightarrow> audit_log" where
  "decision_audit event user role submission record after =
     \<lparr>aud_event_type = event, aud_actor_id = Some (usr_id user), aud_actor_role = Some role,
      aud_target_type = Some ''appraisal_submission'', aud_target_id = Some (sub_id submission),
      aud_before_state = Some (JObj [(''submission_status'', JStr (sub_status submission)),
        (''record_status'', JStr (er_status record))]),
      aud_after_state = Some (JObj after)\<rparr>"

subsection \<open>Approval\<close>

definition added_notes :: "string option \<Rightarrow> string option \<Rightarrow> string option" where
  "added_notes prior notes =
     (if str_truthy notes
      then if str_truthy prior then Some (strip (the prior @ [newline] @ the notes)) else notes
      else prior)"

definition approved ::
  "appraisal_submission \<Rightarrow> uuid \<Rightarrow> decimal \<Rightarrow> decimal \<Rightarrow> string option \<Rightarrow> datetime \<Rightarrow>
   appraisal_submission" where
  "approved submission user_id purchase_offer consignment_price notes t =
     submission\<lparr>sub_approved_purchase_offer := Some purchase_offer,
       sub_suggested_consignment_price := Some consignment_price,
       sub_review_notes := added_notes (sub_review_notes submission) notes,
       sub_approved_by_id := Some user_id, sub_approved_at := Some t,
       sub_status := ''approved''\<rparr>"

definition approve ::
  "env \<Rightarrow> uuid \<Rightarrow> user \<Rightarrow> decimal \<Rightarrow> decimal \<Rightarrow> string option \<Rightarrow> bool \<Rightarrow> appraisal_submission op" where
  "approve E submission_id approving_user purchase_offer consignment_price notes
     title_review_confirmed =
     bind (fetch_submission submission_id) (\<lambda>submission.
     seq (require (sub_status submission = ''submitted'')
            (ValueError (''Cannot approve: submission status is '' @ quoted (sub_status submission))))
     (seq (require (sub_hold_for_title_review submission \<longrightarrow> title_review_confirmed)
            (ValueError (''This submission has a title hold '' @ em_dash @
               '' set title_review_confirmed to true to proceed.'')))
     (bind (record_of submission) (\<lambda>record.
      bind now (\<lambda>t.
      seq (save_submission (approved submission (usr_id approving_user) purchase_offer
             consignment_price notes t))
      (bind (record_transition E record ''approved_pending_esign'' (Some approving_user) None None
               None) (\<lambda>(event, record').
       bind (resolve_actor_role approving_user) (\<lambda>actor_role.
       seq (add_audit (decision_audit ''appraisal_submission.approved'' approving_user actor_role
              submission record
              [(''submission_status'', JStr ''approved''),
               (''record_status'', JStr ''approved_pending_esign''),
               (''approved_purchase_offer'', JStr (decimal_str purchase_offer)),
               (''suggested_consignment_price'', JStr (decimal_str consignment_price))]))
       (bind (attempt (dispatch_contract E record')) (\<lambda>_.
        fetch_submission submission_id)))))))))) "

subsection \<open>Rejection\<close>

definition rejection_payload ::
  "equipment_record \<Rightarrow> appraisal_submission \<Rightarrow> string \<Rightarrow> bool \<Rightarrow> (string \<times> json) list" where
  "rejection_payload record submission rejection_notes send_back =
     [(''reference_number'', JStr (record_ref record)),
      (''make'', JStr (str_or (sub_make submission) ''Unknown'')),
      (''model'', JStr (str_or (sub_model submission) ''equipment'')),
      (''rejection_notes'', JStr rejection_notes), (''send_back'', JBool send_back)]"

definition appraiser_rejection_key :: "uuid \<Rightarrow> string" where
  "appraiser_rejection_key i = ''rejection-appraiser-'' @ uuid_str i"

definition sales_rep_rejection_key :: "uuid \<Rightarrow> string" where
  "sales_rep_rejection_key i = ''rejection-sales-rep-'' @ uuid_str i"

definition notify_rejection ::
  "env \<Rightarrow> uuid \<Rightarrow> equipment_record \<Rightarrow> appraisal_submission \<Rightarrow> (string \<times> json) list \<Rightarrow> bool \<Rightarrow>
   unit op" where
  "notify_rejection E submission_id record submission payload send_back =
     seq (when_true (send_back \<and> sub_appraiser_id submission \<noteq> None)
            (seq (enqueue E (appraiser_rejection_key submission_id) (sub_appraiser_id submission)
                    ''email'' ''appraisal_rejected_appraiser_email'' payload None) (ret ())))
     (when_true (er_assigned_sales_rep_id record \<noteq> None)
        (seq (enqueue E (sales_rep_rejection_key submission_id) (er_assigned_sales_rep_id record)
                ''email'' ''appraisal_rejected_sales_rep_email'' payload None) (ret ())))"

definition reject ::
  "env \<Rightarrow> uuid \<Rightarrow> user \<Rightarrow> string \<Rightarrow> bool \<Rightarrow> appraisal_submission op" where
  "reject E submission_id rejecting_user rejection_notes send_back =
     bind (fetch_submission submission_id) (\<lambda>submission.
     seq (require (sub_status submission = ''submitted'')
            (ValueError (''Cannot reject: submission status is '' @ quoted (sub_status submission))))
     (bind (record_of submission) (\<lambda>record.
      let new_record_status = (if send_back then ''new_request'' else ''declined'')
      in seq (save_submission (submission\<lparr>sub_rejection_notes := Some rejection_notes,
                sub_status := ''rejected''\<rparr>))
      (bind (record_transition E record new_record_status (Some rejecting_user)
               (Some rejection_notes) None None) (\<lambda>(event, record').
       seq (notify_rejection E submission_id record' submission
              (rejection_payload record' submission rejection_notes send_back) send_back)
       (bind (resolve_actor_role rejecting_user) (\<lambda>actor_role.
       seq (add_audit (decision_audit ''appraisal_submission.rejected'' rejecting_user actor_role
              submission record
              [(''submission_status'', JStr ''rejected''), (''record_status'', JStr new_record_status),
               (''rejection_notes'', JStr rejection_notes), (''send_back'', JBool send_back)]))
       (fetch_submission submission_id)))))))) "


subsection \<open>Re-approval of a price change\<close>

text \<open>\<^verbatim>\<open>str(x)\<close> of an optional decimal, and the same behind a truth test.\<close>

definition decimal_json :: "decimal option \<Rightarrow> json" where
  "decimal_json x = JStr (case x of None \<Rightarrow> ''None'' | Some d \<Rightarrow> decimal_str d)"

definition truthy_decimal_json :: "decimal option \<Rightarrow> json" where
  "truthy_decimal_json x =
     (case x of None \<Rightarrow> JNull | Some d \<Rightarrow> if dec_coeff d = 0 then JNull else JStr (decimal_str d))"

definition reapproved :: "change_request \<Rightarrow> uuid \<Rightarrow> datetime \<Rightarrow> change_request" where
  "reapproved change user_id t =
     (let c = change\<lparr>cr_status := ''resolved'', cr_resolved_by := Some user_id,
                     cr_resolved_at := Some t, cr_requires_manager_reapproval := False\<rparr>
      in case cr_proposed_consignment_price change of
           None \<Rightarrow> c
         | Some p \<Rightarrow> c\<lparr>cr_resolution_notes :=
                          Some (''Manager re-approved price change to $'' @ decimal_str p)\<rparr>)"

definition apply_price ::
  "change_request \<Rightarrow> appraisal_submission option \<Rightarrow> unit op" where
  "apply_price change submission =
     (case (cr_proposed_consignment_price change, submission) of
        (Some p, Some x) \<Rightarrow> save_submission (x\<lparr>sub_suggested_consignment_price := Some p\<rparr>)
      | _ \<Rightarrow> ret ())"

definition approve_price_change :: "env \<Rightarrow> uuid \<Rightarrow> user \<Rightarrow> change_request op" where
  "approve_price_change E change_request_id approving_user =
     bind (select_one change_requests (\<lambda>c. cr_id c = change_request_id)) (\<lambda>found.
     case found of
       None \<Rightarrow> raise (LookupError (''Change request '' @ uuid_str change_request_id @ '' not found''))
     | Some change \<Rightarrow>
         seq (require (cr_status change = ''pending'')
                (ValueError (''Cannot re-approve: change request status is '' @
                   quoted (cr_status change))))
         (seq (require (cr_requires_manager_reapproval change)
                 (ValueError ''This change request does not require manager re-approval.''))
         (bind (select_one appraisal_submissions (\<lambda>x.
                  sub_equipment_record_id x = cr_equipment_record_id change \<and>
                  sub_status x = ''approved'' \<and> sub_deleted_at x = None)) (\<lambda>submission.
          bind now (\<lambda>t.
          let change' = reapproved change (usr_id approving_user) t
          in seq (save_change change')
             (seq (apply_price change submission)
             (bind (resolve_actor_role approving_user) (\<lambda>actor_role.
              seq (add_audit \<lparr>aud_event_type = ''change_request.price_reapproved'',
                     aud_actor_id = Some (usr_id approving_user), aud_actor_role = Some actor_role,
                     aud_target_type = Some ''change_request'', aud_target_id = Some (cr_id change),
                     aud_before_state = Some (JObj [(''change_status'', JStr (cr_status change)),
                       (''approved_price'', case submission of None \<Rightarrow> JNull
                          | Some x \<Rightarrow> decimal_json (sub_suggested_consignment_price x))]),
                     aud_after_state = Some (JObj [(''change_status'', JStr ''resolved''),
                       (''new_price'', truthy_decimal_json (cr_proposed_consignment_price change))])\<rparr>)
              (ret change')))))))))"

subsection \<open>Routes\<close>

definition MANAGERS :: "string list" where
  "MANAGERS = [''sales_manager'', ''admin'']"

text \<open>\<^verbatim>\<open>LookupError\<close> answers 404, \<^verbatim>\<open>ValueError\<close> 422.\<close>

fun approval_http :: "exn \<Rightarrow> exn" where
  "approval_http (LookupError m) = http 404 m"
| "approval_http (ValueError m) = http 422 m"
| "approval_http e = e"

definition approve_submission ::
  "env \<Rightarrow> string option \<Rightarrow> uuid \<Rightarrow> decimal \<Rightarrow> decimal \<Rightarrow> string option \<Rightarrow> bool \<Rightarrow>
   appraisal_submission op" where
  "approve_submission E cred submission_id purchase_offer consignment_price notes confirmed =
     guarded_route E MANAGERS cred (\<lambda>current_user.
       map_exn approval_http (approve E submission_id current_user purchase_offer consignment_price
         notes confirmed))"

definition reject_submission ::
  "env \<Rightarrow> string option \<Rightarrow> uuid \<Rightarrow> string \<Rightarrow> bool \<Rightarrow> appraisal_submission op" where
  "reject_submission E cred submission_id rejection_notes send_back =
     guarded_route E MANAGERS cred (\<lambda>current_user.
       map_exn approval_http (reject E submission_id current_user rejection_notes send_back))"

definition approve_price_change_route ::
  "env \<Rightarrow> string option \<Rightarrow> uuid \<Rightarrow> change_request op" where
  "approve_price_change_route E cred change_request_id =
     guarded_route E MANAGERS cred (\<lambda>current_user.
       map_exn approval_http (approve_price_change E change_request_id current_user))"

definition get_approval_queue :: "env \<Rightarrow> string option \<Rightarrow> (queue_item list \<times> nat) op" where
  "get_approval_queue E cred = guarded_route E MANAGERS cred (\<lambda>current_user.
     bind get_queue (\<lambda>items. ret (items, length items)))"

record price_change_item =
  pc_change_request_id :: uuid
  pc_equipment_record_id :: uuid
  pc_reference_number :: "string option"
  pc_make_model :: "string option"
  pc_approved_price :: "decimal option"
  pc_proposed_price :: "decimal option"
  pc_submitted_at :: datetime
  pc_customer_email :: "string option"

definition customer_user_of :: "db \<Rightarrow> equipment_record \<Rightarrow> user option" where
  "customer_user_of s r =
     (case find (\<lambda>c. cus_id c = er_customer_id r) (customers s) of
        None \<Rightarrow> None
      | Some c \<Rightarrow> find (\<lambda>u. Some (usr_id u) = cus_user_id c) (users s))"

definition price_change_item_of :: "change_request \<Rightarrow> price_change_item op" where
  "price_change_item_of change =
     bind (get_row equipment_records er_id (cr_equipment_record_id change)) (\<lambda>rec.
     bind (reads (\<lambda>s. case rec of None \<Rightarrow> None | Some r \<Rightarrow> customer_user_of s r)) (\<lambda>customer_user.
     bind (select_one appraisal_submissions (\<lambda>x.
             sub_equipment_record_id x = cr_equipment_record_id change \<and>
             sub_status x = ''approved'')) (\<lambda>sub.
     ret \<lparr>pc_change_request_id = cr_id change,
          pc_equipment_record_id = cr_equipment_record_id change,
          pc_reference_number = (case rec of None \<Rightarrow> None | Some r \<Rightarrow> er_reference_number r),
          pc_make_model = (case sub of None \<Rightarrow> None
             | Some x \<Rightarrow> let m = join_present [sub_make x, sub_model x]
                         in if m = '''' then None else Some m),
          pc_approved_price = (case sub of None \<Rightarrow> None
             | Some x \<Rightarrow> sub_suggested_consignment_price x),
          pc_proposed_price = cr_proposed_consignment_price change,
          pc_submitted_at = cr_submitted_at change,
          pc_customer_email = map_option usr_email customer_user\<rparr>)))"

definition get_price_change_queue ::
  "env \<Rightarrow> string option \<Rightarrow> (price_change_item list \<times> nat) op" where
  "get_price_change_queue E cred = guarded_route E MANAGERS cred (\<lambda>current_user.
     bind (reads (\<lambda>s. sort_key cr_submitted_at (filter (\<lambda>c. cr_requires_manager_reapproval c \<and>
             cr_status c = ''pending'') (change_requests s)))) (\<lambda>changes.
     bind (map_each changes price_change_item_of) (\<lambda>items. ret (items, length items))))"

subsection \<open>What the decisions do\<close>

lemma fetch_submission_return_iff:
  "fetch_submission i s = (Inr x, t) \<longleftrightarrow>
     t = s \<and> filter (\<lambda>x. sub_id x = i \<and> sub_deleted_at x = None) (appraisal_submissions s) = [x]"
  by (auto simp: fetch_submission_def bind_return_iff select_one_return_iff case_iffs
      split: option.splits)

lemma record_of_return_iff:
  "record_of x s = (Inr r, t) \<longleftrightarrow>
     t = s \<and> find (\<lambda>r. er_id r = sub_equipment_record_id x) (equipment_records s) = Some r"
  by (auto simp: record_of_def run_simps split: option.splits)

lemma save_submission_run [run_simps]:
  "save_submission x s = (Inr (), s\<lparr>appraisal_submissions :=
     update_where (\<lambda>y. sub_id y = sub_id x) (\<lambda>_. x) (appraisal_submissions s)\<rparr>)"
  by (simp add: save_submission_def)

lemma save_change_run [run_simps]:
  "save_change c s = (Inr (), s\<lparr>change_requests :=
     update_where (\<lambda>y. cr_id y = cr_id c) (\<lambda>_. c) (change_requests s)\<rparr>)"
  by (simp add: save_change_def)

lemma resolve_actor_role_return: "resolve_actor_role u s = (r, t) \<Longrightarrow> t = s"
  by (auto simp: resolve_actor_role_def role_slugs_for_user_def run_simps)

lemma approve_returns:
  assumes "approve E i u offer price n confirmed s = (Inr x, t)"
  obtains submission rec role where
    "filter (\<lambda>x. sub_id x = i \<and> sub_deleted_at x = None) (appraisal_submissions s) = [submission]"
    and "sub_status submission = ''submitted''"
    and "sub_hold_for_title_review submission \<longrightarrow> confirmed"
    and "find (\<lambda>r. er_id r = sub_equipment_record_id submission) (equipment_records s) = Some rec"
    and "allowed (er_status rec) ''approved_pending_esign''"
    and "appraisal_submissions t = update_where (\<lambda>y. sub_id y = sub_id submission)
      (\<lambda>_. approved submission (usr_id u) offer price n (clock s)) (appraisal_submissions s)"
    and "equipment_records t = update_where (\<lambda>y. er_id y = er_id rec)
      (\<lambda>y. y\<lparr>er_status := ''approved_pending_esign''\<rparr>) (equipment_records s)"
    and "audit_logs t = audit_logs s @ [decision_audit ''appraisal_submission.approved'' u role
      submission rec
      [(''submission_status'', JStr ''approved''), (''record_status'', JStr ''approved_pending_esign''),
       (''approved_purchase_offer'', JStr (decimal_str offer)),
       (''suggested_consignment_price'', JStr (decimal_str price))]]"
proof -
  obtain submission where sub:
    "filter (\<lambda>x. sub_id x = i \<and> sub_deleted_at x = None) (appraisal_submissions s) = [submission]"
    and st: "sub_status submission = ''submitted''"
    and hold: "sub_hold_for_title_review submission \<longrightarrow> confirmed"
    using assms by (auto simp: approve_def bind_return_iff seq_return_iff require_return_iff
        fetch_submission_return_iff)
  obtain rec where rec:
    "find (\<lambda>r. er_id r = sub_equipment_record_id submission) (equipment_records s) = Some rec"
    using assms by (auto simp: approve_def bind_return_iff seq_return_iff require_return_iff
        fetch_submission_return_iff record_of_return_iff sub)
  let ?x = "approved submission (usr_id u) offer price n (clock s)"
  let ?u = "s\<lparr>appraisal_submissions :=
     update_where (\<lambda>y. sub_id y = sub_id ?x) (\<lambda>_. ?x) (appraisal_submissions s)\<rparr>"
  let ?a = "\<lambda>role. decision_audit ''appraisal_submission.approved'' u role submission rec
      [(''submission_status'', JStr ''approved''), (''record_status'', JStr ''approved_pending_esign''),
       (''approved_purchase_offer'', JStr (decimal_str offer)),
       (''suggested_consignment_price'', JStr (decimal_str price))]"
  obtain e rec' v w role where
    tr: "record_transition E rec ''approved_pending_esign'' (Some u) None None None ?u = (Inr (e, rec'), v)"
    and role: "resolve_actor_role u v = (Inr role, w)"
    and rest: "bind (attempt (dispatch_contract E rec')) (\<lambda>_. fetch_submission i)
      (w\<lparr>audit_logs := audit_logs w @ [?a role]\<rparr>) = (Inr x, t)"
    using assms unfolding approve_def
    by (simp only: bind_return_iff [of "fetch_submission _"] bind_return_iff [of "record_of _"]
        bind_return_iff [of now] bind_return_iff [of "record_transition _ _ _ _ _ _ _"]
        bind_return_iff [of "resolve_actor_role _"]
        seq_return_iff require_return_iff
        fetch_submission_return_iff record_of_return_iff sub rec now_run save_submission_run
        add_audit_run prod.inject sum.inject)
      (auto simp: sub rec bind_return_iff [of "resolve_actor_role _"] seq_return_iff add_audit_run)
  have w: "w = v" using role by (rule resolve_actor_role_return)
  let ?v = "v\<lparr>audit_logs := audit_logs v @ [?a role]\<rparr>"
  obtain o' z where d: "dispatch_contract E rec' ?v = (o', z)" by fastforce
  then have z: "t = z" using rest
    by (auto simp: bind_return_iff attempt_run w fetch_submission_return_iff)
  note fr = sign_frame_tables [OF confined_sameD [OF sign_frame_dispatch d]]
  note tt = transition_tables [OF tr]
  show thesis
    by (rule that [of submission rec role])
      (use sub st hold rec fr tt outside_tables(2) [OF tt(6)] in
        \<open>auto simp: z approved_def\<close>)
qed


text \<open>The mail of a rejection has neither subject nor body.\<close>

lemma rejection_job_undeliverable:
  "undeliverable (new_job i k u ''email'' tpl (rejection_payload r x n b) d)"
  by (simp add: undeliverable_def new_job_def rejection_payload_def obj_get_def)

lemma rejection_keys [simp]:
  "appraiser_rejection_key i \<noteq> sales_rep_rejection_key j"
  "sales_rep_rejection_key j \<noteq> appraiser_rejection_key i"
  "hd (sales_rep_rejection_key i) = CHR ''r''" "sales_rep_rejection_key i \<noteq> ''''"
  "hd (appraiser_rejection_key i) = CHR ''r''" "appraiser_rejection_key i \<noteq> ''''"
  by (simp_all add: appraiser_rejection_key_def sales_rep_rejection_key_def)

lemma seq_enqueue_email:
  "\<exists>t. seq (enqueue E k u ''email'' m p d) (ret ()) s = (Inr (), t) \<and>
     enqueue E k u ''email'' m p d s = (fst (enqueue E k u ''email'' m p d s), t)"
  by (simp add: run_simps Let_def)

lemma notify_rejection_jobs:
  assumes "notify_rejection E i rec x (rejection_payload rec x n back) back s = (r, t)"
  shows "r = Inr ()"
    and "er_assigned_sales_rep_id rec \<noteq> None \<Longrightarrow> jobs_of (sales_rep_rejection_key i) s = [] \<Longrightarrow>
      \<exists>j. jobs_of (sales_rep_rejection_key i) t = [j] \<and> undeliverable j"
    and "back \<Longrightarrow> sub_appraiser_id x \<noteq> None \<Longrightarrow> jobs_of (appraiser_rejection_key i) s = [] \<Longrightarrow>
      \<exists>j. jobs_of (appraiser_rejection_key i) t = [j] \<and> undeliverable j"
proof -
  let ?p = "rejection_payload rec x n back"
  let ?A = "appraiser_rejection_key i" and ?R = "sales_rep_rejection_key i"
  let ?a = "back \<and> sub_appraiser_id x \<noteq> None" and ?b = "er_assigned_sales_rep_id rec \<noteq> None"
  let ?ea = "enqueue E ?A (sub_appraiser_id x) ''email'' ''appraisal_rejected_appraiser_email'' ?p None"
  let ?eb = "enqueue E ?R (er_assigned_sales_rep_id rec) ''email'' ''appraisal_rejected_sales_rep_email'' ?p None"
  obtain ra u where ea: "?ea s = (ra, u)" by fastforce
  define v where "v = (if ?a then u else s)"
  obtain rb w where eb: "?eb v = (rb, w)" by fastforce
  have ra: "\<exists>o'. ra = Inr o'" and rb: "\<exists>o'. rb = Inr o'"
    using ea eb by (auto simp: run_simps Let_def split: if_splits)
  then show "r = Inr ()" using assms ea eb
    by (auto simp: notify_rejection_def seq_run when_true_run v_def split: if_splits)
  have t: "t = (if ?b then w else v)"
    using assms ea eb ra rb
    by (auto simp: notify_rejection_def seq_run when_true_run v_def split: if_splits)
  have A: "jobs_of ?A u = (if jobs_of ?A s = [] then [new_job (random_uuid E (draws s)) ?A
      (sub_appraiser_id x) ''email'' ''appraisal_rejected_appraiser_email'' ?p (clock s)] else jobs_of ?A s)"
    and R: "jobs_of ?R w = (if jobs_of ?R v = [] then [new_job (random_uuid E (draws v)) ?R
      (er_assigned_sales_rep_id rec) ''email'' ''appraisal_rejected_sales_rep_email'' ?p (clock v)]
      else jobs_of ?R v)"
    using jobs_of_enqueue [OF CHANNELS_email(1) ea] jobs_of_enqueue [OF CHANNELS_email(1) eb] by simp_all
  have R': "jobs_of ?R u = jobs_of ?R s" and A': "jobs_of ?A w = jobs_of ?A v"
    by (rule confined_sameD [OF jobs_of_enqueue_other ea], simp)
      (rule confined_sameD [OF jobs_of_enqueue_other eb], simp)
  show "?b \<Longrightarrow> jobs_of ?R s = [] \<Longrightarrow> \<exists>j. jobs_of ?R t = [j] \<and> undeliverable j"
    using R R' t rejection_job_undeliverable by (auto simp: v_def)
  show "back \<Longrightarrow> sub_appraiser_id x \<noteq> None \<Longrightarrow> jobs_of ?A s = [] \<Longrightarrow>
      \<exists>j. jobs_of ?A t = [j] \<and> undeliverable j"
    using A A' t rejection_job_undeliverable by (auto simp: v_def)
qed

lemma reject_returns:
  assumes "reject E i u n back s = (Inr x, t)"
  obtains submission rec where
    "filter (\<lambda>x. sub_id x = i \<and> sub_deleted_at x = None) (appraisal_submissions s) = [submission]"
    and "sub_status submission = ''submitted''"
    and "find (\<lambda>r. er_id r = sub_equipment_record_id submission) (equipment_records s) = Some rec"
    and "allowed (er_status rec) (if back then ''new_request'' else ''declined'')"
    and "appraisal_submissions t = update_where (\<lambda>y. sub_id y = sub_id submission)
      (\<lambda>_. submission\<lparr>sub_rejection_notes := Some n, sub_status := ''rejected''\<rparr>)
      (appraisal_submissions s)"
    and "equipment_records t = update_where (\<lambda>y. er_id y = er_id rec)
      (\<lambda>y. y\<lparr>er_status := (if back then ''new_request'' else ''declined'')\<rparr>) (equipment_records s)"
    and "er_assigned_sales_rep_id rec \<noteq> None \<Longrightarrow> jobs_of (sales_rep_rejection_key i) s = [] \<Longrightarrow>
      \<exists>j. jobs_of (sales_rep_rejection_key i) t = [j] \<and> undeliverable j"
    and "back \<Longrightarrow> sub_appraiser_id submission \<noteq> None \<Longrightarrow> jobs_of (appraiser_rejection_key i) s = [] \<Longrightarrow>
      \<exists>j. jobs_of (appraiser_rejection_key i) t = [j] \<and> undeliverable j"
proof -
  obtain submission where sub:
    "filter (\<lambda>x. sub_id x = i \<and> sub_deleted_at x = None) (appraisal_submissions s) = [submission]"
    and st: "sub_status submission = ''submitted''"
    using assms by (auto simp: reject_def bind_return_iff seq_return_iff require_return_iff
        fetch_submission_return_iff)
  obtain rec where rec:
    "find (\<lambda>r. er_id r = sub_equipment_record_id submission) (equipment_records s) = Some rec"
    using assms by (auto simp: reject_def bind_return_iff seq_return_iff require_return_iff
        fetch_submission_return_iff record_of_return_iff sub)
  let ?x = "submission\<lparr>sub_rejection_notes := Some n, sub_status := ''rejected''\<rparr>"
  let ?u = "s\<lparr>appraisal_submissions :=
     update_where (\<lambda>y. sub_id y = sub_id ?x) (\<lambda>_. ?x) (appraisal_submissions s)\<rparr>"
  let ?st = "if back then ''new_request'' else ''declined''"
  obtain e rec' v w a where
    tr: "record_transition E rec ?st (Some u) (Some n) None None ?u = (Inr (e, rec'), v)"
    and no: "notify_rejection E i rec' submission (rejection_payload rec' submission n back) back v = (Inr (), w)"
    and t: "t = w\<lparr>audit_logs := audit_logs w @ [a]\<rparr>"
    using assms unfolding reject_def Let_def
    by (simp only: bind_return_iff [of "fetch_submission _"] bind_return_iff [of "record_of _"]
        bind_return_iff [of "record_transition _ _ _ _ _ _ _"]
        bind_return_iff [of "resolve_actor_role _"]
        seq_return_iff require_return_iff
        fetch_submission_return_iff record_of_return_iff sub rec save_submission_run
        add_audit_run prod.inject sum.inject)
      (auto simp: sub rec bind_return_iff [of "resolve_actor_role _"] seq_return_iff add_audit_run
        fetch_submission_return_iff dest!: resolve_actor_role_return)
  have "confined (same outside) (notify_rejection E i rec' submission p back)" for p
    unfolding notify_rejection_def by (intro outside_frame.transition_intros)
  note ow = outside_tables(2) [OF confined_sameD [OF this no]]
  have "confined (same business) (notify_rejection E i rec' submission p back)" for p
    unfolding notify_rejection_def by (intro business_frame.queue_intros)
  from arg_cong [OF confined_sameD [OF this no], of equipment_records]
  have er: "equipment_records w = equipment_records v" by (simp add: business_def)
  note tt = transition_tables [OF tr]
  have rec': "rec' = rec\<lparr>er_status := ?st\<rparr>" using tt(3) by simp
  have jt: "jobs_of k t = jobs_of k w" for k by (simp add: t)
  have jv: "jobs_of k v = jobs_of k s" if "hd k = CHR ''r''" "k \<noteq> ''''" for k
    using confined_sameD [OF jobs_of_transition tr, of k] that by (simp add: jobs_of_def)
  show thesis
  proof (rule that [of submission rec])
    show "appraisal_submissions t = update_where (\<lambda>y. sub_id y = sub_id submission) (\<lambda>_. ?x)
      (appraisal_submissions s)"
      using ow outside_tables(2) [OF tt(6)] by (simp add: t)
    show "equipment_records t = update_where (\<lambda>y. er_id y = er_id rec)
      (\<lambda>y. y\<lparr>er_status := ?st\<rparr>) (equipment_records s)"
      using er tt(1) by (simp add: t)
  qed (use sub st rec tt(7) notify_rejection_jobs(2,3) [OF no] jv jt in \<open>auto simp: rec'\<close>)
qed


subsection \<open>What is in the queue can be decided\<close>

lemma get_queue_spec:
  assumes "get_queue s = (Inr items, t)"
  shows "t = s" and "sorted (map (nulls_last \<circ> aq_submitted_at) items)"
    and "q \<in> set items \<longleftrightarrow> (\<exists>er \<in> set (equipment_records s). \<exists>x \<in> set (appraisal_submissions s).
      awaits_decision er x \<and> q = queue_row s er x)"
  using assms by (auto simp: get_queue_def) blast+

lemma filter_replaced:
  assumes "distinct (map k xs)" "filter (\<lambda>x. k x = i \<and> q x) xs = [x]" "k x' = k x" "q x'"
  shows "filter (\<lambda>x. k x = i \<and> q x) (update_where (\<lambda>y. k y = k x) (\<lambda>_. x') xs) = [x']"
proof -
  have x: "x \<in> set xs" "k x = i" "q x" using assms(2) by (auto simp: filter_eq_Cons_iff)
  then have f: "filter (\<lambda>y. k y = i) xs = [x]" using filter_key_distinct [OF assms(1)] by metis
  have "filter (\<lambda>y. k y = i \<and> q y) (update_where (\<lambda>y. k y = k x) (\<lambda>_. x') ys) =
      map (\<lambda>_. x') (filter (\<lambda>y. k y = i) ys)" for ys
    using assms(3,4) x(2) by (induction ys) (auto simp: update_where_def)
  then show ?thesis by (simp add: f)
qed

lemma approve_succeeds:
  assumes sub: "filter (\<lambda>x. sub_id x = i \<and> sub_deleted_at x = None) (appraisal_submissions s) = [submission]"
    and st: "sub_status submission = ''submitted''"
    and hold: "sub_hold_for_title_review submission \<longrightarrow> confirmed"
    and rec: "find (\<lambda>r. er_id r = sub_equipment_record_id submission) (equipment_records s) = Some rec"
    and al: "allowed (er_status rec) ''approved_pending_esign''"
    and ready: "notify_ready E s" and ids: "distinct (map sub_id (appraisal_submissions s))"
  shows "\<exists>t. approve E i u offer price n confirmed s =
    (Inr (approved submission (usr_id u) offer price n (clock s)), t)"
proof -
  let ?x = "approved submission (usr_id u) offer price n (clock s)"
  let ?u = "s\<lparr>appraisal_submissions :=
     update_where (\<lambda>y. sub_id y = sub_id ?x) (\<lambda>_. ?x) (appraisal_submissions s)\<rparr>"
  have "notify_ready E ?u"
    using ready by (simp add: notify_ready_def recipients_ok_def overrides_ok_def)
  then obtain y v where tr: "record_transition E rec ''approved_pending_esign'' (Some u) None None None ?u
      = (Inr y, v)"
    using record_transition_succeeds [OF al] by metis
  obtain role where role: "resolve_actor_role u v = (Inr role, v)"
    by (simp add: resolve_actor_role_def role_slugs_for_user_def run_simps)
  let ?v = "v\<lparr>audit_logs := audit_logs v @ [decision_audit ''appraisal_submission.approved'' u role
      submission rec
      [(''submission_status'', JStr ''approved''), (''record_status'', JStr ''approved_pending_esign''),
       (''approved_purchase_offer'', JStr (decimal_str offer)),
       (''suggested_consignment_price'', JStr (decimal_str price))]]\<rparr>"
  obtain o' z where d: "dispatch_contract E (snd y) ?v = (o', z)" by fastforce
  have "appraisal_submissions z = appraisal_submissions ?u"
    using sign_frame_tables(3) [OF confined_sameD [OF sign_frame_dispatch d]]
      outside_tables(2) [OF transition_tables(6) [OF tr]] by simp
  moreover have "sub_id ?x = sub_id submission" "sub_deleted_at ?x = None"
    using sub by (auto simp: approved_def filter_eq_Cons_iff)
  ultimately have "fetch_submission i z = (Inr ?x, z)"
    using filter_replaced [where k = sub_id and q = "\<lambda>x. sub_deleted_at x = None", OF ids sub]
    by (simp add: fetch_submission_return_iff)
  moreover have "fetch_submission i s = (Inr submission, s)" "record_of submission s = (Inr rec, s)"
    using sub rec by (simp_all add: fetch_submission_return_iff record_of_return_iff)
  ultimately have "approve E i u offer price n confirmed s = (Inr ?x, z)"
    using st hold tr role d
    by (simp add: approve_def run_simps case_prod_beta)
  then show ?thesis by blast
qed

text \<open>A title hold without the manager's confirmation stops an approval before any write.\<close>

lemma approve_held:
  assumes "filter (\<lambda>x. sub_id x = i \<and> sub_deleted_at x = None) (appraisal_submissions s) = [submission]"
    and "sub_hold_for_title_review submission" "\<not> confirmed"
  shows "\<exists>e. approve E i u offer price n confirmed s = (Inl e, s)"
proof -
  have "fetch_submission i s = (Inr submission, s)"
    using assms(1) by (simp add: fetch_submission_return_iff)
  then show ?thesis using assms(2,3) by (simp add: approve_def run_simps)
qed

subsection \<open>What a re-approved price does\<close>

lemma approve_price_change_returns:
  assumes "approve_price_change E i u s = (Inr c, t)"
  obtains change submission where
    "filter (\<lambda>c. cr_id c = i) (change_requests s) = [change]"
    and "cr_status change = ''pending''" "cr_requires_manager_reapproval change"
    and "c = reapproved change (usr_id u) (clock s)"
    and "change_requests t = update_where (\<lambda>y. cr_id y = cr_id change) (\<lambda>_. c) (change_requests s)"
    and "filter (\<lambda>x. sub_equipment_record_id x = cr_equipment_record_id change \<and>
      sub_status x = ''approved'' \<and> sub_deleted_at x = None) (appraisal_submissions s) =
      (case submission of None \<Rightarrow> [] | Some x \<Rightarrow> [x])"
    and "appraisal_submissions t =
      (case (cr_proposed_consignment_price change, submission) of
         (Some p, Some x) \<Rightarrow> update_where (\<lambda>y. sub_id y = sub_id x)
           (\<lambda>_. x\<lparr>sub_suggested_consignment_price := Some p\<rparr>) (appraisal_submissions s)
       | _ \<Rightarrow> appraisal_submissions s)"
proof -
  obtain change where ch: "filter (\<lambda>c. cr_id c = i) (change_requests s) = [change]"
    and g: "cr_status change = ''pending''" "cr_requires_manager_reapproval change"
    using assms by (auto simp: approve_price_change_def bind_return_iff select_one_return_iff case_iffs
        seq_return_iff require_return_iff split: option.splits)
  obtain submission where su: "filter (\<lambda>x. sub_equipment_record_id x = cr_equipment_record_id change \<and>
      sub_status x = ''approved'' \<and> sub_deleted_at x = None) (appraisal_submissions s) =
      (case submission of None \<Rightarrow> [] | Some x \<Rightarrow> [x])"
  proof (cases "filter (\<lambda>x. sub_equipment_record_id x = cr_equipment_record_id change \<and>
      sub_status x = ''approved'' \<and> sub_deleted_at x = None) (appraisal_submissions s)"
      rule: scalar_one_or_none.cases)
    case (2 r)
    then show ?thesis using that [of "Some r"] by simp
  next
    case (3 r r' rs)
    then show ?thesis using assms by (simp add: approve_price_change_def run_simps ch g)
  qed (use that [of None] in simp)
  show thesis
  proof (rule that [OF ch g _ _ su])
    show "c = reapproved change (usr_id u) (clock s)"
      "change_requests t = update_where (\<lambda>y. cr_id y = cr_id change) (\<lambda>_. c) (change_requests s)"
      "appraisal_submissions t =
      (case (cr_proposed_consignment_price change, submission) of
         (Some p, Some x) \<Rightarrow> update_where (\<lambda>y. sub_id y = sub_id x)
           (\<lambda>_. x\<lparr>sub_suggested_consignment_price := Some p\<rparr>) (appraisal_submissions s)
       | _ \<Rightarrow> appraisal_submissions s)"
      using assms ch g su
      by (auto simp: approve_price_change_def run_simps Let_def apply_price_def reapproved_def
          resolve_actor_role_def role_slugs_for_user_def split: option.splits)
  qed
qed


lemma safe_resolve_actor_role: "safe I (resolve_actor_role u)"
  unfolding resolve_actor_role_def role_slugs_for_user_def by (intro safe_intros)

lemma safe_add_audit: "safe (notify_ready E) (add_audit a)"
  by (simp add: safe_def run_simps notify_ready_def recipients_ok_def overrides_ok_def)

lemma safe_notify_rejection: "safe (notify_ready E) (notify_rejection E i r x p b)"
  unfolding notify_rejection_def by (intro notify_safe_intros)

lemma reject_succeeds:
  assumes sub: "filter (\<lambda>x. sub_id x = i \<and> sub_deleted_at x = None) (appraisal_submissions s) = [submission]"
    and st: "sub_status submission = ''submitted''"
    and rec: "find (\<lambda>r. er_id r = sub_equipment_record_id submission) (equipment_records s) = Some rec"
    and al: "allowed (er_status rec) (if back then ''new_request'' else ''declined'')"
    and ready: "notify_ready E s" and ids: "distinct (map sub_id (appraisal_submissions s))"
  shows "\<exists>x t. reject E i u n back s = (Inr x, t)"
proof -
  let ?x = "submission\<lparr>sub_rejection_notes := Some n, sub_status := ''rejected''\<rparr>"
  let ?st = "if back then ''new_request'' else ''declined''"
  let ?u = "s\<lparr>appraisal_submissions :=
     update_where (\<lambda>y. sub_id y = sub_id ?x) (\<lambda>_. ?x) (appraisal_submissions s)\<rparr>"
  have "notify_ready E ?u"
    using ready by (simp add: notify_ready_def recipients_ok_def overrides_ok_def)
  then obtain e rec' v where tr: "record_transition E rec ?st (Some u) (Some n) None None ?u = (Inr (e, rec'), v)"
    and rv: "notify_ready E v"
    using record_transition_succeeds [OF al] by (metis surj_pair)
  let ?tail = "seq (notify_rejection E i rec' submission (rejection_payload rec' submission n back) back)
       (bind (resolve_actor_role u) (\<lambda>actor_role.
       seq (add_audit (decision_audit ''appraisal_submission.rejected'' u actor_role
              submission rec
              [(''submission_status'', JStr ''rejected''), (''record_status'', JStr ?st),
               (''rejection_notes'', JStr n), (''send_back'', JBool back)]))
       (ret ())))"
  have "safe (notify_ready E) ?tail"
    by (intro safe_intros safe_notify_rejection safe_resolve_actor_role safe_add_audit)
  from safeD [where I = "notify_ready E" and m = ?tail and s = v, OF this rv]
  obtain w where w: "?tail v = (Inr (), w)" by auto
  have "confined (same outside) ?tail"
    unfolding notify_rejection_def resolve_actor_role_def by (intro outside_frame.transition_intros)
  from outside_tables(2) [OF confined_sameD [OF this w]]
  have "appraisal_submissions w = appraisal_submissions ?u"
    using outside_tables(2) [OF transition_tables(6) [OF tr]] by simp
  moreover have "sub_deleted_at ?x = None" using sub by (auto simp: filter_eq_Cons_iff)
  ultimately have f: "fetch_submission i w = (Inr ?x, w)"
    using filter_replaced [where k = sub_id and q = "\<lambda>x. sub_deleted_at x = None", OF ids sub]
    by (simp add: fetch_submission_return_iff)
  have "fetch_submission i s = (Inr submission, s)" "record_of submission s = (Inr rec, s)"
    using sub rec by (simp_all add: fetch_submission_return_iff record_of_return_iff)
  then have "reject E i u n back s = seq ?tail (fetch_submission i) v"
    using st tr by (simp add: reject_def run_simps Let_def split: prod.splits sum.splits)
  then show ?thesis using w f by (simp add: seq_run)
qed

end
