(* ===== verification/Submissions.thy ===== *)
theory Submissions
  imports Approval Scoring RedFlags "HOL-Library.AList"
begin

section \<open>The appraiser's submissions\<close>

text \<open>
  \<^verbatim>\<open>api/services/appraisal_submission_service.py\<close> with \<^verbatim>\<open>api/routers/appraisal_submissions.py\<close> and
  \<^verbatim>\<open>api/schemas/appraisal_submission.py\<close>: one draft per record, its fields and component scores,
  the snapshot of the category's versions at submission, the required photos, the red flags the
  server finds, and the notice to the managers. A JSON number is read as a decimal, and the
  numeric columns keep the number they are given. A list of inspection answers holds UUID objects,
  which the JSON serializer of the database driver refuses, so only the empty list can be stored.
\<close>

definition VALID_STATUSES :: "string list" where
  "VALID_STATUSES = [''draft'', ''submitted'', ''under_review'', ''approved'', ''rejected'']"

record answer_in =
  ans_prompt_id :: uuid
  ans_prompt_version :: int
  ans_value :: json

record score_in =
  sci_component_id :: uuid
  sci_score :: decimal
  sci_notes :: "string option"

record submission_patch =
  sp_category_id :: "uuid option"
  sp_make :: "string option"
  sp_model :: "string option"
  sp_year :: "int option"
  sp_hours_condition :: "string option"
  sp_running_status :: "string option"
  sp_serial_number :: "string option"
  sp_title_status :: "string option"
  sp_field_values :: "answer_in list option"
  sp_component_scores :: "score_in list option"
  sp_marketability_rating :: "string option"
  sp_transport_notes :: "string option"
  sp_listing_notes :: "string option"
  sp_comparable_sales_data :: "(string \<times> json) list list option"
  sp_red_flags :: "(string \<times> json) list list option"

definition score_ok :: "score_in \<Rightarrow> bool" where
  "score_ok x \<longleftrightarrow> 0 \<le> dec_val (sci_score x) \<and> dec_val (sci_score x) \<le> 5"

definition up_to :: "nat \<Rightarrow> string option \<Rightarrow> bool" where
  "up_to n x \<longleftrightarrow> (case x of None \<Rightarrow> True | Some v \<Rightarrow> char_count v \<le> n)"

definition submission_patch_ok :: "submission_patch \<Rightarrow> bool" where
  "submission_patch_ok p \<longleftrightarrow> up_to 100 (sp_make p) \<and> up_to 100 (sp_model p) \<and>
     (case sp_year p of None \<Rightarrow> True | Some y \<Rightarrow> 1900 \<le> y \<and> y \<le> 2100) \<and>
     (case sp_component_scores p of None \<Rightarrow> True | Some xs \<Rightarrow> list_all score_ok xs)"

subsection \<open>Access\<close>

definition check_access :: "appraisal_submission \<Rightarrow> user \<Rightarrow> unit op" where
  "check_access submission user =
     bind (role_slugs_for_user user) (\<lambda>roles.
     require (''admin'' \<in> roles \<or> sub_appraiser_id submission = Some (usr_id user))
       (PermissionError ''Access denied to submission''))"

definition load_submission :: "uuid \<Rightarrow> user \<Rightarrow> appraisal_submission op" where
  "load_submission submission_id user =
     bind (fetch_submission submission_id) (\<lambda>submission.
     seq (check_access submission user) (ret submission))"

definition list_mine :: "user \<Rightarrow> string option \<Rightarrow> appraisal_submission list op" where
  "list_mine appraiser status_filter =
     seq (require (str_truthy status_filter \<longrightarrow> the status_filter \<in> set VALID_STATUSES)
            (ValueError (''Invalid status filter: '' @ quoted (str_or status_filter ''''))))
     (reads (\<lambda>s. sort_key (\<lambda>x. - sub_created_at x) (filter (\<lambda>x.
        sub_appraiser_id x = Some (usr_id appraiser) \<and> sub_deleted_at x = None \<and>
        (str_truthy status_filter \<longrightarrow> sub_status x = the status_filter)) (appraisal_submissions s))))"

subsection \<open>Drafts\<close>

definition new_draft :: "uuid \<Rightarrow> uuid \<Rightarrow> uuid \<Rightarrow> datetime \<Rightarrow> appraisal_submission" where
  "new_draft i record_id appraiser_id t =
     \<lparr>sub_id = i, sub_equipment_record_id = record_id, sub_appraiser_id = Some appraiser_id,
      sub_status = ''draft'', sub_category_id = None, sub_category_version = None,
      sub_prompt_version_set = None, sub_rule_version_set = None, sub_make = None, sub_model = None,
      sub_year = None, sub_hours_condition = None, sub_running_status = None,
      sub_serial_number = None, sub_title_status = None, sub_overall_score = None,
      sub_score_band = None, sub_management_review_required = False,
      sub_hold_for_title_review = False, sub_marketability_rating = None, sub_review_notes = None,
      sub_transport_notes = None, sub_listing_notes = None, sub_approved_purchase_offer = None,
      sub_suggested_consignment_price = None, sub_rejection_notes = None,
      sub_approved_by_id = None, sub_approved_at = None, sub_red_flags = None,
      sub_comparable_sales_data = None, sub_field_values = None, sub_submitted_at = None,
      sub_created_at = t, sub_deleted_at = None\<rparr>"

text \<open>
  The primary key, the foreign key of the record and the partial unique index of the drafts, as the
  database checks them.
\<close>

definition fresh_key :: "(db \<Rightarrow> 'r list) \<Rightarrow> ('r \<Rightarrow> uuid) \<Rightarrow> uuid \<Rightarrow> unit op" where
  "fresh_key tbl key i =
     bind (get_row tbl key i) (\<lambda>found. require (found = None) (IntegrityError ''primary key''))"

definition is_draft_of :: "uuid \<Rightarrow> appraisal_submission \<Rightarrow> bool" where
  "is_draft_of record_id x \<longleftrightarrow> sub_equipment_record_id x = record_id \<and> sub_status x = ''draft''"

definition insert_draft :: "appraisal_submission \<Rightarrow> unit op" where
  "insert_draft x =
     bind (reads (\<lambda>s. (find (\<lambda>r. er_id r = sub_equipment_record_id x) (equipment_records s) \<noteq> None,
             find (is_draft_of (sub_equipment_record_id x)) (appraisal_submissions s) = None)))
       (\<lambda>(record_exists, no_draft).
     seq (fresh_key appraisal_submissions sub_id (sub_id x))
     (seq (require record_exists (IntegrityError ''equipment_record_id''))
     (seq (require no_draft (IntegrityError ''uq_appraisal_submissions_one_draft''))
     (writes (\<lambda>s. s\<lparr>appraisal_submissions := appraisal_submissions s @ [x]\<rparr>)))))"

definition create_draft :: "env \<Rightarrow> uuid \<Rightarrow> user \<Rightarrow> appraisal_submission op" where
  "create_draft E equipment_record_id appraiser =
     bind (select_one appraisal_submissions (\<lambda>x. is_draft_of equipment_record_id x \<and>
             sub_deleted_at x = None)) (\<lambda>existing.
     seq (require (existing = None) (ValueError ''A draft already exists for this equipment record''))
     (bind (uuid4 E) (\<lambda>i.
      bind now (\<lambda>t.
      let submission = new_draft i equipment_record_id (usr_id appraiser) t
      in seq (insert_draft submission) (ret submission)))))"

definition kept :: "'a option \<Rightarrow> 'a option \<Rightarrow> 'a option" where
  "kept new old = (case new of None \<Rightarrow> old | Some v \<Rightarrow> Some v)"

definition dict_list :: "(string \<times> json) list list option \<Rightarrow> json option" where
  "dict_list x = map_option (\<lambda>ds. JArr (map JObj ds)) x"

definition apply_scalar_fields :: "submission_patch \<Rightarrow> appraisal_submission \<Rightarrow> appraisal_submission" where
  "apply_scalar_fields p x =
     x\<lparr>sub_category_id := kept (sp_category_id p) (sub_category_id x),
       sub_make := kept (sp_make p) (sub_make x), sub_model := kept (sp_model p) (sub_model x),
       sub_year := kept (sp_year p) (sub_year x),
       sub_hours_condition := kept (sp_hours_condition p) (sub_hours_condition x),
       sub_running_status := kept (sp_running_status p) (sub_running_status x),
       sub_serial_number := kept (sp_serial_number p) (sub_serial_number x),
       sub_title_status := kept (sp_title_status p) (sub_title_status x),
       sub_marketability_rating := kept (sp_marketability_rating p) (sub_marketability_rating x),
       sub_transport_notes := kept (sp_transport_notes p) (sub_transport_notes x),
       sub_listing_notes := kept (sp_listing_notes p) (sub_listing_notes x),
       sub_comparable_sales_data := kept (dict_list (sp_comparable_sales_data p)) (sub_comparable_sales_data x),
       sub_red_flags := kept (dict_list (sp_red_flags p)) (sub_red_flags x)\<rparr>"

definition store_answers :: "answer_in list option \<Rightarrow> appraisal_submission \<Rightarrow> appraisal_submission op" where
  "store_answers answers x =
     (case answers of
        None \<Rightarrow> ret x
      | Some [] \<Rightarrow> ret (x\<lparr>sub_field_values := Some (JArr [])\<rparr>)
      | Some (a # as) \<Rightarrow> raise (TypeError ''Object of type UUID is not JSON serializable''))"

definition check_category :: "uuid option \<Rightarrow> unit op" where
  "check_category category_id =
     (case category_id of
        None \<Rightarrow> ret ()
      | Some c \<Rightarrow> bind (get_row categories cat_id c) (\<lambda>found.
          require (found \<noteq> None) (IntegrityError ''category_id'')))"

subsection \<open>Component scores\<close>

definition save_score :: "component_score \<Rightarrow> unit op" where
  "save_score x = writes (\<lambda>s. s\<lparr>component_scores :=
     update_where (\<lambda>y. cs_id y = cs_id x) (\<lambda>_. x) (component_scores s)\<rparr>)"

definition upsert_score ::
  "env \<Rightarrow> uuid \<Rightarrow> category_component list \<Rightarrow> component_score list \<Rightarrow> score_in \<Rightarrow> unit op" where
  "upsert_score E submission_id components existing x =
     (case find (\<lambda>c. cc_id c = sci_component_id x) components of
        None \<Rightarrow> ret ()
      | Some component \<Rightarrow>
          (case find (\<lambda>y. cs_component_id y = sci_component_id x) (rev existing) of
             Some y \<Rightarrow> save_score (y\<lparr>cs_raw_score := sci_score x,
               cs_weight_at_time_of_scoring := cc_weight_pct component, cs_notes := sci_notes x\<rparr>)
           | None \<Rightarrow> bind (uuid4 E) (\<lambda>i. writes (\<lambda>s. s\<lparr>component_scores := component_scores s @
               [\<lparr>cs_id = i, cs_submission_id = submission_id, cs_component_id = sci_component_id x,
                 cs_raw_score = sci_score x, cs_weight_at_time_of_scoring = cc_weight_pct component,
                 cs_notes = sci_notes x\<rparr>]\<rparr>))))"

definition scores_of :: "uuid \<Rightarrow> db \<Rightarrow> component_score list" where
  "scores_of submission_id s = filter (\<lambda>y. cs_submission_id y = submission_id) (component_scores s)"

definition upsert_component_scores :: "env \<Rightarrow> uuid \<Rightarrow> score_in list \<Rightarrow> unit op" where
  "upsert_component_scores E submission_id scores =
     bind (reads category_components) (\<lambda>components.
     bind (reads (scores_of submission_id)) (\<lambda>existing.
     for_each scores (upsert_score E submission_id components existing)))"

text \<open>The dict comprehension: a later row of a component replaces the value of an earlier one.\<close>

definition score_dict :: "component_score list \<Rightarrow> (string \<times> rat \<times> rat) list" where
  "score_dict rows = fold (\<lambda>y d. AList.update (uuid_str (cs_component_id y))
     (dec_val (cs_raw_score y), dec_val (cs_weight_at_time_of_scoring y)) d) rows []"

definition rescore :: "env \<Rightarrow> score_in list option \<Rightarrow> appraisal_submission \<Rightarrow> appraisal_submission op" where
  "rescore E scores x =
     (case scores of
        None \<Rightarrow> ret x
      | Some xs \<Rightarrow>
          seq (upsert_component_scores E (sub_id x) xs)
          (bind (reads (scores_of (sub_id x))) (\<lambda>rows.
           let result = calculate_overall (score_dict rows)
           in ret (x\<lparr>sub_overall_score := Some (overall result), sub_score_band := Some (band result)\<rparr>))))"

definition update_draft :: "env \<Rightarrow> uuid \<Rightarrow> submission_patch \<Rightarrow> user \<Rightarrow> appraisal_submission op" where
  "update_draft E submission_id body user =
     bind (load_submission submission_id user) (\<lambda>submission.
     seq (require (sub_status submission = ''draft'')
            (ValueError (''Only drafts can be updated; status is '' @ quoted (sub_status submission))))
     (bind (store_answers (sp_field_values body) (apply_scalar_fields body submission)) (\<lambda>x.
      seq (check_category (sub_category_id x))
      (bind (rescore E (sp_component_scores body) x) (\<lambda>y.
       seq (save_submission y) (fetch_submission submission_id))))))"

subsection \<open>Submitting\<close>

definition version_dict :: "(uuid \<times> int) list \<Rightarrow> json" where
  "version_dict vs = JObj (map (\<lambda>(i, v). (uuid_str i, JInt v)) vs)"

definition snapshot :: "db \<Rightarrow> uuid \<Rightarrow> appraisal_submission \<Rightarrow> appraisal_submission" where
  "snapshot s c x =
     x\<lparr>sub_category_version := map_option cat_version (find (\<lambda>k. cat_id k = c) (categories s)),
       sub_prompt_version_set := Some (version_dict (map (\<lambda>p. (ipr_id p, ipr_version p))
         (filter (\<lambda>p. ipr_category_id p = c \<and> ipr_replaced_at p = None) (inspection_prompts s)))),
       sub_rule_version_set := Some (version_dict (map (\<lambda>r. (rf_id r, rf_version r))
         (filter (\<lambda>r. rf_category_id r = c \<and> rf_replaced_at r = None) (red_flag_rules s))))\<rparr>"

definition required_labels :: "db \<Rightarrow> uuid \<Rightarrow> string list" where
  "required_labels s c = map slot_label (filter (\<lambda>l. slot_category_id l = c \<and> slot_required l \<and> slot_active l)
     (photo_slots s))"

definition captured_labels :: "db \<Rightarrow> uuid \<Rightarrow> string list" where
  "captured_labels s i = map aph_slot_label (filter (\<lambda>p. aph_submission_id p = i \<and> aph_deleted_at p = None)
     (appraisal_photos s))"

definition missing_labels :: "db \<Rightarrow> uuid \<Rightarrow> uuid \<Rightarrow> string list" where
  "missing_labels s c i = sort (remdups (filter (\<lambda>l. l \<notin> set (captured_labels s i)) (required_labels s c)))"

definition validate_required_photos :: "env \<Rightarrow> uuid \<Rightarrow> uuid \<Rightarrow> unit op" where
  "validate_required_photos E c submission_id =
     bind (reads (\<lambda>s. missing_labels s c submission_id)) (\<lambda>missing.
     require (missing = [])
       (ValueError (''Required photo slots not captured: '' @ py_str E (JArr (map JStr missing)))))"

definition snapshot_and_validate :: "env \<Rightarrow> appraisal_submission \<Rightarrow> appraisal_submission op" where
  "snapshot_and_validate E x =
     (case sub_category_id x of
        None \<Rightarrow> ret x
      | Some c \<Rightarrow>
          bind (reads (\<lambda>s. snapshot s c x)) (\<lambda>y.
          seq (validate_required_photos E c (sub_id x)) (ret y)))"

text \<open>A text column takes a string; any other JSON value is refused by the driver.\<close>

definition text_or_kept :: "json \<Rightarrow> string option \<Rightarrow> string option op" where
  "text_or_kept v old =
     (case v of JNull \<Rightarrow> ret old | JStr x \<Rightarrow> ret (Some x) | _ \<Rightarrow> raise (DataError ''expected str''))"

definition flagged :: "red_flag_result \<Rightarrow> datetime \<Rightarrow> appraisal_submission \<Rightarrow> appraisal_submission op" where
  "flagged flags t x =
     bind (text_or_kept (rfr_marketability_rating flags) (sub_marketability_rating x)) (\<lambda>rating.
     bind (text_or_kept (rfr_review_notes flags) (sub_review_notes x)) (\<lambda>notes.
     ret (x\<lparr>sub_management_review_required := rfr_management_review_required flags,
            sub_hold_for_title_review := rfr_hold_for_title_review flags,
            sub_marketability_rating := rating, sub_review_notes := notes,
            sub_status := ''submitted'', sub_submitted_at := Some t\<rparr>)))"

text \<open>Iterating over a JSON value.\<close>

fun py_iter :: "json \<Rightarrow> json list op" where
  "py_iter (JArr xs) = ret xs"
| "py_iter (JObj kvs) = ret (map (JStr \<circ> fst) kvs)"
| "py_iter (JStr s) = ret (map (\<lambda>c. JStr [c]) s)"
| "py_iter _ = raise (TypeError ''object is not iterable'')"

definition red_flag_summary :: "env \<Rightarrow> appraisal_submission \<Rightarrow> string op" where
  "red_flag_summary E x =
     bind (case sub_red_flags x of
             None \<Rightarrow> ret [] | Some v \<Rightarrow> if json_truthy v then py_iter v else ret []) (\<lambda>items.
     ret (str_or (Some (join ''; '' (map (py_str E) items))) ''See management approval queue for details''))"

definition review_key :: "uuid \<Rightarrow> uuid \<Rightarrow> string" where
  "review_key submission_id manager_id =
     ''mgmt-review-'' @ uuid_str submission_id @ ''-'' @ uuid_str manager_id"

definition review_payload ::
  "appraisal_submission \<Rightarrow> equipment_record option \<Rightarrow> string \<Rightarrow> (string \<times> json) list" where
  "review_payload x rec summary =
     [(''reference_number'', case rec of
         None \<Rightarrow> JStr (uuid_str (sub_equipment_record_id x)) | Some r \<Rightarrow> jopt JStr (er_reference_number r)),
      (''make'', JStr (str_or (sub_make x) ''Unknown'')),
      (''model'', JStr (str_or (sub_model x) ''equipment'')),
      (''red_flag_summary'', JStr summary)]"

definition active_managers :: "db \<Rightarrow> user list" where
  "active_managers s = concat (map (\<lambda>u. map (\<lambda>_. u) (filter (\<lambda>r. role_id r = usr_role_id u \<and>
      role_slug r = ''sales_manager'') (roles s))) (filter (\<lambda>u. usr_status u = ''active'') (users s)))"

definition notify_managers_review_required :: "env \<Rightarrow> appraisal_submission \<Rightarrow> unit op" where
  "notify_managers_review_required E x =
     bind (get_row equipment_records er_id (sub_equipment_record_id x)) (\<lambda>rec.
     bind (red_flag_summary E x) (\<lambda>summary.
     bind (reads active_managers) (\<lambda>managers.
     for_each managers (\<lambda>m.
       seq (enqueue E (review_key (sub_id x) (usr_id m)) (Some (usr_id m)) ''email''
              ''management_review_flagged_email'' (review_payload x rec summary) None)
       (ret ())))))"

definition complete_record :: "env \<Rightarrow> user \<Rightarrow> uuid \<Rightarrow> unit op" where
  "complete_record E appraiser record_id =
     bind (get_row equipment_records er_id record_id) (\<lambda>found.
     case found of
       None \<Rightarrow> ret ()
     | Some record \<Rightarrow>
         bind (reads (\<lambda>s. Approval.customer_user_of s record)) (\<lambda>customer_user.
         bind (record_transition E record ''appraisal_complete'' (Some appraiser) None customer_user None)
           (\<lambda>_. ret ())))"

definition submit :: "env \<Rightarrow> uuid \<Rightarrow> user \<Rightarrow> appraisal_submission op" where
  "submit E submission_id appraiser =
     bind (fetch_submission submission_id) (\<lambda>submission.
     seq (check_access submission appraiser)
     (seq (require (sub_status submission = ''draft'')
             (ValueError (''Cannot submit: status is '' @ quoted (sub_status submission) @
                '', expected '' @ quoted ''draft'')))
     (bind (snapshot_and_validate E submission) (\<lambda>x.
      bind (evaluate_red_flags E x) (\<lambda>flags.
      bind now (\<lambda>t.
      bind (flagged flags t x) (\<lambda>y.
      seq (save_submission y)
      (seq (complete_record E appraiser (sub_equipment_record_id y))
      (seq (when_true (rfr_management_review_required flags) (notify_managers_review_required E y))
      (fetch_submission submission_id))))))))))"

subsection \<open>Routes\<close>

record score_out =
  sco_id :: uuid
  sco_component_id :: uuid
  sco_component_name :: string
  sco_raw_score :: decimal
  sco_weight_at_time_of_scoring :: decimal
  sco_notes :: "string option"

record submission_out =
  so_submission :: appraisal_submission
  so_component_scores :: "score_out list"

definition submission_to_out :: "db \<Rightarrow> appraisal_submission \<Rightarrow> submission_out" where
  "submission_to_out s x =
     \<lparr>so_submission = x,
      so_component_scores = map (\<lambda>y. \<lparr>sco_id = cs_id y, sco_component_id = cs_component_id y,
        sco_component_name = (case find (\<lambda>c. cc_id c = cs_component_id y) (category_components s) of
           None \<Rightarrow> '''' | Some c \<Rightarrow> cc_name c),
        sco_raw_score = cs_raw_score y,
        sco_weight_at_time_of_scoring = cs_weight_at_time_of_scoring y, sco_notes = cs_notes y\<rparr>)
        (scores_of (sub_id x) s)\<rparr>"

definition APPRAISERS :: "string list" where "APPRAISERS = [''appraiser'', ''admin'']"

fun conflict_http :: "exn \<Rightarrow> exn" where
  "conflict_http (ValueError m) = http 409 m"
| "conflict_http e = e"

fun access_http :: "exn \<Rightarrow> exn" where
  "access_http (LookupError m) = http 404 m"
| "access_http (KeyError m) = http 404 (quoted m)"
| "access_http (PermissionError m) = http 403 m"
| "access_http e = e"

fun invalid_http :: "exn \<Rightarrow> exn" where
  "invalid_http (ValueError m) = http 422 m"
| "invalid_http e = e"

definition answer_submission :: "appraisal_submission op \<Rightarrow> submission_out op" where
  "answer_submission m = bind m (\<lambda>x. reads (\<lambda>s. submission_to_out s x))"

definition create_draft_route :: "env \<Rightarrow> string option \<Rightarrow> uuid \<Rightarrow> submission_out op" where
  "create_draft_route E cred equipment_record_id =
     guarded_route E APPRAISERS cred (\<lambda>current_user.
       answer_submission (map_exn conflict_http (create_draft E equipment_record_id current_user)))"

definition list_submissions_route ::
  "env \<Rightarrow> string option \<Rightarrow> string option \<Rightarrow> (submission_out list \<times> nat) op" where
  "list_submissions_route E cred status =
     guarded_route E APPRAISERS cred (\<lambda>current_user.
       bind (map_exn invalid_http (list_mine current_user status)) (\<lambda>xs.
       reads (\<lambda>s. (map (submission_to_out s) xs, length xs))))"

definition get_submission_route :: "env \<Rightarrow> string option \<Rightarrow> uuid \<Rightarrow> submission_out op" where
  "get_submission_route E cred submission_id =
     guarded_route E APPRAISERS cred (\<lambda>current_user.
       answer_submission (map_exn access_http (load_submission submission_id current_user)))"

definition update_submission_route ::
  "env \<Rightarrow> string option \<Rightarrow> uuid \<Rightarrow> submission_patch \<Rightarrow> submission_out op" where
  "update_submission_route E cred submission_id body =
     guarded_route E APPRAISERS cred (\<lambda>current_user.
       seq (require (submission_patch_ok body) (http 422 ''validation error''))
       (answer_submission (map_exn (invalid_http \<circ> access_http)
          (update_draft E submission_id body current_user))))"

definition submit_submission_route :: "env \<Rightarrow> string option \<Rightarrow> uuid \<Rightarrow> submission_out op" where
  "submit_submission_route E cred submission_id =
     guarded_route E APPRAISERS cred (\<lambda>current_user.
       answer_submission (map_exn (invalid_http \<circ> access_http) (submit E submission_id current_user)))"

lemma fresh_key_run [run_simps]:
  "fresh_key tbl key i s = (if find (\<lambda>r. key r = i) (tbl s) = None then Inr () else Inl (IntegrityError ''primary key''), s)"
  by (simp add: fresh_key_def run_simps)

lemma fresh_key_return_iff:
  "fresh_key tbl key i s = (Inr x, t) \<longleftrightarrow> t = s \<and> i \<notin> key ` set (tbl s)"
  by (auto simp: fresh_key_run find_None_iff)

context db_relation
begin

lemma confined_fresh_key: "confined R (fresh_key tbl key i)"
  unfolding fresh_key_def by (intro db_intros)

end

end
