(* ===== verification/Sanitization.thy ===== *)
theory Sanitization
  imports Models
begin

section \<open>Sanitizing free text\<close>

text \<open>
  \<^verbatim>\<open>api/services/sanitization.py\<close>. The cleaner itself (\<^verbatim>\<open>bleach\<close>, with the tag allowlist of
  the module) is a parameter; the program strips its result and maps the empty text to none.
\<close>

definition sanitize_plain :: "env \<Rightarrow> string option \<Rightarrow> string option" where
  "sanitize_plain E x =
     (case x of
        None \<Rightarrow> None
      | Some v \<Rightarrow> let cleaned = strip (bleach_plain E v)
                  in if cleaned = '''' then None else Some cleaned)"

definition sanitize_html :: "env \<Rightarrow> string option \<Rightarrow> string option" where
  "sanitize_html E x =
     (case x of
        None \<Rightarrow> None
      | Some v \<Rightarrow> let cleaned = strip (bleach_html E v)
                  in if cleaned = '''' then None else Some cleaned)"

lemma dropWhile_idem: "dropWhile p (dropWhile p xs) = dropWhile p xs"
  by (induction xs) auto

lemma dropWhile_rev_front:
  assumes "dropWhile p xs = xs"
  shows "dropWhile p (rev (dropWhile p (rev xs))) = rev (dropWhile p (rev xs))"
proof (cases xs)
  case (Cons a ys)
  with assms have a: "\<not> p a" by (metis dropWhile_eq_Cons_conv)
  then have "dropWhile p (rev ys @ [a]) = dropWhile p (rev ys) @ [a]"
    by (simp add: dropWhile_append)
  with a Cons show ?thesis by simp
qed simp

lemma strip_idem [simp]: "strip (strip s) = strip s"
  unfolding strip_def by (simp add: dropWhile_rev_front dropWhile_idem)

text \<open>What is stored is never empty and has no surrounding space.\<close>

lemma sanitize_plain_text: "sanitize_plain E x = Some v \<Longrightarrow> v \<noteq> '''' \<and> strip v = v"
  by (auto simp: sanitize_plain_def Let_def split: option.splits if_splits)

end
