(* ===== verification/ChangeRequests.thy ===== *)
theory ChangeRequests
  imports Approval AppConfig Sanitization
begin

section \<open>Change requests and the price threshold\<close>

text \<open>
  \<^verbatim>\<open>api/services/change_request_service.py\<close>, \<^verbatim>\<open>api/services/price_change_service.py\<close> and the
  customer's routes of \<^verbatim>\<open>api/routers/equipment.py\<close>. A record has at most one pending request:
  the partial unique index of migration 009 is the \<^verbatim>\<open>IntegrityError\<close> branch of the insert,
  which the service answers with 409 after a rollback. A proposed price is a \<^verbatim>\<open>float\<close> that the
  column rounds to two decimals.
\<close>

subsection \<open>Ownership\<close>

definition get_record_for_user :: "user \<Rightarrow> uuid \<Rightarrow> equipment_record op" where
  "get_record_for_user user record_id =
     bind (select_one customers (\<lambda>c. cus_user_id c = Some (usr_id user))) (\<lambda>found.
     case found of
       None \<Rightarrow> raise (http 404 ''Equipment record not found.'')
     | Some customer \<Rightarrow>
         bind (select_one equipment_records (\<lambda>r. er_id r = record_id \<and>
                 er_customer_id r = cus_id customer)) (\<lambda>rec.
         case rec of
           None \<Rightarrow> raise (http 404 ''Equipment record not found.'')
         | Some r \<Rightarrow> ret r))"

subsection \<open>The price threshold\<close>

text \<open>\<^verbatim>\<open>change_pct <= threshold\<close> with whatever the configuration holds.\<close>

fun json_number :: "json \<Rightarrow> rat option" where
  "json_number (JInt i) = Some (of_int i)"
| "json_number (JFloat q) = Some q"
| "json_number (JBool b) = Some (if b then 1 else 0)"
| "json_number _ = None"

definition change_pct :: "rat \<Rightarrow> rat \<Rightarrow> rat" where
  "change_pct approved_price proposed_price =
     \<bar>proposed_price - approved_price\<bar> / approved_price * 100"

text \<open>\<^verbatim>\<open>round(x, 1)\<close>.\<close>

definition round_1 :: "rat \<Rightarrow> rat" where
  "round_1 q = of_int (round_half_even (q * 10)) / 10"

definition notify_manager ::
  "env \<Rightarrow> uuid \<Rightarrow> json \<Rightarrow> string \<Rightarrow> rat \<Rightarrow> rat \<Rightarrow> rat \<Rightarrow> user \<Rightarrow> unit op" where
  "notify_manager E change_id reference_number make_model approved_price proposed_price pct manager =
     seq (enqueue E (''price_change_reapproval:'' @ uuid_str change_id @ '':'' @ uuid_str (usr_id manager))
            (Some (usr_id manager)) ''email'' ''manager_price_change_reapproval''
            [(''to_email'', JStr (usr_email manager)), (''reference_number'', reference_number),
             (''make_model'', JStr make_model), (''approved_price'', JStr (fmt_fixed 2 approved_price)),
             (''proposed_price'', JStr (fmt_fixed 2 proposed_price)),
             (''change_pct'', JStr (fmt_fixed 1 pct))] None)
       (ret ())"

definition notify_managers ::
  "env \<Rightarrow> uuid \<Rightarrow> json \<Rightarrow> string \<Rightarrow> rat \<Rightarrow> rat \<Rightarrow> rat \<Rightarrow> unit op" where
  "notify_managers E change_id reference_number make_model approved_price proposed_price pct =
     bind (select_one roles (\<lambda>r. role_slug r = ''sales_manager'')) (\<lambda>found.
     case found of
       None \<Rightarrow> ret ()
     | Some manager_role \<Rightarrow>
         bind (reads (\<lambda>s. concat (map (\<lambda>u. map (\<lambda>_. u) (filter (is_grant (usr_id u) (role_id manager_role))
                 (user_roles s))) (filter (\<lambda>u. usr_status u = ''active'') (users s))))) (\<lambda>managers.
         for_each managers (notify_manager E change_id reference_number make_model approved_price
           proposed_price pct)))"

text \<open>
  \<^verbatim>\<open>evaluate\<close>: the result is the new value of \<open>requires_manager_reapproval\<close>. \<open>proposed\<close> is the
  number on the object, which is not yet rounded.
\<close>

definition evaluate_price_change :: "env \<Rightarrow> change_request \<Rightarrow> rat option \<Rightarrow> bool op" where
  "evaluate_price_change E change proposed =
     (case proposed of
        None \<Rightarrow> ret (cr_requires_manager_reapproval change)
      | Some proposed_price \<Rightarrow>
          bind (select_one appraisal_submissions (\<lambda>x.
                  sub_equipment_record_id x = cr_equipment_record_id change \<and>
                  sub_status x = ''approved'')) (\<lambda>found.
          case (case found of None \<Rightarrow> None | Some x \<Rightarrow> sub_suggested_consignment_price x) of
            None \<Rightarrow> ret (cr_requires_manager_reapproval change)
          | Some price \<Rightarrow>
              let approved_price = dec_val price in
              if approved_price = 0 then ret (cr_requires_manager_reapproval change)
              else
                bind (get_typed (ks_name CONSIGNMENT_PRICE_CHANGE_THRESHOLD_PCT)) (\<lambda>threshold.
                case json_number threshold of
                  None \<Rightarrow> raise (TypeError ''float <= threshold'')
                | Some limit \<Rightarrow>
                    if change_pct approved_price proposed_price \<le> limit
                    then ret (cr_requires_manager_reapproval change)
                    else
                      bind (get_row equipment_records er_id (cr_equipment_record_id change)) (\<lambda>rec.
                      seq (notify_managers E (cr_id change)
                             (case rec of
                                None \<Rightarrow> JStr (uuid_str (cr_equipment_record_id change))
                              | Some r \<Rightarrow> jopt JStr (er_reference_number r))
                             (case rec of None \<Rightarrow> '''' | Some r \<Rightarrow> make_and_model (the found))
                             approved_price proposed_price
                             (round_1 (change_pct approved_price proposed_price)))
                        (ret True)))))"

subsection \<open>Submitting\<close>

definition ALLOWED_REQUEST_TYPES :: "string list" where
  "ALLOWED_REQUEST_TYPES = [''edit_details'', ''update_location'', ''update_photos'',
     ''update_consignment_price'', ''withdraw'', ''other'']"

text \<open>\<^verbatim>\<open>Numeric(12, 2)\<close>: the database rounds half away from zero.\<close>

definition numeric_2 :: "rat \<Rightarrow> decimal" where
  "numeric_2 q = Dec (round_half_up (q * 100)) 2"

definition pending_for :: "uuid \<Rightarrow> change_request \<Rightarrow> bool" where
  "pending_for record_id c = (cr_equipment_record_id c = record_id \<and> cr_status c = ''pending'')"

definition new_change_request ::
  "uuid \<Rightarrow> uuid \<Rightarrow> string \<Rightarrow> string option \<Rightarrow> rat option \<Rightarrow> datetime \<Rightarrow> change_request" where
  "new_change_request i record_id request_type notes proposed t =
     \<lparr>cr_id = i, cr_equipment_record_id = record_id, cr_request_type = request_type,
      cr_customer_notes = notes, cr_status = ''pending'', cr_resolution_notes = None,
      cr_requires_manager_reapproval = False,
      cr_proposed_consignment_price = map_option numeric_2 proposed, cr_submitted_at = t,
      cr_resolved_at = None, cr_resolved_by = None\<rparr>"

definition insert_change ::
  "env \<Rightarrow> uuid \<Rightarrow> string \<Rightarrow> string option \<Rightarrow> rat option \<Rightarrow> change_request op" where
  "insert_change E record_id request_type notes proposed =
     bind (uuid4 E) (\<lambda>i.
     bind now (\<lambda>t.
     bind (reads (\<lambda>s. \<exists>c \<in> set (change_requests s). pending_for record_id c \<or> cr_id c = i)) (\<lambda>taken.
     let c = new_change_request i record_id request_type notes proposed t
     in if taken then raise (IntegrityError ''ux_change_requests_one_pending_per_record'')
        else seq (writes (\<lambda>s. s\<lparr>change_requests := change_requests s @ [c]\<rparr>)) (ret c))))"

definition pending_conflict :: exn where
  "pending_conflict = http 409 (''A change request for this record is already pending. '' @
     ''Wait for the sales team to resolve it before submitting another.'')"

definition on_integrity_error :: "exn \<Rightarrow> exn \<Rightarrow> exn" where
  "on_integrity_error answer e = (case e of IntegrityError m \<Rightarrow> answer | _ \<Rightarrow> e)"

definition change_request_key :: "uuid \<Rightarrow> string" where
  "change_request_key i = ''change_request:'' @ uuid_str i"

definition sales_recipient :: "env \<Rightarrow> equipment_record \<Rightarrow> string option op" where
  "sales_recipient E record =
     bind (if er_assigned_sales_rep_id record = None then ret None
           else select_one users (\<lambda>u. Some (usr_id u) = er_assigned_sales_rep_id record)) (\<lambda>rep.
     ret (case rep of
            Some u \<Rightarrow> if usr_status u = ''active'' then Some (usr_email u)
                      else let f = strip (cfg_sales_ops_email E) in if f = '''' then None else Some f
          | None \<Rightarrow> let f = strip (cfg_sales_ops_email E) in if f = '''' then None else Some f))"

definition change_request_body :: "user \<Rightarrow> equipment_record \<Rightarrow> change_request \<Rightarrow> string" where
  "change_request_body customer_user record change =
     (let snippet = take 200 (replace_char newline '' '' (str_or (cr_customer_notes change) ''''))
      in ''<p>Customer '' @ usr_email customer_user @ '' submitted a change request '' @
         ''on equipment record <strong>'' @ record_ref record @ ''</strong>.</p>'' @
         ''<p>Type: <strong>'' @ cr_request_type change @ ''</strong></p>'' @
         ''<p>Notes: '' @ (if snippet = '''' then ''(none)'' else snippet) @ ''</p>'' @
         ''<p>Open the sales console to review and respond.</p>'')"

definition notify_sales :: "env \<Rightarrow> user \<Rightarrow> equipment_record \<Rightarrow> change_request \<Rightarrow> unit op" where
  "notify_sales E customer_user record change =
     bind (sales_recipient E record) (\<lambda>rep_email.
     case rep_email of
       None \<Rightarrow> ret ()
     | Some to_email \<Rightarrow>
         seq (enqueue E (change_request_key (cr_id change)) (er_assigned_sales_rep_id record) ''email''
                ''sales_change_request''
                [(''to_email'', JStr to_email),
                 (''subject'', JStr (''Change request on '' @ record_ref record @ '': '' @
                    cr_request_type change)),
                 (''html_body'', JStr (change_request_body customer_user record change)),
                 (''change_request_id'', JStr (uuid_str (cr_id change))),
                 (''reference_number'', JStr (record_ref record))] None)
           (ret ()))"

definition submit_change_request ::
  "env \<Rightarrow> user \<Rightarrow> equipment_record \<Rightarrow> string \<Rightarrow> string option \<Rightarrow> rat option \<Rightarrow> change_request op" where
  "submit_change_request E customer_user record request_type customer_notes proposed =
     seq (require (request_type \<in> set ALLOWED_REQUEST_TYPES)
            (http 422 (''request_type must be one of: '' @
               ''['' @ join '', '' (map quoted (sort ALLOWED_REQUEST_TYPES)) @ '']'')))
     (bind (map_exn (on_integrity_error pending_conflict)
              (atomically (insert_change E (er_id record) request_type
                 (sanitize_plain E customer_notes) proposed))) (\<lambda>change.
      bind (evaluate_price_change E change proposed) (\<lambda>flag.
      let change' = change\<lparr>cr_requires_manager_reapproval := flag\<rparr>
      in seq (save_change change')
         (seq (notify_sales E customer_user record change')
         (ret change')))))"

definition list_change_requests_for_record :: "uuid \<Rightarrow> change_request list op" where
  "list_change_requests_for_record record_id =
     reads (\<lambda>s. rev (sort_key cr_submitted_at
       (rev (filter (\<lambda>c. cr_equipment_record_id c = record_id) (change_requests s)))))"

text \<open>The route: the body has a type and notes, and no price.\<close>

definition validate_change_body :: "string \<Rightarrow> string option \<Rightarrow> unit op" where
  "validate_change_body request_type notes =
     require (1 \<le> char_count request_type \<and> char_count request_type \<le> 30 \<and>
        (case notes of None \<Rightarrow> True | Some n \<Rightarrow> char_count n \<le> 5000))
       (http 422 ''validation error'')"

definition create_change_request ::
  "env \<Rightarrow> string option \<Rightarrow> uuid \<Rightarrow> string \<Rightarrow> string option \<Rightarrow> change_request op" where
  "create_change_request E cred record_id request_type notes =
     guarded_route E [''customer''] cred (\<lambda>current_user.
       seq (validate_change_body request_type notes)
       (bind (get_record_for_user current_user record_id) (\<lambda>rec.
        submit_change_request E current_user rec request_type notes None)))"

definition list_change_requests ::
  "env \<Rightarrow> string option \<Rightarrow> uuid \<Rightarrow> change_request list op" where
  "list_change_requests E cred record_id =
     guarded_route E [''customer''] cred (\<lambda>current_user.
       bind (get_record_for_user current_user record_id) (\<lambda>rec.
       list_change_requests_for_record (er_id rec)))"

subsection \<open>Resolving\<close>

definition resolution_body ::
  "user \<Rightarrow> change_request \<Rightarrow> string \<Rightarrow> string \<Rightarrow> string option \<Rightarrow> string" where
  "resolution_body customer_user change ref verb clean_notes =
     ''<p>Hi '' @ usr_first_name customer_user @ '',</p>'' @
     ''<p>Your <strong>'' @ cr_request_type change @ ''</strong> request on equipment record '' @
     ''<strong>'' @ ref @ ''</strong> has been <strong>'' @ verb @ ''</strong> by our sales team.</p>'' @
     (case clean_notes of None \<Rightarrow> ''''
      | Some n \<Rightarrow> if n = '''' then ''''
                  else ''<p><strong>Notes:</strong><br>'' @ replace_char newline ''<br>'' n @ ''</p>'') @
     ''<p>'' @ em_dash @ '' The Temple Heavy Equipment team</p>''"

definition resolution_key :: "uuid \<Rightarrow> string \<Rightarrow> string" where
  "resolution_key i new_status = ''change_request_resolution:'' @ uuid_str i @ '':'' @ new_status"

definition notify_resolution ::
  "env \<Rightarrow> user option \<Rightarrow> equipment_record \<Rightarrow> change_request \<Rightarrow> string \<Rightarrow> string option \<Rightarrow>
   unit op" where
  "notify_resolution E customer_user record change new_status clean_notes =
     (let verb = (if new_status = ''resolved'' then ''resolved'' else ''declined'')
      in case customer_user of
           None \<Rightarrow> raise (AttributeError ''first_name'')
         | Some u \<Rightarrow>
             seq (enqueue E (resolution_key (cr_id change) new_status) (Some (usr_id u)) ''email''
                    ''customer_change_request_resolution''
                    [(''to_email'', JStr (usr_email u)),
                     (''subject'', JStr (''Your change request on '' @ record_ref record @ '' was '' @ verb)),
                     (''html_body'', JStr (resolution_body u change (record_ref record) verb clean_notes)),
                     (''change_request_id'', JStr (uuid_str (cr_id change))),
                     (''reference_number'', JStr (record_ref record))] None)
               (ret ()))"

definition customer_of_record :: "equipment_record \<Rightarrow> user option op" where
  "customer_of_record record =
     bind (get_row customers cus_id (er_customer_id record)) (\<lambda>found.
     case found of
       None \<Rightarrow> raise (AttributeError ''user'')
     | Some c \<Rightarrow> reads (\<lambda>s. find (\<lambda>u. Some (usr_id u) = cus_user_id c) (users s)))"

definition change_and_record :: "uuid \<Rightarrow> (change_request \<times> equipment_record) op" where
  "change_and_record change_request_id =
     bind (select_one change_requests (\<lambda>c. cr_id c = change_request_id)) (\<lambda>found.
     case found of
       None \<Rightarrow> raise (http 404 ''change request not found'')
     | Some change \<Rightarrow>
         seq (require (cr_status change = ''pending'')
                (http 409 (''change request is already '' @ quoted (cr_status change) @
                   ''; cannot re-resolve'')))
         (bind (get_row equipment_records er_id (cr_equipment_record_id change)) (\<lambda>rec.
          case rec of
            None \<Rightarrow> raise (AttributeError ''customer'')
          | Some r \<Rightarrow> ret (change, r))))"

text \<open>The writes of a resolution, once the rows it needs are there.\<close>

definition complete_resolution ::
  "env \<Rightarrow> user \<Rightarrow> string option \<Rightarrow> string \<Rightarrow> string option \<Rightarrow> change_request \<Rightarrow> equipment_record \<Rightarrow>
   user option \<Rightarrow> datetime \<Rightarrow> change_request op" where
  "complete_resolution E resolver resolver_role_slug new_status clean_notes change record
     customer_user t =
     (let change' = change\<lparr>cr_status := new_status, cr_resolution_notes := clean_notes,
                           cr_resolved_at := Some t, cr_resolved_by := Some (usr_id resolver)\<rparr>
      in seq (save_change change')
         (seq (when_true (new_status = ''resolved'' \<and> cr_request_type change = ''withdraw'')
                 (seq (record_transition E record ''withdrawn'' (Some resolver)
                         (Some (take 500 (str_or clean_notes ''Withdrawn via customer change request.'')))
                         customer_user None)
                    (ret ())))
         (seq (notify_resolution E customer_user record change new_status clean_notes)
         (seq (add_audit \<lparr>aud_event_type = ''change_request.'' @ new_status,
                 aud_actor_id = Some (usr_id resolver), aud_actor_role = resolver_role_slug,
                 aud_target_type = Some ''change_request'', aud_target_id = Some (cr_id change),
                 aud_before_state = None,
                 aud_after_state = Some (JObj [(''equipment_record_id'', JStr (uuid_str (er_id record))),
                   (''request_type'', JStr (cr_request_type change)),
                   (''resolution_notes'', jopt JStr clean_notes)])\<rparr>)
         (ret change')))))"

definition resolve_change_request ::
  "env \<Rightarrow> uuid \<Rightarrow> user \<Rightarrow> string option \<Rightarrow> string \<Rightarrow> string option \<Rightarrow> change_request op" where
  "resolve_change_request E change_request_id resolver resolver_role_slug new_status
     resolution_notes =
     seq (require (new_status \<in> {''resolved'', ''rejected''})
            (http 422 (''status must be '' @ quoted ''resolved'' @ '' or '' @ quoted ''rejected'')))
     (bind (change_and_record change_request_id) (\<lambda>(change, record).
      bind (customer_of_record record) (\<lambda>customer_user.
      bind now (\<lambda>t.
      complete_resolution E resolver resolver_role_slug new_status (sanitize_plain E resolution_notes)
        change record customer_user t))))"

definition SALES_ROLES :: "string list" where
  "SALES_ROLES = [''sales'', ''sales_manager'', ''admin'']"

definition acting_role_slug :: "user \<Rightarrow> string op" where
  "acting_role_slug user =
     bind (primary_role_slug user) (\<lambda>found.
     case found of None \<Rightarrow> raise (http 403 ''role not resolved'') | Some slug \<Rightarrow> ret slug)"

text \<open>The route of the sales workspace; it answers with the record's status read again.\<close>

definition resolve_change_route ::
  "env \<Rightarrow> string option \<Rightarrow> uuid \<Rightarrow> string \<Rightarrow> string option \<Rightarrow> (change_request \<times> uuid \<times> string) op" where
  "resolve_change_route E cred change_request_id status notes =
     guarded_route E SALES_ROLES cred (\<lambda>current_user.
       bind (acting_role_slug current_user) (\<lambda>slug.
       bind (resolve_change_request E change_request_id current_user (Some slug) status notes) (\<lambda>change.
       bind (bind (reads (\<lambda>s. map cr_equipment_record_id (filter (\<lambda>c. cr_id c = change_request_id)
               (change_requests s)))) scalar_one) (\<lambda>rid.
       bind (bind (reads (\<lambda>s. map er_status (filter (\<lambda>r. er_id r = rid) (equipment_records s))))
               scalar_one) (\<lambda>status.
       ret (change, rid, status))))))"

subsection \<open>At most one pending request\<close>

definition one_pending :: "db \<Rightarrow> bool" where
  "one_pending s \<longleftrightarrow> distinct (map cr_id (change_requests s)) \<and>
     distinct (map cr_equipment_record_id (filter (\<lambda>c. cr_status c = ''pending'') (change_requests s)))"

interpretation pending_db: db_relation "preserves one_pending"
  by unfold_locales (simp add: preserves_def one_pending_def)

interpretation pending_queue: queue_relation "preserves one_pending"
  by unfold_locales (rule pending_db.confined_enqueueI, simp add: preserves_def one_pending_def)

interpretation pending_tr: transition_relation "preserves one_pending"
  by unfold_locales (simp_all add: preserves_def one_pending_def written_def)

text \<open>A write that adds no row to a selection keeps the keys of the selection distinct.\<close>

lemma distinct_filter_update:
  assumes "distinct (map k (filter q rows))"
    and "\<forall>r \<in> set rows. p r \<longrightarrow> (q (f r) \<longrightarrow> q r) \<and> k (f r) = k r"
  shows "distinct (map k (filter q (update_where p f rows)))"
  using assms
proof (induction rows)
  case (Cons a rows)
  have "k x \<in> k ` set (filter q rows)" if "x \<in> set (filter q (update_where p f rows))" for x
    using that Cons.prems(2) by (auto simp: update_where_def split: if_splits)
  moreover have "distinct (map k (filter q (update_where p f rows)))"
    using Cons by (auto split: if_splits)
  moreover have "filter q (update_where p f (a # rows)) =
      (if q (if p a then f a else a) then [if p a then f a else a] else []) @ filter q (update_where p f rows)"
    by (simp add: update_where_def)
  ultimately show ?case using Cons.prems by (auto split: if_splits)
qed (simp add: update_where_def)

lemma one_pending_save:
  assumes "\<And>c. c \<in> set (change_requests s) \<Longrightarrow> cr_id c = cr_id c' \<Longrightarrow>
      cr_equipment_record_id c' = cr_equipment_record_id c \<and>
      (cr_status c' = ''pending'' \<longrightarrow> cr_status c = ''pending'')"
    and "one_pending s"
  shows "one_pending (s\<lparr>change_requests :=
     update_where (\<lambda>y. cr_id y = cr_id c') (\<lambda>_. c') (change_requests s)\<rparr>)"
proof -
  have "map cr_id (update_where (\<lambda>y. cr_id y = cr_id c') (\<lambda>_. c') xs) = map cr_id xs" for xs
    by (induction xs) (auto simp: update_where_def)
  moreover have "distinct (map cr_equipment_record_id (filter (\<lambda>c. cr_status c = ''pending'')
      (update_where (\<lambda>y. cr_id y = cr_id c') (\<lambda>_. c') (change_requests s))))"
    by (rule distinct_filter_update) (use assms in \<open>auto simp: one_pending_def\<close>)
  ultimately show ?thesis using assms(2) by (simp add: one_pending_def)
qed

lemma insert_change_cases:
  assumes "insert_change E rid ty n p s = (r, t)"
  obtains (taken) m where "r = Inl (IntegrityError m)" and "change_requests t = change_requests s"
    "\<exists>c \<in> set (change_requests s). pending_for rid c \<or> cr_id c = random_uuid E (draws s)"
  | (new) c where "r = Inr c" "c = new_change_request (random_uuid E (draws s)) rid ty n p (clock s)"
    and "t = s\<lparr>draws := Suc (draws s), change_requests := change_requests s @ [c]\<rparr>"
    and "\<forall>c \<in> set (change_requests s). \<not> pending_for rid c \<and> cr_id c \<noteq> random_uuid E (draws s)"
  using assms by (auto simp: insert_change_def run_simps Let_def split: if_splits)

lemma one_pending_insert:
  assumes "insert_change E rid ty n p s = (r, t)" "one_pending s"
  shows "one_pending t"
  using assms(1)
proof (cases rule: insert_change_cases)
  case (taken m)
  then show ?thesis using assms(2) by (simp add: one_pending_def)
next
  case (new c)
  then show ?thesis using assms(2)
    by (auto simp: one_pending_def new_change_request_def pending_for_def)
qed


subsection \<open>What submitting does\<close>

context db_relation
begin

lemma confined_get_typed: "confined R (get_typed key)"
  by (rule confinedI, drule get_typed_pure) (simp add: R_refl)

end

context queue_relation
begin

lemma confined_evaluate: "confined R (evaluate_price_change E change p)"
  unfolding evaluate_price_change_def notify_managers_def notify_manager_def Let_def
  by (intro queue_intros confined_get_typed)

lemma confined_notify_sales: "confined R (notify_sales E u r c)"
  unfolding notify_sales_def sales_recipient_def Let_def by (intro queue_intros)

lemma confined_notify_resolution: "confined R (notify_resolution E u r c st n)"
  unfolding notify_resolution_def Let_def by (intro queue_intros)

lemma confined_customer_of_record: "confined R (customer_of_record r)"
  unfolding customer_of_record_def by (intro queue_intros)

end

lemma change_and_record_return_iff:
  "change_and_record i s = (Inr (c, r), t) \<longleftrightarrow> t = s \<and>
     filter (\<lambda>c. cr_id c = i) (change_requests s) = [c] \<and> cr_status c = ''pending'' \<and>
     find (\<lambda>r. er_id r = cr_equipment_record_id c) (equipment_records s) = Some r"
  by (auto simp: change_and_record_def bind_return_iff select_one_return_iff case_iffs seq_return_iff
      require_return_iff get_row_run split: option.splits)

text \<open>The decision of \<open>evaluate\<close>, where it comes to one.\<close>

lemma evaluate_decides:
  assumes "evaluate_price_change E change (Some p) s = (Inr flag, t)"
    and "filter (\<lambda>x. sub_equipment_record_id x = cr_equipment_record_id change \<and>
      sub_status x = ''approved'') (appraisal_submissions s) = [x]"
    and "sub_suggested_consignment_price x = Some price" "dec_val price \<noteq> 0"
    and "get_typed (ks_name CONSIGNMENT_PRICE_CHANGE_THRESHOLD_PCT) s = (Inr th, s)"
    and "json_number th = Some limit"
  shows "flag \<longleftrightarrow> cr_requires_manager_reapproval change \<or> change_pct (dec_val price) p > limit"
  using assms(1)
  by (auto simp: evaluate_price_change_def bind_run select_one_run seq_run get_row_run Let_def assms(2-)
      split: if_splits prod.splits sum.splits)

lemma evaluate_without_price:
  "evaluate_price_change E change None s = (Inr (cr_requires_manager_reapproval change), s)"
  by (simp add: evaluate_price_change_def)

lemma submit_returns:
  assumes "submit_change_request E u r ty n p s = (Inr c, t)" "one_pending s"
  obtains flag v w where "ty \<in> set ALLOWED_REQUEST_TYPES"
    and "\<forall>x \<in> set (change_requests s). \<not> pending_for (er_id r) x \<and> cr_id x \<noteq> random_uuid E (draws s)"
    and "c = (new_change_request (random_uuid E (draws s)) (er_id r) ty (sanitize_plain E n) p (clock s))
      \<lparr>cr_requires_manager_reapproval := flag\<rparr>"
    and "evaluate_price_change E (new_change_request (random_uuid E (draws s)) (er_id r) ty
      (sanitize_plain E n) p (clock s)) p v = (Inr flag, w)"
    and "change_requests t = change_requests s @ [c]" and "one_pending t"
proof -
  let ?c = "new_change_request (random_uuid E (draws s)) (er_id r) ty (sanitize_plain E n) p (clock s)"
  have ty: "ty \<in> set ALLOWED_REQUEST_TYPES"
    using assms by (auto simp: submit_change_request_def seq_return_iff require_return_iff)
  obtain c0 v flag w where ins: "insert_change E (er_id r) ty (sanitize_plain E n) p s = (Inr c0, v)"
    and ev: "evaluate_price_change E c0 p v = (Inr flag, w)"
    and rest: "seq (save_change (c0\<lparr>cr_requires_manager_reapproval := flag\<rparr>))
      (seq (notify_sales E u r (c0\<lparr>cr_requires_manager_reapproval := flag\<rparr>))
         (ret (c0\<lparr>cr_requires_manager_reapproval := flag\<rparr>))) w = (Inr c, t)"
    using assms
    by (auto simp: submit_change_request_def seq_return_iff [of "require _ _"] require_return_iff Let_def
        bind_return_iff map_exn_return_iff atomically_return_iff)
  from ins obtain c1: "c0 = ?c" and v: "v = s\<lparr>draws := Suc (draws s), change_requests := change_requests s @ [?c]\<rparr>"
    and free: "\<forall>x \<in> set (change_requests s). \<not> pending_for (er_id r) x \<and> cr_id x \<noteq> random_uuid E (draws s)"
    by (cases rule: insert_change_cases) auto
  let ?c' = "?c\<lparr>cr_requires_manager_reapproval := flag\<rparr>"
  have w: "change_requests w = change_requests s @ [?c]"
    using outside_tables(3) [OF confined_sameD [OF outside_queue.confined_evaluate ev]] v by simp
  have upd: "update_where (\<lambda>y. cr_id y = cr_id ?c') (\<lambda>_. ?c') (change_requests w) =
      change_requests s @ [?c']"
    using free by (auto simp: w update_where_def new_change_request_def intro!: map_idI)
  obtain x where no: "notify_sales E u r ?c'
      (w\<lparr>change_requests := change_requests s @ [?c']\<rparr>) = (Inr x, t)" and c: "c = ?c'"
    using rest unfolding c1
    by (auto simp only: seq_return_iff save_change_run upd ret_run prod.inject sum.inject)
  have cr: "change_requests t = change_requests s @ [?c']"
    using outside_tables(3) [OF confined_sameD [OF outside_queue.confined_notify_sales no]] by simp
  have "one_pending t"
    using assms(2) free by (auto simp: one_pending_def cr new_change_request_def pending_for_def)
  with ty free c ev cr show thesis by (intro that [of flag v w]) (simp_all add: c1)
qed

lemma submit_conflict:
  assumes "ty \<in> set ALLOWED_REQUEST_TYPES" "x \<in> set (change_requests s)" "pending_for (er_id r) x"
  shows "submit_change_request E u r ty n p s = (Inl pending_conflict, s)"
proof -
  have "\<exists>m v. insert_change E (er_id r) ty (sanitize_plain E n) p s = (Inl (IntegrityError m), v)"
    using assms(2,3) by (auto simp: insert_change_def run_simps Let_def)
  then show ?thesis using assms(1)
    by (auto simp: submit_change_request_def run_simps on_integrity_error_def)
qed

subsection \<open>What resolving does\<close>

lemma resolve_returns:
  assumes "resolve_change_request E i u slug st n s = (Inr c, t)"
  obtains change rec where "st \<in> {''resolved'', ''rejected''}"
    and "filter (\<lambda>c. cr_id c = i) (change_requests s) = [change]" "cr_status change = ''pending''"
    and "find (\<lambda>r. er_id r = cr_equipment_record_id change) (equipment_records s) = Some rec"
    and "c = change\<lparr>cr_status := st, cr_resolution_notes := sanitize_plain E n,
      cr_resolved_at := Some (clock s), cr_resolved_by := Some (usr_id u)\<rparr>"
    and "change_requests t = update_where (\<lambda>y. cr_id y = cr_id change) (\<lambda>_. c) (change_requests s)"
    and "appraisal_submissions t = appraisal_submissions s"
    and "equipment_records t = (if st = ''resolved'' \<and> cr_request_type change = ''withdraw''
      then update_where (\<lambda>y. er_id y = er_id rec) (\<lambda>y. y\<lparr>er_status := ''withdrawn''\<rparr>) (equipment_records s)
      else equipment_records s)"
proof -
  have st: "st \<in> {''resolved'', ''rejected''}"
    using assms by (auto simp: resolve_change_request_def seq_return_iff require_return_iff)
  obtain change rec where ch: "filter (\<lambda>c. cr_id c = i) (change_requests s) = [change]"
    and pe: "cr_status change = ''pending''"
    and rec: "find (\<lambda>r. er_id r = cr_equipment_record_id change) (equipment_records s) = Some rec"
    using assms by (auto simp: resolve_change_request_def seq_return_iff require_return_iff
        bind_return_iff [of "change_and_record _"] change_and_record_return_iff)
  have c0: "change_and_record i s = (Inr (change, rec), s)"
    using ch pe rec by (simp add: change_and_record_return_iff)
  have cp: "z = s" if "customer_of_record rec s = (x, z)" for x z
    using that by (auto simp: customer_of_record_def run_simps split: option.splits)
  have "bind (customer_of_record rec) (\<lambda>cu. bind now (\<lambda>x. complete_resolution E u slug st
      (sanitize_plain E n) change rec cu x)) s = (Inr c, t)"
    using assms st c0 by (simp add: resolve_change_request_def seq_run require_run
        bind_run [of "change_and_record _"])
  then obtain cu where run: "complete_resolution E u slug st (sanitize_plain E n) change rec cu (clock s) s
      = (Inr c, t)"
    using cp by (auto simp: bind_return_iff now_run)
  let ?c = "change\<lparr>cr_status := st, cr_resolution_notes := sanitize_plain E n,
      cr_resolved_at := Some (clock s), cr_resolved_by := Some (usr_id u)\<rparr>"
  let ?u = "s\<lparr>change_requests := update_where (\<lambda>y. cr_id y = cr_id change) (\<lambda>_. ?c) (change_requests s)\<rparr>"
  let ?w = "st = ''resolved'' \<and> cr_request_type change = ''withdraw''"
  obtain a v w where
    tr: "when_true ?w (seq (record_transition E rec ''withdrawn'' (Some u)
       (Some (take 500 (str_or (sanitize_plain E n) ''Withdrawn via customer change request.''))) cu None)
       (ret ())) ?u = (Inr (), v)"
    and no: "notify_resolution E cu rec change st (sanitize_plain E n) v = (Inr (), w)"
    and t: "t = w\<lparr>audit_logs := audit_logs w @ [a]\<rparr>" and c: "c = ?c"
    using run by (auto simp: complete_resolution_def Let_def seq_return_iff [of "save_change _"]
        seq_return_iff [of "when_true _ _"] seq_return_iff [of "notify_resolution _ _ _ _ _ _"]
        seq_return_iff [of "add_audit _"] save_change_run add_audit_run)
  have ev: "equipment_records v = (if ?w
      then update_where (\<lambda>y. er_id y = er_id rec) (\<lambda>y. y\<lparr>er_status := ''withdrawn''\<rparr>) (equipment_records s)
      else equipment_records s)" and ov: "outside v = outside ?u"
    using tr by (auto simp: when_true_return_iff seq_return_iff split: if_splits
        dest: transition_tables(1,6))
  have ow: "outside w = outside v"
    by (rule confined_sameD [OF outside_queue.confined_notify_resolution no])
  have ew: "equipment_records w = equipment_records v"
    using arg_cong [OF confined_sameD [OF business_frame.confined_notify_resolution no], of equipment_records]
    by (simp add: business_def)
  show thesis
    by (rule that [OF st ch pe rec c])
      (use outside_tables(2,3) [OF ow] outside_tables(2,3) [OF ov] ew ev in \<open>simp_all add: t c\<close>)
qed


lemma one_pending_cong: "change_requests t = change_requests s \<Longrightarrow> one_pending t = one_pending s"
  by (simp add: one_pending_def)

lemma one_pending_replaced:
  assumes "one_pending s" "change_requests t = update_where (\<lambda>y. cr_id y = cr_id c) (\<lambda>_. c') (change_requests s)"
    and "filter (\<lambda>y. cr_id y = i) (change_requests s) = [c]" "cr_id c' = cr_id c"
    and "cr_equipment_record_id c' = cr_equipment_record_id c" "cr_status c' \<noteq> ''pending''"
  shows "one_pending t"
proof -
  have "c \<in> set (change_requests s)" using assms(3) by (auto simp: filter_eq_Cons_iff)
  then have eq: "x = c" if "x \<in> set (change_requests s)" "cr_id x = cr_id c" for x
    using assms(1) that by (auto simp: one_pending_def distinct_map dest: inj_onD)
  have "one_pending (s\<lparr>change_requests :=
      update_where (\<lambda>y. cr_id y = cr_id c') (\<lambda>_. c') (change_requests s)\<rparr>)"
    by (rule one_pending_save [OF _ assms(1)]) (use eq assms(4-6) in auto)
  then show ?thesis using assms(2,4) by (simp add: one_pending_def)
qed

lemma one_pending_resolve:
  assumes "resolve_change_request E i u slug st n s = (Inr c, t)" "one_pending s"
  shows "one_pending t"
proof -
  from assms(1) show ?thesis
  proof (rule resolve_returns)
    fix change rec
    assume a: "st \<in> {''resolved'', ''rejected''}"
      "filter (\<lambda>c. cr_id c = i) (change_requests s) = [change]"
      "c = change\<lparr>cr_status := st, cr_resolution_notes := sanitize_plain E n,
         cr_resolved_at := Some (clock s), cr_resolved_by := Some (usr_id u)\<rparr>"
      "change_requests t = update_where (\<lambda>y. cr_id y = cr_id change) (\<lambda>_. c) (change_requests s)"
    show ?thesis by (rule one_pending_replaced [OF assms(2) a(4,2)]) (use a(1,3) in auto)
  qed
qed

lemma reapproved_fields [simp]:
  "cr_id (reapproved c u t) = cr_id c"
  "cr_equipment_record_id (reapproved c u t) = cr_equipment_record_id c"
  "cr_status (reapproved c u t) = ''resolved''"
  "cr_requires_manager_reapproval (reapproved c u t) = False"
  "cr_proposed_consignment_price (reapproved c u t) = cr_proposed_consignment_price c"
  by (auto simp: reapproved_def Let_def split: option.splits)

lemma one_pending_approve_price:
  assumes "approve_price_change E i u s = (Inr c, t)" "one_pending s"
  shows "one_pending t"
proof -
  from assms(1) show ?thesis
  proof (rule approve_price_change_returns)
    fix change submission
    assume a: "filter (\<lambda>c. cr_id c = i) (change_requests s) = [change]"
      "c = reapproved change (usr_id u) (clock s)"
      "change_requests t = update_where (\<lambda>y. cr_id y = cr_id change) (\<lambda>_. c) (change_requests s)"
    show ?thesis by (rule one_pending_replaced [OF assms(2) a(3,1)]) (simp_all add: a(2))
  qed
qed

subsection \<open>No price reaches the threshold\<close>

text \<open>
  The customer's route has no field for a price. In a database without proposed prices, no
  route brings one in, and there is nothing for a manager to re-approve.
\<close>

definition unpriced :: "db \<Rightarrow> bool" where
  "unpriced s \<longleftrightarrow> (\<forall>c \<in> set (change_requests s).
     cr_proposed_consignment_price c = None \<and> \<not> cr_requires_manager_reapproval c)"

lemma unpriced_submit:
  assumes "submit_change_request E u r ty n None s = (Inr c, t)" "one_pending s" "unpriced s"
  shows "unpriced t"
  using assms(1,2)
proof (rule submit_returns)
  fix flag v w
  assume a: "c = (new_change_request (random_uuid E (draws s)) (er_id r) ty (sanitize_plain E n) None
      (clock s))\<lparr>cr_requires_manager_reapproval := flag\<rparr>"
    "evaluate_price_change E (new_change_request (random_uuid E (draws s)) (er_id r) ty
      (sanitize_plain E n) None (clock s)) None v = (Inr flag, w)"
    "change_requests t = change_requests s @ [c]"
  have "\<not> flag" using a(2) by (simp add: evaluate_without_price new_change_request_def)
  then show ?thesis using assms(3) a(1,3) by (simp add: unpriced_def new_change_request_def)
qed

lemma unpriced_resolve:
  assumes "resolve_change_request E i u slug st n s = (Inr c, t)" "unpriced s"
  shows "unpriced t"
proof -
  from assms(1) show ?thesis
  proof (rule resolve_returns)
    fix change rec
    assume a: "filter (\<lambda>c. cr_id c = i) (change_requests s) = [change]"
      "c = change\<lparr>cr_status := st, cr_resolution_notes := sanitize_plain E n,
         cr_resolved_at := Some (clock s), cr_resolved_by := Some (usr_id u)\<rparr>"
      "change_requests t = update_where (\<lambda>y. cr_id y = cr_id change) (\<lambda>_. c) (change_requests s)"
    have "change \<in> set (change_requests s)" using a(1) by (auto simp: filter_eq_Cons_iff)
    then show ?thesis using assms(2) a(2,3)
      by (auto simp: unpriced_def dest!: set_update_where split: if_splits)
  qed
qed

lemma unpriced_nothing_to_approve:
  assumes "unpriced s"
  shows "fst (approve_price_change E i u s) \<noteq> Inr c"
proof
  assume "fst (approve_price_change E i u s) = Inr c"
  then obtain t where "approve_price_change E i u s = (Inr c, t)" by (metis prod.collapse)
  then show False
  proof (rule approve_price_change_returns)
    fix change
    assume "filter (\<lambda>c. cr_id c = i) (change_requests s) = [change]"
      "cr_requires_manager_reapproval change"
    then show False using assms by (auto simp: unpriced_def filter_eq_Cons_iff)
  qed
qed

lemma create_change_request_returns:
  assumes "create_change_request E cred rid ty n s = (Inr c, t)"
  obtains u r where "submit_change_request E u r ty n None s = (Inr c, t)" "er_id r = rid"
    and "\<exists>cu \<in> set (customers s). cus_user_id cu = Some (usr_id u) \<and> er_customer_id r = cus_id cu"
    and "u \<in> set (users s)" "r \<in> set (equipment_records s)"
proof -
  obtain u where u: "u \<in> set (users s)" and h: "seq (validate_change_body ty n)
       (bind (get_record_for_user u rid) (\<lambda>rec. submit_change_request E u rec ty n None)) s = (Inr c, t)"
    by (rule guarded_route_permitted [OF assms [unfolded create_change_request_def]])
  obtain r v where r: "get_record_for_user u rid s = (Inr r, v)"
    and su: "submit_change_request E u r ty n None v = (Inr c, t)"
    using h by (auto simp: seq_return_iff bind_return_iff validate_change_body_def require_return_iff)
  obtain cu where "v = s" "cu \<in> set (customers s)" "cus_user_id cu = Some (usr_id u)"
    and "er_id r = rid" "er_customer_id r = cus_id cu" "r \<in> set (equipment_records s)"
    using r unfolding get_record_for_user_def
    by (auto simp: bind_return_iff case_iffs dest!: select_one_SomeD)
  with su u show thesis by (intro that [of u r]) auto
qed


lemma threshold_default:
  "app_configs s = [] \<Longrightarrow>
     get_typed (ks_name CONSIGNMENT_PRICE_CHANGE_THRESHOLD_PCT) s = (Inr (JInt 10), s)"
  by (simp add: get_typed_def get_spec_def run_simps registry_keys_def TOS_CURRENT_VERSION_def
      PRIVACY_CURRENT_VERSION_def DRIVE_TIME_FALLBACK_MINUTES_def DEFAULT_SALES_REP_ID_def
      NOTIFICATION_PREFERENCES_HIDDEN_ROLES_def INTAKE_FIELDS_VISIBLE_def INTAKE_FIELDS_ORDER_def
      CONSIGNMENT_PRICE_CHANGE_THRESHOLD_PCT_def key_spec_def)

end
