(* ===== verification/Sales.thy ===== *)
theory Sales
  imports ChangeRequests RecordLocks
begin

section \<open>The sales workspace\<close>

text \<open>
  \<^verbatim>\<open>api/services/sales_service.py\<close>, \<^verbatim>\<open>api/routers/sales.py\<close> and the listing part of
  \<^verbatim>\<open>api/services/listing_service.py\<close>: the dashboard, the assignment of people to records behind
  the record lock, publishing, the listing's price and status. In a patch body a field that was
  not sent is \<open>None\<close>, a field sent as null is \<open>Some None\<close>.
\<close>

subsection \<open>Telling the assigned sales rep\<close>

definition assignment_descriptor :: "equipment_record \<Rightarrow> string" where
  "assignment_descriptor record =
     (let make_model = strip (join '' '' (filter (\<lambda>x. x \<noteq> '''')
            [str_or (er_customer_make record) '''', str_or (er_customer_model record) '''']))
      in if make_model \<noteq> '''' then make_model @ '' ('' @ record_ref record @ '')'' else record_ref record)"

definition assignment_key :: "uuid \<Rightarrow> uuid \<Rightarrow> string \<Rightarrow> string" where
  "assignment_key record_id user_id trigger =
     ''record_assigned:'' @ uuid_str record_id @ '':'' @ uuid_str user_id @ '':'' @ trigger"

definition assignment_apns_key :: "uuid \<Rightarrow> uuid \<Rightarrow> string \<Rightarrow> string" where
  "assignment_apns_key record_id token_id trigger =
     ''record_assigned_apns:'' @ uuid_str record_id @ '':'' @ uuid_str token_id @ '':'' @ trigger"

definition assignment_payload :: "user \<Rightarrow> equipment_record \<Rightarrow> string \<Rightarrow> (string \<times> json) list" where
  "assignment_payload rep record trigger =
     [(''to_email'', JStr (usr_email rep)),
      (''subject'', JStr (''You'' @ [CHR 0x27] @ ''ve been assigned '' @ record_ref record)),
      (''html_body'', JStr (''<p>Hi '' @ str_or (Some (usr_first_name rep)) ''team'' @ '',</p>'' @
         ''<p>You have been assigned equipment record <strong>'' @ assignment_descriptor record @
         ''</strong>.</p><p>Trigger: <strong>'' @ trigger @ ''</strong></p>'' @
         ''<p>Open the sales console to review and respond.</p>'')),
      (''reference_number'', JStr (record_ref record)),
      (''trigger'', JStr trigger)]"

definition assignment_push ::
  "env \<Rightarrow> equipment_record \<Rightarrow> uuid \<Rightarrow> string \<Rightarrow> device_token \<Rightarrow> unit op" where
  "assignment_push E record user_id trigger dt =
     seq (enqueue E (assignment_apns_key (er_id record) (dt_id dt) trigger) (Some user_id) ''apns''
            ''record_assigned_apns''
            [(''token'', JStr (dt_token dt)), (''device_token_id'', JStr (uuid_str (dt_id dt))),
             (''device_environment'', JStr (dt_environment dt)), (''title'', JStr ''New Assignment''),
             (''body'', JStr (''You'' @ [CHR 0x27] @ ''ve been assigned '' @ assignment_descriptor record @ ''.'')),
             (''data'', JObj [(''type'', JStr ''assignment''), (''record_id'', JStr (uuid_str (er_id record))),
                (''reference_number'', JStr (record_ref record))])] None)
       (ret ())"

definition enqueue_assignment_notification ::
  "env \<Rightarrow> equipment_record \<Rightarrow> uuid \<Rightarrow> string \<Rightarrow> unit op" where
  "enqueue_assignment_notification E record assigned_user_id trigger =
     bind (select_one users (\<lambda>u. usr_id u = assigned_user_id)) (\<lambda>found.
     case found of
       None \<Rightarrow> ret ()
     | Some rep \<Rightarrow>
         if usr_status rep \<noteq> ''active'' \<or> usr_email rep = '''' then ret ()
         else
           seq (enqueue E (assignment_key (er_id record) assigned_user_id trigger)
                  (Some assigned_user_id) ''email'' ''record_assigned''
                  (assignment_payload rep record trigger) None)
           (bind (tokens_for_user assigned_user_id (Some ''ios'')) (\<lambda>ios_tokens.
            for_each ios_tokens (assignment_push E record assigned_user_id trigger))))"

subsection \<open>The dashboard\<close>

text \<open>One step of \<^verbatim>\<open>groups.setdefault(key, []).append(x)\<close>: keys in order of first use.\<close>

fun add_to_group :: "'k \<Rightarrow> 'x \<Rightarrow> ('k \<times> 'x list) list \<Rightarrow> ('k \<times> 'x list) list" where
  "add_to_group k x [] = [(k, [x])]"
| "add_to_group k x ((k', xs) # gs) =
     (if k = k' then (k', xs @ [x]) # gs else (k', xs) # add_to_group k x gs)"

definition group_by :: "('x \<Rightarrow> 'k) \<Rightarrow> 'x list \<Rightarrow> ('k \<times> 'x list) list" where
  "group_by key xs = foldl (\<lambda>gs x. add_to_group (key x) x gs) [] xs"

text \<open>The filters of the query; a plain sales user asking for all gets their own.\<close>

definition in_dashboard ::
  "user \<Rightarrow> string \<Rightarrow> string \<Rightarrow> string option \<Rightarrow> uuid option \<Rightarrow> equipment_record \<Rightarrow> bool" where
  "in_dashboard acting_user acting_role scope status_filter assigned_rep_id r =
     (let effective_scope = (if scope = ''all'' \<and> acting_role \<notin> {''sales_manager'', ''admin''}
                             then ''mine'' else scope)
      in er_deleted_at r = None \<and>
         (if effective_scope = ''mine'' then er_assigned_sales_rep_id r = Some (usr_id acting_user)
          else case assigned_rep_id of None \<Rightarrow> True | Some i \<Rightarrow> er_assigned_sales_rep_id r = Some i) \<and>
         (case status_filter of None \<Rightarrow> True | Some st \<Rightarrow> er_status r = st))"

definition earliest :: "equipment_record list \<Rightarrow> datetime" where
  "earliest recs = Min (set (map er_created_at recs))"

definition list_dashboard ::
  "user \<Rightarrow> string \<Rightarrow> string \<Rightarrow> string option \<Rightarrow> uuid option \<Rightarrow>
   ((customer \<times> equipment_record list) list \<times> nat) op" where
  "list_dashboard acting_user acting_role scope status_filter assigned_rep_id =
     bind (reads (\<lambda>s. sort_key er_created_at
             (filter (in_dashboard acting_user acting_role scope status_filter assigned_rep_id)
               (equipment_records s)))) (\<lambda>records.
     bind (map_each (sort_key (\<lambda>(_, recs). earliest recs) (group_by er_customer_id records))
             (\<lambda>(customer_id, recs).
               bind (get_row customers cus_id customer_id) (\<lambda>found.
               case found of
                 None \<Rightarrow> raise (AttributeError ''_filtered_records'')
               | Some customer \<Rightarrow> ret (customer, recs)))) (\<lambda>ordered.
     ret (ordered, length records)))"

record equipment_row =
  row_id :: uuid
  row_reference_number :: "string option"
  row_status :: string
  row_make :: "string option"
  row_model :: "string option"
  row_year :: "int option"
  row_serial_number :: "string option"
  row_submitted_at :: "datetime option"
  row_assigned_sales_rep_id :: "uuid option"
  row_assigned_appraiser_id :: "uuid option"

record customer_group =
  grp_customer_id :: uuid
  grp_business_name :: "string option"
  grp_submitter_name :: string
  grp_cell_phone :: "string option"
  grp_business_phone :: "string option"
  grp_business_phone_ext :: "string option"
  grp_state :: "string option"
  grp_first_submission_at :: "datetime option"
  grp_total_items :: nat
  grp_assigned_sales_rep_id :: "uuid option"
  grp_records :: "equipment_row list"

definition row_of :: "equipment_record \<Rightarrow> equipment_row" where
  "row_of r =
     \<lparr>row_id = er_id r, row_reference_number = er_reference_number r, row_status = er_status r,
      row_make = er_customer_make r, row_model = er_customer_model r,
      row_year = er_customer_year r, row_serial_number = er_customer_serial_number r,
      row_submitted_at = er_customer_submitted_at r,
      row_assigned_sales_rep_id = er_assigned_sales_rep_id r,
      row_assigned_appraiser_id = er_assigned_appraiser_id r\<rparr>"

definition group_of :: "customer \<times> equipment_record list \<Rightarrow> customer_group" where
  "group_of = (\<lambda>(c, recs).
     let submitted = List.map_filter er_customer_submitted_at recs in
     \<lparr>grp_customer_id = cus_id c, grp_business_name = cus_business_name c,
      grp_submitter_name = cus_submitter_name c, grp_cell_phone = cus_cell_phone c,
      grp_business_phone = cus_business_phone c, grp_business_phone_ext = cus_business_phone_ext c,
      grp_state = cus_address_state c,
      grp_first_submission_at = (if submitted = [] then None else Some (Min (set submitted))),
      grp_total_items = length recs,
      grp_assigned_sales_rep_id = (case recs of [] \<Rightarrow> None | r # _ \<Rightarrow> er_assigned_sales_rep_id r),
      grp_records = map row_of recs\<rparr>)"

definition dashboard ::
  "env \<Rightarrow> string option \<Rightarrow> string \<Rightarrow> string option \<Rightarrow> uuid option \<Rightarrow> (customer_group list \<times> nat \<times> nat) op" where
  "dashboard E cred scope status assigned_rep_id =
     guarded_route E SALES_ROLES cred (\<lambda>current_user.
       seq (require (scope \<in> {''mine'', ''all''} \<and>
              (case status of None \<Rightarrow> True | Some x \<Rightarrow> length x \<le> 40)) (http 422 ''validation error''))
       (bind (acting_role_slug current_user) (\<lambda>slug.
        bind (list_dashboard current_user slug scope status assigned_rep_id) (\<lambda>(pairs, total_records).
        let groups = map group_of pairs in ret (groups, length groups, total_records)))))"

subsection \<open>The detail view\<close>

record equipment_detail =
  det_record :: equipment_record
  det_customer_id :: uuid
  det_customer_business_name :: "string option"
  det_customer_submitter_name :: string
  det_customer_cell_phone :: "string option"
  det_customer_business_phone :: "string option"
  det_customer_email :: string
  det_has_signed_contract :: bool
  det_has_appraisal_report :: bool
  det_public_listing_status :: "string option"
  det_status_history :: "status_event list"
  det_change_requests :: "change_request list"

definition get_record_detail :: "uuid \<Rightarrow> equipment_record op" where
  "get_record_detail record_id =
     bind (select_one equipment_records (\<lambda>r. er_id r = record_id \<and> er_deleted_at r = None)) (\<lambda>found.
     case found of
       None \<Rightarrow> raise (http 404 ''record not found'')
     | Some r \<Rightarrow> ret r)"

definition contract_of :: "db \<Rightarrow> equipment_record \<Rightarrow> consignment_contract option" where
  "contract_of s r = find (\<lambda>c. con_equipment_record_id c = er_id r) (consignment_contracts s)"

definition listing_of :: "db \<Rightarrow> equipment_record \<Rightarrow> public_listing option" where
  "listing_of s r = find (\<lambda>l. pub_equipment_record_id l = er_id r) (public_listings s)"

definition reports_of :: "db \<Rightarrow> equipment_record \<Rightarrow> appraisal_report list" where
  "reports_of s r = filter (\<lambda>x. rep_equipment_record_id x = er_id r) (appraisal_reports s)"

definition is_signed :: "consignment_contract option \<Rightarrow> bool" where
  "is_signed c = (case c of None \<Rightarrow> False | Some c \<Rightarrow> con_signed_at c \<noteq> None)"

definition detail_of :: "equipment_record \<Rightarrow> customer \<Rightarrow> user \<Rightarrow> db \<Rightarrow> equipment_detail" where
  "detail_of record customer customer_user s =
     \<lparr>det_record = record, det_customer_id = cus_id customer,
      det_customer_business_name = cus_business_name customer,
      det_customer_submitter_name = cus_submitter_name customer,
      det_customer_cell_phone = cus_cell_phone customer,
      det_customer_business_phone = cus_business_phone customer,
      det_customer_email = usr_email customer_user,
      det_has_signed_contract = is_signed (contract_of s record),
      det_has_appraisal_report = (reports_of s record \<noteq> []),
      det_public_listing_status = map_option pub_status (listing_of s record),
      det_status_history = sort_key ev_created_at
        (filter (\<lambda>e. ev_equipment_record_id e = er_id record) (status_events s)),
      det_change_requests = sort_key (\<lambda>c. - cr_submitted_at c)
        (filter (\<lambda>c. cr_equipment_record_id c = er_id record) (change_requests s))\<rparr>"

definition detail_with :: "equipment_record \<Rightarrow> equipment_detail op" where
  "detail_with record =
     bind (get_row customers cus_id (er_customer_id record)) (\<lambda>found.
     case found of
       None \<Rightarrow> raise (AttributeError ''user'')
     | Some customer \<Rightarrow>
         bind (reads (\<lambda>s. find (\<lambda>u. Some (usr_id u) = cus_user_id customer) (users s))) (\<lambda>usr.
         case usr of
           None \<Rightarrow> raise (AttributeError ''email'')
         | Some customer_user \<Rightarrow> reads (detail_of record customer customer_user)))"

definition load_detail :: "uuid \<Rightarrow> equipment_detail op" where
  "load_detail record_id = bind (get_record_detail record_id) detail_with"

definition equipment_detail_route :: "env \<Rightarrow> string option \<Rightarrow> uuid \<Rightarrow> equipment_detail op" where
  "equipment_detail_route E cred record_id =
     guarded_route E SALES_ROLES cred (\<lambda>current_user.
       bind (acting_role_slug current_user) (\<lambda>slug. load_detail record_id))"

subsection \<open>Assignments, behind the record lock\<close>

definition ensure_lock_held :: "uuid \<Rightarrow> uuid \<Rightarrow> unit op" where
  "ensure_lock_held record_id user_id =
     bind now (\<lambda>t.
     bind (select_one record_locks (is_active_lock_of record_id ''equipment_record'' user_id t)) (\<lambda>row.
     require (row \<noteq> None)
       (http 409 ''You must acquire the record lock before making changes.'')))"

text \<open>The check looks at the primary role, not at the grants.\<close>

definition require_user_has_role :: "uuid \<Rightarrow> string list \<Rightarrow> unit op" where
  "require_user_has_role user_id allowed_slugs =
     bind (slug_of_user user_id) (\<lambda>found.
     case found of
       None \<Rightarrow> raise (http 422 (''assigned user '' @ uuid_str user_id @ '' not found''))
     | Some slug \<Rightarrow>
         require (slug \<in> set allowed_slugs)
           (http 422 (''user '' @ uuid_str user_id @ '' has role '' @ quoted slug @
              '', expected one of '' @ list_repr allowed_slugs)))"

record assignment_patch =
  patch_sales_rep :: "uuid option option"
  patch_appraiser :: "uuid option option"

definition check_assignees :: "assignment_patch \<Rightarrow> unit op" where
  "check_assignees body =
     seq (case patch_sales_rep body of
            Some (Some i) \<Rightarrow> require_user_has_role i SALES_ROLES
          | _ \<Rightarrow> ret ())
         (case patch_appraiser body of
            Some (Some i) \<Rightarrow> require_user_has_role i [''appraiser'']
          | _ \<Rightarrow> ret ())"

definition assigned :: "assignment_patch \<Rightarrow> equipment_record \<Rightarrow> equipment_record" where
  "assigned body r =
     r\<lparr>er_assigned_sales_rep_id :=
         (case patch_sales_rep body of None \<Rightarrow> er_assigned_sales_rep_id r | Some x \<Rightarrow> x),
       er_assigned_appraiser_id :=
         (case patch_appraiser body of None \<Rightarrow> er_assigned_appraiser_id r | Some x \<Rightarrow> x)\<rparr>"

definition assignment_state :: "equipment_record \<Rightarrow> json" where
  "assignment_state r =
     JObj [(''assigned_sales_rep_id'', jopt (\<lambda>i. JStr (uuid_str i)) (er_assigned_sales_rep_id r)),
           (''assigned_appraiser_id'', jopt (\<lambda>i. JStr (uuid_str i)) (er_assigned_appraiser_id r))]"

definition apply_assignment ::
  "env \<Rightarrow> equipment_record \<Rightarrow> user \<Rightarrow> string \<Rightarrow> assignment_patch \<Rightarrow> equipment_record op" where
  "apply_assignment E record acting_user slug body =
     (let record' = assigned body record
      in seq (check_assignees body)
         (seq (writes (\<lambda>s. s\<lparr>equipment_records := update_where (\<lambda>y. er_id y = er_id record)
                 (assigned body) (equipment_records s)\<rparr>))
         (seq (add_audit \<lparr>aud_event_type = ''equipment_record.assignment_changed'',
                 aud_actor_id = Some (usr_id acting_user), aud_actor_role = Some slug,
                 aud_target_type = Some ''equipment_record'', aud_target_id = Some (er_id record),
                 aud_before_state = Some (assignment_state record),
                 aud_after_state = Some (assignment_state record')\<rparr>)
         (seq (case patch_sales_rep body of
                 Some (Some i) \<Rightarrow>
                   when_true (er_assigned_sales_rep_id record \<noteq> Some i)
                     (enqueue_assignment_notification E record' i ''manual_override'')
               | _ \<Rightarrow> ret ())
           (ret record')))))"

definition update_assignment ::
  "env \<Rightarrow> string option \<Rightarrow> uuid \<Rightarrow> assignment_patch \<Rightarrow> equipment_detail op" where
  "update_assignment E cred record_id body =
     guarded_route E SALES_ROLES cred (\<lambda>current_user.
       bind (acting_role_slug current_user) (\<lambda>slug.
       seq (ensure_lock_held record_id (usr_id current_user))
       (bind (get_record_detail record_id) (\<lambda>record.
        seq (require (patch_sales_rep body \<noteq> None \<or> patch_appraiser body \<noteq> None)
               (http 422 ''no fields to update''))
        (seq (apply_assignment E record current_user slug body)
         (bind (acting_role_slug current_user) (\<lambda>slug. load_detail record_id)))))))"

definition CASCADE_ASSIGNABLE_STATUSES :: "string set" where
  "CASCADE_ASSIGNABLE_STATUSES = {''new_request''}"

definition in_cascade :: "uuid \<Rightarrow> equipment_record \<Rightarrow> bool" where
  "in_cascade customer_id r \<longleftrightarrow> er_customer_id r = customer_id \<and> er_deleted_at r = None \<and>
     er_status r \<in> CASCADE_ASSIGNABLE_STATUSES"

definition cascade_assignment ::
  "uuid \<Rightarrow> user \<Rightarrow> string \<Rightarrow> assignment_patch \<Rightarrow> (uuid list \<times> uuid list) op" where
  "cascade_assignment customer_id acting_user slug body =
     bind (select_one customers (\<lambda>c. cus_id c = customer_id \<and> cus_deleted_at c = None)) (\<lambda>found.
     seq (require (found \<noteq> None) (http 404 ''customer not found''))
     (seq (check_assignees body)
     (bind (reads (\<lambda>s. filter (\<lambda>r. er_customer_id r = customer_id \<and> er_deleted_at r = None)
              (equipment_records s))) (\<lambda>records.
      let updated = map er_id (filter (\<lambda>r. er_status r \<in> CASCADE_ASSIGNABLE_STATUSES) records);
          skipped = map er_id (filter (\<lambda>r. er_status r \<notin> CASCADE_ASSIGNABLE_STATUSES) records);
          shown = (\<lambda>f. case f of Some (Some i) \<Rightarrow> JStr (uuid_str i) | Some None \<Rightarrow> JStr ''None'' | None \<Rightarrow> JNull)
      in seq (writes (\<lambda>s. s\<lparr>equipment_records := update_where (in_cascade customer_id)
                (assigned body) (equipment_records s)\<rparr>))
         (seq (add_audit \<lparr>aud_event_type = ''customer.cascade_assignment'',
                 aud_actor_id = Some (usr_id acting_user), aud_actor_role = Some slug,
                 aud_target_type = Some ''customer'', aud_target_id = Some customer_id,
                 aud_before_state = None,
                 aud_after_state = Some (JObj
                   [(''assigned_sales_rep_id'', shown (patch_sales_rep body)),
                    (''assigned_appraiser_id'', shown (patch_appraiser body)),
                    (''updated_record_ids'', JArr (map (\<lambda>i. JStr (uuid_str i)) updated)),
                    (''skipped_record_ids'', JArr (map (\<lambda>i. JStr (uuid_str i)) skipped))])\<rparr>)
           (ret (updated, skipped)))))))"

definition cascade_route ::
  "env \<Rightarrow> string option \<Rightarrow> uuid \<Rightarrow> assignment_patch \<Rightarrow> (uuid list \<times> uuid list \<times> string option) op" where
  "cascade_route E cred customer_id body =
     guarded_route E SALES_ROLES cred (\<lambda>current_user.
       bind (acting_role_slug current_user) (\<lambda>slug.
       seq (require (patch_sales_rep body \<noteq> None \<or> patch_appraiser body \<noteq> None)
              (http 422 ''no fields to cascade''))
       (bind (cascade_assignment customer_id current_user slug body) (\<lambda>(updated, skipped).
        ret (updated, skipped,
             if skipped = [] then None
             else Some (nat_str (length skipped) @ '' record(s) past '' @ quoted ''new_request'' @
                    '' were left untouched''))))))"

subsection \<open>Publishing\<close>

definition set_listing :: "uuid \<Rightarrow> (public_listing \<Rightarrow> public_listing) \<Rightarrow> unit op" where
  "set_listing i f = writes (\<lambda>s. s\<lparr>public_listings :=
     update_where (\<lambda>l. pub_id l = i) f (public_listings s)\<rparr>)"

definition listing_title_of :: "equipment_record \<Rightarrow> string" where
  "listing_title_of r =
     str_or (Some (strip (str_or (er_customer_make r) '''' @ '' '' @ str_or (er_customer_model r) '''')))
       (record_ref r)"

definition activate :: "datetime \<Rightarrow> public_listing \<Rightarrow> public_listing" where
  "activate t l = l\<lparr>pub_status := ''active'', pub_published_at := Some t\<rparr>"

definition put_listing :: "env \<Rightarrow> equipment_record \<Rightarrow> public_listing op" where
  "put_listing E record =
     bind now (\<lambda>t.
     bind (reads (\<lambda>s. listing_of s record)) (\<lambda>found.
     case found of
       None \<Rightarrow>
         bind (uuid4 E) (\<lambda>i.
         let l = \<lparr>pub_id = i, pub_equipment_record_id = er_id record,
                  pub_listing_title = listing_title_of record, pub_asking_price = None,
                  pub_primary_photo_gcs_path = None, pub_status = ''active'',
                  pub_published_at = Some t, pub_sold_at = None\<rparr>
         in seq (writes (\<lambda>s. s\<lparr>public_listings := public_listings s @ [l]\<rparr>)) (ret l))
     | Some l \<Rightarrow> seq (set_listing (pub_id l) (activate t)) (ret (activate t l))))"

definition ready_to_publish :: "equipment_record \<Rightarrow> unit op" where
  "ready_to_publish record =
     seq (require (er_status record = ''esigned_pending_publish'')
            (http 400 (''record is in '' @ quoted (er_status record) @ '', not '' @
               quoted ''esigned_pending_publish'' @ ''; publish is only valid after eSign'')))
     (bind (reads (\<lambda>s. is_signed (contract_of s record))) (\<lambda>signed.
      seq (require signed (http 400 ''no signed consignment contract on file''))
      (bind (reads (\<lambda>s. reports_of s record)) (\<lambda>reports.
       require (reports \<noteq> []) (http 400 ''no appraisal report on file'')))))"

definition published_audit :: "user \<Rightarrow> string \<Rightarrow> equipment_record \<Rightarrow> public_listing \<Rightarrow> audit_log" where
  "published_audit acting_user slug record listing =
     \<lparr>aud_event_type = ''equipment_record.published'', aud_actor_id = Some (usr_id acting_user),
      aud_actor_role = Some slug, aud_target_type = Some ''equipment_record'',
      aud_target_id = Some (er_id record), aud_before_state = None,
      aud_after_state = Some (JObj [(''public_listing_id'', JStr (uuid_str (pub_id listing))),
        (''published_at'', jopt (\<lambda>t. JStr (isoformat t)) (pub_published_at listing))])\<rparr>"

definition publish_record ::
  "env \<Rightarrow> uuid \<Rightarrow> user \<Rightarrow> string \<Rightarrow> (equipment_record \<times> public_listing) op" where
  "publish_record E record_id acting_user slug =
     bind (get_record_detail record_id) (\<lambda>record.
     seq (ready_to_publish record)
     (bind (put_listing E record) (\<lambda>listing.
      bind (customer_of_record record) (\<lambda>customer_user.
      bind (record_transition E record ''listed'' (Some acting_user)
              (Some ''Listing published by sales rep.'') customer_user None) (\<lambda>(event, record').
      seq (add_audit (published_audit acting_user slug record listing))
        (ret (record', listing)))))))"

definition publish_route ::
  "env \<Rightarrow> string option \<Rightarrow> uuid \<Rightarrow> (uuid \<times> string \<times> uuid \<times> datetime option) op" where
  "publish_route E cred record_id =
     guarded_route E SALES_ROLES cred (\<lambda>current_user.
       bind (acting_role_slug current_user) (\<lambda>slug.
       bind (publish_record E record_id current_user slug) (\<lambda>(record, listing).
       ret (er_id record, er_status record, pub_id listing, pub_published_at listing))))"

subsection \<open>The listing's price and status\<close>

definition patched :: "decimal option \<Rightarrow> string option \<Rightarrow> datetime \<Rightarrow> public_listing \<Rightarrow> public_listing" where
  "patched asking_price status t l =
     (let l = (case asking_price of None \<Rightarrow> l | Some p \<Rightarrow> l\<lparr>pub_asking_price := Some p\<rparr>)
      in case status of
           None \<Rightarrow> l
         | Some st \<Rightarrow> l\<lparr>pub_status := st, pub_sold_at := (if st = ''sold'' then Some t else None)\<rparr>)"

definition patch_listing :: "uuid \<Rightarrow> decimal option \<Rightarrow> string option \<Rightarrow> public_listing op" where
  "patch_listing record_id asking_price status =
     bind (reads (\<lambda>s. filter (\<lambda>l. pub_equipment_record_id l = record_id \<and>
             (\<exists>r \<in> set (equipment_records s). er_id r = record_id)) (public_listings s))) (\<lambda>rows.
     bind (scalar_one_or_none rows) (\<lambda>found.
     case found of
       None \<Rightarrow> raise (http 404 ''Listing not found for this equipment record'')
     | Some listing \<Rightarrow>
         bind now (\<lambda>t.
         seq (set_listing (pub_id listing) (patched asking_price status t))
           (ret (patched asking_price status t listing)))))"

text \<open>The body's status is a literal; the price is answered as a float.\<close>

definition patch_listing_route ::
  "env \<Rightarrow> string option \<Rightarrow> uuid \<Rightarrow> decimal option \<Rightarrow> string option \<Rightarrow>
   (uuid \<times> uuid \<times> string \<times> rat option) op" where
  "patch_listing_route E cred record_id asking_price status =
     guarded_route E SALES_ROLES cred (\<lambda>current_user.
       seq (require (status \<in> {None, Some ''active'', Some ''sold'', Some ''withdrawn''})
              (http 422 ''validation error''))
       (bind (acting_role_slug current_user) (\<lambda>slug.
        bind (patch_listing record_id asking_price status) (\<lambda>listing.
        ret (record_id, pub_id listing, pub_status listing,
             map_option dec_val (pub_asking_price listing))))))"

subsection \<open>The dashboard is a partition of what the caller may see\<close>

lemma map_fst_add_to_group:
  "map fst (add_to_group k x gs) = (if k \<in> fst ` set gs then map fst gs else map fst gs @ [k])"
  by (induction k x gs rule: add_to_group.induct) auto

lemma set_add_to_group:
  "distinct (map fst gs) \<Longrightarrow> (k', ys) \<in> set (add_to_group k x gs) \<longleftrightarrow>
     (if k' = k then ys = (case map_of gs k of None \<Rightarrow> [x] | Some xs \<Rightarrow> xs @ [x])
      else (k', ys) \<in> set gs)"
  by (induction k x gs rule: add_to_group.induct)
    (auto simp: image_iff split: option.splits dest: map_of_SomeD)

lemma group_by_snoc: "group_by key (xs @ [x]) = add_to_group (key x) x (group_by key xs)"
  by (simp add: group_by_def)

lemma group_by_spec:
  "distinct (map fst (group_by key xs)) \<and>
   (\<forall>k ys. (k, ys) \<in> set (group_by key xs) \<longleftrightarrow>
     k \<in> key ` set xs \<and> ys = filter (\<lambda>x. key x = k) xs)"
proof (induction xs rule: rev_induct)
  case (snoc x xs)
  have "map_of (group_by key xs) (key x) =
      (if key x \<in> key ` set xs then Some (filter (\<lambda>y. key y = key x) xs) else None)"
  proof (cases "key x \<in> key ` set xs")
    case True
    then show ?thesis using snoc by (simp add: map_of_is_SomeI)
  next
    case False
    then show ?thesis using snoc by (force simp: map_of_eq_None_iff)
  qed
  moreover have "filter (\<lambda>y. key y = key x) xs = []" if "key x \<notin> key ` set xs"
    using that by (auto simp: filter_empty_conv image_iff)
  ultimately show ?case
    using snoc by (auto simp: group_by_snoc map_fst_add_to_group set_add_to_group)
qed (simp add: group_by_def)

lemma map_each_return_iff:
  "map_each xs f s = (Inr ys, s) \<longleftrightarrow> list_all2 (\<lambda>x y. f x s = (Inr y, s)) xs ys"
  if "\<And>x y t. f x s = (Inr y, t) \<Longrightarrow> t = s"
  using that
proof (induction xs arbitrary: ys)
  case (Cons x xs)
  note IH = Cons.IH [OF Cons.prems]
  show ?case
  proof
    assume "map_each (x # xs) f s = (Inr ys, s)"
    then obtain y t zs where y: "f x s = (Inr y, t)" and zs: "map_each xs f t = (Inr zs, s)"
      and ys: "ys = y # zs" by (auto simp: bind_return_iff)
    have "t = s" by (rule Cons.prems [OF y])
    then show "list_all2 (\<lambda>x y. f x s = (Inr y, s)) (x # xs) ys" using y zs IH by (simp add: ys)
  next
    assume "list_all2 (\<lambda>x y. f x s = (Inr y, s)) (x # xs) ys"
    then obtain y zs where "f x s = (Inr y, s)" "map_each xs f s = (Inr zs, s)" "ys = y # zs"
      using IH by (auto simp: list_all2_Cons1)
    then show "map_each (x # xs) f s = (Inr ys, s)" by (auto simp: bind_return_iff)
  qed
qed auto

lemma list_dashboard_returns:
  assumes "list_dashboard u slug scope st rep s = (Inr (pairs, n), t)"
  defines "p \<equiv> in_dashboard u slug scope st rep"
  defines "recs \<equiv> sort_key er_created_at (filter p (equipment_records s))"
  shows "t = s" "n = length (filter p (equipment_records s))"
    and "list_all2 (\<lambda>(k, ys) (c, zs). zs = ys \<and> find (\<lambda>c. cus_id c = k) (customers s) = Some c)
      (sort_key (\<lambda>(_, ys). earliest ys) (group_by er_customer_id recs)) pairs"
proof -
  let ?f = "\<lambda>(customer_id, recs). bind (get_row customers cus_id customer_id) (\<lambda>found.
     case found of None \<Rightarrow> raise (AttributeError ''_filtered_records'')
     | Some customer \<Rightarrow> ret (customer, recs))"
  have f: "?f x z = (Inr y, v) \<longleftrightarrow> v = z \<and> snd y = snd x \<and>
      find (\<lambda>c. cus_id c = fst x) (customers z) = Some (fst y)" for x y z v
    by (cases x; cases y) (auto simp: run_simps split: option.splits)
  have pure: "v = z" if "map_each xs ?f z = (Inr ys, v)" for xs ys z v
    using that
  proof (induction xs arbitrary: ys z)
    case (Cons x xs)
    then show ?case by (auto simp: bind_return_iff f)
  qed auto
  have "map_each (sort_key (\<lambda>(_, ys). earliest ys) (group_by er_customer_id recs)) ?f s = (Inr pairs, t)"
    and n: "n = length recs"
    using assms(1) by (auto simp: list_dashboard_def recs_def p_def bind_return_iff [of "reads _"]
        bind_return_iff [of "map_each _ _"])
  then have run: "map_each (sort_key (\<lambda>(_, ys). earliest ys) (group_by er_customer_id recs)) ?f s = (Inr pairs, s)"
    and "t = s" using pure by blast+
  then show "t = s" "n = length (filter p (equipment_records s))" using n by (simp_all add: recs_def)
  have "list_all2 (\<lambda>x y. ?f x s = (Inr y, s))
      (sort_key (\<lambda>(_, ys). earliest ys) (group_by er_customer_id recs)) pairs"
    using run by (subst (asm) map_each_return_iff) (auto simp: f)
  then show "list_all2 (\<lambda>(k, ys) (c, zs). zs = ys \<and> find (\<lambda>c. cus_id c = k) (customers s) = Some c)
      (sort_key (\<lambda>(_, ys). earliest ys) (group_by er_customer_id recs)) pairs"
    by (rule list_all2_mono) (auto simp: f)
qed

lemma list_dashboard_groups:
  assumes "list_dashboard u slug scope st rep s = (Inr (pairs, n), t)"
  defines "p \<equiv> in_dashboard u slug scope st rep"
  shows "distinct (map (\<lambda>(c, _). cus_id c) pairs)"
    and "(\<Union>(c, rs) \<in> set pairs. set rs) = {r \<in> set (equipment_records s). p r}"
    and "\<And>c rs. (c, rs) \<in> set pairs \<Longrightarrow> c \<in> set (customers s) \<and> rs \<noteq> [] \<and>
      set rs = {r \<in> set (equipment_records s). p r \<and> er_customer_id r = cus_id c}"
    and "sorted (map (\<lambda>(_, rs). earliest rs) pairs)"
proof -
  let ?recs = "sort_key er_created_at (filter p (equipment_records s))"
  let ?gs = "sort_key (\<lambda>(_, ys). earliest ys) (group_by er_customer_id ?recs)"
  note all = list_dashboard_returns(3) [OF assms(1), folded p_def]
  have "map (\<lambda>(c, rs). (cus_id c, rs)) ps = gs \<and> fst ` set ps \<subseteq> set (customers s)"
    if "list_all2 (\<lambda>(k, ys) (c, zs). zs = ys \<and> find (\<lambda>c. cus_id c = k) (customers s) = Some c) gs ps"
    for gs and ps :: "(customer \<times> equipment_record list) list"
    using that by (induction rule: list_all2_induct) (auto dest: find_SomeD)
  from this [OF all]
  have eq: "map (\<lambda>(c, rs). (cus_id c, rs)) pairs = ?gs \<and> fst ` set pairs \<subseteq> set (customers s)" .
  note spec = group_by_spec [of er_customer_id ?recs]
  have "distinct (map fst ?gs)"
    using spec by (simp add: distinct_map)
  moreover have "map (\<lambda>(c, _). cus_id c) pairs = map fst ?gs"
    unfolding conjunct1 [OF eq, symmetric] by (simp add: comp_def case_prod_beta)
  ultimately show "distinct (map (\<lambda>(c, _). cus_id c) pairs)" by simp
  have mem: "c \<in> set (customers s) \<and> cus_id c \<in> er_customer_id ` set ?recs \<and>
      rs = filter (\<lambda>x. er_customer_id x = cus_id c) ?recs" if "(c, rs) \<in> set pairs" for c rs
  proof -
    have "(cus_id c, rs) \<in> set (map (\<lambda>(c, rs). (cus_id c, rs)) pairs)" using that by force
    then have "(cus_id c, rs) \<in> set (group_by er_customer_id ?recs)" using eq by simp
    then show ?thesis using spec eq that by force
  qed
  show "c \<in> set (customers s) \<and> rs \<noteq> [] \<and>
      set rs = {r \<in> set (equipment_records s). p r \<and> er_customer_id r = cus_id c}"
    if "(c, rs) \<in> set pairs" for c rs
    using mem [OF that] by (auto simp: filter_empty_conv)
  show "(\<Union>(c, rs) \<in> set pairs. set rs) = {r \<in> set (equipment_records s). p r}"
  proof (intro equalityI subsetI)
    fix r assume r: "r \<in> {r \<in> set (equipment_records s). p r}"
    then have "(er_customer_id r, filter (\<lambda>x. er_customer_id x = er_customer_id r) ?recs) \<in>
        set (group_by er_customer_id ?recs)" using spec by auto
    then have "(er_customer_id r, filter (\<lambda>x. er_customer_id x = er_customer_id r) ?recs) \<in>
        set (map (\<lambda>(c, rs). (cus_id c, rs)) pairs)" using eq by simp
    then obtain c rs where "(c, rs) \<in> set pairs"
      "rs = filter (\<lambda>x. er_customer_id x = er_customer_id r) ?recs" by auto
    moreover from this have "r \<in> set rs" using r by simp
    ultimately show "r \<in> (\<Union>(c, rs) \<in> set pairs. set rs)" by blast
  qed (use mem in force)
  have "map (\<lambda>(_, rs). earliest rs) pairs = map (\<lambda>(_, rs). earliest rs) ?gs"
    unfolding conjunct1 [OF eq, symmetric] by (simp add: comp_def case_prod_beta)
  then show "sorted (map (\<lambda>(_, rs). earliest rs) pairs)" by simp
qed

subsection \<open>Who may edit\<close>

lemma acting_role_slug_pure: "acting_role_slug u s = (Inr x, t) \<Longrightarrow> t = s"
  by (auto simp: acting_role_slug_def primary_role_slug_def bind_return_iff select_one_return_iff
      split: option.split_asm)

lemma ensure_lock_held_iff:
  assumes "locks_ok s"
  shows "ensure_lock_held rid u s = (Inr (), t) \<longleftrightarrow>
    t = s \<and> (\<exists>e. locked_until ''equipment_record'' s rid u e \<and> clock s < e)"
proof (cases "\<exists>l \<in> set (record_locks s). is_active_lock_of rid ''equipment_record'' u (clock s) l")
  case True
  then obtain l where l: "l \<in> set (record_locks s)"
    "is_active_lock_of rid ''equipment_record'' u (clock s) l" by blast
  have "filter (is_active_lock_of rid ''equipment_record'' u (clock s)) (record_locks s) =
      filter (is_active_lock_of rid ''equipment_record'' u (clock s))
        (filter (is_lock_of rid ''equipment_record'') (record_locks s))"
    by (auto simp: is_active_lock_of_def intro: filter_cong)
  also have "\<dots> = [l]"
    using l filter_lock [OF assms l(1), of rid "''equipment_record''"]
    by (simp add: is_active_lock_of_def)
  finally have "ensure_lock_held rid u s = (Inr (), s)"
    by (simp add: ensure_lock_held_def run_simps)
  moreover have "locked_until ''equipment_record'' s rid u (lock_expires_at l)"
    "clock s < lock_expires_at l"
    using l by (auto simp: locked_until_def is_active_lock_of_def)
  ultimately show ?thesis by auto
next
  case False
  then have "filter (is_active_lock_of rid ''equipment_record'' u (clock s)) (record_locks s) = []"
    by (simp add: filter_empty_conv)
  then have "ensure_lock_held rid u s \<noteq> (Inr (), t)"
    by (simp add: ensure_lock_held_def run_simps)
  moreover have "\<not> (locked_until ''equipment_record'' s rid u e \<and> clock s < e)" for e
    using False by (auto simp: locked_until_def is_active_lock_of_def)
  ultimately show ?thesis by auto
qed

lemma get_record_detail_return_iff:
  "get_record_detail i s = (Inr r, t) \<longleftrightarrow>
     t = s \<and> filter (\<lambda>r. er_id r = i \<and> er_deleted_at r = None) (equipment_records s) = [r]"
  by (auto simp: get_record_detail_def run_simps split: list.splits)

lemma update_assignment_needs_lock:
  assumes "update_assignment E cred rid body s = (Inr d, t)" "locks_ok s"
  obtains u e where "get_current_user E cred s = (Inr u, s)"
    and "locked_until ''equipment_record'' s rid (usr_id u) e" "clock s < e"
proof -
  from assms(1) [unfolded update_assignment_def] show thesis
  proof (rule guarded_route_returns)
    fix u assume u: "get_current_user E cred s = (Inr u, s)"
    assume "bind (acting_role_slug u) (\<lambda>slug. seq (ensure_lock_held rid (usr_id u))
       (bind (get_record_detail rid) (\<lambda>record.
        seq (require (patch_sales_rep body \<noteq> None \<or> patch_appraiser body \<noteq> None)
               (http 422 ''no fields to update''))
        (seq (apply_assignment E record u slug body)
         (bind (acting_role_slug u) (\<lambda>slug. load_detail rid)))))) s = (Inr d, t)"
    then obtain v where "ensure_lock_held rid (usr_id u) s = (Inr (), v)"
      by (auto simp: bind_return_iff [of "acting_role_slug _"] seq_return_iff [of "ensure_lock_held _ _"]
          dest: acting_role_slug_pure)
    then show thesis using that u ensure_lock_held_iff [OF assms(2)] by blast
  qed
qed

lemma other_user_cannot_assign:
  assumes "locks_ok s" "locked_until ''equipment_record'' s rid v e" "clock s < e"
    and "update_assignment E cred rid body s = (Inr d, t)"
  obtains u where "get_current_user E cred s = (Inr u, s)" "usr_id u = v"
  using update_assignment_needs_lock [OF assms(4,1)] locked_until_unique [OF assms(1,2)] by metis

text \<open>An assignment on the record of a customer without an account is always undone.\<close>

lemma load_detail_walk_in:
  assumes "\<forall>c \<in> set (customers s). cus_id c = cid \<longrightarrow> cus_user_id c = None"
    and "\<forall>r \<in> set (equipment_records s). er_id r = rid \<longrightarrow> er_customer_id r = cid"
  shows "fst (load_detail rid s) \<noteq> Inr d"
proof
  assume "fst (load_detail rid s) = Inr d"
  then obtain t where "load_detail rid s = (Inr d, t)" by (cases "load_detail rid s") auto
  then obtain r where "filter (\<lambda>r. er_id r = rid \<and> er_deleted_at r = None) (equipment_records s) = [r]"
    and d: "detail_with r s = (Inr d, t)"
    by (auto simp: load_detail_def bind_return_iff get_record_detail_return_iff)
  then have r: "r \<in> set (equipment_records s)" "er_id r = rid" by (auto simp: filter_eq_Cons_iff)
  obtain c where c: "find (\<lambda>x. cus_id x = er_customer_id r) (customers s) = Some c"
    using d by (cases "find (\<lambda>x. cus_id x = er_customer_id r) (customers s)")
      (auto simp: detail_with_def run_simps)
  then have "c \<in> set (customers s)" "cus_id c = cid" using find_SomeD [OF c] assms(2) r by auto
  then have "cus_user_id c = None" using assms(1) by blast
  then have "find (\<lambda>u. Some (usr_id u) = cus_user_id c) (users s) = None" by (simp add: find_None_iff)
  with c d show False by (simp add: detail_with_def run_simps)
qed

lemma detail_pure: "load_detail rid s = (r, t) \<Longrightarrow> t = s"
  by (auto simp: load_detail_def detail_with_def get_record_detail_def run_simps split: list.splits option.splits prod.splits
      sum.splits)

subsection \<open>Publishing\<close>

lemma ready_to_publish_return_iff:
  "ready_to_publish r s = (Inr (), t) \<longleftrightarrow> t = s \<and> er_status r = ''esigned_pending_publish'' \<and>
     is_signed (contract_of s r) \<and> reports_of s r \<noteq> []"
  by (auto simp: ready_to_publish_def run_simps)

definition listings_unique :: "db \<Rightarrow> bool" where
  "listings_unique s \<longleftrightarrow> distinct (map pub_equipment_record_id (public_listings s)) \<and>
     distinct (map pub_id (public_listings s))"

lemma in_update_where: "x \<in> set rows \<Longrightarrow> p x \<Longrightarrow> f x \<in> set (update_where p f rows)"
  by (auto simp: update_where_def image_iff intro: bexI [of _ x])

lemma update_where_other: "x \<in> set rows \<Longrightarrow> \<not> p x \<Longrightarrow> x \<in> set (update_where p f rows)"
  by (auto simp: update_where_def image_iff intro: bexI [of _ x])

lemma put_listing_returns:
  assumes "put_listing E r s = (Inr l, t)"
  shows "pub_status l = ''active''" "pub_published_at l = Some (clock s)"
    and "pub_equipment_record_id l = er_id r" "l \<in> set (public_listings t)"
    and "t = s\<lparr>draws := draws t, public_listings := public_listings t\<rparr>"
proof -
  show "pub_status l = ''active''" "pub_published_at l = Some (clock s)"
    "pub_equipment_record_id l = er_id r"
    using assms by (auto simp: put_listing_def run_simps listing_of_def set_listing_def activate_def
        Let_def split: option.split_asm dest: find_SomeD)
  show "l \<in> set (public_listings t)"
  proof (cases "listing_of s r")
    case None
    then show ?thesis using assms by (auto simp: put_listing_def run_simps Let_def)
  next
    case (Some l0)
    then have "l0 \<in> set (public_listings s)" by (auto simp: listing_of_def dest: find_SomeD)
    with Some assms show ?thesis
      by (auto simp: put_listing_def run_simps set_listing_def intro: in_update_where)
  qed
  show "t = s\<lparr>draws := draws t, public_listings := public_listings t\<rparr>"
    using assms by (auto simp: put_listing_def run_simps set_listing_def Let_def split: option.split_asm)
qed

lemma put_listing_keeps:
  assumes "put_listing E r s = (Inr l, t)" "listings_unique s" "random_uuid E (draws s) \<notin> pub_id ` set (public_listings s)"
  shows "listings_unique t" and "l' \<in> set (public_listings s) \<Longrightarrow> pub_equipment_record_id l' \<noteq> er_id r \<Longrightarrow>
    l' \<in> set (public_listings t)"
proof -
  have new: "\<forall>l \<in> set (public_listings s). pub_equipment_record_id l \<noteq> er_id r" if "listing_of s r = None"
    using that by (simp add: listing_of_def find_None_iff)
  have old: "pub_equipment_record_id l0 = er_id r \<and> l0 \<in> set (public_listings s)" if "listing_of s r = Some l0" for l0
    using that by (auto simp: listing_of_def dest: find_SomeD)
  have up: "public_listings t = update_where (\<lambda>l. pub_id l = pub_id l0) (activate (clock s)) (public_listings s)"
    if "listing_of s r = Some l0" for l0
    using that assms(1) by (auto simp: put_listing_def run_simps set_listing_def)
  have keys: "map pub_equipment_record_id (update_where p (activate c) ls) = map pub_equipment_record_id ls"
    "map pub_id (update_where p (activate c) ls) = map pub_id ls" for p c ls
    by (induction ls) (auto simp: update_where_def activate_def)
  show "listings_unique t"
  proof (cases "listing_of s r")
    case None
    then have "er_id r \<notin> pub_equipment_record_id ` set (public_listings s)" using new by force
    with None show ?thesis using assms
      by (auto simp: listings_unique_def put_listing_def run_simps Let_def)
  next
    case (Some l0)
    then show ?thesis using assms(2) by (simp add: listings_unique_def up keys)
  qed
  show "l' \<in> set (public_listings t)"
    if "l' \<in> set (public_listings s)" "pub_equipment_record_id l' \<noteq> er_id r"
  proof (cases "listing_of s r")
    case None
    then show ?thesis using that assms(1) by (auto simp: put_listing_def run_simps Let_def)
  next
    case (Some l0)
    have "pub_id l' \<noteq> pub_id l0"
      using that old [OF Some] assms(2) by (auto simp: listings_unique_def distinct_map dest!: inj_onD)
    then show ?thesis using that(1) by (auto simp: up [OF Some] intro: update_where_other)
  qed
qed

lemma customer_of_record_pure: "customer_of_record r s = (x, t) \<Longrightarrow> t = s"
  by (auto simp: customer_of_record_def run_simps split: option.split_asm)

lemma allowed_pending_publish: "allowed ''esigned_pending_publish'' ''listed''"
  by (simp add: allowed_def forbidden_iff is_known_iff_value all_status_values_def all_status_def)

lemma publish_returns:
  assumes "publish_record E i u slug s = (Inr (rec', l), t)"
  obtains rec where
    "filter (\<lambda>r. er_id r = i \<and> er_deleted_at r = None) (equipment_records s) = [rec]"
    and "er_status rec = ''esigned_pending_publish''" "is_signed (contract_of s rec)"
    and "reports_of s rec \<noteq> []" and "rec' = rec\<lparr>er_status := ''listed''\<rparr>"
    and "equipment_records t = update_where (\<lambda>y. er_id y = i) (\<lambda>y. y\<lparr>er_status := ''listed''\<rparr>)
      (equipment_records s)"
    and "\<exists>v. put_listing E rec s = (Inr l, v) \<and> public_listings t = public_listings v"
    and "\<exists>e. status_events t = status_events s @ [e] \<and> ev_to_status e = ''listed''"
proof -
  obtain rec where rec: "filter (\<lambda>r. er_id r = i \<and> er_deleted_at r = None) (equipment_records s) = [rec]"
    and ready: "er_status rec = ''esigned_pending_publish''" "is_signed (contract_of s rec)"
      "reports_of s rec \<noteq> []"
    using assms by (auto simp: publish_record_def bind_return_iff [of "get_record_detail _"]
        get_record_detail_return_iff seq_return_iff [of "ready_to_publish _"] ready_to_publish_return_iff)
  have id: "er_id rec = i" using rec by (auto simp: filter_eq_Cons_iff)
  have "get_record_detail i s = (Inr rec, s)" "ready_to_publish rec s = (Inr (), s)"
    using rec ready by (simp_all add: get_record_detail_return_iff ready_to_publish_return_iff)
  then obtain v v' cu x w where put: "put_listing E rec s = (Inr l, v)"
    and cu: "customer_of_record rec v = (Inr cu, v')"
    and tr: "record_transition E rec ''listed'' (Some u)
      (Some ''Listing published by sales rep.'') cu None v' = (Inr x, w)"
    and t: "t = w\<lparr>audit_logs := audit_logs w @ [published_audit u slug rec l]\<rparr>" and x: "rec' = snd x"
    using assms
    by (auto simp: publish_record_def bind_run [of "get_record_detail _"] seq_run [of "ready_to_publish _"]
        bind_return_iff [of "put_listing _ _"] bind_return_iff [of "customer_of_record _"]
        bind_return_iff [of "record_transition _ _ _ _ _ _ _"] seq_return_iff add_audit_run)
  have "v' = v" by (rule customer_of_record_pure [OF cu])
  note tr = tr [unfolded this]
  note tt = transition_tables [OF tr] and pl = put_listing_returns [OF put]
  have v: "equipment_records v = equipment_records s" "status_events v = status_events s"
    by (subst pl(5), simp)+
  have "record_transition E rec ''listed'' (Some u) (Some ''Listing published by sales rep.'') cu None v =
      (Inr (fst x, snd x), w)" using tr by simp
  from record_transition_returns(2) [OF this] have ev: "ev_to_status (fst x) = ''listed''"
    by (simp add: transition_event_def)
  show thesis
  proof (rule that [OF rec ready])
    show "rec' = rec\<lparr>er_status := ''listed''\<rparr>" using tt(3) by (simp add: x)
    show "equipment_records t = update_where (\<lambda>y. er_id y = i) (\<lambda>y. y\<lparr>er_status := ''listed''\<rparr>)
      (equipment_records s)" using tt(1) by (simp add: t v id)
    show "\<exists>v. put_listing E rec s = (Inr l, v) \<and> public_listings t = public_listings v"
      using put outside_tables(4) [OF tt(6)] by (simp add: t)
    show "\<exists>e. status_events t = status_events s @ [e] \<and> ev_to_status e = ''listed''"
      using tt(2) ev by (simp add: t v)
  qed
qed

lemma publish_keeps_listings:
  assumes "publish_record E i u slug s = (Inr (rec', l), t)" "listings_unique s"
    and "random_uuid E (draws s) \<notin> pub_id ` set (public_listings s)"
  shows "listings_unique t" and "l \<in> set (public_listings t)"
    and "pub_status l = ''active''" and "pub_published_at l = Some (clock s)"
    and "pub_equipment_record_id l = er_id rec'"
proof -
  obtain rec v where *: "rec' = rec\<lparr>er_status := ''listed''\<rparr>" "put_listing E rec s = (Inr l, v)"
    "public_listings t = public_listings v" by (rule publish_returns [OF assms(1)]) blast
  show "listings_unique t"
    using put_listing_keeps(1) [OF *(2) assms(2,3)] *(3) by (simp add: listings_unique_def)
  show "l \<in> set (public_listings t)" "pub_status l = ''active''" "pub_published_at l = Some (clock s)"
    "pub_equipment_record_id l = er_id rec'"
    using put_listing_returns(1-4) [OF *(2)] * by simp_all
qed

lemma publish_succeeds:
  assumes rec: "filter (\<lambda>r. er_id r = i \<and> er_deleted_at r = None) (equipment_records s) = [rec]"
    and st: "er_status rec = ''esigned_pending_publish''" and con: "is_signed (contract_of s rec)"
    and rep: "reports_of s rec \<noteq> []" and cus: "\<exists>c \<in> set (customers s). cus_id c = er_customer_id rec"
    and ready: "notify_ready E s"
  shows "\<exists>l t. publish_record E i u slug s = (Inr (rec\<lparr>er_status := ''listed''\<rparr>, l), t)"
proof -
  obtain l v where put: "put_listing E rec s = (Inr l, v)"
    by (cases "listing_of s rec") (auto simp: put_listing_def run_simps set_listing_def Let_def)
  have v: "v = s\<lparr>draws := draws v, public_listings := public_listings v\<rparr>"
    by (rule put_listing_returns(5) [OF put])
  have "customers v = customers s" by (subst v) simp
  then obtain cu where cu: "customer_of_record rec v = (Inr cu, v)"
    using cus by (cases "find (\<lambda>c. cus_id c = er_customer_id rec) (customers s)")
      (auto simp: customer_of_record_def run_simps find_None_iff)
  have "notify_ready E v"
    by (subst v) (use ready in \<open>simp add: notify_ready_def recipients_ok_def overrides_ok_def\<close>)
  moreover have "allowed (er_status rec) ''listed''" by (simp add: st allowed_pending_publish)
  ultimately obtain x w where tr: "record_transition E rec ''listed'' (Some u)
      (Some ''Listing published by sales rep.'') cu None v = (Inr x, w)"
    using record_transition_succeeds by metis
  have "snd x = rec\<lparr>er_status := ''listed''\<rparr>" by (rule transition_tables(3) [OF tr])
  then show ?thesis
    using rec st con rep put cu tr
    by (auto simp: publish_record_def run_simps get_record_detail_return_iff [THEN iffD2]
        ready_to_publish_return_iff [THEN iffD2] split: prod.splits)
qed

subsection \<open>The cascade\<close>

lemma check_assignees_pure: "check_assignees body s = (x, t) \<Longrightarrow> t = s"
  by (auto simp: check_assignees_def require_user_has_role_def slug_of_user_def run_simps split: option.split_asm
      list.split_asm if_splits prod.split_asm sum.split_asm)

lemma cascade_returns:
  assumes "cascade_assignment cid u slug body s = (Inr (updated, skipped), t)"
  shows "equipment_records t = update_where (in_cascade cid) (assigned body) (equipment_records s)"
    and "updated = map er_id (filter (in_cascade cid) (equipment_records s))"
    and "set skipped = er_id ` {r \<in> set (equipment_records s). er_customer_id r = cid \<and>
      er_deleted_at r = None \<and> er_status r \<noteq> ''new_request''}"
    and "notification_jobs t = notification_jobs s" and "status_events t = status_events s"
proof -
  obtain v where v: "check_assignees body s = (Inr (), v)"
    using assms by (auto simp: cascade_assignment_def bind_return_iff seq_return_iff require_return_iff
        select_one_return_iff)
  have "v = s" by (rule check_assignees_pure [OF v])
  with v have "check_assignees body s = (Inr (), s)" by simp
  note run = assms [unfolded cascade_assignment_def]
  have "\<exists>a. t = s\<lparr>equipment_records := update_where (in_cascade cid) (assigned body) (equipment_records s),
      audit_logs := audit_logs s @ [a]\<rparr> \<and>
    updated = map er_id (filter (\<lambda>r. er_status r \<in> CASCADE_ASSIGNABLE_STATUSES)
      (filter (\<lambda>r. er_customer_id r = cid \<and> er_deleted_at r = None) (equipment_records s))) \<and>
    skipped = map er_id (filter (\<lambda>r. er_status r \<notin> CASCADE_ASSIGNABLE_STATUSES)
      (filter (\<lambda>r. er_customer_id r = cid \<and> er_deleted_at r = None) (equipment_records s)))"
    using run \<open>check_assignees body s = (Inr (), s)\<close>
    by (auto simp: bind_return_iff [of "select_one _ _"] select_one_return_iff seq_return_iff
        require_return_iff bind_return_iff [of "reads _"] add_audit_run Let_def)
  then obtain a where t: "t = s\<lparr>equipment_records := update_where (in_cascade cid) (assigned body)
      (equipment_records s), audit_logs := audit_logs s @ [a]\<rparr>"
    and u: "updated = map er_id (filter (\<lambda>r. er_status r \<in> CASCADE_ASSIGNABLE_STATUSES)
      (filter (\<lambda>r. er_customer_id r = cid \<and> er_deleted_at r = None) (equipment_records s)))"
    and k: "skipped = map er_id (filter (\<lambda>r. er_status r \<notin> CASCADE_ASSIGNABLE_STATUSES)
      (filter (\<lambda>r. er_customer_id r = cid \<and> er_deleted_at r = None) (equipment_records s)))" by blast
  show "equipment_records t = update_where (in_cascade cid) (assigned body) (equipment_records s)"
    "notification_jobs t = notification_jobs s" "status_events t = status_events s"
    by (simp_all add: t)
  show "updated = map er_id (filter (in_cascade cid) (equipment_records s))"
    unfolding u filter_filter
    by (rule arg_cong [where f = "map er_id"], rule filter_cong [OF refl]) (auto simp: in_cascade_def)
  show "set skipped = er_id ` {r \<in> set (equipment_records s). er_customer_id r = cid \<and>
      er_deleted_at r = None \<and> er_status r \<noteq> ''new_request''}"
    by (auto simp: k CASCADE_ASSIGNABLE_STATUSES_def)
qed

lemma assigned_same:
  "er_status (assigned body r) = er_status r" "er_id (assigned body r) = er_id r"
  "er_customer_id (assigned body r) = er_customer_id r"
  by (simp_all add: assigned_def)

context queue_relation
begin

lemma confined_enqueue_assignment: "confined R (enqueue_assignment_notification E r i tr)"
  unfolding enqueue_assignment_notification_def assignment_push_def
  by (intro queue_intros confined_tokens_for_user)

end

lemma apply_assignment_returns:
  assumes "apply_assignment E rec u slug body s = (Inr x, t)"
  obtains a where "business t = business (s\<lparr>equipment_records := update_where (\<lambda>y. er_id y = er_id rec)
      (assigned body) (equipment_records s), audit_logs := audit_logs s @ [a]\<rparr>)"
    and "x = assigned body rec" and "check_assignees body s = (Inr (), s)"
proof -
  let ?u = "\<lambda>a. s\<lparr>equipment_records := update_where (\<lambda>y. er_id y = er_id rec)
      (assigned body) (equipment_records s), audit_logs := audit_logs s @ [a]\<rparr>"
  let ?n = "case patch_sales_rep body of
       Some (Some i) \<Rightarrow> when_true (er_assigned_sales_rep_id rec \<noteq> Some i)
         (enqueue_assignment_notification E (assigned body rec) i ''manual_override'')
     | _ \<Rightarrow> ret ()"
  obtain v where v: "check_assignees body s = (Inr (), v)"
    using assms by (auto simp: apply_assignment_def Let_def seq_return_iff [of "check_assignees _"])
  then have v: "check_assignees body s = (Inr (), s)" using check_assignees_pure by metis
  then obtain a where n: "?n (?u a) = (Inr (), t)" and x: "x = assigned body rec"
    using assms by (auto simp: apply_assignment_def Let_def seq_run [of "check_assignees _"]
        seq_run [of "writes _"] seq_run [of "add_audit _"] add_audit_run seq_return_iff)
  have "confined (same business) ?n"
    by (auto intro!: business_frame.queue_intros business_frame.confined_enqueue_assignment split: option.split)
  from that [OF confined_sameD [OF this n] x v] show thesis .
qed

lemma apply_assignment_tables:
  assumes "apply_assignment E rec u slug body s = (Inr x, t)"
  shows "customers t = customers s"
    and "equipment_records t = update_where (\<lambda>y. er_id y = er_id rec) (assigned body) (equipment_records s)"
proof -
  obtain a where b: "business t = business (s\<lparr>equipment_records := update_where (\<lambda>y. er_id y = er_id rec)
      (assigned body) (equipment_records s), audit_logs := audit_logs s @ [a]\<rparr>)"
    by (rule apply_assignment_returns [OF assms])
  show "customers t = customers s"
    using arg_cong [OF b, of customers] by (simp add: business_def)
  show "equipment_records t = update_where (\<lambda>y. er_id y = er_id rec) (assigned body) (equipment_records s)"
    using arg_cong [OF b, of equipment_records] by (simp add: business_def)
qed

lemma update_assignment_detail:
  assumes "update_assignment E cred rid body s = (Inr d, t)"
    and "\<forall>c \<in> set (customers s). cus_id c = cid \<longrightarrow> cus_user_id c = None"
    and "\<forall>r \<in> set (equipment_records s). er_id r = rid \<longrightarrow> er_customer_id r = cid"
  shows False
  using assms(1) [unfolded update_assignment_def]
proof (rule guarded_route_returns)
  fix u
  assume "bind (acting_role_slug u) (\<lambda>slug. seq (ensure_lock_held rid (usr_id u))
     (bind (get_record_detail rid) (\<lambda>record.
      seq (require (patch_sales_rep body \<noteq> None \<or> patch_appraiser body \<noteq> None)
             (http 422 ''no fields to update''))
      (seq (apply_assignment E record u slug body)
       (bind (acting_role_slug u) (\<lambda>slug. load_detail rid)))))) s = (Inr d, t)"
  then obtain rec slug x v w where rec: "get_record_detail rid s = (Inr rec, s)"
    and ap: "apply_assignment E rec u slug body s = (Inr x, v)"
    and d: "load_detail rid v = (Inr d, t)"
    by (auto simp: bind_return_iff [of "acting_role_slug _"] seq_return_iff require_return_iff
        ensure_lock_held_def bind_return_iff [of now] bind_return_iff [of "select_one _ _"]
        bind_return_iff [of "get_record_detail _"] now_run select_one_return_iff
        get_record_detail_return_iff dest!: acting_role_slug_pure)
  have cu: "customers v = customers s"
    by (rule apply_assignment_tables(1) [OF ap])
  have er: "equipment_records v = update_where (\<lambda>y. er_id y = er_id rec) (assigned body) (equipment_records s)"
    by (rule apply_assignment_tables(2) [OF ap])
  have "fst (load_detail rid v) = Inr d" using d by simp
  moreover have "\<forall>r \<in> set (equipment_records v). er_id r = rid \<longrightarrow> er_customer_id r = cid"
    using assms(3) by (auto simp: er update_where_def assigned_same)
  ultimately show False using load_detail_walk_in [of v cid rid d] assms(2) by (simp add: cu)
qed

end
