(* ===== verification/Photos.thy ===== *)
theory Photos
  imports Submissions Sales
begin

section \<open>Photo uploads\<close>

text \<open>
  \<^verbatim>\<open>api/services/photo_upload_service.py\<close> (the customer's intake photos) and
  \<^verbatim>\<open>api/services/appraisal_photo_service.py\<close> (the appraiser's photos) with their schemas and routes.
  Both hand out a signed upload address together with a storage key under the owner's prefix, and
  later accept the key together with the photo's data. The signature is a parameter (\<open>presign\<close>), the
  object storage itself is outside the model.
\<close>

subsection \<open>Storage keys\<close>

definition IMAGE_CONTENT_TYPES :: "string list" where
  "IMAGE_CONTENT_TYPES = [''image/jpeg'', ''image/png'', ''image/webp'', ''image/heic'', ''image/heif'']"

definition IMAGE_EXTENSIONS :: "string list" where
  "IMAGE_EXTENSIONS = [''jpg'', ''jpeg'', ''png'', ''webp'', ''heic'', ''heif'']"

definition CONTENT_TYPE_TO_EXT :: "(string \<times> string) list" where
  "CONTENT_TYPE_TO_EXT = [(''image/jpeg'', ''jpg''), (''image/png'', ''png''), (''image/webp'', ''webp''),
     (''image/heic'', ''heic''), (''image/heif'', ''heif'')]"

definition PRESIGNED_URL_EXPIRY_SECONDS :: int where "PRESIGNED_URL_EXPIRY_SECONDS = 900"

text \<open>\<^verbatim>\<open>PurePosixPath(filename).suffix\<close>.\<close>

definition path_name :: "string \<Rightarrow> string" where
  "path_name filename =
     (case rev (filter (\<lambda>p. p \<noteq> '''' \<and> p \<noteq> ''.'') (split_on CHR ''/'' filename)) of
        [] \<Rightarrow> '''' | p # _ \<Rightarrow> p)"

definition path_suffix :: "string \<Rightarrow> string" where
  "path_suffix filename =
     (let r = rev (path_name filename);
          ext = rev (takeWhile (\<lambda>c. c \<noteq> CHR ''.'') r);
          rest = dropWhile (\<lambda>c. c \<noteq> CHR ''.'') r
      in if ext = '''' \<or> length rest \<le> 1 then '''' else CHR ''.'' # ext)"

definition normalize_extension :: "string \<Rightarrow> string op" where
  "normalize_extension filename =
     (let ext = lower (dropWhile (\<lambda>c. c = CHR ''.'') (path_suffix filename))
      in seq (require (ext \<in> set IMAGE_EXTENSIONS)
           (http 422 (''Unsupported file extension. Allowed: ['' @
              join '', '' (map quoted (sort IMAGE_EXTENSIONS)) @ ''].'')))
         (ret ext))"

definition validate_intake_content_type :: "string \<Rightarrow> unit op" where
  "validate_intake_content_type content_type =
     require (lower content_type \<in> set IMAGE_CONTENT_TYPES)
       (http 422 ''Only image uploads are allowed for customer intake photos.'')"

definition validate_appraisal_content_type :: "string \<Rightarrow> unit op" where
  "validate_appraisal_content_type content_type =
     require (lower content_type \<in> set IMAGE_CONTENT_TYPES)
       (http 422 ''Only image uploads are allowed for appraisal photos.'')"

definition intake_prefix :: "uuid \<Rightarrow> string" where
  "intake_prefix record_id = ''photos/'' @ uuid_str record_id @ ''/''"

definition appraisal_prefix :: "uuid \<Rightarrow> string" where
  "appraisal_prefix submission_id = ''appraisal-photos/'' @ uuid_str submission_id @ ''/''"

definition build_storage_key :: "env \<Rightarrow> uuid \<Rightarrow> string \<Rightarrow> string op" where
  "build_storage_key E equipment_record_id filename =
     bind (normalize_extension filename) (\<lambda>ext.
     bind (uuid4 E) (\<lambda>u. ret (intake_prefix equipment_record_id @ uuid_str u @ ''.'' @ ext)))"

definition build_appraisal_key :: "env \<Rightarrow> uuid \<Rightarrow> string \<Rightarrow> string op" where
  "build_appraisal_key E submission_id content_type =
     (let ext = (case map_of CONTENT_TYPE_TO_EXT (lower content_type) of None \<Rightarrow> ''jpg'' | Some e \<Rightarrow> e)
      in bind (uuid4 E) (\<lambda>u. ret (appraisal_prefix submission_id @ uuid_str u @ ''.'' @ ext)))"

text \<open>A key under the prefix must be a UUID, one dot and an image extension.\<close>

definition key_format_ok :: "string \<Rightarrow> bool" where
  "key_format_ok remainder \<longleftrightarrow>
     (case split_on CHR ''.'' remainder of
        [base, ext] \<Rightarrow> lower ext \<in> set IMAGE_EXTENSIONS \<and> uuid_parse base \<noteq> None
      | _ \<Rightarrow> False)"

definition validate_key :: "string \<Rightarrow> string \<Rightarrow> string \<Rightarrow> unit op" where
  "validate_key prefix foreign storage_key =
     seq (require (starts_with storage_key prefix) (http 422 foreign))
     (require (key_format_ok (drop (length prefix) storage_key))
        (http 422 ''storage_key format is invalid.''))"

definition sha256_ok :: "string \<Rightarrow> bool" where
  "sha256_ok s \<longleftrightarrow> char_count s = 64 \<and> list_all (\<lambda>c. c \<in> set ''0123456789abcdef'') (lower s)"

definition validate_finalize_inputs :: "string \<Rightarrow> uuid \<Rightarrow> string \<Rightarrow> string option \<Rightarrow> unit op" where
  "validate_finalize_inputs storage_key equipment_record_id content_type sha256 =
     seq (validate_intake_content_type content_type)
     (seq (validate_key (intake_prefix equipment_record_id)
             ''storage_key does not belong to this equipment record.'' storage_key)
     (require (case sha256 of None \<Rightarrow> True | Some h \<Rightarrow> sha256_ok h)
        (http 422 ''sha256 must be 64 hex characters.'')))"

definition validate_storage_key :: "string \<Rightarrow> uuid \<Rightarrow> unit op" where
  "validate_storage_key storage_key submission_id =
     validate_key (appraisal_prefix submission_id) ''storage_key does not belong to this submission.''
       storage_key"

subsection \<open>Signed addresses\<close>

definition r2_client :: "env \<Rightarrow> unit op" where
  "r2_client E = require (cfg_r2_access_key_id E \<noteq> '''' \<and> cfg_r2_secret_access_key E \<noteq> '''')
     (http 503 ''Object storage is not configured. Contact support.'')"

definition presigned_put :: "env \<Rightarrow> string \<Rightarrow> string \<Rightarrow> string" where
  "presigned_put E storage_key content_type =
     presign E [(''ClientMethod'', JStr ''put_object''), (''Bucket'', JStr (cfg_r2_bucket_photos E)),
       (''Key'', JStr storage_key), (''ContentType'', JStr content_type),
       (''ExpiresIn'', JInt PRESIGNED_URL_EXPIRY_SECONDS), (''HttpMethod'', JStr ''PUT'')]"

record upload_intent =
  upi_upload_url :: string
  upi_storage_key :: string
  upi_expires_in :: int

definition generate_upload_intent :: "env \<Rightarrow> uuid \<Rightarrow> string \<Rightarrow> string \<Rightarrow> upload_intent op" where
  "generate_upload_intent E equipment_record_id filename content_type =
     seq (validate_intake_content_type content_type)
     (bind (build_storage_key E equipment_record_id filename) (\<lambda>storage_key.
      seq (r2_client E)
      (ret \<lparr>upi_upload_url = presigned_put E storage_key content_type, upi_storage_key = storage_key,
            upi_expires_in = PRESIGNED_URL_EXPIRY_SECONDS\<rparr>)))"

definition generate_appraisal_upload :: "env \<Rightarrow> uuid \<Rightarrow> string \<Rightarrow> user \<Rightarrow> upload_intent op" where
  "generate_appraisal_upload E submission_id content_type user =
     seq (validate_appraisal_content_type content_type)
     (bind (fetch_submission submission_id) (\<lambda>submission.
      seq (check_access submission user)
      (bind (build_appraisal_key E submission_id content_type) (\<lambda>storage_key.
       seq (r2_client E)
       (ret \<lparr>upi_upload_url = presigned_put E storage_key content_type, upi_storage_key = storage_key,
             upi_expires_in = PRESIGNED_URL_EXPIRY_SECONDS\<rparr>)))))"

subsection \<open>The appraiser's photos\<close>

record photo_in =
  phi_slot_label :: string
  phi_storage_key :: string
  phi_sha256 :: "string option"
  phi_content_type :: string
  phi_file_size_bytes :: "int option"
  phi_capture_timestamp :: "datetime option"
  phi_gps_timestamp :: "datetime option"
  phi_gps_latitude :: "rat option"
  phi_gps_longitude :: "rat option"
  phi_gps_missing :: bool
  phi_gps_out_of_range :: bool

definition photo_in_ok :: "photo_in \<Rightarrow> bool" where
  "photo_in_ok p \<longleftrightarrow> (case phi_sha256 p of None \<Rightarrow> True | Some h \<Rightarrow> sha256_ok h)"

definition new_photo :: "uuid \<Rightarrow> uuid \<Rightarrow> photo_in \<Rightarrow> datetime \<Rightarrow> appraisal_photo" where
  "new_photo i submission_id p t =
     \<lparr>aph_id = i, aph_submission_id = submission_id, aph_slot_label = phi_slot_label p,
      aph_gcs_path = phi_storage_key p, aph_capture_timestamp = phi_capture_timestamp p,
      aph_gps_latitude = phi_gps_latitude p, aph_gps_longitude = phi_gps_longitude p,
      aph_gps_missing = phi_gps_missing p, aph_gps_out_of_range = phi_gps_out_of_range p,
      aph_file_size_bytes = phi_file_size_bytes p, aph_sha256 = phi_sha256 p,
      aph_content_type = Some (phi_content_type p), aph_gps_timestamp = phi_gps_timestamp p,
      aph_created_at = t, aph_deleted_at = None\<rparr>"

definition in_photo_slot :: "uuid \<Rightarrow> string \<Rightarrow> appraisal_photo \<Rightarrow> bool" where
  "in_photo_slot submission_id label p \<longleftrightarrow>
     aph_submission_id p = submission_id \<and> aph_slot_label p = label \<and> aph_deleted_at p = None"

text \<open>The unique index on the path spans the replaced photos too.\<close>

definition insert_photo :: "appraisal_photo \<Rightarrow> unit op" where
  "insert_photo p =
     bind (reads (\<lambda>s. find (\<lambda>q. aph_gcs_path q = aph_gcs_path p) (appraisal_photos s))) (\<lambda>taken.
     seq (require (taken = None) (IntegrityError ''uq_appraisal_photos_gcs_path''))
     (writes (\<lambda>s. s\<lparr>appraisal_photos := appraisal_photos s @ [p]\<rparr>)))"

definition finalize :: "env \<Rightarrow> uuid \<Rightarrow> photo_in \<Rightarrow> user \<Rightarrow> appraisal_photo op" where
  "finalize E submission_id p user =
     seq (validate_appraisal_content_type (phi_content_type p))
     (seq (validate_storage_key (phi_storage_key p) submission_id)
     (bind (fetch_submission submission_id) (\<lambda>submission.
      seq (check_access submission user)
      (bind now (\<lambda>t.
       seq (writes (\<lambda>s. s\<lparr>appraisal_photos := update_where (in_photo_slot submission_id (phi_slot_label p))
              (\<lambda>q. q\<lparr>aph_deleted_at := Some t\<rparr>) (appraisal_photos s)\<rparr>))
       (bind (uuid4 E) (\<lambda>i.
        let photo = new_photo i submission_id p t
        in seq (insert_photo photo) (ret photo))))))))"

definition upload_url_route :: "env \<Rightarrow> string option \<Rightarrow> uuid \<Rightarrow> string \<Rightarrow> upload_intent op" where
  "upload_url_route E cred submission_id content_type =
     guarded_route E APPRAISERS cred (\<lambda>current_user.
       map_exn access_http (generate_appraisal_upload E submission_id content_type current_user))"

definition finalize_photo_route :: "env \<Rightarrow> string option \<Rightarrow> uuid \<Rightarrow> photo_in \<Rightarrow> appraisal_photo op" where
  "finalize_photo_route E cred submission_id p =
     guarded_route E APPRAISERS cred (\<lambda>current_user.
       seq (require (photo_in_ok p) (http 422 ''validation error''))
       (map_exn access_http (finalize E submission_id p current_user)))"

subsection \<open>The customer's photos\<close>

record intake_photo_in =
  ipi_storage_key :: string
  ipi_content_type :: string
  ipi_caption :: "string option"
  ipi_display_order :: int
  ipi_sha256 :: "string option"

definition chars_within :: "nat \<Rightarrow> nat \<Rightarrow> string \<Rightarrow> bool" where
  "chars_within lo hi x \<longleftrightarrow> lo \<le> char_count x \<and> char_count x \<le> hi"

definition upload_request_ok :: "string \<Rightarrow> string \<Rightarrow> bool" where
  "upload_request_ok filename content_type \<longleftrightarrow> chars_within 1 255 filename \<and> chars_within 1 100 content_type"

definition intake_photo_in_ok :: "intake_photo_in \<Rightarrow> bool" where
  "intake_photo_in_ok p \<longleftrightarrow> chars_within 1 255 (ipi_storage_key p) \<and> chars_within 1 100 (ipi_content_type p) \<and>
     up_to 1000 (ipi_caption p) \<and> 0 \<le> ipi_display_order p \<and> ipi_display_order p \<le> 99 \<and>
     (case ipi_sha256 p of None \<Rightarrow> True | Some h \<Rightarrow> chars_within 64 64 h)"

definition finalize_intake_photo :: "env \<Rightarrow> equipment_record \<Rightarrow> intake_photo_in \<Rightarrow> intake_photo op" where
  "finalize_intake_photo E record p =
     bind (uuid4 E) (\<lambda>i.
     bind now (\<lambda>t.
     let photo = \<lparr>ip_id = i, ip_equipment_record_id = er_id record, ip_storage_key = ipi_storage_key p,
           ip_caption = sanitize_plain E (ipi_caption p), ip_display_order = ipi_display_order p,
           ip_uploaded_at = t, ip_scan_status = ''pending'', ip_content_type = Some (ipi_content_type p),
           ip_sha256 = (if str_truthy (ipi_sha256 p) then map_option lower (ipi_sha256 p) else None)\<rparr>
     in seq (writes (\<lambda>s. s\<lparr>intake_photos := intake_photos s @ [photo]\<rparr>)) (ret photo)))"

definition request_photo_upload_url ::
  "env \<Rightarrow> string option \<Rightarrow> uuid \<Rightarrow> string \<Rightarrow> string \<Rightarrow> upload_intent op" where
  "request_photo_upload_url E cred record_id filename content_type =
     guarded_route E [''customer''] cred (\<lambda>current_user.
       seq (require (upload_request_ok filename content_type) (http 422 ''validation error''))
       (bind (get_record_for_user current_user record_id) (\<lambda>record.
        generate_upload_intent E (er_id record) filename content_type)))"

definition finalize_intake_photo_route ::
  "env \<Rightarrow> string option \<Rightarrow> uuid \<Rightarrow> intake_photo_in \<Rightarrow> intake_photo op" where
  "finalize_intake_photo_route E cred record_id p =
     guarded_route E [''customer''] cred (\<lambda>current_user.
       seq (require (intake_photo_in_ok p) (http 422 ''validation error''))
       (bind (get_record_for_user current_user record_id) (\<lambda>record.
        seq (validate_finalize_inputs (ipi_storage_key p) (er_id record) (ipi_content_type p) (ipi_sha256 p))
        (finalize_intake_photo E record p))))"

end
