(* ===== verification/Maps.thy ===== *)
theory Maps
  imports ChangeRequests
begin

section \<open>The map services behind their caches\<close>

text \<open>
  \<^verbatim>\<open>api/services/google_maps_service.py\<close>: geocoding and driving times, read through two cache
  tables. The HTTP request is the parameter \<open>google_get\<close>: the decoded JSON body, or nothing when
  the request or the decoding failed. The code catches \<^verbatim>\<open>HTTPError\<close>, \<^verbatim>\<open>ValueError\<close> and \<^verbatim>\<open>KeyError\<close>;
  a body of an unexpected shape can still raise \<^verbatim>\<open>AttributeError\<close> or \<^verbatim>\<open>TypeError\<close>.
\<close>

definition cache_key :: "env \<Rightarrow> string \<Rightarrow> string" where
  "cache_key E v = sha256_hex E (lower (strip v))"

subsection \<open>Reading a JSON body\<close>

text \<open>\<^verbatim>\<open>x.get(k)\<close> and \<^verbatim>\<open>x[0]\<close> on whatever the provider sent.\<close>

definition py_get :: "json \<Rightarrow> string \<Rightarrow> json op" where
  "py_get j k = (case j of JObj kvs \<Rightarrow> ret (obj_get kvs k) | _ \<Rightarrow> raise (AttributeError ''get''))"

fun py_first :: "json \<Rightarrow> json op" where
  "py_first (JArr (x # xs)) = ret x"
| "py_first (JStr (c # cs)) = ret (JStr [c])"
| "py_first (JObj kvs) = raise (KeyError ''0'')"
| "py_first _ = raise (TypeError ''not subscriptable'')"

definition or_empty :: "json \<Rightarrow> json" where
  "or_empty j = (if json_truthy j then j else JObj [])"

definition parse_distance_matrix :: "json \<Rightarrow> int option op" where
  "parse_distance_matrix body =
     bind (py_get body ''status'') (\<lambda>status.
     if status \<noteq> JStr ''OK'' then ret None
     else
       bind (py_get body ''rows'') (\<lambda>rows.
       if \<not> json_truthy rows then ret None
       else
         bind (py_first rows) (\<lambda>row.
         bind (py_get row ''elements'') (\<lambda>elements.
         if \<not> json_truthy elements then ret None
         else
           bind (py_first elements) (\<lambda>el.
           bind (py_get el ''status'') (\<lambda>el_status.
           if el_status \<noteq> JStr ''OK'' then ret None
           else
             bind (py_get el ''duration_in_traffic'') (\<lambda>traffic.
             bind (if json_truthy traffic then ret traffic else py_get el ''duration'') (\<lambda>duration.
             ret (case duration of JObj kvs \<Rightarrow> as_int (obj_get kvs ''value'') | _ \<Rightarrow> None)))))))))"

definition parse_geocode :: "json \<Rightarrow> (rat \<times> rat) option op" where
  "parse_geocode body =
     bind (py_get body ''status'') (\<lambda>status.
     if status \<noteq> JStr ''OK'' then ret None
     else
       bind (py_get body ''results'') (\<lambda>results.
       if \<not> json_truthy results then ret None
       else
         bind (py_first results) (\<lambda>result.
         bind (py_get result ''geometry'') (\<lambda>geometry.
         bind (py_get (or_empty geometry) ''location'') (\<lambda>found.
         bind (py_get (or_empty found) ''lat'') (\<lambda>lat.
         bind (py_get (or_empty found) ''lng'') (\<lambda>lon.
         ret (case (json_number lat, json_number lon) of
                (Some a, Some b) \<Rightarrow> Some (a, b)
              | _ \<Rightarrow> None))))))))"

subsection \<open>Requests behind the cache\<close>

text \<open>\<^verbatim>\<open>except (httpx.HTTPError, ValueError, KeyError): return None\<close>.\<close>

definition none_on_bad_body :: "'a option op \<Rightarrow> 'a option op" where
  "none_on_bad_body m =
     bind (attempt m) (\<lambda>r.
     case r of
       Inr x \<Rightarrow> ret x
     | Inl (ValueError _) \<Rightarrow> ret None
     | Inl (KeyError _) \<Rightarrow> ret None
     | Inl e \<Rightarrow> raise e)"

definition upsert_drive_time :: "drive_time_cache \<Rightarrow> unit op" where
  "upsert_drive_time row =
     (let hit = (\<lambda>c. dtc_origin_hash c = dtc_origin_hash row \<and> dtc_dest_hash c = dtc_dest_hash row)
      in writes (\<lambda>s. s\<lparr>drive_times :=
           (if \<exists>c \<in> set (drive_times s). hit c then update_where hit (\<lambda>_. row) (drive_times s)
            else drive_times s @ [row])\<rparr>))"

definition upsert_geocode :: "geocode_cache \<Rightarrow> unit op" where
  "upsert_geocode row =
     (let hit = (\<lambda>c. gc_address_hash c = gc_address_hash row)
      in writes (\<lambda>s. s\<lparr>geocodes :=
           (if \<exists>c \<in> set (geocodes s). hit c then update_where hit (\<lambda>_. row) (geocodes s)
            else geocodes s @ [row])\<rparr>))"

definition DRIVE_TIME_TTL :: int where "DRIVE_TIME_TTL = seconds (6 * 3600)"
definition GEOCODE_TTL :: int where "GEOCODE_TTL = seconds (30 * 86400)"

definition DISTANCE_MATRIX_URL :: string where
  "DISTANCE_MATRIX_URL = ''https://maps.googleapis.com/maps/api/distancematrix/json''"

definition GEOCODE_URL :: string where
  "GEOCODE_URL = ''https://maps.googleapis.com/maps/api/geocode/json''"

definition get_drive_time_seconds :: "env \<Rightarrow> string \<Rightarrow> string \<Rightarrow> int option op" where
  "get_drive_time_seconds E origin destination =
     (if origin = '''' \<or> destination = '''' then ret None
      else
        let o_hash = cache_key E origin; d_hash = cache_key E destination in
        bind now (\<lambda>t.
        bind (select_one drive_times (\<lambda>c. dtc_origin_hash c = o_hash \<and> dtc_dest_hash c = d_hash \<and>
                dtc_expires_at c > t)) (\<lambda>cached.
        case cached of
          Some c \<Rightarrow> ret (Some (dtc_duration_seconds c))
        | None \<Rightarrow>
            if cfg_google_maps_api_key E = '''' then ret None
            else
              bind (case google_get E DISTANCE_MATRIX_URL
                      [(''origins'', origin), (''destinations'', destination), (''mode'', ''driving''),
                       (''departure_time'', ''now''), (''key'', cfg_google_maps_api_key E)] of
                      None \<Rightarrow> ret None
                    | Some body \<Rightarrow> none_on_bad_body (parse_distance_matrix body)) (\<lambda>found.
              case found of
                None \<Rightarrow> ret None
              | Some n \<Rightarrow>
                  seq (upsert_drive_time \<lparr>dtc_origin_hash = o_hash, dtc_dest_hash = d_hash,
                         dtc_duration_seconds = n, dtc_fetched_at = t,
                         dtc_expires_at = t + DRIVE_TIME_TTL\<rparr>)
                    (ret (Some n))))))"

definition geocode :: "env \<Rightarrow> string \<Rightarrow> (rat \<times> rat) option op" where
  "geocode E address =
     (if address = '''' then ret None
      else
        let a_hash = cache_key E address in
        bind now (\<lambda>t.
        bind (select_one geocodes (\<lambda>c. gc_address_hash c = a_hash \<and> gc_expires_at c > t)) (\<lambda>cached.
        case cached of
          Some c \<Rightarrow> ret (Some (gc_lat c, gc_lon c))
        | None \<Rightarrow>
            if cfg_google_maps_api_key E = '''' then ret None
            else
              bind (case google_get E GEOCODE_URL
                      [(''address'', address), (''key'', cfg_google_maps_api_key E)] of
                      None \<Rightarrow> ret None
                    | Some body \<Rightarrow> none_on_bad_body (parse_geocode body)) (\<lambda>found.
              case found of
                None \<Rightarrow> ret None
              | Some (lat, lon) \<Rightarrow>
                  seq (upsert_geocode \<lparr>gc_address_hash = a_hash, gc_lat = lat, gc_lon = lon,
                         gc_fetched_at = t, gc_expires_at = t + GEOCODE_TTL\<rparr>)
                    (ret (Some (lat, lon)))))))"

definition read_drive_time_fallback_minutes :: "json op" where
  "read_drive_time_fallback_minutes = get_typed (ks_name DRIVE_TIME_FALLBACK_MINUTES)"

subsection \<open>What a body can do\<close>

context db_relation
begin

lemma confined_none_on_bad_body:
  assumes "confined R m"
  shows "confined R (none_on_bad_body m)"
  unfolding none_on_bad_body_def
proof (rule confined_bind [OF confined_attempt [OF assms]])
  fix r
  show "confined R (case r of Inr x \<Rightarrow> ret x | Inl (ValueError _) \<Rightarrow> ret None
      | Inl (KeyError _) \<Rightarrow> ret None | Inl e \<Rightarrow> raise e)"
  proof (cases r)
    case (Inl e)
    then show ?thesis by (cases e) (simp_all add: confined_ret confined_raise)
  qed (simp add: confined_ret)
qed

lemma confined_py_get: "confined R (py_get j k)"
  by (cases j) (simp_all add: py_get_def confined_ret confined_raise)

lemma confined_py_first: "confined R (py_first j)"
  by (cases j rule: py_first.cases) (simp_all add: confined_ret confined_raise)

end

end
