(* ===== verification/LeadRouting.thy ===== *)
theory LeadRouting
  imports Maps Sales
begin

section \<open>Lead routing\<close>

text \<open>
  \<^verbatim>\<open>api/services/lead_routing_service.py\<close>, \<^verbatim>\<open>api/schemas/routing.py\<close> and
  \<^verbatim>\<open>api/routers/admin_routing.py\<close>: the waterfall ad hoc, geographic, round robin, default rep that
  assigns a new record, and the administration of its rules. The conditions of a rule are stored
  as JSON and read defensively at run time, as the code does. Coordinates are rational, the
  great-circle distance is a real number. How Pydantic reads a UUID or a float of a condition is a
  parameter, and the text of its error messages is not modelled.
\<close>

subsection \<open>Numbers in conditions\<close>

text \<open>\<^verbatim>\<open>float(s)\<close> without the infinities and NaN: digits with single underscores between them.\<close>

fun digit_part :: "string \<Rightarrow> string option" where
  "digit_part [] = None"
| "digit_part [c] = (if is_digit_char c then Some [c] else None)"
| "digit_part (c # d # cs) =
     (if \<not> is_digit_char c then None
      else if d = CHR ''_'' then map_option ((#) c) (digit_part cs)
      else map_option ((#) c) (digit_part (d # cs)))"

definition before :: "char \<Rightarrow> string \<Rightarrow> string" where
  "before c s = takeWhile (\<lambda>x. x \<noteq> c) s"

definition after :: "char \<Rightarrow> string \<Rightarrow> string" where
  "after c s = drop 1 (dropWhile (\<lambda>x. x \<noteq> c) s)"

definition signed :: "string \<Rightarrow> rat \<times> string" where
  "signed s = (case s of c # cs \<Rightarrow> if c = CHR ''-'' then (-1, cs) else if c = CHR ''+'' then (1, cs) else (1, s)
     | [] \<Rightarrow> (1, s))"

definition exponent_of :: "string \<Rightarrow> int option" where
  "exponent_of s = (case signed s of (sg, ds) \<Rightarrow>
     map_option (\<lambda>d. (if sg < 0 then - 1 else 1) * int (nat_of_digits d)) (digit_part ds))"

definition mantissa_of :: "string \<Rightarrow> rat option" where
  "mantissa_of s =
     (let a = before (CHR ''.'') s; b = after (CHR ''.'') s;
          part = (\<lambda>x. if x = '''' then Some '''' else digit_part x)
      in if a = '''' \<and> b = '''' then None
         else case (part a, part b) of
                (Some da, Some db) \<Rightarrow> Some (of_nat (nat_of_digits (da @ db)) / 10 ^ length db)
              | _ \<Rightarrow> None)"

definition float_literal :: "string \<Rightarrow> rat option" where
  "float_literal s =
     (case signed (strip s) of (sg, body) \<Rightarrow>
        let body = lower body; m = before (CHR ''e'') body
        in if m = body then map_option (\<lambda>v. sg * v) (mantissa_of m)
           else case (mantissa_of m, exponent_of (after (CHR ''e'') body)) of
                  (Some v, Some k) \<Rightarrow> Some (sg * v * (if 0 \<le> k then 10 ^ nat k else 1 / 10 ^ nat (- k)))
                | _ \<Rightarrow> None)"

text \<open>\<^verbatim>\<open>float(d[k])\<close>, nothing where it raises.\<close>

definition float_of :: "(string \<times> json) list \<Rightarrow> string \<Rightarrow> rat option" where
  "float_of kvs k =
     (case map_of kvs k of
        None \<Rightarrow> None
      | Some (JStr s) \<Rightarrow> float_literal s
      | Some v \<Rightarrow> json_number v)"

subsection \<open>Matchers\<close>

definition conds :: "routing_rule \<Rightarrow> (string \<times> json) list" where
  "conds rule = (case rule_conditions rule of None \<Rightarrow> [] | Some c \<Rightarrow> c)"

definition ad_hoc_matches :: "env \<Rightarrow> routing_rule \<Rightarrow> uuid option \<Rightarrow> string option \<Rightarrow> bool" where
  "ad_hoc_matches E rule customer_id customer_email =
     (let ctype = obj_get (conds rule) ''condition_type''; v = obj_get (conds rule) ''value''
      in if \<not> json_truthy ctype \<or> \<not> json_truthy v then False
         else if ctype = JStr ''customer_id''
         then (case uuid_parse (py_str E v) of None \<Rightarrow> False | Some i \<Rightarrow> customer_id = Some i)
         else if ctype = JStr ''email_domain''
         then (case customer_email of
                 None \<Rightarrow> False
               | Some email \<Rightarrow>
                   email \<noteq> '''' \<and>
                   (let d = lower (strip (py_str E v));
                        d = (if starts_with d ''@'' then d else ''@'' @ d)
                    in ends_with (lower email) d))
         else False)"

definition normalize_zip :: "string \<Rightarrow> int option" where
  "normalize_zip raw =
     (let head = strip (hd (split_on (CHR ''-'') raw))
      in if length head < 5 \<or> \<not> isdigit (take 5 head) then None
         else Some (int (nat_of_digits (take 5 head))))"

definition zip_entry_matches :: "string \<Rightarrow> int \<Rightarrow> bool" where
  "zip_entry_matches entry customer_zip =
     (let cleaned = strip entry
      in if CHR ''-'' \<in> set cleaned
         then (let lo = strip (before (CHR ''-'') cleaned); hi = strip (after (CHR ''-'') cleaned)
               in isdigit lo \<and> isdigit hi \<and>
                  int (nat_of_digits lo) \<le> customer_zip \<and> customer_zip \<le> int (nat_of_digits hi))
         else isdigit cleaned \<and> int (nat_of_digits cleaned) = customer_zip)"

definition list_strings :: "json \<Rightarrow> string list" where
  "list_strings j = (case j of JArr xs \<Rightarrow> List.map_filter as_str xs | _ \<Rightarrow> [])"

definition geo_matches :: "routing_rule \<Rightarrow> string option \<Rightarrow> string option \<Rightarrow> bool" where
  "geo_matches rule state zip_code =
     ((str_truthy state \<and>
       (\<exists>x \<in> set (list_strings (obj_get (conds rule) ''state_list'')).
          upper (strip x) = upper (strip (the state)))) \<or>
      (str_truthy zip_code \<and>
       (case normalize_zip (the zip_code) of
          None \<Rightarrow> False
        | Some z \<Rightarrow> \<exists>x \<in> set (list_strings (obj_get (conds rule) ''zip_list'')). zip_entry_matches x z)))"

definition format_customer_address :: "customer \<Rightarrow> string option" where
  "format_customer_address c =
     (let cleaned = filter (\<lambda>x. x \<noteq> '''') (map strip (List.map_filter (\<lambda>x. x)
            [cus_address_street c, cus_address_city c, cus_address_state c, cus_address_zip c]))
      in if cleaned = [] then None else Some (join '', '' cleaned))"

definition radians :: "real \<Rightarrow> real" where "radians x = x * pi / 180"

definition haversine_miles :: "rat \<Rightarrow> rat \<Rightarrow> rat \<Rightarrow> rat \<Rightarrow> real" where
  "haversine_miles lat1 lon1 lat2 lon2 =
     (let rlat1 = radians (of_rat lat1); rlat2 = radians (of_rat lat2);
          dlat = radians (of_rat (lat2 - lat1)); dlon = radians (of_rat (lon2 - lon1));
          a = (sin (dlat / 2))\<^sup>2 + cos rlat1 * cos rlat2 * (sin (dlon / 2))\<^sup>2
      in 3958.7613 * (2 * arcsin (sqrt a)))"

text \<open>The three numbers of a metro area, when all of them can be read.\<close>

definition metro_of :: "routing_rule \<Rightarrow> (rat \<times> rat \<times> rat) option" where
  "metro_of rule =
     (case obj_get (conds rule) ''metro_area'' of
        JObj m \<Rightarrow>
          (case (float_of m ''center_lat'', float_of m ''center_lon'', float_of m ''radius_miles'') of
             (Some lat, Some lon, Some radius) \<Rightarrow> Some (lat, lon, radius)
           | _ \<Rightarrow> None)
      | _ \<Rightarrow> None)"

definition metro_matches :: "env \<Rightarrow> routing_rule \<Rightarrow> customer \<Rightarrow> bool op" where
  "metro_matches E rule c =
     (case metro_of rule of
        None \<Rightarrow> ret False
      | Some (center_lat, center_lon, radius) \<Rightarrow>
          if radius \<le> 0 then ret False
          else
            (case format_customer_address c of
               None \<Rightarrow> ret False
             | Some address \<Rightarrow>
                 bind (geocode E address) (\<lambda>coords.
                 ret (case coords of
                        None \<Rightarrow> False
                      | Some (lat, lon) \<Rightarrow>
                          haversine_miles center_lat center_lon lat lon \<le> of_rat radius))))"

subsection \<open>Round robin\<close>

definition round_robin_rep_ids :: "env \<Rightarrow> routing_rule \<Rightarrow> uuid list" where
  "round_robin_rep_ids E rule =
     (case obj_get (conds rule) ''rep_ids'' of
        JArr xs \<Rightarrow> List.map_filter (\<lambda>x. uuid_parse (py_str E x)) xs
      | _ \<Rightarrow> [])"

text \<open>\<^verbatim>\<open>UPDATE ... SET round_robin_index = round_robin_index + 1 ... RETURNING\<close>.\<close>

definition claim_next_round_robin :: "uuid \<Rightarrow> uuid list \<Rightarrow> uuid option op" where
  "claim_next_round_robin i rep_ids =
     (if rep_ids = [] then ret None
      else
        seq (writes (\<lambda>s. s\<lparr>routing_rules := update_where (\<lambda>r. rule_id r = i)
               (\<lambda>r. r\<lparr>rule_round_robin_index := rule_round_robin_index r + 1\<rparr>) (routing_rules s)\<rparr>))
        (bind (select_one routing_rules (\<lambda>r. rule_id r = i)) (\<lambda>found.
         ret (case found of
                None \<Rightarrow> None
              | Some r \<Rightarrow> Some (rep_ids ! nat ((rule_round_robin_index r - 1) mod int (length rep_ids)))))))"

definition read_default_sales_rep :: "env \<Rightarrow> uuid option op" where
  "read_default_sales_rep E =
     bind (get_typed (ks_name DEFAULT_SALES_REP_ID)) (\<lambda>raw.
     ret (if \<not> json_truthy raw then None else uuid_parse (py_str E raw)))"

subsection \<open>The waterfall\<close>

record routing_decision =
  dec_assigned_user_id :: "uuid option"
  dec_rule_id :: "uuid option"
  dec_rule_type :: "string option"
  dec_trigger :: string

definition decided :: "uuid \<Rightarrow> routing_rule \<Rightarrow> string \<Rightarrow> routing_decision" where
  "decided u rule ty = \<lparr>dec_assigned_user_id = Some u, dec_rule_id = Some (rule_id rule),
     dec_rule_type = Some ty, dec_trigger = ''lead_routing''\<rparr>"

definition load_active_rules :: "routing_rule list op" where
  "load_active_rules = reads (\<lambda>s. filter (\<lambda>r. rule_deleted_at r = None \<and> rule_is_active r) (routing_rules s))"

definition bucket :: "string \<Rightarrow> routing_rule list \<Rightarrow> routing_rule list" where
  "bucket ty rules = sort_key rule_priority (filter (\<lambda>r. rule_type r = ty) rules)"

text \<open>Ad hoc rules are tried in the order of the result set, which has no \<^verbatim>\<open>ORDER BY\<close>.\<close>

definition ad_hoc_rule :: "env \<Rightarrow> routing_rule list \<Rightarrow> uuid \<Rightarrow> string option \<Rightarrow> routing_rule option" where
  "ad_hoc_rule E rules customer_id customer_email =
     find (\<lambda>r. rule_type r = ''ad_hoc'' \<and> ad_hoc_matches E r (Some customer_id) customer_email \<and>
       rule_assigned_user_id r \<noteq> None) rules"

definition geo_hit :: "env \<Rightarrow> customer \<Rightarrow> routing_rule \<Rightarrow> bool op" where
  "geo_hit E c rule =
     (if geo_matches rule (cus_address_state c) (cus_address_zip c) then ret True
      else metro_matches E rule c)"

primrec geo_walk :: "env \<Rightarrow> customer \<Rightarrow> routing_rule list \<Rightarrow> routing_decision option op" where
  "geo_walk E c [] = ret None"
| "geo_walk E c (rule # rules) =
     bind (geo_hit E c rule) (\<lambda>matched.
     case rule_assigned_user_id rule of
       None \<Rightarrow> geo_walk E c rules
     | Some u \<Rightarrow> if matched then ret (Some (decided u rule ''geographic'')) else geo_walk E c rules)"

primrec rr_walk :: "env \<Rightarrow> routing_rule list \<Rightarrow> routing_decision option op" where
  "rr_walk E [] = ret None"
| "rr_walk E (rule # rules) =
     (if round_robin_rep_ids E rule = [] then rr_walk E rules
      else
        bind (claim_next_round_robin (rule_id rule) (round_robin_rep_ids E rule)) (\<lambda>next_user.
        case next_user of
          None \<Rightarrow> rr_walk E rules
        | Some u \<Rightarrow> ret (Some (decided u rule ''round_robin''))))"

definition fallback_decision :: "env \<Rightarrow> routing_decision op" where
  "fallback_decision E =
     bind (read_default_sales_rep E) (\<lambda>found.
     ret (case found of
            Some u \<Rightarrow> \<lparr>dec_assigned_user_id = Some u, dec_rule_id = None, dec_rule_type = None,
                       dec_trigger = ''default_sales_rep''\<rparr>
          | None \<Rightarrow> \<lparr>dec_assigned_user_id = None, dec_rule_id = None, dec_rule_type = None,
                     dec_trigger = ''unassigned''\<rparr>))"

definition route_for_record :: "env \<Rightarrow> customer \<Rightarrow> string option \<Rightarrow> routing_decision op" where
  "route_for_record E c customer_email =
     bind load_active_rules (\<lambda>rules.
     case ad_hoc_rule E rules (cus_id c) customer_email of
       Some rule \<Rightarrow> ret (decided (the (rule_assigned_user_id rule)) rule ''ad_hoc'')
     | None \<Rightarrow>
         bind (geo_walk E c (bucket ''geographic'' rules)) (\<lambda>geo.
         case geo of
           Some d \<Rightarrow> ret d
         | None \<Rightarrow>
             bind (rr_walk E (bucket ''round_robin'' rules)) (\<lambda>rr.
             case rr of Some d \<Rightarrow> ret d | None \<Rightarrow> fallback_decision E)))"

subsection \<open>Validation of conditions\<close>

text \<open>The models of \<^verbatim>\<open>schemas/routing.py\<close>: what they accept. Unknown keys are forbidden.\<close>

definition keys_within :: "string list \<Rightarrow> (string \<times> json) list \<Rightarrow> bool" where
  "keys_within ks kvs \<longleftrightarrow> (\<forall>kv \<in> set kvs. fst kv \<in> set ks)"

definition ad_hoc_conditions_ok :: "(string \<times> json) list \<Rightarrow> bool" where
  "ad_hoc_conditions_ok kvs \<longleftrightarrow>
     keys_within [''condition_type'', ''value''] kvs \<and>
     obj_get kvs ''condition_type'' \<in> {JStr ''customer_id'', JStr ''email_domain''} \<and>
     (case obj_get kvs ''value'' of JStr v \<Rightarrow> 1 \<le> length v \<and> length v \<le> 255 | _ \<Rightarrow> False)"

definition float_within :: "env \<Rightarrow> (string \<times> json) list \<Rightarrow> string \<Rightarrow> (rat \<Rightarrow> bool) \<Rightarrow> bool" where
  "float_within E kvs k p =
     (case map_of kvs k of
        None \<Rightarrow> False
      | Some v \<Rightarrow> (case pydantic_float E v of None \<Rightarrow> False | Some q \<Rightarrow> p q))"

definition metro_area_ok :: "env \<Rightarrow> (string \<times> json) list \<Rightarrow> bool" where
  "metro_area_ok E m \<longleftrightarrow>
     keys_within [''center_lat'', ''center_lon'', ''radius_miles'', ''name''] m \<and>
     float_within E m ''center_lat'' (\<lambda>q. -90 \<le> q \<and> q \<le> 90) \<and>
     float_within E m ''center_lon'' (\<lambda>q. -180 \<le> q \<and> q \<le> 180) \<and>
     float_within E m ''radius_miles'' (\<lambda>q. 0 < q \<and> q \<le> 500) \<and>
     (case obj_get m ''name'' of JNull \<Rightarrow> True | JStr n \<Rightarrow> length n \<le> 100 | _ \<Rightarrow> False)"

text \<open>An optional list of strings: its elements, with the empty list for null.\<close>

definition optional_strings :: "json \<Rightarrow> string list option" where
  "optional_strings j =
     (case j of
        JNull \<Rightarrow> Some []
      | JArr xs \<Rightarrow> if list_all (\<lambda>x. as_str x \<noteq> None) xs then Some (List.map_filter as_str xs) else None
      | _ \<Rightarrow> None)"

definition geographic_conditions_ok :: "env \<Rightarrow> (string \<times> json) list \<Rightarrow> bool" where
  "geographic_conditions_ok E kvs \<longleftrightarrow>
     keys_within [''state_list'', ''zip_list'', ''metro_area''] kvs \<and>
     (case obj_get kvs ''metro_area'' of JNull \<Rightarrow> True | JObj m \<Rightarrow> metro_area_ok E m | _ \<Rightarrow> False) \<and>
     (case (optional_strings (obj_get kvs ''state_list''), optional_strings (obj_get kvs ''zip_list'')) of
        (Some states, Some zips) \<Rightarrow>
          (states \<noteq> [] \<or> zips \<noteq> [] \<or> obj_get kvs ''metro_area'' \<noteq> JNull) \<and>
          (\<forall>x \<in> set states. length (strip x) = 2) \<and> (\<forall>x \<in> set zips. strip x \<noteq> '''')
      | _ \<Rightarrow> False)"

definition round_robin_conditions_ok :: "env \<Rightarrow> (string \<times> json) list \<Rightarrow> bool" where
  "round_robin_conditions_ok E kvs \<longleftrightarrow>
     keys_within [''rep_ids''] kvs \<and>
     (case obj_get kvs ''rep_ids'' of
        JArr xs \<Rightarrow> xs \<noteq> [] \<and>
          list_all (\<lambda>x. case x of JStr u \<Rightarrow> pydantic_uuid E u \<noteq> None | _ \<Rightarrow> False) xs
      | _ \<Rightarrow> False)"

definition ALLOWED_RULE_TYPES :: "string list" where
  "ALLOWED_RULE_TYPES = [''ad_hoc'', ''geographic'', ''round_robin'']"

definition conditions_ok :: "env \<Rightarrow> string \<Rightarrow> (string \<times> json) list option \<Rightarrow> bool" where
  "conditions_ok E ty raw =
     (let kvs = (case raw of None \<Rightarrow> [] | Some c \<Rightarrow> c)
      in if ty = ''ad_hoc'' then ad_hoc_conditions_ok kvs
         else if ty = ''geographic'' then geographic_conditions_ok E kvs
         else if ty = ''round_robin'' then round_robin_conditions_ok E kvs
         else False)"

definition validate_conditions :: "env \<Rightarrow> string \<Rightarrow> (string \<times> json) list option \<Rightarrow> unit op" where
  "validate_conditions E ty raw = require (conditions_ok E ty raw) (http 422 ''validation error'')"

subsection \<open>Administration of the rules\<close>

definition list_rules :: "bool \<Rightarrow> routing_rule list op" where
  "list_rules include_deleted =
     reads (\<lambda>s. sort_key (\<lambda>r. (rule_type r, rule_priority r))
       (filter (\<lambda>r. include_deleted \<or> rule_deleted_at r = None) (routing_rules s)))"

definition get_rule :: "uuid \<Rightarrow> routing_rule op" where
  "get_rule i =
     bind (select_one routing_rules (\<lambda>r. rule_id r = i)) (\<lambda>found.
     case found of
       None \<Rightarrow> raise (http 404 ''routing rule not found'')
     | Some r \<Rightarrow> if rule_deleted_at r \<noteq> None then raise (http 404 ''routing rule not found'') else ret r)"

definition require_sales_role :: "uuid \<Rightarrow> unit op" where
  "require_sales_role user_id =
     bind (slug_of_user user_id) (\<lambda>found.
     case found of
       None \<Rightarrow> raise (http 422 (''user '' @ uuid_str user_id @ '' not found''))
     | Some slug \<Rightarrow>
         require (slug \<in> {''sales'', ''sales_manager'', ''admin''})
           (http 422 (''user '' @ uuid_str user_id @ '' has role '' @ quoted slug @
              '', expected sales/sales_manager/admin'')))"

definition in_slot :: "string \<Rightarrow> int \<Rightarrow> routing_rule \<Rightarrow> bool" where
  "in_slot ty p r = (rule_type r = ty \<and> rule_priority r = p \<and> rule_deleted_at r = None)"

definition check_priority_slot_free :: "string \<Rightarrow> int \<Rightarrow> uuid option \<Rightarrow> unit op" where
  "check_priority_slot_free ty p excluding =
     bind (select_one routing_rules (\<lambda>r. in_slot ty p r \<and> Some (rule_id r) \<noteq> excluding)) (\<lambda>found.
     require (found = None)
       (http 409 (''priority '' @ int_str p @ '' is already taken in the '' @ ty @
          '' bucket; use the reorder endpoint to renumber'')))"

definition create_rule ::
  "env \<Rightarrow> user \<Rightarrow> string \<Rightarrow> int \<Rightarrow> (string \<times> json) list option \<Rightarrow> uuid option \<Rightarrow> bool \<Rightarrow>
   routing_rule op" where
  "create_rule E creator ty p conditions assigned_user_id is_active =
     seq (require (ty \<in> set ALLOWED_RULE_TYPES)
            (http 422 (''rule_type must be one of: '' @ list_repr ALLOWED_RULE_TYPES)))
     (seq (validate_conditions E ty conditions)
     (seq (case assigned_user_id of None \<Rightarrow> ret () | Some u \<Rightarrow> require_sales_role u)
     (seq (check_priority_slot_free ty p None)
     (bind (uuid4 E) (\<lambda>i.
      let rule = \<lparr>rule_id = i, rule_type = ty, rule_priority = p, rule_conditions = conditions,
                  rule_assigned_user_id = assigned_user_id, rule_round_robin_index = 0,
                  rule_is_active = is_active, rule_created_by = Some (usr_id creator),
                  rule_deleted_at = None\<rparr>
      in seq (writes (\<lambda>s. s\<lparr>routing_rules := routing_rules s @ [rule]\<rparr>)) (ret rule))))))"

text \<open>A patch: a field that was sent is \<open>Some\<close>, with null inside as \<open>Some None\<close>.\<close>

record rule_patch =
  rpatch_priority :: "int option option"
  rpatch_conditions :: "(string \<times> json) list option option"
  rpatch_assigned_user :: "uuid option option"
  rpatch_is_active :: "bool option option"

definition patched_rule :: "rule_patch \<Rightarrow> routing_rule \<Rightarrow> routing_rule" where
  "patched_rule patch r =
     r\<lparr>rule_priority := (case rpatch_priority patch of Some (Some p) \<Rightarrow> p | _ \<Rightarrow> rule_priority r),
       rule_conditions := (case rpatch_conditions patch of Some c \<Rightarrow> c | None \<Rightarrow> rule_conditions r),
       rule_assigned_user_id :=
         (case rpatch_assigned_user patch of Some u \<Rightarrow> u | None \<Rightarrow> rule_assigned_user_id r),
       rule_is_active := (case rpatch_is_active patch of Some (Some b) \<Rightarrow> b | _ \<Rightarrow> rule_is_active r)\<rparr>"

definition save_rule :: "routing_rule \<Rightarrow> unit op" where
  "save_rule r = writes (\<lambda>s. s\<lparr>routing_rules :=
     update_where (\<lambda>x. rule_id x = rule_id r) (\<lambda>_. r) (routing_rules s)\<rparr>)"

definition update_rule :: "env \<Rightarrow> uuid \<Rightarrow> rule_patch \<Rightarrow> routing_rule op" where
  "update_rule E i patch =
     bind (get_rule i) (\<lambda>rule.
     seq (case rpatch_priority patch of
            Some (Some p) \<Rightarrow>
              if p \<noteq> rule_priority rule
              then check_priority_slot_free (rule_type rule) p (Some (rule_id rule)) else ret ()
          | _ \<Rightarrow> ret ())
     (seq (case rpatch_conditions patch of
             None \<Rightarrow> ret () | Some c \<Rightarrow> validate_conditions E (rule_type rule) c)
     (seq (case rpatch_assigned_user patch of Some (Some u) \<Rightarrow> require_sales_role u | _ \<Rightarrow> ret ())
     (seq (save_rule (patched_rule patch rule)) (ret (patched_rule patch rule))))))"

definition soft_delete_rule :: "uuid \<Rightarrow> routing_rule op" where
  "soft_delete_rule i =
     bind (get_rule i) (\<lambda>rule.
     bind now (\<lambda>t.
     let r = rule\<lparr>rule_deleted_at := Some t, rule_is_active := False\<rparr>
     in seq (save_rule r) (ret r)))"

subsection \<open>Renumbering a bucket\<close>

text \<open>One \<^verbatim>\<open>UPDATE\<close> of a flush, against the partial unique index on live (type, priority).\<close>

definition set_priority :: "string \<Rightarrow> uuid \<times> int \<Rightarrow> unit op" where
  "set_priority ty = (\<lambda>(i, p).
     bind (reads (\<lambda>s. \<exists>r \<in> set (routing_rules s). rule_id r \<noteq> i \<and> in_slot ty p r)) (\<lambda>taken.
     if taken then raise (IntegrityError ''uq_lead_routing_rules_type_priority'')
     else writes (\<lambda>s. s\<lparr>routing_rules :=
       update_where (\<lambda>r. rule_id r = i) (\<lambda>r. r\<lparr>rule_priority := p\<rparr>) (routing_rules s)\<rparr>)))"

text \<open>A flush sends its updates in the order of the primary keys.\<close>

definition flush_priorities :: "string \<Rightarrow> (uuid \<times> int) list \<Rightarrow> unit op" where
  "flush_priorities ty ups = for_each (sort_key fst ups) (set_priority ty)"

definition scratch_priorities :: "uuid list \<Rightarrow> (uuid \<times> int) list" where
  "scratch_priorities ids = zip ids (map (\<lambda>k. - 1 - int k) [0..<length ids])"

definition final_priorities :: "uuid list \<Rightarrow> (uuid \<times> int) list" where
  "final_priorities ids = zip ids (map int [0..<length ids])"

definition reorder_priorities :: "string \<Rightarrow> uuid list \<Rightarrow> routing_rule list op" where
  "reorder_priorities ty ordered_ids =
     seq (require (ty \<in> set ALLOWED_RULE_TYPES)
            (http 422 (''rule_type must be one of: '' @ list_repr ALLOWED_RULE_TYPES)))
     (if ordered_ids = [] then ret []
      else
        seq (require (distinct ordered_ids) (http 422 ''ordered_ids contains duplicates''))
        (bind (reads (\<lambda>s. map rule_id (filter (\<lambda>r. rule_type r = ty \<and> rule_deleted_at r = None)
                 (routing_rules s)))) (\<lambda>locked.
         seq (require (set locked = set ordered_ids)
                (http 422 (''ordered_ids does not match the set of active rules in this bucket (missing: '' @
                   list_repr (sort (map uuid_str (filter (\<lambda>i. i \<notin> set ordered_ids) (remdups locked)))) @
                   '', unknown: '' @
                   list_repr (sort (map uuid_str (filter (\<lambda>i. i \<notin> set locked) ordered_ids))) @ '')'')))
         (seq (flush_priorities ty (scratch_priorities ordered_ids))
         (seq (flush_priorities ty (final_priorities ordered_ids))
         (reads (\<lambda>s. concat (map (\<lambda>i. filter (\<lambda>r. rule_id r = i) (routing_rules s)) ordered_ids))))))))"

subsection \<open>Testing a rule\<close>

record test_result =
  tst_rule_id :: uuid
  tst_rule_type :: string
  tst_matched :: bool
  tst_would_assign_to :: "uuid option"
  tst_reason :: string

record test_input =
  tin_customer_id :: "uuid option"
  tin_customer_email :: "string option"
  tin_customer_state :: "string option"
  tin_customer_zip :: "string option"
  tin_customer_lat :: "rat option"
  tin_customer_lng :: "rat option"

definition metro_matches_synthetic :: "routing_rule \<Rightarrow> rat \<Rightarrow> rat \<Rightarrow> bool" where
  "metro_matches_synthetic rule lat lng =
     (case metro_of rule of
        None \<Rightarrow> False
      | Some (center_lat, center_lng, radius) \<Rightarrow>
          haversine_miles lat lng center_lat center_lng \<le> of_rat radius)"

definition test_rule :: "env \<Rightarrow> uuid \<Rightarrow> test_input \<Rightarrow> test_result op" where
  "test_rule E i inp =
     bind (get_rule i) (\<lambda>rule.
     let result = (\<lambda>m u why. \<lparr>tst_rule_id = rule_id rule, tst_rule_type = rule_type rule,
                     tst_matched = m, tst_would_assign_to = u, tst_reason = why\<rparr>)
     in if rule_type rule = ''ad_hoc''
        then
          let m = ad_hoc_matches E rule (tin_customer_id inp) (tin_customer_email inp)
          in ret (result m (if m then rule_assigned_user_id rule else None)
               (if m then ''ad_hoc matched on the supplied customer_id/email_domain''
                else ''ad_hoc conditions did not match the supplied input''))
        else if rule_type rule = ''geographic''
        then
          let by_place = geo_matches rule (tin_customer_state inp) (tin_customer_zip inp);
              by_metro = (\<not> by_place \<and>
                (case (tin_customer_lat inp, tin_customer_lng inp) of
                   (Some lat, Some lng) \<Rightarrow> metro_matches_synthetic rule lat lng
                 | _ \<Rightarrow> False));
              m = (by_place \<or> by_metro)
          in ret (result m (if m then rule_assigned_user_id rule else None)
               (join ''; '' ((if by_place then [''state/zip matched''] else []) @
                  (if by_metro then [''metro radius matched''] else []) @
                  (if m then [] else [''no condition matched the supplied input'']))))
        else
          let rep_ids = round_robin_rep_ids E rule;
              next_idx = nat (rule_round_robin_index rule mod int (length rep_ids))
          in if rep_ids = [] then ret (result False None ''round_robin rule has no eligible reps'')
             else ret (result True (Some (rep_ids ! next_idx))
               (''round_robin would pick rep at index '' @ nat_str next_idx @ '' (no claim)'')))"

subsection \<open>Routes\<close>

definition ADMIN_ONLY :: "string list" where "ADMIN_ONLY = [''admin'']"

definition list_rules_route :: "env \<Rightarrow> string option \<Rightarrow> bool \<Rightarrow> (routing_rule list \<times> nat) op" where
  "list_rules_route E cred include_deleted =
     guarded_route E ADMIN_ONLY cred (\<lambda>admin.
       bind (list_rules include_deleted) (\<lambda>rules. ret (rules, length rules)))"

definition create_rule_route ::
  "env \<Rightarrow> string option \<Rightarrow> string \<Rightarrow> int \<Rightarrow> (string \<times> json) list option \<Rightarrow> uuid option \<Rightarrow> bool \<Rightarrow>
   routing_rule op" where
  "create_rule_route E cred ty p conditions assigned_user_id is_active =
     guarded_route E ADMIN_ONLY cred (\<lambda>admin.
       seq (require (ty \<in> set ALLOWED_RULE_TYPES \<and> 0 \<le> p \<and> p \<le> 10000) (http 422 ''validation error''))
         (create_rule E admin ty p conditions assigned_user_id is_active))"

definition update_rule_route :: "env \<Rightarrow> string option \<Rightarrow> uuid \<Rightarrow> rule_patch \<Rightarrow> routing_rule op" where
  "update_rule_route E cred i patch =
     guarded_route E ADMIN_ONLY cred (\<lambda>admin.
       seq (require (case rpatch_priority patch of Some (Some p) \<Rightarrow> 0 \<le> p \<and> p \<le> 10000 | _ \<Rightarrow> True)
              (http 422 ''validation error''))
         (update_rule E i patch))"

definition delete_rule_route :: "env \<Rightarrow> string option \<Rightarrow> uuid \<Rightarrow> routing_rule op" where
  "delete_rule_route E cred i = guarded_route E ADMIN_ONLY cred (\<lambda>admin. soft_delete_rule i)"

definition reorder_rules_route ::
  "env \<Rightarrow> string option \<Rightarrow> string \<Rightarrow> uuid list \<Rightarrow> routing_rule list op" where
  "reorder_rules_route E cred ty ordered_ids =
     guarded_route E ADMIN_ONLY cred (\<lambda>admin.
       seq (require (ty \<in> set ALLOWED_RULE_TYPES \<and> ordered_ids \<noteq> []) (http 422 ''validation error''))
         (reorder_priorities ty ordered_ids))"

definition test_rule_route :: "env \<Rightarrow> string option \<Rightarrow> uuid \<Rightarrow> test_input \<Rightarrow> test_result op" where
  "test_rule_route E cred i inp =
     guarded_route E ADMIN_ONLY cred (\<lambda>admin.
       seq (require
              ((case tin_customer_state inp of None \<Rightarrow> True | Some x \<Rightarrow> length x \<le> 2) \<and>
               (case tin_customer_zip inp of None \<Rightarrow> True | Some x \<Rightarrow> length x \<le> 10) \<and>
               (case tin_customer_lat inp of None \<Rightarrow> True | Some q \<Rightarrow> -90 \<le> q \<and> q \<le> 90) \<and>
               (case tin_customer_lng inp of None \<Rightarrow> True | Some q \<Rightarrow> -180 \<le> q \<and> q \<le> 180))
              (http 422 ''validation error''))
         (test_rule E i inp))"

end
