(* ===== verification/Intake.thy ===== *)
theory Intake
  imports Photos LeadRouting
begin

section \<open>The customer's portal: profile and intake\<close>

text \<open>
  \<^verbatim>\<open>api/services/customer_service.py\<close>, the rest of \<^verbatim>\<open>api/services/equipment_service.py\<close>,
  \<^verbatim>\<open>api/services/intake_visibility_service.py\<close> and their routes in \<^verbatim>\<open>routers/customers.py\<close> and
  \<^verbatim>\<open>routers/equipment.py\<close>: the profile with its e-mail preferences, the submission of a machine with
  its reference number, its routing to a sales representative and its confirmation mail.
\<close>

subsection \<open>Preferences\<close>

record email_prefs =
  epf_intake_confirmations :: bool
  epf_status_updates :: bool
  epf_marketing :: bool
  epf_sms_opt_in :: bool

definition default_prefs :: email_prefs where
  "default_prefs = \<lparr>epf_intake_confirmations = True, epf_status_updates = True,
     epf_marketing = False, epf_sms_opt_in = False\<rparr>"

definition dump_prefs :: "email_prefs \<Rightarrow> (string \<times> json) list" where
  "dump_prefs p =
     [(''intake_confirmations'', JBool (epf_intake_confirmations p)),
      (''status_updates'', JBool (epf_status_updates p)), (''marketing'', JBool (epf_marketing p)),
      (''sms_opt_in'', JBool (epf_sms_opt_in p))]"

text \<open>\<^verbatim>\<open>EmailPrefs(**merged)\<close>: other keys are ignored, values are read as Pydantic reads a bool.\<close>

definition parse_prefs :: "env \<Rightarrow> (string \<times> json) list \<Rightarrow> email_prefs op" where
  "parse_prefs E kvs =
     (case (pydantic_bool E (obj_get kvs ''intake_confirmations''), pydantic_bool E (obj_get kvs ''status_updates''),
            pydantic_bool E (obj_get kvs ''marketing''), pydantic_bool E (obj_get kvs ''sms_opt_in'')) of
        (Some a, Some b, Some c, Some d) \<Rightarrow>
          ret \<lparr>epf_intake_confirmations = a, epf_status_updates = b, epf_marketing = c, epf_sms_opt_in = d\<rparr>
      | _ \<Rightarrow> raise ValidationError)"

definition read_prefs :: "env \<Rightarrow> customer \<Rightarrow> email_prefs op" where
  "read_prefs E c =
     bind (case cus_communication_prefs c of
             None \<Rightarrow> ret []
           | Some v \<Rightarrow> if \<not> json_truthy v then ret []
                       else case v of JObj kvs \<Rightarrow> ret kvs | _ \<Rightarrow> raise (TypeError ''not a mapping'')) (\<lambda>stored.
     parse_prefs E (stored @ dump_prefs default_prefs))"

subsection \<open>The profile\<close>

definition new_profile :: "uuid \<Rightarrow> user \<Rightarrow> datetime \<Rightarrow> customer" where
  "new_profile i user t =
     \<lparr>cus_id = i, cus_user_id = Some (usr_id user), cus_invite_email = None, cus_business_name = None,
      cus_submitter_name = strip (usr_first_name user @ '' '' @ usr_last_name user), cus_title = None,
      cus_address_street = None, cus_address_city = None, cus_address_state = None,
      cus_address_zip = None, cus_business_phone = None, cus_business_phone_ext = None,
      cus_cell_phone = None, cus_communication_prefs = Some (JObj (dump_prefs default_prefs)),
      cus_created_at = t, cus_deleted_at = None\<rparr>"

definition ensure_profile_for_user :: "env \<Rightarrow> user \<Rightarrow> customer op" where
  "ensure_profile_for_user E user =
     bind (select_one customers (\<lambda>c. cus_user_id c = Some (usr_id user))) (\<lambda>found.
     case found of
       Some c \<Rightarrow> ret c
     | None \<Rightarrow>
         bind (uuid4 E) (\<lambda>i.
         bind now (\<lambda>t.
         let c = new_profile i user t
         in seq (writes (\<lambda>s. s\<lparr>customers := customers s @ [c]\<rparr>)) (ret c))))"

definition get_profile :: "env \<Rightarrow> user \<Rightarrow> (customer \<times> email_prefs) op" where
  "get_profile E user =
     bind (ensure_profile_for_user E user) (\<lambda>c.
     bind (read_prefs E c) (\<lambda>prefs. ret (c, prefs)))"

record profile_patch =
  pp_business_name :: "string option option"
  pp_submitter_name :: "string option option"
  pp_title :: "string option option"
  pp_address_street :: "string option option"
  pp_address_city :: "string option option"
  pp_address_state :: "string option option"
  pp_address_zip :: "string option option"
  pp_business_phone :: "string option option"
  pp_business_phone_ext :: "string option option"
  pp_cell_phone :: "string option option"

definition US_STATES :: "string list" where
  "US_STATES = [''AL'', ''AK'', ''AZ'', ''AR'', ''CA'', ''CO'', ''CT'', ''DE'', ''FL'', ''GA'', ''HI'', ''ID'',
     ''IL'', ''IN'', ''IA'', ''KS'', ''KY'', ''LA'', ''ME'', ''MD'', ''MA'', ''MI'', ''MN'', ''MS'', ''MO'', ''MT'',
     ''NE'', ''NV'', ''NH'', ''NJ'', ''NM'', ''NY'', ''NC'', ''ND'', ''OH'', ''OK'', ''OR'', ''PA'', ''RI'', ''SC'',
     ''SD'', ''TN'', ''TX'', ''UT'', ''VT'', ''VA'', ''WA'', ''WV'', ''WI'', ''WY'', ''DC'', ''PR'']"

definition strip_or_null :: "string option \<Rightarrow> string option" where
  "strip_or_null x = (case x of None \<Rightarrow> None | Some v \<Rightarrow> if strip v = '''' then None else Some (strip v))"

text \<open>The schema: lengths of what was sent, then the validators. \<open>None\<close> is a refusal.\<close>

definition sent_within :: "nat \<Rightarrow> string option option \<Rightarrow> bool" where
  "sent_within n x \<longleftrightarrow> (case x of None \<Rightarrow> True | Some v \<Rightarrow> up_to n v)"

definition state_code :: "string option option \<Rightarrow> string option option option" where
  "state_code x =
     (case x of
        Some (Some v) \<Rightarrow> if upper (strip v) \<in> set US_STATES then Some (Some (Some (upper (strip v)))) else None
      | _ \<Rightarrow> Some x)"

definition parse_profile_patch :: "profile_patch \<Rightarrow> profile_patch option" where
  "parse_profile_patch p =
     (if sent_within 200 (pp_business_name p) \<and> sent_within 200 (pp_submitter_name p) \<and>
         sent_within 100 (pp_title p) \<and> sent_within 255 (pp_address_street p) \<and>
         sent_within 100 (pp_address_city p) \<and> sent_within 2 (pp_address_state p) \<and>
         sent_within 10 (pp_address_zip p) \<and> sent_within 20 (pp_business_phone p) \<and>
         sent_within 10 (pp_business_phone_ext p) \<and> sent_within 20 (pp_cell_phone p)
      then (case state_code (pp_address_state p) of
              None \<Rightarrow> None
            | Some st \<Rightarrow> Some \<lparr>pp_business_name = map_option strip_or_null (pp_business_name p),
                pp_submitter_name = map_option strip_or_null (pp_submitter_name p),
                pp_title = map_option strip_or_null (pp_title p),
                pp_address_street = map_option strip_or_null (pp_address_street p),
                pp_address_city = map_option strip_or_null (pp_address_city p),
                pp_address_state = st,
                pp_address_zip = map_option strip_or_null (pp_address_zip p),
                pp_business_phone = map_option strip_or_null (pp_business_phone p),
                pp_business_phone_ext = map_option strip_or_null (pp_business_phone_ext p),
                pp_cell_phone = map_option strip_or_null (pp_cell_phone p)\<rparr>)
      else None)"

definition unset_profile :: profile_patch where
  "unset_profile = \<lparr>pp_business_name = None, pp_submitter_name = None, pp_title = None,
     pp_address_street = None, pp_address_city = None, pp_address_state = None, pp_address_zip = None,
     pp_business_phone = None, pp_business_phone_ext = None, pp_cell_phone = None\<rparr>"

definition sent_or :: "'a option \<Rightarrow> 'a \<Rightarrow> 'a" where
  "sent_or x d = (case x of None \<Rightarrow> d | Some v \<Rightarrow> v)"

definition patch_profile_row :: "profile_patch \<Rightarrow> customer \<Rightarrow> customer" where
  "patch_profile_row p c =
     c\<lparr>cus_business_name := sent_or (pp_business_name p) (cus_business_name c),
       cus_submitter_name := (case pp_submitter_name p of Some (Some v) \<Rightarrow> v | _ \<Rightarrow> cus_submitter_name c),
       cus_title := sent_or (pp_title p) (cus_title c),
       cus_address_street := sent_or (pp_address_street p) (cus_address_street c),
       cus_address_city := sent_or (pp_address_city p) (cus_address_city c),
       cus_address_state := sent_or (pp_address_state p) (cus_address_state c),
       cus_address_zip := sent_or (pp_address_zip p) (cus_address_zip c),
       cus_business_phone := sent_or (pp_business_phone p) (cus_business_phone c),
       cus_business_phone_ext := sent_or (pp_business_phone_ext p) (cus_business_phone_ext c),
       cus_cell_phone := sent_or (pp_cell_phone p) (cus_cell_phone c)\<rparr>"

definition save_customer :: "customer \<Rightarrow> unit op" where
  "save_customer c = writes (\<lambda>s. s\<lparr>customers :=
     update_where (\<lambda>x. cus_id x = cus_id c) (\<lambda>_. c) (customers s)\<rparr>)"

definition update_profile :: "env \<Rightarrow> user \<Rightarrow> profile_patch \<Rightarrow> (customer \<times> email_prefs) op" where
  "update_profile E user patch =
     bind (ensure_profile_for_user E user) (\<lambda>c.
     if patch = unset_profile then bind (read_prefs E c) (\<lambda>prefs. ret (c, prefs))
     else
       seq (require (pp_submitter_name patch = None \<or> str_truthy (the (pp_submitter_name patch)))
              (http 422 ''submitter_name cannot be empty.''))
       (let c' = patch_profile_row patch c
        in seq (save_customer c') (bind (read_prefs E c') (\<lambda>prefs. ret (c', prefs)))))"

definition update_email_prefs :: "env \<Rightarrow> user \<Rightarrow> email_prefs \<Rightarrow> email_prefs op" where
  "update_email_prefs E user prefs =
     bind (ensure_profile_for_user E user) (\<lambda>c.
     seq (save_customer (c\<lparr>cus_communication_prefs := Some (JObj (dump_prefs prefs))\<rparr>)) (ret prefs))"

definition get_profile_route :: "env \<Rightarrow> string option \<Rightarrow> (customer \<times> email_prefs) op" where
  "get_profile_route E cred = guarded_route E [''customer''] cred (get_profile E)"

definition patch_profile_route :: "env \<Rightarrow> string option \<Rightarrow> profile_patch \<Rightarrow> (customer \<times> email_prefs) op" where
  "patch_profile_route E cred body =
     guarded_route E [''customer''] cred (\<lambda>current_user.
       case parse_profile_patch body of
         None \<Rightarrow> raise (http 422 ''validation error'')
       | Some p \<Rightarrow> update_profile E current_user p)"

definition get_email_prefs_route :: "env \<Rightarrow> string option \<Rightarrow> email_prefs op" where
  "get_email_prefs_route E cred = guarded_route E [''customer''] cred (\<lambda>current_user.
     bind (get_profile E current_user) (\<lambda>(c, prefs). ret prefs))"

definition patch_email_prefs_route :: "env \<Rightarrow> string option \<Rightarrow> email_prefs \<Rightarrow> email_prefs op" where
  "patch_email_prefs_route E cred body =
     guarded_route E [''customer''] cred (\<lambda>current_user. update_email_prefs E current_user body)"

subsection \<open>The form the administrator configures\<close>

definition hashable :: "json \<Rightarrow> bool" where
  "hashable v \<longleftrightarrow> (case v of JArr _ \<Rightarrow> False | JObj _ \<Rightarrow> False | _ \<Rightarrow> True)"

text \<open>\<^verbatim>\<open>[f for f in raw if f in names]\<close> with a set of names: an unhashable item raises.\<close>

definition keep_names :: "string list \<Rightarrow> json \<Rightarrow> string list op" where
  "keep_names names raw =
     bind (py_iter raw) (\<lambda>items.
     seq (require (list_all hashable items) (TypeError ''unhashable type''))
     (ret (List.map_filter (\<lambda>f. case f of JStr x \<Rightarrow> if x \<in> set names then Some x else None | _ \<Rightarrow> None) items)))"

definition visible_fields :: "string list op" where
  "visible_fields =
     bind (get_typed (ks_name INTAKE_FIELDS_VISIBLE)) (\<lambda>raw.
     if \<not> json_truthy raw then ret INTAKE_FIELDS_CANONICAL else keep_names INTAKE_FIELDS_CANONICAL raw)"

definition field_order :: "string list op" where
  "field_order =
     bind visible_fields (\<lambda>visible.
     bind (get_typed (ks_name INTAKE_FIELDS_ORDER)) (\<lambda>raw.
     if \<not> json_truthy raw then ret visible
     else
       bind (keep_names (filter (\<lambda>f. f \<in> set INTAKE_FIELDS_CANONICAL) visible) raw) (\<lambda>ordered.
       ret (ordered @ filter (\<lambda>f. f \<in> set visible \<and> f \<notin> set ordered) INTAKE_FIELDS_CANONICAL))))"

definition get_form_config :: "env \<Rightarrow> string option \<Rightarrow> (string list \<times> string list) op" where
  "get_form_config E cred =
     guarded_route E [''customer''] cred (\<lambda>current_user.
       bind visible_fields (\<lambda>v. bind field_order (\<lambda>ord. ret (v, ord))))"

definition list_intake_categories :: "env \<Rightarrow> string option \<Rightarrow> (string \<times> json) list list op" where
  "list_intake_categories E cred =
     guarded_route E [''customer''] cred (\<lambda>current_user.
       reads (\<lambda>s. map (\<lambda>c. [(''id'', JStr (uuid_str (cat_id c))), (''name'', JStr (cat_name c)),
                (''slug'', JStr (cat_slug c))])
         (sort_key (\<lambda>c. (cat_display_order c, cat_name c))
           (filter (\<lambda>c. cat_status c = ''active'' \<and> cat_deleted_at c = None) (categories s)))))"

subsection \<open>The submission of a machine\<close>

record intake_meta =
  im_storage_key :: string
  im_caption :: "string option"
  im_display_order :: int

record intake_submission =
  int_category_id :: "uuid option"
  int_make :: "string option"
  int_model :: "string option"
  int_year :: "int option"
  int_serial_number :: "string option"
  int_hours :: "int option"
  int_running_status :: "string option"
  int_ownership_type :: "string option"
  int_location_text :: "string option"
  int_description :: "string option"
  int_photos :: "intake_meta list"

definition RUNNING_STATUS :: "string list" where
  "RUNNING_STATUS = [''running'', ''partially_running'', ''not_running'']"

definition OWNERSHIP_TYPE :: "string list" where
  "OWNERSHIP_TYPE = [''owned'', ''financed'', ''leased'', ''unknown'']"

definition one_of :: "string list \<Rightarrow> string option \<Rightarrow> string option option" where
  "one_of names x =
     (case x of
        None \<Rightarrow> Some None
      | Some v \<Rightarrow> if lower (strip v) \<in> set names then Some (Some (lower (strip v))) else None)"

definition intake_meta_ok :: "intake_meta \<Rightarrow> bool" where
  "intake_meta_ok p \<longleftrightarrow> chars_within 1 255 (im_storage_key p) \<and> up_to 1000 (im_caption p) \<and>
     0 \<le> im_display_order p \<and> im_display_order p \<le> 99"

definition intake_bounds :: "intake_submission \<Rightarrow> bool" where
  "intake_bounds x \<longleftrightarrow> up_to 100 (int_make x) \<and> up_to 100 (int_model x) \<and>
     (case int_year x of None \<Rightarrow> True | Some y \<Rightarrow> 1900 \<le> y \<and> y \<le> 2100) \<and>
     up_to 100 (int_serial_number x) \<and>
     (case int_hours x of None \<Rightarrow> True | Some h \<Rightarrow> 0 \<le> h \<and> h \<le> 1000000) \<and>
     up_to 255 (int_location_text x) \<and> up_to 5000 (int_description x) \<and>
     length (int_photos x) \<le> 20 \<and> list_all intake_meta_ok (int_photos x)"

definition parse_intake :: "intake_submission \<Rightarrow> intake_submission option" where
  "parse_intake x =
     (if \<not> intake_bounds x then None
      else case (one_of RUNNING_STATUS (int_running_status x), one_of OWNERSHIP_TYPE (int_ownership_type x)) of
        (Some rs, Some ot) \<Rightarrow> Some (x\<lparr>int_running_status := rs, int_ownership_type := ot,
          int_make := strip_or_null (int_make x), int_model := strip_or_null (int_model x),
          int_serial_number := strip_or_null (int_serial_number x),
          int_location_text := strip_or_null (int_location_text x),
          int_description := strip_or_null (int_description x)\<rparr>)
      | _ \<Rightarrow> None)"

definition REF_ALPHABET :: string where "REF_ALPHABET = ''0123456789ABCDEFGHJKMNPQRSTVWXYZ''"
definition REF_LENGTH :: nat where "REF_LENGTH = 8"
definition MAX_REF_ATTEMPTS :: nat where "MAX_REF_ATTEMPTS = 10"

definition generate_reference_number :: "env \<Rightarrow> string op" where
  "generate_reference_number E =
     bind (random_string E REF_ALPHABET REF_LENGTH) (\<lambda>suffix. ret (''THE-'' @ suffix))"

primrec reserve_attempts :: "env \<Rightarrow> nat \<Rightarrow> string op" where
  "reserve_attempts E 0 = raise (http 500 ''Could not allocate a reference number. Please retry.'')"
| "reserve_attempts E (Suc n) =
     bind (generate_reference_number E) (\<lambda>candidate.
     bind (select_one equipment_records (\<lambda>r. er_reference_number r = Some candidate)) (\<lambda>taken.
     if taken = None then ret candidate else reserve_attempts E n))"

definition reserve_reference_number :: "env \<Rightarrow> string op" where
  "reserve_reference_number E = reserve_attempts E MAX_REF_ATTEMPTS"

definition validate_category :: "uuid option \<Rightarrow> unit op" where
  "validate_category category_id =
     (case category_id of
        None \<Rightarrow> ret ()
      | Some c \<Rightarrow>
          bind (select_one categories (\<lambda>k. cat_id k = c \<and> cat_status k = ''active'' \<and> cat_deleted_at k = None))
            (\<lambda>found. require (found \<noteq> None) (http 422 ''Unknown or inactive equipment category.'')))"

definition new_record ::
  "env \<Rightarrow> uuid \<Rightarrow> uuid \<Rightarrow> string \<Rightarrow> intake_submission \<Rightarrow> datetime \<Rightarrow> equipment_record" where
  "new_record E i customer_id reference x t =
     \<lparr>er_id = i, er_customer_id = customer_id, er_status = ''new_request'',
      er_reference_number = Some reference, er_category_id = int_category_id x,
      er_customer_make = sanitize_plain E (int_make x), er_customer_model = sanitize_plain E (int_model x),
      er_customer_year = int_year x, er_customer_serial_number = sanitize_plain E (int_serial_number x),
      er_customer_hours = int_hours x, er_customer_running_status = int_running_status x,
      er_customer_ownership_type = int_ownership_type x,
      er_customer_location_text = sanitize_plain E (int_location_text x),
      er_customer_description = sanitize_plain E (int_description x),
      er_customer_submitted_at = Some t, er_assigned_sales_rep_id = None,
      er_assigned_appraiser_id = None, er_created_at = t, er_deleted_at = None\<rparr>"

definition insert_meta :: "env \<Rightarrow> uuid \<Rightarrow> nat \<times> intake_meta \<Rightarrow> unit op" where
  "insert_meta E record_id = (\<lambda>(idx, p).
     bind (uuid4 E) (\<lambda>i.
     bind now (\<lambda>t.
     writes (\<lambda>s. s\<lparr>intake_photos := intake_photos s @
       [\<lparr>ip_id = i, ip_equipment_record_id = record_id, ip_storage_key = strip (im_storage_key p),
         ip_caption = sanitize_plain E (im_caption p),
         ip_display_order = (if im_display_order p \<noteq> 0 then im_display_order p else int idx),
         ip_uploaded_at = t, ip_scan_status = ''pending'', ip_content_type = None, ip_sha256 = None\<rparr>]\<rparr>))))"

definition routed_audit :: "uuid \<Rightarrow> routing_decision \<Rightarrow> audit_log" where
  "routed_audit record_id d =
     \<lparr>aud_event_type = ''equipment_record.routed'', aud_actor_id = None, aud_actor_role = Some ''system'',
      aud_target_type = Some ''equipment_record'', aud_target_id = Some record_id, aud_before_state = None,
      aud_after_state = Some (JObj [(''trigger'', JStr (dec_trigger d)),
        (''rule_id'', jopt (JStr \<circ> uuid_str) (dec_rule_id d)), (''rule_type'', jopt JStr (dec_rule_type d)),
        (''assigned_sales_rep_id'', jopt (JStr \<circ> uuid_str) (dec_assigned_user_id d))])\<rparr>"

definition unassigned_decision :: "routing_decision \<Rightarrow> routing_decision" where
  "unassigned_decision d = d\<lparr>dec_rule_id := None, dec_rule_type := None\<rparr>"

text \<open>The foreign key of the representative is checked when the record is flushed.\<close>

definition assign_record :: "uuid \<Rightarrow> uuid \<Rightarrow> unit op" where
  "assign_record record_id u =
     bind (get_row users usr_id u) (\<lambda>found.
     seq (require (found \<noteq> None) (IntegrityError ''assigned_sales_rep_id''))
     (writes (\<lambda>s. s\<lparr>equipment_records := update_where (\<lambda>r. er_id r = record_id)
        (\<lambda>r. r\<lparr>er_assigned_sales_rep_id := Some u\<rparr>) (equipment_records s)\<rparr>)))"

definition route_and_assign :: "env \<Rightarrow> user \<Rightarrow> equipment_record \<Rightarrow> customer \<Rightarrow> equipment_record op" where
  "route_and_assign E user record c =
     bind (attempt (route_for_record E c (Some (usr_email user)))) (\<lambda>outcome.
     case outcome of
       Inl e \<Rightarrow> ret record
     | Inr decision \<Rightarrow>
         (case dec_assigned_user_id decision of
            None \<Rightarrow> seq (add_audit (routed_audit (er_id record) (unassigned_decision decision))) (ret record)
          | Some u \<Rightarrow>
              let record' = record\<lparr>er_assigned_sales_rep_id := Some u\<rparr>
              in seq (assign_record (er_id record) u)
                 (seq (add_audit (routed_audit (er_id record) decision))
                 (seq (enqueue_assignment_notification E record' u (dec_trigger decision))
                 (ret record')))))"

definition confirmation_key :: "uuid \<Rightarrow> string" where
  "confirmation_key record_id = ''intake_confirmation:'' @ uuid_str record_id"

definition confirmation_payload :: "user \<Rightarrow> equipment_record \<Rightarrow> (string \<times> json) list" where
  "confirmation_payload user record =
     (let ref = (case er_reference_number record of None \<Rightarrow> ''None'' | Some r \<Rightarrow> r)
      in [(''to_email'', JStr (usr_email user)),
          (''subject'', JStr (''Your submission has been received '' @ em_dash @ '' '' @ ref)),
          (''html_body'', JStr (''<p>Hi '' @ usr_first_name user @ '',</p>'' @
             ''<p>We received your equipment submission. Your reference number is '' @
             ''<strong>'' @ ref @ ''</strong>. '' @
             ''A Temple Heavy Equipment sales representative will follow up shortly.</p>'' @
             ''<p>'' @ em_dash @ '' The Temple Heavy Equipment team</p>'')),
          (''reference_number'', jopt JStr (er_reference_number record))])"

definition enqueue_confirmation :: "env \<Rightarrow> user \<Rightarrow> equipment_record \<Rightarrow> unit op" where
  "enqueue_confirmation E user record =
     seq (enqueue E (confirmation_key (er_id record)) (Some (usr_id user)) ''email''
            ''intake_confirmation'' (confirmation_payload user record) None)
     (ret ())"

definition submit_intake :: "env \<Rightarrow> user \<Rightarrow> intake_submission \<Rightarrow> equipment_record op" where
  "submit_intake E user payload =
     seq (validate_category (int_category_id payload))
     (bind (ensure_profile_for_user E user) (\<lambda>c.
      bind (reserve_reference_number E) (\<lambda>reference.
      bind (uuid4 E) (\<lambda>i.
      bind now (\<lambda>t.
      let record = new_record E i (cus_id c) reference payload t
      in seq (fresh_key equipment_records er_id i)
         (seq (writes (\<lambda>s. s\<lparr>equipment_records := equipment_records s @ [record]\<rparr>))
         (seq (for_each (enumerate 0 (int_photos payload)) (insert_meta E i))
         (bind (route_and_assign E user record c) (\<lambda>record'.
          seq (enqueue_confirmation E user record') (ret record'))))))))))"

subsection \<open>What the customer sees\<close>

record equipment_out =
  eo_record :: equipment_record
  eo_reference_number :: string
  eo_photos :: "intake_photo list"
  eo_status_events :: "status_event list"

definition serialize_record :: "db \<Rightarrow> equipment_record \<Rightarrow> equipment_out" where
  "serialize_record s r =
     \<lparr>eo_record = r, eo_reference_number = str_or (er_reference_number r) '''',
      eo_photos = sort_key ip_display_order (filter (\<lambda>p. ip_equipment_record_id p = er_id r) (intake_photos s)),
      eo_status_events = sort_key ev_created_at
        (filter (\<lambda>e. ev_equipment_record_id e = er_id r) (status_events s))\<rparr>"

definition list_records_for_user :: "user \<Rightarrow> equipment_record list op" where
  "list_records_for_user user =
     bind (select_one customers (\<lambda>c. cus_user_id c = Some (usr_id user))) (\<lambda>found.
     case found of
       None \<Rightarrow> ret []
     | Some c \<Rightarrow> reads (\<lambda>s. sort_key (\<lambda>r. - er_created_at r)
         (filter (\<lambda>r. er_customer_id r = cus_id c) (equipment_records s))))"

definition submit_intake_route :: "env \<Rightarrow> string option \<Rightarrow> intake_submission \<Rightarrow> equipment_out op" where
  "submit_intake_route E cred body =
     guarded_route E [''customer''] cred (\<lambda>current_user.
       case parse_intake body of
         None \<Rightarrow> raise (http 422 ''validation error'')
       | Some payload \<Rightarrow> bind (submit_intake E current_user payload) (\<lambda>r. reads (\<lambda>s. serialize_record s r)))"

definition submit_intake_batch :: "env \<Rightarrow> string option \<Rightarrow> unit op" where
  "submit_intake_batch E cred =
     guarded_route E [''customer''] cred (\<lambda>current_user.
       raise (http 501 ''Bulk intake is not implemented yet. POST one item at a time.''))"

definition list_equipment :: "env \<Rightarrow> string option \<Rightarrow> equipment_out list op" where
  "list_equipment E cred =
     guarded_route E [''customer''] cred (\<lambda>current_user.
       bind (list_records_for_user current_user) (\<lambda>rs. reads (\<lambda>s. map (serialize_record s) rs)))"

definition get_equipment :: "env \<Rightarrow> string option \<Rightarrow> uuid \<Rightarrow> equipment_out op" where
  "get_equipment E cred record_id =
     guarded_route E [''customer''] cred (\<lambda>current_user.
       bind (get_record_for_user current_user record_id) (\<lambda>r. reads (\<lambda>s. serialize_record s r)))"

end
