(* ===== verification/RoutingFacts.thy ===== *)
theory RoutingFacts
  imports LeadRouting
begin

section \<open>Facts about lead routing\<close>

text \<open>
  The round-robin counter and whose turn it is, the priority slots and the operations that keep
  them, the two phases of a renumbering, what the waterfall can touch and that it always decides.
\<close>

subsection \<open>The counter\<close>

text \<open>Who is next in the pool of a rule.\<close>

definition next_rep :: "uuid list \<Rightarrow> routing_rule \<Rightarrow> nat \<Rightarrow> uuid" where
  "next_rep reps rule n = reps ! nat ((rule_round_robin_index rule + int n) mod int (length reps))"

definition advance :: "nat \<Rightarrow> routing_rule \<Rightarrow> routing_rule" where
  "advance n r = r\<lparr>rule_round_robin_index := rule_round_robin_index r + int n\<rparr>"

lemma advance_simps [simp]:
  "rule_id (advance n r) = rule_id r" "rule_type (advance n r) = rule_type r"
  "rule_priority (advance n r) = rule_priority r" "rule_deleted_at (advance n r) = rule_deleted_at r"
  "rule_round_robin_index (advance n r) = rule_round_robin_index r + int n"
  "advance 0 r = r" "advance m (advance n r) = advance (n + m) r"
  by (simp_all add: advance_def)

lemma claim_rep_run:
  assumes "filter (\<lambda>r. rule_id r = i) (routing_rules s) = [rule]" "reps \<noteq> []"
  shows "claim_next_round_robin i reps s = (Inr (Some (next_rep reps rule 0)),
     s\<lparr>routing_rules := update_where (\<lambda>r. rule_id r = i) (advance 1) (routing_rules s)\<rparr>)"
proof -
  have "(\<lambda>r. r\<lparr>rule_round_robin_index := rule_round_robin_index r + 1\<rparr>) = advance 1"
    by (simp add: fun_eq_iff advance_def)
  then show ?thesis using assms
    by (simp add: claim_next_round_robin_def run_simps filter_update_where_same next_rep_def)
qed

lemma update_where_advance:
  "update_where (\<lambda>r. rule_id r = i) (advance m) (update_where (\<lambda>r. rule_id r = i) (advance n) rows) =
   update_where (\<lambda>r. rule_id r = i) (advance (n + m)) rows"
  by (auto simp: update_where_def)

lemma claims_run:
  assumes "filter (\<lambda>r. rule_id r = i) (routing_rules s) = [rule]" "reps \<noteq> []"
  shows "map_each xs (\<lambda>_. claim_next_round_robin i reps) s =
    (Inr (map (\<lambda>j. Some (next_rep reps rule j)) [0..<length xs]),
     s\<lparr>routing_rules := update_where (\<lambda>r. rule_id r = i) (advance (length xs)) (routing_rules s)\<rparr>)"
  using assms(1)
proof (induction xs arbitrary: s rule)
  case Nil
  then show ?case by (simp add: run_simps update_where_id)
next
  case (Cons x xs)
  let ?t = "s\<lparr>routing_rules := update_where (\<lambda>r. rule_id r = i) (advance 1) (routing_rules s)\<rparr>"
  have "filter (\<lambda>r. rule_id r = i) (routing_rules ?t) = [advance 1 rule]"
    using Cons.prems by (simp add: filter_update_where_same)
  note ih = Cons.IH [OF this]
  have shift: "next_rep reps (advance 1 rule) j = next_rep reps rule (Suc j)" for j
    by (simp add: next_rep_def algebra_simps)
  have "[0..<length (x # xs)] = 0 # map Suc [0..<length xs]"
    by (simp add: map_Suc_upt upt_conv_Cons del: upt_Suc)
  then show ?case using ih
    by (simp add: bind_run claim_rep_run [OF Cons.prems assms(2)] shift [simplified] update_where_advance comp_def del: upt_Suc)
qed

lemma one_round:
  assumes "0 \<le> rule_round_robin_index rule"
  shows "map (next_rep reps rule) [0..<length reps] = rotate (nat (rule_round_robin_index rule)) reps"
proof (rule nth_equalityI)
  fix j assume "j < length (map (next_rep reps rule) [0..<length reps])"
  then have j: "j < length reps" by simp
  define k where "k = nat (rule_round_robin_index rule)"
  with assms have k: "rule_round_robin_index rule = int k" by simp
  have "nat ((int k + int j) mod int (length reps)) = (k + j) mod length reps"
    by (metis nat_int of_nat_add zmod_int)
  with j show "map (next_rep reps rule) [0..<length reps] ! j = rotate (nat (rule_round_robin_index rule)) reps ! j"
    by (simp add: next_rep_def k nth_rotate)
qed simp

subsection \<open>Testing a rule\<close>

lemma haversine_symmetric: "haversine_miles a b c d = haversine_miles c d a b"
proof -
  have d: "sin (radians (of_rat (x - y)) / 2) = - sin (radians (of_rat (y - x)) / 2)" for x y
  proof -
    have "radians (of_rat (x - y)) / 2 = - (radians (of_rat (y - x)) / 2)"
      by (simp add: radians_def of_rat_diff field_simps)
    then show ?thesis by (metis sin_minus)
  qed
  show ?thesis unfolding haversine_miles_def Let_def d [of c a] d [of d b]
    by (simp add: mult.commute)
qed

lemma get_rule_run:
  assumes "filter (\<lambda>r. rule_id r = i) (routing_rules s) = [rule]" "rule_deleted_at rule = None"
  shows "get_rule i s = (Inr rule, s)"
  using assms by (simp add: get_rule_def run_simps)

lemma get_rule_returns:
  assumes "get_rule i s = (Inr rule, t)"
  shows "t = s" "rule \<in> set (routing_rules s)" "rule_id rule = i" "rule_deleted_at rule = None"
    "filter (\<lambda>r. rule_id r = i) (routing_rules s) = [rule]"
proof -
  have f: "filter (\<lambda>r. rule_id r = i) (routing_rules s) = [rule] \<and> t = s \<and> rule_deleted_at rule = None"
    using assms by (auto simp: get_rule_def run_simps split: list.splits if_splits option.splits)
  then show "t = s" "rule_deleted_at rule = None"
    "filter (\<lambda>r. rule_id r = i) (routing_rules s) = [rule]" by simp_all
  from f have "rule \<in> set (filter (\<lambda>r. rule_id r = i) (routing_rules s))" by simp
  then show "rule \<in> set (routing_rules s)" "rule_id rule = i" by auto
qed

lemma test_rule_pure: "test_rule E i inp s = (r, t) \<Longrightarrow> t = s"
  by (auto simp: test_rule_def get_rule_def run_simps Let_def split: list.splits if_splits option.splits)

subsection \<open>Priority slots\<close>

text \<open>
  What the primary key and the partial unique index promise, with the range the routes accept:
  ids identify rules, no two live rules share a slot of a bucket, priorities are not negative.
\<close>

definition slots_unique :: "routing_rule list \<Rightarrow> bool" where
  "slots_unique rules \<longleftrightarrow> (\<forall>r \<in> set rules. \<forall>q \<in> set rules.
     rule_deleted_at r = None \<and> rule_deleted_at q = None \<and> rule_type r = rule_type q \<and>
     rule_priority r = rule_priority q \<longrightarrow> rule_id r = rule_id q)"

definition rules_ok :: "db \<Rightarrow> bool" where
  "rules_ok s \<longleftrightarrow> distinct (map rule_id (routing_rules s)) \<and> slots_unique (routing_rules s) \<and>
     (\<forall>r \<in> set (routing_rules s). rule_deleted_at r = None \<longrightarrow> 0 \<le> rule_priority r)"

definition live_ids :: "string \<Rightarrow> db \<Rightarrow> uuid set" where
  "live_ids ty s = {rule_id r |r. r \<in> set (routing_rules s) \<and> rule_type r = ty \<and> rule_deleted_at r = None}"

definition renumber :: "(uuid \<times> int) list \<Rightarrow> routing_rule \<Rightarrow> routing_rule" where
  "renumber ups r = (case map_of ups (rule_id r) of None \<Rightarrow> r | Some p \<Rightarrow> r\<lparr>rule_priority := p\<rparr>)"

lemma renumber_simps [simp]:
  "rule_id (renumber ups r) = rule_id r" "rule_type (renumber ups r) = rule_type r"
  "rule_deleted_at (renumber ups r) = rule_deleted_at r" "renumber [] r = r"
  by (simp_all add: renumber_def split: option.splits)

lemma set_priorities_run:
  assumes "distinct (map fst ups)" "distinct (map snd ups)"
    and "\<forall>u \<in> set ups. \<forall>r \<in> set (routing_rules s). \<not> in_slot ty (snd u) r"
  shows "for_each ups (set_priority ty) s = (Inr (), s\<lparr>routing_rules := map (renumber ups) (routing_rules s)\<rparr>)"
  using assms
proof (induction ups arbitrary: s)
  case Nil
  have "renumber [] = (\<lambda>r. r)" by (simp add: fun_eq_iff)
  then show ?case by simp
next
  case (Cons u ups)
  obtain i p where u: "u = (i, p)" by fastforce
  let ?t = "s\<lparr>routing_rules := update_where (\<lambda>r. rule_id r = i) (\<lambda>r. r\<lparr>rule_priority := p\<rparr>) (routing_rules s)\<rparr>"
  have first: "set_priority ty u s = (Inr (), ?t)"
    using Cons.prems(3) by (auto simp: set_priority_def u run_simps)
  have "\<forall>u \<in> set ups. \<forall>r \<in> set (routing_rules ?t). \<not> in_slot ty (snd u) r"
  proof (intro ballI)
    fix v r assume v: "v \<in> set ups" and "r \<in> set (routing_rules ?t)"
    then obtain r0 where r0: "r0 \<in> set (routing_rules s)"
      "r = (if rule_id r0 = i then r0\<lparr>rule_priority := p\<rparr> else r0)"
      using set_update_where [of r "\<lambda>r. rule_id r = i"] by auto
    moreover have "snd v \<noteq> p" using Cons.prems(2) v u by force
    ultimately show "\<not> in_slot ty (snd v) r" using Cons.prems(3) v by (auto simp: in_slot_def)
  qed
  moreover have "distinct (map fst ups)" "distinct (map snd ups)" using Cons.prems by simp_all
  ultimately have rest: "for_each ups (set_priority ty) ?t =
      (Inr (), ?t\<lparr>routing_rules := map (renumber ups) (routing_rules ?t)\<rparr>)" using Cons.IH by blast
  have "map_of ups i = None" using Cons.prems(1) u by (auto simp: map_of_eq_None_iff)
  then have "map (renumber ups) (routing_rules ?t) = map (renumber (u # ups)) (routing_rules s)"
    by (auto simp: update_where_def renumber_def u)
  with rest show ?case by (simp add: bind_run first)
qed

lemma flush_priorities_run:
  assumes "distinct (map fst ups)" "distinct (map snd ups)"
    and "\<forall>u \<in> set ups. \<forall>r \<in> set (routing_rules s). \<not> in_slot ty (snd u) r"
  shows "flush_priorities ty ups s = (Inr (), s\<lparr>routing_rules := map (renumber ups) (routing_rules s)\<rparr>)"
proof -
  have "map_of (sort_key fst ups) = map_of ups"
    by (rule iffD2 [OF map_of_inject_set]) (simp_all add: assms(1) distinct_map_sort_key)
  then have "renumber (sort_key fst ups) = renumber ups" by (simp add: renumber_def fun_eq_iff)
  then show ?thesis unfolding flush_priorities_def
    by (subst set_priorities_run) (simp_all add: assms distinct_map_sort_key)
qed

lemma map_of_zip_upt:
  assumes "distinct ids" "k < length ids"
  shows "map_of (zip ids (map f [0..<length ids])) (ids ! k) = Some (f k)"
  using map_of_zip_nth [of ids "map f [0..<length ids]" k] assms by simp

lemma renumber_zip:
  assumes "distinct ids" "k < length ids" "rule_id r = ids ! k"
  shows "renumber (zip ids (map f [0..<length ids])) r = r\<lparr>rule_priority := f k\<rparr>"
  using assms by (simp add: renumber_def map_of_zip_upt)

lemma renumber_zip_other:
  "rule_id r \<notin> set ids \<Longrightarrow> renumber (zip ids (map f [0..<length ids])) r = r"
  by (auto simp: renumber_def split: option.splits dest: map_of_SomeD set_zip_leftD)

lemma both_phases_run:
  assumes ok: "rules_ok s" and ids: "distinct ids" "set ids = live_ids ty s"
  shows "seq (flush_priorities ty (scratch_priorities ids))
      (flush_priorities ty (final_priorities ids)) s =
    (Inr (), s\<lparr>routing_rules := map (renumber (final_priorities ids)) (routing_rules s)\<rparr>)"
proof -
  let ?f = "\<lambda>k. - 1 - int k"
  let ?t = "s\<lparr>routing_rules := map (renumber (scratch_priorities ids)) (routing_rules s)\<rparr>"
  have "\<forall>u \<in> set (scratch_priorities ids). \<forall>r \<in> set (routing_rules s). \<not> in_slot ty (snd u) r"
  proof (intro ballI)
    fix u r assume "u \<in> set (scratch_priorities ids)" and r: "r \<in> set (routing_rules s)"
    then have "snd u \<in> set (map ?f [0..<length ids])"
      unfolding scratch_priorities_def by (metis prod.collapse set_zip_rightD)
    then have "snd u < 0" by auto
    with r ok show "\<not> in_slot ty (snd u) r" by (force simp: in_slot_def rules_ok_def)
  qed
  moreover have "inj_on ?f A" "inj_on int A" for A by (auto simp: inj_on_def)
  ultimately have one: "flush_priorities ty (scratch_priorities ids) s = (Inr (), ?t)"
    by (intro flush_priorities_run) (simp_all add: scratch_priorities_def ids(1) distinct_map)
  have "\<forall>u \<in> set (final_priorities ids). \<forall>r \<in> set (routing_rules ?t). \<not> in_slot ty (snd u) r"
  proof (intro ballI notI)
    fix u r assume "u \<in> set (final_priorities ids)" and r: "r \<in> set (routing_rules ?t)"
      and slot: "in_slot ty (snd u) r"
    then have "snd u \<in> set (map int [0..<length ids])"
      unfolding final_priorities_def by (metis prod.collapse set_zip_rightD)
    then have u: "0 \<le> snd u" by auto
    obtain r0 where r0: "r0 \<in> set (routing_rules s)" "r = renumber (scratch_priorities ids) r0"
      using r by auto
    with slot ids(2) have "rule_id r0 \<in> set ids" by (auto simp: in_slot_def live_ids_def)
    then obtain k where "k < length ids" "rule_id r0 = ids ! k" by (metis in_set_conv_nth)
    then have "rule_priority r < 0" using ids(1) r0(2) by (simp add: scratch_priorities_def renumber_zip)
    with slot u show False by (simp add: in_slot_def)
  qed
  then have two: "flush_priorities ty (final_priorities ids) ?t =
      (Inr (), ?t\<lparr>routing_rules := map (renumber (final_priorities ids)) (routing_rules ?t)\<rparr>)"
    using \<open>inj_on int (set [0..<length ids])\<close>
    by (intro flush_priorities_run) (simp_all add: final_priorities_def ids(1) distinct_map)
  have "renumber (final_priorities ids) (renumber (scratch_priorities ids) r) =
      renumber (final_priorities ids) r" for r
  proof (cases "rule_id r \<in> set ids")
    case True
    then obtain k where "k < length ids" "rule_id r = ids ! k" by (metis in_set_conv_nth)
    then show ?thesis using ids(1) by (simp add: final_priorities_def scratch_priorities_def renumber_zip)
  next
    case False
    then show ?thesis by (simp add: scratch_priorities_def renumber_zip_other)
  qed
  then show ?thesis by (simp add: seq_run one two comp_def)
qed

lemma renumber_keeps_rules_ok:
  assumes ok: "rules_ok s" and ids: "distinct ids" "set ids = live_ids ty s"
  shows "rules_ok (s\<lparr>routing_rules := map (renumber (final_priorities ids)) (routing_rules s)\<rparr>)"
proof -
  have uniq: "r = q" if "r \<in> set (routing_rules s)" "q \<in> set (routing_rules s)" "rule_id r = rule_id q" for r q
    using ok that by (auto simp: rules_ok_def distinct_map inj_on_def)
  have other: "renumber (final_priorities ids) r = r"
    if r: "r \<in> set (routing_rules s)" "rule_type r \<noteq> ty" for r
  proof -
    have "rule_id r \<notin> set ids" using uniq [OF r(1)] r(2) ids(2) by (auto simp: live_ids_def)
    then show ?thesis by (simp add: final_priorities_def renumber_zip_other)
  qed
  have mine: "\<exists>k. k < length ids \<and> rule_id r = ids ! k \<and> rule_priority (renumber (final_priorities ids) r) = int k"
    if r: "r \<in> set (routing_rules s)" "rule_type r = ty" "rule_deleted_at r = None" for r
  proof -
    have "rule_id r \<in> set ids" using r ids(2) by (auto simp: live_ids_def)
    then obtain k where "k < length ids" "rule_id r = ids ! k" by (metis in_set_conv_nth)
    then show ?thesis using ids(1) by (auto simp: final_priorities_def renumber_zip)
  qed
  have pair: "rule_id r = rule_id q"
    if r: "r \<in> set (routing_rules s)" "rule_deleted_at r = None"
      and q: "q \<in> set (routing_rules s)" "rule_deleted_at q = None"
      and eq: "rule_type r = rule_type q"
        "rule_priority (renumber (final_priorities ids) r) = rule_priority (renumber (final_priorities ids) q)" for r q
  proof (cases "rule_type r = ty")
    case True
    with mine [OF r(1) _ r(2)] mine [OF q(1) _ q(2)] eq show ?thesis by auto
  next
    case False
    then have "rule_priority r = rule_priority q" using other [OF r(1)] other [OF q(1)] eq by simp
    then show ?thesis using ok r q eq(1) unfolding rules_ok_def slots_unique_def by blast
  qed
  have "slots_unique (map (renumber (final_priorities ids)) (routing_rules s))"
    unfolding slots_unique_def
  proof (intro ballI impI)
    fix a b assume "a \<in> set (map (renumber (final_priorities ids)) (routing_rules s))"
      "b \<in> set (map (renumber (final_priorities ids)) (routing_rules s))"
      and h: "rule_deleted_at a = None \<and> rule_deleted_at b = None \<and> rule_type a = rule_type b \<and>
        rule_priority a = rule_priority b"
    then obtain r q where "r \<in> set (routing_rules s)" "q \<in> set (routing_rules s)"
      "a = renumber (final_priorities ids) r" "b = renumber (final_priorities ids) q" by auto
    with h show "rule_id a = rule_id b" using pair [of r q] by simp
  qed
  moreover have "0 \<le> rule_priority (renumber (final_priorities ids) r)"
    if r: "r \<in> set (routing_rules s)" "rule_deleted_at r = None" for r
  proof (cases "rule_type r = ty")
    case True
    then obtain k where "rule_priority (renumber (final_priorities ids) r) = int k"
      using mine [OF r(1) True r(2)] by blast
    then show ?thesis by simp
  next
    case False
    have "0 \<le> rule_priority r" using r ok unfolding rules_ok_def by blast
    then show ?thesis by (simp only: other [OF r(1) False])
  qed
  moreover have "rule_id \<circ> renumber (final_priorities ids) = rule_id" by (simp add: fun_eq_iff)
  ultimately show ?thesis using ok by (auto simp: rules_ok_def)
qed

lemma reorder_returns:
  assumes ok: "rules_ok s"
    and run: "reorder_priorities ty ids s = (Inr x, t)" and "ids \<noteq> []"
  shows "ty \<in> set ALLOWED_RULE_TYPES" "distinct ids" "set ids = live_ids ty s"
    "t = s\<lparr>routing_rules := map (renumber (final_priorities ids)) (routing_rules s)\<rparr>"
    "map rule_id x = ids" "map rule_priority x = map int [0..<length ids]" "set x \<subseteq> set (routing_rules t)"
proof -
  have live: "live_ids ty s = set (map rule_id (filter (\<lambda>r. rule_type r = ty \<and> rule_deleted_at r = None)
      (routing_rules s)))" by (auto simp: live_ids_def)
  have ty: "ty \<in> set ALLOWED_RULE_TYPES" and d: "distinct ids" and ids: "set ids = live_ids ty s"
    using run assms(3) unfolding reorder_priorities_def live
    by (auto simp: seq_run bind_run require_run split: if_splits)
  show "ty \<in> set ALLOWED_RULE_TYPES" "distinct ids" "set ids = live_ids ty s" by (fact ty d ids)+
  let ?t = "s\<lparr>routing_rules := map (renumber (final_priorities ids)) (routing_rules s)\<rparr>"
  obtain u where u: "flush_priorities ty (scratch_priorities ids) s = (Inr (), u)"
    "flush_priorities ty (final_priorities ids) u = (Inr (), ?t)"
    using both_phases_run [OF ok d ids] by (auto simp: seq_return_iff)
  have t: "t = ?t" and x: "x = concat (map (\<lambda>i. filter (\<lambda>r. rule_id r = i) (routing_rules ?t)) ids)"
    using run assms(3) ty d ids unfolding reorder_priorities_def live
    by (auto simp: seq_run bind_run require_run u split: if_splits)
  show "t = ?t" by (fact t)
  have dt: "distinct (map rule_id (routing_rules ?t))"
    using renumber_keeps_rules_ok [OF ok d ids] by (simp add: rules_ok_def)
  have row: "\<exists>r. filter (\<lambda>r. rule_id r = i) (routing_rules ?t) = [r] \<and> rule_id r = i \<and>
      (\<forall>k < length ids. ids ! k = i \<longrightarrow> rule_priority r = int k)" if "i \<in> set ids" for i
  proof -
    obtain r where r: "r \<in> set (routing_rules s)" "rule_id r = i" using \<open>i \<in> set ids\<close> ids by (auto simp: live_ids_def)
    then have "filter (\<lambda>r. rule_id r = i) (routing_rules ?t) = [renumber (final_priorities ids) r]"
      by (intro filter_key_distinct [OF dt]) simp_all
    moreover have "rule_priority (renumber (final_priorities ids) r) = int k" if "k < length ids" "ids ! k = i" for k
      using renumber_zip [OF d that(1), of r int] that r by (simp add: final_priorities_def)
    ultimately show ?thesis using r by auto
  qed
  define g where "g i = hd (filter (\<lambda>r. rule_id r = i) (routing_rules ?t))" for i
  have g: "filter (\<lambda>r. rule_id r = i) (routing_rules ?t) = [g i]" "rule_id (g i) = i"
    "\<forall>k < length ids. ids ! k = i \<longrightarrow> rule_priority (g i) = int k" if "i \<in> set ids" for i
    using row [OF that] by (auto simp: g_def)
  have "map (\<lambda>i. filter (\<lambda>r. rule_id r = i) (routing_rules ?t)) ids = map (\<lambda>i. [g i]) ids"
    using g(1) by (rule map_cong [OF refl])
  then have xg: "x = map g ids" unfolding x by (simp only: concat_map_singleton)
  show "map rule_id x = ids" unfolding xg using g(2) by (simp add: map_idI)
  show "map rule_priority x = map int [0..<length ids]"
    by (rule nth_equalityI) (simp_all add: xg g(3))
  have "g i \<in> set (routing_rules ?t)" if "i \<in> set ids" for i
  proof -
    have "g i \<in> set (filter (\<lambda>r. rule_id r = i) (routing_rules ?t))" unfolding g(1) [OF that] by simp
    then show ?thesis by simp
  qed
  then show "set x \<subseteq> set (routing_rules t)" by (auto simp: xg t)
qed

lemma reorder_succeeds:
  assumes "rules_ok s" "ty \<in> set ALLOWED_RULE_TYPES" "distinct ids" "set ids = live_ids ty s"
  shows "\<exists>x t. reorder_priorities ty ids s = (Inr x, t)"
proof -
  have live: "live_ids ty s = set (map rule_id (filter (\<lambda>r. rule_type r = ty \<and> rule_deleted_at r = None)
      (routing_rules s)))" by (auto simp: live_ids_def)
  obtain u v where u: "flush_priorities ty (scratch_priorities ids) s = (Inr (), u)"
    "flush_priorities ty (final_priorities ids) u = (Inr (), v)"
    using both_phases_run [OF assms(1,3,4)] by (auto simp: seq_return_iff)
  show ?thesis using assms(2-4) unfolding reorder_priorities_def live
    by (cases "ids = []") (simp_all add: seq_run bind_run require_run u)
qed

text \<open>A rule written back: it keeps the slots when its own slot is free of others.\<close>

lemma replace_rule_ok:
  assumes ok: "rules_ok s"
    and slot: "rule_deleted_at r = None \<Longrightarrow> 0 \<le> rule_priority r \<and>
      (\<forall>q \<in> set (routing_rules s). in_slot (rule_type r) (rule_priority r) q \<longrightarrow> rule_id q = rule_id r)"
  shows "rules_ok (s\<lparr>routing_rules := update_where (\<lambda>x. rule_id x = rule_id r) (\<lambda>_. r) (routing_rules s)\<rparr>)"
proof -
  let ?rows = "update_where (\<lambda>x. rule_id x = rule_id r) (\<lambda>_. r) (routing_rules s)"
  have row: "q = r \<or> (q \<in> set (routing_rules s) \<and> rule_id q \<noteq> rule_id r)" if "q \<in> set ?rows" for q
    using that by (auto simp: update_where_def)
  have "map rule_id ?rows = map rule_id (routing_rules s)" by (simp add: update_where_def)
  moreover have "slots_unique ?rows"
    unfolding slots_unique_def
  proof (intro ballI impI)
    fix a b assume a: "a \<in> set ?rows" and b: "b \<in> set ?rows"
      and h: "rule_deleted_at a = None \<and> rule_deleted_at b = None \<and> rule_type a = rule_type b \<and>
        rule_priority a = rule_priority b"
    have old: "\<forall>x \<in> set (routing_rules s). \<forall>y \<in> set (routing_rules s).
        rule_deleted_at x = None \<and> rule_deleted_at y = None \<and> rule_type x = rule_type y \<and>
        rule_priority x = rule_priority y \<longrightarrow> rule_id x = rule_id y"
      using ok unfolding rules_ok_def slots_unique_def by (elim conjE)
    consider "a = r" "b = r" | "a = r" "b \<in> set (routing_rules s)" | "b = r" "a \<in> set (routing_rules s)"
      | "a \<in> set (routing_rules s)" "b \<in> set (routing_rules s)" using row [OF a] row [OF b] by blast
    then show "rule_id a = rule_id b"
    proof cases
      case 2 then show ?thesis using slot h by (auto simp: in_slot_def)
    next
      case 3 then show ?thesis using slot h by (auto simp: in_slot_def)
    next
      case 4 then show ?thesis using old h by blast
    qed simp
  qed
  moreover have "0 \<le> rule_priority q" if "q \<in> set ?rows" "rule_deleted_at q = None" for q
    using row [OF that(1)] that(2) slot ok unfolding rules_ok_def by blast
  ultimately show ?thesis using ok by (simp add: rules_ok_def)
qed

lemma slot_free_returns:
  "check_priority_slot_free ty p excluding s = (Inr x, t) \<Longrightarrow>
     t = s \<and> (\<forall>q \<in> set (routing_rules s). in_slot ty p q \<longrightarrow> Some (rule_id q) = excluding)"
  by (auto simp: check_priority_slot_free_def run_simps filter_empty_conv split: list.splits if_splits)

lemma require_sales_role_pure: "require_sales_role u s = (r, t) \<Longrightarrow> t = s"
  by (auto simp: require_sales_role_def slug_of_user_def run_simps split: list.splits if_splits option.splits)

lemma validate_conditions_pure: "validate_conditions E ty c s = (r, t) \<Longrightarrow> t = s"
  by (auto simp: validate_conditions_def run_simps split: if_splits)

lemma create_rule_returns:
  assumes "create_rule E u ty p c a b s = (Inr rule, t)"
  shows "t = s\<lparr>draws := Suc (draws s), routing_rules := routing_rules s @ [rule]\<rparr>"
    "rule_id rule = random_uuid E (draws s)" "rule_priority rule = p" "rule_type rule = ty"
    "conditions_ok E ty c" "rule_conditions rule = c" "rule_round_robin_index rule = 0"
    "\<forall>q \<in> set (routing_rules s). \<not> in_slot ty p q" "rule_deleted_at rule = None"
proof -
  have pure: "v = s" "conditions_ok E ty c" if "validate_conditions E ty c s = (Inr x, v)" for x v
    using that by (auto simp: validate_conditions_def run_simps split: if_splits)
  have pure2: "v = s" if "(case a of None \<Rightarrow> ret () | Some u \<Rightarrow> require_sales_role u) s = (Inr x, v)" for x v
    using that by (cases a) (auto dest: require_sales_role_pure)
  obtain x1 x2 x3 v1 v2 v3 where run: "validate_conditions E ty c s = (Inr x1, v1)"
    "(case a of None \<Rightarrow> ret () | Some u \<Rightarrow> require_sales_role u) v1 = (Inr x2, v2)"
    "check_priority_slot_free ty p None v2 = (Inr x3, v3)"
    and ins: "rule = \<lparr>rule_id = random_uuid E (draws v3), rule_type = ty, rule_priority = p, rule_conditions = c,
        rule_assigned_user_id = a, rule_round_robin_index = 0, rule_is_active = b,
        rule_created_by = Some (usr_id u), rule_deleted_at = None\<rparr>"
      "t = v3\<lparr>draws := Suc (draws v3), routing_rules := routing_rules v3 @ [rule]\<rparr>"
    using assms by (auto simp: create_rule_def return_iffs uuid4_run Let_def)
  have v: "v1 = s" "v2 = s" "v3 = s" and free: "\<forall>q \<in> set (routing_rules s). \<not> in_slot ty p q"
    and "conditions_ok E ty c"
    using pure [OF run(1)] pure2 run slot_free_returns [OF run(3)] by auto
  show "conditions_ok E ty c" "\<forall>q \<in> set (routing_rules s). \<not> in_slot ty p q" by fact+
  show "t = s\<lparr>draws := Suc (draws s), routing_rules := routing_rules s @ [rule]\<rparr>"
    using ins(2) v by simp
  show "rule_id rule = random_uuid E (draws s)" "rule_priority rule = p" "rule_type rule = ty"
    "rule_conditions rule = c" "rule_round_robin_index rule = 0" "rule_deleted_at rule = None"
    using ins(1) v by simp_all
qed

lemma create_rule_keeps:
  assumes "create_rule E u ty p c a b s = (Inr rule, t)" "rules_ok s" "0 \<le> p"
    and "random_uuid E (draws s) \<notin> rule_id ` set (routing_rules s)"
  shows "rules_ok t"
proof -
  note r = create_rule_returns [OF assms(1)]
  have "slots_unique (routing_rules s @ [rule])"
    unfolding slots_unique_def
  proof (intro ballI impI)
    fix x y assume xy: "x \<in> set (routing_rules s @ [rule])" "y \<in> set (routing_rules s @ [rule])"
      and h: "rule_deleted_at x = None \<and> rule_deleted_at y = None \<and> rule_type x = rule_type y \<and>
        rule_priority x = rule_priority y"
    from xy consider "x = rule" "y = rule" | "x = rule" "y \<in> set (routing_rules s)"
      | "y = rule" "x \<in> set (routing_rules s)" | "x \<in> set (routing_rules s)" "y \<in> set (routing_rules s)"
      by auto
    then show "rule_id x = rule_id y"
    proof cases
      case 2 then show ?thesis using h r(3,4,8) by (auto simp: in_slot_def)
    next
      case 3 then show ?thesis using h r(3,4,8) by (auto simp: in_slot_def)
    next
      case 4 then show ?thesis using h assms(2) unfolding rules_ok_def slots_unique_def by blast
    qed simp
  qed
  then show ?thesis using assms(2-4) r(1-3) by (auto simp: rules_ok_def)
qed

lemma update_rule_keeps:
  assumes run: "update_rule E i patch s = (Inr rule', t)" and ok: "rules_ok s"
    and p: "case rpatch_priority patch of Some (Some p) \<Rightarrow> 0 \<le> p | _ \<Rightarrow> True"
  shows "rules_ok t"
proof -
  obtain rule v where g: "get_rule i s = (Inr rule, v)" using run by (auto simp: update_rule_def return_iffs)
  note r = get_rule_returns [OF g]
  have free: "\<forall>q \<in> set (routing_rules s). in_slot (rule_type rule) (rule_priority rule) q \<longrightarrow> rule_id q = rule_id rule"
    using ok r(2,4) unfolding rules_ok_def slots_unique_def in_slot_def by blast
  obtain x1 v1 x2 v2 x3 v3 where
    c1: "(case rpatch_priority patch of
            Some (Some p) \<Rightarrow>
              if p \<noteq> rule_priority rule
              then check_priority_slot_free (rule_type rule) p (Some (rule_id rule)) else ret ()
          | _ \<Rightarrow> ret ()) s = (Inr x1, v1)"
    and c2: "(case rpatch_conditions patch of
             None \<Rightarrow> ret () | Some c \<Rightarrow> validate_conditions E (rule_type rule) c) v1 = (Inr x2, v2)"
    and c3: "(case rpatch_assigned_user patch of Some (Some u) \<Rightarrow> require_sales_role u | _ \<Rightarrow> ret ()) v2 = (Inr x3, v3)"
    and save: "save_rule (patched_rule patch rule) v3 = (Inr (), t)"
    using run by (auto simp: update_rule_def return_iffs bind_run g r(1) save_rule_def)
  have v1: "v1 = s" using c1 by (auto split: option.splits if_splits dest: slot_free_returns)
  have v2: "v2 = v1" using c2 by (auto split: option.splits dest: validate_conditions_pure)
  have v3: "v3 = v2" using c3 by (auto split: option.splits dest: require_sales_role_pure)
  have slot: "0 \<le> rule_priority (patched_rule patch rule) \<and>
      (\<forall>q \<in> set (routing_rules s). in_slot (rule_type rule) (rule_priority (patched_rule patch rule)) q \<longrightarrow>
         rule_id q = rule_id rule)"
  proof (cases "\<exists>p. rpatch_priority patch = Some (Some p) \<and> p \<noteq> rule_priority rule")
    case True
    then obtain p where "rpatch_priority patch = Some (Some p)" "p \<noteq> rule_priority rule" by blast
    with c1 p slot_free_returns [of "rule_type rule" p "Some (rule_id rule)" s x1 v1] show ?thesis
      by (simp add: patched_rule_def)
  next
    case False
    then have "rule_priority (patched_rule patch rule) = rule_priority rule"
      by (auto simp: patched_rule_def split: option.splits)
    with free ok r(2,4) show ?thesis by (simp add: rules_ok_def)
  qed
  have t: "t = s\<lparr>routing_rules := update_where (\<lambda>x. rule_id x = rule_id (patched_rule patch rule))
      (\<lambda>_. patched_rule patch rule) (routing_rules s)\<rparr>"
    using save by (simp add: save_rule_def v1 v2 v3)
  have "rule_id (patched_rule patch rule) = rule_id rule" "rule_type (patched_rule patch rule) = rule_type rule"
    by (simp_all add: patched_rule_def)
  with slot show ?thesis unfolding t by (intro replace_rule_ok [OF ok]) simp
qed

lemma soft_delete_keeps:
  assumes "soft_delete_rule i s = (Inr rule, t)" "rules_ok s"
  shows "rules_ok t"
proof -
  obtain r v where g: "get_rule i s = (Inr r, v)" using assms(1) by (auto simp: soft_delete_rule_def bind_return_iff)
  then have t: "t = s\<lparr>routing_rules := update_where (\<lambda>x. rule_id x = rule_id rule) (\<lambda>_. rule) (routing_rules s)\<rparr>"
    and del: "rule_deleted_at rule \<noteq> None"
    using assms(1) get_rule_returns(1) [OF g]
    by (auto simp: soft_delete_rule_def run_simps save_rule_def Let_def)
  show ?thesis unfolding t by (rule replace_rule_ok [OF assms(2)]) (use del in simp)
qed

lemma reorder_keeps:
  assumes "reorder_priorities ty ids s = (Inr x, t)" "rules_ok s"
  shows "rules_ok t"
proof (cases "ids = []")
  case True
  then show ?thesis using assms by (auto simp: reorder_priorities_def run_simps split: if_splits)
next
  case False
  note r = reorder_returns [OF assms(2,1) False]
  show ?thesis unfolding r(4) by (rule renumber_keeps_rules_ok [OF assms(2) r(2,3)])
qed

subsection \<open>The waterfall\<close>

text \<open>All that routing can touch: the geocode cache and the counter of a rule.\<close>

locale routing_relation = db_relation R for R :: "db \<Rightarrow> db \<Rightarrow> bool" +
  assumes R_geocodes: "R s (s\<lparr>geocodes := g\<rparr>)"
    and R_counter: "R s (s\<lparr>routing_rules :=
      update_where (\<lambda>r. rule_id r = i) (\<lambda>r. r\<lparr>rule_round_robin_index := rule_round_robin_index r + 1\<rparr>)
        (routing_rules s)\<rparr>)"
begin

lemma confined_geocode: "confined R (geocode E address)"
  unfolding geocode_def parse_geocode_def upsert_geocode_def Let_def
  by (intro db_intros confined_none_on_bad_body confined_py_get confined_py_first R_geocodes)

lemma confined_claim: "confined R (claim_next_round_robin i reps)"
  unfolding claim_next_round_robin_def by (intro db_intros R_counter)

lemma confined_geo_walk: "confined R (geo_walk E c rules)"
  by (induction rules; unfold geo_walk.simps geo_hit_def metro_matches_def)
    (intro db_intros confined_geocode; assumption?)+

lemma confined_rr_walk: "confined R (rr_walk E rules)"
  by (induction rules; unfold rr_walk.simps) (intro db_intros confined_claim; assumption?)+

lemma confined_route: "confined R (route_for_record E c email)"
  unfolding route_for_record_def load_active_rules_def fallback_decision_def read_default_sales_rep_def
  by (intro db_intros confined_geo_walk confined_rr_walk confined_get_typed)

end

interpretation routing_frame: routing_relation "same (\<lambda>s. s\<lparr>routing_rules := [], geocodes := [], draws := 0\<rparr>)"
  by unfold_locales (simp_all add: same_def)

lemma rules_ok_map:
  assumes "rules_ok s" and f: "\<And>r. rule_id (f r) = rule_id r \<and> rule_type (f r) = rule_type r \<and>
    rule_priority (f r) = rule_priority r \<and> rule_deleted_at (f r) = rule_deleted_at r"
  shows "rules_ok (s\<lparr>routing_rules := map f (routing_rules s)\<rparr>)"
proof -
  have "rule_id \<circ> f = rule_id" using f by (simp add: fun_eq_iff)
  moreover have "slots_unique (map f (routing_rules s))"
    using assms(1) f unfolding rules_ok_def slots_unique_def set_map ball_simps by metis
  ultimately show ?thesis using assms(1) f by (auto simp: rules_ok_def)
qed

interpretation routing_slots: routing_relation "preserves rules_ok"
proof unfold_locales
  fix s :: db and i
  show "preserves rules_ok s (s\<lparr>routing_rules := update_where (\<lambda>r. rule_id r = i)
      (\<lambda>r. r\<lparr>rule_round_robin_index := rule_round_robin_index r + 1\<rparr>) (routing_rules s)\<rparr>)"
    unfolding preserves_def update_where_def by (intro impI rules_ok_map) auto
qed (simp_all add: preserves_def rules_ok_def)

lemma geo_walk_decides:
  "geo_walk E c rules s = (Inr (Some d), t) \<Longrightarrow>
   \<exists>rule \<in> set rules. \<exists>u. rule_assigned_user_id rule = Some u \<and> d = decided u rule ''geographic''"
proof (induction rules arbitrary: s)
  case (Cons rule rules)
  then obtain b v where "(case rule_assigned_user_id rule of None \<Rightarrow> geo_walk E c rules
      | Some u \<Rightarrow> if b then ret (Some (decided u rule ''geographic'')) else geo_walk E c rules) v =
      (Inr (Some d), t)" by (auto simp: bind_return_iff)
  then consider u where "rule_assigned_user_id rule = Some u" "d = decided u rule ''geographic''"
    | "geo_walk E c rules v = (Inr (Some d), t)" by (auto split: option.splits if_splits)
  then show ?case using Cons.IH by cases auto
qed simp

lemma rr_walk_run:
  assumes "\<And>r. r \<in> set rules \<Longrightarrow> filter (\<lambda>x. rule_id x = rule_id r) (routing_rules s) = [r]"
  shows "rr_walk E rules s =
    (case find (\<lambda>r. round_robin_rep_ids E r \<noteq> []) rules of
       None \<Rightarrow> (Inr None, s)
     | Some r \<Rightarrow> (Inr (Some (decided (next_rep (round_robin_rep_ids E r) r 0) r ''round_robin'')),
         s\<lparr>routing_rules := update_where (\<lambda>x. rule_id x = rule_id r) (advance 1) (routing_rules s)\<rparr>))"
  using assms
proof (induction rules)
  case (Cons r rules)
  then show ?case
    by (cases "round_robin_rep_ids E r = []") (simp_all add: bind_run claim_rep_run)
qed simp

lemma set_bucket: "set (bucket ty rules) = {r \<in> set rules. rule_type r = ty}"
  by (auto simp: bucket_def)

lemma bucket_map:
  assumes "\<And>r. rule_type (f r) = rule_type r" "\<And>r. rule_priority (f r) = rule_priority r"
  shows "bucket ty (map f rules) = map f (bucket ty rules)"
  unfolding bucket_def using assms
  by (simp add: sort_key_map [symmetric] filter_map comp_def)

definition active_rules :: "db \<Rightarrow> routing_rule list" where
  "active_rules s = filter (\<lambda>r. rule_deleted_at r = None \<and> rule_is_active r) (routing_rules s)"

lemma load_active_rules_run [run_simps]: "load_active_rules s = (Inr (active_rules s), s)"
  by (simp add: load_active_rules_def active_rules_def)

text \<open>The round-robin rule whose turn it is: the first of its bucket that has reps.\<close>

definition turn_rule :: "env \<Rightarrow> db \<Rightarrow> routing_rule option" where
  "turn_rule E s = find (\<lambda>r. round_robin_rep_ids E r \<noteq> []) (bucket ''round_robin'' (active_rules s))"

definition only_round_robin :: "db \<Rightarrow> bool" where
  "only_round_robin s \<longleftrightarrow> (\<forall>r \<in> set (active_rules s). rule_type r = ''round_robin'')"

lemma route_round_robin:
  assumes "distinct (map rule_id (routing_rules s))" "only_round_robin s" "turn_rule E s = Some rule"
  shows "route_for_record E c email s =
    (Inr (decided (next_rep (round_robin_rep_ids E rule) rule 0) rule ''round_robin''),
     s\<lparr>routing_rules := update_where (\<lambda>x. rule_id x = rule_id rule) (advance 1) (routing_rules s)\<rparr>)"
proof -
  have "ad_hoc_rule E (active_rules s) (cus_id c) email = None"
    using assms(2) by (auto simp: ad_hoc_rule_def find_None_iff only_round_robin_def)
  moreover have "bucket ''geographic'' (active_rules s) = []"
    using assms(2) by (auto simp: bucket_def filter_empty_conv only_round_robin_def)
  moreover have "filter (\<lambda>x. rule_id x = rule_id r) (routing_rules s) = [r]"
    if "r \<in> set (bucket ''round_robin'' (active_rules s))" for r
    using that filter_key_distinct [OF assms(1), of r] by (auto simp: set_bucket active_rules_def)
  then have "rr_walk E (bucket ''round_robin'' (active_rules s)) s =
      (Inr (Some (decided (next_rep (round_robin_rep_ids E rule) rule 0) rule ''round_robin'')),
       s\<lparr>routing_rules := update_where (\<lambda>x. rule_id x = rule_id rule) (advance 1) (routing_rules s)\<rparr>)"
    using assms(3) by (subst rr_walk_run) (simp_all add: turn_rule_def)
  ultimately show ?thesis
    by (simp add: route_for_record_def bind_run load_active_rules_run)
qed

lemma turn_advances:
  assumes "turn_rule E s = Some rule" "only_round_robin s"
  shows "turn_rule E (s\<lparr>routing_rules := update_where (\<lambda>x. rule_id x = rule_id rule) (advance n) (routing_rules s)\<rparr>)
      = Some (advance n rule)"
    "only_round_robin (s\<lparr>routing_rules := update_where (\<lambda>x. rule_id x = rule_id rule) (advance n) (routing_rules s)\<rparr>)"
    "round_robin_rep_ids E (advance n rule) = round_robin_rep_ids E rule"
proof -
  let ?f = "\<lambda>r. if rule_id r = rule_id rule then advance n r else r"
  let ?t = "s\<lparr>routing_rules := update_where (\<lambda>x. rule_id x = rule_id rule) (advance n) (routing_rules s)\<rparr>"
  have keep: "rule_type (?f r) = rule_type r" "rule_priority (?f r) = rule_priority r"
    "rule_deleted_at (?f r) = rule_deleted_at r" "rule_is_active (?f r) = rule_is_active r"
    "round_robin_rep_ids E (?f r) = round_robin_rep_ids E r" for r
    by (simp_all add: advance_def round_robin_rep_ids_def conds_def)
  have act: "active_rules ?t = map ?f (active_rules s)"
    unfolding active_rules_def update_where_def using keep(3,4) by (simp add: filter_map comp_def)
  show "turn_rule E ?t = Some (advance n rule)"
    using assms(1) unfolding turn_rule_def act bucket_map [of ?f, OF keep(1,2)] find_map keep(5) by simp
  show "only_round_robin ?t" using assms(2) keep(1) unfolding only_round_robin_def act by auto
  show "round_robin_rep_ids E (advance n rule) = round_robin_rep_ids E rule"
    by (simp add: advance_def round_robin_rep_ids_def conds_def)
qed

lemma decided_advance [simp]: "decided u (advance n rule) ty = decided u rule ty"
  by (simp add: decided_def)

lemma routes_in_turn:
  assumes "distinct (map rule_id (routing_rules s))" "only_round_robin s" "turn_rule E s = Some rule"
  shows "map_each cs (\<lambda>(c, email). route_for_record E c email) s =
    (Inr (map (\<lambda>j. decided (next_rep (round_robin_rep_ids E rule) rule j) rule ''round_robin'') [0..<length cs]),
     s\<lparr>routing_rules := update_where (\<lambda>x. rule_id x = rule_id rule) (advance (length cs)) (routing_rules s)\<rparr>)"
  using assms
proof (induction cs arbitrary: s rule)
  case Nil
  then show ?case by (simp add: run_simps update_where_id)
next
  case (Cons ce cs)
  obtain c email where ce: "ce = (c, email)" by fastforce
  let ?t = "s\<lparr>routing_rules := update_where (\<lambda>x. rule_id x = rule_id rule) (advance 1) (routing_rules s)\<rparr>"
  have "distinct (map rule_id (routing_rules ?t))" using Cons.prems(1) by (simp add: distinct_update_where)
  note ih = Cons.IH [OF this turn_advances(2,1) [OF Cons.prems(3,2), of 1]]
  have shift: "next_rep reps (advance 1 rule) j = next_rep reps rule (Suc j)" for reps j
    by (simp add: next_rep_def algebra_simps)
  have "[0..<length (ce # cs)] = 0 # map Suc [0..<length cs]"
    by (simp add: map_Suc_upt upt_conv_Cons del: upt_Suc)
  then show ?case using ih turn_advances(3) [OF Cons.prems(3,2), of 1]
    by (simp add: ce bind_run route_round_robin [OF Cons.prems] shift [simplified] update_where_advance
        comp_def del: upt_Suc)
qed

text \<open>
  What routing needs to decide: unique keys in the tables it reads, and a map provider that,
  when it is asked, answers with a body of the documented shape.
\<close>

definition geocode_shape :: "json \<Rightarrow> bool" where
  "geocode_shape body =
     (case body of
        JObj kvs \<Rightarrow>
          (case obj_get kvs ''results'' of
             JArr rs \<Rightarrow> list_all (\<lambda>r.
               case r of
                 JObj result \<Rightarrow>
                   (case obj_get result ''geometry'' of
                      JObj g \<Rightarrow> (case obj_get g ''location'' of JObj _ \<Rightarrow> True | _ \<Rightarrow> False)
                    | _ \<Rightarrow> False)
               | _ \<Rightarrow> False) rs
           | JNull \<Rightarrow> True
           | _ \<Rightarrow> False)
      | _ \<Rightarrow> False)"

definition routing_ready :: "env \<Rightarrow> db \<Rightarrow> bool" where
  "routing_ready E s \<longleftrightarrow> distinct (map rule_id (routing_rules s)) \<and> distinct (map gc_address_hash (geocodes s)) \<and>
     distinct (map cfg_key (app_configs s)) \<and>
     (\<forall>url params body. google_get E url params = Some body \<longrightarrow> geocode_shape body)"

lemma parse_geocode_returns:
  assumes "geocode_shape body"
  shows "\<exists>x. parse_geocode body s = (Inr x, s)"
proof -
  obtain kvs where body: "body = JObj kvs" using assms by (cases body) (auto simp: geocode_shape_def)
  consider "\<not> json_truthy (obj_get kvs ''results'')"
    | r rs where "obj_get kvs ''results'' = JArr (r # rs)"
    using assms unfolding body geocode_shape_def
    by (cases "obj_get kvs ''results''") (auto simp: neq_Nil_conv)
  then show ?thesis
  proof cases
    case 1
    then show ?thesis by (simp add: parse_geocode_def py_get_def body bind_run)
  next
    case 2
    then obtain result g l where r: "r = JObj result" "obj_get result ''geometry'' = JObj g" "obj_get g ''location'' = JObj l"
      using assms unfolding body geocode_shape_def by (auto split: json.splits)
    have "g \<noteq> []" using r(3) by (auto simp: obj_get_def)
    then show ?thesis using 2 r
      by (auto simp: parse_geocode_def py_get_def body bind_run or_empty_def split: option.splits)
  qed
qed

lemma upsert_geocode_ready:
  assumes "routing_ready E s"
  shows "\<exists>t. upsert_geocode row s = (Inr (), t) \<and> routing_ready E t"
proof -
  have "map gc_address_hash (update_where (\<lambda>c. gc_address_hash c = gc_address_hash row) (\<lambda>_. row) (geocodes s)) =
      map gc_address_hash (geocodes s)" by (simp add: update_where_def)
  then show ?thesis using assms
    by (auto simp: upsert_geocode_def Let_def routing_ready_def)
qed

lemma safe_geocode: "safe (routing_ready E) (geocode E address)"
  unfolding safe_def
proof (intro allI impI)
  fix s assume I: "routing_ready E s"
  have "length (filter (\<lambda>c. gc_address_hash c = h \<and> gc_expires_at c > clock s) (geocodes s)) \<le> 1" for h
  proof -
    have "length (filter (\<lambda>c. gc_address_hash c = h \<and> gc_expires_at c > clock s) (geocodes s)) \<le>
        length (filter (\<lambda>c. gc_address_hash c = h) (geocodes s))"
      by (induction "geocodes s") (auto simp flip: filter_filter intro: length_filter_le)
    also have "\<dots> \<le> 1" using I by (intro filter_key_length) (simp add: routing_ready_def)
    finally show ?thesis .
  qed
  note one = this [of "cache_key E address"]
  show "\<exists>x t. geocode E address s = (Inr x, t) \<and> routing_ready E t"
  proof (cases "filter (\<lambda>c. gc_address_hash c = cache_key E address \<and> gc_expires_at c > clock s) (geocodes s)")
    case (Cons c cs)
    then show ?thesis using one I by (simp add: geocode_def run_simps Let_def)
  next
    case Nil
    let ?ask = "google_get E GEOCODE_URL [(''address'', address), (''key'', cfg_google_maps_api_key E)]"
    have ask: "\<exists>x. (case ?ask of None \<Rightarrow> ret None | Some body \<Rightarrow> none_on_bad_body (parse_geocode body)) s = (Inr x, s)"
    proof (cases ?ask)
      case (Some body)
      then have "geocode_shape body" using I unfolding routing_ready_def by blast
      then obtain x where "parse_geocode body s = (Inr x, s)" using parse_geocode_returns by blast
      then show ?thesis using Some by (simp add: none_on_bad_body_def run_simps)
    qed simp
    then obtain x where x: "(case ?ask of None \<Rightarrow> ret None | Some body \<Rightarrow> none_on_bad_body (parse_geocode body)) s = (Inr x, s)"
      by blast
    show ?thesis
    proof (cases x)
      case None
      then show ?thesis using Nil I x by (simp add: geocode_def run_simps Let_def)
    next
      case (Some ll)
      then obtain a b where ll: "x = Some (a, b)" by (cases ll) simp
      obtain t where "upsert_geocode \<lparr>gc_address_hash = cache_key E address, gc_lat = a, gc_lon = b,
          gc_fetched_at = clock s, gc_expires_at = clock s + GEOCODE_TTL\<rparr> s = (Inr (), t)" "routing_ready E t"
        using upsert_geocode_ready [OF I] by blast
      then show ?thesis using Nil I x ll by (simp add: geocode_def bind_run seq_run now_run select_one_run Let_def)
    qed
  qed
qed

lemma safe_route: "safe (routing_ready E) (route_for_record E c email)"
proof -
  have claim: "safe (routing_ready E) (claim_next_round_robin i reps)" for i reps
    unfolding claim_next_round_robin_def
  proof (intro safe_intros safe_select_one)
    show "routing_ready E (s\<lparr>routing_rules := update_where (\<lambda>r. rule_id r = i)
        (\<lambda>r. r\<lparr>rule_round_robin_index := rule_round_robin_index r + 1\<rparr>) (routing_rules s)\<rparr>)"
      if "routing_ready E s" for s using that by (simp add: routing_ready_def distinct_update_where)
    show "length (filter (\<lambda>r. rule_id r = i) (routing_rules s)) \<le> 1" if "routing_ready E s" for s
      using that by (intro filter_key_length) (simp add: routing_ready_def)
  qed
  have geo: "safe (routing_ready E) (geo_walk E c rules)" for rules
    by (induction rules; unfold geo_walk.simps geo_hit_def metro_matches_def)
      (intro safe_intros safe_geocode; assumption?)+
  have rr: "safe (routing_ready E) (rr_walk E rules)" for rules
    by (induction rules; unfold rr_walk.simps) (intro safe_intros claim; assumption?)+
  have rep: "safe (routing_ready E) (read_default_sales_rep E)"
    unfolding safe_def read_default_sales_rep_def get_typed_def
  proof (intro allI impI)
    fix s assume I: "routing_ready E s"
    have "length (filter (\<lambda>c. cfg_key c = k) (app_configs s)) \<le> 1" for k
      using I by (intro filter_key_length) (simp add: routing_ready_def)
    note one = this [of "ks_name DEFAULT_SALES_REP_ID"]
    have "get_spec (ks_name DEFAULT_SALES_REP_ID) s = (Inr DEFAULT_SALES_REP_ID, s)"
      by (simp add: get_spec_run registry_keys_def TOS_CURRENT_VERSION_def PRIVACY_CURRENT_VERSION_def
          DRIVE_TIME_FALLBACK_MINUTES_def DEFAULT_SALES_REP_ID_def key_spec_def)
    then show "\<exists>x t. bind (bind (get_spec (ks_name DEFAULT_SALES_REP_ID)) (\<lambda>spec.
        bind (select_one app_configs (\<lambda>c. cfg_key c = ks_name DEFAULT_SALES_REP_ID)) (\<lambda>raw.
        case raw of None \<Rightarrow> ret (ks_default spec)
          | Some c \<Rightarrow> if cfg_value c = JNull then ret (ks_default spec)
              else ret (parse_dict_field (ks_field spec) (cfg_value c)))))
        (\<lambda>raw. ret (if \<not> json_truthy raw then None else uuid_parse (py_str E raw))) s = (Inr x, t) \<and>
        routing_ready E t" using I one
      by (cases "filter (\<lambda>c. cfg_key c = ks_name DEFAULT_SALES_REP_ID) (app_configs s)")
        (auto simp: bind_run select_one_run)
  qed
  show ?thesis unfolding route_for_record_def load_active_rules_def fallback_decision_def
    by (intro safe_intros geo rr rep)
qed

end
