(* ===== verification/SubmissionFacts.thy ===== *)
theory SubmissionFacts
  imports Submissions
begin

section \<open>What the operations on submissions do\<close>

text \<open>
  A returned \<open>submit\<close> step by step, the drafts that no operation can double, the range of a score,
  and the notice to the managers.
\<close>

text \<open>A route whose handler never returns in this state raises and leaves the state as it was.\<close>

lemma guarded_route_refuses:
  assumes "\<And>u x t. handler u s \<noteq> (Inr x, t)"
  shows "\<exists>e. guarded_route E slugs cred handler s = (Inl e, s)"
proof (cases "guarded_route E slugs cred handler s")
  case (Pair r t)
  show ?thesis
  proof (cases r)
    case (Inl e)
    then show ?thesis using Pair guarded_route_denied [of E slugs cred handler s e] by simp
  next
    case (Inr x)
    then show ?thesis using Pair assms guarded_route_returns [of E slugs cred handler s x t] by metis
  qed
qed

subsection \<open>Access and drafts\<close>

lemma role_slugs_pure: "role_slugs_for_user u s = (r, t) \<Longrightarrow> t = s"
  by (simp add: role_slugs_for_user_def)

lemma check_access_return_iff:
  "check_access x u s = (Inr y, t) \<longleftrightarrow> t = s \<and>
     (sub_appraiser_id x = Some (usr_id u) \<or> (\<exists>roles. role_slugs_for_user u s = (Inr roles, s) \<and> ''admin'' \<in> roles))"
  by (auto simp: check_access_def run_simps role_slugs_for_user_def)

definition may_edit :: "db \<Rightarrow> user \<Rightarrow> appraisal_submission \<Rightarrow> bool" where
  "may_edit s u x \<longleftrightarrow> sub_appraiser_id x = Some (usr_id u) \<or>
     (\<exists>roles. role_slugs_for_user u s = (Inr roles, s) \<and> ''admin'' \<in> roles)"

lemma load_submission_return_iff:
  "load_submission i u s = (Inr x, t) \<longleftrightarrow> t = s \<and> may_edit s u x \<and>
     filter (\<lambda>x. sub_id x = i \<and> sub_deleted_at x = None) (appraisal_submissions s) = [x]"
  by (auto simp: load_submission_def bind_return_iff seq_return_iff fetch_submission_return_iff
      check_access_return_iff may_edit_def)

lemma create_draft_returns:
  assumes "create_draft E rid u s = (Inr x, t)"
  shows "find (is_draft_of rid) (appraisal_submissions s) = None"
    and "appraisal_submissions t = appraisal_submissions s @ [x]"
    and "x = new_draft (random_uuid E (draws s)) rid (usr_id u) (clock s)"
    and "sub_id x \<notin> sub_id ` set (appraisal_submissions s)"
  using assms
  by (auto simp: create_draft_def insert_draft_def run_simps find_None_iff Let_def new_draft_def
      split: if_splits list.splits prod.splits)

lemma store_answers_return:
  "store_answers answers x s = (Inr y, t) \<Longrightarrow> t = s \<and> (answers = None \<or> answers = Some []) \<and>
     sub_id y = sub_id x \<and> sub_equipment_record_id y = sub_equipment_record_id x \<and> sub_status y = sub_status x \<and>
     sub_deleted_at y = sub_deleted_at x"
  by (cases answers; cases "the answers"; force simp: store_answers_def)

lemma apply_scalar_fields_keeps [simp]:
  "sub_id (apply_scalar_fields p x) = sub_id x"
  "sub_equipment_record_id (apply_scalar_fields p x) = sub_equipment_record_id x"
  "sub_status (apply_scalar_fields p x) = sub_status x"
  "sub_deleted_at (apply_scalar_fields p x) = sub_deleted_at x"
  by (simp_all add: apply_scalar_fields_def)

subsection \<open>What the score rows are confined to\<close>

definition but_scores :: "db \<Rightarrow> db" where
  "but_scores s = s\<lparr>component_scores := [], draws := 0\<rparr>"

interpretation scores_db: db_relation "same but_scores"
  by unfold_locales (simp add: same_def but_scores_def)

lemma upsert_confined: "confined (same but_scores) (upsert_score E i cs es x)"
  unfolding upsert_score_def save_score_def
  by (intro scores_db.db_intros) (simp_all add: same_def but_scores_def)

lemma upsert_all_confined: "confined (same but_scores) (upsert_component_scores E i xs)"
  unfolding upsert_component_scores_def by (intro scores_db.db_intros upsert_confined)

lemma check_category_pure: "check_category c s = (r, t) \<Longrightarrow> t = s"
  by (auto simp: check_category_def run_simps split: option.splits if_splits)

lemma rescore_returns:
  assumes "rescore E scores x s = (Inr y, t)"
  shows "but_scores t = but_scores s" and "sub_id y = sub_id x"
    and "sub_equipment_record_id y = sub_equipment_record_id x" and "sub_status y = sub_status x"
    and "sub_deleted_at y = sub_deleted_at x"
    and "scores \<noteq> None \<Longrightarrow> sub_overall_score y = Some (overall (calculate_overall (score_dict (scores_of (sub_id x) t)))) \<and>
      sub_score_band y = Some (band (calculate_overall (score_dict (scores_of (sub_id x) t))))"
proof -
  have "but_scores t = but_scores s \<and> sub_id y = sub_id x \<and>
    sub_equipment_record_id y = sub_equipment_record_id x \<and> sub_status y = sub_status x \<and>
    sub_deleted_at y = sub_deleted_at x \<and>
    (scores \<noteq> None \<longrightarrow> sub_overall_score y = Some (overall (calculate_overall (score_dict (scores_of (sub_id x) t)))) \<and>
      sub_score_band y = Some (band (calculate_overall (score_dict (scores_of (sub_id x) t)))))"
  proof (cases scores)
    case None
    then show ?thesis using assms by (simp add: rescore_def)
  next
    case (Some xs)
    then obtain v where v: "upsert_component_scores E (sub_id x) xs s = (Inr v, t)"
      and y: "y = x\<lparr>sub_overall_score := Some (overall (calculate_overall (score_dict (scores_of (sub_id x) t)))),
        sub_score_band := Some (band (calculate_overall (score_dict (scores_of (sub_id x) t))))\<rparr>"
      using assms by (auto simp: rescore_def seq_return_iff bind_return_iff Let_def)
    then show ?thesis using confined_sameD [OF upsert_all_confined v] by simp
  qed
  then show "but_scores t = but_scores s" "sub_id y = sub_id x"
    "sub_equipment_record_id y = sub_equipment_record_id x" "sub_status y = sub_status x"
    "sub_deleted_at y = sub_deleted_at x"
    "scores \<noteq> None \<Longrightarrow> sub_overall_score y = Some (overall (calculate_overall (score_dict (scores_of (sub_id x) t)))) \<and>
      sub_score_band y = Some (band (calculate_overall (score_dict (scores_of (sub_id x) t))))" by blast+
qed

lemma update_draft_returns:
  assumes "update_draft E i p u s = (Inr z, t)"
  obtains x x' y v where
    "filter (\<lambda>x. sub_id x = i \<and> sub_deleted_at x = None) (appraisal_submissions s) = [x]"
    and "may_edit s u x" and "sub_status x = ''draft''" and "sp_field_values p = None \<or> sp_field_values p = Some []"
    and "but_scores v = but_scores s" and "t = v\<lparr>appraisal_submissions :=
      update_where (\<lambda>r. sub_id r = sub_id x) (\<lambda>_. y) (appraisal_submissions s)\<rparr>"
    and "sub_id y = sub_id x" "sub_equipment_record_id y = sub_equipment_record_id x" "sub_status y = ''draft''"
    and "sub_deleted_at y = None" and "fetch_submission i t = (Inr z, t)"
    and "store_answers (sp_field_values p) (apply_scalar_fields p x) s = (Inr x', s)"
    and "rescore E (sp_component_scores p) x' s = (Inr y, v)"
    and "sp_component_scores p \<noteq> None \<Longrightarrow>
      sub_overall_score y = Some (overall (calculate_overall (score_dict (scores_of (sub_id x) t)))) \<and>
      sub_score_band y = Some (band (calculate_overall (score_dict (scores_of (sub_id x) t))))"
proof -
  obtain x where x: "filter (\<lambda>x. sub_id x = i \<and> sub_deleted_at x = None) (appraisal_submissions s) = [x]"
    and a: "may_edit s u x" and st: "sub_status x = ''draft''"
    and rest: "bind (store_answers (sp_field_values p) (apply_scalar_fields p x)) (\<lambda>x.
      seq (check_category (sub_category_id x))
      (bind (rescore E (sp_component_scores p) x) (\<lambda>y. seq (save_submission y) (fetch_submission i)))) s = (Inr z, t)"
    using assms unfolding update_draft_def
    by (auto simp: bind_return_iff [of "load_submission _ _"] load_submission_return_iff
        seq_return_iff require_return_iff)
  obtain x' where sa: "store_answers (sp_field_values p) (apply_scalar_fields p x) s = (Inr x', s)"
    and rest: "seq (check_category (sub_category_id x'))
      (bind (rescore E (sp_component_scores p) x') (\<lambda>y. seq (save_submission y) (fetch_submission i))) s = (Inr z, t)"
    using rest store_answers_return by (auto simp: bind_return_iff [of "store_answers _ _"]) blast
  then obtain y v where rs: "rescore E (sp_component_scores p) x' s = (Inr y, v)"
    and t: "seq (save_submission y) (fetch_submission i) v = (Inr z, t)"
    by (auto simp: bind_return_iff [of "rescore _ _ _"] seq_return_iff [of "check_category _"]
        dest: check_category_pure)
  note k = store_answers_return [OF sa] and r = rescore_returns [OF rs]
  have "t = v\<lparr>appraisal_submissions :=
      update_where (\<lambda>r. sub_id r = sub_id x) (\<lambda>_. y) (appraisal_submissions v)\<rparr>"
    using t k r by (auto simp: seq_return_iff save_submission_run fetch_submission_return_iff)
  moreover have "appraisal_submissions v = appraisal_submissions s"
    using arg_cong [OF r(1), of appraisal_submissions] by (simp add: but_scores_def)
  ultimately have t': "t = v\<lparr>appraisal_submissions :=
      update_where (\<lambda>r. sub_id r = sub_id x) (\<lambda>_. y) (appraisal_submissions s)\<rparr>" by simp
  have del: "sub_deleted_at x = None" using x by (auto simp: filter_eq_Cons_iff)
  have "scores_of j t = scores_of j v" for j by (simp add: t' scores_of_def)
  moreover have "fetch_submission i t = (Inr z, t)"
    using t by (auto simp: seq_return_iff fetch_submission_return_iff)
  ultimately show thesis using that [OF x a st _ r(1) t' _ _ _ _ _ sa rs] k r st del by simp
qed

subsection \<open>A submission that went through\<close>

lemma flagged_return:
  assumes "flagged fl d x s = (Inr y, t)"
  shows "t = s" "sub_id y = sub_id x" "sub_equipment_record_id y = sub_equipment_record_id x"
    "sub_status y = ''submitted''" "sub_deleted_at y = sub_deleted_at x" "sub_submitted_at y = Some d"
    "sub_management_review_required y = rfr_management_review_required fl"
    "sub_hold_for_title_review y = rfr_hold_for_title_review fl"
    "sub_red_flags y = sub_red_flags x"
    "sub_category_version y = sub_category_version x" "sub_prompt_version_set y = sub_prompt_version_set x"
    "sub_rule_version_set y = sub_rule_version_set x" "sub_category_id y = sub_category_id x"
  using assms
  by (auto simp: flagged_def text_or_kept_def run_simps split: json.splits)

lemma snapshot_and_validate_return:
  "snapshot_and_validate E x s = (Inr y, t) \<longleftrightarrow> t = s \<and>
     (case sub_category_id x of None \<Rightarrow> y = x
      | Some c \<Rightarrow> y = snapshot s c x \<and> missing_labels s c (sub_id x) = [])"
  by (auto simp: snapshot_and_validate_def validate_required_photos_def run_simps split: option.splits)

lemma snapshot_keeps [simp]:
  "sub_id (snapshot s c x) = sub_id x" "sub_status (snapshot s c x) = sub_status x"
  "sub_equipment_record_id (snapshot s c x) = sub_equipment_record_id x"
  "sub_deleted_at (snapshot s c x) = sub_deleted_at x" "sub_category_id (snapshot s c x) = sub_category_id x"
  by (simp_all add: snapshot_def)

lemma missing_labels_empty:
  "missing_labels s c i = [] \<longleftrightarrow> set (required_labels s c) \<subseteq> set (captured_labels s i)"
proof -
  have "missing_labels s c i = [] \<longleftrightarrow> set (missing_labels s c i) = {}" by simp
  also have "set (missing_labels s c i) = set (required_labels s c) - set (captured_labels s i)"
    by (auto simp: missing_labels_def)
  finally show ?thesis by auto
qed

lemma evaluate_pure: "evaluate_red_flags E x s = (r, t) \<Longrightarrow> t = s \<and> (\<exists>fl. r = Inr fl)"
  by (auto simp: evaluate_red_flags_def run_simps split: option.splits)

lemma py_iter_pure: "py_iter v s = (r, t) \<Longrightarrow> t = s"
  by (cases v) auto

lemma red_flag_summary_pure: "red_flag_summary E x s = (r, t) \<Longrightarrow> t = s"
  by (auto simp: red_flag_summary_def bind_def split: option.splits if_splits prod.splits sum.splits
      dest: py_iter_pure)

context queue_relation
begin

lemma confined_py_iter: "confined R (py_iter v)"
  by (cases v) (auto intro: confined_ret confined_raise)

lemma confined_red_flag_summary: "confined R (red_flag_summary E x)"
  unfolding red_flag_summary_def by (intro db_intros confined_py_iter)

lemma confined_notify_managers: "confined R (notify_managers_review_required E x)"
  unfolding notify_managers_review_required_def by (intro queue_intros confined_red_flag_summary)

end

lemma submission_returns:
  assumes "submit E i u s = (Inr z, t)"
  obtains x x' fl y v w where
    "filter (\<lambda>x. sub_id x = i \<and> sub_deleted_at x = None) (appraisal_submissions s) = [x]"
    and "may_edit s u x" and "sub_status x = ''draft''"
    and "snapshot_and_validate E x s = (Inr x', s)" and "evaluate_red_flags E x' s = (Inr fl, s)"
    and "flagged fl (clock s) x' s = (Inr y, s)"
    and "complete_record E u (sub_equipment_record_id x) (s\<lparr>appraisal_submissions :=
      update_where (\<lambda>r. sub_id r = sub_id x) (\<lambda>_. y) (appraisal_submissions s)\<rparr>) = (Inr (), v)"
    and "when_true (rfr_management_review_required fl) (notify_managers_review_required E y) v = (Inr (), t)"
    and "sub_id y = sub_id x" "sub_equipment_record_id y = sub_equipment_record_id x"
    and "fetch_submission i t = (Inr z, t)"
proof -
  obtain x where x: "filter (\<lambda>x. sub_id x = i \<and> sub_deleted_at x = None) (appraisal_submissions s) = [x]"
    and a: "may_edit s u x" and st: "sub_status x = ''draft''"
    and r0: "bind (snapshot_and_validate E x) (\<lambda>x.
      bind (evaluate_red_flags E x) (\<lambda>flags.
      bind now (\<lambda>t.
      bind (flagged flags t x) (\<lambda>y.
      seq (save_submission y)
      (seq (complete_record E u (sub_equipment_record_id y))
      (seq (when_true (rfr_management_review_required flags) (notify_managers_review_required E y))
      (fetch_submission i))))))) s = (Inr z, t)"
    using assms unfolding submit_def
    by (auto simp: bind_return_iff [of "fetch_submission _"] seq_return_iff require_return_iff
        fetch_submission_return_iff check_access_return_iff may_edit_def)
  obtain x' where sv: "snapshot_and_validate E x s = (Inr x', s)"
    and r1: "bind (evaluate_red_flags E x') (\<lambda>flags.
      bind now (\<lambda>t.
      bind (flagged flags t x') (\<lambda>y.
      seq (save_submission y)
      (seq (complete_record E u (sub_equipment_record_id y))
      (seq (when_true (rfr_management_review_required flags) (notify_managers_review_required E y))
      (fetch_submission i)))))) s = (Inr z, t)"
    using r0 by (auto simp: bind_return_iff [of "snapshot_and_validate _ _"] snapshot_and_validate_return)
  obtain fl where ev: "evaluate_red_flags E x' s = (Inr fl, s)"
    using evaluate_pure by (metis prod.collapse)
  obtain y where fg: "flagged fl (clock s) x' s = (Inr y, s)"
    and r2: "seq (save_submission y)
      (seq (complete_record E u (sub_equipment_record_id y))
      (seq (when_true (rfr_management_review_required fl) (notify_managers_review_required E y))
      (fetch_submission i))) s = (Inr z, t)"
    using r1 by (auto simp: bind_run [of "evaluate_red_flags _ _"] bind_run [of now] now_run ev
        bind_return_iff [of "flagged _ _ _"] dest: flagged_return(1))
  have keep: "sub_id y = sub_id x" "sub_equipment_record_id y = sub_equipment_record_id x"
    using flagged_return [OF fg] sv by (auto simp: snapshot_and_validate_return split: option.splits)
  let ?s = "s\<lparr>appraisal_submissions := update_where (\<lambda>r. sub_id r = sub_id x) (\<lambda>_. y) (appraisal_submissions s)\<rparr>"
  obtain v w where cr: "complete_record E u (sub_equipment_record_id x) ?s = (Inr (), v)"
    and nt: "when_true (rfr_management_review_required fl) (notify_managers_review_required E y) v = (Inr (), w)"
    and fe: "fetch_submission i w = (Inr z, t)"
    using r2 keep by (auto simp: seq_return_iff save_submission_run)
  have "t = w" using fe by (simp add: fetch_submission_return_iff)
  then show thesis using that [OF x a st sv ev fg cr _ keep] nt fe by simp
qed

lemma complete_record_tables:
  assumes "complete_record E u rid s = (Inr (), t)"
  shows "outside t = outside s"
    and "find (\<lambda>r. er_id r = rid) (equipment_records s) = Some rec \<Longrightarrow>
      equipment_records t = update_where (\<lambda>y. er_id y = er_id rec) (\<lambda>y. y\<lparr>er_status := ''appraisal_complete''\<rparr>)
        (equipment_records s) \<and>
      (\<exists>e. status_events t = status_events s @ [e] \<and> ev_to_status e = ''appraisal_complete'' \<and>
         ev_changed_by e = Some (usr_id u)) \<and> allowed (er_status rec) ''appraisal_complete''"
proof -
  have "confined (same outside) (complete_record E u rid)"
    unfolding complete_record_def by (intro outside_frame.transition_intros)
  from confined_sameD [OF this assms] show "outside t = outside s" .
next
  assume rec: "find (\<lambda>r. er_id r = rid) (equipment_records s) = Some rec"
  then obtain x where tr: "record_transition E rec ''appraisal_complete'' (Some u) None
      (Approval.customer_user_of s rec) None s = (Inr x, t)"
    using assms by (auto simp: complete_record_def run_simps split: prod.splits sum.splits)
  obtain e r' where x: "x = (e, r')" by fastforce
  have "ev_to_status e = ''appraisal_complete'' \<and> ev_changed_by e = Some (usr_id u)"
    using record_transition_returns [OF tr [unfolded x]] by (simp add: transition_event_def)
  then show "equipment_records t = update_where (\<lambda>y. er_id y = er_id rec)
      (\<lambda>y. y\<lparr>er_status := ''appraisal_complete''\<rparr>) (equipment_records s) \<and>
      (\<exists>e. status_events t = status_events s @ [e] \<and> ev_to_status e = ''appraisal_complete'' \<and>
         ev_changed_by e = Some (usr_id u)) \<and> allowed (er_status rec) ''appraisal_complete''"
    using transition_tables [OF tr] by (simp add: x)
qed

text \<open>Neither the transition nor the notices touch the submissions.\<close>

lemma notify_when_tables:
  assumes "when_true b (notify_managers_review_required E y) s = (r, t)"
  shows "business t = business s"
proof -
  have "confined (same business) (when_true b (notify_managers_review_required E y))"
    by (intro business_frame.queue_intros business_frame.confined_notify_managers)
  from confined_sameD [OF this assms] show ?thesis .
qed

lemma submit_tables:
  assumes "submit E i u s = (Inr z, t)"
    and "filter (\<lambda>x. sub_id x = i \<and> sub_deleted_at x = None) (appraisal_submissions s) = [x]"
  obtains x' fl y where "snapshot_and_validate E x s = (Inr x', s)" and "flagged fl (clock s) x' s = (Inr y, s)"
    and "appraisal_submissions t = update_where (\<lambda>r. sub_id r = sub_id x) (\<lambda>_. y) (appraisal_submissions s)"
    and "sub_id y = sub_id x" "sub_equipment_record_id y = sub_equipment_record_id x" "sub_status y = ''submitted''"
proof (rule submission_returns [OF assms(1)])
  fix x1 x' fl y v
  assume x1: "filter (\<lambda>x. sub_id x = i \<and> sub_deleted_at x = None) (appraisal_submissions s) = [x1]"
    and sv: "snapshot_and_validate E x1 s = (Inr x', s)" and fg: "flagged fl (clock s) x' s = (Inr y, s)"
    and cr: "complete_record E u (sub_equipment_record_id x1) (s\<lparr>appraisal_submissions :=
      update_where (\<lambda>r. sub_id r = sub_id x1) (\<lambda>_. y) (appraisal_submissions s)\<rparr>) = (Inr (), v)"
    and nt: "when_true (rfr_management_review_required fl) (notify_managers_review_required E y) v = (Inr (), t)"
    and id: "sub_id y = sub_id x1" "sub_equipment_record_id y = sub_equipment_record_id x1"
  have "x1 = x" using x1 assms(2) by simp
  moreover have "appraisal_submissions t = appraisal_submissions v"
    using arg_cong [OF notify_when_tables [OF nt], of appraisal_submissions] by (simp add: business_def)
  ultimately show thesis
    using that [of x' fl y] sv fg id outside_tables(2) [OF complete_record_tables(1) [OF cr]] flagged_return(4) [OF fg]
    by simp
qed

lemma fetched_replaced:
  assumes "filter (\<lambda>x. sub_id x = i \<and> sub_deleted_at x = None) (appraisal_submissions s) = [x]" "sub_id y = sub_id x"
    and "appraisal_submissions t = update_where (\<lambda>r. sub_id r = sub_id x) (\<lambda>_. y) (appraisal_submissions s)"
    and "fetch_submission i t = (Inr z, t)"
  shows "z = y"
proof -
  have "sub_id x = i" using assms(1) by (auto simp: filter_eq_Cons_iff)
  moreover have "z \<in> set (appraisal_submissions t)" "sub_id z = i"
    using assms(4) by (auto simp: fetch_submission_return_iff filter_eq_Cons_iff)
  ultimately show ?thesis using assms(3) by (auto simp: update_where_def split: if_splits)
qed

lemma submitted_record:
  assumes "submit E i u s = (Inr z, t)"
    and "filter (\<lambda>x. sub_id x = i \<and> sub_deleted_at x = None) (appraisal_submissions s) = [x]"
    and "sub_category_id x = Some c" "evaluate_red_flags E (snapshot s c x) s = (Inr fl, s)"
    and "flagged fl (clock s) (snapshot s c x) s = (Inr y, s)"
    and "find (\<lambda>r. er_id r = sub_equipment_record_id x) (equipment_records s) = Some rec"
  shows "z = y" and "equipment_records t = update_where (\<lambda>y. er_id y = er_id rec)
        (\<lambda>y. y\<lparr>er_status := ''appraisal_complete''\<rparr>) (equipment_records s)"
proof -
  have "z = y \<and> equipment_records t = update_where (\<lambda>y. er_id y = er_id rec)
        (\<lambda>y. y\<lparr>er_status := ''appraisal_complete''\<rparr>) (equipment_records s)"
  proof (rule submission_returns [OF assms(1)])
    fix x1 x' fl' y' v
    assume h: "filter (\<lambda>x. sub_id x = i \<and> sub_deleted_at x = None) (appraisal_submissions s) = [x1]"
      "snapshot_and_validate E x1 s = (Inr x', s)" "evaluate_red_flags E x' s = (Inr fl', s)"
      "flagged fl' (clock s) x' s = (Inr y', s)"
      and cr: "complete_record E u (sub_equipment_record_id x1) (s\<lparr>appraisal_submissions :=
        update_where (\<lambda>r. sub_id r = sub_id x1) (\<lambda>_. y') (appraisal_submissions s)\<rparr>) = (Inr (), v)"
      and nt: "when_true (rfr_management_review_required fl') (notify_managers_review_required E y') v = (Inr (), t)"
      and id: "sub_id y' = sub_id x1" and fe: "fetch_submission i t = (Inr z, t)"
    have "x1 = x" "x' = snapshot s c x" using h(1,2) assms(2,3) by (simp_all add: snapshot_and_validate_return)
    then have eq: "x1 = x" "y' = y" using h(3,4) assms(4,5) by simp_all
    note n = notify_when_tables [OF nt]
    have "appraisal_submissions t = update_where (\<lambda>r. sub_id r = sub_id x) (\<lambda>_. y) (appraisal_submissions s)"
      using arg_cong [OF n, of appraisal_submissions] outside_tables(2) [OF complete_record_tables(1) [OF cr]] eq
      by (simp add: business_def)
    from fetched_replaced [OF assms(2) _ this fe] have "z = y" using id eq by simp
    moreover have "equipment_records t = equipment_records v"
      using arg_cong [OF n, of equipment_records] by (simp add: business_def)
    ultimately show ?thesis
      using complete_record_tables(2) [OF cr, of rec] assms(6) eq by simp
  qed
  then show "z = y" "equipment_records t = update_where (\<lambda>y. er_id y = er_id rec)
        (\<lambda>y. y\<lparr>er_status := ''appraisal_complete''\<rparr>) (equipment_records s)" by blast+
qed

subsection \<open>One draft per record\<close>

definition drafts_unique :: "db \<Rightarrow> bool" where
  "drafts_unique s \<longleftrightarrow> distinct (map sub_id (appraisal_submissions s)) \<and>
     (\<forall>x \<in> set (appraisal_submissions s). \<forall>y \<in> set (appraisal_submissions s).
        is_draft_of (sub_equipment_record_id y) x \<and> sub_status y = ''draft'' \<longrightarrow> x = y)"

lemma drafts_unique_cong:
  "appraisal_submissions t = appraisal_submissions s \<Longrightarrow> drafts_unique s \<Longrightarrow> drafts_unique t"
  by (simp add: drafts_unique_def)

text \<open>Replacing a row by one of the same id and record that is no draft unless the row was one.\<close>

lemma drafts_unique_replace:
  assumes "drafts_unique s" "x \<in> set (appraisal_submissions s)"
    and "appraisal_submissions t = update_where (\<lambda>r. sub_id r = sub_id x) (\<lambda>_. y) (appraisal_submissions s)"
    and "sub_id y = sub_id x" "sub_equipment_record_id y = sub_equipment_record_id x"
    and "sub_status y = ''draft'' \<Longrightarrow> sub_status x = ''draft''"
  shows "drafts_unique t"
proof -
  let ?f = "\<lambda>r. if sub_id r = sub_id x then y else r"
  have d: "distinct (map sub_id (appraisal_submissions s))"
    and u: "\<And>a b. a \<in> set (appraisal_submissions s) \<Longrightarrow> b \<in> set (appraisal_submissions s) \<Longrightarrow>
      is_draft_of (sub_equipment_record_id b) a \<Longrightarrow> sub_status b = ''draft'' \<Longrightarrow> a = b"
    using assms(1) unfolding drafts_unique_def by blast+
  have only: "r = x" if "r \<in> set (appraisal_submissions s)" "sub_id r = sub_id x" for r
    using d assms(2) that by (meson distinct_map inj_onD)
  have t: "appraisal_submissions t = map ?f (appraisal_submissions s)"
    using assms(3) by (simp add: update_where_def)
  have "?f a = ?f b" if "a \<in> set (appraisal_submissions s)" "b \<in> set (appraisal_submissions s)"
    and i: "is_draft_of (sub_equipment_record_id (?f b)) (?f a)" "sub_status (?f b) = ''draft''" for a b
  proof -
    have "is_draft_of (sub_equipment_record_id b) a" "sub_status b = ''draft''"
      using i only [OF that(1)] only [OF that(2)] assms(5,6) by (auto simp: is_draft_of_def split: if_splits)
    then show ?thesis using u that by blast
  qed
  note pair = this
  show ?thesis
    unfolding drafts_unique_def
  proof (intro conjI ballI impI)
    show "distinct (map sub_id (appraisal_submissions t))"
      using d assms(4) by (simp add: t comp_def if_distrib cong: if_cong)
    fix p q assume "p \<in> set (appraisal_submissions t)" "q \<in> set (appraisal_submissions t)"
      and pq: "is_draft_of (sub_equipment_record_id q) p \<and> sub_status q = ''draft''"
    then obtain a b where ab: "a \<in> set (appraisal_submissions s)" "b \<in> set (appraisal_submissions s)"
      and "p = ?f a" "q = ?f b" unfolding t by auto
    with pair [OF ab] pq show "p = q" by simp
  qed
qed

lemma drafts_unique_insert:
  assumes "drafts_unique s" "appraisal_submissions t = appraisal_submissions s @ [x]"
    and "sub_id x \<notin> sub_id ` set (appraisal_submissions s)"
    and "find (is_draft_of (sub_equipment_record_id x)) (appraisal_submissions s) = None"
  shows "drafts_unique t"
  using assms unfolding drafts_unique_def by (auto simp: find_None_iff is_draft_of_def)

text \<open>Every way in which a request moves the submissions.\<close>

inductive submission_step :: "env \<Rightarrow> db \<Rightarrow> db \<Rightarrow> bool" for E where
  created: "submission_step E s (snd (create_draft_route E cred rid s))"
| updated: "submission_step E s (snd (update_submission_route E cred i p s))"
| submitted: "submission_step E s (snd (submit_submission_route E cred i s))"
| approved: "submission_step E s (snd (approve_submission E cred i offer price n confirmed s))"
| rejected: "submission_step E s (snd (reject_submission E cred i n back s))"

lemma answer_return: "answer_submission m s = (Inr x, t) \<Longrightarrow> \<exists>y. m s = (Inr y, t)"
  by (auto simp: answer_submission_def bind_return_iff)

lemma guarded_route_step:
  "snd (guarded_route E slugs cred handler s) = s \<or>
   (\<exists>u x. handler u s = (Inr x, snd (guarded_route E slugs cred handler s)))"
proof (cases "fst (guarded_route E slugs cred handler s)")
  case (Inl e)
  then show ?thesis using guarded_route_denied [of E slugs cred handler s e] by simp
next
  case (Inr x)
  then have "guarded_route E slugs cred handler s = (Inr x, snd (guarded_route E slugs cred handler s))"
    by (simp add: prod_eq_iff)
  then show ?thesis by (rule guarded_route_returns) blast
qed

lemma create_route_step:
  "snd (create_draft_route E cred rid s) = s \<or>
   (\<exists>u x. create_draft E rid u s = (Inr x, snd (create_draft_route E cred rid s)))"
  using guarded_route_step [of E APPRAISERS cred "\<lambda>u. answer_submission (map_exn conflict_http (create_draft E rid u))" s]
  unfolding create_draft_route_def [symmetric] by (auto simp: map_exn_return_iff dest!: answer_return)

lemma update_route_step:
  "snd (update_submission_route E cred i p s) = s \<or>
   submission_patch_ok p \<and> (\<exists>u x. update_draft E i p u s = (Inr x, snd (update_submission_route E cred i p s)))"
  using guarded_route_step [of E APPRAISERS cred "\<lambda>u. seq (require (submission_patch_ok p) (http 422 ''validation error''))
      (answer_submission (map_exn (invalid_http \<circ> access_http) (update_draft E i p u)))" s]
  unfolding update_submission_route_def [symmetric]
  by (auto simp: map_exn_return_iff seq_return_iff require_return_iff dest!: answer_return) blast

lemma submit_route_step:
  "snd (submit_submission_route E cred i s) = s \<or>
   (\<exists>u x. submit E i u s = (Inr x, snd (submit_submission_route E cred i s)))"
  using guarded_route_step [of E APPRAISERS cred "\<lambda>u. answer_submission (map_exn (invalid_http \<circ> access_http) (submit E i u))" s]
  unfolding submit_submission_route_def [symmetric] by (auto simp: map_exn_return_iff dest!: answer_return)

lemma approve_route_step:
  "snd (approve_submission E cred i offer price n confirmed s) = s \<or>
   (\<exists>u x. approve E i u offer price n confirmed s = (Inr x, snd (approve_submission E cred i offer price n confirmed s)))"
  using guarded_route_step [of E MANAGERS cred "\<lambda>u. map_exn approval_http (approve E i u offer price n confirmed)" s]
  unfolding approve_submission_def [symmetric] by (auto simp: map_exn_return_iff)

lemma reject_route_step:
  "snd (reject_submission E cred i n again s) = s \<or>
   (\<exists>u x. reject E i u n again s = (Inr x, snd (reject_submission E cred i n again s)))"
  using guarded_route_step [of E MANAGERS cred "\<lambda>u. map_exn approval_http (reject E i u n again)" s]
  unfolding reject_submission_def [symmetric] by (auto simp: map_exn_return_iff)

lemma submission_step_cases:
  assumes "submission_step E s t"
  obtains (stays) "t = s"
    | (created) rid u x where "create_draft E rid u s = (Inr x, t)"
    | (updated) i p u x where "submission_patch_ok p" "update_draft E i p u s = (Inr x, t)"
    | (submitted) i u x where "submit E i u s = (Inr x, t)"
    | (approved) i u offer price n confirmed x where "approve E i u offer price n confirmed s = (Inr x, t)"
    | (rejected) i u n again x where "reject E i u n again s = (Inr x, t)"
  using assms
proof (cases rule: submission_step.cases)
  case (created cred rid)
  then show thesis using create_route_step [of E cred rid s] that(1,2) by blast
next
  case (updated cred i p)
  then show thesis using update_route_step [of E cred i p s] that(1,3) by blast
next
  case (submitted cred i)
  then show thesis using submit_route_step [of E cred i s] that(1,4) by blast
next
  case (approved cred i offer price n confirmed)
  then show thesis using approve_route_step [of E cred i offer price n confirmed s] that(1,5) by blast
next
  case (rejected cred i n again)
  then show thesis using reject_route_step [of E cred i n again s] that(1,6) by blast
qed

lemma submission_step_keeps:
  assumes "submission_step E s t" "drafts_unique s"
  shows "drafts_unique t"
  using assms(1)
proof (cases rule: submission_step_cases)
  case stays
  then show ?thesis using assms(2) by simp
next
  case (created rid u x)
  from create_draft_returns [OF this] assms(2) show ?thesis
    by (intro drafts_unique_insert [of s t x]) (auto simp: new_draft_def)
next
  case (updated i p u x)
  show ?thesis using updated(2)
    by (rule update_draft_returns)
      (erule drafts_unique_replace [OF assms(2), rotated 2], auto simp: filter_eq_Cons_iff)
next
  case (submitted i u x)
  obtain r where r: "filter (\<lambda>x. sub_id x = i \<and> sub_deleted_at x = None) (appraisal_submissions s) = [r]"
    using submitted by (rule submission_returns)
  then have mem: "r \<in> set (appraisal_submissions s)" by (auto simp: filter_eq_Cons_iff)
  obtain y where t: "appraisal_submissions t = update_where (\<lambda>q. sub_id q = sub_id r) (\<lambda>_. y) (appraisal_submissions s)"
    and y: "sub_id y = sub_id r" "sub_equipment_record_id y = sub_equipment_record_id r" "sub_status y = ''submitted''"
    by (rule submit_tables [OF submitted r])
  from drafts_unique_replace [OF assms(2) mem t] y show ?thesis by simp
next
  case (approved i u offer price n confirmed x)
  then show ?thesis
  proof (rule approve_returns)
    fix r assume r: "filter (\<lambda>x. sub_id x = i \<and> sub_deleted_at x = None) (appraisal_submissions s) = [r]"
      and t: "appraisal_submissions t = update_where (\<lambda>y. sub_id y = sub_id r)
        (\<lambda>_. Approval.approved r (usr_id u) offer price n (clock s)) (appraisal_submissions s)"
    have "r \<in> set (appraisal_submissions s)" using r by (auto simp: filter_eq_Cons_iff)
    from drafts_unique_replace [OF assms(2) this t] show ?thesis by (simp add: approved_def)
  qed
next
  case (rejected i u n again x)
  then show ?thesis
  proof (rule reject_returns)
    fix r assume r: "filter (\<lambda>x. sub_id x = i \<and> sub_deleted_at x = None) (appraisal_submissions s) = [r]"
      and t: "appraisal_submissions t = update_where (\<lambda>y. sub_id y = sub_id r)
        (\<lambda>_. r\<lparr>sub_rejection_notes := Some n, sub_status := ''rejected''\<rparr>) (appraisal_submissions s)"
    have "r \<in> set (appraisal_submissions s)" using r by (auto simp: filter_eq_Cons_iff)
    from drafts_unique_replace [OF assms(2) this t] show ?thesis by simp
  qed
qed

subsection \<open>The range of a score\<close>

definition row_within :: "rat \<Rightarrow> rat \<Rightarrow> component_score \<Rightarrow> bool" where
  "row_within lo hi y \<longleftrightarrow> lo \<le> dec_val (cs_raw_score y) \<and> dec_val (cs_raw_score y) \<le> hi \<and>
     0 \<le> dec_val (cs_weight_at_time_of_scoring y)"

lemma score_dict_within:
  assumes "list_all (row_within lo hi) rows"
  shows "\<forall>(k, v, w) \<in> set (score_dict rows). lo \<le> v \<and> v \<le> hi \<and> 0 \<le> w"
proof -
  have "\<forall>(k, v, w) \<in> set (fold (\<lambda>y d. AList.update (uuid_str (cs_component_id y))
      (dec_val (cs_raw_score y), dec_val (cs_weight_at_time_of_scoring y)) d) rows d). lo \<le> v \<and> v \<le> hi \<and> 0 \<le> w"
    if "\<forall>(k, v, w) \<in> set d. lo \<le> v \<and> v \<le> hi \<and> 0 \<le> w" for d
    using assms that
  proof (induction rows arbitrary: d)
    case (Cons y rows)
    have "\<forall>(k, v, w) \<in> set (AList.update (uuid_str (cs_component_id y))
      (dec_val (cs_raw_score y), dec_val (cs_weight_at_time_of_scoring y)) d). lo \<le> v \<and> v \<le> hi \<and> 0 \<le> w"
    proof -
      have "set (AList.update k v d) \<subseteq> insert (k, v) (set d)" for k and v :: "rat \<times> rat" and d
        by (induction d) auto
      then show ?thesis using Cons.prems by (fastforce simp: row_within_def)
    qed
    with Cons show ?case by simp
  qed simp
  from this [of "[]"] show ?thesis by (simp add: score_dict_def)
qed

lemma overall_between:
  assumes "\<forall>(k, v, w) \<in> set cs. lo \<le> v \<and> v \<le> hi \<and> 0 \<le> w" "total_weight cs \<noteq> 0" "0 \<le> lo" "hi \<le> 5"
  shows "lo - 1 / 200 \<le> dec_val (overall (calculate_overall cs))"
    and "dec_val (overall (calculate_overall cs)) \<le> hi + 1 / 200"
proof -
  obtain m where mean: "weighted_sum cs / total_weight cs = m" by simp
  have m: "lo \<le> m" "m \<le> hi" using mean_bounds [OF _ assms(2), of lo hi] assms(1) mean by auto
  let ?n = "round_half_up (m * 100)"
  have e: "\<bar>of_int ?n - m * 100\<bar> \<le> 1 / 2" by (rule round_half_up_error)
  have "round_half_up (of_int 0) \<le> ?n" by (rule round_half_up_mono) (use m(1) assms(3) in simp)
  moreover have "?n \<le> round_half_up (of_int 500)" by (rule round_half_up_mono) (use m(2) assms(4) in simp)
  ultimately have c: "clamp_score ?n = ?n"
    using round_half_up_int [of 0] round_half_up_int [of 500] by (simp add: clamp_id)
  have "cs \<noteq> []" using assms(2) by (auto simp: total_weight_def)
  then have "dec_val (overall (calculate_overall cs)) = of_int ?n / 100"
    using assms(2) c by (simp add: calculate_overall_def Let_def dec_val_def mean [symmetric])
  then show "lo - 1 / 200 \<le> dec_val (overall (calculate_overall cs))"
    "dec_val (overall (calculate_overall cs)) \<le> hi + 1 / 200"
    using m e abs_le_D1 [OF e] abs_le_D2 [OF e] by (simp_all add: field_simps)
qed

subsection \<open>The range of every column\<close>

definition in_scale :: "decimal \<Rightarrow> bool" where
  "in_scale d \<longleftrightarrow> 0 \<le> dec_val d \<and> dec_val d \<le> 5"

definition typed_submission :: "appraisal_submission \<Rightarrow> bool" where
  "typed_submission x \<longleftrightarrow> sub_status x \<in> set VALID_STATUSES \<and> up_to 100 (sub_make x) \<and> up_to 100 (sub_model x) \<and>
     (case sub_year x of None \<Rightarrow> True | Some y \<Rightarrow> 1900 \<le> y \<and> y \<le> 2100) \<and>
     (case sub_overall_score x of None \<Rightarrow> True | Some d \<Rightarrow> in_scale d)"

definition typed_rows :: "component_score list \<Rightarrow> bool" where
  "typed_rows rows \<longleftrightarrow> (\<forall>r \<in> set rows. in_scale (cs_raw_score r))"

definition typed_db :: "db \<Rightarrow> bool" where
  "typed_db s \<longleftrightarrow> (\<forall>x \<in> set (appraisal_submissions s). typed_submission x) \<and> typed_rows (component_scores s)"

lemma typed_statuses [simp]:
  "''draft'' \<in> set VALID_STATUSES" "''submitted'' \<in> set VALID_STATUSES"
  "''approved'' \<in> set VALID_STATUSES" "''rejected'' \<in> set VALID_STATUSES"
  by (simp_all add: VALID_STATUSES_def)

lemma up_to_kept: "up_to n new \<Longrightarrow> up_to n old \<Longrightarrow> up_to n (kept new old)"
  by (simp add: up_to_def kept_def split: option.splits)

lemma typed_scalars:
  assumes "submission_patch_ok p" "typed_submission x"
  shows "typed_submission (apply_scalar_fields p x)"
  using assms unfolding typed_submission_def submission_patch_ok_def apply_scalar_fields_def
  by (auto intro: up_to_kept) (auto simp: kept_def split: option.splits)

lemma typed_new_draft: "typed_submission (new_draft i rid u d)"
  by (simp add: typed_submission_def new_draft_def up_to_def)

lemma typed_decisions:
  assumes "typed_submission x"
  shows "typed_submission (Approval.approved x u offer price n d)"
    "typed_submission (x\<lparr>sub_rejection_notes := r, sub_status := ''rejected''\<rparr>)"
    "typed_submission (snapshot s c x)" "flagged fl d x v = (Inr y, w) \<Longrightarrow> typed_submission y"
  using assms
  by (auto simp: typed_submission_def approved_def snapshot_def flagged_def text_or_kept_def run_simps split: json.splits)

lemma overall_in_scale: "in_scale (overall (calculate_overall cs))"
proof -
  have "in_scale (Dec (clamp_score n) 2)" for n
    using clamp_bounds [of n] by (simp add: in_scale_def dec_val_def)
  moreover have "in_scale (Dec 0 2)" by (simp add: in_scale_def dec_val_def)
  ultimately show ?thesis by (simp add: calculate_overall_def Let_def)
qed

abbreviation rows_kept :: "db \<Rightarrow> db \<Rightarrow> bool" where
  "rows_kept \<equiv> preserves (\<lambda>s. typed_rows (component_scores s))"

interpretation rows_db: db_relation rows_kept
  by unfold_locales (simp add: preserves_def)

lemma upsert_typed:
  assumes "score_ok x"
  shows "confined rows_kept (upsert_score E i cs es x)"
  unfolding upsert_score_def save_score_def
  by (intro rows_db.db_intros)
    (use assms in \<open>auto simp: preserves_def typed_rows_def in_scale_def score_ok_def update_where_def\<close>)

lemma rescore_typed:
  assumes "rescore E scores x s = (Inr y, t)" "typed_submission x" "typed_rows (component_scores s)"
    and "case scores of None \<Rightarrow> True | Some xs \<Rightarrow> list_all score_ok xs"
  shows "typed_submission y" "typed_rows (component_scores t)"
proof -
  have "typed_submission y \<and> typed_rows (component_scores t)"
  proof (cases scores)
    case None
    then show ?thesis using assms by (simp add: rescore_def)
  next
    case (Some xs)
    then obtain v where v: "upsert_component_scores E (sub_id x) xs s = (Inr v, t)"
      and y: "y = x\<lparr>sub_overall_score := Some (overall (calculate_overall (score_dict (scores_of (sub_id x) t)))),
        sub_score_band := Some (band (calculate_overall (score_dict (scores_of (sub_id x) t))))\<rparr>"
      using assms by (auto simp: rescore_def seq_return_iff bind_return_iff Let_def)
    have "score_ok x" if "x \<in> set xs" for x using assms(4) Some that by (simp add: list_all_iff)
    then have "confined rows_kept (upsert_component_scores E (sub_id x) xs)"
      unfolding upsert_component_scores_def by (intro rows_db.db_intros upsert_typed) auto
    from confined_preservesD [OF this v] assms(3)
    show ?thesis using assms(2) by (simp add: y typed_submission_def overall_in_scale)
  qed
  then show "typed_submission y" "typed_rows (component_scores t)" by auto
qed

text \<open>The other routes never write a score row.\<close>

interpretation score_rows: transition_relation "same component_scores"
proof unfold_locales
qed (auto simp: same_def written_def run_simps Let_def confined_def split: if_splits)

lemma score_rows_dispatch: "confined (same component_scores) (dispatch_contract E r)"
proof (rule confinedI)
  fix s x t assume "dispatch_contract E r s = (x, t)"
  from arg_cong [OF confined_sameD [OF sign_frame_dispatch this], of component_scores]
  show "same component_scores s t" by (simp add: same_def sign_frame_def)
qed

lemma score_rows_text: "confined (same component_scores) (text_or_kept v old)"
  by (cases v) (auto simp: text_or_kept_def intro: score_rows.transition_intros)

lemma score_rows_save: "confined (same component_scores) (save_submission x)"
  unfolding save_submission_def by (intro score_rows.transition_intros) (simp add: same_def)

lemma score_rows_actor: "confined (same component_scores) (resolve_actor_role u)"
  unfolding resolve_actor_role_def by (intro score_rows.transition_intros)

lemmas score_rows_intros =
  score_rows.transition_intros score_rows.confined_notify_managers score_rows_dispatch
  score_rows.confined_fresh_key score_rows_text score_rows_save score_rows_actor

lemma score_rows_fetch:
  "confined (same component_scores) (fetch_submission i)" "confined (same component_scores) (record_of x)"
  unfolding fetch_submission_def record_of_def by (intro score_rows_intros)+

lemma score_rows_create: "confined (same component_scores) (create_draft E rid u)"
  unfolding create_draft_def insert_draft_def Let_def
  by (intro score_rows_intros) (simp add: same_def)

lemma score_rows_submit: "confined (same component_scores) (submit E i u)"
  unfolding submit_def check_access_def snapshot_and_validate_def validate_required_photos_def
    evaluate_red_flags_def flagged_def complete_record_def
  by (intro score_rows_intros score_rows_fetch)

lemma score_rows_approve: "confined (same component_scores) (approve E i u offer price n confirmed)"
  unfolding approve_def by (intro score_rows_intros score_rows_fetch)

lemma score_rows_reject: "confined (same component_scores) (reject E i u n again)"
  unfolding reject_def notify_rejection_def Let_def by (intro score_rows_intros score_rows_fetch)

lemma typed_replace:
  assumes "typed_db s" "appraisal_submissions t = update_where q (\<lambda>_. y) (appraisal_submissions s)"
    and "typed_submission y" "typed_rows (component_scores t)"
  shows "typed_db t"
  using assms by (auto simp: typed_db_def update_where_def)

lemma found_typed:
  "filter (\<lambda>x. sub_id x = i \<and> sub_deleted_at x = None) (appraisal_submissions s) = [x] \<Longrightarrow> typed_db s \<Longrightarrow> typed_submission x"
  by (auto simp: typed_db_def filter_eq_Cons_iff)

lemma typed_rows_same: "component_scores t = component_scores s \<Longrightarrow> typed_db s \<Longrightarrow> typed_rows (component_scores t)"
  by (simp add: typed_db_def)



lemma submission_step_typed:
  assumes "submission_step E s t" "typed_db s"
  shows "typed_db t"
  using assms(1)
proof (cases rule: submission_step_cases)
  case stays
  then show ?thesis using assms(2) by simp
next
  case (created rid u x)
  note c = create_draft_returns(2,3) [OF created]
  have "component_scores t = component_scores s" by (rule confined_sameD [OF score_rows_create created])
  then show ?thesis using assms(2) typed_new_draft by (simp add: typed_db_def c(1)) (simp add: c(2))
next
  case (updated i p u x)
  show ?thesis using updated(2)
  proof (rule update_draft_returns)
    fix r r' y v
    assume f: "filter (\<lambda>x. sub_id x = i \<and> sub_deleted_at x = None) (appraisal_submissions s) = [r]"
      and st: "store_answers (sp_field_values p) (apply_scalar_fields p r) s = (Inr r', s)"
      and re: "rescore E (sp_component_scores p) r' s = (Inr y, v)"
      and t: "t = v\<lparr>appraisal_submissions := update_where (\<lambda>q. sub_id q = sub_id r) (\<lambda>_. y) (appraisal_submissions s)\<rparr>"
    have "typed_submission r'"
      using typed_scalars [OF updated(1) found_typed [OF f assms(2)]] st
      by (auto simp: store_answers_def typed_submission_def split: option.splits list.splits)
    from rescore_typed [OF re this]
    show ?thesis
      using assms(2) updated(1) by (intro typed_replace [OF assms(2)]) (auto simp: t typed_db_def submission_patch_ok_def)
  qed
next
  case (submitted i u x)
  note k = confined_sameD [OF score_rows_submit submitted]
  obtain r where f: "filter (\<lambda>x. sub_id x = i \<and> sub_deleted_at x = None) (appraisal_submissions s) = [r]"
    using submitted by (rule submission_returns)
  obtain r' fl y where sv: "snapshot_and_validate E r s = (Inr r', s)" and fg: "flagged fl (clock s) r' s = (Inr y, s)"
    and t: "appraisal_submissions t = update_where (\<lambda>q. sub_id q = sub_id r) (\<lambda>_. y) (appraisal_submissions s)"
    by (rule submit_tables [OF submitted f])
  have "typed_submission r'"
    using sv found_typed [OF f assms(2)] by (auto simp: snapshot_and_validate_return typed_decisions split: option.splits)
  from typed_decisions(4) [OF this fg] show ?thesis
    by (rule typed_replace [OF assms(2) t _ typed_rows_same [OF k assms(2)]])
next
  case (approved i u offer price n confirmed x)
  note k = confined_sameD [OF score_rows_approve approved]
  show ?thesis using approved
  proof (rule approve_returns)
    fix r
    assume f: "filter (\<lambda>x. sub_id x = i \<and> sub_deleted_at x = None) (appraisal_submissions s) = [r]"
      and t: "appraisal_submissions t = update_where (\<lambda>y. sub_id y = sub_id r)
        (\<lambda>_. Approval.approved r (usr_id u) offer price n (clock s)) (appraisal_submissions s)"
    show ?thesis
      by (rule typed_replace [OF assms(2) t typed_decisions(1) [OF found_typed [OF f assms(2)]] typed_rows_same [OF k assms(2)]])
  qed
next
  case (rejected i u n again x)
  note k = confined_sameD [OF score_rows_reject rejected]
  show ?thesis using rejected
  proof (rule reject_returns)
    fix r
    assume f: "filter (\<lambda>x. sub_id x = i \<and> sub_deleted_at x = None) (appraisal_submissions s) = [r]"
      and t: "appraisal_submissions t = update_where (\<lambda>y. sub_id y = sub_id r)
        (\<lambda>_. r\<lparr>sub_rejection_notes := Some n, sub_status := ''rejected''\<rparr>) (appraisal_submissions s)"
    show ?thesis
      by (rule typed_replace [OF assms(2) t typed_decisions(2) [OF found_typed [OF f assms(2)]] typed_rows_same [OF k assms(2)]])
  qed
qed

lemma band_of_overall: "band (calculate_overall cs) = band_of (overall (calculate_overall cs))"
  by (simp add: calculate_overall_def Let_def band_of_def SCORE_BANDS_def dec_le_def dec_val_def)

lemma rescored_between:
  assumes "update_draft E i p u s = (Inr z, t)" "sp_component_scores p \<noteq> None"
  shows "sub_overall_score z = Some (overall (calculate_overall (score_dict (scores_of i t))))"
    and "sub_score_band z = Some (band (calculate_overall (score_dict (scores_of i t))))"
proof -
  have "sub_overall_score z = Some (overall (calculate_overall (score_dict (scores_of i t)))) \<and>
    sub_score_band z = Some (band (calculate_overall (score_dict (scores_of i t))))"
  proof (rule update_draft_returns [OF assms(1)])
    fix x x' y v
    assume f: "filter (\<lambda>x. sub_id x = i \<and> sub_deleted_at x = None) (appraisal_submissions s) = [x]"
      and t: "t = v\<lparr>appraisal_submissions := update_where (\<lambda>r. sub_id r = sub_id x) (\<lambda>_. y) (appraisal_submissions s)\<rparr>"
      and y: "sub_id y = sub_id x" and fe: "fetch_submission i t = (Inr z, t)"
      and sc: "sp_component_scores p \<noteq> None \<Longrightarrow>
        sub_overall_score y = Some (overall (calculate_overall (score_dict (scores_of (sub_id x) t)))) \<and>
        sub_score_band y = Some (band (calculate_overall (score_dict (scores_of (sub_id x) t))))"
    have "sub_id x = i" using f by (auto simp: filter_eq_Cons_iff)
    moreover have "z = y" by (rule fetched_replaced [OF f y _ fe]) (simp add: t)
    ultimately show ?thesis using sc assms(2) by simp
  qed
  then show "sub_overall_score z = Some (overall (calculate_overall (score_dict (scores_of i t))))"
    "sub_score_band z = Some (band (calculate_overall (score_dict (scores_of i t))))" by blast+
qed

subsection \<open>The notice to the managers\<close>

lemma review_job_undeliverable:
  "undeliverable (new_job i k u ''email'' tpl (review_payload x r summary) d)"
  by (simp add: undeliverable_def new_job_def review_payload_def obj_get_def)


lemma review_keys_differ [simp]: "hd (review_key i m) \<noteq> CHR ''s''" "review_key i m \<noteq> ''''"
  by (simp_all add: review_key_def)

definition stuck_job :: "string \<Rightarrow> db \<Rightarrow> bool" where
  "stuck_job k s \<longleftrightarrow> (\<exists>j. jobs_of k s = [j] \<and> undeliverable j)"

lemma review_notice_jobs:
  assumes "seq (enqueue E k' u ''email'' tpl (review_payload x r summary) None) (ret ()) s = (o', t)"
  shows "o' = Inr ()" and "k \<noteq> k' \<Longrightarrow> jobs_of k t = jobs_of k s"
    and "jobs_of k' s = [] \<Longrightarrow> stuck_job k' t" and "jobs_of k' s \<noteq> [] \<Longrightarrow> jobs_of k' t = jobs_of k' s"
proof -
  obtain oe v where e: "enqueue E k' u ''email'' tpl (review_payload x r summary) None s = (oe, v)" by fastforce
  then obtain y where "oe = Inr y" by (auto simp: run_simps Let_def split: if_splits)
  with e assms have *: "o' = Inr ()" "t = v" by (auto simp: seq_run)
  show "o' = Inr ()" by (rule *)
  show "jobs_of k t = jobs_of k s" if "k \<noteq> k'"
    using confined_sameD [OF jobs_of_enqueue_other [OF that] e] * by simp
  show "jobs_of k' s = [] \<Longrightarrow> stuck_job k' t" "jobs_of k' s \<noteq> [] \<Longrightarrow> jobs_of k' t = jobs_of k' s"
    using jobs_of_enqueue [OF CHANNELS_email(1) e] review_job_undeliverable by (auto simp: stuck_job_def *)
qed

lemma each_notice_jobs:
  assumes f: "\<And>m s o' t. f m s = (o', t) \<Longrightarrow> o' = Inr () \<and> (\<forall>k. k \<noteq> key m \<longrightarrow> jobs_of k t = jobs_of k s) \<and>
      (if jobs_of (key m) s = [] then stuck_job (key m) t else jobs_of (key m) t = jobs_of (key m) s)"
    and run: "for_each ms f s = (o', t)" and k: "jobs_of k s = [] \<or> stuck_job k s"
  shows "jobs_of k t = [] \<or> stuck_job k t" and "k \<in> key ` set ms \<or> jobs_of k s \<noteq> [] \<Longrightarrow> stuck_job k t"
proof -
  have "(jobs_of k t = [] \<or> stuck_job k t) \<and> (k \<in> key ` set ms \<or> jobs_of k s \<noteq> [] \<longrightarrow> stuck_job k t)"
    using run k
  proof (induction ms arbitrary: s)
    case (Cons m ms)
    obtain oe v where e: "f m s = (oe, v)" by fastforce
    note j = f [OF e]
    have "for_each ms f v = (o', t)" using Cons.prems(1) e j by (simp add: bind_run)
    moreover have "jobs_of k v = [] \<or> stuck_job k v"
      using j Cons.prems(2) by (cases "k = key m") (auto simp: stuck_job_def split: if_splits)
    moreover have "k = key m \<or> jobs_of k s \<noteq> [] \<longrightarrow> jobs_of k v \<noteq> []"
      using j Cons.prems(2) by (cases "k = key m") (auto simp: stuck_job_def split: if_splits)
    ultimately show ?case using Cons.IH [of v] by auto
  qed auto
  then show "jobs_of k t = [] \<or> stuck_job k t" "k \<in> key ` set ms \<or> jobs_of k s \<noteq> [] \<Longrightarrow> stuck_job k t" by blast+
qed

lemma notify_managers_jobs:
  assumes "notify_managers_review_required E x s = (Inr (), t)"
    and "m \<in> set (active_managers s)" "jobs_of (review_key (sub_id x) (usr_id m)) s = []"
  shows "stuck_job (review_key (sub_id x) (usr_id m)) t"
proof -
  obtain rec summary where
    run: "for_each (active_managers s) (\<lambda>m. seq (enqueue E (review_key (sub_id x) (usr_id m)) (Some (usr_id m)) ''email''
       ''management_review_flagged_email'' (review_payload x rec summary) None) (ret ())) s = (Inr (), t)"
    using assms(1) unfolding notify_managers_review_required_def
    by (auto simp: bind_return_iff [of "get_row _ _ _"] bind_return_iff [of "red_flag_summary _ _"]
        bind_return_iff [of "reads _"] get_row_run reads_run dest!: red_flag_summary_pure)
  show ?thesis
    by (rule each_notice_jobs(2) [OF _ run, where key = "\<lambda>m. review_key (sub_id x) (usr_id m)"])
      (use assms(2,3) review_notice_jobs in \<open>auto\<close>)
qed

lemma submit_queues_stuck_jobs:
  assumes "submit E i u s = (Inr z, t)" "m \<in> set (active_managers s)"
    and "jobs_of (review_key (sub_id z) (usr_id m)) s = []" "sub_management_review_required z"
  shows "stuck_job (review_key (sub_id z) (usr_id m)) t"
proof (rule submission_returns [OF assms(1)])
  fix x x' fl y v
  assume x: "filter (\<lambda>x. sub_id x = i \<and> sub_deleted_at x = None) (appraisal_submissions s) = [x]"
    and fg: "flagged fl (clock s) x' s = (Inr y, s)"
    and cr: "complete_record E u (sub_equipment_record_id x) (s\<lparr>appraisal_submissions :=
      update_where (\<lambda>r. sub_id r = sub_id x) (\<lambda>_. y) (appraisal_submissions s)\<rparr>) = (Inr (), v)"
    and nt: "when_true (rfr_management_review_required fl) (notify_managers_review_required E y) v = (Inr (), t)"
    and id: "sub_id y = sub_id x" and fe: "fetch_submission i t = (Inr z, t)"
  note out = outside_tables [OF complete_record_tables(1) [OF cr], simplified]
  have "appraisal_submissions t = appraisal_submissions v"
    using arg_cong [OF notify_when_tables [OF nt], of appraisal_submissions] by (simp add: business_def)
  then have "appraisal_submissions t = update_where (\<lambda>r. sub_id r = sub_id x) (\<lambda>_. y) (appraisal_submissions s)"
    using out(2) by simp
  from fetched_replaced [OF x id this fe] have zy: "z = y" .
  have "jobs_of k v = jobs_of k s" if "hd k \<noteq> CHR ''s''" "k \<noteq> ''''" for k
  proof -
    have "confined (same (jobs_of k)) (complete_record E u rid)" for rid
      unfolding complete_record_def by (intro jobs_of_db.db_intros jobs_of_transition that)
    from confined_sameD [OF this cr] show ?thesis by (simp add: jobs_of_def)
  qed
  moreover have "active_managers v = active_managers s"
    using out(6,7) by (simp add: active_managers_def)
  ultimately show ?thesis
    using nt assms flagged_return(7) [OF fg] notify_managers_jobs [of E y v t m]
    by (auto simp: zy when_true_run split: if_splits)
qed


subsection \<open>A complete draft goes through\<close>

lemma submit_succeeds:
  assumes sub: "filter (\<lambda>x. sub_id x = i \<and> sub_deleted_at x = None) (appraisal_submissions s) = [x]"
    and ok: "may_edit s u x" "sub_status x = ''draft''"
    and sv: "snapshot_and_validate E x s = (Inr x', s)" and ev: "evaluate_red_flags E x' s = (Inr fl, s)"
    and fg: "flagged fl (clock s) x' s = (Inr y, s)"
    and rec: "find (\<lambda>r. er_id r = sub_equipment_record_id x) (equipment_records s) = Some rec"
    and al: "allowed (er_status rec) ''appraisal_complete''"
    and ready: "notify_ready E s" and ids: "distinct (map sub_id (appraisal_submissions s))"
    and sum: "\<And>v. \<exists>m. red_flag_summary E y v = (Inr m, v)"
  shows "\<exists>t. submit E i u s = (Inr y, t)"
proof -
  let ?u = "s\<lparr>appraisal_submissions := update_where (\<lambda>r. sub_id r = sub_id x) (\<lambda>_. y) (appraisal_submissions s)\<rparr>"
  have y: "sub_id y = sub_id x" "sub_equipment_record_id y = sub_equipment_record_id x" "sub_deleted_at y = None"
    using flagged_return [OF fg] sv sub
    by (auto simp: snapshot_and_validate_return filter_eq_Cons_iff split: option.splits)
  have "notify_ready E ?u" using ready by (simp add: notify_ready_def recipients_ok_def overrides_ok_def)
  then obtain p v where tr: "record_transition E rec ''appraisal_complete'' (Some u) None
      (Approval.customer_user_of ?u rec) None ?u = (Inr p, v)" and rv: "notify_ready E v"
    using record_transition_succeeds [OF al] by metis
  have cr: "complete_record E u (sub_equipment_record_id y) ?u = (Inr (), v)"
    using rec tr y(2) by (simp add: complete_record_def run_simps case_prod_beta)
  have summary: "safe (notify_ready E) (red_flag_summary E y)"
    unfolding safe_def using sum by metis
  have "safe (notify_ready E) (when_true b (notify_managers_review_required E y))" for b
    unfolding notify_managers_review_required_def get_row_def
    by (intro safe_intros summary safe_enqueue CHANNELS_email)
  from safeD [OF this rv] obtain w where nt:
    "when_true (rfr_management_review_required fl) (notify_managers_review_required E y) v = (Inr (), w)" by auto
  have "appraisal_submissions w = appraisal_submissions ?u"
    using arg_cong [OF notify_when_tables [OF nt], of appraisal_submissions]
      outside_tables(2) [OF complete_record_tables(1) [OF cr]] by (simp add: business_def)
  then have fe: "fetch_submission i w = (Inr y, w)"
    using filter_replaced [where k = sub_id and q = "\<lambda>x. sub_deleted_at x = None", OF ids sub] y
    by (simp add: fetch_submission_return_iff)
  have "fetch_submission i s = (Inr x, s)" "check_access x u s = (Inr (), s)"
    using sub ok by (simp_all add: fetch_submission_return_iff check_access_return_iff may_edit_def)
  then have "submit E i u s = (Inr y, w)"
    using ok(2) sv ev fg cr nt fe
    by (simp add: submit_def seq_run bind_run require_run now_run save_submission_run y(1))
  then show ?thesis by blast
qed


lemma submission_ready:
  assumes "submit E i u s = (Inr z, t)"
    and "filter (\<lambda>x. sub_id x = i \<and> sub_deleted_at x = None) (appraisal_submissions s) = [x]"
    and "sub_category_id x = Some c"
  shows "may_edit s u x \<and> sub_status x = ''draft'' \<and>
    set (required_labels s c) \<subseteq> set (captured_labels s (sub_id x))"
proof (rule submission_returns [OF assms(1)])
  fix x1 x'
  assume h: "filter (\<lambda>x. sub_id x = i \<and> sub_deleted_at x = None) (appraisal_submissions s) = [x1]"
    "may_edit s u x1" "sub_status x1 = ''draft''" "snapshot_and_validate E x1 s = (Inr x', s)"
  have "x1 = x" using h(1) assms(2) by simp
  then show ?thesis using h(2-4) assms(3) by (simp add: snapshot_and_validate_return missing_labels_empty)
qed


lemma second_draft_refused:
  assumes "\<exists>x \<in> set (appraisal_submissions s). is_draft_of rid x"
  shows "\<exists>e. create_draft_route E cred rid s = (Inl e, s)"
  unfolding create_draft_route_def
proof (rule guarded_route_refuses, rule notI)
  fix u x t assume "answer_submission (map_exn conflict_http (create_draft E rid u)) s = (Inr x, t)"
  then obtain z where "create_draft E rid u s = (Inr z, t)"
    by (auto simp: map_exn_return_iff dest!: answer_return)
  from create_draft_returns(1) [OF this] assms show False by (auto simp: find_None_iff)
qed

end
