(* ===== verification/IntakeFacts.thy ===== *)
theory IntakeFacts
  imports Intake RoutingFacts SubmissionFacts
begin

section \<open>What an intake does\<close>

text \<open>
  A returned intake step by step: the record with its own reference number, its photos, its routing and its
  confirmation; and the routing that keeps every intake from returning.
\<close>

subsection \<open>The reference number\<close>

lemma reserve_attempts_return:
  "reserve_attempts E n s = (Inr ref, t) \<Longrightarrow>
     t\<lparr>draws := 0\<rparr> = s\<lparr>draws := 0\<rparr> \<and> Some ref \<notin> er_reference_number ` set (equipment_records s)"
proof (induction n arbitrary: s)
  case (Suc n)
  let ?c = "''THE-'' @ random_text E (draws s) REF_ALPHABET REF_LENGTH" and ?s = "s\<lparr>draws := Suc (draws s)\<rparr>"
  have "bind (select_one equipment_records (\<lambda>r. er_reference_number r = Some ?c))
      (\<lambda>taken. if taken = None then ret ?c else reserve_attempts E n) ?s = (Inr ref, t)"
    using Suc.prems
    by (simp only: reserve_attempts.simps generate_reference_number_def bind_run random_string_run ret_run
        prod.case sum.case)
  then obtain taken v where "select_one equipment_records (\<lambda>r. er_reference_number r = Some ?c) ?s = (Inr taken, v)"
    and rest: "(if taken = None then ret ?c else reserve_attempts E n) v = (Inr ref, t)"
    unfolding bind_return_iff by blast
  then have v: "v = ?s" and sel: "taken = None \<Longrightarrow> filter (\<lambda>r. er_reference_number r = Some ?c) (equipment_records ?s) = []"
    by (auto simp: select_one_return_iff)
  show ?case
  proof (cases taken)
    case None
    then have "ref = ?c" "t = ?s" using rest v by simp_all
    then show ?thesis using sel [OF None] by (auto simp: filter_empty_conv)
  next
    case (Some r)
    then show ?thesis using rest v Suc.IH [of ?s] by simp
  qed
qed simp

subsection \<open>What routing leaves alone\<close>

definition intake_core :: "db \<Rightarrow> db" where
  "intake_core s = s\<lparr>routing_rules := [], geocodes := [], audit_logs := [], notification_jobs := [], draws := 0\<rparr>"

interpretation core_db: db_relation "same intake_core"
  by unfold_locales (simp add: same_def intake_core_def)

interpretation core_queue: queue_relation "same intake_core"
  by unfold_locales (rule core_db.confined_enqueueI, simp add: same_def intake_core_def)

interpretation core_routing: routing_relation "same intake_core"
  by unfold_locales (simp_all add: same_def intake_core_def)

lemma core_audit: "confined (same intake_core) (add_audit a)"
  by (simp add: confined_def run_simps same_def intake_core_def)

lemma intake_core_tables:
  assumes "intake_core t = intake_core s"
  shows "equipment_records t = equipment_records s" "intake_photos t = intake_photos s"
    "customers t = customers s" "users t = users s" "app_configs t = app_configs s"
  using arg_cong [OF assms, of equipment_records] arg_cong [OF assms, of intake_photos]
    arg_cong [OF assms, of customers] arg_cong [OF assms, of users] arg_cong [OF assms, of app_configs]
  by (simp_all add: intake_core_def)

definition rep_only :: "equipment_record \<Rightarrow> equipment_record" where
  "rep_only r = r\<lparr>er_assigned_sales_rep_id := None\<rparr>"

lemma assign_record_return_iff:
  "assign_record i u s = (Inr x, t) \<longleftrightarrow> u \<in> usr_id ` set (users s) \<and>
     t = s\<lparr>equipment_records := update_where (\<lambda>r. er_id r = i) (\<lambda>r. r\<lparr>er_assigned_sales_rep_id := Some u\<rparr>)
       (equipment_records s)\<rparr>"
  by (auto simp: assign_record_def run_simps find_None_iff dest!: find_SomeD)

lemma route_and_assign_returns:
  assumes "route_and_assign E user rec c s = (Inr r, t)"
    and "equipment_records s = rs @ [rec]" "er_id rec \<notin> er_id ` set rs"
  shows "equipment_records t = rs @ [r]" "rep_only r = rep_only rec" "intake_photos t = intake_photos s"
    "customers t = customers s" "users t = users s"
    "er_assigned_sales_rep_id rec = None \<Longrightarrow> (case er_assigned_sales_rep_id r of None \<Rightarrow> True | Some u \<Rightarrow> u \<in> usr_id ` set (users s))"
proof -
  obtain o' v where route: "route_for_record E c (Some (usr_email user)) s = (o', v)" by fastforce
  note cv = intake_core_tables [OF confined_sameD [OF core_routing.confined_route route]]
  have "equipment_records t = rs @ [r] \<and> rep_only r = rep_only rec \<and> intake_photos t = intake_photos s \<and>
    customers t = customers s \<and> users t = users s \<and> (er_assigned_sales_rep_id rec = None \<longrightarrow>
      (case er_assigned_sales_rep_id r of None \<Rightarrow> True | Some u \<Rightarrow> u \<in> usr_id ` set (users s)))"
  proof (cases "\<exists>d u. o' = Inr d \<and> dec_assigned_user_id d = Some u")
    case False
    then have "r = rec \<and> intake_core t = intake_core v"
      using assms(1) route
      by (auto simp: route_and_assign_def bind_return_iff attempt_run seq_return_iff add_audit_run intake_core_def
          split: sum.splits option.splits)
    then show ?thesis using intake_core_tables [of t v] cv assms(2) by simp
  next
    case True
    then obtain d u where o': "o' = Inr d" and u: "dec_assigned_user_id d = Some u" by blast
    let ?r = "rec\<lparr>er_assigned_sales_rep_id := Some u\<rparr>"
    let ?w = "v\<lparr>equipment_records := update_where (\<lambda>r. er_id r = er_id rec)
        (\<lambda>r. r\<lparr>er_assigned_sales_rep_id := Some u\<rparr>) (equipment_records v)\<rparr>"
    have h: "r = ?r" "u \<in> usr_id ` set (users v)"
      "seq (add_audit (routed_audit (er_id rec) d))
         (enqueue_assignment_notification E ?r u (dec_trigger d)) ?w = (Inr (), t)"
      using assms(1) route o' u
      by (auto simp: route_and_assign_def bind_run attempt_run Let_def seq_return_iff [of "assign_record _ _"]
          seq_return_iff [of "seq _ _"] seq_return_iff [of "add_audit _"]
          seq_return_iff [of "enqueue_assignment_notification _ _ _ _"] assign_record_return_iff)
    have "confined (same intake_core) (seq (add_audit (routed_audit (er_id rec) d))
         (enqueue_assignment_notification E ?r u (dec_trigger d)))"
      by (intro core_queue.queue_intros core_audit core_queue.confined_enqueue_assignment)
    note ct = intake_core_tables [OF confined_sameD [OF this h(3)]]
    have "er_id x \<noteq> er_id rec" if "x \<in> set rs" for x using assms(3) that by (metis imageI)
    then have "equipment_records ?w = rs @ [?r]"
      using assms(2) cv(1) by (simp add: update_where_def map_idI)
    then show ?thesis using ct cv h(1,2) by (simp add: rep_only_def)
  qed
  then show "equipment_records t = rs @ [r]" "rep_only r = rep_only rec" "intake_photos t = intake_photos s"
    "customers t = customers s" "users t = users s"
    "er_assigned_sales_rep_id rec = None \<Longrightarrow> (case er_assigned_sales_rep_id r of None \<Rightarrow> True | Some u \<Rightarrow> u \<in> usr_id ` set (users s))"
    by blast+
qed

subsection \<open>The photos of the form\<close>

definition but_photos :: "db \<Rightarrow> db" where
  "but_photos s = s\<lparr>intake_photos := [], draws := 0\<rparr>"

lemma insert_metas_return:
  "for_each ps (insert_meta E i) s = (r, t) \<Longrightarrow> r = Inr () \<and> but_photos t = but_photos s \<and>
     (\<exists>new. intake_photos t = intake_photos s @ new \<and> length new = length ps \<and>
       (\<forall>p \<in> set new. ip_equipment_record_id p = i \<and> ip_scan_status p = ''pending''))"
proof (induction ps arbitrary: s)
  case (Cons p ps)
  obtain n m where p: "p = (n, m)" by fastforce
  obtain x v where v: "insert_meta E i p s = (Inr (), v)" "but_photos v = but_photos s"
    "intake_photos v = intake_photos s @ [x]" "ip_equipment_record_id x = i" "ip_scan_status x = ''pending''"
    by (simp add: insert_meta_def p run_simps but_photos_def)
  then have "for_each ps (insert_meta E i) v = (r, t)" using Cons.prems by (simp add: bind_run)
  from Cons.IH [OF this] obtain new where r: "r = Inr ()" "but_photos t = but_photos v"
    and new: "intake_photos t = intake_photos v @ new" "length new = length ps"
      "\<forall>p \<in> set new. ip_equipment_record_id p = i \<and> ip_scan_status p = ''pending''" by blast
  then have "intake_photos t = intake_photos s @ (x # new) \<and> length (x # new) = length (p # ps) \<and>
      (\<forall>p \<in> set (x # new). ip_equipment_record_id p = i \<and> ip_scan_status p = ''pending'')"
    using v by simp
  then show ?case using r v(2) by metis
qed simp

subsection \<open>An intake that returned\<close>

lemma ensure_profile_returns:
  assumes "ensure_profile_for_user E user s = (Inr c, t)"
  shows "c \<in> set (customers t)" "cus_user_id c = Some (usr_id user)" "customers t = customers s \<or> customers t = customers s @ [c]"
    and "t\<lparr>customers := [], draws := 0\<rparr> = s\<lparr>customers := [], draws := 0\<rparr>"
proof -
  have "c \<in> set (customers t) \<and> cus_user_id c = Some (usr_id user) \<and> (customers t = customers s \<or> customers t = customers s @ [c]) \<and>
    t\<lparr>customers := [], draws := 0\<rparr> = s\<lparr>customers := [], draws := 0\<rparr>"
  proof -
    obtain found v where sel: "select_one customers (\<lambda>c. cus_user_id c = Some (usr_id user)) s = (Inr found, v)"
      and rest: "(case found of Some c \<Rightarrow> ret c
        | None \<Rightarrow> bind (uuid4 E) (\<lambda>i. bind now (\<lambda>t. let c = new_profile i user t
            in seq (writes (\<lambda>s. s\<lparr>customers := customers s @ [c]\<rparr>)) (ret c)))) v = (Inr c, t)"
      using assms unfolding ensure_profile_for_user_def bind_return_iff [of "select_one _ _"] by blast
    have v: "v = s" "\<And>r. found = Some r \<Longrightarrow> r \<in> set (customers s) \<and> cus_user_id r = Some (usr_id user)"
      using sel unfolding select_one_return_iff by (auto simp: filter_eq_Cons_iff)
    show ?thesis using v rest
      by (cases found) (auto simp: bind_run uuid4_run now_run seq_run writes_run Let_def new_profile_def)
  qed
  then show "c \<in> set (customers t)" "cus_user_id c = Some (usr_id user)"
    "customers t = customers s \<or> customers t = customers s @ [c]"
    "t\<lparr>customers := [], draws := 0\<rparr> = s\<lparr>customers := [], draws := 0\<rparr>" by auto
qed

lemma validate_category_pure: "validate_category c s = (Inr x, t) \<Longrightarrow> t = s"
  by (auto simp: validate_category_def bind_return_iff select_one_return_iff require_return_iff split: option.splits)

lemma intake_returns:
  assumes "submit_intake E user payload s = (Inr r, t)"
  obtains c i ref u v w where "ensure_profile_for_user E user s = (Inr c, u)" and "reserve_reference_number E u = (Inr ref, v)"
    and "i \<notin> er_id ` set (equipment_records v)"
    and "but_photos w = but_photos (v\<lparr>equipment_records := equipment_records v @
      [new_record E i (cus_id c) ref payload (clock v)]\<rparr>)"
    and "\<exists>new. intake_photos w = intake_photos v @ new \<and> length new = length (int_photos payload) \<and>
      (\<forall>p \<in> set new. ip_equipment_record_id p = i \<and> ip_scan_status p = ''pending'')"
    and "bind (route_and_assign E user (new_record E i (cus_id c) ref payload (clock v)) c) (\<lambda>record'.
      seq (enqueue_confirmation E user record') (ret record')) w = (Inr r, t)"
proof -
  have "bind (ensure_profile_for_user E user) (\<lambda>c.
      bind (reserve_reference_number E) (\<lambda>reference.
      bind (uuid4 E) (\<lambda>i.
      bind now (\<lambda>t.
      let record = new_record E i (cus_id c) reference payload t
      in seq (fresh_key equipment_records er_id i)
         (seq (writes (\<lambda>s. s\<lparr>equipment_records := equipment_records s @ [record]\<rparr>))
         (seq (for_each (enumerate 0 (int_photos payload)) (insert_meta E i))
         (bind (route_and_assign E user record c) (\<lambda>record'.
          seq (enqueue_confirmation E user record') (ret record'))))))))) s = (Inr r, t)"
    using assms unfolding submit_intake_def seq_return_iff [of "validate_category _"] by (auto dest: validate_category_pure)
  then obtain c u ref v where c: "ensure_profile_for_user E user s = (Inr c, u)"
    and ref: "reserve_reference_number E u = (Inr ref, v)"
    and rest: "bind (uuid4 E) (\<lambda>i. bind now (\<lambda>t.
      let record = new_record E i (cus_id c) ref payload t
      in seq (fresh_key equipment_records er_id i)
         (seq (writes (\<lambda>s. s\<lparr>equipment_records := equipment_records s @ [record]\<rparr>))
         (seq (for_each (enumerate 0 (int_photos payload)) (insert_meta E i))
         (bind (route_and_assign E user record c) (\<lambda>record'.
          seq (enqueue_confirmation E user record') (ret record'))))))) v = (Inr r, t)"
    unfolding bind_return_iff [of "ensure_profile_for_user _ _"] bind_return_iff [of "reserve_reference_number _"] by blast
  let ?i = "random_uuid E (draws v)" and ?v = "v\<lparr>draws := Suc (draws v)\<rparr>"
  let ?rec = "new_record E ?i (cus_id c) ref payload (clock v)"
  let ?m = "for_each (enumerate 0 (int_photos payload)) (insert_meta E ?i)"
  have fresh: "?i \<notin> er_id ` set (equipment_records v)"
    and run: "seq ?m (bind (route_and_assign E user ?rec c) (\<lambda>record'.
          seq (enqueue_confirmation E user record') (ret record')))
        (?v\<lparr>equipment_records := equipment_records v @ [?rec]\<rparr>) = (Inr r, t)"
    using rest
    by (auto simp: bind_run [of "uuid4 _"] bind_run [of now] uuid4_run now_run Let_def seq_return_iff [of "fresh_key _ _ _"]
        fresh_key_return_iff seq_return_iff [of "writes _"] writes_run)
  obtain w where m: "?m (?v\<lparr>equipment_records := equipment_records v @ [?rec]\<rparr>) = (Inr (), w)"
    and tail: "bind (route_and_assign E user ?rec c) (\<lambda>record'.
          seq (enqueue_confirmation E user record') (ret record')) w = (Inr r, t)"
    using run unfolding seq_return_iff [of ?m] by auto
  from insert_metas_return [OF m]
  show thesis by (intro that [OF c ref fresh _ _ tail]) (simp_all add: but_photos_def)
qed


definition intake_created :: "db \<Rightarrow> user \<Rightarrow> intake_submission \<Rightarrow> equipment_record \<Rightarrow> db \<Rightarrow> bool" where
  "intake_created s user payload r t \<longleftrightarrow>
     equipment_records t = equipment_records s @ [r] \<and> er_id r \<notin> er_id ` set (equipment_records s) \<and>
     er_reference_number r \<noteq> None \<and> er_reference_number r \<notin> er_reference_number ` set (equipment_records s) \<and>
     er_status r = ''new_request'' \<and>
     (\<exists>c \<in> set (customers t). cus_id c = er_customer_id r \<and> cus_user_id c = Some (usr_id user)) \<and>
     (\<exists>new. intake_photos t = intake_photos s @ new \<and> length new = length (int_photos payload) \<and>
       (\<forall>p \<in> set new. ip_equipment_record_id p = er_id r \<and> ip_scan_status p = ''pending'')) \<and>
     (case er_assigned_sales_rep_id r of None \<Rightarrow> True | Some u \<Rightarrow> u \<in> usr_id ` set (users s))"

lemma confirmation_queued:
  assumes "enqueue_confirmation E user r s = (x, t)"
  shows "intake_core t = intake_core s" "has_key (confirmation_key (er_id r)) t" "x = Inr ()"
  using assms CHANNELS_email
  by (auto simp: enqueue_confirmation_def seq_run enqueue_run intake_core_def Let_def has_key_def new_job_def split: if_splits)

lemma new_record_fields:
  "er_id (new_record E i cid ref p d) = i" "er_customer_id (new_record E i cid ref p d) = cid"
  "er_reference_number (new_record E i cid ref p d) = Some ref" "er_status (new_record E i cid ref p d) = ''new_request''"
  "er_assigned_sales_rep_id (new_record E i cid ref p d) = None"
  by (simp_all add: new_record_def)

lemma rep_only_fields:
  assumes "rep_only r = rep_only x"
  shows "er_id r = er_id x" "er_customer_id r = er_customer_id x" "er_reference_number r = er_reference_number x"
    "er_status r = er_status x"
  using arg_cong [OF assms, of er_id] arg_cong [OF assms, of er_customer_id]
    arg_cong [OF assms, of er_reference_number] arg_cong [OF assms, of er_status] by (simp_all add: rep_only_def)

lemma intake_creates:
  assumes "submit_intake E user payload s = (Inr r, t)"
  shows "intake_created s user payload r t" "has_key (confirmation_key (er_id r)) t"
proof -
  have "intake_created s user payload r t \<and> has_key (confirmation_key (er_id r)) t"
  proof (rule intake_returns [OF assms])
    fix c :: customer and i ref and u v w :: db
    let ?rec = "new_record E i (cus_id c) ref payload (clock v)"
    assume c: "ensure_profile_for_user E user s = (Inr c, u)" and ref: "reserve_reference_number E u = (Inr ref, v)"
      and fresh: "i \<notin> er_id ` set (equipment_records v)"
      and w: "but_photos w = but_photos (v\<lparr>equipment_records := equipment_records v @ [?rec]\<rparr>)"
      and ph: "\<exists>new. intake_photos w = intake_photos v @ new \<and> length new = length (int_photos payload) \<and>
        (\<forall>p \<in> set new. ip_equipment_record_id p = i \<and> ip_scan_status p = ''pending'')"
      and tail: "bind (route_and_assign E user ?rec c) (\<lambda>record'.
        seq (enqueue_confirmation E user record') (ret record')) w = (Inr r, t)"
    note cu = ensure_profile_returns [OF c]
    note rf = reserve_attempts_return [OF ref [unfolded reserve_reference_number_def]]
    have tab: "equipment_records v = equipment_records s" "intake_photos v = intake_photos s" "users v = users s"
      "customers v = customers u" "equipment_records u = equipment_records s"
      using arg_cong [OF cu(4), of equipment_records] arg_cong [OF conjunct1 [OF rf], of equipment_records]
        arg_cong [OF cu(4), of intake_photos] arg_cong [OF conjunct1 [OF rf], of intake_photos]
        arg_cong [OF cu(4), of users] arg_cong [OF conjunct1 [OF rf], of users]
        arg_cong [OF conjunct1 [OF rf], of customers] by simp_all
    have wt: "equipment_records w = equipment_records s @ [?rec]" "users w = users s" "customers w = customers u"
      using arg_cong [OF w, of equipment_records] arg_cong [OF w, of users] arg_cong [OF w, of customers] tab
      by (simp_all add: but_photos_def)
    obtain r1 y where ra: "route_and_assign E user ?rec c w = (Inr r1, y)"
      and fin: "seq (enqueue_confirmation E user r1) (ret r1) y = (Inr r, t)"
      using tail unfolding bind_return_iff by blast
    then have z: "enqueue_confirmation E user r1 y = (Inr (), t)" and r1: "r1 = r"
      by (auto simp: seq_return_iff)
    have "er_id ?rec \<notin> er_id ` set (equipment_records s)" using fresh tab(1) by (simp add: new_record_fields)
    note rr = route_and_assign_returns [OF ra wt(1) this]
    note ro = rep_only_fields [OF rr(2), unfolded new_record_fields]
    note ct = intake_core_tables [OF confirmation_queued(1) [OF z]]
    have "intake_created s user payload r t"
      unfolding intake_created_def
    proof (intro conjI)
      show "equipment_records t = equipment_records s @ [r]" using rr(1) ct(1) r1 by simp
      show "er_id r \<notin> er_id ` set (equipment_records s)" using ro(1) r1 fresh tab(1) by simp
      show "er_reference_number r \<noteq> None" using ro(3) r1 by simp
      show "er_reference_number r \<notin> er_reference_number ` set (equipment_records s)"
        using ro(3) r1 conjunct2 [OF rf] tab(5) by simp
      show "er_status r = ''new_request''" using ro(4) r1 by simp
      show "\<exists>c \<in> set (customers t). cus_id c = er_customer_id r \<and> cus_user_id c = Some (usr_id user)"
        using cu(1,2) ct(3) rr(4) wt(3) ro(2) r1 by auto
      show "\<exists>new. intake_photos t = intake_photos s @ new \<and> length new = length (int_photos payload) \<and>
         (\<forall>p \<in> set new. ip_equipment_record_id p = er_id r \<and> ip_scan_status p = ''pending'')"
        using ph ct(2) rr(3) tab(2) ro(1) r1 by simp
      show "case er_assigned_sales_rep_id r of None \<Rightarrow> True | Some u \<Rightarrow> u \<in> usr_id ` set (users s)"
        using rr(6) wt(2) r1 by (simp add: new_record_fields split: option.splits)
    qed
    then show "intake_created s user payload r t \<and> has_key (confirmation_key (er_id r)) t"
      using confirmation_queued(2) [OF z] r1 by simp
  qed
  then show "intake_created s user payload r t" "has_key (confirmation_key (er_id r)) t" by blast+
qed


subsection \<open>A default representative who does not exist\<close>

lemma default_rep_depends:
  assumes "app_configs v = app_configs s" "read_default_sales_rep E s = (Inr d, s)"
  shows "read_default_sales_rep E v = (Inr d, v)"
  using assms unfolding read_default_sales_rep_def get_typed_def get_spec_def
  by (auto simp: run_simps split: option.splits list.splits if_splits)

lemma fallback_run:
  assumes "active_rules s = []" "read_default_sales_rep E s = (Inr (Some u), s)"
  shows "route_for_record E c email s = (Inr \<lparr>dec_assigned_user_id = Some u, dec_rule_id = None, dec_rule_type = None,
    dec_trigger = ''default_sales_rep''\<rparr>, s)"
  using assms
  by (simp add: route_for_record_def bind_run load_active_rules_run ad_hoc_rule_def bucket_def fallback_decision_def)

lemma dangling_rep_stops_intake:
  assumes "active_rules s = []" "read_default_sales_rep E s = (Inr (Some u), s)" "u \<notin> usr_id ` set (users s)"
  shows "submit_intake E user payload s \<noteq> (Inr r, t)"
proof
  assume run: "submit_intake E user payload s = (Inr r, t)"
  show False
  proof (rule intake_returns [OF run])
    fix c :: customer and i ref and a v w :: db
    let ?rec = "new_record E i (cus_id c) ref payload (clock v)"
    assume c: "ensure_profile_for_user E user s = (Inr c, a)" and ref: "reserve_reference_number E a = (Inr ref, v)"
      and w: "but_photos w = but_photos (v\<lparr>equipment_records := equipment_records v @ [?rec]\<rparr>)"
      and tail: "bind (route_and_assign E user ?rec c) (\<lambda>record'.
        seq (enqueue_confirmation E user record') (ret record')) w = (Inr r, t)"
    note cu = ensure_profile_returns(4) [OF c]
      and rf = conjunct1 [OF reserve_attempts_return [OF ref [unfolded reserve_reference_number_def]]]
    have same: "routing_rules w = routing_rules s" "app_configs w = app_configs s" "users w = users s"
      using arg_cong [OF cu, of routing_rules] arg_cong [OF rf, of routing_rules] arg_cong [OF w, of routing_rules]
        arg_cong [OF cu, of app_configs] arg_cong [OF rf, of app_configs] arg_cong [OF w, of app_configs]
        arg_cong [OF cu, of users] arg_cong [OF rf, of users] arg_cong [OF w, of users]
      by (simp_all add: but_photos_def)
    have "active_rules w = []" using assms(1) same(1) by (simp add: active_rules_def)
    from fallback_run [OF this default_rep_depends [OF same(2) assms(2)]]
    obtain r1 y where "seq (assign_record (er_id ?rec) u) (seq (add_audit y)
        (seq (enqueue_assignment_notification E (?rec\<lparr>er_assigned_sales_rep_id := Some u\<rparr>) u ''default_sales_rep'')
        (ret (?rec\<lparr>er_assigned_sales_rep_id := Some u\<rparr>)))) w = (Inr (fst r1), snd r1)"
      using tail unfolding bind_return_iff [of "route_and_assign _ _ _ _"]
      by (auto simp: route_and_assign_def bind_run [of "attempt _"] attempt_run Let_def)
    then show False using assms(3) same(3) by (auto simp: seq_return_iff assign_record_return_iff)
  qed
qed

subsection \<open>The order of the form\<close>

lemma set_map_filter: "set (List.map_filter g xs) = {y. \<exists>x \<in> set xs. g x = Some y}"
  by (induction xs) (auto simp: List.map_filter_simps split: option.splits)

lemma set_keep_names:
  assumes "keep_names names raw s = (Inr fs, t)"
  shows "t = s \<and> set fs \<subseteq> set names"
proof -
  define g where "g = (\<lambda>f. case f of JStr x \<Rightarrow> if x \<in> set names then Some x else None | _ \<Rightarrow> None)"
  have g: "y \<in> set names" if "g f = Some y" for f y
    using that unfolding g_def by (cases f) (simp_all split: if_splits)
  obtain items v where items: "py_iter raw s = (Inr items, v)"
    and rest: "seq (require (list_all hashable items) (TypeError ''unhashable type'')) (ret (List.map_filter g items)) v = (Inr fs, t)"
    using assms unfolding keep_names_def bind_return_iff [of "py_iter _"] g_def by blast
  have "fs = List.map_filter g items \<and> t = v" using rest by (simp add: seq_return_iff require_return_iff)
  moreover have "v = s" by (rule py_iter_pure [OF items])
  ultimately show ?thesis using g by (auto simp: set_map_filter)
qed

lemma visible_fields_return:
  assumes "visible_fields s = (Inr v, t)"
  shows "t = s \<and> set v \<subseteq> set INTAKE_FIELDS_CANONICAL"
proof -
  obtain raw w where raw: "get_typed (ks_name INTAKE_FIELDS_VISIBLE) s = (Inr raw, w)"
    and rest: "(if \<not> json_truthy raw then ret INTAKE_FIELDS_CANONICAL else keep_names INTAKE_FIELDS_CANONICAL raw) w = (Inr v, t)"
    using assms unfolding visible_fields_def bind_return_iff by blast
  note w = get_typed_pure [OF raw]
  show ?thesis
  proof (cases "json_truthy raw")
    case True
    then show ?thesis using rest w set_keep_names by auto
  qed (use rest w in simp)
qed

lemma field_order_return:
  assumes "field_order s = (Inr ord, t)"
  shows "t = s \<and> (\<exists>v. visible_fields s = (Inr v, s) \<and> set ord = set v)"
proof -
  let ?rest = "\<lambda>v raw. if \<not> json_truthy raw then ret v
      else bind (keep_names (filter (\<lambda>f. f \<in> set INTAKE_FIELDS_CANONICAL) v) raw) (\<lambda>ordered.
        ret (ordered @ filter (\<lambda>f. f \<in> set v \<and> f \<notin> set ordered) INTAKE_FIELDS_CANONICAL))"
  obtain v raw a b where v: "visible_fields s = (Inr v, a)" and raw: "get_typed (ks_name INTAKE_FIELDS_ORDER) a = (Inr raw, b)"
    and rest: "?rest v raw b = (Inr ord, t)"
    using assms unfolding field_order_def bind_return_iff [of visible_fields] bind_return_iff [of "get_typed _"] by blast
  have ab: "a = s" "b = s" and sub: "set v \<subseteq> set INTAKE_FIELDS_CANONICAL"
    using visible_fields_return [OF v] get_typed_pure [OF raw] by auto
  have "t = s \<and> set ord = set v"
  proof (cases "json_truthy raw")
    case False
    then show ?thesis using rest ab by simp
  next
    case True
    then obtain ordered c where k: "keep_names (filter (\<lambda>f. f \<in> set INTAKE_FIELDS_CANONICAL) v) raw b = (Inr ordered, c)"
      and o': "ord = ordered @ filter (\<lambda>f. f \<in> set v \<and> f \<notin> set ordered) INTAKE_FIELDS_CANONICAL" "t = c"
      using rest by (simp add: bind_return_iff) blast
    from set_keep_names [OF k] have "c = b" "set ordered \<subseteq> set v" by auto
    then show ?thesis using o' ab sub by auto
  qed
  then show ?thesis using v ab by simp
qed

end
