(* ===== verification/Categories.thy ===== *)
theory Categories
  imports Submissions ChangeRequests
begin

section \<open>Administration of the equipment categories\<close>

text \<open>
  \<^verbatim>\<open>api/services/category_versioning_service.py\<close> and the editing half of
  \<^verbatim>\<open>api/services/admin_category_service.py\<close> with the category part of \<^verbatim>\<open>api/schemas/admin.py\<close> and
  the routes of \<^verbatim>\<open>api/routers/admin_categories.py\<close>. A category, a prompt and a red-flag rule are
  never edited in place: the current row gets \<^verbatim>\<open>replaced_at\<close> and a successor with the next version
  and a fresh id is inserted. Components, attachments and photo slots are updated in place. A field
  of a patch is \<open>None\<close> when it was not sent and \<open>Some None\<close> when \<^verbatim>\<open>null\<close> was sent.
\<close>

subsection \<open>The versions\<close>

definition is_current_slug :: "string \<Rightarrow> category \<Rightarrow> bool" where
  "is_current_slug slug c \<longleftrightarrow> cat_slug c = slug \<and> cat_replaced_at c = None \<and> cat_deleted_at c = None"

definition current_category_by_slug :: "string \<Rightarrow> category option op" where
  "current_category_by_slug slug = select_one categories (is_current_slug slug)"

definition current_inspection_prompts :: "uuid \<Rightarrow> inspection_prompt list op" where
  "current_inspection_prompts category_id =
     reads (\<lambda>s. sort_key (\<lambda>p. (ipr_display_order p, ipr_id p)) (filter (\<lambda>p. ipr_category_id p = category_id \<and>
       ipr_replaced_at p = None \<and> ipr_active p) (inspection_prompts s)))"

definition current_red_flag_rules :: "uuid \<Rightarrow> red_flag_rule list op" where
  "current_red_flag_rules category_id =
     reads (\<lambda>s. sort_key rf_id (filter (\<lambda>r. rf_category_id r = category_id \<and>
       rf_replaced_at r = None \<and> rf_active r) (red_flag_rules s)))"

definition live_at :: "datetime \<Rightarrow> datetime option \<Rightarrow> bool" where
  "live_at instant replaced_at \<longleftrightarrow> (case replaced_at of None \<Rightarrow> True | Some t \<Rightarrow> instant < t)"

definition inspection_prompt_version_at :: "uuid \<Rightarrow> datetime \<Rightarrow> inspection_prompt option op" where
  "inspection_prompt_version_at prompt_id instant =
     select_one inspection_prompts (\<lambda>p. ipr_id p = prompt_id \<and> live_at instant (ipr_replaced_at p))"

definition red_flag_rule_version_at :: "uuid \<Rightarrow> datetime \<Rightarrow> red_flag_rule option op" where
  "red_flag_rule_version_at i instant =
     select_one red_flag_rules (\<lambda>r. rf_id r = i \<and> live_at instant (rf_replaced_at r))"

definition new_or :: "'a option \<Rightarrow> 'a \<Rightarrow> 'a" where
  "new_or new old = (case new of None \<Rightarrow> old | Some v \<Rightarrow> v)"

definition insert_prompt :: "inspection_prompt \<Rightarrow> unit op" where
  "insert_prompt p = seq (fresh_key inspection_prompts ipr_id (ipr_id p))
     (writes (\<lambda>s. s\<lparr>inspection_prompts := inspection_prompts s @ [p]\<rparr>))"

definition insert_rule :: "red_flag_rule \<Rightarrow> unit op" where
  "insert_rule r = seq (fresh_key red_flag_rules rf_id (rf_id r))
     (writes (\<lambda>s. s\<lparr>red_flag_rules := red_flag_rules s @ [r]\<rparr>))"

definition supersede_inspection_prompt ::
  "env \<Rightarrow> inspection_prompt \<Rightarrow> string option \<Rightarrow> string option \<Rightarrow> bool option \<Rightarrow> int option \<Rightarrow> inspection_prompt op" where
  "supersede_inspection_prompt E existing new_label new_response_type new_required new_display_order =
     bind now (\<lambda>t.
     bind (uuid4 E) (\<lambda>i.
     let successor = existing\<lparr>ipr_id := i, ipr_label := new_or new_label (ipr_label existing),
           ipr_response_type := new_or new_response_type (ipr_response_type existing),
           ipr_required := new_or new_required (ipr_required existing),
           ipr_display_order := new_or new_display_order (ipr_display_order existing),
           ipr_version := ipr_version existing + 1, ipr_replaced_at := None\<rparr>
     in seq (writes (\<lambda>s. s\<lparr>inspection_prompts := update_where (\<lambda>p. ipr_id p = ipr_id existing)
              (\<lambda>p. p\<lparr>ipr_replaced_at := Some t\<rparr>) (inspection_prompts s)\<rparr>))
        (seq (insert_prompt successor) (ret successor))))"

definition supersede_red_flag_rule ::
  "env \<Rightarrow> red_flag_rule \<Rightarrow> string option \<Rightarrow> string option \<Rightarrow> string option \<Rightarrow>
   (string \<times> json) list option \<Rightarrow> string option \<Rightarrow> red_flag_rule op" where
  "supersede_red_flag_rule E existing new_field new_operator new_value new_actions new_label =
     bind now (\<lambda>t.
     bind (uuid4 E) (\<lambda>i.
     let successor = existing\<lparr>rf_id := i, rf_condition_field := new_or new_field (rf_condition_field existing),
           rf_condition_operator := new_or new_operator (rf_condition_operator existing),
           rf_condition_value := kept new_value (rf_condition_value existing),
           rf_actions := new_or new_actions (rf_actions existing),
           rf_label := new_or new_label (rf_label existing),
           rf_version := rf_version existing + 1, rf_replaced_at := None\<rparr>
     in seq (writes (\<lambda>s. s\<lparr>red_flag_rules := update_where (\<lambda>r. rf_id r = rf_id existing)
              (\<lambda>r. r\<lparr>rf_replaced_at := Some t\<rparr>) (red_flag_rules s)\<rparr>))
        (seq (insert_rule successor) (ret successor))))"

text \<open>The partial unique index on the slug of the current, undeleted categories.\<close>

definition insert_category :: "category \<Rightarrow> unit op" where
  "insert_category c =
     bind (reads (\<lambda>s. find (is_current_slug (cat_slug c)) (categories s))) (\<lambda>taken.
     seq (fresh_key categories cat_id (cat_id c))
     (seq (require (taken = None) (IntegrityError ''uq_equipment_categories_slug_current''))
     (writes (\<lambda>s. s\<lparr>categories := categories s @ [c]\<rparr>))))"

definition supersede_category ::
  "env \<Rightarrow> category \<Rightarrow> string option \<Rightarrow> string option \<Rightarrow> int option \<Rightarrow> string option \<Rightarrow> category op" where
  "supersede_category E existing new_name new_slug new_display_order new_status =
     bind now (\<lambda>t.
     bind (uuid4 E) (\<lambda>i.
     let successor = existing\<lparr>cat_id := i, cat_name := new_or new_name (cat_name existing),
           cat_slug := new_or new_slug (cat_slug existing),
           cat_status := new_or new_status (cat_status existing),
           cat_display_order := new_or new_display_order (cat_display_order existing),
           cat_version := cat_version existing + 1, cat_replaced_at := None, cat_deleted_at := None\<rparr>
     in seq (writes (\<lambda>s. s\<lparr>categories := update_where (\<lambda>c. cat_id c = cat_id existing)
              (\<lambda>c. c\<lparr>cat_replaced_at := Some t\<rparr>) (categories s)\<rparr>))
        (seq (insert_category successor) (ret successor))))"

subsection \<open>The detail of a category\<close>

record category_detail =
  cd_category :: category
  cd_components :: "category_component list"
  cd_prompts :: "inspection_prompt list"
  cd_attachments :: "category_attachment list"
  cd_photo_slots :: "photo_slot list"
  cd_rules :: "red_flag_rule list"
  cd_weight_total :: rat
  cd_weight_warning :: bool

definition WEIGHT_WARNING_TOLERANCE :: rat where "WEIGHT_WARNING_TOLERANCE = 1 / 2"
definition WEIGHT_TARGET :: rat where "WEIGHT_TARGET = 100"

definition weight_total :: "category_component list \<Rightarrow> rat" where
  "weight_total cs = sum_list (map (dec_val \<circ> cc_weight_pct) cs)"

definition weight_warning :: "category_component list \<Rightarrow> bool" where
  "weight_warning active \<longleftrightarrow> active \<noteq> [] \<and>
     \<bar>weight_total active - WEIGHT_TARGET\<bar> > WEIGHT_WARNING_TOLERANCE"

definition serialize_detail :: "db \<Rightarrow> category \<Rightarrow> category_detail" where
  "serialize_detail s c =
     (let components = sort_key (\<lambda>k. (cc_display_order k, uuid_str (cc_id k)))
            (filter (\<lambda>k. cc_category_id k = cat_id c) (category_components s));
          active_components = filter cc_active components
      in \<lparr>cd_category = c, cd_components = components,
          cd_prompts = sort_key (\<lambda>p. (ipr_display_order p, uuid_str (ipr_id p)))
            (filter (\<lambda>p. ipr_category_id p = cat_id c \<and> ipr_replaced_at p = None) (inspection_prompts s)),
          cd_attachments = sort_key (\<lambda>a. (cat_at_display_order a, uuid_str (cat_at_id a)))
            (filter (\<lambda>a. cat_at_category_id a = cat_id c) (category_attachments s)),
          cd_photo_slots = sort_key (\<lambda>x. (slot_display_order x, uuid_str (slot_id x)))
            (filter (\<lambda>x. slot_category_id x = cat_id c) (photo_slots s)),
          cd_rules = filter (\<lambda>r. rf_category_id r = cat_id c \<and> rf_replaced_at r = None) (red_flag_rules s),
          cd_weight_total = weight_total active_components,
          cd_weight_warning = weight_warning active_components\<rparr>)"

definition load_category :: "uuid \<Rightarrow> category op" where
  "load_category category_id =
     bind (select_one categories (\<lambda>c. cat_id c = category_id)) (\<lambda>found.
     case found of None \<Rightarrow> raise (http 404 ''Category not found.'') | Some c \<Rightarrow> ret c)"

definition get_category :: "uuid \<Rightarrow> category_detail op" where
  "get_category category_id =
     bind (load_category category_id) (\<lambda>c. reads (\<lambda>s. serialize_detail s c))"

definition category_audit :: "user \<Rightarrow> string \<Rightarrow> uuid \<Rightarrow> json option \<Rightarrow> json option \<Rightarrow> unit op" where
  "category_audit actor event target_id before after =
     add_audit \<lparr>aud_event_type = event, aud_actor_id = Some (usr_id actor), aud_actor_role = Some ''admin'',
       aud_target_type = Some ''equipment_category'', aud_target_id = Some target_id,
       aud_before_state = before, aud_after_state = after\<rparr>"

subsection \<open>Categories\<close>

definition list_categories :: "bool \<Rightarrow> bool \<Rightarrow> category list op" where
  "list_categories include_inactive include_deleted =
     reads (\<lambda>s. sort_key (\<lambda>c. (cat_display_order c, cat_name c)) (filter (\<lambda>c. cat_replaced_at c = None \<and>
       (include_deleted \<or> cat_deleted_at c = None) \<and> (include_inactive \<or> cat_status c = ''active''))
       (categories s)))"

definition slug_ok :: "string \<Rightarrow> bool" where
  "slug_ok x \<longleftrightarrow> (case x of [] \<Rightarrow> False
     | c # cs \<Rightarrow> c \<in> set ''abcdefghijklmnopqrstuvwxyz0123456789'' \<and>
         list_all (\<lambda>d. d \<in> set ''abcdefghijklmnopqrstuvwxyz0123456789_-'') cs)"

definition text_within :: "nat \<Rightarrow> nat \<Rightarrow> string \<Rightarrow> bool" where
  "text_within lo hi x \<longleftrightarrow> lo \<le> char_count x \<and> char_count x \<le> hi"

definition sent_ok :: "('a \<Rightarrow> bool) \<Rightarrow> 'a option option \<Rightarrow> bool" where
  "sent_ok p x \<longleftrightarrow> (case x of Some (Some v) \<Rightarrow> p v | _ \<Rightarrow> True)"

definition sent_value :: "'a option option \<Rightarrow> 'a option" where
  "sent_value x = (case x of Some v \<Rightarrow> v | None \<Rightarrow> None)"

definition category_create_ok :: "string \<Rightarrow> string \<Rightarrow> int \<Rightarrow> bool" where
  "category_create_ok name slug display_order \<longleftrightarrow>
     text_within 1 100 name \<and> text_within 1 100 slug \<and> slug_ok slug \<and> 0 \<le> display_order"

definition slug_in_use :: "string \<Rightarrow> exn" where
  "slug_in_use slug = http 409 (''Slug '' @ quoted slug @ '' is already in use.'')"

definition create_category :: "env \<Rightarrow> string \<Rightarrow> string \<Rightarrow> int \<Rightarrow> user \<Rightarrow> category_detail op" where
  "create_category E name slug display_order actor =
     bind (current_category_by_slug slug) (\<lambda>existing.
     seq (require (existing = None) (slug_in_use slug))
     (bind (uuid4 E) (\<lambda>i.
      seq (insert_category \<lparr>cat_id = i, cat_name = name, cat_slug = slug, cat_status = ''active'',
             cat_display_order = display_order, cat_created_by = Some (usr_id actor),
             cat_deleted_at = None, cat_version = 1, cat_replaced_at = None\<rparr>)
      (seq (category_audit actor ''equipment_category.created'' i None
              (Some (JObj [(''name'', JStr name), (''slug'', JStr slug), (''display_order'', JInt display_order)])))
      (get_category i)))))"

record category_patch =
  cp_name :: "string option option"
  cp_slug :: "string option option"
  cp_display_order :: "int option option"
  cp_status :: "string option option"

definition unset_category :: category_patch where
  "unset_category = \<lparr>cp_name = None, cp_slug = None, cp_display_order = None, cp_status = None\<rparr>"

definition category_patch_ok :: "category_patch \<Rightarrow> bool" where
  "category_patch_ok p \<longleftrightarrow> sent_ok (text_within 0 100) (cp_name p) \<and>
     sent_ok (\<lambda>x. text_within 0 100 x \<and> slug_ok x) (cp_slug p) \<and> sent_ok (\<lambda>i. 0 \<le> i) (cp_display_order p) \<and>
     sent_ok (\<lambda>x. x = ''active'' \<or> x = ''inactive'') (cp_status p)"

definition field_json :: "string \<Rightarrow> 'a option \<Rightarrow> json \<Rightarrow> (string \<times> json) list" where
  "field_json k sent v = (case sent of None \<Rightarrow> [] | Some _ \<Rightarrow> [(k, v)])"

definition category_fields :: "category_patch \<Rightarrow> category \<Rightarrow> (string \<times> json) list" where
  "category_fields p c =
     field_json ''name'' (cp_name p) (JStr (cat_name c)) @ field_json ''slug'' (cp_slug p) (JStr (cat_slug c)) @
     field_json ''display_order'' (cp_display_order p) (JInt (cat_display_order c)) @
     field_json ''status'' (cp_status p) (JStr (cat_status c))"

definition slug_clash :: "category_patch \<Rightarrow> category \<Rightarrow> unit op" where
  "slug_clash p c =
     (case cp_slug p of
        Some (Some slug) \<Rightarrow>
          if slug = cat_slug c then ret ()
          else bind (current_category_by_slug slug) (\<lambda>clash.
            require (case clash of None \<Rightarrow> True | Some k \<Rightarrow> cat_id k = cat_id c) (slug_in_use slug))
      | _ \<Rightarrow> ret ())"

definition update_category :: "env \<Rightarrow> uuid \<Rightarrow> category_patch \<Rightarrow> user \<Rightarrow> category_detail op" where
  "update_category E category_id patch actor =
     bind (load_category category_id) (\<lambda>c.
     seq (require (cat_replaced_at c = None \<and> cat_deleted_at c = None)
            (http 409 ''Category is no longer current.''))
     (seq (require (patch \<noteq> unset_category) (http 400 ''No fields to update.''))
     (seq (slug_clash patch c)
     (bind (supersede_category E c (sent_value (cp_name patch)) (sent_value (cp_slug patch))
              (sent_value (cp_display_order patch)) (sent_value (cp_status patch))) (\<lambda>successor.
      seq (category_audit actor ''equipment_category.superseded'' (cat_id successor)
             (Some (JObj ([(''prior_id'', JStr (uuid_str (cat_id c))), (''prior_version'', JInt (cat_version c))] @
                category_fields patch c)))
             (Some (JObj ((''version'', JInt (cat_version successor)) # category_fields patch successor))))
      (get_category (cat_id successor)))))))"

definition deactivate_category :: "env \<Rightarrow> uuid \<Rightarrow> user \<Rightarrow> category_detail op" where
  "deactivate_category E category_id actor =
     bind (load_category category_id) (\<lambda>c.
     if cat_status c = ''inactive'' then reads (\<lambda>s. serialize_detail s c)
     else update_category E category_id (unset_category\<lparr>cp_status := Some (Some ''inactive'')\<rparr>) actor)"

definition soft_delete_category :: "uuid \<Rightarrow> user \<Rightarrow> category op" where
  "soft_delete_category category_id actor =
     bind (load_category category_id) (\<lambda>c.
     if cat_deleted_at c \<noteq> None then ret c
     else
       bind (reads (\<lambda>s. length (filter (\<lambda>r. er_category_id r = Some (cat_id c) \<and> er_deleted_at r = None)
               (equipment_records s)))) (\<lambda>in_use.
       seq (require (in_use = 0) (http 409 (nat_str in_use @
              '' equipment record(s) still reference this category. '' @
              ''Deactivate it instead, or reassign the records first.'')))
       (bind now (\<lambda>t.
        seq (writes (\<lambda>s. s\<lparr>categories := update_where (\<lambda>k. cat_id k = cat_id c)
               (\<lambda>k. k\<lparr>cat_deleted_at := Some t\<rparr>) (categories s)\<rparr>))
        (seq (category_audit actor ''equipment_category.soft_deleted'' (cat_id c)
                (Some (JObj [(''deleted_at'', JNull)]))
                (Some (JObj [(''deleted_at'', JStr (isoformat t))])))
        (ret (c\<lparr>cat_deleted_at := Some t\<rparr>)))))))"

subsection \<open>Components\<close>

text \<open>A column that must not be null, set to what was sent.\<close>

definition set_required :: "string \<Rightarrow> 'a option option \<Rightarrow> 'a \<Rightarrow> 'a op" where
  "set_required column x old =
     (case x of None \<Rightarrow> ret old | Some None \<Rightarrow> raise (IntegrityError column) | Some (Some v) \<Rightarrow> ret v)"

definition set_nullable :: "'a option option \<Rightarrow> 'a option \<Rightarrow> 'a option" where
  "set_nullable x old = (case x of None \<Rightarrow> old | Some v \<Rightarrow> v)"

definition component_create_ok :: "string \<Rightarrow> decimal \<Rightarrow> int \<Rightarrow> bool" where
  "component_create_ok name weight display_order \<longleftrightarrow>
     text_within 1 100 name \<and> 0 \<le> dec_val weight \<and> dec_val weight < 100 \<and> 0 \<le> display_order"

definition add_component :: "env \<Rightarrow> uuid \<Rightarrow> string \<Rightarrow> decimal \<Rightarrow> int \<Rightarrow> user \<Rightarrow> category_detail op" where
  "add_component E category_id name weight display_order actor =
     bind (load_category category_id) (\<lambda>_.
     bind (uuid4 E) (\<lambda>i.
     seq (writes (\<lambda>s. s\<lparr>category_components := category_components s @
            [\<lparr>cc_id = i, cc_category_id = category_id, cc_name = name, cc_weight_pct = weight,
              cc_display_order = display_order, cc_active = True\<rparr>]\<rparr>))
     (seq (category_audit actor ''category_component.created'' category_id None
             (Some (JObj [(''component_id'', JStr (uuid_str i)), (''name'', JStr name),
                (''weight_pct'', JStr (decimal_str weight))])))
     (get_category category_id))))"

record component_patch =
  kp_name :: "string option option"
  kp_weight_pct :: "decimal option option"
  kp_display_order :: "int option option"
  kp_active :: "bool option option"

definition unset_component :: component_patch where
  "unset_component = \<lparr>kp_name = None, kp_weight_pct = None, kp_display_order = None, kp_active = None\<rparr>"

definition component_patch_ok :: "component_patch \<Rightarrow> bool" where
  "component_patch_ok p \<longleftrightarrow> sent_ok (text_within 0 100) (kp_name p) \<and>
     sent_ok (\<lambda>w. 0 \<le> dec_val w \<and> dec_val w < 100) (kp_weight_pct p) \<and> sent_ok (\<lambda>i. 0 \<le> i) (kp_display_order p)"

definition component_fields :: "component_patch \<Rightarrow> category_component \<Rightarrow> (string \<times> json) list" where
  "component_fields p c =
     (''component_id'', JStr (uuid_str (cc_id c))) #
     field_json ''name'' (kp_name p) (JStr (cc_name c)) @
     field_json ''weight_pct'' (kp_weight_pct p) (JStr (decimal_str (cc_weight_pct c))) @
     field_json ''display_order'' (kp_display_order p) (JInt (cc_display_order c)) @
     field_json ''active'' (kp_active p) (JBool (cc_active c))"

definition patch_component :: "component_patch \<Rightarrow> category_component \<Rightarrow> category_component op" where
  "patch_component p c =
     bind (set_required ''name'' (kp_name p) (cc_name c)) (\<lambda>name.
     bind (set_required ''weight_pct'' (kp_weight_pct p) (cc_weight_pct c)) (\<lambda>weight.
     bind (set_required ''display_order'' (kp_display_order p) (cc_display_order c)) (\<lambda>ord.
     bind (set_required ''active'' (kp_active p) (cc_active c)) (\<lambda>active.
     let c' = c\<lparr>cc_name := name, cc_weight_pct := weight, cc_display_order := ord, cc_active := active\<rparr>
     in seq (writes (\<lambda>s. s\<lparr>category_components :=
              update_where (\<lambda>k. cc_id k = cc_id c) (\<lambda>_. c') (category_components s)\<rparr>))
        (ret c')))))"

definition update_component ::
  "uuid \<Rightarrow> uuid \<Rightarrow> component_patch \<Rightarrow> user \<Rightarrow> category_detail op" where
  "update_component category_id component_id patch actor =
     bind (select_one category_components (\<lambda>c. cc_id c = component_id \<and> cc_category_id c = category_id))
       (\<lambda>found.
     case found of
       None \<Rightarrow> raise (http 404 ''Component not found.'')
     | Some c \<Rightarrow>
         seq (require (patch \<noteq> unset_component) (http 400 ''No fields to update.''))
         (bind (patch_component patch c) (\<lambda>c'.
          seq (category_audit actor ''category_component.updated'' category_id
                 (Some (JObj (component_fields patch c))) (Some (JObj (component_fields patch c'))))
          (get_category category_id))))"

subsection \<open>Inspection prompts\<close>

definition RESPONSE_TYPES :: "string list" where
  "RESPONSE_TYPES = [''yes_no_na'', ''text'', ''scale_1_5'']"

definition prompt_create_ok :: "string \<Rightarrow> string \<Rightarrow> int \<Rightarrow> bool" where
  "prompt_create_ok label response_type display_order \<longleftrightarrow>
     text_within 1 255 label \<and> response_type \<in> set RESPONSE_TYPES \<and> 0 \<le> display_order"

definition add_inspection_prompt ::
  "env \<Rightarrow> uuid \<Rightarrow> string \<Rightarrow> string \<Rightarrow> bool \<Rightarrow> int \<Rightarrow> user \<Rightarrow> category_detail op" where
  "add_inspection_prompt E category_id label response_type required display_order actor =
     bind (load_category category_id) (\<lambda>_.
     bind (uuid4 E) (\<lambda>i.
     seq (insert_prompt \<lparr>ipr_id = i, ipr_category_id = category_id, ipr_label = label, ipr_response_type = response_type,
              ipr_required = required, ipr_display_order = display_order, ipr_active = True,
              ipr_version = 1, ipr_replaced_at = None\<rparr>)
     (seq (category_audit actor ''category_inspection_prompt.created'' category_id None
             (Some (JObj [(''prompt_id'', JStr (uuid_str i)), (''label'', JStr label), (''version'', JInt 1)])))
     (get_category category_id))))"

record prompt_patch =
  ppt_label :: "string option option"
  ppt_response_type :: "string option option"
  ppt_required :: "bool option option"
  ppt_display_order :: "int option option"
  ppt_active :: "bool option option"

definition unset_prompt :: prompt_patch where
  "unset_prompt = \<lparr>ppt_label = None, ppt_response_type = None, ppt_required = None,
     ppt_display_order = None, ppt_active = None\<rparr>"

definition prompt_patch_ok :: "prompt_patch \<Rightarrow> bool" where
  "prompt_patch_ok p \<longleftrightarrow> sent_ok (text_within 0 255) (ppt_label p) \<and>
     sent_ok (\<lambda>x. x \<in> set RESPONSE_TYPES) (ppt_response_type p) \<and> sent_ok (\<lambda>i. 0 \<le> i) (ppt_display_order p)"

definition versions_json :: "string \<Rightarrow> uuid \<Rightarrow> int \<Rightarrow> json" where
  "versions_json k i v = JObj [(k, JStr (uuid_str i)), (''version'', JInt v)]"

definition active_json :: "string \<Rightarrow> uuid \<Rightarrow> bool \<Rightarrow> json" where
  "active_json k i b = JObj [(k, JStr (uuid_str i)), (''active'', JBool b)]"

definition set_prompt_active :: "uuid \<Rightarrow> bool \<Rightarrow> unit op" where
  "set_prompt_active i b = writes (\<lambda>s. s\<lparr>inspection_prompts :=
     update_where (\<lambda>p. ipr_id p = i) (\<lambda>p. p\<lparr>ipr_active := b\<rparr>) (inspection_prompts s)\<rparr>)"

definition change_prompt :: "env \<Rightarrow> inspection_prompt \<Rightarrow> prompt_patch \<Rightarrow> user \<Rightarrow> unit op" where
  "change_prompt E existing patch actor =
     (if patch = unset_prompt\<lparr>ppt_active := ppt_active patch\<rparr>
      then
        bind (set_required ''active'' (ppt_active patch) (ipr_active existing)) (\<lambda>active.
        seq (set_prompt_active (ipr_id existing) active)
        (category_audit actor ''category_inspection_prompt.activation_changed'' (ipr_category_id existing)
           (Some (active_json ''prompt_id'' (ipr_id existing) (\<not> active)))
           (Some (active_json ''prompt_id'' (ipr_id existing) active))))
      else
        bind (supersede_inspection_prompt E existing (sent_value (ppt_label patch))
                (sent_value (ppt_response_type patch)) (sent_value (ppt_required patch))
                (sent_value (ppt_display_order patch))) (\<lambda>successor.
        seq (case sent_value (ppt_active patch) of
               None \<Rightarrow> ret () | Some active \<Rightarrow> set_prompt_active (ipr_id successor) active)
        (category_audit actor ''category_inspection_prompt.superseded'' (ipr_category_id existing)
           (Some (versions_json ''prompt_id'' (ipr_id existing) (ipr_version existing)))
           (Some (versions_json ''prompt_id'' (ipr_id successor) (ipr_version successor))))))"

definition update_inspection_prompt ::
  "env \<Rightarrow> uuid \<Rightarrow> uuid \<Rightarrow> prompt_patch \<Rightarrow> user \<Rightarrow> category_detail op" where
  "update_inspection_prompt E category_id prompt_id patch actor =
     bind (select_one inspection_prompts (\<lambda>p. ipr_id p = prompt_id \<and> ipr_category_id p = category_id))
       (\<lambda>found.
     case found of
       None \<Rightarrow> raise (http 404 ''Inspection prompt not found.'')
     | Some existing \<Rightarrow>
         seq (require (ipr_replaced_at existing = None) (http 409 ''Inspection prompt is already superseded.''))
         (seq (require (patch \<noteq> unset_prompt) (http 400 ''No fields to update.''))
         (seq (change_prompt E existing patch actor)
         (get_category category_id))))"

subsection \<open>Red-flag rules\<close>

definition CONDITION_OPERATORS :: "string list" where
  "CONDITION_OPERATORS = [''equals'', ''is_true'', ''is_false'']"

definition rule_create_ok :: "string \<Rightarrow> string \<Rightarrow> string \<Rightarrow> string option \<Rightarrow> bool" where
  "rule_create_ok label field operator v \<longleftrightarrow> text_within 1 255 label \<and> text_within 1 100 field \<and>
     operator \<in> set CONDITION_OPERATORS \<and> up_to 255 v"

definition add_red_flag_rule ::
  "env \<Rightarrow> uuid \<Rightarrow> string \<Rightarrow> string \<Rightarrow> string \<Rightarrow> string option \<Rightarrow> (string \<times> json) list \<Rightarrow> user \<Rightarrow>
   category_detail op" where
  "add_red_flag_rule E category_id label field operator v actions actor =
     bind (load_category category_id) (\<lambda>_.
     bind (uuid4 E) (\<lambda>i.
     seq (insert_rule \<lparr>rf_id = i, rf_category_id = category_id, rf_label = label, rf_condition_field = field,
              rf_condition_operator = operator, rf_condition_value = v, rf_actions = actions,
              rf_active = True, rf_version = 1, rf_replaced_at = None\<rparr>)
     (seq (category_audit actor ''category_red_flag_rule.created'' category_id None
             (Some (JObj [(''rule_id'', JStr (uuid_str i)), (''label'', JStr label), (''version'', JInt 1)])))
     (get_category category_id))))"

record flag_rule_patch =
  rpt_label :: "string option option"
  rpt_condition_field :: "string option option"
  rpt_condition_operator :: "string option option"
  rpt_condition_value :: "string option option"
  rpt_actions :: "(string \<times> json) list option option"
  rpt_active :: "bool option option"

definition unset_rule :: flag_rule_patch where
  "unset_rule = \<lparr>rpt_label = None, rpt_condition_field = None, rpt_condition_operator = None,
     rpt_condition_value = None, rpt_actions = None, rpt_active = None\<rparr>"

definition flag_rule_patch_ok :: "flag_rule_patch \<Rightarrow> bool" where
  "flag_rule_patch_ok p \<longleftrightarrow> sent_ok (text_within 0 255) (rpt_label p) \<and>
     sent_ok (text_within 0 100) (rpt_condition_field p) \<and>
     sent_ok (\<lambda>x. x \<in> set CONDITION_OPERATORS) (rpt_condition_operator p) \<and>
     sent_ok (text_within 0 255) (rpt_condition_value p)"

definition set_rule_active :: "uuid \<Rightarrow> bool \<Rightarrow> unit op" where
  "set_rule_active i b = writes (\<lambda>s. s\<lparr>red_flag_rules :=
     update_where (\<lambda>r. rf_id r = i) (\<lambda>r. r\<lparr>rf_active := b\<rparr>) (red_flag_rules s)\<rparr>)"

definition change_rule :: "env \<Rightarrow> red_flag_rule \<Rightarrow> flag_rule_patch \<Rightarrow> user \<Rightarrow> unit op" where
  "change_rule E existing patch actor =
     (if patch = unset_rule\<lparr>rpt_active := rpt_active patch\<rparr>
      then
        bind (set_required ''active'' (rpt_active patch) (rf_active existing)) (\<lambda>active.
        seq (set_rule_active (rf_id existing) active)
        (category_audit actor ''category_red_flag_rule.activation_changed'' (rf_category_id existing)
           (Some (active_json ''rule_id'' (rf_id existing) (\<not> active)))
           (Some (active_json ''rule_id'' (rf_id existing) active))))
      else
        bind (supersede_red_flag_rule E existing (sent_value (rpt_condition_field patch))
                (sent_value (rpt_condition_operator patch)) (sent_value (rpt_condition_value patch))
                (sent_value (rpt_actions patch)) (sent_value (rpt_label patch))) (\<lambda>successor.
        seq (case sent_value (rpt_active patch) of
               None \<Rightarrow> ret () | Some active \<Rightarrow> set_rule_active (rf_id successor) active)
        (category_audit actor ''category_red_flag_rule.superseded'' (rf_category_id existing)
           (Some (versions_json ''rule_id'' (rf_id existing) (rf_version existing)))
           (Some (versions_json ''rule_id'' (rf_id successor) (rf_version successor))))))"

definition update_red_flag_rule ::
  "env \<Rightarrow> uuid \<Rightarrow> uuid \<Rightarrow> flag_rule_patch \<Rightarrow> user \<Rightarrow> category_detail op" where
  "update_red_flag_rule E category_id i patch actor =
     bind (select_one red_flag_rules (\<lambda>r. rf_id r = i \<and> rf_category_id r = category_id)) (\<lambda>found.
     case found of
       None \<Rightarrow> raise (http 404 ''Red-flag rule not found.'')
     | Some existing \<Rightarrow>
         seq (require (rf_replaced_at existing = None) (http 409 ''Red-flag rule is already superseded.''))
         (seq (require (patch \<noteq> unset_rule) (http 400 ''No fields to update.''))
         (seq (change_rule E existing patch actor)
         (get_category category_id))))"

subsection \<open>Attachments and photo slots\<close>

definition add_attachment ::
  "env \<Rightarrow> uuid \<Rightarrow> string \<Rightarrow> string option \<Rightarrow> int \<Rightarrow> user \<Rightarrow> category_detail op" where
  "add_attachment E category_id label description display_order actor =
     bind (load_category category_id) (\<lambda>_.
     bind (uuid4 E) (\<lambda>i.
     seq (writes (\<lambda>s. s\<lparr>category_attachments := category_attachments s @
            [\<lparr>cat_at_id = i, cat_at_category_id = category_id, cat_at_label = label,
              cat_at_description = description, cat_at_display_order = display_order, cat_at_active = True\<rparr>]\<rparr>))
     (seq (category_audit actor ''category_attachment.created'' category_id None
             (Some (JObj [(''attachment_id'', JStr (uuid_str i)), (''label'', JStr label)])))
     (get_category category_id))))"

record asset_patch =
  apt_label :: "string option option"
  apt_text :: "string option option"
  apt_required :: "bool option option"
  apt_display_order :: "int option option"
  apt_active :: "bool option option"

definition unset_asset :: asset_patch where
  "unset_asset = \<lparr>apt_label = None, apt_text = None, apt_required = None,
     apt_display_order = None, apt_active = None\<rparr>"

definition asset_patch_ok :: "asset_patch \<Rightarrow> bool" where
  "asset_patch_ok p \<longleftrightarrow> sent_ok (text_within 0 255) (apt_label p) \<and> sent_ok (\<lambda>i. 0 \<le> i) (apt_display_order p)"

definition attachment_fields :: "asset_patch \<Rightarrow> category_attachment \<Rightarrow> (string \<times> json) list" where
  "attachment_fields p a =
     (''attachment_id'', JStr (uuid_str (cat_at_id a))) #
     field_json ''label'' (apt_label p) (JStr (cat_at_label a)) @
     field_json ''description'' (apt_text p) (jopt JStr (cat_at_description a)) @
     field_json ''display_order'' (apt_display_order p) (JInt (cat_at_display_order a)) @
     field_json ''active'' (apt_active p) (JBool (cat_at_active a))"

definition patch_attachment :: "asset_patch \<Rightarrow> category_attachment \<Rightarrow> category_attachment op" where
  "patch_attachment p a =
     bind (set_required ''label'' (apt_label p) (cat_at_label a)) (\<lambda>label.
     bind (set_required ''display_order'' (apt_display_order p) (cat_at_display_order a)) (\<lambda>ord.
     bind (set_required ''active'' (apt_active p) (cat_at_active a)) (\<lambda>active.
     let a' = a\<lparr>cat_at_label := label, cat_at_description := set_nullable (apt_text p) (cat_at_description a),
           cat_at_display_order := ord, cat_at_active := active\<rparr>
     in seq (writes (\<lambda>s. s\<lparr>category_attachments :=
              update_where (\<lambda>k. cat_at_id k = cat_at_id a) (\<lambda>_. a') (category_attachments s)\<rparr>))
        (ret a'))))"

definition update_attachment :: "uuid \<Rightarrow> uuid \<Rightarrow> asset_patch \<Rightarrow> user \<Rightarrow> category_detail op" where
  "update_attachment category_id attachment_id patch actor =
     bind (select_one category_attachments (\<lambda>a. cat_at_id a = attachment_id \<and> cat_at_category_id a = category_id))
       (\<lambda>found.
     case found of
       None \<Rightarrow> raise (http 404 ''Attachment not found.'')
     | Some a \<Rightarrow>
         seq (require (patch \<noteq> unset_asset) (http 400 ''No fields to update.''))
         (bind (patch_attachment patch a) (\<lambda>a'.
          seq (category_audit actor ''category_attachment.updated'' category_id
                 (Some (JObj (attachment_fields patch a))) (Some (JObj (attachment_fields patch a'))))
          (get_category category_id))))"

definition add_photo_slot ::
  "env \<Rightarrow> uuid \<Rightarrow> string \<Rightarrow> string option \<Rightarrow> bool \<Rightarrow> int \<Rightarrow> user \<Rightarrow> category_detail op" where
  "add_photo_slot E category_id label helper_text required display_order actor =
     bind (load_category category_id) (\<lambda>_.
     bind (uuid4 E) (\<lambda>i.
     seq (writes (\<lambda>s. s\<lparr>photo_slots := photo_slots s @
            [\<lparr>slot_id = i, slot_category_id = category_id, slot_label = label, slot_helper_text = helper_text,
              slot_required = required, slot_display_order = display_order, slot_active = True\<rparr>]\<rparr>))
     (seq (category_audit actor ''category_photo_slot.created'' category_id None
             (Some (JObj [(''photo_slot_id'', JStr (uuid_str i)), (''label'', JStr label)])))
     (get_category category_id))))"

definition photo_slot_fields :: "asset_patch \<Rightarrow> photo_slot \<Rightarrow> (string \<times> json) list" where
  "photo_slot_fields p x =
     (''photo_slot_id'', JStr (uuid_str (slot_id x))) #
     field_json ''label'' (apt_label p) (JStr (slot_label x)) @
     field_json ''helper_text'' (apt_text p) (jopt JStr (slot_helper_text x)) @
     field_json ''required'' (apt_required p) (JBool (slot_required x)) @
     field_json ''display_order'' (apt_display_order p) (JInt (slot_display_order x)) @
     field_json ''active'' (apt_active p) (JBool (slot_active x))"

definition patch_photo_slot :: "asset_patch \<Rightarrow> photo_slot \<Rightarrow> photo_slot op" where
  "patch_photo_slot p x =
     bind (set_required ''label'' (apt_label p) (slot_label x)) (\<lambda>label.
     bind (set_required ''required'' (apt_required p) (slot_required x)) (\<lambda>required.
     bind (set_required ''display_order'' (apt_display_order p) (slot_display_order x)) (\<lambda>ord.
     bind (set_required ''active'' (apt_active p) (slot_active x)) (\<lambda>active.
     let x' = x\<lparr>slot_label := label, slot_helper_text := set_nullable (apt_text p) (slot_helper_text x),
           slot_required := required, slot_display_order := ord, slot_active := active\<rparr>
     in seq (writes (\<lambda>s. s\<lparr>photo_slots :=
              update_where (\<lambda>k. slot_id k = slot_id x) (\<lambda>_. x') (photo_slots s)\<rparr>))
        (ret x')))))"

definition update_photo_slot :: "uuid \<Rightarrow> uuid \<Rightarrow> asset_patch \<Rightarrow> user \<Rightarrow> category_detail op" where
  "update_photo_slot category_id photo_slot_id patch actor =
     bind (select_one photo_slots (\<lambda>x. slot_id x = photo_slot_id \<and> slot_category_id x = category_id)) (\<lambda>found.
     case found of
       None \<Rightarrow> raise (http 404 ''Photo slot not found.'')
     | Some x \<Rightarrow>
         seq (require (patch \<noteq> unset_asset) (http 400 ''No fields to update.''))
         (bind (patch_photo_slot patch x) (\<lambda>x'.
          seq (category_audit actor ''category_photo_slot.updated'' category_id
                 (Some (JObj (photo_slot_fields patch x))) (Some (JObj (photo_slot_fields patch x'))))
          (get_category category_id))))"

end
