(* ===== verification/CategoryExchange.thy ===== *)
theory CategoryExchange
  imports Categories
begin

section \<open>Export and import of a category\<close>

text \<open>
  The second half of \<^verbatim>\<open>api/services/admin_category_service.py\<close>: a category with its assets as a
  payload of dictionaries, and the import that matches them by slug, name and label; then the routes
  of \<^verbatim>\<open>api/routers/admin_categories.py\<close>. The items of a payload are dictionaries of any JSON
  values, so the import has the errors of Python on the way: a missing key, a value without \<^verbatim>\<open>strip\<close>,
  a number that does not parse, a value the column refuses.
\<close>

subsection \<open>Reading JSON values as Python does\<close>

definition opt_digits :: "string \<Rightarrow> bool" where
  "opt_digits s = list_all is_digit_char s"

definition signed :: "string \<Rightarrow> int \<times> string" where
  "signed s = (case s of [] \<Rightarrow> (1, []) | c # cs \<Rightarrow>
     if c = CHR ''-'' then (- 1, cs) else if c = CHR ''+'' then (1, cs) else (1, s))"

text \<open>\<^verbatim>\<open>int(s)\<close> of a string of ASCII digits.\<close>

definition int_parse :: "string \<Rightarrow> int option" where
  "int_parse s = (let (sg, ds) = signed (filter (\<lambda>c. c \<noteq> CHR ''_'') (strip s))
     in if isdigit ds then Some (sg * int (nat_of_digits ds)) else None)"

text \<open>
  \<^verbatim>\<open>Decimal(s)\<close> for the finite numerals: sign, digits, a fraction, an exponent.
\<close>

definition mantissa :: "string \<Rightarrow> (string \<times> string) option" where
  "mantissa s =
     (case split_on CHR ''.'' s of
        [ip] \<Rightarrow> if isdigit ip then Some (ip, '''') else None
      | [ip, fp] \<Rightarrow> if opt_digits ip \<and> opt_digits fp \<and> ip @ fp \<noteq> '''' then Some (ip, fp) else None
      | _ \<Rightarrow> None)"

definition is_exp_char :: "char \<Rightarrow> bool" where "is_exp_char c \<longleftrightarrow> c = CHR ''e'' \<or> c = CHR ''E''"

definition decimal_parse :: "string \<Rightarrow> decimal option" where
  "decimal_parse s =
     (let (sg, u) = signed (filter (\<lambda>c. c \<noteq> CHR ''_'') (strip s));
          m = takeWhile (\<lambda>c. \<not> is_exp_char c) u;
          rest = dropWhile (\<lambda>c. \<not> is_exp_char c) u
      in case (mantissa m, if rest = [] then Some 0 else int_parse (tl rest)) of
           (Some (ip, fp), Some e) \<Rightarrow>
             let coeff = sg * int (nat_of_digits (ip @ fp)); scale = int (length fp) - e
             in Some (if scale < 0 then Dec (coeff * 10 ^ nat (- scale)) 0 else Dec coeff (nat scale))
         | _ \<Rightarrow> None)"

text \<open>\<^verbatim>\<open>Decimal(str(v))\<close>, for a column of four integer and fractional digits.\<close>

definition to_weight :: "env \<Rightarrow> json \<Rightarrow> decimal op" where
  "to_weight E v =
     (case decimal_parse (py_str E v) of None \<Rightarrow> raise (DataError ''InvalidOperation'') | Some d \<Rightarrow> ret d)"

definition fits_weight :: "decimal \<Rightarrow> unit op" where
  "fits_weight w = require (\<bar>dec_val w\<bar> < 100) (DataError ''numeric field overflow'')"

fun to_int :: "json \<Rightarrow> int op" where
  "to_int (JInt i) = ret i"
| "to_int (JBool b) = ret (if b then 1 else 0)"
| "to_int (JFloat q) = ret (if 0 \<le> q then \<lfloor>q\<rfloor> else \<lceil>q\<rceil>)"
| "to_int (JStr s) = (case int_parse s of None \<Rightarrow> raise (ValueError ''invalid literal for int()'') | Some i \<Rightarrow> ret i)"
| "to_int _ = raise (TypeError ''int() argument'')"

definition get_or :: "(string \<times> json) list \<Rightarrow> string \<Rightarrow> json \<Rightarrow> json" where
  "get_or item k d = (case map_of item k of None \<Rightarrow> d | Some v \<Rightarrow> v)"

definition get_item :: "(string \<times> json) list \<Rightarrow> string \<Rightarrow> json op" where
  "get_item item k = (case map_of item k of None \<Rightarrow> raise (KeyError k) | Some v \<Rightarrow> ret v)"

text \<open>What a column takes; \<^verbatim>\<open>None\<close> for an argument means that it is not set.\<close>

fun text_value :: "json \<Rightarrow> string option op" where
  "text_value JNull = ret None"
| "text_value (JStr s) = ret (Some s)"
| "text_value _ = raise (DataError ''expected str'')"

fun bool_value :: "json \<Rightarrow> bool option op" where
  "bool_value JNull = ret None"
| "bool_value (JBool b) = ret (Some b)"
| "bool_value _ = raise (DataError ''expected bool'')"

fun int_value :: "json \<Rightarrow> int option op" where
  "int_value JNull = ret None"
| "int_value (JInt i) = ret (Some i)"
| "int_value _ = raise (DataError ''expected int'')"

text \<open>
  The actions of a rule: a dictionary. The code would store another value that is true and fail when
  it reads it back; the model refuses it.
\<close>

definition dict_value :: "json \<Rightarrow> (string \<times> json) list op" where
  "dict_value v = (if \<not> json_truthy v then ret []
     else case v of JObj kvs \<Rightarrow> ret kvs | _ \<Rightarrow> raise (TypeError ''not a mapping''))"

definition not_null :: "string \<Rightarrow> 'a option \<Rightarrow> 'a op" where
  "not_null column x = (case x of None \<Rightarrow> raise (IntegrityError column) | Some v \<Rightarrow> ret v)"

text \<open>\<^verbatim>\<open>==\<close> of scalars, where numbers and booleans compare by value, and of dictionaries.\<close>

definition py_eq :: "json \<Rightarrow> json \<Rightarrow> bool" where
  "py_eq a b = (case (json_number a, json_number b) of (Some x, Some y) \<Rightarrow> x = y | _ \<Rightarrow> a = b)"

definition dict_eq :: "(string \<times> json) list \<Rightarrow> (string \<times> json) list \<Rightarrow> bool" where
  "dict_eq a b \<longleftrightarrow> (\<forall>k \<in> set (map fst (a @ b)). map_of a k = map_of b k)"

text \<open>\<^verbatim>\<open>(item.get(name) or "").strip().lower()\<close>.\<close>

definition label_key :: "string \<Rightarrow> string" where "label_key s = lower (strip s)"

definition item_key :: "string \<Rightarrow> (string \<times> json) list \<Rightarrow> string op" where
  "item_key name item =
     (let v = obj_get item name
      in if \<not> json_truthy v then ret ''''
         else case v of JStr s \<Rightarrow> ret (label_key s) | _ \<Rightarrow> raise (AttributeError ''strip''))"

subsection \<open>The payload\<close>

record category_export =
  xp_name :: string
  xp_slug :: string
  xp_status :: string
  xp_display_order :: int
  xp_version :: int
  xp_replaced_at :: "datetime option"
  xp_components :: "(string \<times> json) list list"
  xp_prompts :: "(string \<times> json) list list"
  xp_attachments :: "(string \<times> json) list list"
  xp_photo_slots :: "(string \<times> json) list list"
  xp_rules :: "(string \<times> json) list list"

definition export_component :: "category_component \<Rightarrow> (string \<times> json) list" where
  "export_component c = [(''name'', JStr (cc_name c)), (''weight_pct'', JStr (decimal_str (cc_weight_pct c))),
     (''display_order'', JInt (cc_display_order c)), (''active'', JBool (cc_active c))]"

definition export_prompt :: "inspection_prompt \<Rightarrow> (string \<times> json) list" where
  "export_prompt p = [(''label'', JStr (ipr_label p)), (''response_type'', JStr (ipr_response_type p)),
     (''required'', JBool (ipr_required p)), (''display_order'', JInt (ipr_display_order p)),
     (''active'', JBool (ipr_active p)), (''version'', JInt (ipr_version p)),
     (''replaced_at'', jopt (JStr \<circ> isoformat) (ipr_replaced_at p))]"

definition export_attachment :: "category_attachment \<Rightarrow> (string \<times> json) list" where
  "export_attachment a = [(''label'', JStr (cat_at_label a)), (''description'', jopt JStr (cat_at_description a)),
     (''display_order'', JInt (cat_at_display_order a)), (''active'', JBool (cat_at_active a))]"

definition export_photo_slot :: "photo_slot \<Rightarrow> (string \<times> json) list" where
  "export_photo_slot x = [(''label'', JStr (slot_label x)), (''helper_text'', jopt JStr (slot_helper_text x)),
     (''required'', JBool (slot_required x)), (''display_order'', JInt (slot_display_order x)),
     (''active'', JBool (slot_active x))]"

definition export_rule :: "red_flag_rule \<Rightarrow> (string \<times> json) list" where
  "export_rule r = [(''label'', JStr (rf_label r)), (''condition_field'', JStr (rf_condition_field r)),
     (''condition_operator'', JStr (rf_condition_operator r)),
     (''condition_value'', jopt JStr (rf_condition_value r)), (''actions'', JObj (rf_actions r)),
     (''active'', JBool (rf_active r)), (''version'', JInt (rf_version r)),
     (''replaced_at'', jopt (JStr \<circ> isoformat) (rf_replaced_at r))]"

definition components_of :: "uuid \<Rightarrow> db \<Rightarrow> category_component list" where
  "components_of c s = filter (\<lambda>k. cc_category_id k = c) (category_components s)"

definition prompts_of :: "uuid \<Rightarrow> db \<Rightarrow> inspection_prompt list" where
  "prompts_of c s = filter (\<lambda>p. ipr_category_id p = c \<and> ipr_replaced_at p = None) (inspection_prompts s)"

definition attachments_of :: "uuid \<Rightarrow> db \<Rightarrow> category_attachment list" where
  "attachments_of c s = filter (\<lambda>a. cat_at_category_id a = c) (category_attachments s)"

definition photo_slots_of :: "uuid \<Rightarrow> db \<Rightarrow> photo_slot list" where
  "photo_slots_of c s = filter (\<lambda>x. slot_category_id x = c) (photo_slots s)"

definition rules_of :: "uuid \<Rightarrow> db \<Rightarrow> red_flag_rule list" where
  "rules_of c s = filter (\<lambda>r. rf_category_id r = c \<and> rf_replaced_at r = None) (red_flag_rules s)"

definition export_of :: "db \<Rightarrow> category \<Rightarrow> category_export" where
  "export_of s c =
     \<lparr>xp_name = cat_name c, xp_slug = cat_slug c, xp_status = cat_status c,
      xp_display_order = cat_display_order c, xp_version = cat_version c, xp_replaced_at = cat_replaced_at c,
      xp_components = map export_component (components_of (cat_id c) s),
      xp_prompts = map export_prompt (prompts_of (cat_id c) s),
      xp_attachments = map export_attachment (attachments_of (cat_id c) s),
      xp_photo_slots = map export_photo_slot (photo_slots_of (cat_id c) s),
      xp_rules = map export_rule (rules_of (cat_id c) s)\<rparr>"

definition export_to_payload :: "uuid \<Rightarrow> category_export op" where
  "export_to_payload category_id =
     bind (load_category category_id) (\<lambda>c. reads (\<lambda>s. export_of s c))"

subsection \<open>The import\<close>

record import_result =
  ir_category_id :: uuid
  ir_created :: bool
  ir_superseded_prompt_ids :: "uuid list"
  ir_superseded_rule_ids :: "uuid list"
  ir_added_component_ids :: "uuid list"
  ir_added_prompt_ids :: "uuid list"
  ir_added_attachment_ids :: "uuid list"
  ir_added_photo_slot_ids :: "uuid list"
  ir_added_rule_ids :: "uuid list"

text \<open>The dictionaries by key that the import builds before each loop: the last row of a key wins.\<close>

definition by_key :: "('r \<Rightarrow> string) \<Rightarrow> ('r \<Rightarrow> uuid) \<Rightarrow> 'r list \<Rightarrow> (string \<times> uuid) list" where
  "by_key name key rows = rev (map (\<lambda>r. (label_key (name r), key r)) rows)"

definition current_category :: "env \<Rightarrow> category_export \<Rightarrow> user \<Rightarrow> (category \<times> bool) op" where
  "current_category E payload actor =
     bind (current_category_by_slug (xp_slug payload)) (\<lambda>found.
     case found of
       Some c \<Rightarrow> ret (c, False)
     | None \<Rightarrow>
         bind (uuid4 E) (\<lambda>i.
         let c = \<lparr>cat_id = i, cat_name = xp_name payload, cat_slug = xp_slug payload,
               cat_status = xp_status payload, cat_display_order = xp_display_order payload,
               cat_created_by = Some (usr_id actor), cat_deleted_at = None, cat_version = 1,
               cat_replaced_at = None\<rparr>
         in seq (insert_category c) (ret (c, True))))"

definition import_component ::
  "env \<Rightarrow> uuid \<Rightarrow> (string \<times> uuid) list \<Rightarrow> (string \<times> json) list \<Rightarrow> uuid list op" where
  "import_component E category_id by_name item =
     bind (item_key ''name'' item) (\<lambda>key.
     if key = '''' then ret []
     else case map_of by_name key of
       Some i \<Rightarrow>
         bind (get_item item ''weight_pct'') (\<lambda>v.
         bind (to_weight E v) (\<lambda>w.
         seq (fits_weight w)
         (seq (writes (\<lambda>s. s\<lparr>category_components := update_where
                 (\<lambda>c. cc_id c = i \<and> dec_val (cc_weight_pct c) \<noteq> dec_val w)
                 (\<lambda>c. c\<lparr>cc_weight_pct := w\<rparr>) (category_components s)\<rparr>))
         (ret []))))
     | None \<Rightarrow>
         bind (get_item item ''name'') (\<lambda>name.
         bind (text_value name) (\<lambda>name.
         bind (not_null ''name'' name) (\<lambda>name.
         bind (get_item item ''weight_pct'') (\<lambda>v.
         bind (to_weight E v) (\<lambda>w.
         bind (to_int (get_or item ''display_order'' (JInt 0))) (\<lambda>ord.
         seq (fits_weight w)
         (bind (uuid4 E) (\<lambda>i.
          seq (writes (\<lambda>s. s\<lparr>category_components := category_components s @
                 [\<lparr>cc_id = i, cc_category_id = category_id, cc_name = name, cc_weight_pct = w,
                   cc_display_order = ord, cc_active = json_truthy (get_or item ''active'' (JBool True))\<rparr>]\<rparr>))
          (ret [i])))))))))) "

definition prompt_changed :: "(string \<times> json) list \<Rightarrow> inspection_prompt \<Rightarrow> bool" where
  "prompt_changed item row \<longleftrightarrow>
     \<not> py_eq (JStr (ipr_response_type row)) (obj_get item ''response_type'') \<or>
     \<not> py_eq (JBool (ipr_required row)) (obj_get item ''required'') \<or>
     \<not> py_eq (JInt (ipr_display_order row)) (obj_get item ''display_order'')"

definition import_prompt ::
  "env \<Rightarrow> uuid \<Rightarrow> (string \<times> uuid) list \<Rightarrow> (string \<times> json) list \<Rightarrow> (uuid list \<times> uuid list) op" where
  "import_prompt E category_id by_label item =
     bind (item_key ''label'' item) (\<lambda>key.
     if key = '''' then ret ([], [])
     else case map_of by_label key of
       Some i \<Rightarrow>
         bind (reads (\<lambda>s. find (\<lambda>p. ipr_id p = i) (inspection_prompts s))) (\<lambda>found.
         case found of
           None \<Rightarrow> ret ([], [])
         | Some row \<Rightarrow>
             if \<not> prompt_changed item row then ret ([], [])
             else
               bind (text_value (obj_get item ''response_type'')) (\<lambda>response_type.
               bind (bool_value (obj_get item ''required'')) (\<lambda>required.
               bind (int_value (obj_get item ''display_order'')) (\<lambda>ord.
               bind (supersede_inspection_prompt E row None response_type required ord) (\<lambda>successor.
               ret ([ipr_id row], [ipr_id successor]))))))
     | None \<Rightarrow>
         bind (get_item item ''label'') (\<lambda>label.
         bind (text_value label) (\<lambda>label.
         bind (not_null ''label'' label) (\<lambda>label.
         bind (get_item item ''response_type'') (\<lambda>response_type.
         bind (text_value response_type) (\<lambda>response_type.
         bind (not_null ''response_type'' response_type) (\<lambda>response_type.
         bind (to_int (get_or item ''display_order'' (JInt 0))) (\<lambda>ord.
         bind (uuid4 E) (\<lambda>i.
         seq (insert_prompt \<lparr>ipr_id = i, ipr_category_id = category_id, ipr_label = label,
                  ipr_response_type = response_type,
                  ipr_required = json_truthy (get_or item ''required'' (JBool True)),
                  ipr_display_order = ord,
                  ipr_active = json_truthy (get_or item ''active'' (JBool True)),
                  ipr_version = 1, ipr_replaced_at = None\<rparr>)
         (ret ([], [i])))))))))))"

definition import_attachment ::
  "env \<Rightarrow> uuid \<Rightarrow> (string \<times> uuid) list \<Rightarrow> (string \<times> json) list \<Rightarrow> uuid list op" where
  "import_attachment E category_id by_label item =
     bind (item_key ''label'' item) (\<lambda>key.
     if key = '''' \<or> map_of by_label key \<noteq> None then ret []
     else
       bind (get_item item ''label'') (\<lambda>label.
       bind (text_value label) (\<lambda>label.
       bind (not_null ''label'' label) (\<lambda>label.
       bind (text_value (obj_get item ''description'')) (\<lambda>description.
       bind (to_int (get_or item ''display_order'' (JInt 0))) (\<lambda>ord.
       bind (uuid4 E) (\<lambda>i.
       seq (writes (\<lambda>s. s\<lparr>category_attachments := category_attachments s @
              [\<lparr>cat_at_id = i, cat_at_category_id = category_id, cat_at_label = label,
                cat_at_description = description, cat_at_display_order = ord,
                cat_at_active = json_truthy (get_or item ''active'' (JBool True))\<rparr>]\<rparr>))
       (ret [i]))))))))"

definition import_photo_slot ::
  "env \<Rightarrow> uuid \<Rightarrow> (string \<times> uuid) list \<Rightarrow> (string \<times> json) list \<Rightarrow> uuid list op" where
  "import_photo_slot E category_id by_label item =
     bind (item_key ''label'' item) (\<lambda>key.
     if key = '''' \<or> map_of by_label key \<noteq> None then ret []
     else
       bind (get_item item ''label'') (\<lambda>label.
       bind (text_value label) (\<lambda>label.
       bind (not_null ''label'' label) (\<lambda>label.
       bind (text_value (obj_get item ''helper_text'')) (\<lambda>helper_text.
       bind (to_int (get_or item ''display_order'' (JInt 0))) (\<lambda>ord.
       bind (uuid4 E) (\<lambda>i.
       seq (writes (\<lambda>s. s\<lparr>photo_slots := photo_slots s @
              [\<lparr>slot_id = i, slot_category_id = category_id, slot_label = label,
                slot_helper_text = helper_text,
                slot_required = json_truthy (get_or item ''required'' (JBool True)),
                slot_display_order = ord,
                slot_active = json_truthy (get_or item ''active'' (JBool True))\<rparr>]\<rparr>))
       (ret [i]))))))))"

definition rule_changed :: "(string \<times> json) list \<Rightarrow> (string \<times> json) list \<Rightarrow> red_flag_rule \<Rightarrow> bool" where
  "rule_changed item actions row \<longleftrightarrow>
     \<not> py_eq (JStr (rf_condition_field row)) (obj_get item ''condition_field'') \<or>
     \<not> py_eq (JStr (rf_condition_operator row)) (obj_get item ''condition_operator'') \<or>
     \<not> py_eq (jopt JStr (rf_condition_value row)) (obj_get item ''condition_value'') \<or>
     \<not> dict_eq (rf_actions row) actions"

definition import_rule ::
  "env \<Rightarrow> uuid \<Rightarrow> (string \<times> uuid) list \<Rightarrow> (string \<times> json) list \<Rightarrow> (uuid list \<times> uuid list) op" where
  "import_rule E category_id by_label item =
     bind (item_key ''label'' item) (\<lambda>key.
     if key = '''' then ret ([], [])
     else case map_of by_label key of
       Some i \<Rightarrow>
         bind (reads (\<lambda>s. find (\<lambda>r. rf_id r = i) (red_flag_rules s))) (\<lambda>found.
         case found of
           None \<Rightarrow> ret ([], [])
         | Some row \<Rightarrow>
             bind (dict_value (obj_get item ''actions'')) (\<lambda>actions.
             if \<not> rule_changed item actions row then ret ([], [])
             else
               bind (text_value (obj_get item ''condition_field'')) (\<lambda>field.
               bind (text_value (obj_get item ''condition_operator'')) (\<lambda>operator.
               bind (text_value (obj_get item ''condition_value'')) (\<lambda>v.
               bind (supersede_red_flag_rule E row field operator v
                       (if obj_get item ''actions'' = JNull then None else Some actions) None) (\<lambda>successor.
               ret ([rf_id row], [rf_id successor])))))))
     | None \<Rightarrow>
         bind (get_item item ''label'') (\<lambda>label.
         bind (text_value label) (\<lambda>label.
         bind (not_null ''label'' label) (\<lambda>label.
         bind (get_item item ''condition_field'') (\<lambda>field.
         bind (text_value field) (\<lambda>field.
         bind (not_null ''condition_field'' field) (\<lambda>field.
         bind (get_item item ''condition_operator'') (\<lambda>operator.
         bind (text_value operator) (\<lambda>operator.
         bind (not_null ''condition_operator'' operator) (\<lambda>operator.
         bind (text_value (obj_get item ''condition_value'')) (\<lambda>v.
         bind (dict_value (obj_get item ''actions'')) (\<lambda>actions.
         bind (uuid4 E) (\<lambda>i.
         seq (insert_rule \<lparr>rf_id = i, rf_category_id = category_id, rf_label = label, rf_condition_field = field,
                  rf_condition_operator = operator, rf_condition_value = v, rf_actions = actions,
                  rf_active = json_truthy (get_or item ''active'' (JBool True)),
                  rf_version = 1, rf_replaced_at = None\<rparr>)
         (ret ([], [i])))))))))))))))"

definition ids_json :: "uuid list \<Rightarrow> json" where
  "ids_json is = JArr (map (JStr \<circ> uuid_str) is)"

definition import_audit :: "import_result \<Rightarrow> user \<Rightarrow> unit op" where
  "import_audit res actor =
     category_audit actor ''equipment_category.imported'' (ir_category_id res)
       (if ir_created res then None else Some (JObj [(''created'', JBool False)]))
       (Some (JObj [(''created'', JBool (ir_created res)),
          (''added_components'', ids_json (ir_added_component_ids res)),
          (''superseded_prompts'', ids_json (ir_superseded_prompt_ids res)),
          (''added_prompts'', ids_json (ir_added_prompt_ids res)),
          (''superseded_rules'', ids_json (ir_superseded_rule_ids res)),
          (''added_rules'', ids_json (ir_added_rule_ids res)),
          (''added_attachments'', ids_json (ir_added_attachment_ids res)),
          (''added_photo_slots'', ids_json (ir_added_photo_slot_ids res))]))"

definition import_from_payload :: "env \<Rightarrow> category_export \<Rightarrow> user \<Rightarrow> import_result op" where
  "import_from_payload E payload actor =
     bind (current_category E payload actor) (\<lambda>(c, created).
     let i = cat_id c
     in
     bind (reads (\<lambda>s. (by_key cc_name cc_id (components_of i s), by_key ipr_label ipr_id (prompts_of i s),
             by_key cat_at_label cat_at_id (attachments_of i s), by_key slot_label slot_id (photo_slots_of i s),
             by_key rf_label rf_id (rules_of i s))))
       (\<lambda>(components, prompts, attachments, slots, rules).
     bind (map_each (xp_components payload) (import_component E i components)) (\<lambda>cs.
     bind (map_each (xp_prompts payload) (import_prompt E i prompts)) (\<lambda>ps.
     bind (map_each (xp_attachments payload) (import_attachment E i attachments)) (\<lambda>as.
     bind (map_each (xp_photo_slots payload) (import_photo_slot E i slots)) (\<lambda>xs.
     bind (map_each (xp_rules payload) (import_rule E i rules)) (\<lambda>rs.
     let res = \<lparr>ir_category_id = i, ir_created = created,
           ir_superseded_prompt_ids = concat (map fst ps), ir_superseded_rule_ids = concat (map fst rs),
           ir_added_component_ids = concat cs, ir_added_prompt_ids = concat (map snd ps),
           ir_added_attachment_ids = concat as, ir_added_photo_slot_ids = concat xs,
           ir_added_rule_ids = concat (map snd rs)\<rparr>
     in seq (import_audit res actor) (ret res))))))))"

subsection \<open>Routes\<close>

definition admin_route :: "env \<Rightarrow> string option \<Rightarrow> (user \<Rightarrow> 'a op) \<Rightarrow> 'a op" where
  "admin_route E cred handler = guarded_route E [''admin''] cred handler"

definition valid :: "bool \<Rightarrow> 'a op \<Rightarrow> 'a op" where
  "valid ok m = seq (require ok (http 422 ''validation error'')) m"

definition list_categories_route :: "env \<Rightarrow> string option \<Rightarrow> bool \<Rightarrow> bool \<Rightarrow> category list op" where
  "list_categories_route E cred include_inactive include_deleted =
     admin_route E cred (\<lambda>admin. list_categories include_inactive include_deleted)"

definition create_category_route ::
  "env \<Rightarrow> string option \<Rightarrow> string \<Rightarrow> string \<Rightarrow> int \<Rightarrow> category_detail op" where
  "create_category_route E cred name slug ord = admin_route E cred (\<lambda>admin.
     valid (category_create_ok name slug ord) (create_category E name slug ord admin))"

definition get_category_route :: "env \<Rightarrow> string option \<Rightarrow> uuid \<Rightarrow> category_detail op" where
  "get_category_route E cred i = admin_route E cred (\<lambda>admin. get_category i)"

definition update_category_route :: "env \<Rightarrow> string option \<Rightarrow> uuid \<Rightarrow> category_patch \<Rightarrow> category_detail op" where
  "update_category_route E cred i patch = admin_route E cred (\<lambda>admin.
     valid (category_patch_ok patch) (update_category E i patch admin))"

definition deactivate_category_route :: "env \<Rightarrow> string option \<Rightarrow> uuid \<Rightarrow> category_detail op" where
  "deactivate_category_route E cred i = admin_route E cred (deactivate_category E i)"

definition delete_category_route :: "env \<Rightarrow> string option \<Rightarrow> uuid \<Rightarrow> category op" where
  "delete_category_route E cred i = admin_route E cred (soft_delete_category i)"

definition add_component_route ::
  "env \<Rightarrow> string option \<Rightarrow> uuid \<Rightarrow> string \<Rightarrow> decimal \<Rightarrow> int \<Rightarrow> category_detail op" where
  "add_component_route E cred i name weight ord = admin_route E cred (\<lambda>admin.
     valid (component_create_ok name weight ord) (add_component E i name weight ord admin))"

definition update_component_route ::
  "env \<Rightarrow> string option \<Rightarrow> uuid \<Rightarrow> uuid \<Rightarrow> component_patch \<Rightarrow> category_detail op" where
  "update_component_route E cred i k patch = admin_route E cred (\<lambda>admin.
     valid (component_patch_ok patch) (update_component i k patch admin))"

definition add_inspection_prompt_route ::
  "env \<Rightarrow> string option \<Rightarrow> uuid \<Rightarrow> string \<Rightarrow> string \<Rightarrow> bool \<Rightarrow> int \<Rightarrow> category_detail op" where
  "add_inspection_prompt_route E cred i label response_type required ord = admin_route E cred (\<lambda>admin.
     valid (prompt_create_ok label response_type ord)
       (add_inspection_prompt E i label response_type required ord admin))"

definition update_inspection_prompt_route ::
  "env \<Rightarrow> string option \<Rightarrow> uuid \<Rightarrow> uuid \<Rightarrow> prompt_patch \<Rightarrow> category_detail op" where
  "update_inspection_prompt_route E cred i k patch = admin_route E cred (\<lambda>admin.
     valid (prompt_patch_ok patch) (update_inspection_prompt E i k patch admin))"

definition add_red_flag_rule_route ::
  "env \<Rightarrow> string option \<Rightarrow> uuid \<Rightarrow> string \<Rightarrow> string \<Rightarrow> string \<Rightarrow> string option \<Rightarrow> (string \<times> json) list \<Rightarrow>
   category_detail op" where
  "add_red_flag_rule_route E cred i label field operator v actions = admin_route E cred (\<lambda>admin.
     valid (rule_create_ok label field operator v) (add_red_flag_rule E i label field operator v actions admin))"

definition update_red_flag_rule_route ::
  "env \<Rightarrow> string option \<Rightarrow> uuid \<Rightarrow> uuid \<Rightarrow> flag_rule_patch \<Rightarrow> category_detail op" where
  "update_red_flag_rule_route E cred i k patch = admin_route E cred (\<lambda>admin.
     valid (flag_rule_patch_ok patch) (update_red_flag_rule E i k patch admin))"

definition add_attachment_route ::
  "env \<Rightarrow> string option \<Rightarrow> uuid \<Rightarrow> string \<Rightarrow> string option \<Rightarrow> int \<Rightarrow> category_detail op" where
  "add_attachment_route E cred i label description ord = admin_route E cred (\<lambda>admin.
     valid (text_within 1 255 label \<and> 0 \<le> ord) (add_attachment E i label description ord admin))"

definition update_attachment_route ::
  "env \<Rightarrow> string option \<Rightarrow> uuid \<Rightarrow> uuid \<Rightarrow> asset_patch \<Rightarrow> category_detail op" where
  "update_attachment_route E cred i k patch = admin_route E cred (\<lambda>admin.
     valid (asset_patch_ok patch) (update_attachment i k (patch\<lparr>apt_required := None\<rparr>) admin))"

definition add_photo_slot_route ::
  "env \<Rightarrow> string option \<Rightarrow> uuid \<Rightarrow> string \<Rightarrow> string option \<Rightarrow> bool \<Rightarrow> int \<Rightarrow> category_detail op" where
  "add_photo_slot_route E cred i label helper_text required ord = admin_route E cred (\<lambda>admin.
     valid (text_within 1 255 label \<and> 0 \<le> ord) (add_photo_slot E i label helper_text required ord admin))"

definition update_photo_slot_route ::
  "env \<Rightarrow> string option \<Rightarrow> uuid \<Rightarrow> uuid \<Rightarrow> asset_patch \<Rightarrow> category_detail op" where
  "update_photo_slot_route E cred i k patch = admin_route E cred (\<lambda>admin.
     valid (asset_patch_ok patch) (update_photo_slot i k patch admin))"

definition export_category_route :: "env \<Rightarrow> string option \<Rightarrow> uuid \<Rightarrow> (category_export \<times> string) op" where
  "export_category_route E cred i = admin_route E cred (\<lambda>admin.
     bind (export_to_payload i) (\<lambda>x.
     ret (x, ''attachment; filename='' @ [CHR 0x22] @ ''category-'' @ xp_slug x @ ''.json'' @ [CHR 0x22])))"

definition import_category_route :: "env \<Rightarrow> string option \<Rightarrow> category_export \<Rightarrow> import_result op" where
  "import_category_route E cred payload = admin_route E cred (\<lambda>admin.
     seq (require (xp_slug payload \<noteq> '''') (http 422 ''Import payload requires a slug.''))
     (import_from_payload E payload admin))"

end
