(* ===== verification/CategoryFacts.thy ===== *)
theory CategoryFacts
  imports CategoryExchange SubmissionFacts
begin

section \<open>What the administration of categories keeps\<close>

text \<open>
  A table of versioned rows keeps the content of every row: an interface, its consequences, and its
  interpretation on the inspection prompts and the red flag rules; then the successor of an edited
  category, and the import of an export.
\<close>

subsection \<open>Versioned tables\<close>

text \<open>
  Rows have a key, a part that never changes and contains the key, and a mark that is never taken back. The
  random draws are not part of the table.
\<close>

locale versioned_table =
  fixes tbl :: "db \<Rightarrow> 'r list" and key :: "'r \<Rightarrow> uuid" and content :: "'r \<Rightarrow> 'c" and replaced :: "'r \<Rightarrow> datetime option"
  assumes content_key: "content q = content r \<Longrightarrow> key q = key r"
    and tbl_draws: "tbl (s\<lparr>draws := n\<rparr>) = tbl s"
begin

definition keeps :: "db \<Rightarrow> db \<Rightarrow> bool" where
  "keeps s t \<longleftrightarrow> (\<forall>r \<in> set (tbl s). \<exists>q \<in> set (tbl t). content q = content r \<and> (replaced r \<noteq> None \<longrightarrow> replaced q \<noteq> None)) \<and>
     (distinct (map key (tbl s)) \<longrightarrow> distinct (map key (tbl t)))"

lemma keeps_same: "tbl t = tbl s \<Longrightarrow> keeps s t"
  by (auto simp: keeps_def)

lemma keeps_trans: "keeps s t \<Longrightarrow> keeps t u \<Longrightarrow> keeps s u"
  unfolding keeps_def by (intro conjI ballI impI) (metis, blast)

lemma keeps_update:
  assumes "tbl t = map f (tbl s)" "\<And>r. content (f r) = content r" "\<And>r. replaced r \<noteq> None \<Longrightarrow> replaced (f r) \<noteq> None"
  shows "keeps s t"
proof -
  have "key (f r) = key r" for r by (rule content_key) (rule assms(2))
  then have "map key (tbl t) = map key (tbl s)" by (simp add: assms(1))
  then show ?thesis unfolding keeps_def using assms by (metis imageE imageI list.set_map)
qed

lemma keeps_insert: "tbl t = tbl s @ [x] \<Longrightarrow> key x \<notin> key ` set (tbl s) \<Longrightarrow> keeps s t"
  by (auto simp: keeps_def)

lemma row_stays:
  assumes "keeps s t" "distinct (map key (tbl s))" "r \<in> set (tbl s)"
  shows "\<exists>q. filter (\<lambda>x. key x = key r) (tbl t) = [q] \<and> content q = content r \<and> (replaced r \<noteq> None \<longrightarrow> replaced q \<noteq> None)"
proof -
  obtain q where q: "q \<in> set (tbl t)" "content q = content r" "replaced r \<noteq> None \<longrightarrow> replaced q \<noteq> None"
    using assms(1,3) unfolding keeps_def by blast
  have "distinct (map key (tbl t))" using assms(1,2) unfolding keeps_def by blast
  from filter_key_distinct [OF this q(1)] content_key [OF q(2)]
  have "filter (\<lambda>x. key x = key r) (tbl t) = [q]" by simp
  with q show ?thesis by blast
qed

end

sublocale versioned_table \<subseteq> kept: db_relation keeps
  by unfold_locales (blast intro: keeps_same keeps_trans tbl_draws)+

definition prompt_content :: "inspection_prompt \<Rightarrow> inspection_prompt" where
  "prompt_content p = p\<lparr>ipr_active := False, ipr_replaced_at := None\<rparr>"

definition rule_content :: "red_flag_rule \<Rightarrow> red_flag_rule" where
  "rule_content r = r\<lparr>rf_active := False, rf_replaced_at := None\<rparr>"

interpretation prompts: versioned_table inspection_prompts ipr_id prompt_content ipr_replaced_at
proof unfold_locales
  fix q r assume "prompt_content q = prompt_content r"
  from arg_cong [OF this, of ipr_id] show "ipr_id q = ipr_id r" by (simp add: prompt_content_def)
qed simp

interpretation rules: versioned_table red_flag_rules rf_id rule_content rf_replaced_at
proof unfold_locales
  fix q r assume "rule_content q = rule_content r"
  from arg_cong [OF this, of rf_id] show "rf_id q = rf_id r" by (simp add: rule_content_def)
qed simp

text \<open>Both tables at once.\<close>

definition history :: "db \<Rightarrow> db \<Rightarrow> bool" where
  "history s t \<longleftrightarrow> prompts.keeps s t \<and> rules.keeps s t"

interpretation history: db_relation history
  by unfold_locales (auto simp: history_def intro: prompts.keeps_same rules.keeps_same prompts.keeps_trans rules.keeps_trans)

lemma history_same:
  "inspection_prompts t = inspection_prompts s \<Longrightarrow> red_flag_rules t = red_flag_rules s \<Longrightarrow> history s t"
  by (simp add: history_def prompts.keeps_same rules.keeps_same)

lemma history_step:
  "prompts.keeps s t \<Longrightarrow> red_flag_rules t = red_flag_rules s \<Longrightarrow> history s t"
  "rules.keeps s t \<Longrightarrow> inspection_prompts t = inspection_prompts s \<Longrightarrow> history s t"
  by (simp_all add: history_def prompts.keeps_same rules.keeps_same)

lemma history_update_prompts:
  assumes "\<And>p. prompt_content (f p) = prompt_content p" "\<And>p. ipr_replaced_at p \<noteq> None \<Longrightarrow> ipr_replaced_at (f p) \<noteq> None"
  shows "history s (s\<lparr>inspection_prompts := update_where q f (inspection_prompts s)\<rparr>)"
  by (rule history_step(1), rule prompts.keeps_update [where f = "\<lambda>p. if q p then f p else p"])
    (use assms in \<open>simp_all add: update_where_def\<close>)

lemma history_update_rules:
  assumes "\<And>r. rule_content (f r) = rule_content r" "\<And>r. rf_replaced_at r \<noteq> None \<Longrightarrow> rf_replaced_at (f r) \<noteq> None"
  shows "history s (s\<lparr>red_flag_rules := update_where q f (red_flag_rules s)\<rparr>)"
  by (rule history_step(2), rule rules.keeps_update [where f = "\<lambda>r. if q r then f r else r"])
    (use assms in \<open>simp_all add: update_where_def\<close>)

lemma fresh_insert:
  assumes "seq (fresh_key tbl key i) (writes f) s = (r, t)"
  shows "t = s \<or> i \<notin> key ` set (tbl s) \<and> t = f s"
proof (cases "fst (fresh_key tbl key i s)")
  case (Inl e)
  then show ?thesis using assms by (simp add: seq_run fresh_key_run split: if_splits)
next
  case (Inr x)
  then have f: "fresh_key tbl key i s = (Inr x, s)" by (simp add: fresh_key_run split: if_splits)
  then have "i \<notin> key ` set (tbl s)" unfolding fresh_key_return_iff by blast
  then show ?thesis using assms f by (simp add: seq_run writes_run)
qed

lemma history_insert_prompt: "confined history (insert_prompt p)"
proof (rule confinedI)
  fix s r t assume "insert_prompt p s = (r, t)"
  from fresh_insert [OF this [unfolded insert_prompt_def]]
  consider "t = s" | "ipr_id p \<notin> ipr_id ` set (inspection_prompts s)"
      "t = s\<lparr>inspection_prompts := inspection_prompts s @ [p]\<rparr>" by blast
  then show "history s t"
  proof cases
    case 2
    then show ?thesis by (intro history_step(1) prompts.keeps_insert [of _ _ p]) simp_all
  qed (simp add: history_same)
qed

lemma history_insert_rule: "confined history (insert_rule x)"
proof (rule confinedI)
  fix s r t assume "insert_rule x s = (r, t)"
  from fresh_insert [OF this [unfolded insert_rule_def]]
  consider "t = s" | "rf_id x \<notin> rf_id ` set (red_flag_rules s)"
      "t = s\<lparr>red_flag_rules := red_flag_rules s @ [x]\<rparr>" by blast
  then show "history s t"
  proof cases
    case 2
    then show ?thesis by (intro history_step(2) rules.keeps_insert [of _ _ x]) simp_all
  qed (simp add: history_same)
qed

subsection \<open>The handlers\<close>

lemma history_audit: "confined history (category_audit a ev i b x)"
  by (simp add: category_audit_def confined_def run_simps history_same)

lemma history_load: "confined history (load_category i)" "confined history (get_category i)"
  unfolding get_category_def load_category_def by (intro history.db_intros)+

lemma history_set_required: "confined history (set_required col x old)"
  unfolding set_required_def by (intro history.db_intros)

lemma history_insert_category: "confined history (insert_category c)"
  unfolding insert_category_def by (intro history.db_intros history.confined_fresh_key) (simp add: history_same)

lemma history_supersede_prompt: "confined history (supersede_inspection_prompt E p l r q d)"
  unfolding supersede_inspection_prompt_def Let_def
  by (intro history.db_intros history_insert_prompt history_update_prompts) (simp_all add: prompt_content_def)

lemma history_supersede_rule: "confined history (supersede_red_flag_rule E x f op v a l)"
  unfolding supersede_red_flag_rule_def Let_def
  by (intro history.db_intros history_insert_rule history_update_rules) (simp_all add: rule_content_def)

lemma history_supersede_category: "confined history (supersede_category E c n sl d st)"
  unfolding supersede_category_def Let_def
  by (intro history.db_intros history_insert_category) (simp add: history_same)

lemma history_set_active:
  "confined history (set_prompt_active i b)" "confined history (set_rule_active i b)"
  unfolding set_prompt_active_def set_rule_active_def
  by (intro history.db_intros history_update_prompts history_update_rules; simp add: prompt_content_def rule_content_def)+

lemmas history_intros =
  history.db_intros history_audit history_load history_set_required history_insert_category history_insert_prompt
  history_insert_rule history_supersede_prompt history_supersede_rule history_supersede_category history_set_active
  history.confined_fresh_key


lemma history_admin_route:
  assumes "\<And>u. confined history (handler u)"
  shows "history s (snd (admin_route E cred handler s))"
  using guarded_route_step [of E "[''admin'']" cred handler s]
proof
  assume "snd (guarded_route E [''admin''] cred handler s) = s"
  then show ?thesis by (simp add: admin_route_def history_same)
next
  assume "\<exists>u x. handler u s = (Inr x, snd (guarded_route E [''admin''] cred handler s))"
  then obtain u x where "handler u s = (Inr x, snd (guarded_route E [''admin''] cred handler s))" by blast
  from confinedD [OF assms this] show ?thesis by (simp add: admin_route_def)
qed

lemma history_valid: "confined history m \<Longrightarrow> confined history (valid b m)"
  unfolding valid_def by (intro history_intros)

lemma history_slug_lookup: "confined history (current_category_by_slug x)" "confined history (slug_clash p c)"
  unfolding slug_clash_def current_category_by_slug_def by (intro history_intros)+

lemma history_categories:
  "confined history (create_category E n sl d a)" "confined history (update_category E i p a)"
  "confined history (deactivate_category E i a)" "confined history (soft_delete_category i a)"
  unfolding create_category_def deactivate_category_def update_category_def soft_delete_category_def
  by (intro history_intros history_slug_lookup; simp add: history_same)+

lemma history_components:
  "confined history (add_component E i n w d a)" "confined history (update_component i k kp a)"
  unfolding add_component_def update_component_def patch_component_def Let_def
  by (intro history_intros; simp add: history_same)+

lemma history_prompt_edit:
  "confined history (add_inspection_prompt E i l r q d a)" "confined history (update_inspection_prompt E i k pp a)"
  unfolding add_inspection_prompt_def update_inspection_prompt_def change_prompt_def
  by (intro history_intros)+

lemma history_rule_edit:
  "confined history (add_red_flag_rule E i l f op v acts a)" "confined history (update_red_flag_rule E i k rp a)"
  unfolding add_red_flag_rule_def update_red_flag_rule_def change_rule_def
  by (intro history_intros)+

lemma history_assets:
  "confined history (add_attachment E i l x d a)" "confined history (update_attachment i k ap a)"
  "confined history (add_photo_slot E i l x b d a)" "confined history (update_photo_slot i k ap a)"
  unfolding add_attachment_def update_attachment_def patch_attachment_def add_photo_slot_def update_photo_slot_def
    patch_photo_slot_def Let_def
  by (intro history_intros; simp add: history_same)+

subsection \<open>The import\<close>

lemma history_values:
  "confined history (text_value v)" "confined history (bool_value v)" "confined history (int_value v)"
  "confined history (to_int v)"
  by (cases v; simp only: text_value.simps bool_value.simps int_value.simps to_int.simps; intro history_intros)+

lemma history_readers:
  "confined history (to_weight E v)" "confined history (fits_weight w)" "confined history (get_item item k)"
  "confined history (not_null col x)"
  unfolding to_weight_def fits_weight_def get_item_def not_null_def by (intro history_intros)+

lemma history_dict: "confined history (dict_value v)"
  by (cases v) (simp_all add: dict_value_def history_intros)

lemma history_item_key: "confined history (item_key n item)"
  by (cases "obj_get item n") (simp_all add: item_key_def history_intros)

lemmas import_intros = history_intros history_values history_readers history_dict history_item_key

lemma history_import_items:
  "confined history (import_component E i names item)" "confined history (import_prompt E i labels item)"
  "confined history (import_attachment E i labels item)" "confined history (import_photo_slot E i labels item)"
  "confined history (import_rule E i labels item)"
  unfolding import_component_def import_prompt_def import_attachment_def import_photo_slot_def import_rule_def
  by (intro import_intros; simp add: history_same)+

lemma history_import: "confined history (import_from_payload E payload a)"
  unfolding import_from_payload_def current_category_def import_audit_def Let_def
  by (intro import_intros history_import_items history_slug_lookup history.confined_map_each)


subsection \<open>Every way in which a request moves the categories\<close>

inductive category_step :: "env \<Rightarrow> db \<Rightarrow> db \<Rightarrow> bool" for E where
  "category_step E s (snd (create_category_route E cred n sl d s))"
| "category_step E s (snd (update_category_route E cred i cp s))"
| "category_step E s (snd (deactivate_category_route E cred i s))"
| "category_step E s (snd (delete_category_route E cred i s))"
| "category_step E s (snd (add_component_route E cred i n w d s))"
| "category_step E s (snd (update_component_route E cred i k kp s))"
| "category_step E s (snd (add_inspection_prompt_route E cred i l r q d s))"
| prompt_updated: "category_step E s (snd (update_inspection_prompt_route E cred i k pp s))"
| "category_step E s (snd (add_red_flag_rule_route E cred i l f op v acts s))"
| "category_step E s (snd (update_red_flag_rule_route E cred i k rp s))"
| "category_step E s (snd (add_attachment_route E cred i l x d s))"
| "category_step E s (snd (update_attachment_route E cred i k ap s))"
| "category_step E s (snd (add_photo_slot_route E cred i l x b d s))"
| "category_step E s (snd (update_photo_slot_route E cred i k ap s))"
| "category_step E s (snd (import_category_route E cred payload s))"

lemma category_step_history: "category_step E s t \<Longrightarrow> history s t"
  by (cases rule: category_step.cases; assumption?; simp only:
      create_category_route_def update_category_route_def deactivate_category_route_def delete_category_route_def
      add_component_route_def update_component_route_def add_inspection_prompt_route_def
      update_inspection_prompt_route_def add_red_flag_rule_route_def update_red_flag_rule_route_def
      add_attachment_route_def update_attachment_route_def add_photo_slot_route_def update_photo_slot_route_def
      import_category_route_def;
      intro history_admin_route history_valid history_categories history_components history_prompt_edit
        history_rule_edit history_assets history_import history_intros)

lemma category_steps_history: "(category_step E)\<^sup>*\<^sup>* s t \<Longrightarrow> history s t"
  by (induction rule: rtranclp_induct) (auto intro: history_same history.R_trans category_step_history)


subsection \<open>The successor of an edited category\<close>

text \<open>The foreign keys of the rows that belong to a category.\<close>

definition children_owned :: "db \<Rightarrow> bool" where
  "children_owned s \<longleftrightarrow>
     cc_category_id ` set (category_components s) \<subseteq> cat_id ` set (categories s) \<and>
     ipr_category_id ` set (inspection_prompts s) \<subseteq> cat_id ` set (categories s) \<and>
     slot_category_id ` set (photo_slots s) \<subseteq> cat_id ` set (categories s) \<and>
     rf_category_id ` set (red_flag_rules s) \<subseteq> cat_id ` set (categories s) \<and>
     cat_at_category_id ` set (category_attachments s) \<subseteq> cat_id ` set (categories s)"

lemma insert_category_return_iff:
  "insert_category c s = (Inr x, t) \<longleftrightarrow> t = s\<lparr>categories := categories s @ [c]\<rparr> \<and>
     cat_id c \<notin> cat_id ` set (categories s) \<and> find (is_current_slug (cat_slug c)) (categories s) = None"
  by (auto simp: insert_category_def bind_run reads_run seq_return_iff fresh_key_return_iff require_return_iff writes_run)

lemma load_category_return_iff:
  "load_category i s = (Inr c, t) \<longleftrightarrow> t = s \<and> filter (\<lambda>c. cat_id c = i) (categories s) = [c]"
  by (auto simp: load_category_def bind_return_iff select_one_return_iff split: option.splits)

lemma slug_clash_pure: "slug_clash p c s = (Inr x, t) \<Longrightarrow> t = s"
  unfolding slug_clash_def current_category_by_slug_def
  by (auto simp: bind_return_iff select_one_return_iff require_return_iff split: option.splits if_splits)

lemma supersede_category_returns:
  assumes "supersede_category E c n sl d st s = (Inr c', t)"
  shows "cat_id c' = random_uuid E (draws s)" "cat_replaced_at c' = None" "cat_deleted_at c' = None"
      "cat_version c' = cat_version c + 1" "cat_name c' = new_or n (cat_name c)" "cat_slug c' = new_or sl (cat_slug c)"
    and "t = s\<lparr>draws := Suc (draws s), categories := update_where (\<lambda>k. cat_id k = cat_id c)
      (\<lambda>k. k\<lparr>cat_replaced_at := Some (clock s)\<rparr>) (categories s) @ [c']\<rparr>"
    and "cat_id c' \<notin> cat_id ` set (categories s)"
proof -
  let ?c = "c\<lparr>cat_id := random_uuid E (draws s), cat_name := new_or n (cat_name c), cat_slug := new_or sl (cat_slug c),
      cat_status := new_or st (cat_status c), cat_display_order := new_or d (cat_display_order c),
      cat_version := cat_version c + 1, cat_replaced_at := None, cat_deleted_at := None\<rparr>"
  have ids: "cat_id ` set (update_where q (\<lambda>k. k\<lparr>cat_replaced_at := x\<rparr>) cs) = cat_id ` set cs" for q x cs
    by (induction cs) (simp_all add: update_where_def)
  have "seq (writes (\<lambda>s. s\<lparr>categories := update_where (\<lambda>k. cat_id k = cat_id c)
              (\<lambda>k. k\<lparr>cat_replaced_at := Some (clock s)\<rparr>) (categories s)\<rparr>))
        (seq (insert_category ?c) (ret ?c)) (s\<lparr>draws := Suc (draws s)\<rparr>) = (Inr c', t)"
    using assms by (simp add: supersede_category_def Let_def bind_run now_run uuid4_run seq_run writes_run)
  then have "c' = ?c \<and> t = s\<lparr>draws := Suc (draws s), categories := update_where (\<lambda>k. cat_id k = cat_id c)
      (\<lambda>k. k\<lparr>cat_replaced_at := Some (clock s)\<rparr>) (categories s) @ [?c]\<rparr> \<and> cat_id ?c \<notin> cat_id ` set (categories s)"
    by (auto simp: seq_return_iff writes_run insert_category_return_iff ids)
  then show "cat_id c' = random_uuid E (draws s)" "cat_replaced_at c' = None" "cat_deleted_at c' = None"
      "cat_version c' = cat_version c + 1" "cat_name c' = new_or n (cat_name c)" "cat_slug c' = new_or sl (cat_slug c)"
    "t = s\<lparr>draws := Suc (draws s), categories := update_where (\<lambda>k. cat_id k = cat_id c)
      (\<lambda>k. k\<lparr>cat_replaced_at := Some (clock s)\<rparr>) (categories s) @ [c']\<rparr>"
    "cat_id c' \<notin> cat_id ` set (categories s)" by simp_all
qed

lemma update_category_returns:
  assumes "update_category E i patch a s = (Inr d, t)"
  obtains c c' u where "filter (\<lambda>c. cat_id c = i) (categories s) = [c]" and "cat_replaced_at c = None"
    and "supersede_category E c (sent_value (cp_name patch)) (sent_value (cp_slug patch))
              (sent_value (cp_display_order patch)) (sent_value (cp_status patch)) s = (Inr c', u)"
    and "d = serialize_detail t c'" and "t\<lparr>audit_logs := []\<rparr> = u\<lparr>audit_logs := []\<rparr>"
    and "filter (\<lambda>c. cat_id c = cat_id c') (categories t) = [c']"
proof -
  obtain c where c: "filter (\<lambda>c. cat_id c = i) (categories s) = [c]" and g: "cat_replaced_at c = None"
    and run: "seq (slug_clash patch c)
     (bind (supersede_category E c (sent_value (cp_name patch)) (sent_value (cp_slug patch))
              (sent_value (cp_display_order patch)) (sent_value (cp_status patch))) (\<lambda>successor.
      seq (category_audit a ''equipment_category.superseded'' (cat_id successor)
             (Some (JObj ([(''prior_id'', JStr (uuid_str (cat_id c))), (''prior_version'', JInt (cat_version c))] @
                category_fields patch c)))
             (Some (JObj ((''version'', JInt (cat_version successor)) # category_fields patch successor))))
      (get_category (cat_id successor)))) s = (Inr d, t)"
    using assms unfolding update_category_def
    by (auto simp: bind_return_iff [of "load_category _"] load_category_return_iff seq_return_iff [of "require _ _"]
        require_return_iff)
  then obtain c' u where sup: "supersede_category E c (sent_value (cp_name patch)) (sent_value (cp_slug patch))
              (sent_value (cp_display_order patch)) (sent_value (cp_status patch)) s = (Inr c', u)"
    and tail: "seq (category_audit a ''equipment_category.superseded'' (cat_id c')
             (Some (JObj ([(''prior_id'', JStr (uuid_str (cat_id c))), (''prior_version'', JInt (cat_version c))] @
                category_fields patch c)))
             (Some (JObj ((''version'', JInt (cat_version c')) # category_fields patch c'))))
      (get_category (cat_id c')) u = (Inr d, t)"
    unfolding seq_return_iff [of "slug_clash _ _"] bind_return_iff [of "supersede_category _ _ _ _ _ _"]
    using slug_clash_pure by blast
  note su = supersede_category_returns [OF sup]
  have au: "t\<lparr>audit_logs := []\<rparr> = u\<lparr>audit_logs := []\<rparr>"
    and gc: "\<exists>k. filter (\<lambda>c. cat_id c = cat_id c') (categories t) = [k] \<and> d = serialize_detail t k"
    using tail
    by (auto simp: seq_return_iff category_audit_def add_audit_run get_category_def bind_return_iff load_category_return_iff)
  have "categories t = categories u" using arg_cong [OF au, of categories] by simp
  moreover have "filter (\<lambda>k. cat_id k = cat_id c') (update_where q (\<lambda>k. k\<lparr>cat_replaced_at := x\<rparr>) cs) = []"
    if "cat_id c' \<notin> cat_id ` set cs" for q x cs
    using that by (induction cs) (auto simp: update_where_def)
  ultimately have "filter (\<lambda>c. cat_id c = cat_id c') (categories t) = [c']" using su(7,8) by simp
  with gc have "d = serialize_detail t c'" by simp
  then show thesis using that [OF c g sup _ au] \<open>filter _ (categories t) = [c']\<close> by simp
qed

lemma edited_category:
  assumes "update_category E i patch a s = (Inr d, t)" "children_owned s"
  shows "cd_components d = [] \<and> cd_prompts d = [] \<and> cd_photo_slots d = [] \<and> cd_rules d = [] \<and> cd_attachments d = []"
    and "cat_replaced_at (cd_category d) = None" "cat_id (cd_category d) \<noteq> i" "cd_category d \<in> set (categories t)"
    and "required_labels t (cat_id (cd_category d)) = []" "rules_of (cat_id (cd_category d)) t = []"
    and "\<forall>k \<in> set (categories t). cat_id k = i \<longrightarrow> cat_replaced_at k \<noteq> None"
proof -
  obtain c c' u where c: "filter (\<lambda>c. cat_id c = i) (categories s) = [c]"
    and sup: "supersede_category E c (sent_value (cp_name patch)) (sent_value (cp_slug patch))
              (sent_value (cp_display_order patch)) (sent_value (cp_status patch)) s = (Inr c', u)"
    and d: "d = serialize_detail t c'" and au: "t\<lparr>audit_logs := []\<rparr> = u\<lparr>audit_logs := []\<rparr>"
    and f: "filter (\<lambda>c. cat_id c = cat_id c') (categories t) = [c']"
    using assms(1) by (rule update_category_returns)
  note su = supersede_category_returns [OF sup]
  have tab: "category_components t = category_components s" "inspection_prompts t = inspection_prompts s"
    "photo_slots t = photo_slots s" "red_flag_rules t = red_flag_rules s" "category_attachments t = category_attachments s"
    "categories t = categories u"
    using arg_cong [OF au, of category_components] arg_cong [OF au, of inspection_prompts]
      arg_cong [OF au, of photo_slots] arg_cong [OF au, of red_flag_rules] arg_cong [OF au, of category_attachments]
      arg_cong [OF au, of categories] su(7) by simp_all
  have no: "cat_id c' \<noteq> g r" if "r \<in> set rs" "g ` set rs \<subseteq> cat_id ` set (categories s)" for g rs r
    using su(8) that by auto
  have e: "filter (\<lambda>k. cc_category_id k = cat_id c') (category_components t) = []"
    "filter (\<lambda>p. ipr_category_id p = cat_id c' \<and> ipr_replaced_at p = None) (inspection_prompts t) = []"
    "filter (\<lambda>x. slot_category_id x = cat_id c') (photo_slots t) = []"
    "filter (\<lambda>r. rf_category_id r = cat_id c' \<and> rf_replaced_at r = None) (red_flag_rules t) = []"
    "filter (\<lambda>x. cat_at_category_id x = cat_id c') (category_attachments t) = []"
    using assms(2) no unfolding children_owned_def tab filter_empty_conv by metis+
  show "cd_components d = [] \<and> cd_prompts d = [] \<and> cd_photo_slots d = [] \<and> cd_rules d = [] \<and> cd_attachments d = []"
    unfolding d serialize_detail_def e Let_def by simp
  have dc: "cd_category d = c'" by (simp add: d serialize_detail_def Let_def)
  show "cat_replaced_at (cd_category d) = None" by (simp add: dc su(2))
  have ci: "c \<in> set (categories s)" "cat_id c = i" using c by (auto simp: filter_eq_Cons_iff)
  then show "cat_id (cd_category d) \<noteq> i" using su(8) by (auto simp: dc)
  show "cd_category d \<in> set (categories t)" using f by (auto simp: dc filter_eq_Cons_iff)
  show "required_labels t (cat_id (cd_category d)) = []"
    using e(3) by (simp add: required_labels_def dc filter_empty_conv)
  show "rules_of (cat_id (cd_category d)) t = []" by (simp only: rules_of_def dc e)
  show "\<forall>k \<in> set (categories t). cat_id k = i \<longrightarrow> cat_replaced_at k \<noteq> None"
    using su(7,8) ci by (auto simp: tab(6) update_where_def)
qed

end
