(* ===== verification/PhotoFacts.thy ===== *)
theory PhotoFacts
  imports Photos SubmissionFacts
begin

section \<open>What the photo operations do\<close>

text \<open>
  A handed-out storage key is accepted for the owner it was made for and refused for every other; a
  stored photo is the only live one of its slot, and its key is spent.
\<close>

subsection \<open>Splitting a key\<close>

lemma split_on_absent: "c \<notin> set s \<Longrightarrow> split_on c s = [s]"
  by (induction s) auto

lemma split_on_once: "c \<notin> set s \<Longrightarrow> c \<notin> set t \<Longrightarrow> split_on c (s @ c # t) = [s, t]"
  by (induction s) (auto simp: split_on_absent)

lemma no_dot_in_uuid: "CHR ''.'' \<notin> set (uuid_str u)"
proof
  assume "CHR ''.'' \<in> set (uuid_str u)"
  then have "is_hex (CHR ''.'')"
    using set_dashed hex_fixed_is_hex by (fastforce simp: uuid_str_def)
  then obtain d where d: "d < 16" "CHR ''.'' = hex_char d" by (auto simp: is_hex_def)
  have "(of_char (CHR ''.'') :: nat) = (if d < 10 then 48 + d else 87 + d)"
    unfolding d(2) by (rule of_char_hex_char [OF d(1)])
  then show False using d(1) by (simp split: if_splits)
qed

lemma key_format_built: "ext \<in> set IMAGE_EXTENSIONS \<Longrightarrow> key_format_ok (uuid_str u @ ''.'' @ ext)"
proof -
  assume e: "ext \<in> set IMAGE_EXTENSIONS"
  then have "CHR ''.'' \<notin> set ext" "lower ext \<in> set IMAGE_EXTENSIONS"
    by (auto simp: IMAGE_EXTENSIONS_def lower_def lower_char_def)
  then show ?thesis
    using split_on_once [OF no_dot_in_uuid, of ext u] by (simp add: key_format_ok_def)
qed

lemma built_key_checked:
  assumes "ext \<in> set IMAGE_EXTENSIONS"
  shows "validate_key (p @ uuid_str v @ ''/'') msg (p @ uuid_str u @ ''/'' @ uuid_str n @ ''.'' @ ext) s =
    (if v = u then Inr () else Inl (http 422 msg), s)"
proof -
  have "starts_with (p @ uuid_str u @ ''/'' @ x) (p @ uuid_str v @ ''/'') \<longleftrightarrow> v = u" for x
    by (auto simp: starts_with_def)
  then show ?thesis using key_format_built [OF assms] by (simp add: validate_key_def run_simps)
qed

lemma normalize_extension_return:
  "normalize_extension f s = (Inr ext, t) \<Longrightarrow> t = s \<and> ext \<in> set IMAGE_EXTENSIONS"
  by (auto simp: normalize_extension_def Let_def run_simps split: if_splits)

lemma intake_key_shape:
  assumes "generate_upload_intent E rid f ct s = (Inr k, t)"
  obtains n ext where "upi_storage_key k = intake_prefix rid @ uuid_str n @ ''.'' @ ext" "ext \<in> set IMAGE_EXTENSIONS"
    and "lower ct \<in> set IMAGE_CONTENT_TYPES"
  using assms
  by (auto simp: generate_upload_intent_def build_storage_key_def validate_intake_content_type_def r2_client_def
      bind_return_iff seq_return_iff require_return_iff uuid4_run dest!: normalize_extension_return)

lemma content_type_ext: "map_of CONTENT_TYPE_TO_EXT c = Some e \<Longrightarrow> e \<in> set IMAGE_EXTENSIONS"
  by (auto simp: CONTENT_TYPE_TO_EXT_def IMAGE_EXTENSIONS_def split: if_splits)

lemma appraisal_key_shape:
  assumes "generate_appraisal_upload E sid ct u s = (Inr k, t)"
  obtains n ext where "upi_storage_key k = appraisal_prefix sid @ uuid_str n @ ''.'' @ ext" "ext \<in> set IMAGE_EXTENSIONS"
proof -
  have "''jpg'' \<in> set IMAGE_EXTENSIONS" by (simp add: IMAGE_EXTENSIONS_def)
  with assms that show thesis
    by (auto simp: generate_appraisal_upload_def build_appraisal_key_def Let_def r2_client_def
      bind_return_iff seq_return_iff require_return_iff uuid4_run split: option.splits dest: content_type_ext)
qed

subsection \<open>A stored photo\<close>

lemma finalize_returns:
  assumes "finalize E sid p u s = (Inr q, t)"
  shows "appraisal_photos t = update_where (in_photo_slot sid (phi_slot_label p))
      (\<lambda>r. r\<lparr>aph_deleted_at := Some (clock s)\<rparr>) (appraisal_photos s) @ [q]"
    and "q = new_photo (random_uuid E (draws s)) sid p (clock s)"
    and "phi_storage_key p \<notin> aph_gcs_path ` set (appraisal_photos s)"
proof -
  let ?ps = "update_where (in_photo_slot sid (phi_slot_label p))
      (\<lambda>r. r\<lparr>aph_deleted_at := Some (clock s)\<rparr>) (appraisal_photos s)"
  let ?rest = "bind now (\<lambda>d.
       seq (writes (\<lambda>s. s\<lparr>appraisal_photos := update_where (in_photo_slot sid (phi_slot_label p))
              (\<lambda>q. q\<lparr>aph_deleted_at := Some d\<rparr>) (appraisal_photos s)\<rparr>))
       (bind (uuid4 E) (\<lambda>i.
        let photo = new_photo i sid p d in seq (insert_photo photo) (ret photo))))"
  have "?rest s = (Inr q, t)"
    using assms
    by (auto simp: finalize_def validate_storage_key_def validate_key_def validate_appraisal_content_type_def
        bind_return_iff [of "fetch_submission _"] seq_return_iff [of "require _ _"] seq_return_iff [of "seq _ _"]
        seq_return_iff [of "check_access _ _"] require_return_iff fetch_submission_return_iff check_access_return_iff)
  then have h: "appraisal_photos t = ?ps @ [q] \<and> q = new_photo (random_uuid E (draws s)) sid p (clock s) \<and>
      find (\<lambda>r. aph_gcs_path r = phi_storage_key p) ?ps = None"
    by (simp add: run_simps insert_photo_def Let_def new_photo_def split: if_splits) auto
  have "aph_gcs_path (if b then r\<lparr>aph_deleted_at := d\<rparr> else r) = aph_gcs_path r" for b d r by simp
  then have "aph_gcs_path ` set ?ps = aph_gcs_path ` set (appraisal_photos s)"
    unfolding update_where_def set_map image_image by (rule image_cong [OF refl])
  moreover have "phi_storage_key p \<notin> aph_gcs_path ` set ?ps" using h unfolding find_None_iff by force
  ultimately show "phi_storage_key p \<notin> aph_gcs_path ` set (appraisal_photos s)" by simp
  show "appraisal_photos t = ?ps @ [q]" "q = new_photo (random_uuid E (draws s)) sid p (clock s)" using h by auto
qed

lemma replaced_slot_empty:
  "filter (in_photo_slot sid l) (update_where (in_photo_slot sid l) (\<lambda>r. r\<lparr>aph_deleted_at := Some d\<rparr>) ps) = []"
  by (induction ps) (simp_all add: update_where_def in_photo_slot_def)

lemma replaced_slot_others:
  "filter (\<lambda>r. aph_deleted_at r = None \<and> \<not> in_photo_slot sid l r)
     (update_where (in_photo_slot sid l) (\<lambda>r. r\<lparr>aph_deleted_at := Some d\<rparr>) ps) =
   filter (\<lambda>r. aph_deleted_at r = None \<and> \<not> in_photo_slot sid l r) ps"
  by (induction ps) (simp_all add: update_where_def in_photo_slot_def)

end
