(* ===== verification/ExchangeFacts.thy ===== *)
theory ExchangeFacts
  imports CategoryFacts PhotoFacts
begin

section \<open>An export read back\<close>

text \<open>
  A decimal that was printed is parsed to itself, and importing what was exported from a category changes
  nothing but the audit.
\<close>

subsection \<open>Decimal numbers as text\<close>

lemma digit_char: "d < 10 \<Longrightarrow> is_digit_char (char_of (48 + d)) \<and> digit_val (char_of (48 + d)) = d" for d :: nat
  by (simp add: is_digit_char_def digit_val_def of_char_of)

lemma nat_str_digits: "nat_str n \<noteq> [] \<and> list_all is_digit_char (nat_str n)"
proof (induction n rule: nat_str.induct)
  case (1 n)
  show ?case
  proof (cases "n < 10")
    case True
    then show ?thesis using digit_char [of n] by (subst (1 2) nat_str.simps) simp
  next
    case False
    then show ?thesis using 1 digit_char [of "n mod 10"] by (subst (1 2) nat_str.simps) simp
  qed
qed

lemma nat_of_digits_snoc: "nat_of_digits (s @ [c]) = 10 * nat_of_digits s + digit_val c"
  by (simp add: nat_of_digits_def)

lemma nat_of_digits_str: "nat_of_digits (nat_str n) = n"
proof (induction n rule: nat_str.induct)
  case (1 n)
  show ?case
  proof (cases "n < 10")
    case True
    then show ?thesis using digit_char [of n] by (subst nat_str.simps) (simp add: nat_of_digits_def)
  next
    case False
    then show ?thesis using 1 digit_char [of "n mod 10"] by (subst nat_str.simps) (simp add: nat_of_digits_snoc)
  qed
qed

lemma nat_of_digits_zeros: "nat_of_digits (replicate k (CHR ''0'') @ s) = nat_of_digits s"
  by (induction k) (simp_all add: nat_of_digits_def digit_val_def)

lemma digit_is_plain:
  assumes "is_digit_char c"
  shows "\<not> is_space c" "c \<noteq> CHR ''_''" "c \<noteq> CHR ''-''" "c \<noteq> CHR ''+''" "c \<noteq> CHR ''.''" "\<not> is_exp_char c"
proof -
  have n: "48 \<le> (of_char c :: nat)" "(of_char c :: nat) \<le> 57" using assms by (simp_all add: is_digit_char_def Let_def)
  show "\<not> is_space c" using n by (auto simp: is_space_def Let_def)
  have ne: "c \<noteq> x" if "(of_char x :: nat) < 48 \<or> 57 < (of_char x :: nat)" for x using n that by auto
  show "c \<noteq> CHR ''_''" "c \<noteq> CHR ''-''" "c \<noteq> CHR ''+''" "c \<noteq> CHR ''.''" by (rule ne; simp)+
  have "c \<noteq> CHR ''e''" "c \<noteq> CHR ''E''" by (rule ne; simp)+
  then show "\<not> is_exp_char c" by (simp add: is_exp_char_def)
qed


lemma strip_plain: "\<forall>c \<in> set s. \<not> is_space c \<Longrightarrow> strip s = s"
proof -
  assume a: "\<forall>c \<in> set s. \<not> is_space c"
  have "dropWhile is_space xs = xs" if "\<forall>c \<in> set xs. \<not> is_space c" for xs
    using that by (cases xs) auto
  from this [of s] this [of "rev s"] show ?thesis using a by (simp add: strip_def)
qed

definition numeral_char :: "char \<Rightarrow> bool" where "numeral_char c \<longleftrightarrow> is_digit_char c \<or> c = CHR ''.''"

lemma numeral_is_plain:
  assumes "numeral_char c"
  shows "\<not> is_space c" "c \<noteq> CHR ''_''" "c \<noteq> CHR ''-''" "c \<noteq> CHR ''+''" "\<not> is_exp_char c"
proof -
  have dot: "\<not> is_space (CHR ''.'')" "\<not> is_exp_char (CHR ''.'')"
    by (simp_all add: is_space_def is_exp_char_def)
  show "\<not> is_space c" "c \<noteq> CHR ''_''" "c \<noteq> CHR ''-''" "c \<noteq> CHR ''+''" "\<not> is_exp_char c"
    using assms digit_is_plain [of c] dot by (cases "is_digit_char c"; force simp: numeral_char_def)+
qed

lemma decimal_parse_signed:
  assumes b: "\<forall>c \<in> set b. numeral_char c" "b \<noteq> []"
  shows "decimal_parse ((if neg then ''-'' else '''') @ b) =
    map_option (\<lambda>(ip, fp). Dec ((if neg then - 1 else 1) * int (nat_of_digits (ip @ fp))) (length fp)) (mantissa b)"
proof -
  let ?s = "(if neg then ''-'' else '''') @ b"
  have st: "strip ?s = ?s" by (rule strip_plain) (use b numeral_is_plain(1) in \<open>auto simp: is_space_def\<close>)
  have fi: "filter (\<lambda>c. c \<noteq> CHR ''_'') ?s = ?s"
    using b numeral_is_plain(2) by (auto simp: filter_id_conv)
  have si: "CategoryExchange.signed ?s = (if neg then - 1 else 1, b)"
  proof (cases b)
    case (Cons c cs)
    then have "numeral_char c" using b by simp
    then show ?thesis using numeral_is_plain(3,4) Cons by (simp add: CategoryExchange.signed_def)
  qed (use b in simp)
  have tw: "takeWhile (\<lambda>c. \<not> is_exp_char c) b = b" and dw: "dropWhile (\<lambda>c. \<not> is_exp_char c) b = []"
    using b numeral_is_plain(5) by (simp_all add: takeWhile_eq_all_conv)
  have "decimal_parse ?s = (case (mantissa b, Some 0) of (Some (ip, fp), Some e) \<Rightarrow>
      let coeff = (if neg then - 1 else 1) * int (nat_of_digits (ip @ fp)); scale = int (length fp) - e
      in Some (if scale < 0 then Dec (coeff * 10 ^ nat (- scale)) 0 else Dec coeff (nat scale)) | _ \<Rightarrow> None)"
    unfolding decimal_parse_def st fi si Let_def prod.case tw dw by simp
  then show ?thesis by (cases "mantissa b") (simp_all add: Let_def case_prod_beta)
qed

lemma digits_no_dot: "list_all is_digit_char s \<Longrightarrow> CHR ''.'' \<notin> set s"
  using digit_is_plain(5) by (auto simp: list_all_iff)

lemma mantissa_whole: "s \<noteq> [] \<Longrightarrow> list_all is_digit_char s \<Longrightarrow> mantissa s = Some (s, '''')"
  by (simp add: mantissa_def split_on_absent digits_no_dot isdigit_def)

lemma mantissa_dot:
  "list_all is_digit_char a \<Longrightarrow> list_all is_digit_char b \<Longrightarrow> a \<noteq> [] \<Longrightarrow> mantissa (a @ ''.'' @ b) = Some (a, b)"
  using split_on_once [of "CHR ''.''" a b] by (simp add: mantissa_def digits_no_dot opt_digits_def)

lemma numeral_digits: "list_all is_digit_char s \<Longrightarrow> c \<in> set s \<Longrightarrow> numeral_char c"
  by (auto simp: list_all_iff numeral_char_def)

lemma list_all_parts:
  "list_all p s \<Longrightarrow> list_all p (take n s)" "list_all p s \<Longrightarrow> list_all p (drop n s)"
  by (auto simp: list_all_iff dest: in_set_takeD in_set_dropD)

lemma decimal_parse_str:
  assumes "dec_scale d \<le> 6"
  shows "decimal_parse (decimal_str d) = Some d"
proof -
  let ?n = "nat \<bar>dec_coeff d\<bar>" and ?neg = "dec_coeff d < 0"
  let ?ds = "nat_str ?n"
  let ?left = "int (length ?ds) - int (dec_scale d)"
  have ds: "?ds \<noteq> []" "list_all is_digit_char ?ds" using nat_str_digits [of ?n] by auto
  have coeff: "(if ?neg then - 1 else 1) * int (nat_of_digits ?ds) = dec_coeff d"
    by (simp add: nat_of_digits_str)
  have "1 \<le> length ?ds" using ds(1) by (cases ?ds) auto
  then have left: "- 6 < ?left" using assms by linarith
  have built: "decimal_parse (decimal_str d) = Some d"
    if "decimal_str d = (if ?neg then ''-'' else '''') @ b" "mantissa b = Some (ip, fp)" "b \<noteq> []"
      "(if ?neg then - 1 else 1) * int (nat_of_digits (ip @ fp)) = dec_coeff d" "length fp = dec_scale d"
      "\<And>c. c \<in> set b \<Longrightarrow> numeral_char c" for b ip fp
  proof -
    have "\<forall>c \<in> set b. numeral_char c" using that(6) by blast
    note decimal_parse_signed [OF this that(3), of ?neg]
    then show ?thesis unfolding that(1) that(2) option.map prod.case that(4) that(5) by simp
  qed
  consider (whole) "dec_scale d = 0" | (split) "0 < ?left" "0 < dec_scale d" | (small) "?left \<le> 0" by linarith
  then show ?thesis
  proof cases
    case whole
    have "decimal_str d = (if ?neg then ''-'' else '''') @ ?ds"
      using whole ds(1) by (simp add: decimal_str_def Let_def)
    from built [OF this mantissa_whole [OF ds] ds(1)] numeral_digits [OF ds(2)] coeff whole show ?thesis by simp
  next
    case split
    let ?a = "take (nat ?left) ?ds" and ?b = "drop (nat ?left) ?ds"
    have s: "decimal_str d = (if ?neg then ''-'' else '''') @ (?a @ ''.'' @ ?b)"
      using split left by (simp add: decimal_str_def Let_def)
    have "?a \<noteq> []" using split ds(1) by simp
    note m = mantissa_dot [OF list_all_parts(1) [OF ds(2)] list_all_parts(2) [OF ds(2)] this]
    have n: "numeral_char c" if "c \<in> set (?a @ ''.'' @ ?b)" for c
      using that numeral_digits [OF list_all_parts(1) [OF ds(2)]] numeral_digits [OF list_all_parts(2) [OF ds(2)]]
      by (auto simp: numeral_char_def)
    have l: "length ?b = dec_scale d" using split by simp
    show ?thesis by (rule built [OF s m _ _ l n]) (simp_all add: coeff)
  next
    case small
    let ?b = "replicate (nat (- ?left)) (CHR ''0'') @ ?ds"
    have zero: "is_digit_char (CHR ''0'')" by (simp add: is_digit_char_def)
    then have z: "list_all is_digit_char ?b" using ds(2) by (auto simp: list_all_iff)
    have s: "decimal_str d = (if ?neg then ''-'' else '''') @ (''0'' @ ''.'' @ ?b)"
      using small left by (simp add: decimal_str_def Let_def)
    have m: "mantissa (''0'' @ ''.'' @ ?b) = Some (''0'', ?b)"
      by (rule mantissa_dot) (use z zero in simp_all)
    have n: "numeral_char c" if "c \<in> set (''0'' @ ''.'' @ ?b)" for c
      using that numeral_digits [OF z] zero by (auto simp: numeral_char_def)
    have l: "length ?b = dec_scale d" using small by simp
    have v: "nat_of_digits (''0'' @ ?b) = nat_of_digits ?ds"
      using nat_of_digits_zeros [of "Suc (nat (- ?left))" ?ds] by simp
    show ?thesis
    proof (rule built [OF s m _ _ l n])
      show "(if ?neg then - 1 else 1) * int (nat_of_digits (''0'' @ ?b)) = dec_coeff d" unfolding v by (rule coeff)
    qed simp_all
  qed
qed

subsection \<open>Importing an export\<close>

definition exchangeable :: "db \<Rightarrow> category \<Rightarrow> bool" where
  "exchangeable s c \<longleftrightarrow>
     filter (\<lambda>k. cat_id k = cat_id c) (categories s) = [c] \<and>
     filter (is_current_slug (cat_slug c)) (categories s) = [c] \<and>
     distinct (map cc_id (category_components s)) \<and> distinct (map ipr_id (inspection_prompts s)) \<and>
     distinct (map rf_id (red_flag_rules s)) \<and>
     distinct (map (label_key \<circ> cc_name) (components_of (cat_id c) s)) \<and>
     distinct (map (label_key \<circ> ipr_label) (prompts_of (cat_id c) s)) \<and>
     distinct (map (label_key \<circ> rf_label) (rules_of (cat_id c) s)) \<and>
     (\<forall>k \<in> set (components_of (cat_id c) s). dec_scale (cc_weight_pct k) \<le> 6 \<and> \<bar>dec_val (cc_weight_pct k)\<bar> < 100)"

lemma item_key_of: "map_of item n = Some (JStr x) \<Longrightarrow> item_key n item s = (Inr (label_key x), s)"
  by (simp add: item_key_def obj_get_def label_key_def strip_def lower_def)

lemma by_key_found:
  assumes "distinct (map (label_key \<circ> name) rows)" "r \<in> set rows"
  shows "map_of (by_key name key rows) (label_key (name r)) = Some (key r)"
proof -
  have d: "distinct (map fst (map (\<lambda>r. (label_key (name r), key r)) rows))"
    using assms(1) by (simp add: comp_def)
  then have "distinct (map fst (by_key name key rows))"
    unfolding by_key_def rev_map [symmetric] distinct_rev by (simp add: comp_def)
  then show ?thesis using assms(2) by (simp add: map_of_eq_Some_iff) (simp add: by_key_def)
qed

lemma by_key_some: "r \<in> set rows \<Longrightarrow> map_of (by_key name key rows) (label_key (name r)) \<noteq> None"
proof -
  assume "r \<in> set rows"
  then have "(label_key (name r), key r) \<in> set (by_key name key rows)" by (simp add: by_key_def)
  from weak_map_of_SomeI [OF this] show ?thesis by auto
qed

lemma update_nothing: "\<forall>r \<in> set xs. \<not> p r \<Longrightarrow> update_where p f xs = xs"
  by (simp add: update_where_def map_idI)

lemma map_each_map_still:
  "(\<And>x. x \<in> set xs \<Longrightarrow> f (g x) s = (Inr y, s)) \<Longrightarrow>
     map_each (map g xs) f s = (Inr (replicate (length xs) y), s)"
  by (induction xs) (simp_all add: bind_run)

lemma concat_replicate_Nil [simp]: "concat (replicate n []) = []"
  by (induction n) simp_all

lemma exported_component_stays:
  assumes "exchangeable s c" "k \<in> set (components_of (cat_id c) s)"
  shows "import_component E (cat_id c) (by_key cc_name cc_id (components_of (cat_id c) s)) (export_component k) s = (Inr [], s)"
proof -
  have w: "to_weight E (JStr (decimal_str (cc_weight_pct k))) s = (Inr (cc_weight_pct k), s)"
    "fits_weight (cc_weight_pct k) s = (Inr (), s)"
    using assms by (simp_all add: to_weight_def decimal_parse_str fits_weight_def require_run exchangeable_def)
  have d: "distinct (map cc_id (category_components s))" "k \<in> set (category_components s)"
    using assms by (simp_all add: exchangeable_def components_of_def)
  then have "r = k" if "r \<in> set (category_components s)" "cc_id r = cc_id k" for r
    using that by (meson distinct_map inj_onD)
  then have u: "update_where (\<lambda>c. cc_id c = cc_id k \<and> dec_val (cc_weight_pct c) \<noteq> dec_val (cc_weight_pct k)) f
      (category_components s) = category_components s" for f
    by (intro update_nothing) blast
  have key: "item_key ''name'' (export_component k) s = (Inr (label_key (cc_name k)), s)"
    by (rule item_key_of) (simp add: export_component_def)
  have found: "map_of (by_key cc_name cc_id (components_of (cat_id c) s)) (label_key (cc_name k)) = Some (cc_id k)"
    by (rule by_key_found) (use assms in \<open>simp_all add: exchangeable_def\<close>)
  have item: "get_item (export_component k) ''weight_pct'' s = (Inr (JStr (decimal_str (cc_weight_pct k))), s)"
    by (simp add: get_item_def export_component_def)
  show ?thesis
    by (simp add: import_component_def bind_run [of "item_key _ _"] key found bind_run item w seq_run writes_run u)
qed

lemma exported_prompt_stays:
  assumes "exchangeable s c" "p \<in> set (prompts_of (cat_id c) s)"
  shows "import_prompt E (cat_id c) (by_key ipr_label ipr_id (prompts_of (cat_id c) s)) (export_prompt p) s = (Inr ([], []), s)"
proof -
  have key: "item_key ''label'' (export_prompt p) s = (Inr (label_key (ipr_label p)), s)"
    by (rule item_key_of) (simp add: export_prompt_def)
  have found: "map_of (by_key ipr_label ipr_id (prompts_of (cat_id c) s)) (label_key (ipr_label p)) = Some (ipr_id p)"
    by (rule by_key_found) (use assms in \<open>simp_all add: exchangeable_def\<close>)
  have row: "find (\<lambda>q. ipr_id q = ipr_id p) (inspection_prompts s) = Some p"
    by (rule find_key_distinct) (use assms in \<open>simp_all add: exchangeable_def prompts_of_def\<close>)
  have "\<not> prompt_changed (export_prompt p) p"
    by (simp add: prompt_changed_def py_eq_def export_prompt_def obj_get_def)
  then show ?thesis
    by (simp add: import_prompt_def bind_run [of "item_key _ _"] key found bind_run reads_run row)
qed

lemma exported_rule_stays:
  assumes "exchangeable s c" "r \<in> set (rules_of (cat_id c) s)"
  shows "import_rule E (cat_id c) (by_key rf_label rf_id (rules_of (cat_id c) s)) (export_rule r) s = (Inr ([], []), s)"
proof -
  have key: "item_key ''label'' (export_rule r) s = (Inr (label_key (rf_label r)), s)"
    by (rule item_key_of) (simp add: export_rule_def)
  have found: "map_of (by_key rf_label rf_id (rules_of (cat_id c) s)) (label_key (rf_label r)) = Some (rf_id r)"
    by (rule by_key_found) (use assms in \<open>simp_all add: exchangeable_def\<close>)
  have row: "find (\<lambda>q. rf_id q = rf_id r) (red_flag_rules s) = Some r"
    by (rule find_key_distinct) (use assms in \<open>simp_all add: exchangeable_def rules_of_def\<close>)
  have acts: "dict_value (obj_get (export_rule r) ''actions'') s = (Inr (rf_actions r), s)"
    by (simp add: dict_value_def obj_get_def export_rule_def)
  have "\<not> rule_changed (export_rule r) (rf_actions r) r"
    by (cases "rf_condition_value r") (simp_all add: rule_changed_def py_eq_def export_rule_def obj_get_def dict_eq_def jopt_def)
  then show ?thesis
    by (simp add: import_rule_def bind_run [of "item_key _ _"] key found bind_run reads_run row acts)
qed

lemma exported_assets_stay:
  "x \<in> set (attachments_of i s) \<Longrightarrow>
     import_attachment E i (by_key cat_at_label cat_at_id (attachments_of i s)) (export_attachment x) s = (Inr [], s)"
  "y \<in> set (photo_slots_of i s) \<Longrightarrow>
     import_photo_slot E i (by_key slot_label slot_id (photo_slots_of i s)) (export_photo_slot y) s = (Inr [], s)"
proof -
  assume x: "x \<in> set (attachments_of i s)"
  have "item_key ''label'' (export_attachment x) s = (Inr (label_key (cat_at_label x)), s)"
    by (rule item_key_of) (simp add: export_attachment_def)
  then show "import_attachment E i (by_key cat_at_label cat_at_id (attachments_of i s)) (export_attachment x) s = (Inr [], s)"
    using by_key_some [OF x, of cat_at_label cat_at_id] by (simp add: import_attachment_def bind_run [of "item_key _ _"])
next
  assume y: "y \<in> set (photo_slots_of i s)"
  have "item_key ''label'' (export_photo_slot y) s = (Inr (label_key (slot_label y)), s)"
    by (rule item_key_of) (simp add: export_photo_slot_def)
  then show "import_photo_slot E i (by_key slot_label slot_id (photo_slots_of i s)) (export_photo_slot y) s = (Inr [], s)"
    using by_key_some [OF y, of slot_label slot_id] by (simp add: import_photo_slot_def bind_run [of "item_key _ _"])
qed

lemma import_of_export:
  assumes "exchangeable s c"
  shows "\<exists>res log. import_from_payload E (export_of s c) a s = (Inr res, s\<lparr>audit_logs := audit_logs s @ [log]\<rparr>) \<and>
    res = \<lparr>ir_category_id = cat_id c, ir_created = False, ir_superseded_prompt_ids = [], ir_superseded_rule_ids = [],
      ir_added_component_ids = [], ir_added_prompt_ids = [], ir_added_attachment_ids = [], ir_added_photo_slot_ids = [],
      ir_added_rule_ids = []\<rparr>"
proof -
  have cur: "current_category E (export_of s c) a s = (Inr (c, False), s)"
    using assms by (simp add: current_category_def current_category_by_slug_def select_one_def run_simps exchangeable_def export_of_def)
  have x: "xp_components (export_of s c) = map export_component (components_of (cat_id c) s)"
    "xp_prompts (export_of s c) = map export_prompt (prompts_of (cat_id c) s)"
    "xp_attachments (export_of s c) = map export_attachment (attachments_of (cat_id c) s)"
    "xp_photo_slots (export_of s c) = map export_photo_slot (photo_slots_of (cat_id c) s)"
    "xp_rules (export_of s c) = map export_rule (rules_of (cat_id c) s)"
    by (simp_all add: export_of_def)
  have c: "map_each (xp_components (export_of s c)) (import_component E (cat_id c)
      (by_key cc_name cc_id (components_of (cat_id c) s))) s = (Inr (replicate (length (components_of (cat_id c) s)) []), s)"
    unfolding x by (rule map_each_map_still) (rule exported_component_stays [OF assms])
  have p: "map_each (xp_prompts (export_of s c)) (import_prompt E (cat_id c)
      (by_key ipr_label ipr_id (prompts_of (cat_id c) s))) s = (Inr (replicate (length (prompts_of (cat_id c) s)) ([], [])), s)"
    unfolding x by (rule map_each_map_still) (rule exported_prompt_stays [OF assms])
  have t: "map_each (xp_attachments (export_of s c)) (import_attachment E (cat_id c)
      (by_key cat_at_label cat_at_id (attachments_of (cat_id c) s))) s = (Inr (replicate (length (attachments_of (cat_id c) s)) []), s)"
    unfolding x by (rule map_each_map_still) (rule exported_assets_stay(1))
  have l: "map_each (xp_photo_slots (export_of s c)) (import_photo_slot E (cat_id c)
      (by_key slot_label slot_id (photo_slots_of (cat_id c) s))) s = (Inr (replicate (length (photo_slots_of (cat_id c) s)) []), s)"
    unfolding x by (rule map_each_map_still) (rule exported_assets_stay(2))
  have r: "map_each (xp_rules (export_of s c)) (import_rule E (cat_id c)
      (by_key rf_label rf_id (rules_of (cat_id c) s))) s = (Inr (replicate (length (rules_of (cat_id c) s)) ([], [])), s)"
    unfolding x by (rule map_each_map_still) (rule exported_rule_stays [OF assms])
  have "\<exists>log. import_audit res a s = (Inr (), s\<lparr>audit_logs := audit_logs s @ [log]\<rparr>)" for res
    unfolding import_audit_def category_audit_def add_audit_run by (intro exI, rule refl)
  then obtain log where log: "import_audit \<lparr>ir_category_id = cat_id c, ir_created = False, ir_superseded_prompt_ids = [],
      ir_superseded_rule_ids = [], ir_added_component_ids = [], ir_added_prompt_ids = [], ir_added_attachment_ids = [],
      ir_added_photo_slot_ids = [], ir_added_rule_ids = []\<rparr> a s = (Inr (), s\<lparr>audit_logs := audit_logs s @ [log]\<rparr>)"
    by blast
  show ?thesis
    unfolding import_from_payload_def bind_run [of "current_category _ _ _"] cur prod.case sum.case Let_def
      bind_run [of "reads _"] reads_run bind_run [of "map_each _ _"] c p t l r seq_run
    by (simp add: log) (intro exI, rule refl)
qed

end
