(* ===== verification/Mails.thy ===== *)
theory Mails
  imports Notifications
begin

section \<open>The account mails\<close>

text \<open>
  The mails of \<^verbatim>\<open>api/services/email_service.py\<close>. A mail scheduled as a background task leaves after
  the response of a request that committed; in the model it is appended to \<open>outbox\<close> and goes
  away with the rest of a request that is rolled back. Delivery failures are swallowed by the
  code and do not show.
\<close>

text \<open>\<^verbatim>\<open>html.escape(s)\<close>, quotes included.\<close>

definition html_escape_char :: "char \<Rightarrow> string" where
  "html_escape_char c =
     (if c = CHR ''&'' then ''&amp;'' else if c = CHR ''<'' then ''&lt;''
      else if c = CHR ''>'' then ''&gt;'' else if c = CHR 0x22 then ''&quot;''
      else if c = CHR 0x27 then ''&#x27;'' else [c])"

definition html_escape :: "string \<Rightarrow> string" where
  "html_escape s = concat (map html_escape_char s)"

definition base_html :: "string \<Rightarrow> string \<Rightarrow> string" where
  "base_html title body_html = join [newline]
     [''<!DOCTYPE html>'',
      ''<html lang=\"en\">'',
      ''<head><meta charset=\"UTF-8\"><title>'' @ title @ ''</title></head>'',
      ''<body style=\"font-family:sans-serif;max-width:600px;margin:0 auto;padding:24px;color:#1a1a1a;\">'',
      ''  <h2 style=\"color:#1a1a1a;\">'' @ title @ ''</h2>'',
      ''  '' @ body_html,
      ''  <hr style=\"margin-top:32px;border:none;border-top:1px solid #eee;\">'',
      ''  <p style=\"font-size:12px;color:#666;\">'',
      ''    Temple Heavy Equipment &mdash; <a href=\"mailto:support@saltrun.net\">support@saltrun.net</a>'',
      ''  </p>'',
      ''</body>'',
      ''</html>'']"

definition send_verification_email :: "string \<Rightarrow> string \<Rightarrow> unit op" where
  "send_verification_email to_email verify_url =
     (let body = join [newline]
           ['''',
            ''    <p>Thanks for registering with Temple Heavy Equipment.</p>'',
            ''    <p>Please verify your email address by clicking the link below.'',
            ''       This link expires in 24 hours.</p>'',
            ''    <p><a href=\"'' @ verify_url @ ''\" style=\"background:#1a1a1a;color:#fff;padding:12px 24px;'',
            ''       text-decoration:none;border-radius:4px;display:inline-block;\">Verify Email</a></p>'',
            ''    <p>If you did not create an account, you can ignore this email.</p>'',
            ''    '']
      in send_email (JStr to_email) (JStr ''Verify your TempleHE account'')
          (JStr (base_html ''Verify your email'' body)))"

definition send_password_reset_email :: "string \<Rightarrow> string \<Rightarrow> unit op" where
  "send_password_reset_email to_email reset_url =
     (let body = join [newline]
           ['''',
            ''    <p>We received a request to reset the password for your TempleHE account.</p>'',
            ''    <p>Click the link below to choose a new password. This link expires in 30 minutes.</p>'',
            ''    <p><a href=\"'' @ reset_url @ ''\" style=\"background:#1a1a1a;color:#fff;padding:12px 24px;'',
            ''       text-decoration:none;border-radius:4px;display:inline-block;\">Reset Password</a></p>'',
            ''    <p>If you didn't request a password reset, you can ignore this email.'',
            ''       Your password has not changed.</p>'',
            ''    '']
      in send_email (JStr to_email) (JStr ''Reset your TempleHE password'')
          (JStr (base_html ''Reset your password'' body)))"

definition send_password_changed_email :: "string \<Rightarrow> unit op" where
  "send_password_changed_email to_email =
     (let body = join [newline]
           ['''',
            ''    <p>Your TempleHE account password was just changed.</p>'',
            ''    <p>If this was you, no further action is needed.</p>'',
            ''    <p>If this wasn't you, <a href=\"mailto:support@saltrun.net\">contact support immediately</a>'',
            ''       or reset your password using the login page.</p>'',
            ''    '']
      in send_email (JStr to_email) (JStr ''Your TempleHE password was changed'')
          (JStr (base_html ''Password changed'' body)))"

definition send_new_device_email :: "string \<Rightarrow> string \<Rightarrow> string \<Rightarrow> unit op" where
  "send_new_device_email to_email location device =
     (let safe_location = html_escape location;
          safe_device = html_escape device;
          body = join [newline]
           ['''',
            ''    <p>We detected a new sign-in to your TempleHE account.</p>'',
            ''    <ul>'',
            ''      <li><strong>Location:</strong> '' @ safe_location @ ''</li>'',
            ''      <li><strong>Device:</strong> '' @ safe_device @ ''</li>'',
            ''    </ul>'',
            ''    <p>If this was you, no action is needed.</p>'',
            ''    <p>If this wasn't you,'',
            ''       <a href=\"mailto:support@saltrun.net\">reset your password immediately</a>.</p>'',
            ''    '']
      in send_email (JStr to_email) (JStr ''New sign-in to your TempleHE account'')
          (JStr (base_html ''New sign-in detected'' body)))"

definition send_email_change_verification :: "string \<Rightarrow> string \<Rightarrow> unit op" where
  "send_email_change_verification new_email verify_url =
     (let body = join [newline]
           ['''',
            ''    <p>A request was made to change your TempleHE account email to this address.</p>'',
            ''    <p>Click the link below to confirm the change. This link expires in 1 hour.</p>'',
            ''    <p><a href=\"'' @ verify_url @ ''\" style=\"background:#1a1a1a;color:#fff;padding:12px 24px;'',
            ''       text-decoration:none;border-radius:4px;display:inline-block;\">Confirm new email</a></p>'',
            ''    <p>If you didn't request this change, you can ignore this email.</p>'',
            ''    '']
      in send_email (JStr new_email) (JStr ''Confirm your new TempleHE email address'')
          (JStr (base_html ''Confirm email change'' body)))"

definition send_email_change_notification :: "string \<Rightarrow> string \<Rightarrow> unit op" where
  "send_email_change_notification old_email new_email =
     (let masked = html_escape (take 3 new_email @ ''***@'' @ last (split_on (CHR ''@'') new_email));
          body = join [newline]
           ['''',
            ''    <p>Your TempleHE account email is being changed to <strong>'' @ masked @ ''</strong>.</p>'',
            ''    <p>The change will take effect once the new address is confirmed.</p>'',
            ''    <p>If you didn't request this change,'',
            ''       <a href=\"mailto:support@saltrun.net\">contact support immediately</a>.</p>'',
            ''    '']
      in send_email (JStr old_email) (JStr ''Your TempleHE email address is being changed'')
          (JStr (base_html ''Email change requested'' body)))"

definition send_2fa_warning_email :: "string \<Rightarrow> int \<Rightarrow> unit op" where
  "send_2fa_warning_email to_email remaining =
     (let body = join [newline]
           ['''',
            ''    <p>You have only <strong>'' @ int_str remaining @ ''</strong> two-factor authentication'',
            ''       recovery code(s) remaining.</p>'',
            ''    <p>Log in to your account and generate new recovery codes before you run out.</p>'',
            ''    '']
      in send_email (JStr to_email) (JStr (''Low on 2FA recovery codes '' @ em_dash @ '' action needed''))
          (JStr (base_html ''2FA recovery codes running low'' body)))"

definition send_inquiry_confirmation_email :: "string \<Rightarrow> string \<Rightarrow> string \<Rightarrow> unit op" where
  "send_inquiry_confirmation_email to_email buyer_name listing_title =
     (let body = join [newline]
           ['''',
            ''    <p>Hi '' @ buyer_name @ '',</p>'',
            ''    <p>Thank you for your interest in <strong>'' @ listing_title @ ''</strong>.</p>'',
            ''    <p>A Temple Heavy Equipment sales representative will review your inquiry'',
            ''       and reach out to you shortly.</p>'',
            ''    <p>If you have additional questions, you can reply directly to this email'',
            ''       or call us at our main office number.</p>'',
            ''    '']
      in send_email (JStr to_email) (JStr (''Your inquiry '' @ em_dash @ '' '' @ listing_title))
          (JStr (base_html ''Thanks for your inquiry'' body)))"

definition send_inquiry_alert_email ::
  "string \<Rightarrow> string \<Rightarrow> string \<Rightarrow> string \<Rightarrow> string option \<Rightarrow> string \<Rightarrow> string option \<Rightarrow>
   unit op" where
  "send_inquiry_alert_email to_email rep_name buyer_name buyer_email buyer_phone listing_title message =
     (let phone_line = (if str_truthy buyer_phone then (''<p>Phone: '' @ the buyer_phone @ ''</p>'') else '''');
          message_line = (if str_truthy message then (''<blockquote>'' @ the message @ ''</blockquote>'') else '''');
          body = join [newline]
           ['''',
            ''    <p>Hi '' @ rep_name @ '',</p>'',
            ''    <p>A new inquiry was submitted for <strong>'' @ listing_title @ ''</strong>.</p>'',
            ''    <p><strong>'' @ buyer_name @ ''</strong><br>'',
            ''       '' @ buyer_email @ phone_line @ ''</p>'',
            ''    '' @ message_line,
            ''    <p>Log in to the portal to view the full inquiry and respond.</p>'',
            ''    '']
      in send_email (JStr to_email) (JStr (''New inquiry: '' @ listing_title))
          (JStr (base_html ''New listing inquiry'' body)))"

definition send_walkin_invite_email :: "string \<Rightarrow> string \<Rightarrow> string \<Rightarrow> string \<Rightarrow> unit op" where
  "send_walkin_invite_email to_email register_url customer_name inviter_name =
     (let button_style = ''background:#1a1a1a;color:#fff;padding:12px 24px;'' @
            ''text-decoration:none;border-radius:4px;display:inline-block;'';
          body = join [newline]
           ['''',
            ''    <p>Hi '' @ customer_name @ '',</p>'',
            ''    <p>'' @ inviter_name @ '' from Temple Heavy Equipment created a customer'',
            ''       account for you and invited you to set up portal access so you'',
            ''       can track your equipment submissions online.</p>'',
            ''    <p><a href=\"'' @ register_url @ ''\" style=\"'' @ button_style @ ''\">Set up your portal account</a></p>'',
            ''    <p>This invite was sent to <strong>'' @ to_email @ ''</strong>. If you didn't expect this,'',
            ''       feel free to ignore the message.</p>'',
            ''    '']
      in send_email (JStr to_email) (JStr ''You're invited to the Temple Heavy Equipment customer portal'')
          (JStr (base_html ''Set up your TempleHE portal account'' body)))"


text \<open>User input that went through the escape cannot open or close a tag or an attribute.\<close>

lemma html_escape_safe:
  "c \<in> set (html_escape s) \<Longrightarrow> c \<noteq> CHR ''<'' \<and> c \<noteq> CHR ''>'' \<and> c \<noteq> CHR 0x22 \<and> c \<noteq> CHR 0x27"
  by (auto simp: html_escape_def html_escape_char_def split: if_splits)

lemmas mail_defs = send_verification_email_def send_password_reset_email_def
  send_password_changed_email_def send_new_device_email_def send_email_change_verification_def
  send_email_change_notification_def send_2fa_warning_email_def

end
