(* ===== verification/RateLimit.thy ===== *)
theory RateLimit
  imports Models
begin

section \<open>Rate limiting\<close>

text \<open>
  \<^verbatim>\<open>api/middleware/rate_limit.py\<close>: fixed windows counted in a table. The limiters are
  dependencies of a route and run in the transaction of the request.
\<close>

subsection \<open>A request\<close>

text \<open>
  What the handlers read of an HTTP request. Header names are kept in lower case;
  \<open>rq_json\<close> is nothing when the body is not JSON.
\<close>

record request =
  rq_headers :: "(string \<times> string) list"
  rq_client_host :: "string option"
  rq_cookies :: "(string \<times> string) list"
  rq_base_url :: string
  rq_json :: "json option"

definition header_of :: "request \<Rightarrow> string \<Rightarrow> string option" where
  "header_of rq name = map_of (rq_headers rq) (lower name)"

definition get_client_ip :: "request \<Rightarrow> string" where
  "get_client_ip rq =
     (if str_truthy (header_of rq ''CF-Connecting-IP'') then strip (the (header_of rq ''CF-Connecting-IP''))
      else if str_truthy (header_of rq ''X-Forwarded-For'')
      then strip (hd (split_on (CHR '','') (the (header_of rq ''X-Forwarded-For''))))
      else (case rq_client_host rq of Some h \<Rightarrow> h | None \<Rightarrow> ''unknown''))"

subsection \<open>The counter\<close>

definition window_start_of :: "datetime \<Rightarrow> int \<Rightarrow> datetime" where
  "window_start_of t window_seconds =
     (if window_seconds < 60
      then t - dt_micro t - seconds (dt_second t) + seconds ((dt_second t div window_seconds) * window_seconds)
      else
        let m = window_seconds div 60
        in t - dt_micro t - seconds (dt_second t) - minutes (dt_minute t) + minutes ((dt_minute t div m) * m))"

text \<open>\<^verbatim>\<open>int((window_start + window - now).total_seconds())\<close>, which truncates towards zero.\<close>

definition retry_after :: "datetime \<Rightarrow> int \<Rightarrow> int" where
  "retry_after t window_seconds =
     (let d = window_start_of t window_seconds + seconds window_seconds - t
      in if 0 \<le> d then d div 1000000 else - ((- d) div 1000000))"

definition rate_row :: "string \<Rightarrow> datetime \<Rightarrow> rate_limit_counter \<Rightarrow> bool" where
  "rate_row key w c = (rlc_key c = key \<and> rlc_window_start c = w)"

definition upsert_counter :: "uuid \<Rightarrow> string \<Rightarrow> datetime \<Rightarrow> unit op" where
  "upsert_counter row_id key w =
     writes (\<lambda>s. s\<lparr>rate_limit_counters :=
       (if \<exists>c \<in> set (rate_limit_counters s). rate_row key w c
        then update_where (rate_row key w) (\<lambda>c. c\<lparr>rlc_count := rlc_count c + 1\<rparr>) (rate_limit_counters s)
        else rate_limit_counters s @
          [\<lparr>rlc_id = row_id, rlc_key = key, rlc_window_start = w, rlc_count = 1\<rparr>])\<rparr>)"

definition check_rate_limit :: "env \<Rightarrow> string \<Rightarrow> int \<Rightarrow> int \<Rightarrow> unit op" where
  "check_rate_limit E key limit window_seconds =
     bind now (\<lambda>t.
     let w = window_start_of t window_seconds
     in bind (uuid4 E) (\<lambda>row_id.
        seq (upsert_counter row_id key w)
        (bind (bind (reads (\<lambda>s. filter (rate_row key w) (rate_limit_counters s))) scalar_one) (\<lambda>row.
         require (rlc_count row \<le> limit)
           (HTTPException 429 ''Too many requests. Please try again later.''
              [(''Retry-After'', int_str (max (retry_after t window_seconds) 1))])))))"

subsection \<open>Limiters\<close>

definition rate_limit_by_ip :: "env \<Rightarrow> int \<Rightarrow> int \<Rightarrow> string \<Rightarrow> request \<Rightarrow> unit op" where
  "rate_limit_by_ip E limit window_seconds endpoint rq =
     check_rate_limit E (endpoint @ ''_ip:'' @ get_client_ip rq) limit window_seconds"

text \<open>\<^verbatim>\<open>str(body.get(k, ""))\<close>, nothing when the body cannot be read or is not an object.\<close>

definition body_text :: "env \<Rightarrow> request \<Rightarrow> string \<Rightarrow> string option" where
  "body_text E rq k =
     (case rq_json rq of
        Some (JObj kvs) \<Rightarrow> Some (case map_of kvs k of None \<Rightarrow> '''' | Some v \<Rightarrow> py_str E v)
      | _ \<Rightarrow> None)"

definition rate_limit_by_email :: "env \<Rightarrow> int \<Rightarrow> int \<Rightarrow> string \<Rightarrow> request \<Rightarrow> unit op" where
  "rate_limit_by_email E limit window_seconds endpoint rq =
     (let email = (case body_text E rq ''email'' of None \<Rightarrow> ''unknown'' | Some x \<Rightarrow> lower x)
      in if email = '''' then ret ()
         else check_rate_limit E (endpoint @ ''_email:'' @ email) limit window_seconds)"

definition rate_limit_by_partial_token :: "env \<Rightarrow> int \<Rightarrow> int \<Rightarrow> string \<Rightarrow> request \<Rightarrow> unit op" where
  "rate_limit_by_partial_token E limit window_seconds endpoint rq =
     (let partial_token = (case body_text E rq ''partial_token'' of None \<Rightarrow> '''' | Some x \<Rightarrow> x)
      in if partial_token = '''' then ret ()
         else check_rate_limit E (endpoint @ ''_token:'' @ take 16 (sha256_hex E partial_token))
                limit window_seconds)"

definition login_ip_limiter :: "env \<Rightarrow> request \<Rightarrow> unit op" where
  "login_ip_limiter E = rate_limit_by_ip E 10 60 ''login''"

definition login_email_limiter :: "env \<Rightarrow> request \<Rightarrow> unit op" where
  "login_email_limiter E = rate_limit_by_email E 10 900 ''login''"

definition register_ip_limiter :: "env \<Rightarrow> request \<Rightarrow> unit op" where
  "register_ip_limiter E = rate_limit_by_ip E 5 3600 ''register''"

definition reset_ip_limiter :: "env \<Rightarrow> request \<Rightarrow> unit op" where
  "reset_ip_limiter E = rate_limit_by_ip E 10 3600 ''password_reset''"

definition reset_email_limiter :: "env \<Rightarrow> request \<Rightarrow> unit op" where
  "reset_email_limiter E = rate_limit_by_email E 3 3600 ''password_reset''"

definition totp_ip_limiter :: "env \<Rightarrow> request \<Rightarrow> unit op" where
  "totp_ip_limiter E = rate_limit_by_ip E 10 60 ''2fa_verify''"

definition totp_partial_token_limiter :: "env \<Rightarrow> request \<Rightarrow> unit op" where
  "totp_partial_token_limiter E = rate_limit_by_partial_token E 5 300 ''2fa_verify''"

definition recovery_ip_limiter :: "env \<Rightarrow> request \<Rightarrow> unit op" where
  "recovery_ip_limiter E = rate_limit_by_ip E 5 3600 ''2fa_recovery''"

definition recovery_partial_token_limiter :: "env \<Rightarrow> request \<Rightarrow> unit op" where
  "recovery_partial_token_limiter E = rate_limit_by_partial_token E 3 300 ''2fa_recovery''"

definition refresh_ip_limiter :: "env \<Rightarrow> request \<Rightarrow> unit op" where
  "refresh_ip_limiter E = rate_limit_by_ip E 60 60 ''refresh''"

definition resend_email_limiter :: "env \<Rightarrow> request \<Rightarrow> unit op" where
  "resend_email_limiter E = rate_limit_by_email E 3 3600 ''resend_verification''"

end
