(* ===== verification/Accounts.thy ===== *)
theory Accounts
  imports Mails RateLimit Roles AppConfig
begin

section \<open>Accounts\<close>

text \<open>
  \<^verbatim>\<open>api/services/session_service.py\<close>, \<^verbatim>\<open>legal_service.py\<close>, \<^verbatim>\<open>auth_service.py\<close> and
  \<^verbatim>\<open>account_deletion_service.py\<close>. Hashing, signing of tokens, the cipher of the TOTP secrets and the
  time-based codes are parameters; the handlers around them are not. The IP address and the
  user agent of an audit row are not kept.
\<close>

subsection \<open>Refresh tokens\<close>

definition hash_token :: "env \<Rightarrow> string \<Rightarrow> string" where
  "hash_token E raw_token = sha256_hex E raw_token"

definition issue_refresh_token ::
  "env \<Rightarrow> uuid \<Rightarrow> string option \<Rightarrow> string option \<Rightarrow> string op" where
  "issue_refresh_token E user_id ip_address user_agent =
     bind (token_hex E 64) (\<lambda>raw_token.
     bind now (\<lambda>t.
     bind (uuid4 E) (\<lambda>i.
     bind (reads (\<lambda>s. \<exists>x \<in> set (user_sessions s). ses_token_hash x = hash_token E raw_token)) (\<lambda>taken.
     seq (require (\<not> taken) (IntegrityError ''user_sessions_token_hash_key''))
     (seq (writes (\<lambda>s. s\<lparr>user_sessions := user_sessions s @
            [\<lparr>ses_id = i, ses_user_id = user_id, ses_token_hash = hash_token E raw_token,
              ses_expires_at = t + days (cfg_refresh_token_days E), ses_revoked_at = None,
              ses_ip_address = ip_address, ses_user_agent = user_agent\<rparr>]\<rparr>))
       (ret raw_token))))))"

definition revoke_session :: "uuid \<Rightarrow> unit op" where
  "revoke_session i =
     bind now (\<lambda>t.
     writes (\<lambda>s. s\<lparr>user_sessions := update_where (\<lambda>x. ses_id x = i)
       (\<lambda>x. x\<lparr>ses_revoked_at := Some t\<rparr>) (user_sessions s)\<rparr>))"

definition validate_and_rotate ::
  "env \<Rightarrow> string \<Rightarrow> string option \<Rightarrow> string option \<Rightarrow> (uuid \<times> string) option op" where
  "validate_and_rotate E raw_token ip_address user_agent =
     bind now (\<lambda>t.
     bind (select_one user_sessions (\<lambda>x. ses_token_hash x = hash_token E raw_token \<and>
             ses_revoked_at x = None \<and> ses_expires_at x > t)) (\<lambda>found.
     case found of
       None \<Rightarrow> ret None
     | Some session \<Rightarrow>
         seq (revoke_session (ses_id session))
         (bind (issue_refresh_token E (ses_user_id session) ip_address user_agent) (\<lambda>new_token.
          ret (Some (ses_user_id session, new_token))))))"

definition revoke_refresh_token :: "env \<Rightarrow> string \<Rightarrow> unit op" where
  "revoke_refresh_token E raw_token =
     bind (select_one user_sessions (\<lambda>x. ses_token_hash x = hash_token E raw_token \<and>
             ses_revoked_at x = None)) (\<lambda>found.
     case found of None \<Rightarrow> ret () | Some session \<Rightarrow> revoke_session (ses_id session))"

definition revoke_user_sessions :: "uuid \<Rightarrow> unit op" where
  "revoke_user_sessions user_id =
     bind now (\<lambda>t.
     writes (\<lambda>s. s\<lparr>user_sessions :=
       update_where (\<lambda>x. ses_user_id x = user_id \<and> ses_revoked_at x = None)
         (\<lambda>x. x\<lparr>ses_revoked_at := Some t\<rparr>) (user_sessions s)\<rparr>))"

subsection \<open>Terms and privacy\<close>

definition read_app_config_version :: "env \<Rightarrow> string \<Rightarrow> string op" where
  "read_app_config_version E key =
     bind (get_typed key) (\<lambda>version.
     seq (require (json_truthy version)
            (http 500 (''Legal configuration missing or malformed ('' @ key @ ''). Contact support.'')))
       (ret (py_str E version)))"

definition get_current_versions :: "env \<Rightarrow> (string \<times> string) op" where
  "get_current_versions E =
     bind (read_app_config_version E (ks_name TOS_CURRENT_VERSION)) (\<lambda>tos.
     bind (read_app_config_version E (ks_name PRIVACY_CURRENT_VERSION)) (\<lambda>privacy.
     ret (tos, privacy)))"

definition save_user :: "uuid \<Rightarrow> (user \<Rightarrow> user) \<Rightarrow> unit op" where
  "save_user i f = writes (\<lambda>s. s\<lparr>users := update_where (\<lambda>u. usr_id u = i) f (users s)\<rparr>)"

definition add_consent ::
  "env \<Rightarrow> uuid \<Rightarrow> string \<Rightarrow> string \<Rightarrow> string option \<Rightarrow> string option \<Rightarrow> unit op" where
  "add_consent E user_id consent_type version ip_address user_agent =
     bind now (\<lambda>t.
     bind (uuid4 E) (\<lambda>i.
     writes (\<lambda>s. s\<lparr>consent_versions := consent_versions s @
       [\<lparr>cv_id = i, cv_user_id = user_id, cv_consent_type = consent_type, cv_version = version,
         cv_accepted_at = t, cv_ip_address = ip_address, cv_user_agent = user_agent\<rparr>]\<rparr>)))"

definition record_acceptance ::
  "env \<Rightarrow> uuid \<Rightarrow> string \<Rightarrow> string \<Rightarrow> string option \<Rightarrow> string option \<Rightarrow> unit op" where
  "record_acceptance E user_id tos_version privacy_version ip_address user_agent =
     bind now (\<lambda>t.
     seq (add_consent E user_id ''tos'' tos_version ip_address user_agent)
     (seq (add_consent E user_id ''privacy'' privacy_version ip_address user_agent)
        (save_user user_id (\<lambda>u. u\<lparr>usr_tos_version := Some tos_version, usr_tos_accepted_at := Some t,
           usr_privacy_version := Some privacy_version, usr_privacy_accepted_at := Some t\<rparr>))))"

definition accept_current_versions ::
  "env \<Rightarrow> user \<Rightarrow> string \<Rightarrow> string \<Rightarrow> string option \<Rightarrow> string option \<Rightarrow> unit op" where
  "accept_current_versions E user submitted_tos submitted_privacy ip_address user_agent =
     bind (get_current_versions E) (\<lambda>(current_tos, current_privacy).
     seq (require (submitted_tos = current_tos \<and> submitted_privacy = current_privacy)
            (http 409 ''Terms have been updated. Please refresh and review the latest versions.''))
       (record_acceptance E (usr_id user) current_tos current_privacy ip_address user_agent))"

definition requires_reaccept :: "user \<Rightarrow> string \<Rightarrow> string \<Rightarrow> bool" where
  "requires_reaccept user current_tos current_privacy =
     (usr_tos_version user \<noteq> Some current_tos \<or> usr_privacy_version user \<noteq> Some current_privacy)"

subsection \<open>Passwords, tokens, TOTP secrets\<close>

definition hash_password :: "env \<Rightarrow> string \<Rightarrow> string op" where
  "hash_password E password =
     (\<lambda>s. (Inr (bcrypt_hash E (draws s) password), s\<lparr>draws := Suc (draws s)\<rparr>))"

definition password_ok :: "env \<Rightarrow> user \<Rightarrow> string \<Rightarrow> bool" where
  "password_ok E user password \<longleftrightarrow>
     str_truthy (usr_password_hash user) \<and> bcrypt_check E password (the (usr_password_hash user))"

definition create_signed_token :: "env \<Rightarrow> (string \<times> json) list \<Rightarrow> int \<Rightarrow> string op" where
  "create_signed_token E payload expiry =
     bind now (\<lambda>t. ret (jwt_encode E (payload @ [(''exp'', JInt ((t + expiry) div 1000000))])))"

definition create_access_token :: "env \<Rightarrow> user \<Rightarrow> string \<Rightarrow> string op" where
  "create_access_token E user slug =
     create_signed_token E [(''sub'', JStr (uuid_str (usr_id user))), (''email'', JStr (usr_email user)),
       (''role'', JStr slug), (''type'', JStr ''access'')] (minutes (cfg_access_token_minutes E))"

definition create_partial_token :: "env \<Rightarrow> uuid \<Rightarrow> string op" where
  "create_partial_token E user_id =
     create_signed_token E [(''sub'', JStr (uuid_str user_id)), (''type'', JStr ''partial'')] (minutes 5)"

definition decode_token :: "env \<Rightarrow> string \<Rightarrow> string \<Rightarrow> (string \<times> json) list op" where
  "decode_token E token expected_type =
     bind now (\<lambda>t.
     case jwt_decode E t token of
       None \<Rightarrow> raise (InvalidTokenError ''invalid token'')
     | Some payload \<Rightarrow>
         seq (require (obj_get payload ''type'' = JStr expected_type) (InvalidTokenError ''wrong token type''))
           (ret payload))"

text \<open>\<^verbatim>\<open>except jwt.PyJWTError as exc: raise HTTPException(...) from exc\<close>.\<close>

definition decode_or :: "env \<Rightarrow> string \<Rightarrow> string \<Rightarrow> exn \<Rightarrow> (string \<times> json) list op" where
  "decode_or E token expected_type e =
     bind (attempt (decode_token E token expected_type)) (\<lambda>r.
     case r of Inr payload \<Rightarrow> ret payload | Inl _ \<Rightarrow> raise e)"

definition subject_id :: "(string \<times> json) list \<Rightarrow> uuid op" where
  "subject_id payload =
     (case map_of payload ''sub'' of
        None \<Rightarrow> raise (KeyError ''sub'')
      | Some (JStr x) \<Rightarrow>
          (case uuid_parse x of
             None \<Rightarrow> raise (ValueError ''badly formed hexadecimal UUID string'')
           | Some i \<Rightarrow> ret i)
      | Some JNull \<Rightarrow> raise (TypeError ''one of the hex, bytes, bytes_le, fields, or int arguments must be given'')
      | Some _ \<Rightarrow> raise (AttributeError ''replace''))"

definition find_user :: "uuid \<Rightarrow> user option op" where
  "find_user i = select_one users (\<lambda>u. usr_id u = i)"

definition find_email :: "string \<Rightarrow> user option op" where
  "find_email email = select_one users (\<lambda>u. usr_email u = email)"

definition resolve_totp_keys :: "env \<Rightarrow> exn + string list" where
  "resolve_totp_keys E =
     (let raw = (if strip (cfg_totp_encryption_keys E) \<noteq> ''''
                 then strip (cfg_totp_encryption_keys E)
                 else strip (cfg_totp_encryption_key E));
          keys = map strip (filter (\<lambda>k. strip k \<noteq> '''') (split_on (CHR '','') raw))
      in if raw = '''' then Inl (RuntimeError ''totp_encryption_keys (or totp_encryption_key) must be set; neither is configured.'')
         else if keys = [] then Inl (RuntimeError ''totp_encryption_keys parsed to empty list.'')
         else Inr keys)"

definition totp_fernet :: "env \<Rightarrow> string list op" where
  "totp_fernet E =
     (case resolve_totp_keys E of
        Inl e \<Rightarrow> raise e
      | Inr keys \<Rightarrow> if list_all (fernet_valid_key E) keys then ret keys
                     else raise (ValueError ''Fernet key must be 32 url-safe base64-encoded bytes.''))"

definition encrypt_totp_secret :: "env \<Rightarrow> string \<Rightarrow> string op" where
  "encrypt_totp_secret E secret =
     bind (totp_fernet E) (\<lambda>keys.
     bind (reads draws) (\<lambda>n.
     seq (writes (\<lambda>s. s\<lparr>draws := Suc (draws s)\<rparr>))
       (ret (fernet_encrypt E (hd keys) n secret))))"

definition decrypt_totp_secret :: "env \<Rightarrow> string \<Rightarrow> string op" where
  "decrypt_totp_secret E enc =
     bind (totp_fernet E) (\<lambda>keys.
     case multi_decrypt E keys enc of Some p \<Rightarrow> ret p | None \<Rightarrow> raise FernetInvalidToken)"

definition hash_recovery_code :: "env \<Rightarrow> string \<Rightarrow> string" where
  "hash_recovery_code E code = sha256_hex E code"

definition audit_user :: "string \<Rightarrow> string option \<Rightarrow> uuid \<Rightarrow> json option \<Rightarrow> unit op" where
  "audit_user event_type actor_role user_id after_state =
     add_audit \<lparr>aud_event_type = event_type, aud_actor_id = Some user_id, aud_actor_role = actor_role,
       aud_target_type = Some ''user'', aud_target_id = Some user_id, aud_before_state = None,
       aud_after_state = after_state\<rparr>"

definition device_fingerprint :: "env \<Rightarrow> string option \<Rightarrow> string option \<Rightarrow> string" where
  "device_fingerprint E user_agent ip_address =
     (let ua_family = take 50 (str_or user_agent ''unknown'');
          ip_prefix = join ''.'' (take 3 (split_on (CHR ''.'') (str_or ip_address ''0.0.0.0'')))
      in sha256_hex E (ua_family @ '':'' @ ip_prefix))"

definition check_new_device :: "env \<Rightarrow> user \<Rightarrow> string option \<Rightarrow> string option \<Rightarrow> bool op" where
  "check_new_device E user ip_address user_agent =
     (let fp = device_fingerprint E user_agent ip_address
      in bind (uuid4 E) (\<lambda>i.
         bind (reads (\<lambda>s. \<exists>d \<in> set (known_devices s). kd_user_id d = usr_id user \<and> kd_fingerprint d = fp)) (\<lambda>known.
         if known then ret False
         else seq (writes (\<lambda>s. s\<lparr>known_devices := known_devices s @
                [\<lparr>kd_id = i, kd_user_id = usr_id user, kd_fingerprint = fp\<rparr>]\<rparr>)) (ret True))))"

definition get_role_slug :: "user \<Rightarrow> string op" where
  "get_role_slug user =
     bind (select_one roles (\<lambda>r. role_id r = usr_role_id user)) (\<lambda>found.
     ret (case found of Some r \<Rightarrow> role_slug r | None \<Rightarrow> ''customer''))"

subsection \<open>Registration\<close>

definition new_user :: "uuid \<Rightarrow> string \<Rightarrow> string \<Rightarrow> string \<Rightarrow> string \<Rightarrow> uuid \<Rightarrow> datetime \<Rightarrow> user" where
  "new_user i email hash first_name last_name rid t =
     \<lparr>usr_id = i, usr_email = lower email, usr_password_hash = Some hash,
      usr_first_name = strip first_name, usr_last_name = strip last_name, usr_role_id = rid,
      usr_status = ''pending_verification'', usr_totp_secret_enc = None, usr_totp_enabled = False,
      usr_tos_accepted_at = None, usr_tos_version = None, usr_privacy_accepted_at = None,
      usr_privacy_version = None, usr_failed_login_count = 0, usr_locked_until = None,
      usr_google_id = None, usr_profile_photo_url = None, usr_deletion_requested_at = None,
      usr_deletion_grace_until = None, usr_created_at = t\<rparr>"

definition insert_user :: "env \<Rightarrow> string \<Rightarrow> string \<Rightarrow> string \<Rightarrow> string \<Rightarrow> uuid \<Rightarrow> user op" where
  "insert_user E email password first_name last_name rid =
     bind (hash_password E password) (\<lambda>hash.
     bind (uuid4 E) (\<lambda>i.
     bind now (\<lambda>t.
     seq (writes (\<lambda>s. s\<lparr>users := users s @ [new_user i email hash first_name last_name rid t]\<rparr>))
       (ret (new_user i email hash first_name last_name rid t)))))"

definition send_verification :: "env \<Rightarrow> user \<Rightarrow> string \<Rightarrow> unit op" where
  "send_verification E user base_url =
     bind (create_signed_token E [(''sub'', JStr (uuid_str (usr_id user))), (''type'', JStr ''verify_email'')]
             (seconds (24 * 3600))) (\<lambda>token.
     send_verification_email (usr_email user) (base_url @ ''/auth/verify-email?token='' @ token))"

definition after_insert ::
  "env \<Rightarrow> user \<Rightarrow> string \<Rightarrow> string \<Rightarrow> string \<Rightarrow> string option \<Rightarrow> string option \<Rightarrow> unit op" where
  "after_insert E user tos privacy base_url ip_address user_agent =
     seq (record_acceptance E (usr_id user) tos privacy ip_address user_agent)
     (seq (send_verification E user base_url) (audit_user ''user.registered'' None (usr_id user) None))"

record registration =
  reg_email :: string
  reg_password :: string
  reg_first_name :: string
  reg_last_name :: string
  reg_tos_version :: string
  reg_privacy_version :: string

definition register_user ::
  "env \<Rightarrow> registration \<Rightarrow> string \<Rightarrow> string option \<Rightarrow> string option \<Rightarrow> user op" where
  "register_user E r base_url ip_address user_agent =
     bind (find_email (lower (reg_email r))) (\<lambda>existing.
     seq (require (existing = None) (http 409 ''An account with this email already exists.''))
     (bind (get_current_versions E) (\<lambda>(current_tos, current_privacy).
      seq (require (reg_tos_version r = current_tos \<and> reg_privacy_version r = current_privacy)
             (http 409 ''Terms have been updated. Please refresh and review the latest versions.''))
      (bind (select_one roles (\<lambda>x. role_slug x = ''customer'')) (\<lambda>found.
       case found of
         None \<Rightarrow> raise (http 500 ''Role configuration error. Contact support.'')
       | Some rl \<Rightarrow>
           bind (insert_user E (reg_email r) (reg_password r) (reg_first_name r) (reg_last_name r) (role_id rl)) (\<lambda>user.
           seq (grant user ''customer'' None)
           (seq (after_insert E user current_tos current_privacy base_url ip_address user_agent)
              (ret user))))))))"

definition verify_email :: "env \<Rightarrow> string \<Rightarrow> user op" where
  "verify_email E token =
     bind (decode_or E token ''verify_email'' (http 400 ''Verification link is invalid or has expired.'')) (\<lambda>payload.
     bind (subject_id payload) (\<lambda>user_id.
     bind (find_user user_id) (\<lambda>found.
     case found of
       None \<Rightarrow> raise (http 400 ''Verification link is invalid or has expired.'')
     | Some user \<Rightarrow>
         seq (require (usr_status user = ''pending_verification'')
                (http 400 ''Verification link is invalid or has expired.''))
         (seq (save_user (usr_id user) (\<lambda>u. u\<lparr>usr_status := ''active''\<rparr>))
         (seq (audit_user ''user.email_verified'' None (usr_id user) None)
            (ret (user\<lparr>usr_status := ''active''\<rparr>)))))))"

definition resend_verification :: "env \<Rightarrow> string \<Rightarrow> string \<Rightarrow> unit op" where
  "resend_verification E email base_url =
     bind (find_email (lower email)) (\<lambda>found.
     case found of
       None \<Rightarrow> ret ()
     | Some user \<Rightarrow>
         if usr_status user \<noteq> ''pending_verification'' then ret ()
         else send_verification E user base_url)"

subsection \<open>Login\<close>

datatype login_result =
    FullSession (login_access: string) (login_refresh: string)
  | Needs2FA (login_partial: string)

definition record_failed_attempt :: "user \<Rightarrow> unit op" where
  "record_failed_attempt user =
     bind now (\<lambda>t.
     let n = usr_failed_login_count user + 1
     in seq (save_user (usr_id user) (\<lambda>u. u\<lparr>usr_failed_login_count := n\<rparr>))
        (seq (audit_user ''user.login_failed'' None (usr_id user) None)
        (when_true (n \<ge> 5)
          (seq (save_user (usr_id user) (\<lambda>u. u\<lparr>usr_locked_until := Some (t + minutes 30),
                  usr_failed_login_count := 0\<rparr>))
             (audit_user ''user.account_locked'' None (usr_id user) None)))))"

definition is_locked :: "datetime \<Rightarrow> user \<Rightarrow> bool" where
  "is_locked t user = (case usr_locked_until user of Some l \<Rightarrow> l > t | None \<Rightarrow> False)"

definition complete_login :: "env \<Rightarrow> user \<Rightarrow> string option \<Rightarrow> string option \<Rightarrow> login_result op" where
  "complete_login E user ip_address user_agent =
     seq (save_user (usr_id user) (\<lambda>u. u\<lparr>usr_failed_login_count := 0, usr_locked_until := None\<rparr>))
     (bind (get_role_slug user) (\<lambda>slug.
      bind (check_new_device E user ip_address user_agent) (\<lambda>is_new_device.
      seq (when_true is_new_device
             (send_new_device_email (usr_email user) (str_or ip_address ''unknown location'')
                (take 80 (str_or user_agent ''unknown device''))))
      (seq (audit_user ''user.login'' (Some slug) (usr_id user) None)
      (if usr_totp_enabled user
       then bind (create_partial_token E (usr_id user)) (\<lambda>p. ret (Needs2FA p))
       else bind (create_access_token E user slug) (\<lambda>a.
            bind (issue_refresh_token E (usr_id user) ip_address user_agent) (\<lambda>r.
            ret (FullSession a r))))))))"

definition login :: "env \<Rightarrow> string \<Rightarrow> string \<Rightarrow> string option \<Rightarrow> string option \<Rightarrow> login_result op" where
  "login E email password ip_address user_agent =
     bind (find_email (lower email)) (\<lambda>found.
     bind now (\<lambda>t.
     case found of
       None \<Rightarrow> raise (http 401 ''Incorrect email or password.'')
     | Some user \<Rightarrow>
         seq (require (\<not> is_locked t user)
                (http 423 (''This account has been temporarily locked due to repeated failed login attempts. '' @
                   ''Try again in 30 minutes or reset your password.'')))
         (seq (require (usr_status user \<noteq> ''pending_verification'')
                 (http 403 ''Please verify your email address before logging in.''))
         (seq (require (usr_status user = ''active'')
                 (http 403 ''Your account is not active. Contact support.''))
         (if password_ok E user password then complete_login E user ip_address user_agent
          else seq (record_failed_attempt user) (raise (http 401 ''Incorrect email or password.'')))))))"

subsection \<open>Refresh and logout\<close>

definition refresh_access_token ::
  "env \<Rightarrow> string \<Rightarrow> string option \<Rightarrow> string option \<Rightarrow> (string \<times> string) op" where
  "refresh_access_token E raw_refresh_token ip_address user_agent =
     bind (validate_and_rotate E raw_refresh_token ip_address user_agent) (\<lambda>result.
     case result of
       None \<Rightarrow> raise (http 401 ''Refresh token is invalid or expired.'')
     | Some (user_id, new_refresh_token) \<Rightarrow>
         bind (find_user user_id) (\<lambda>found.
         case found of
           None \<Rightarrow> raise (http 401 ''Session is no longer valid.'')
         | Some user \<Rightarrow>
             seq (require (usr_status user = ''active'') (http 401 ''Session is no longer valid.''))
             (bind (get_role_slug user) (\<lambda>slug.
              bind (create_access_token E user slug) (\<lambda>a. ret (a, new_refresh_token))))))"

definition logout_token :: "env \<Rightarrow> string \<Rightarrow> unit op" where
  "logout_token E raw_refresh_token = revoke_refresh_token E raw_refresh_token"

subsection \<open>Password reset\<close>

definition request_password_reset :: "env \<Rightarrow> string \<Rightarrow> string \<Rightarrow> unit op" where
  "request_password_reset E email base_url =
     bind (find_email (lower email)) (\<lambda>found.
     case found of
       None \<Rightarrow> ret ()
     | Some user \<Rightarrow>
         if usr_status user \<notin> {''active'', ''locked'', ''pending_verification''} then ret ()
         else
           bind (create_signed_token E [(''sub'', JStr (uuid_str (usr_id user))), (''type'', JStr ''reset_password'')]
                   (minutes 30)) (\<lambda>token.
           seq (send_password_reset_email (usr_email user) (base_url @ ''/auth/reset-password?token='' @ token))
             (audit_user ''user.password_reset_requested'' None (usr_id user) None)))"

definition after_reset :: "string \<Rightarrow> user \<Rightarrow> user" where
  "after_reset hash u = u\<lparr>usr_password_hash := Some hash, usr_failed_login_count := 0, usr_locked_until := None,
     usr_status := (if usr_status u \<in> {''locked'', ''pending_verification''} then ''active'' else usr_status u)\<rparr>"

definition confirm_password_reset :: "env \<Rightarrow> string \<Rightarrow> string \<Rightarrow> unit op" where
  "confirm_password_reset E token new_password =
     bind (decode_or E token ''reset_password'' (http 400 ''Password reset link is invalid or has expired.'')) (\<lambda>payload.
     bind (subject_id payload) (\<lambda>user_id.
     bind (find_user user_id) (\<lambda>found.
     case found of
       None \<Rightarrow> raise (http 400 ''Password reset link is invalid or has expired.'')
     | Some user \<Rightarrow>
         bind (hash_password E new_password) (\<lambda>hash.
         seq (save_user (usr_id user) (after_reset hash))
         (seq (revoke_user_sessions (usr_id user))
         (seq (send_password_changed_email (usr_email user))
            (audit_user ''user.password_reset_confirmed'' None (usr_id user) None)))))))"

subsection \<open>Change of the e-mail address\<close>

definition initiate_email_change :: "env \<Rightarrow> uuid \<Rightarrow> string \<Rightarrow> string \<Rightarrow> string \<Rightarrow> unit op" where
  "initiate_email_change E user_id new_email current_password base_url =
     bind (find_user user_id) (\<lambda>found.
     case found of
       None \<Rightarrow> raise (http 404 ''User not found.'')
     | Some user \<Rightarrow>
         seq (require (password_ok E user current_password) (http 403 ''Current password is incorrect.''))
         (bind (find_email (lower new_email)) (\<lambda>existing.
          seq (require (existing = None) (http 409 ''This email address is already in use.''))
          (bind (create_signed_token E [(''sub'', JStr (uuid_str user_id)),
                   (''new_email'', JStr (lower new_email)), (''type'', JStr ''change_email'')] (seconds 3600)) (\<lambda>token.
           seq (send_email_change_verification new_email (base_url @ ''/auth/change-email/confirm?token='' @ token))
           (seq (send_email_change_notification (usr_email user) new_email)
              (audit_user ''user.email_change_requested'' None user_id None)))))))"

definition confirm_email_change :: "env \<Rightarrow> string \<Rightarrow> unit op" where
  "confirm_email_change E token =
     bind (decode_or E token ''change_email'' (http 400 ''Email change link is invalid or has expired.'')) (\<lambda>payload.
     bind (subject_id payload) (\<lambda>user_id.
     bind (find_user user_id) (\<lambda>found.
     case (found, obj_get payload ''new_email'') of
       (Some user, JStr new_email) \<Rightarrow>
         seq (require (new_email \<noteq> '''') (http 400 ''Email change link is invalid or has expired.''))
         (bind (find_email new_email) (\<lambda>taken.
          seq (require (taken = None) (http 409 ''This email address is already in use.''))
          (seq (save_user (usr_id user) (\<lambda>u. u\<lparr>usr_email := new_email\<rparr>))
          (seq (revoke_user_sessions user_id)
             (audit_user ''user.email_changed'' None user_id
                (Some (JObj [(''new_email'', JStr new_email)])))))))
     | _ \<Rightarrow> raise (http 400 ''Email change link is invalid or has expired.''))))"

subsection \<open>Two factors\<close>

definition setup_2fa :: "env \<Rightarrow> uuid \<Rightarrow> (string \<times> string) op" where
  "setup_2fa E user_id =
     bind (find_user user_id) (\<lambda>found.
     case found of
       None \<Rightarrow> raise (http 404 ''User not found.'')
     | Some user \<Rightarrow>
         seq (require (\<not> usr_totp_enabled user) (http 409 ''Two-factor authentication is already enabled.''))
         (bind (reads draws) (\<lambda>n.
          seq (writes (\<lambda>s. s\<lparr>draws := Suc (draws s)\<rparr>))
          (let secret = random_base32 E n
           in bind (encrypt_totp_secret E secret) (\<lambda>enc.
              seq (save_user (usr_id user) (\<lambda>u. u\<lparr>usr_totp_secret_enc := Some enc\<rparr>))
              (seq (audit_user ''user.2fa_setup_initiated'' None user_id None)
                 (ret (secret, totp_uri E secret (usr_email user)))))))))"

text \<open>The password has to be given again; the failure is audited before the refusal.\<close>

definition reauthenticate :: "env \<Rightarrow> user \<Rightarrow> string \<Rightarrow> unit op" where
  "reauthenticate E user password =
     (if password_ok E user password then ret ()
      else seq (audit_user ''user.2fa_reauth_failed'' None (usr_id user) None)
             (raise (http 401 ''Current password is incorrect.'')))"

definition check_totp :: "env \<Rightarrow> string \<Rightarrow> string \<Rightarrow> unit op" where
  "check_totp E enc totp_code =
     bind (decrypt_totp_secret E enc) (\<lambda>secret.
     bind now (\<lambda>t.
     require (totp_verify E secret totp_code t) (http 400 ''Invalid verification code.'')))"

definition drop_recovery_codes :: "uuid \<Rightarrow> unit op" where
  "drop_recovery_codes user_id =
     writes (\<lambda>s. s\<lparr>recovery_codes := delete_where (\<lambda>c. rc_user_id c = user_id) (recovery_codes s)\<rparr>)"

definition new_recovery_code :: "env \<Rightarrow> string op" where
  "new_recovery_code E = bind (token_hex E 8) (\<lambda>c. ret (upper c))"

primrec draw_codes :: "env \<Rightarrow> nat \<Rightarrow> string list op" where
  "draw_codes E 0 = ret []"
| "draw_codes E (Suc n) = bind (new_recovery_code E) (\<lambda>c. bind (draw_codes E n) (\<lambda>cs. ret (c # cs)))"

definition store_recovery_code :: "env \<Rightarrow> uuid \<Rightarrow> string \<Rightarrow> unit op" where
  "store_recovery_code E user_id code =
     bind (uuid4 E) (\<lambda>i.
     writes (\<lambda>s. s\<lparr>recovery_codes := recovery_codes s @
       [\<lparr>rc_id = i, rc_user_id = user_id, rc_code_hash = hash_recovery_code E code, rc_used_at = None\<rparr>]\<rparr>))"

definition confirm_2fa :: "env \<Rightarrow> uuid \<Rightarrow> string \<Rightarrow> string \<Rightarrow> string list op" where
  "confirm_2fa E user_id totp_code password =
     bind (find_user user_id) (\<lambda>found.
     case found of
       None \<Rightarrow> raise (http 400 ''2FA setup has not been initiated.'')
     | Some user \<Rightarrow>
         seq (require (str_truthy (usr_totp_secret_enc user)) (http 400 ''2FA setup has not been initiated.''))
         (seq (reauthenticate E user password)
         (seq (check_totp E (the (usr_totp_secret_enc user)) totp_code)
         (seq (save_user (usr_id user) (\<lambda>u. u\<lparr>usr_totp_enabled := True\<rparr>))
         (bind (draw_codes E 10) (\<lambda>raw_codes.
          seq (drop_recovery_codes user_id)
          (seq (for_each raw_codes (store_recovery_code E user_id))
          (seq (audit_user ''user.2fa_enabled'' None user_id None)
             (ret raw_codes)))))))))"

definition complete_2fa_login :: "env \<Rightarrow> user \<Rightarrow> (string \<times> string) op" where
  "complete_2fa_login E user =
     bind (get_role_slug user) (\<lambda>slug.
     bind (create_access_token E user slug) (\<lambda>a.
     bind (issue_refresh_token E (usr_id user) None None) (\<lambda>r. ret (a, r))))"

definition verify_2fa :: "env \<Rightarrow> string \<Rightarrow> string \<Rightarrow> (string \<times> string) op" where
  "verify_2fa E partial_token totp_code =
     bind (decode_or E partial_token ''partial'' (http 401 ''Session expired. Please log in again.'')) (\<lambda>payload.
     bind (subject_id payload) (\<lambda>user_id.
     bind (find_user user_id) (\<lambda>found.
     case found of
       None \<Rightarrow> raise (http 401 ''Invalid 2FA state.'')
     | Some user \<Rightarrow>
         seq (require (usr_totp_enabled user \<and> str_truthy (usr_totp_secret_enc user)) (http 401 ''Invalid 2FA state.''))
         (seq (check_totp E (the (usr_totp_secret_enc user)) totp_code)
            (complete_2fa_login E user)))))"

definition unused_codes :: "uuid \<Rightarrow> recovery_code list op" where
  "unused_codes user_id = reads (\<lambda>s. filter (\<lambda>c. rc_user_id c = user_id \<and> rc_used_at c = None) (recovery_codes s))"

definition warn_few_codes :: "uuid \<Rightarrow> int \<Rightarrow> unit op" where
  "warn_few_codes user_id remaining =
     when_true (remaining \<le> 3)
       (bind (find_user user_id) (\<lambda>found.
        case found of None \<Rightarrow> ret () | Some u \<Rightarrow> send_2fa_warning_email (usr_email u) remaining))"

definition recover_2fa :: "env \<Rightarrow> string \<Rightarrow> string \<Rightarrow> (string \<times> string) op" where
  "recover_2fa E partial_token code =
     bind (decode_or E partial_token ''partial'' (http 401 ''Session expired. Please log in again.'')) (\<lambda>payload.
     bind (subject_id payload) (\<lambda>user_id.
     bind (select_one recovery_codes (\<lambda>c. rc_user_id c = user_id \<and>
             rc_code_hash c = hash_recovery_code E (upper (strip code)) \<and> rc_used_at c = None)) (\<lambda>found.
     case found of
       None \<Rightarrow> raise (http 400 ''Invalid or already-used recovery code.'')
     | Some recovery \<Rightarrow>
         bind now (\<lambda>t.
         seq (writes (\<lambda>s. s\<lparr>recovery_codes := update_where (\<lambda>c. rc_id c = rc_id recovery)
                (\<lambda>c. c\<lparr>rc_used_at := Some t\<rparr>) (recovery_codes s)\<rparr>))
         (bind (unused_codes user_id) (\<lambda>remaining.
          seq (warn_few_codes user_id (int (length remaining)))
          (seq (audit_user ''user.2fa_recovery_used'' None user_id None)
          (bind (find_user user_id) (\<lambda>who.
           case who of
             None \<Rightarrow> raise (http 401 ''User not found.'')
           | Some user \<Rightarrow> complete_2fa_login E user)))))))))"

definition disable_2fa :: "env \<Rightarrow> uuid \<Rightarrow> string \<Rightarrow> string \<Rightarrow> unit op" where
  "disable_2fa E user_id totp_code password =
     bind (find_user user_id) (\<lambda>found.
     case found of
       None \<Rightarrow> raise (http 400 ''Two-factor authentication is not enabled.'')
     | Some user \<Rightarrow>
         seq (require (usr_totp_enabled user \<and> str_truthy (usr_totp_secret_enc user))
                (http 400 ''Two-factor authentication is not enabled.''))
         (seq (reauthenticate E user password)
         (seq (check_totp E (the (usr_totp_secret_enc user)) totp_code)
         (seq (save_user (usr_id user) (\<lambda>u. u\<lparr>usr_totp_enabled := False, usr_totp_secret_enc := None\<rparr>))
         (seq (drop_recovery_codes user_id)
            (audit_user ''user.2fa_disabled'' None user_id None))))))"

subsection \<open>Deletion of an account\<close>

definition GRACE_PERIOD_DAYS :: int where "GRACE_PERIOD_DAYS = 30"

definition date_iso :: "datetime \<Rightarrow> string" where "date_iso t = take 10 (isoformat t)"

definition deletion_requested_payload :: "user \<Rightarrow> datetime \<Rightarrow> (string \<times> json) list" where
  "deletion_requested_payload user grace =
     [(''to_email'', JStr (usr_email user)),
      (''subject'', JStr ''Your account deletion request was received''),
      (''html_body'', JStr (''<p>Hi '' @ usr_first_name user @ '',</p>'' @
         ''<p>We received your request to delete your Temple Heavy Equipment account.</p>'' @
         ''<p>Your account is scheduled for deletion on '' @
         ''<strong>'' @ date_iso grace @ ''</strong>. '' @
         ''You can cancel this request from your portal any time before that date.</p>'' @
         ''<p>If you did not request this, sign in and cancel '' @ em_dash @ '' '' @
         ''then change your password.</p>'' @
         ''<p>'' @ em_dash @ '' The Temple Heavy Equipment team</p>'')),
      (''grace_until'', JStr (isoformat grace))]"

definition request_deletion :: "env \<Rightarrow> user \<Rightarrow> user op" where
  "request_deletion E user =
     seq (require (usr_status user \<noteq> ''deleted'') (http 410 ''This account has already been deleted.''))
     (if usr_status user = ''pending_deletion'' \<and> usr_deletion_grace_until user \<noteq> None then ret user
      else
        bind now (\<lambda>t.
        let grace = t + days GRACE_PERIOD_DAYS;
            mark = (\<lambda>u. u\<lparr>usr_status := ''pending_deletion'', usr_deletion_requested_at := Some t,
                     usr_deletion_grace_until := Some grace\<rparr>)
        in seq (save_user (usr_id user) mark)
           (seq (revoke_user_sessions (usr_id user))
           (bind (enqueue E (''account_deletion_requested:'' @ uuid_str (usr_id user) @ '':'' @ date_iso t)
                    (Some (usr_id user)) ''email'' ''account_deletion_requested''
                    (deletion_requested_payload user grace) None) (\<lambda>_.
            ret (mark user))))))"

definition deletion_cancelled_payload :: "user \<Rightarrow> (string \<times> json) list" where
  "deletion_cancelled_payload user =
     [(''to_email'', JStr (usr_email user)),
      (''subject'', JStr ''Account deletion cancelled''),
      (''html_body'', JStr (''<p>Hi '' @ usr_first_name user @ '',</p>'' @
         ''<p>Your pending account deletion has been cancelled. '' @
         ''Your account is active and your data remains intact.</p>'' @
         ''<p>'' @ em_dash @ '' The Temple Heavy Equipment team</p>''))]"

definition reinstated :: "user \<Rightarrow> user" where
  "reinstated u = u\<lparr>usr_status := ''active'', usr_deletion_requested_at := None, usr_deletion_grace_until := None\<rparr>"

definition cancel_deletion :: "env \<Rightarrow> user \<Rightarrow> user op" where
  "cancel_deletion E user =
     seq (require (usr_status user = ''pending_deletion'') (http 409 ''This account is not pending deletion.''))
     (seq (save_user (usr_id user) reinstated)
     (bind now (\<lambda>t.
      bind (enqueue E (''account_deletion_cancelled:'' @ uuid_str (usr_id user) @ '':'' @ isoformat t)
              (Some (usr_id user)) ''email'' ''account_deletion_cancelled''
              (deletion_cancelled_payload user) None) (\<lambda>_.
      ret (reinstated user)))))"

definition scrubbed_customer :: "datetime \<Rightarrow> customer \<Rightarrow> customer" where
  "scrubbed_customer t c =
     c\<lparr>cus_submitter_name := ''[deleted]'', cus_business_name := None, cus_title := None,
       cus_address_street := None, cus_address_city := None, cus_address_state := None,
       cus_address_zip := None, cus_business_phone := None, cus_business_phone_ext := None,
       cus_cell_phone := None, cus_communication_prefs := None, cus_deleted_at := Some t\<rparr>"

definition scrubbed_user :: "user \<Rightarrow> user" where
  "scrubbed_user u =
     u\<lparr>usr_email := ''deleted-'' @ uuid_str (usr_id u) @ ''@deleted.invalid'', usr_first_name := ''[deleted]'',
       usr_last_name := '''', usr_password_hash := None, usr_totp_secret_enc := None,
       usr_totp_enabled := False, usr_google_id := None, usr_profile_photo_url := None,
       usr_status := ''deleted'', usr_deletion_grace_until := None\<rparr>"

definition finalize_deletion_for_user :: "user \<Rightarrow> user op" where
  "finalize_deletion_for_user user =
     (if usr_status user = ''deleted'' then ret user
      else
        bind (select_one customers (\<lambda>c. cus_user_id c = Some (usr_id user))) (\<lambda>found.
        bind now (\<lambda>t.
        seq (case found of
               None \<Rightarrow> ret ()
             | Some c \<Rightarrow> writes (\<lambda>s. s\<lparr>customers := update_where (\<lambda>x. cus_id x = cus_id c)
                           (scrubbed_customer t) (customers s)\<rparr>))
        (seq (save_user (usr_id user) scrubbed_user) (ret (scrubbed_user user))))))"

end
