(* ===== verification/AccountRoutes.thy ===== *)
theory AccountRoutes
  imports Accounts
begin

section \<open>The routes of accounts\<close>

text \<open>
  \<^verbatim>\<open>api/routers/auth.py\<close>, \<^verbatim>\<open>routers/account.py\<close>, \<^verbatim>\<open>routers/legal.py\<close> and the validators of
  \<^verbatim>\<open>schemas/auth.py\<close>. A limiter is a dependency and runs first, in the same transaction as the
  handler. Addresses arrive as the validator of the framework left them.
\<close>

subsection \<open>What a route answers\<close>

record cookie =
  ck_key :: string
  ck_value :: string
  ck_httponly :: bool
  ck_secure :: bool
  ck_samesite :: string
  ck_path :: string
  ck_max_age :: int

record token_response =
  tr_access_token :: string
  tr_refresh_token :: "string option"
  tr_cookie :: "cookie option"

definition REFRESH_COOKIE_NAME :: string where "REFRESH_COOKIE_NAME = ''refresh_token''"
definition REFRESH_COOKIE_PATH :: string where "REFRESH_COOKIE_PATH = ''/api/v1/auth''"

definition X_CLIENT_HEADER :: string where "X_CLIENT_HEADER = ''X-Client''"
definition X_CLIENT_MOBILE_VALUES :: "string list" where "X_CLIENT_MOBILE_VALUES = [''ios'', ''android'']"

definition is_mobile_client :: "request \<Rightarrow> bool" where
  "is_mobile_client rq =
     (lower (case header_of rq X_CLIENT_HEADER of None \<Rightarrow> '''' | Some x \<Rightarrow> x) \<in> set X_CLIENT_MOBILE_VALUES)"

definition refresh_cookie :: "env \<Rightarrow> string \<Rightarrow> cookie" where
  "refresh_cookie E token =
     \<lparr>ck_key = REFRESH_COOKIE_NAME, ck_value = token, ck_httponly = True, ck_secure = cfg_is_production E,
      ck_samesite = ''strict'', ck_path = REFRESH_COOKIE_PATH,
      ck_max_age = cfg_refresh_token_days E * 86400\<rparr>"

definition build_token_response :: "env \<Rightarrow> bool \<Rightarrow> string \<times> string \<Rightarrow> token_response" where
  "build_token_response E is_mobile tokens =
     (case tokens of (access_token, refresh_token) \<Rightarrow>
        if is_mobile
        then \<lparr>tr_access_token = access_token, tr_refresh_token = Some refresh_token, tr_cookie = None\<rparr>
        else \<lparr>tr_access_token = access_token, tr_refresh_token = None,
               tr_cookie = Some (refresh_cookie E refresh_token)\<rparr>)"

definition rstrip_char :: "char \<Rightarrow> string \<Rightarrow> string" where
  "rstrip_char c s = rev (dropWhile (\<lambda>x. x = c) (rev s))"

definition base_url_of :: "env \<Rightarrow> request \<Rightarrow> string" where
  "base_url_of E rq = rstrip_char (CHR ''/'')
     (if cfg_frontend_url E \<noteq> '''' then cfg_frontend_url E else rq_base_url rq)"

definition user_agent_of :: "request \<Rightarrow> string option" where
  "user_agent_of rq = header_of rq ''User-Agent''"

text \<open>A route with \<^verbatim>\<open>CurrentUserDep\<close>.\<close>

definition user_route :: "env \<Rightarrow> string option \<Rightarrow> (user \<Rightarrow> 'a op) \<Rightarrow> 'a op" where
  "user_route E credentials handler = get_db (bind (get_current_user E credentials) handler)"

subsection \<open>Validators\<close>

text \<open>
  \<^verbatim>\<open>_PASSWORD_RE.match(value)\<close>: on the first line, which may be followed by one final newline, at
  least 12 characters with an upper-case letter, a digit and a special character.
\<close>

definition SPECIAL_CHARS :: string where
  "SPECIAL_CHARS = ''!@#$%^&*()_+-=[]{};:'' @ [CHR 0x27, CHR 0x22, CHR 0x5C] @ ''|,.<>/?''"

definition password_complex :: "string \<Rightarrow> bool" where
  "password_complex value =
     (let line = (if value \<noteq> [] \<and> last value = newline then butlast value else value)
      in newline \<notin> set line \<and> char_count line \<ge> 12 \<and>
         (\<exists>c \<in> set line. (of_char c :: nat) \<in> {65..90}) \<and> (\<exists>c \<in> set line. is_digit_char c) \<and>
         (\<exists>c \<in> set line. c \<in> set SPECIAL_CHARS))"

definition register_body_ok :: "registration \<Rightarrow> bool" where
  "register_body_ok r \<longleftrightarrow> password_complex (reg_password r) \<and> strip (reg_first_name r) \<noteq> '''' \<and>
     strip (reg_last_name r) \<noteq> '''' \<and> strip (reg_tos_version r) \<noteq> '''' \<and> strip (reg_privacy_version r) \<noteq> ''''"

definition register_body :: "registration \<Rightarrow> registration" where
  "register_body r = r\<lparr>reg_first_name := strip (reg_first_name r), reg_last_name := strip (reg_last_name r),
     reg_tos_version := strip (reg_tos_version r), reg_privacy_version := strip (reg_privacy_version r)\<rparr>"

subsection \<open>Registration and login\<close>

definition register_route :: "env \<Rightarrow> request \<Rightarrow> registration \<Rightarrow> (uuid \<times> string) op" where
  "register_route E rq body =
     get_db (seq (register_ip_limiter E rq)
       (seq (require (register_body_ok body) (http 422 ''validation error''))
       (bind (register_user E (register_body body) (base_url_of E rq) (Some (get_client_ip rq)) (user_agent_of rq)) (\<lambda>user.
        ret (usr_id user, usr_email user)))))"

definition verify_email_route :: "env \<Rightarrow> string \<Rightarrow> string op" where
  "verify_email_route E token =
     get_db (bind (verify_email E token) (\<lambda>_. ret ''Email verified. You can now log in.''))"

definition resend_verification_route :: "env \<Rightarrow> request \<Rightarrow> string \<Rightarrow> string op" where
  "resend_verification_route E rq email =
     get_db (seq (resend_email_limiter E rq)
       (seq (resend_verification E email (base_url_of E rq))
          (ret ''If an unverified account exists for that email, a new link has been sent.'')))"

record current_user_out =
  cu_id :: uuid
  cu_email :: string
  cu_role :: string
  cu_roles :: "string list"
  cu_status :: string
  cu_first_name :: string
  cu_last_name :: string
  cu_totp_enabled :: bool
  cu_requires_terms_reaccept :: bool

definition me_route :: "env \<Rightarrow> string option \<Rightarrow> current_user_out op" where
  "me_route E cred =
     user_route E cred (\<lambda>user.
       bind (get_role_slug user) (\<lambda>slug.
       bind (get_current_versions E) (\<lambda>(current_tos, current_privacy).
       bind (role_slugs_for_user user) (\<lambda>held.
       ret \<lparr>cu_id = usr_id user, cu_email = usr_email user, cu_role = slug,
            cu_roles = sorted_list_of_set held, cu_status = usr_status user,
            cu_first_name = usr_first_name user, cu_last_name = usr_last_name user,
            cu_totp_enabled = usr_totp_enabled user,
            cu_requires_terms_reaccept = requires_reaccept user current_tos current_privacy\<rparr>))))"

definition login_route :: "env \<Rightarrow> request \<Rightarrow> string \<Rightarrow> string \<Rightarrow> (token_response + string) op" where
  "login_route E rq email password =
     get_db (seq (login_ip_limiter E rq)
       (seq (login_email_limiter E rq)
       (bind (login E email password (Some (get_client_ip rq)) (user_agent_of rq)) (\<lambda>result.
        ret (case result of
               Needs2FA p \<Rightarrow> Inr p
             | FullSession a r \<Rightarrow> Inl (build_token_response E (is_mobile_client rq) (a, r)))))))"

subsection \<open>Token management\<close>

text \<open>\<open>body\<close> is the refresh token of a mobile client's request body.\<close>

definition presented_token :: "request \<Rightarrow> string option \<Rightarrow> string op" where
  "presented_token rq body =
     (if is_mobile_client rq
      then if str_truthy body then ret (the body)
           else raise (http 401 ''Refresh token is required in the request body for mobile clients.'')
      else case map_of (rq_cookies rq) REFRESH_COOKIE_NAME of
             Some x \<Rightarrow> if x = '''' then raise (http 401 ''Refresh token is required.'') else ret x
           | None \<Rightarrow> raise (http 401 ''Refresh token is required.''))"

definition refresh_route :: "env \<Rightarrow> request \<Rightarrow> string option \<Rightarrow> token_response op" where
  "refresh_route E rq body =
     get_db (seq (refresh_ip_limiter E rq)
       (bind (presented_token rq body) (\<lambda>raw_token.
        bind (refresh_access_token E raw_token (Some (get_client_ip rq)) (user_agent_of rq)) (\<lambda>result.
        ret (build_token_response E (is_mobile_client rq) result)))))"

text \<open>The second component: whether the cookie is cleared.\<close>

definition logout_route :: "env \<Rightarrow> string option \<Rightarrow> request \<Rightarrow> string option \<Rightarrow> (string \<times> bool) op" where
  "logout_route E cred rq body =
     user_route E cred (\<lambda>user.
       let raw_token = (if is_mobile_client rq then body else map_of (rq_cookies rq) REFRESH_COOKIE_NAME)
       in seq (when_true (str_truthy raw_token) (logout_token E (the raw_token)))
            (ret (''Logged out successfully.'', \<not> is_mobile_client rq)))"

subsection \<open>Password and address\<close>

definition password_reset_request_route :: "env \<Rightarrow> request \<Rightarrow> string \<Rightarrow> string op" where
  "password_reset_request_route E rq email =
     get_db (seq (reset_ip_limiter E rq)
       (seq (reset_email_limiter E rq)
       (seq (request_password_reset E email (base_url_of E rq))
          (ret ''If an account exists for that email, a password reset link has been sent.''))))"

definition password_reset_confirm_route :: "env \<Rightarrow> string \<Rightarrow> string \<Rightarrow> string op" where
  "password_reset_confirm_route E token new_password =
     get_db (seq (require (password_complex new_password) (http 422 ''validation error''))
       (seq (confirm_password_reset E token new_password)
          (ret ''Password updated. You can now log in with your new password.'')))"

definition change_email_route :: "env \<Rightarrow> string option \<Rightarrow> request \<Rightarrow> string \<Rightarrow> string \<Rightarrow> string op" where
  "change_email_route E cred rq new_email current_password =
     user_route E cred (\<lambda>user.
       seq (initiate_email_change E (usr_id user) new_email current_password (base_url_of E rq))
         (ret ''A confirmation link has been sent to your new email address.''))"

definition change_email_confirm_route :: "env \<Rightarrow> string \<Rightarrow> string op" where
  "change_email_confirm_route E token =
     get_db (seq (confirm_email_change E token) (ret ''Email address updated successfully.''))"

subsection \<open>Two factors\<close>

definition setup_2fa_route :: "env \<Rightarrow> string option \<Rightarrow> (string \<times> string) op" where
  "setup_2fa_route E cred = user_route E cred (\<lambda>user. setup_2fa E (usr_id user))"

definition confirm_2fa_route :: "env \<Rightarrow> string option \<Rightarrow> string \<Rightarrow> string \<Rightarrow> string list op" where
  "confirm_2fa_route E cred totp_code password =
     user_route E cred (\<lambda>user. confirm_2fa E (usr_id user) totp_code password)"

definition verify_2fa_route :: "env \<Rightarrow> request \<Rightarrow> string \<Rightarrow> string \<Rightarrow> token_response op" where
  "verify_2fa_route E rq partial_token totp_code =
     get_db (seq (totp_ip_limiter E rq)
       (seq (totp_partial_token_limiter E rq)
       (bind (verify_2fa E partial_token totp_code) (\<lambda>result.
        ret (build_token_response E (is_mobile_client rq) result)))))"

definition recover_2fa_route :: "env \<Rightarrow> request \<Rightarrow> string \<Rightarrow> string \<Rightarrow> token_response op" where
  "recover_2fa_route E rq partial_token code =
     get_db (seq (recovery_ip_limiter E rq)
       (seq (recovery_partial_token_limiter E rq)
       (bind (recover_2fa E partial_token code) (\<lambda>result.
        ret (build_token_response E (is_mobile_client rq) result)))))"

definition disable_2fa_route :: "env \<Rightarrow> string option \<Rightarrow> string \<Rightarrow> string \<Rightarrow> string op" where
  "disable_2fa_route E cred totp_code password =
     user_route E cred (\<lambda>user.
       seq (disable_2fa E (usr_id user) totp_code password)
         (ret ''Two-factor authentication has been disabled.''))"

subsection \<open>Deletion and terms\<close>

record deletion_response =
  del_status :: string
  del_grace_until :: "datetime option"
  del_message :: string

definition request_deletion_route :: "env \<Rightarrow> string option \<Rightarrow> deletion_response op" where
  "request_deletion_route E cred =
     user_route E cred (\<lambda>u.
       bind (request_deletion E u) (\<lambda>user.
       ret \<lparr>del_status = usr_status user, del_grace_until = usr_deletion_grace_until user,
            del_message = (case usr_deletion_grace_until user of
                             Some g \<Rightarrow> ''Account scheduled for deletion. You can cancel any time before '' @
                               date_iso g @ ''.''
                           | None \<Rightarrow> ''Account scheduled for deletion.'')\<rparr>))"

definition cancel_deletion_route :: "env \<Rightarrow> string option \<Rightarrow> deletion_response op" where
  "cancel_deletion_route E cred =
     user_route E cred (\<lambda>u.
       bind (cancel_deletion E u) (\<lambda>user.
       ret \<lparr>del_status = usr_status user, del_grace_until = usr_deletion_grace_until user,
            del_message = ''Account deletion cancelled.''\<rparr>))"

text \<open>The documents are files; \<open>content\<close> gives the text of a type and a version.\<close>

definition load_document :: "(string \<Rightarrow> string \<Rightarrow> string option) \<Rightarrow> string \<Rightarrow> string \<Rightarrow> string op" where
  "load_document content doc_type version =
     seq (require (doc_type \<in> {''tos'', ''privacy''}) (http 404 ''Unknown document type.''))
     (seq (require (isdigit version) (http 404 ''Invalid version.''))
     (case content doc_type version of
        None \<Rightarrow> raise (http 404 ''Document version not found.'')
      | Some doc \<Rightarrow> ret doc))"

definition get_tos_route ::
  "env \<Rightarrow> (string \<Rightarrow> string \<Rightarrow> string option) \<Rightarrow> (string \<times> string \<times> string) op" where
  "get_tos_route E content =
     get_db (bind (get_current_versions E) (\<lambda>(current_tos, _).
       bind (load_document content ''tos'' current_tos) (\<lambda>doc. ret (''tos'', current_tos, doc))))"

definition get_privacy_route ::
  "env \<Rightarrow> (string \<Rightarrow> string \<Rightarrow> string option) \<Rightarrow> (string \<times> string \<times> string) op" where
  "get_privacy_route E content =
     get_db (bind (get_current_versions E) (\<lambda>(_, current_privacy).
       bind (load_document content ''privacy'' current_privacy) (\<lambda>doc. ret (''privacy'', current_privacy, doc))))"

record consent_status_out =
  cst_tos_current :: string
  cst_privacy_current :: string
  cst_tos_accepted :: "string option"
  cst_privacy_accepted :: "string option"
  cst_requires_reaccept :: bool

definition consent_status_route :: "env \<Rightarrow> string option \<Rightarrow> consent_status_out op" where
  "consent_status_route E cred =
     user_route E cred (\<lambda>user.
       bind (get_current_versions E) (\<lambda>(current_tos, current_privacy).
       ret \<lparr>cst_tos_current = current_tos, cst_privacy_current = current_privacy,
            cst_tos_accepted = usr_tos_version user, cst_privacy_accepted = usr_privacy_version user,
            cst_requires_reaccept = requires_reaccept user current_tos current_privacy\<rparr>))"

definition accept_terms_route :: "env \<Rightarrow> string option \<Rightarrow> request \<Rightarrow> string \<Rightarrow> string \<Rightarrow> string op" where
  "accept_terms_route E cred rq tos_version privacy_version =
     user_route E cred (\<lambda>user.
       seq (require (1 \<le> char_count tos_version \<and> char_count tos_version \<le> 20 \<and>
              1 \<le> char_count privacy_version \<and> char_count privacy_version \<le> 20) (http 422 ''validation error''))
       (seq (accept_current_versions E user tos_version privacy_version (Some (get_client_ip rq)) (user_agent_of rq))
          (ret ''Terms acceptance recorded.'')))"

end
