(* ===== verification/AccountFacts.thy ===== *)
theory AccountFacts
  imports AccountRoutes
begin

section \<open>Facts about accounts\<close>

text \<open>
  The windows of the rate limiter and what one check does to its counter; what a failed and a
  successful login do; the life of a refresh token; what a password reset and a request for
  deletion do to the sessions of a user; the uniqueness of addresses.
\<close>

subsection \<open>Windows\<close>

lemma dt_ranges:
  "0 \<le> dt_micro t" "dt_micro t < 1000000" "0 \<le> dt_second t" "dt_second t < 60"
  "0 \<le> dt_minute t" "dt_minute t < 60"
  by (simp_all add: dt_micro_def dt_second_def dt_minute_def)

definition window_ok :: "int \<Rightarrow> bool" where
  "window_ok w \<longleftrightarrow> 0 < w \<and> (w < 60 \<or> (w mod 60 = 0 \<and> w \<le> 3600))"

lemma part_of_window:
  assumes "0 \<le> (x::int)" "0 < m"
  shows "x - (x div m) * m = x mod m" "0 \<le> x mod m" "x mod m < m"
  using assms by (simp_all add: minus_div_mult_eq_mod)

lemma window_contains:
  assumes "window_ok w"
  shows "window_start_of t w \<le> t" "t < window_start_of t w + seconds w"
proof -
  note r = dt_ranges [of t]
  have "window_start_of t w \<le> t \<and> t < window_start_of t w + seconds w"
  proof (cases "w < 60")
    case True
    with assms have w: "0 < w" by (simp add: window_ok_def)
    note p = part_of_window [OF r(3) w]
    define q where "q = dt_second t div w * w"
    have "dt_second t mod w = dt_second t - q" using p(1) by (simp add: q_def)
    then have "t - window_start_of t w = dt_micro t + 1000000 * (dt_second t mod w)"
      using True by (simp add: window_start_of_def q_def [symmetric] seconds_def)
    moreover have "dt_second t mod w \<le> w - 1" using p(3) by simp
    ultimately show ?thesis using p(2) r by (simp add: seconds_def)
  next
    case False
    define m where "m = w div 60"
    with assms False have m: "0 < m" "w = 60 * m" by (auto simp: window_ok_def)
    note p = part_of_window [OF r(5) m(1)]
    define q where "q = dt_minute t div m * m"
    have "dt_minute t mod m = dt_minute t - q" using p(1) by (simp add: q_def)
    then have "t - window_start_of t w = dt_micro t + 1000000 * dt_second t + 60000000 * (dt_minute t mod m)"
      using False by (simp add: window_start_of_def Let_def m_def [symmetric] q_def [symmetric] seconds_def minutes_def)
    moreover define e where "e = dt_minute t mod m"
    ultimately have t: "t - window_start_of t w = dt_micro t + 1000000 * dt_second t + 60000000 * e" by simp
    have "0 \<le> e" "e \<le> m - 1" using p(2,3) by (simp_all add: e_def)
    moreover have "seconds w = 60000000 * m" by (simp add: seconds_def m(2))
    ultimately show ?thesis using t r by linarith
  qed
  then show "window_start_of t w \<le> t" "t < window_start_of t w + seconds w" by simp_all
qed

subsection \<open>The counter\<close>

definition rate_unique :: "db \<Rightarrow> bool" where
  "rate_unique s \<longleftrightarrow> distinct (map (\<lambda>c. (rlc_key c, rlc_window_start c)) (rate_limit_counters s))"

definition counted :: "string \<Rightarrow> datetime \<Rightarrow> db \<Rightarrow> int" where
  "counted key w s = (case filter (rate_row key w) (rate_limit_counters s) of [] \<Rightarrow> 0 | c # _ \<Rightarrow> rlc_count c)"

lemma rate_row_key: "rate_row key w = (\<lambda>c. (rlc_key c, rlc_window_start c) = (key, w))"
  by (simp add: fun_eq_iff rate_row_def)

definition after_hit :: "env \<Rightarrow> string \<Rightarrow> datetime \<Rightarrow> db \<Rightarrow> db" where
  "after_hit E key w s = s\<lparr>draws := Suc (draws s), rate_limit_counters :=
     (if \<exists>c \<in> set (rate_limit_counters s). rate_row key w c
      then update_where (rate_row key w) (\<lambda>c. c\<lparr>rlc_count := rlc_count c + 1\<rparr>) (rate_limit_counters s)
      else rate_limit_counters s @ [\<lparr>rlc_id = random_uuid E (draws s), rlc_key = key,
        rlc_window_start = w, rlc_count = 1\<rparr>])\<rparr>"

lemma after_hit_counted:
  assumes "rate_unique s"
  shows "\<exists>c. filter (rate_row key w) (rate_limit_counters (after_hit E key w s)) = [c] \<and>
    rlc_count c = counted key w s + 1"
proof (cases "filter (rate_row key w) (rate_limit_counters s)")
  case Nil
  then have no: "\<not> (\<exists>c \<in> set (rate_limit_counters s). rate_row key w c)" by (auto simp: filter_empty_conv)
  show ?thesis unfolding after_hit_def if_not_P [OF no] using Nil by (simp add: counted_def rate_row_def)
next
  case (Cons c cs)
  have "length (filter (rate_row key w) (rate_limit_counters s)) \<le> 1"
    unfolding rate_row_key using assms by (intro filter_key_length) (simp add: rate_unique_def)
  with Cons have one: "filter (rate_row key w) (rate_limit_counters s) = [c]" by simp
  then have "\<exists>c \<in> set (rate_limit_counters s). rate_row key w c"
    by (auto simp: filter_eq_Cons_iff)
  moreover have "filter (rate_row key w) (update_where (rate_row key w) (\<lambda>c. c\<lparr>rlc_count := rlc_count c + 1\<rparr>)
      (rate_limit_counters s)) = [c\<lparr>rlc_count := rlc_count c + 1\<rparr>]"
    by (subst filter_update_where_same) (simp_all add: one rate_row_def)
  ultimately show ?thesis using one by (simp add: after_hit_def counted_def)
qed

lemma after_hit_unique: "rate_unique s \<Longrightarrow> rate_unique (after_hit E key w s)"
  by (cases "\<exists>c \<in> set (rate_limit_counters s). rate_row key w c")
    (auto simp: rate_unique_def after_hit_def distinct_update_where rate_row_def)

lemma check_rate_limit_run:
  assumes "rate_unique s"
  shows "check_rate_limit E key limit w s =
    (if counted key (window_start_of (clock s) w) s < limit then Inr ()
     else Inl (HTTPException 429 ''Too many requests. Please try again later.''
            [(''Retry-After'', int_str (max (retry_after (clock s) w) 1))]),
     after_hit E key (window_start_of (clock s) w) s)"
proof -
  let ?w = "window_start_of (clock s) w"
  obtain c where c: "filter (rate_row key ?w) (rate_limit_counters (after_hit E key ?w s)) = [c]"
    "rlc_count c = counted key ?w s + 1" using after_hit_counted [OF assms, of key ?w E] by blast
  have "upsert_counter (random_uuid E (draws s)) key ?w (s\<lparr>draws := Suc (draws s)\<rparr>) = (Inr (), after_hit E key ?w s)"
    by (simp add: upsert_counter_def after_hit_def)
  then show ?thesis
    by (simp add: check_rate_limit_def bind_run seq_run now_run uuid4_run Let_def c require_run)
qed

lemma after_hit_clock [simp]: "clock (after_hit E key w s) = clock s"
  by (simp add: after_hit_def)

text \<open>The outcomes of \<open>n\<close> requests through a limiter, each in its own transaction.\<close>

primrec admitted :: "nat \<Rightarrow> 'a op \<Rightarrow> db \<Rightarrow> nat \<times> db" where
  "admitted 0 m s = (0, s)"
| "admitted (Suc n) m s =
     (case get_db m s of
        (Inr _, t) \<Rightarrow> (case admitted n m t of (k, u) \<Rightarrow> (Suc k, u))
      | (Inl _, t) \<Rightarrow> admitted n m t)"

lemma admitted_exactly:
  assumes quiet: "\<And>s. \<exists>x t. handler s = (Inr x, t) \<and> rate_limit_counters t = rate_limit_counters s \<and> clock t = clock s"
    and "rate_unique s"
  shows "fst (admitted n (seq (check_rate_limit E key limit w) handler) s) =
    min n (nat (limit - counted key (window_start_of (clock s) w) s))"
  using assms(2)
proof (induction n arbitrary: s)
  case (Suc n)
  let ?w = "window_start_of (clock s) w" and ?m = "seq (check_rate_limit E key limit w) handler"
  note run = check_rate_limit_run [OF Suc.prems, of E key limit w]
  show ?case
  proof (cases "counted key ?w s < limit")
    case True
    obtain x t where t: "handler (after_hit E key ?w s) = (Inr x, t)"
      "rate_limit_counters t = rate_limit_counters (after_hit E key ?w s)" "clock t = clock s"
      using quiet [of "after_hit E key ?w s"] by auto
    have "counted key ?w t = counted key ?w s + 1"
      using after_hit_counted [OF Suc.prems, of key ?w E] t(2) by (auto simp: counted_def)
    moreover have "rate_unique t" using after_hit_unique [OF Suc.prems] t(2) by (simp add: rate_unique_def)
    note Suc.IH [OF this]
    moreover have "get_db ?m s = (Inr x, t)"
      using True run t(1) by (simp add: get_db_def atomically_run seq_run)
    ultimately show ?thesis using True t(3) by (cases "admitted n ?m t") auto
  next
    case False
    then have "get_db ?m s = (Inl (HTTPException 429 ''Too many requests. Please try again later.''
        [(''Retry-After'', int_str (max (retry_after (clock s) w) 1))]), s)"
      using run by (simp add: get_db_def atomically_run seq_run)
    with Suc.IH [OF Suc.prems] False show ?thesis by simp
  qed
qed simp

subsection \<open>Failed logins\<close>

definition account_row :: "string \<Rightarrow> user \<Rightarrow> db \<Rightarrow> bool" where
  "account_row email u s \<longleftrightarrow> filter (\<lambda>x. usr_email x = lower email) (users s) = [u]"

lemma account_rowI:
  assumes "distinct (map usr_email (users s))" "u \<in> set (users s)" "usr_email u = lower email"
  shows "account_row email u s"
  unfolding account_row_def by (rule filter_key_distinct [OF assms])

lemma find_email_run:
  "account_row email u s \<Longrightarrow> find_email (lower email) s = (Inr (Some u), s)"
  by (simp add: find_email_def account_row_def run_simps)

lemma login_returns:
  assumes "login E email password ip ua s = (Inr res, t)"
  obtains u where "account_row email u s" "\<not> is_locked (clock s) u" "usr_status u = ''active''"
    "password_ok E u password" "complete_login E u ip ua s = (Inr res, t)"
proof -
  obtain found v where f: "find_email (lower email) s = (Inr found, v)"
    using assms by (auto simp: login_def bind_return_iff)
  then have v: "v = s" and row: "found = Some u \<Longrightarrow> account_row email u s" for u
    by (auto simp: find_email_def account_row_def run_simps split: list.splits)
  show thesis
  proof (cases found)
    case None
    with assms f show thesis by (simp add: login_def bind_run now_run v)
  next
    case (Some u)
    with assms f v that [OF row [OF Some]] show thesis
      by (auto simp: login_def bind_run now_run seq_run require_run split: if_splits prod.splits sum.splits)
  qed
qed

lemma login_run:
  assumes "account_row email u s" "\<not> is_locked (clock s) u" "usr_status u = ''active''"
  shows "login E email password ip ua s =
    (if password_ok E u password then complete_login E u ip ua s
     else (Inl (http 401 ''Incorrect email or password.''), snd (record_failed_attempt u s)))"
  using assms
  by (simp add: login_def bind_run now_run seq_run require_run find_email_run split: prod.splits sum.splits)
    (auto simp: record_failed_attempt_def audit_user_def save_user_def run_simps Let_def)

definition bump :: "datetime \<Rightarrow> user \<Rightarrow> user" where
  "bump t u =
     (if usr_failed_login_count u + 1 \<ge> 5
      then u\<lparr>usr_locked_until := Some (t + minutes 30), usr_failed_login_count := 0\<rparr>
      else u\<lparr>usr_failed_login_count := usr_failed_login_count u + 1\<rparr>)"

lemma filter_update_where_keep:
  "(\<And>r. q (f r) = q r) \<Longrightarrow> filter q (update_where p f rows) = update_where p f (filter q rows)"
  by (induction rows) (auto simp: update_where_def)

lemma record_failed_row:
  assumes "account_row email u s"
  shows "account_row email (bump (clock s) u) (snd (record_failed_attempt u s))"
    "clock (snd (record_failed_attempt u s)) = clock s"
proof -
  have users: "users (snd (record_failed_attempt u s)) =
      (if usr_failed_login_count u + 1 \<ge> 5
       then update_where (\<lambda>x. usr_id x = usr_id u)
         (\<lambda>x. x\<lparr>usr_locked_until := Some (clock s + minutes 30), usr_failed_login_count := 0\<rparr>)
         (update_where (\<lambda>x. usr_id x = usr_id u) (\<lambda>x. x\<lparr>usr_failed_login_count := usr_failed_login_count u + 1\<rparr>) (users s))
       else update_where (\<lambda>x. usr_id x = usr_id u) (\<lambda>x. x\<lparr>usr_failed_login_count := usr_failed_login_count u + 1\<rparr>) (users s))"
    by (simp add: record_failed_attempt_def audit_user_def save_user_def run_simps Let_def)
  show "account_row email (bump (clock s) u) (snd (record_failed_attempt u s))"
    using assms unfolding account_row_def users
    by (simp add: filter_update_where_keep bump_def) (simp add: update_where_def)
  show "clock (snd (record_failed_attempt u s)) = clock s"
    by (simp add: record_failed_attempt_def audit_user_def save_user_def run_simps Let_def)
qed

lemma wrong_login_run:
  assumes "account_row email u s" "\<not> is_locked (clock s) u" "usr_status u = ''active''" "\<not> password_ok E u password"
  shows "\<exists>t. login E email password ip ua s = (Inl (http 401 ''Incorrect email or password.''), t) \<and>
    account_row email (bump (clock s) u) t \<and> clock t = clock s"
  using login_run [OF assms(1-3)] assms(4) record_failed_row [OF assms(1)] by simp

lemma locked_login_run:
  assumes "account_row email u s" "is_locked (clock s) u"
  shows "\<exists>msg. login E email password ip ua s = (Inl (http 423 msg), s)"
  using assms by (simp add: login_def bind_run now_run seq_run require_run find_email_run)

lemma five_wrong_logins_lock:
  assumes "account_row email u s" "\<not> is_locked (clock s) u" "usr_status u = ''active''"
    and "usr_failed_login_count u = 0" "length ps = 5" "\<forall>p \<in> set ps. \<not> password_ok E u p"
  shows "\<exists>v. account_row email v (fold (\<lambda>p s. snd (login E email p ip ua s)) ps s) \<and>
    is_locked (clock (fold (\<lambda>p s. snd (login E email p ip ua s)) ps s)) v"
proof -
  let ?row = "\<lambda>k. u\<lparr>usr_failed_login_count := int k\<rparr>"
  have step: "account_row email (bump (clock s) (?row k)) (snd (login E email p ip ua t)) \<and>
      clock (snd (login E email p ip ua t)) = clock s"
    if "account_row email (?row k) t" "clock t = clock s" "p \<in> set ps" for k p t
  proof -
    have "\<not> is_locked (clock t) (?row k)" "usr_status (?row k) = ''active''" "\<not> password_ok E (?row k) p"
      using assms(2,3,6) that(2,3) by (simp_all add: is_locked_def password_ok_def)
    from wrong_login_run [OF that(1) this, of ip ua] that(2) show ?thesis by fastforce
  qed
  have few: "account_row email (?row (length qs)) (fold (\<lambda>p s. snd (login E email p ip ua s)) qs s) \<and>
      clock (fold (\<lambda>p s. snd (login E email p ip ua s)) qs s) = clock s"
    if "length qs \<le> 4" "set qs \<subseteq> set ps" for qs
    using that
  proof (induction qs rule: rev_induct)
    case Nil
    have "u\<lparr>usr_failed_login_count := 0\<rparr> = u" using assms(4) by (cases u) simp
    then show ?case using assms(1) by simp
  next
    case (snoc q qs)
    have "account_row email (?row (length qs)) (fold (\<lambda>p s. snd (login E email p ip ua s)) qs s)"
      "clock (fold (\<lambda>p s. snd (login E email p ip ua s)) qs s) = clock s" "q \<in> set ps"
      using snoc by simp_all
    from step [OF this] have "account_row email (bump (clock s) (?row (length qs)))
        (fold (\<lambda>p s. snd (login E email p ip ua s)) (qs @ [q]) s) \<and>
        clock (fold (\<lambda>p s. snd (login E email p ip ua s)) (qs @ [q]) s) = clock s"
      by simp
    moreover have "bump (clock s) (?row (length qs)) = ?row (length (qs @ [q]))"
      using snoc.prems(1) by (simp add: bump_def)
    ultimately show ?case by simp
  qed
  obtain qs q where ps: "ps = qs @ [q]" "length qs = 4"
    using assms(5) by (cases ps rule: rev_cases) auto
  have "account_row email (bump (clock s) (?row 4)) (fold (\<lambda>p s. snd (login E email p ip ua s)) ps s) \<and>
      clock (fold (\<lambda>p s. snd (login E email p ip ua s)) ps s) = clock s"
  proof -
    have "account_row email (?row 4) (fold (\<lambda>p s. snd (login E email p ip ua s)) qs s)"
      "clock (fold (\<lambda>p s. snd (login E email p ip ua s)) qs s) = clock s" "q \<in> set ps"
      using few [of qs] ps by auto
    from step [OF this] show ?thesis by (simp add: ps(1))
  qed
  moreover have "is_locked (clock s) (bump (clock s) (?row 4))"
    by (simp add: bump_def is_locked_def minutes_def seconds_def)
  ultimately show ?thesis by auto
qed

subsection \<open>Refresh tokens\<close>

definition live_session :: "env \<Rightarrow> string \<Rightarrow> datetime \<Rightarrow> user_session \<Rightarrow> bool" where
  "live_session E raw t x \<longleftrightarrow> ses_token_hash x = hash_token E raw \<and> ses_revoked_at x = None \<and> ses_expires_at x > t"

lemma issue_returns:
  assumes "issue_refresh_token E uid ip ua s = (Inr raw, t)"
  shows "\<exists>i. t = s\<lparr>draws := Suc (Suc (draws s)), user_sessions := user_sessions s @
      [\<lparr>ses_id = i, ses_user_id = uid, ses_token_hash = hash_token E raw,
        ses_expires_at = clock s + days (cfg_refresh_token_days E), ses_revoked_at = None,
        ses_ip_address = ip, ses_user_agent = ua\<rparr>]\<rparr> \<and>
    hash_token E raw \<notin> ses_token_hash ` set (user_sessions s) \<and> raw = random_hex E (draws s) 64"
  using assms
  by (auto simp: issue_refresh_token_def run_simps split: if_splits)

lemma issue_succeeds:
  assumes "hash_token E (random_hex E (draws s) 64) \<notin> ses_token_hash ` set (user_sessions s)"
  shows "\<exists>t. issue_refresh_token E uid ip ua s = (Inr (random_hex E (draws s) 64), t)"
proof -
  have "\<not> (\<exists>x \<in> set (user_sessions s). ses_token_hash x = hash_token E (random_hex E (draws s) 64))"
    using assms by (metis imageI)
  then show ?thesis by (simp add: issue_refresh_token_def run_simps)
qed

lemma rotate_returns:
  assumes "validate_and_rotate E raw ip ua s = (Inr (Some (uid, new)), t)"
  obtains x y where "filter (live_session E raw (clock s)) (user_sessions s) = [x]" "ses_user_id x = uid"
    "user_sessions t = update_where (\<lambda>z. ses_id z = ses_id x) (\<lambda>z. z\<lparr>ses_revoked_at := Some (clock s)\<rparr>)
       (user_sessions s) @ [y]"
    "ses_token_hash y = hash_token E new" "ses_revoked_at y = None" "ses_user_id y = uid"
    "ses_expires_at y = clock s + days (cfg_refresh_token_days E)"
    "hash_token E new \<notin> ses_token_hash ` set (user_sessions s)" "clock t = clock s" "users t = users s"
    "roles t = roles s"
proof -
  have eq: "(\<lambda>x. ses_token_hash x = hash_token E raw \<and> ses_revoked_at x = None \<and> clock s < ses_expires_at x) =
      live_session E raw (clock s)" by (simp add: live_session_def fun_eq_iff)
  from assms obtain x where x: "filter (live_session E raw (clock s)) (user_sessions s) = [x]"
    by (auto simp: validate_and_rotate_def bind_run now_run select_one_run eq split: list.splits)
  let ?u = "s\<lparr>user_sessions := update_where (\<lambda>z. ses_id z = ses_id x)
      (\<lambda>z. z\<lparr>ses_revoked_at := Some (clock s)\<rparr>) (user_sessions s)\<rparr>"
  have issue: "issue_refresh_token E (ses_user_id x) ip ua ?u = (Inr new, t)" and uid: "uid = ses_user_id x"
    using assms x by (auto simp: validate_and_rotate_def bind_run seq_run now_run select_one_run eq revoke_session_def
        split: prod.splits sum.splits)
  from issue_returns [OF issue] obtain i where t: "t = ?u\<lparr>draws := Suc (Suc (draws s)), user_sessions := user_sessions ?u @
      [\<lparr>ses_id = i, ses_user_id = ses_user_id x, ses_token_hash = hash_token E new,
        ses_expires_at = clock s + days (cfg_refresh_token_days E), ses_revoked_at = None,
        ses_ip_address = ip, ses_user_agent = ua\<rparr>]\<rparr>"
    and fresh: "hash_token E new \<notin> ses_token_hash ` set (user_sessions ?u)" by auto
  have hashes: "map ses_token_hash (user_sessions ?u) = map ses_token_hash (user_sessions s)"
    by (simp add: map_update_where)
  have "hash_token E new \<notin> ses_token_hash ` set (user_sessions s)"
    using fresh arg_cong [OF hashes, of set] by simp
  then show thesis using that [OF x] uid by (simp add: t)
qed

lemma rotated_token_is_dead:
  assumes "validate_and_rotate E raw ip ua s = (Inr (Some (uid, new)), t)"
  shows "filter (live_session E raw (clock t)) (user_sessions t) = []"
proof -
  obtain x y where r: "filter (live_session E raw (clock s)) (user_sessions s) = [x]"
    "user_sessions t = update_where (\<lambda>z. ses_id z = ses_id x) (\<lambda>z. z\<lparr>ses_revoked_at := Some (clock s)\<rparr>)
       (user_sessions s) @ [y]"
    "ses_token_hash y = hash_token E new" "hash_token E new \<notin> ses_token_hash ` set (user_sessions s)"
    "clock t = clock s" by (rule rotate_returns [OF assms])
  from r(1) have x: "x \<in> set (user_sessions s)" "live_session E raw (clock s) x"
    by (auto simp: filter_eq_Cons_iff)
  have "hash_token E raw \<in> ses_token_hash ` set (user_sessions s)"
    using x by (metis imageI live_session_def)
  then have "\<not> live_session E raw (clock s) y" using r(3,4) by (auto simp: live_session_def)
  moreover have "\<not> live_session E raw (clock s) z"
    if z: "z \<in> set (update_where (\<lambda>z. ses_id z = ses_id x) (\<lambda>z. z\<lparr>ses_revoked_at := Some (clock s)\<rparr>) (user_sessions s))" for z
  proof
    assume live: "live_session E raw (clock s) z"
    obtain z0 where "z0 \<in> set (user_sessions s)"
      "z = (if ses_id z0 = ses_id x then z0\<lparr>ses_revoked_at := Some (clock s)\<rparr> else z0)"
      using set_update_where [OF z] by blast
    with live have "z \<in> set (user_sessions s)" "ses_id z \<noteq> ses_id x"
      by (auto simp: live_session_def split: if_splits)
    with live have "z \<in> set (filter (live_session E raw (clock s)) (user_sessions s))" by simp
    with r(1) \<open>ses_id z \<noteq> ses_id x\<close> show False by simp
  qed
  ultimately show ?thesis using r(2,5) by (auto simp: filter_empty_conv)
qed

lemma refresh_returns:
  assumes "refresh_access_token E raw ip ua s = (Inr (a, new), t)"
  obtains uid u where "validate_and_rotate E raw ip ua s = (Inr (Some (uid, new)), t)"
    "filter (\<lambda>x. usr_id x = uid) (users s) = [u]" "usr_status u = ''active''"
proof -
  from assms obtain res v where v: "validate_and_rotate E raw ip ua s = (Inr res, v)"
    by (auto simp: refresh_access_token_def bind_return_iff)
  with assms obtain uid tok where res: "res = Some (uid, tok)"
    by (cases res) (auto simp: refresh_access_token_def bind_run)
  from v res have v': "validate_and_rotate E raw ip ua s = (Inr (Some (uid, tok)), v)" by simp
  have users: "users v = users s" by (rule rotate_returns [OF v'])
  from assms have *: "bind (find_user uid) (\<lambda>found.
         case found of
           None \<Rightarrow> raise (http 401 ''Session is no longer valid.'')
         | Some user \<Rightarrow>
             seq (require (usr_status user = ''active'') (http 401 ''Session is no longer valid.''))
             (bind (get_role_slug user) (\<lambda>slug.
              bind (create_access_token E user slug) (\<lambda>a. ret (a, tok))))) v = (Inr (a, new), t)"
    by (simp add: refresh_access_token_def bind_run [of "validate_and_rotate E raw ip ua"] v')
  then obtain u where u: "filter (\<lambda>x. usr_id x = uid) (users v) = [u]" "usr_status u = ''active''"
    by (auto simp: find_user_def run_simps split: list.splits if_splits)
  with * have "tok = new" "t = v"
    by (auto simp: find_user_def get_role_slug_def create_access_token_def create_signed_token_def run_simps
        split: list.splits if_splits)
  with v' u users that show thesis by simp
qed

lemma dead_token_refused:
  assumes "filter (live_session E raw (clock s)) (user_sessions s) = []"
  shows "refresh_access_token E raw ip ua s = (Inl (http 401 ''Refresh token is invalid or expired.''), s)"
proof -
  have eq: "(\<lambda>x. ses_token_hash x = hash_token E raw \<and> ses_revoked_at x = None \<and> clock s < ses_expires_at x) =
      live_session E raw (clock s)" by (simp add: live_session_def fun_eq_iff)
  show ?thesis using assms
    by (simp add: refresh_access_token_def validate_and_rotate_def bind_run now_run select_one_run eq)
qed

subsection \<open>Password reset\<close>

lemma decode_or_returns:
  assumes "decode_or E token ty e s = (Inr payload, t)"
  shows "t = s" "jwt_decode E (clock s) token = Some payload" "obj_get payload ''type'' = JStr ty"
  using assms
  by (auto simp: decode_or_def decode_token_def run_simps split: option.splits if_splits prod.splits sum.splits)

lemma subject_id_pure: "subject_id payload s = (r, t) \<Longrightarrow> t = s"
  by (auto simp: subject_id_def split: option.splits json.splits)

lemma find_user_returns:
  "find_user i s = (Inr found, t) \<Longrightarrow>
     t = s \<and> (case found of None \<Rightarrow> filter (\<lambda>u. usr_id u = i) (users s) = []
       | Some u \<Rightarrow> filter (\<lambda>u. usr_id u = i) (users s) = [u])"
  by (auto simp: find_user_def run_simps split: list.splits)

lemma filter_single: "filter p xs = [x] \<Longrightarrow> x \<in> set xs \<and> p x"
  by (auto simp: filter_eq_Cons_iff)

lemma send_email_run: "send_email a b c s =
   (Inr (), s\<lparr>outbox := outbox s @ [[(''via'', JStr ''email''), (''to'', a), (''subject'', b), (''html'', c)]]\<rparr>)"
  by (simp add: send_email_def deliver_run)

lemma password_changed_mail_run:
  "\<exists>m. send_password_changed_email to_email = writes (\<lambda>s. s\<lparr>outbox := outbox s @ [m]\<rparr>)"
  unfolding send_password_changed_email_def Let_def send_email_def deliver_def by blast

lemma confirm_reset_returns:
  assumes "confirm_password_reset E token new_password s = (Inr (), t)"
  obtains u where "filter (\<lambda>x. usr_id x = usr_id u) (users s) = [u]"
    "users t = update_where (\<lambda>x. usr_id x = usr_id u) (after_reset (bcrypt_hash E (draws s) new_password)) (users s)"
    "user_sessions t = update_where (\<lambda>x. ses_user_id x = usr_id u \<and> ses_revoked_at x = None)
       (\<lambda>x. x\<lparr>ses_revoked_at := Some (clock s)\<rparr>) (user_sessions s)"
    "clock t = clock s" "\<exists>payload. jwt_decode E (clock s) token = Some payload \<and> obj_get payload ''type'' = JStr ''reset_password''"
proof -
  obtain payload v where p: "decode_or E token ''reset_password''
      (http 400 ''Password reset link is invalid or has expired.'') s = (Inr payload, v)"
    using assms by (auto simp: confirm_password_reset_def bind_return_iff)
  note d = decode_or_returns [OF p]
  obtain i v2 where i: "subject_id payload s = (Inr i, v2)"
    using assms p d(1) by (auto simp: confirm_password_reset_def bind_return_iff)
  then have v2: "v2 = s" by (rule subject_id_pure)
  obtain found v3 where f: "find_user i s = (Inr found, v3)"
    using assms p d(1) i v2 by (auto simp: confirm_password_reset_def bind_return_iff)
  note fu = find_user_returns [OF f]
  have "found \<noteq> None"
    using assms p d(1) i v2 f by (cases found) (auto simp: confirm_password_reset_def bind_run)
  then obtain u where found: "found = Some u" by blast
  with fu have u: "filter (\<lambda>u. usr_id u = i) (users s) = [u]" and v3: "v3 = s" by simp_all
  then have id: "usr_id u = i" using filter_single [OF u] by simp
  have t: "t = snd (confirm_password_reset E token new_password s)" using assms by simp
  obtain m where m: "send_password_changed_email (usr_email u) = writes (\<lambda>s. s\<lparr>outbox := outbox s @ [m]\<rparr>)"
    using password_changed_mail_run by blast
  have "users t = update_where (\<lambda>x. usr_id x = usr_id u) (after_reset (bcrypt_hash E (draws s) new_password)) (users s)"
    "user_sessions t = update_where (\<lambda>x. ses_user_id x = usr_id u \<and> ses_revoked_at x = None)
       (\<lambda>x. x\<lparr>ses_revoked_at := Some (clock s)\<rparr>) (user_sessions s)" "clock t = clock s"
    unfolding t confirm_password_reset_def
    by (simp_all add: bind_run p d(1) i v2 f found v3 seq_run hash_password_def save_user_def revoke_user_sessions_def
        now_run m audit_user_def add_audit_run)
  then show thesis using that [of u] u id d(2,3) by simp
qed

subsection \<open>Deletion\<close>

lemma request_deletion_run:
  assumes "usr_status user \<noteq> ''deleted''" "\<not> (usr_status user = ''pending_deletion'' \<and> usr_deletion_grace_until user \<noteq> None)"
  shows "\<exists>v t. request_deletion E user s = (Inr v, t) \<and> usr_status v = ''pending_deletion'' \<and>
    users t = update_where (\<lambda>x. usr_id x = usr_id user)
      (\<lambda>u. u\<lparr>usr_status := ''pending_deletion'', usr_deletion_requested_at := Some (clock s),
         usr_deletion_grace_until := Some (clock s + days GRACE_PERIOD_DAYS)\<rparr>) (users s) \<and>
    user_sessions t = update_where (\<lambda>x. ses_user_id x = usr_id user \<and> ses_revoked_at x = None)
      (\<lambda>x. x\<lparr>ses_revoked_at := Some (clock s)\<rparr>) (user_sessions s) \<and> clock t = clock s"
  using assms(1) unfolding request_deletion_def if_not_P [OF assms(2)]
  by (simp add: seq_run bind_run require_run now_run Let_def save_user_def
      revoke_user_sessions_def enqueue_def CHANNELS_def uuid4_run)

lemma revoked_sessions_dead:
  assumes "distinct (map ses_token_hash (user_sessions s))" "x \<in> set (user_sessions s)" "ses_user_id x = uid"
    and "ses_token_hash x = hash_token E raw"
    and "user_sessions t = update_where (\<lambda>x. ses_user_id x = uid \<and> ses_revoked_at x = None)
      (\<lambda>x. x\<lparr>ses_revoked_at := Some d\<rparr>) (user_sessions s)"
  shows "filter (live_session E raw c) (user_sessions t) = []"
proof -
  have "\<not> live_session E raw c z" if z: "z \<in> set (user_sessions t)" for z
  proof
    assume live: "live_session E raw c z"
    obtain z0 where z0: "z0 \<in> set (user_sessions s)"
      "z = (if ses_user_id z0 = uid \<and> ses_revoked_at z0 = None then z0\<lparr>ses_revoked_at := Some d\<rparr> else z0)"
      using set_update_where [OF z [unfolded assms(5)]] by blast
    with live have "ses_token_hash z0 = ses_token_hash x"
      by (simp add: live_session_def assms(4) split: if_splits)
    then have "z0 = x" using assms(1,2) z0(1) by (auto simp: distinct_map inj_on_def)
    with z0(2) live assms(3) show False by (auto simp: live_session_def split: if_splits)
  qed
  then show ?thesis by (simp add: filter_empty_conv)
qed

subsection \<open>Recovery codes\<close>

interpretation codes_frame: db_relation "same recovery_codes"
  by unfold_locales (simp add: same_def)

definition live_code :: "env \<Rightarrow> uuid \<Rightarrow> string \<Rightarrow> recovery_code \<Rightarrow> bool" where
  "live_code E uid code c \<longleftrightarrow>
     rc_user_id c = uid \<and> rc_code_hash c = hash_recovery_code E (upper (strip code)) \<and> rc_used_at c = None"

lemma recover_returns:
  assumes "recover_2fa E partial code s = (Inr tokens, t)"
  obtains payload uid c where "jwt_decode E (clock s) partial = Some payload" "subject_id payload s = (Inr uid, s)"
    "filter (live_code E uid code) (recovery_codes s) = [c]"
    "recovery_codes t = update_where (\<lambda>x. rc_id x = rc_id c) (\<lambda>x. x\<lparr>rc_used_at := Some (clock s)\<rparr>) (recovery_codes s)"
proof -
  obtain payload v where p: "decode_or E partial ''partial'' (http 401 ''Session expired. Please log in again.'') s =
      (Inr payload, v)" using assms by (auto simp: recover_2fa_def bind_return_iff)
  note d = decode_or_returns [OF p]
  obtain i v2 where i: "subject_id payload s = (Inr i, v2)"
    using assms p d(1) by (auto simp: recover_2fa_def bind_return_iff)
  then have v2: "v2 = s" by (rule subject_id_pure)
  have eq: "(\<lambda>c. rc_user_id c = i \<and> rc_code_hash c = hash_recovery_code E (upper (strip code)) \<and> rc_used_at c = None) =
      live_code E i code" by (simp add: live_code_def fun_eq_iff)
  obtain c where c: "filter (live_code E i code) (recovery_codes s) = [c]"
    using assms by (auto simp: recover_2fa_def bind_run p d(1) i v2 select_one_run eq split: list.splits)
  let ?u = "s\<lparr>recovery_codes := update_where (\<lambda>x. rc_id x = rc_id c) (\<lambda>x. x\<lparr>rc_used_at := Some (clock s)\<rparr>) (recovery_codes s)\<rparr>"
  let ?rest = "bind (unused_codes i) (\<lambda>remaining.
          seq (warn_few_codes i (int (length remaining)))
          (seq (audit_user ''user.2fa_recovery_used'' None i None)
          (bind (find_user i) (\<lambda>who.
           case who of
             None \<Rightarrow> raise (http 401 ''User not found.'')
           | Some user \<Rightarrow> complete_2fa_login E user))))"
  have rest: "?rest ?u = (Inr tokens, t)"
    using assms by (simp add: recover_2fa_def bind_run p d(1) i v2 select_one_run eq c seq_run now_run)
  have "confined (same recovery_codes) ?rest"
    unfolding unused_codes_def warn_few_codes_def find_user_def complete_2fa_login_def get_role_slug_def
      create_access_token_def create_signed_token_def issue_refresh_token_def audit_user_def add_audit_def
      send_2fa_warning_email_def send_email_def deliver_def Let_def
    by (intro codes_frame.db_intros) (simp_all add: same_def)
  from confined_sameD [OF this rest] that [OF d(2) i [unfolded v2] c] show thesis by simp
qed

lemma used_code_dead:
  assumes "filter (live_code E uid code) (recovery_codes s) = [c]"
    and "recovery_codes t = update_where (\<lambda>x. rc_id x = rc_id c) (\<lambda>x. x\<lparr>rc_used_at := Some d\<rparr>) (recovery_codes s)"
  shows "filter (live_code E uid code) (recovery_codes t) = []"
proof -
  have "\<not> live_code E uid code z" if z: "z \<in> set (recovery_codes t)" for z
  proof
    assume live: "live_code E uid code z"
    obtain z0 where "z0 \<in> set (recovery_codes s)" "z = (if rc_id z0 = rc_id c then z0\<lparr>rc_used_at := Some d\<rparr> else z0)"
      using set_update_where [OF z [unfolded assms(2)]] by blast
    with live have "z \<in> set (filter (live_code E uid code) (recovery_codes s))" "rc_id z \<noteq> rc_id c"
      by (auto simp: live_code_def split: if_splits)
    with assms(1) show False by simp
  qed
  then show ?thesis by (simp add: filter_empty_conv)
qed

subsection \<open>The identity of accounts\<close>

text \<open>Ids, addresses and primary roles of the users with the tables of roles: what no session or
  password operation touches.\<close>

definition identity :: "db \<Rightarrow> (uuid \<times> string \<times> uuid) list \<times> user_role list \<times> role list" where
  "identity s = (map (\<lambda>u. (usr_id u, usr_email u, usr_role_id u)) (users s), user_roles s, roles s)"

interpretation identity_db: db_relation "same identity"
  by unfold_locales (simp add: same_def identity_def)

interpretation identity_frame: queue_relation "same identity"
  by unfold_locales (rule identity_db.confined_enqueueI, simp add: same_def identity_def)

lemma identity_save_user:
  assumes "\<And>u. usr_id (f u) = usr_id u \<and> usr_email (f u) = usr_email u \<and> usr_role_id (f u) = usr_role_id u"
  shows "confined (same identity) (save_user i f)"
  unfolding save_user_def
  by (rule frame.confined_writes) (simp add: same_def identity_def map_update_where assms)

lemma identity_mails:
  "confined (same identity) (send_email a b c)" "confined (same identity) (send_verification_email x y)"
  "confined (same identity) (send_password_reset_email x y)" "confined (same identity) (send_password_changed_email x)"
  "confined (same identity) (send_new_device_email x y z)" "confined (same identity) (send_email_change_verification x y)"
  "confined (same identity) (send_email_change_notification x y)" "confined (same identity) (send_2fa_warning_email x n)"
proof -
  show m: "confined (same identity) (send_email a b c)" for a b c
    unfolding send_email_def deliver_def by (rule frame.confined_writes) (simp add: same_def identity_def)
  show "confined (same identity) (send_verification_email x y)"
    "confined (same identity) (send_password_reset_email x y)" "confined (same identity) (send_password_changed_email x)"
    "confined (same identity) (send_new_device_email x y z)" "confined (same identity) (send_email_change_verification x y)"
    "confined (same identity) (send_email_change_notification x y)" "confined (same identity) (send_2fa_warning_email x n)"
    unfolding mail_defs Let_def by (rule m)+
qed

lemma identity_writes:
  "(\<And>s. users (f s) = users s \<and> user_roles (f s) = user_roles s \<and> roles (f s) = roles s) \<Longrightarrow>
   confined (same identity) (writes f)"
  by (rule frame.confined_writes) (simp add: same_def identity_def)

lemma identity_sessions:
  "confined (same identity) (issue_refresh_token E uid ip ua)" "confined (same identity) (revoke_session i)"
  "confined (same identity) (revoke_user_sessions uid)" "confined (same identity) (audit_user a b c d)"
  "confined (same identity) (hash_password E p)" "confined (same identity) (check_new_device E u ip ua)"
  "confined (same identity) (get_role_slug u)" "confined (same identity) (create_signed_token E claims n)"
  "confined (same identity) (create_access_token E u slug)" "confined (same identity) (create_partial_token E uid)"
  "confined (same identity) (get_typed k)"
  "confined (same identity) (find_user i)" "confined (same identity) (find_email email)"
  "confined (same identity) (decode_or E tok ty e)" "confined (same identity) (subject_id payload)"
proof -
  show "confined (same identity) (hash_password E p)"
    by (rule confinedI) (auto simp: hash_password_def same_def identity_def)
  show "confined (same identity) (subject_id payload)"
    by (rule confinedI) (auto simp: same_def dest: subject_id_pure)
  show "confined (same identity) (get_typed k)"
    by (rule confinedI) (auto simp: same_def dest: get_typed_pure)
qed (unfold issue_refresh_token_def revoke_session_def revoke_user_sessions_def audit_user_def add_audit_def
      check_new_device_def get_role_slug_def create_signed_token_def create_access_token_def
      create_partial_token_def find_user_def find_email_def decode_or_def decode_token_def Let_def,
    (intro identity_db.db_intros identity_writes; simp)+)

lemmas identity_intros = identity_frame.queue_intros identity_save_user identity_mails identity_sessions

lemma identity_login: "confined (same identity) (login E email password ip ua)"
  unfolding login_def complete_login_def record_failed_attempt_def Let_def
  by (intro identity_intros) simp_all

lemma identity_refresh: "confined (same identity) (refresh_access_token E raw ip ua)"
  unfolding refresh_access_token_def validate_and_rotate_def by (intro identity_intros)

lemma identity_verify_email: "confined (same identity) (verify_email E token)"
  unfolding verify_email_def by (intro identity_intros) simp_all

lemma identity_confirm_reset: "confined (same identity) (confirm_password_reset E token p)"
  unfolding confirm_password_reset_def by (intro identity_intros) (simp_all add: after_reset_def)

lemma identity_deletion:
  "confined (same identity) (request_deletion E u)" "confined (same identity) (cancel_deletion E u)"
  unfolding request_deletion_def cancel_deletion_def Let_def
  by (intro identity_intros; simp add: reinstated_def)+

lemma identity_2fa:
  "confined (same identity) (setup_2fa E uid)" "confined (same identity) (confirm_2fa E uid code p)"
  "confined (same identity) (verify_2fa E tok code)" "confined (same identity) (recover_2fa E tok code)"
  "confined (same identity) (disable_2fa E uid code p)"
proof -
  have draw: "confined (same identity) (draw_codes E n)" for n
    by (induction n; unfold draw_codes.simps new_recovery_code_def) (intro identity_intros; assumption?)+
  have fernet: "confined (same identity) (totp_fernet E)"
    unfolding totp_fernet_def by (intro identity_intros)
  note parts = draw fernet
  show "confined (same identity) (setup_2fa E uid)"
    unfolding setup_2fa_def encrypt_totp_secret_def Let_def
    by (intro identity_intros parts identity_writes) simp_all
  show "confined (same identity) (confirm_2fa E uid code p)"
    unfolding confirm_2fa_def reauthenticate_def check_totp_def decrypt_totp_secret_def drop_recovery_codes_def
      store_recovery_code_def
    by (intro identity_intros parts identity_writes) simp_all
  show "confined (same identity) (verify_2fa E tok code)"
    unfolding verify_2fa_def check_totp_def decrypt_totp_secret_def complete_2fa_login_def
    by (intro identity_intros parts)
  show "confined (same identity) (recover_2fa E tok code)"
    unfolding recover_2fa_def complete_2fa_login_def warn_few_codes_def unused_codes_def
    by (intro identity_intros identity_writes) simp_all
  show "confined (same identity) (disable_2fa E uid code p)"
    unfolding disable_2fa_def reauthenticate_def check_totp_def decrypt_totp_secret_def drop_recovery_codes_def
    by (intro identity_intros parts identity_writes) simp_all
qed

definition accounts_ok :: "db \<Rightarrow> bool" where
  "accounts_ok s \<longleftrightarrow> distinct (map usr_id (users s)) \<and> distinct (map usr_email (users s)) \<and> roles_mirrored s"

lemma accounts_ok_identity:
  assumes "identity t = identity s" "accounts_ok s"
  shows "accounts_ok t"
proof -
  have eq: "map (\<lambda>u. (usr_id u, usr_email u, usr_role_id u)) (users t) =
      map (\<lambda>u. (usr_id u, usr_email u, usr_role_id u)) (users s)" "user_roles t = user_roles s"
    using assms(1) by (simp_all add: identity_def)
  have "map usr_id (users t) = map usr_id (users s)" "map usr_email (users t) = map usr_email (users s)"
    using arg_cong [OF eq(1), of "map fst"] arg_cong [OF eq(1), of "map (\<lambda>x. fst (snd x))"] by (simp_all add: comp_def)
  moreover have "roles_mirrored t"
    unfolding roles_mirrored_def
  proof
    fix u assume "u \<in> set (users t)"
    then have "(usr_id u, usr_email u, usr_role_id u) \<in> set (map (\<lambda>u. (usr_id u, usr_email u, usr_role_id u)) (users s))"
      unfolding eq(1) [symmetric] by auto
    then obtain v where "v \<in> set (users s)" "usr_id v = usr_id u" "usr_role_id v = usr_role_id u" by auto
    then show "holds_role t (usr_id u) (usr_role_id u)"
      using assms(2) eq(2) unfolding accounts_ok_def roles_mirrored_def holds_role_def by metis
  qed
  ultimately show ?thesis using assms(2) by (simp add: accounts_ok_def)
qed

lemma same_identity_keeps: "confined (same identity) m \<Longrightarrow> confined (preserves accounts_ok) m"
  using confined_same_preserves [of identity m accounts_ok] accounts_ok_identity by blast

lemma get_current_versions_pure: "get_current_versions E s = (r, t) \<Longrightarrow> t = s"
  by (auto simp: get_current_versions_def read_app_config_version_def bind_run seq_run require_run
      split: prod.splits sum.splits if_splits dest!: get_typed_pure)

lemma find_email_returns:
  "find_email email s = (Inr found, t) \<Longrightarrow>
     t = s \<and> (found = None \<longrightarrow> (\<forall>u \<in> set (users s). usr_email u \<noteq> email)) \<and>
     (\<forall>u. found = Some u \<longrightarrow> filter (\<lambda>x. usr_email x = email) (users s) = [u])"
  by (auto simp: find_email_def run_simps filter_empty_conv split: list.splits)

lemma identity_after_insert: "confined (same identity) (after_insert E user tos privacy b ip ua)"
  unfolding after_insert_def record_acceptance_def add_consent_def send_verification_def
  by (intro identity_intros identity_writes) simp_all

lemma register_returns:
  assumes "register_user E r base_url ip ua s = (Inr user, t)"
  obtains role_row tos privacy v where "get_current_versions E s = (Inr (tos, privacy), s)"
    "reg_tos_version r = tos" "reg_privacy_version r = privacy"
    "\<forall>u \<in> set (users s). usr_email u \<noteq> lower (reg_email r)"
    "filter (\<lambda>x. role_slug x = ''customer'') (roles s) = [role_row]"
    "user = new_user (random_uuid E (Suc (draws s))) (reg_email r) (bcrypt_hash E (draws s) (reg_password r))
       (reg_first_name r) (reg_last_name r) (role_id role_row) (clock s)"
    "grant user ''customer'' None (s\<lparr>draws := Suc (Suc (draws s)), users := users s @ [user]\<rparr>) = (Inr (), v)"
    "after_insert E user tos privacy base_url ip ua v = (Inr (), t)"
proof -
  obtain found v1 where f: "find_email (lower (reg_email r)) s = (Inr found, v1)"
    using assms by (auto simp: register_user_def bind_return_iff)
  note fe = find_email_returns [OF f]
  have "found = None" using assms f by (auto simp: register_user_def bind_run seq_run require_run split: if_splits)
  with fe have free: "\<forall>u \<in> set (users s). usr_email u \<noteq> lower (reg_email r)" and v1: "v1 = s" by auto
  obtain tos privacy v2 where g: "get_current_versions E s = (Inr (tos, privacy), v2)"
    using assms f v1 \<open>found = None\<close>
    by (auto simp: register_user_def bind_run seq_run require_run split: prod.splits sum.splits)
  then have v2: "v2 = s" by (rule get_current_versions_pure)
  have terms: "reg_tos_version r = tos" "reg_privacy_version r = privacy"
    using assms f v1 \<open>found = None\<close> g
    by (auto simp: register_user_def bind_run seq_run require_run split: if_splits)
  obtain rl where rl: "filter (\<lambda>x. role_slug x = ''customer'') (roles s) = [rl]"
    using assms f v1 \<open>found = None\<close> g v2 terms
    by (auto simp: register_user_def bind_run seq_run require_run select_one_run split: list.splits)
  let ?u = "new_user (random_uuid E (Suc (draws s))) (reg_email r) (bcrypt_hash E (draws s) (reg_password r))
       (reg_first_name r) (reg_last_name r) (role_id rl) (clock s)"
  let ?s2 = "s\<lparr>draws := Suc (Suc (draws s)), users := users s @ [?u]\<rparr>"
  have ins: "insert_user E (reg_email r) (reg_password r) (reg_first_name r) (reg_last_name r) (role_id rl) s = (Inr ?u, ?s2)"
    by (simp add: insert_user_def hash_password_def run_simps)
  have "seq (grant ?u ''customer'' None) (seq (after_insert E ?u tos privacy base_url ip ua) (ret ?u)) ?s2 = (Inr user, t)"
    using assms f v1 \<open>found = None\<close> g v2 terms rl ins
    by (simp add: register_user_def bind_run [of "find_email (lower (reg_email r))"] bind_run [of "get_current_versions E"]
        seq_run [of "require b e" for b e] require_run bind_run [of "select_one roles p" for p] select_one_run
        bind_run [of "insert_user E a b c d e" for a b c d e])
  then obtain v where v: "grant ?u ''customer'' None ?s2 = (Inr (), v)"
    "after_insert E ?u tos privacy base_url ip ua v = (Inr (), t)" and u: "user = ?u"
    by (auto simp: seq_return_iff)
  from that [OF g [unfolded v2] terms free rl u] v u show thesis by simp
qed

lemma register_keeps_accounts:
  assumes run: "register_user E r base_url ip ua s = (Inr user, t)" and ok: "accounts_ok s"
    and fresh: "random_uuid E (Suc (draws s)) \<notin> usr_id ` set (users s)"
  shows "accounts_ok t"
proof -
  obtain rl tos privacy v where r: "\<forall>u \<in> set (users s). usr_email u \<noteq> lower (reg_email r)"
    "filter (\<lambda>x. role_slug x = ''customer'') (roles s) = [rl]"
    "user = new_user (random_uuid E (Suc (draws s))) (reg_email r) (bcrypt_hash E (draws s) (reg_password r))
       (reg_first_name r) (reg_last_name r) (role_id rl) (clock s)"
    "grant user ''customer'' None (s\<lparr>draws := Suc (Suc (draws s)), users := users s @ [user]\<rparr>) = (Inr (), v)"
    "after_insert E user tos privacy base_url ip ua v = (Inr (), t)" by (rule register_returns [OF run])
  have id: "usr_id user = random_uuid E (Suc (draws s))" "usr_email user = lower (reg_email r)" "usr_role_id user = role_id rl"
    by (simp_all add: r(3) new_user_def)
  obtain rid where g: "resolve_role_id ''customer'' (s\<lparr>draws := Suc (Suc (draws s)), users := users s @ [user]\<rparr>) =
      (Inr rid, s\<lparr>draws := Suc (Suc (draws s)), users := users s @ [user]\<rparr>)" "users v = users s @ [user]"
    "\<And>w q. holds_role v w q \<longleftrightarrow> holds_role (s\<lparr>draws := Suc (Suc (draws s)), users := users s @ [user]\<rparr>) w q \<or>
       (w = usr_id user \<and> q = rid)"
    by (rule grant_spec [OF r(4)]) simp
  have "rid = role_id rl" using g(1) r(2) by (simp add: resolve_role_id_run)
  then have "roles_mirrored v"
    using ok g(2,3) id(3) by (auto simp: accounts_ok_def roles_mirrored_def holds_role_def)
  moreover have "usr_email user \<notin> usr_email ` set (users s)" using r(1) id(2) by auto
  ultimately have "accounts_ok v" using ok g(2) fresh id(1) by (simp add: accounts_ok_def)
  with confined_sameD [OF identity_after_insert r(5)] show ?thesis by (rule accounts_ok_identity)
qed

lemma change_email_keeps_accounts:
  assumes run: "confirm_email_change E token s = (Inr (), t)" and ok: "accounts_ok s"
  shows "accounts_ok t"
proof -
  let ?e = "http 400 ''Email change link is invalid or has expired.''"
  obtain payload v where p: "decode_or E token ''change_email'' ?e s = (Inr payload, v)"
    using run by (auto simp: confirm_email_change_def bind_return_iff)
  note d = decode_or_returns [OF p]
  obtain i v2 where i: "subject_id payload s = (Inr i, v2)"
    using run p d(1) by (auto simp: confirm_email_change_def bind_return_iff)
  then have v2: "v2 = s" by (rule subject_id_pure)
  obtain found v3 where f: "find_user i s = (Inr found, v3)"
    using run p d(1) i v2 by (auto simp: confirm_email_change_def bind_return_iff)
  then have v3: "v3 = s" using find_user_returns by blast
  obtain u new where fu: "found = Some u" and new: "obj_get payload ''new_email'' = JStr new"
    using run p d(1) i v2 f by (cases found; cases "obj_get payload ''new_email''")
      (auto simp: confirm_email_change_def bind_run)
  obtain taken v4 where tk: "find_email new s = (Inr taken, v4)"
    using run p d(1) i v2 f fu new v3
    by (auto simp: confirm_email_change_def bind_run seq_run require_run split: if_splits prod.splits sum.splits)
  note te = find_email_returns [OF tk]
  have rest: "new \<noteq> ''''" "taken = None" "seq (save_user (usr_id u) (\<lambda>u. u\<lparr>usr_email := new\<rparr>))
      (seq (revoke_user_sessions i) (audit_user ''user.email_changed'' None i (Some (JObj [(''new_email'', JStr new)])))) s =
      (Inr (), t)"
    using run p d(1) i v2 f fu new v3 tk te
    by (auto simp: confirm_email_change_def bind_run seq_run require_run split: if_splits)
  let ?s = "s\<lparr>users := update_where (\<lambda>x. usr_id x = usr_id u) (\<lambda>u. u\<lparr>usr_email := new\<rparr>) (users s)\<rparr>"
  have "u \<in> set (users s)" using find_user_returns [OF f] fu filter_single by fastforce
  have "distinct (map usr_email (users ?s))"
    unfolding distinct_conv_nth
  proof (intro allI impI)
    fix a b assume a: "a < length (map usr_email (users ?s))" and b: "b < length (map usr_email (users ?s))" and ab: "a \<noteq> b"
    have "usr_id (users s ! a) \<noteq> usr_id (users s ! b)" "usr_email (users s ! a) \<noteq> usr_email (users s ! b)"
      using ok a b ab by (simp_all add: accounts_ok_def distinct_conv_nth)
    moreover have "usr_email (users s ! a) \<noteq> new" "usr_email (users s ! b) \<noteq> new" using te rest(2) a b by simp_all
    ultimately show "map usr_email (users ?s) ! a \<noteq> map usr_email (users ?s) ! b"
      using a b by (auto simp: update_where_def)
  qed
  moreover have "distinct (map usr_id (users ?s))" using ok by (simp add: accounts_ok_def distinct_update_where)
  moreover have "roles_mirrored ?s"
    unfolding roles_mirrored_def
  proof
    fix x assume "x \<in> set (users ?s)"
    then obtain x0 where "x0 \<in> set (users s)" "usr_id x = usr_id x0" "usr_role_id x = usr_role_id x0"
      by (auto simp: update_where_def)
    then show "holds_role ?s (usr_id x) (usr_role_id x)"
      using ok by (simp add: accounts_ok_def roles_mirrored_def holds_role_def)
  qed
  ultimately have ok2: "accounts_ok ?s" by (simp add: accounts_ok_def)
  have "confined (same identity) (seq (revoke_user_sessions i)
      (audit_user ''user.email_changed'' None i (Some (JObj [(''new_email'', JStr new)]))))"
    by (intro identity_intros)
  moreover have "seq (revoke_user_sessions i)
      (audit_user ''user.email_changed'' None i (Some (JObj [(''new_email'', JStr new)]))) ?s = (Inr (), t)"
    using rest(3) unfolding save_user_def by (subst (asm) seq_run) simp
  ultimately have "identity t = identity ?s" by (rule confined_sameD)
  from this ok2 show ?thesis by (rule accounts_ok_identity)
qed

subsection \<open>Refused requests\<close>

lemma limiter_keeps_users: "confined (same users) (check_rate_limit E key limit w)"
  unfolding check_rate_limit_def upsert_counter_def Let_def
  by (intro users_frame.db_intros) (simp_all add: same_def)

lemma login_limiters_keep_users:
  "confined (same users) (login_ip_limiter E rq)" "confined (same users) (login_email_limiter E rq)"
  unfolding login_ip_limiter_def login_email_limiter_def rate_limit_by_ip_def rate_limit_by_email_def Let_def
  by (intro users_frame.db_intros limiter_keeps_users)+

lemma wrong_password_leaves_no_trace:
  assumes "account_row email u s" "\<not> password_ok E u p"
  shows "snd (login_route E rq email p s) = s"
proof (cases "login_route E rq email p s")
  case (Pair r t)
  show ?thesis
  proof (cases r)
    case (Inl e)
    with Pair show ?thesis unfolding login_route_def using get_db_raise by (metis fst_conv)
  next
    case (Inr x)
    then obtain s1 s2 res s3 where l: "login_ip_limiter E rq s = (Inr (), s1)" "login_email_limiter E rq s1 = (Inr (), s2)"
      "login E email p (Some (get_client_ip rq)) (user_agent_of rq) s2 = (Inr res, s3)"
      using Pair by (auto simp: login_route_def get_db_def atomically_return_iff bind_return_iff seq_return_iff)
    have "users s2 = users s"
      using confined_sameD [OF login_limiters_keep_users(1) l(1)] confined_sameD [OF login_limiters_keep_users(2) l(2)]
      by simp
    with assms(1) have row: "account_row email u s2" by (simp add: account_row_def)
    obtain v where "account_row email v s2" "password_ok E v p" by (rule login_returns [OF l(3)])
    with row assms(2) show ?thesis by (simp add: account_row_def)
  qed
qed

lemma retry_after_bounds:
  assumes "window_ok w"
  shows "max (retry_after t w) 1 \<le> w"
proof -
  note c = window_contains [OF assms, of t]
  define d where "d = window_start_of t w + seconds w - t"
  have "0 \<le> d" "d \<le> w * 1000000" using c by (simp_all add: d_def seconds_def)
  then have "d div 1000000 \<le> w" by linarith
  then show ?thesis using assms \<open>0 \<le> d\<close> by (simp add: retry_after_def Let_def d_def [symmetric] window_ok_def)
qed

subsection \<open>Every order of account requests\<close>

text \<open>A request of an account, in its transaction; a registration draws an id that is new.\<close>

inductive account_step :: "env \<Rightarrow> db \<Rightarrow> db \<Rightarrow> bool" for E where
  registered: "random_uuid E (Suc (draws s)) \<notin> usr_id ` set (users s) \<Longrightarrow>
     account_step E s (snd (get_db (register_user E r url ip ua) s))"
| address_changed: "account_step E s (snd (get_db (confirm_email_change E tok) s))"
| logged_in: "account_step E s (snd (get_db (login E email p ip ua) s))"
| refreshed: "account_step E s (snd (get_db (refresh_access_token E raw ip ua) s))"
| verified: "account_step E s (snd (get_db (verify_email E tok) s))"
| password_reset: "account_step E s (snd (get_db (confirm_password_reset E tok p) s))"
| deletion_requested: "account_step E s (snd (get_db (request_deletion E u) s))"
| deletion_cancelled: "account_step E s (snd (get_db (cancel_deletion E u) s))"
| totp_set_up: "account_step E s (snd (get_db (setup_2fa E i) s))"
| totp_confirmed: "account_step E s (snd (get_db (confirm_2fa E i code p) s))"
| totp_verified: "account_step E s (snd (get_db (verify_2fa E tok code) s))"
| recovered: "account_step E s (snd (get_db (recover_2fa E tok code) s))"
| totp_disabled: "account_step E s (snd (get_db (disable_2fa E i code p) s))"

lemma get_db_keeps:
  assumes "accounts_ok s" "\<And>r t. m s = (Inr r, t) \<Longrightarrow> accounts_ok t"
  shows "accounts_ok (snd (get_db m s))"
  using assms by (auto simp: get_db_def atomically_run split: prod.splits sum.splits)

lemma quiet_keeps:
  assumes "accounts_ok s" "confined (same identity) m"
  shows "accounts_ok (snd (get_db m s))"
  using assms(1)
proof (rule get_db_keeps)
  fix r t assume "m s = (Inr r, t)"
  from confined_sameD [OF assms(2) this] assms(1) show "accounts_ok t" by (rule accounts_ok_identity)
qed

lemma account_step_keeps:
  assumes "account_step E s t" "accounts_ok s"
  shows "accounts_ok t"
  using assms
proof (cases rule: account_step.cases)
  case (registered r url ip ua)
  show ?thesis unfolding registered(1)
  proof (rule get_db_keeps [OF assms(2)])
    fix u v assume "register_user E r url ip ua s = (Inr u, v)"
    from register_keeps_accounts [OF this assms(2) registered(2)] show "accounts_ok v" .
  qed
next
  case (address_changed tok)
  show ?thesis unfolding address_changed
  proof (rule get_db_keeps [OF assms(2)])
    fix u v assume "confirm_email_change E tok s = (Inr u, v)"
    then show "accounts_ok v" using change_email_keeps_accounts [OF _ assms(2)] by simp
  qed
qed (simp_all only:, (rule quiet_keeps, assumption, rule identity_login identity_refresh identity_verify_email
    identity_confirm_reset identity_deletion identity_2fa)+)

end
