(* ===== verification/Calendar.thy ===== *)
theory Calendar
  imports Maps
begin

section \<open>The appraisal calendar\<close>

text \<open>
  \<^verbatim>\<open>api/services/calendar_service.py\<close>, \<^verbatim>\<open>routers/calendar.py\<close>,
  \<^verbatim>\<open>services/appraiser_appointments_service.py\<close> and \<^verbatim>\<open>routers/me_appointments.py\<close>: scheduling an
  appraisal against the appraiser's other appointments with a driving-time buffer, moving it,
  cancelling it. A conflict is an answer, not an exception: its transaction commits. Times arrive
  with a zone.
\<close>

definition en_dash :: string where
  "en_dash = [char_of (226::nat), char_of (128::nat), char_of (147::nat)]"

definition DEFAULT_DURATION_MINUTES :: int where "DEFAULT_DURATION_MINUTES = 60"

definition SCHEDULABLE_FROM_STATUSES :: "string list" where
  "SCHEDULABLE_FROM_STATUSES = [''new_request'']"

record calendar_conflict =
  cf_message :: string
  cf_next_available_at :: "datetime option"
  cf_conflicting_event_id :: "uuid option"

subsection \<open>Lookups\<close>

definition list_events :: "datetime \<Rightarrow> datetime \<Rightarrow> uuid option \<Rightarrow> calendar_event list op" where
  "list_events start end_at appraiser_id =
     reads (\<lambda>s. sort_key cal_scheduled_at (filter (\<lambda>e. start \<le> cal_scheduled_at e \<and>
        cal_scheduled_at e < end_at \<and> cal_cancelled_at e = None \<and>
        (case appraiser_id of None \<Rightarrow> True | Some a \<Rightarrow> cal_appraiser_id e = a)) (calendar_events s)))"

definition load_record_or_404 :: "uuid \<Rightarrow> equipment_record op" where
  "load_record_or_404 record_id =
     bind (select_one equipment_records (\<lambda>r. er_id r = record_id)) (\<lambda>found.
     case found of None \<Rightarrow> raise (http 404 ''equipment record not found'') | Some r \<Rightarrow> ret r)"

definition get_event_or_404 :: "uuid \<Rightarrow> calendar_event op" where
  "get_event_or_404 event_id =
     bind (select_one calendar_events (\<lambda>e. cal_id e = event_id)) (\<lambda>found.
     case found of None \<Rightarrow> raise (http 404 ''calendar event not found'') | Some e \<Rightarrow> ret e)"

definition require_appraiser :: "uuid \<Rightarrow> user op" where
  "require_appraiser user_id =
     bind (slug_of_user user_id) (\<lambda>found.
     case found of
       None \<Rightarrow> raise (http 422 (''appraiser '' @ uuid_str user_id @ '' not found''))
     | Some slug \<Rightarrow>
         seq (require (slug = ''appraiser'')
                (http 422 (''user '' @ uuid_str user_id @ '' has role '' @ quoted slug @
                   '', expected '' @ quoted ''appraiser'')))
         (bind (reads (\<lambda>s. find (\<lambda>u. usr_id u = user_id) (users s))) (\<lambda>u.
          case u of
            None \<Rightarrow> raise (http 422 (''appraiser '' @ uuid_str user_id @ '' not found''))
          | Some x \<Rightarrow> ret x)))"

text \<open>\<^verbatim>\<open>record.customer.user if record.customer is not None else None\<close>.\<close>

definition customer_user_of :: "equipment_record \<Rightarrow> user option op" where
  "customer_user_of record =
     reads (\<lambda>s. case find (\<lambda>c. cus_id c = er_customer_id record) (customers s) of
        None \<Rightarrow> None
      | Some c \<Rightarrow> find (\<lambda>u. Some (usr_id u) = cus_user_id c) (users s))"

definition event_state :: "calendar_event \<Rightarrow> json" where
  "event_state e =
     JObj [(''id'', JStr (uuid_str (cal_id e))),
       (''equipment_record_id'', JStr (uuid_str (cal_equipment_record_id e))),
       (''appraiser_id'', JStr (uuid_str (cal_appraiser_id e))),
       (''scheduled_at'', JStr (isoformat (cal_scheduled_at e))),
       (''duration_minutes'', JInt (cal_duration_minutes e)),
       (''site_address'', jopt JStr (cal_site_address e)),
       (''cancelled_at'', jopt (\<lambda>t. JStr (isoformat t)) (cal_cancelled_at e))]"

definition audit_event ::
  "string \<Rightarrow> user \<Rightarrow> string \<Rightarrow> uuid \<Rightarrow> json option \<Rightarrow> calendar_event \<Rightarrow> unit op" where
  "audit_event event_type actor actor_role target before e =
     add_audit \<lparr>aud_event_type = event_type, aud_actor_id = Some (usr_id actor),
       aud_actor_role = Some actor_role, aud_target_type = Some ''calendar_event'',
       aud_target_id = Some target, aud_before_state = before, aud_after_state = Some (event_state e)\<rparr>"

subsection \<open>Conflicts\<close>

definition ranges_overlap :: "datetime \<Rightarrow> datetime \<Rightarrow> datetime \<Rightarrow> datetime \<Rightarrow> bool" where
  "ranges_overlap a_start a_end b_start b_end \<longleftrightarrow> a_start < b_end \<and> b_start < a_end"

text \<open>\<^verbatim>\<open>timedelta(seconds=fallback_minutes * 60)\<close>; the configured value is whatever was stored.\<close>

fun fallback_delta :: "json \<Rightarrow> int op" where
  "fallback_delta (JInt i) = ret (seconds (i * 60))"
| "fallback_delta (JBool b) = ret (seconds (if b then 60 else 0))"
| "fallback_delta (JFloat q) = ret (round_half_even (q * 60 * 1000000))"
| "fallback_delta _ = raise (TypeError ''unsupported type for timedelta seconds component'')"

definition resolve_buffer :: "env \<Rightarrow> string option \<Rightarrow> string option \<Rightarrow> json \<Rightarrow> int op" where
  "resolve_buffer E origin destination fallback_minutes =
     (if \<not> str_truthy origin \<or> \<not> str_truthy destination then fallback_delta fallback_minutes
      else
        bind (get_drive_time_seconds E (the origin) (the destination)) (\<lambda>found.
        case found of None \<Rightarrow> fallback_delta fallback_minutes | Some n \<Rightarrow> ret (seconds n)))"

definition ends_at :: "calendar_event \<Rightarrow> datetime" where
  "ends_at e = cal_scheduled_at e + minutes (cal_duration_minutes e)"

primrec first_conflict ::
  "env \<Rightarrow> datetime \<Rightarrow> datetime \<Rightarrow> string option \<Rightarrow> json \<Rightarrow> calendar_event list \<Rightarrow>
   calendar_conflict option op" where
  "first_conflict E start end_at address fallback [] = ret None"
| "first_conflict E start end_at address fallback (e # es) =
     (if ranges_overlap start end_at (cal_scheduled_at e) (ends_at e)
      then ret (Some \<lparr>cf_message = ''Appraiser is already scheduled '' @ isoformat (cal_scheduled_at e) @
                        en_dash @ isoformat (ends_at e) @ ''.'',
                      cf_next_available_at = Some (ends_at e), cf_conflicting_event_id = Some (cal_id e)\<rparr>)
      else if ends_at e \<le> start
      then bind (resolve_buffer E (cal_site_address e) address fallback) (\<lambda>buffer.
           if start < ends_at e + buffer
           then ret (Some \<lparr>cf_message = ''Drive time from the prior appointment would not '' @
                             ''allow arrival until '' @ isoformat (ends_at e + buffer) @ ''.'',
                           cf_next_available_at = Some (ends_at e + buffer),
                           cf_conflicting_event_id = Some (cal_id e)\<rparr>)
           else first_conflict E start end_at address fallback es)
      else if end_at \<le> cal_scheduled_at e
      then bind (resolve_buffer E address (cal_site_address e) fallback) (\<lambda>buffer.
           if end_at > cal_scheduled_at e - buffer
           then ret (Some \<lparr>cf_message = ''This appointment would not leave enough drive time '' @
                             ''to reach the next stop at '' @ isoformat (cal_scheduled_at e) @ ''.'',
                           cf_next_available_at = None, cf_conflicting_event_id = Some (cal_id e)\<rparr>)
           else first_conflict E start end_at address fallback es)
      else first_conflict E start end_at address fallback es)"

definition in_window :: "uuid \<Rightarrow> datetime \<Rightarrow> uuid option \<Rightarrow> calendar_event \<Rightarrow> bool" where
  "in_window appraiser_id start ignore e \<longleftrightarrow>
     cal_appraiser_id e = appraiser_id \<and> cal_cancelled_at e = None \<and>
     start - days 1 \<le> cal_scheduled_at e \<and> cal_scheduled_at e < start + days 1 \<and>
     (case ignore of None \<Rightarrow> True | Some i \<Rightarrow> cal_id e \<noteq> i)"

definition check_conflict ::
  "env \<Rightarrow> uuid \<Rightarrow> datetime \<Rightarrow> datetime \<Rightarrow> string option \<Rightarrow> uuid option \<Rightarrow> calendar_conflict option op" where
  "check_conflict E appraiser_id start end_at address ignore =
     bind (reads (\<lambda>s. sort_key cal_scheduled_at
             (filter (in_window appraiser_id start ignore) (calendar_events s)))) (\<lambda>same_day_events.
     bind read_drive_time_fallback_minutes (\<lambda>fallback_minutes.
     first_conflict E start end_at address fallback_minutes same_day_events))"

subsection \<open>The mails to the appraiser and to the customer\<close>

definition appraiser_payload ::
  "user \<Rightarrow> equipment_record \<Rightarrow> calendar_event \<Rightarrow> string \<Rightarrow> string \<Rightarrow> (string \<times> json) list" where
  "appraiser_payload appraiser record e subject body =
     [(''to_email'', JStr (usr_email appraiser)), (''subject'', JStr subject), (''html_body'', JStr body),
      (''reference_number'', JStr (record_ref record)),
      (''scheduled_at'', JStr (isoformat (cal_scheduled_at e))),
      (''site_address'', jopt JStr (cal_site_address e))]"

definition scheduled_body :: "user \<Rightarrow> equipment_record \<Rightarrow> calendar_event \<Rightarrow> string" where
  "scheduled_body appraiser record e =
     ''<p>Hi '' @ str_or (Some (usr_first_name appraiser)) ''team'' @ '',</p>'' @
     ''<p>You have been scheduled for an appraisal of '' @
     ''<strong>'' @ record_ref record @ ''</strong> at <strong>'' @ isoformat (cal_scheduled_at e) @ ''</strong>.</p>'' @
     ''<p>Site: '' @ str_or (cal_site_address e) ''(none provided)'' @ ''.</p>''"

definition cancelled_body :: "user \<Rightarrow> equipment_record \<Rightarrow> calendar_event \<Rightarrow> string" where
  "cancelled_body appraiser record e =
     ''<p>Hi '' @ str_or (Some (usr_first_name appraiser)) ''team'' @ '',</p>'' @
     ''<p>Your appraisal for <strong>'' @ record_ref record @ ''</strong> previously '' @
     ''scheduled at <strong>'' @ isoformat (cal_scheduled_at e) @ ''</strong> has been cancelled.</p>''"

definition enqueue_appraiser_email ::
  "env \<Rightarrow> user \<Rightarrow> equipment_record \<Rightarrow> calendar_event \<Rightarrow> string \<Rightarrow> unit op" where
  "enqueue_appraiser_email E appraiser record e kind =
     (if usr_email appraiser = '''' \<or> usr_status appraiser \<noteq> ''active'' then ret ()
      else if kind = ''scheduled''
      then seq (enqueue E (''appraisal_scheduled:'' @ uuid_str (cal_id e) @ '':'' @ uuid_str (usr_id appraiser))
                  (Some (usr_id appraiser)) ''email'' ''appraisal_scheduled_appraiser''
                  (appraiser_payload appraiser record e
                     (''Appraisal scheduled '' @ em_dash @ '' '' @ record_ref record)
                     (scheduled_body appraiser record e)) None) (ret ())
      else if kind = ''cancelled''
      then seq (enqueue E (''appraisal_cancelled:'' @ uuid_str (cal_id e) @ '':'' @ uuid_str (usr_id appraiser))
                  (Some (usr_id appraiser)) ''email'' ''appraisal_cancelled_appraiser''
                  (appraiser_payload appraiser record e
                     (''Appraisal cancelled '' @ em_dash @ '' '' @ record_ref record)
                     (cancelled_body appraiser record e)) None) (ret ())
      else ret ())"

definition cancellation_payload ::
  "user \<Rightarrow> equipment_record \<Rightarrow> calendar_event \<Rightarrow> (string \<times> json) list" where
  "cancellation_payload customer_user record e =
     [(''to_email'', JStr (usr_email customer_user)),
      (''subject'', JStr (''Your appraisal has been rescheduled '' @ em_dash @ '' '' @ record_ref record)),
      (''html_body'', JStr (''<p>Hi '' @ usr_first_name customer_user @ '',</p>'' @
         ''<p>The appraisal for your equipment submission '' @
         ''(<strong>'' @ record_ref record @ ''</strong>) previously scheduled at '' @
         ''<strong>'' @ isoformat (cal_scheduled_at e) @ ''</strong> has been cancelled. A sales rep '' @
         ''will follow up to find a new time.</p>'')),
      (''reference_number'', JStr (record_ref record))]"

definition enqueue_customer_cancellation_email ::
  "env \<Rightarrow> user \<Rightarrow> equipment_record \<Rightarrow> calendar_event \<Rightarrow> unit op" where
  "enqueue_customer_cancellation_email E customer_user record e =
     (if usr_email customer_user = '''' then ret ()
      else seq (enqueue E (''appraisal_cancelled_customer:'' @ uuid_str (cal_id e))
                  (Some (usr_id customer_user)) ''email'' ''appraisal_cancelled_customer''
                  (cancellation_payload customer_user record e) None) (ret ()))"

subsection \<open>Creating\<close>

definition new_event :: "uuid \<Rightarrow> uuid \<Rightarrow> uuid \<Rightarrow> datetime \<Rightarrow> int \<Rightarrow> string option \<Rightarrow> calendar_event" where
  "new_event i record_id appraiser_id scheduled_at duration address =
     \<lparr>cal_id = i, cal_equipment_record_id = record_id, cal_appraiser_id = appraiser_id,
      cal_scheduled_at = scheduled_at, cal_duration_minutes = duration, cal_site_address = address,
      cal_drive_time_buffer_minutes = 30, cal_cancelled_at = None\<rparr>"

text \<open>
  The hook \<^verbatim>\<open>before_flush\<close> of the session: the appraiser of a new event, and the new appraiser of a changed
  one, joins the attendees as primary unless already there.
\<close>

definition add_primary :: "calendar_event \<Rightarrow> event_attendee list \<Rightarrow> event_attendee list" where
  "add_primary e xs =
     (if \<exists>x \<in> set xs. att_event_id x = cal_id e \<and> att_user_id x = cal_appraiser_id e then xs
      else xs @ [\<lparr>att_event_id = cal_id e, att_user_id = cal_appraiser_id e, att_role = ''primary''\<rparr>])"

definition mirror_appraiser :: "calendar_event \<Rightarrow> unit op" where
  "mirror_appraiser e = writes (\<lambda>s. s\<lparr>event_attendees := add_primary e (event_attendees s)\<rparr>)"

definition insert_event ::
  "env \<Rightarrow> uuid \<Rightarrow> uuid \<Rightarrow> datetime \<Rightarrow> int \<Rightarrow> string option \<Rightarrow> calendar_event op" where
  "insert_event E record_id appraiser_id scheduled_at duration address =
     bind (uuid4 E) (\<lambda>i.
     bind (reads (\<lambda>s. \<exists>x \<in> set (calendar_events s). cal_id x = i)) (\<lambda>taken.
     let e = new_event i record_id appraiser_id scheduled_at duration address
     in seq (require (\<not> taken) (IntegrityError ''calendar_events_pkey''))
        (seq (writes (\<lambda>s. s\<lparr>calendar_events := calendar_events s @ [e]\<rparr>))
        (seq (mirror_appraiser e) (ret e)))))"

definition nonempty :: "string \<Rightarrow> string option" where
  "nonempty x = (if x = '''' then None else Some x)"

definition announce_event ::
  "env \<Rightarrow> user \<Rightarrow> string \<Rightarrow> equipment_record \<Rightarrow> user \<Rightarrow> calendar_event \<Rightarrow> unit op" where
  "announce_event E actor actor_role record appraiser e =
     seq (audit_event ''calendar_event.created'' actor actor_role (cal_id e) None e)
     (bind (customer_user_of record) (\<lambda>customer.
      bind (record_transition E record ''appraisal_scheduled'' (Some actor) None customer None) (\<lambda>(ev, record').
      enqueue_appraiser_email E appraiser record' e ''scheduled'')))"

text \<open>\<^verbatim>\<open>x or d\<close> of an integer.\<close>

definition int_or :: "int option \<Rightarrow> int \<Rightarrow> int" where
  "int_or x d = (case x of None \<Rightarrow> d | Some i \<Rightarrow> if i = 0 then d else i)"

definition create_event ::
  "env \<Rightarrow> user \<Rightarrow> string \<Rightarrow> uuid \<Rightarrow> uuid \<Rightarrow> datetime \<Rightarrow> int option \<Rightarrow> string option \<Rightarrow>
   (calendar_conflict + calendar_event) op" where
  "create_event E actor actor_role record_id appraiser_id scheduled_at duration_minutes site_address =
     (let duration = int_or duration_minutes DEFAULT_DURATION_MINUTES;
          end_at = scheduled_at + minutes duration
      in bind (load_record_or_404 record_id) (\<lambda>record.
         seq (require (er_status record \<in> set SCHEDULABLE_FROM_STATUSES)
                (http 422 (''Cannot schedule from status '' @ quoted (er_status record) @ ''. '' @
                   ''Only new_request records may be scheduled.'')))
         (bind (require_appraiser appraiser_id) (\<lambda>appraiser.
          let address = nonempty (strip (if str_truthy site_address then the site_address
                                         else str_or (er_customer_location_text record) ''''))
          in bind (check_conflict E appraiser_id scheduled_at end_at address None) (\<lambda>conflict.
             case conflict of
               Some c \<Rightarrow> ret (Inl c)
             | None \<Rightarrow>
                 bind (insert_event E (er_id record) appraiser_id scheduled_at duration address) (\<lambda>e.
                 seq (announce_event E actor actor_role record appraiser e)
                   (ret (Inr e))))))))"

subsection \<open>Moving\<close>

record event_patch =
  ep_appraiser_id :: "uuid option"
  ep_scheduled_at :: "datetime option"
  ep_duration_minutes :: "int option"
  ep_site_address :: "string option option"

definition the_or :: "'a option \<Rightarrow> 'a \<Rightarrow> 'a" where
  "the_or x d = (case x of None \<Rightarrow> d | Some y \<Rightarrow> y)"

definition patched_event :: "event_patch \<Rightarrow> calendar_event \<Rightarrow> calendar_event" where
  "patched_event p e = e\<lparr>cal_appraiser_id := the_or (ep_appraiser_id p) (cal_appraiser_id e),
     cal_scheduled_at := the_or (ep_scheduled_at p) (cal_scheduled_at e),
     cal_duration_minutes := int_or (ep_duration_minutes p) (cal_duration_minutes e),
     cal_site_address := the_or (ep_site_address p) (cal_site_address e)\<rparr>"

definition schedule_changed :: "calendar_event \<Rightarrow> calendar_event \<Rightarrow> bool" where
  "schedule_changed e e' \<longleftrightarrow> cal_appraiser_id e' \<noteq> cal_appraiser_id e \<or>
     cal_scheduled_at e' \<noteq> cal_scheduled_at e \<or> cal_duration_minutes e' \<noteq> cal_duration_minutes e"

definition replace_event :: "calendar_event \<Rightarrow> unit op" where
  "replace_event e =
     writes (\<lambda>s. s\<lparr>calendar_events := update_where (\<lambda>x. cal_id x = cal_id e) (\<lambda>_. e) (calendar_events s)\<rparr>)"

definition update_event ::
  "env \<Rightarrow> user \<Rightarrow> string \<Rightarrow> uuid \<Rightarrow> event_patch \<Rightarrow> (calendar_conflict + calendar_event) op" where
  "update_event E actor actor_role event_id p =
     bind (get_event_or_404 event_id) (\<lambda>e.
     seq (require (cal_cancelled_at e = None) (http 409 ''Cannot edit a cancelled appointment.''))
     (let e' = patched_event p e
      in seq (if cal_appraiser_id e' \<noteq> cal_appraiser_id e
              then bind (require_appraiser (cal_appraiser_id e')) (\<lambda>_. ret ()) else ret ())
         (bind (if schedule_changed e e'
                then check_conflict E (cal_appraiser_id e') (cal_scheduled_at e') (ends_at e')
                       (cal_site_address e') (Some (cal_id e))
                else ret None) (\<lambda>conflict.
          case conflict of
            Some c \<Rightarrow> ret (Inl c)
          | None \<Rightarrow>
              seq (replace_event e')
              (seq (when_true (cal_appraiser_id e' \<noteq> cal_appraiser_id e) (mirror_appraiser e'))
              (seq (audit_event ''calendar_event.updated'' actor actor_role (cal_id e')
                      (Some (event_state e)) e')
                 (ret (Inr e'))))))))"

subsection \<open>Cancelling\<close>

definition reopen_record :: "equipment_record \<Rightarrow> equipment_record op" where
  "reopen_record record =
     (if er_status record = ''appraisal_scheduled''
      then seq (writes (\<lambda>s. s\<lparr>equipment_records := update_where (\<lambda>r. er_id r = er_id record)
                  (\<lambda>r. r\<lparr>er_status := ''new_request''\<rparr>) (equipment_records s)\<rparr>))
             (ret (record\<lparr>er_status := ''new_request''\<rparr>))
      else ret record)"

definition announce_cancellation :: "env \<Rightarrow> equipment_record \<Rightarrow> calendar_event \<Rightarrow> unit op" where
  "announce_cancellation E record e =
     bind (select_one users (\<lambda>u. usr_id u = cal_appraiser_id e)) (\<lambda>found.
     seq (case found of None \<Rightarrow> ret () | Some a \<Rightarrow> enqueue_appraiser_email E a record e ''cancelled'')
     (bind (customer_user_of record) (\<lambda>customer.
      case customer of None \<Rightarrow> ret () | Some c \<Rightarrow> enqueue_customer_cancellation_email E c record e)))"

definition cancel_event :: "env \<Rightarrow> user \<Rightarrow> string \<Rightarrow> uuid \<Rightarrow> calendar_event op" where
  "cancel_event E actor actor_role event_id =
     bind (get_event_or_404 event_id) (\<lambda>e.
     if cal_cancelled_at e \<noteq> None then ret e
     else
       bind now (\<lambda>t.
       let e' = e\<lparr>cal_cancelled_at := Some t\<rparr>
       in seq (replace_event e')
          (seq (audit_event ''calendar_event.cancelled'' actor actor_role (cal_id e) (Some (event_state e)) e')
          (bind (load_record_or_404 (cal_equipment_record_id e)) (\<lambda>record.
           bind (reopen_record record) (\<lambda>record'.
           seq (announce_cancellation E record' e') (ret e')))))))"

subsection \<open>The routes\<close>

record event_out =
  evo_event :: calendar_event
  evo_customer :: "(uuid \<times> string \<times> string option) option"
  evo_equipment :: "(uuid \<times> string option \<times> string option \<times> string option \<times> string option) option"

definition event_out_of :: "db \<Rightarrow> calendar_event \<Rightarrow> event_out" where
  "event_out_of s e =
     (let found = find (\<lambda>r. er_id r = cal_equipment_record_id e) (equipment_records s)
      in \<lparr>evo_event = e,
          evo_customer = (case found of
              None \<Rightarrow> None
            | Some r \<Rightarrow> map_option (\<lambda>c. (cus_id c, cus_submitter_name c, cus_business_name c))
                (find (\<lambda>c. cus_id c = er_customer_id r) (customers s))),
          evo_equipment = map_option (\<lambda>r. (er_id r, er_reference_number r, er_customer_make r,
              er_customer_model r, er_customer_location_text r)) found\<rparr>)"

definition hydrate_event :: "uuid \<Rightarrow> event_out op" where
  "hydrate_event event_id =
     bind (bind (reads (\<lambda>s. filter (\<lambda>e. cal_id e = event_id) (calendar_events s))) scalar_one) (\<lambda>e.
     reads (\<lambda>s. event_out_of s e))"

text \<open>The body of the answer 409.\<close>

definition conflict_body :: "calendar_conflict \<Rightarrow> json" where
  "conflict_body c =
     JObj [(''detail'', JStr (cf_message c)),
       (''next_available_at'', jopt (\<lambda>t. JStr (isoformat t)) (cf_next_available_at c)),
       (''conflicting_event_id'', jopt (\<lambda>i. JStr (uuid_str i)) (cf_conflicting_event_id c))]"

definition duration_ok :: "int \<Rightarrow> bool" where
  "duration_ok d \<longleftrightarrow> 15 \<le> d \<and> d \<le> 480"

definition answer_event :: "calendar_conflict + calendar_event \<Rightarrow> (json + event_out) op" where
  "answer_event res =
     (case res of
        Inl c \<Rightarrow> ret (Inl (conflict_body c))
      | Inr e \<Rightarrow> bind (hydrate_event (cal_id e)) (\<lambda>x. ret (Inr x)))"

definition list_events_route ::
  "env \<Rightarrow> string option \<Rightarrow> datetime \<Rightarrow> datetime \<Rightarrow> uuid option \<Rightarrow> (event_out list \<times> nat) op" where
  "list_events_route E cred start end_at appraiser_id =
     guarded_route E SALES_ROLES cred (\<lambda>user.
       seq (require (start < end_at) (http 422 ''end must be after start''))
       (bind (list_events start end_at appraiser_id) (\<lambda>es.
        reads (\<lambda>s. (map (event_out_of s) es, length es)))))"

definition create_event_route ::
  "env \<Rightarrow> string option \<Rightarrow> uuid \<Rightarrow> uuid \<Rightarrow> datetime \<Rightarrow> int \<Rightarrow> string option \<Rightarrow> (json + event_out) op" where
  "create_event_route E cred record_id appraiser_id scheduled_at duration site_address =
     guarded_route E SALES_ROLES cred (\<lambda>user.
       seq (require (duration_ok duration) (http 422 ''validation error''))
       (bind (acting_role_slug user) (\<lambda>slug.
        bind (create_event E user slug record_id appraiser_id scheduled_at (Some duration) site_address)
          answer_event)))"

definition update_event_route ::
  "env \<Rightarrow> string option \<Rightarrow> uuid \<Rightarrow> event_patch \<Rightarrow> (json + event_out) op" where
  "update_event_route E cred event_id p =
     guarded_route E SALES_ROLES cred (\<lambda>user.
       seq (require (case ep_duration_minutes p of None \<Rightarrow> True | Some d \<Rightarrow> duration_ok d)
              (http 422 ''validation error''))
       (bind (acting_role_slug user) (\<lambda>slug.
        bind (update_event E user slug event_id p) answer_event)))"

definition cancel_event_route :: "env \<Rightarrow> string option \<Rightarrow> uuid \<Rightarrow> event_out op" where
  "cancel_event_route E cred event_id =
     guarded_route E SALES_ROLES cred (\<lambda>user.
       bind (acting_role_slug user) (\<lambda>slug.
       bind (cancel_event E user slug event_id) (\<lambda>e. hydrate_event (cal_id e))))"

subsection \<open>The appointments of an appraiser\<close>

record appointment =
  ap_event_id :: uuid
  ap_record_id :: uuid
  ap_reference_number :: "string option"
  ap_scheduled_at :: datetime
  ap_duration_minutes :: int
  ap_site_address :: "string option"
  ap_record_status :: string
  ap_make :: "string option"
  ap_model :: "string option"
  ap_year :: "int option"
  ap_customer_name :: "string option"
  ap_customer_phone :: "string option"
  ap_sales_rep_name :: "string option"
  ap_sales_rep_phone :: "string option"
  ap_sales_rep_email :: "string option"

definition best_phone :: "customer option \<Rightarrow> string option" where
  "best_phone customer =
     (case customer of
        None \<Rightarrow> None
      | Some c \<Rightarrow> if str_truthy (cus_cell_phone c) then cus_cell_phone c else cus_business_phone c)"

definition full_name :: "user option \<Rightarrow> string option" where
  "full_name user =
     (case user of
        None \<Rightarrow> None
      | Some u \<Rightarrow> nonempty (join '' '' (filter (\<lambda>p. p \<noteq> '''') [usr_first_name u, usr_last_name u])))"

definition appointment_of :: "db \<Rightarrow> calendar_event \<Rightarrow> equipment_record \<Rightarrow> appointment" where
  "appointment_of s e record =
     (let customer = find (\<lambda>c. cus_id c = er_customer_id record) (customers s);
          rep = (case er_assigned_sales_rep_id record of
                   None \<Rightarrow> None | Some i \<Rightarrow> find (\<lambda>u. usr_id u = i) (users s))
      in \<lparr>ap_event_id = cal_id e, ap_record_id = er_id record,
          ap_reference_number = er_reference_number record, ap_scheduled_at = cal_scheduled_at e,
          ap_duration_minutes = cal_duration_minutes e, ap_site_address = cal_site_address e,
          ap_record_status = er_status record, ap_make = er_customer_make record,
          ap_model = er_customer_model record, ap_year = er_customer_year record,
          ap_customer_name = map_option cus_submitter_name customer,
          ap_customer_phone = best_phone customer, ap_sales_rep_name = full_name rep,
          ap_sales_rep_phone = None, ap_sales_rep_email = map_option usr_email rep\<rparr>)"

definition list_for_appraiser :: "uuid \<Rightarrow> int \<Rightarrow> appointment list op" where
  "list_for_appraiser user_id days_ahead =
     bind now (\<lambda>t.
     reads (\<lambda>s. List.map_filter (\<lambda>e.
         case find (\<lambda>r. er_id r = cal_equipment_record_id e) (equipment_records s) of
           None \<Rightarrow> None
         | Some r \<Rightarrow> if er_deleted_at r \<noteq> None then None else Some (appointment_of s e r))
       (sort_key cal_scheduled_at (filter (\<lambda>e. cal_appraiser_id e = user_id \<and> cal_cancelled_at e = None \<and>
          t \<le> cal_scheduled_at e \<and> cal_scheduled_at e \<le> t + days days_ahead) (calendar_events s)))))"

definition list_appointments_route :: "env \<Rightarrow> string option \<Rightarrow> int \<Rightarrow> (appointment list \<times> int) op" where
  "list_appointments_route E cred days_ahead =
     guarded_route E [''appraiser'', ''admin''] cred (\<lambda>user.
       seq (require (1 \<le> days_ahead \<and> days_ahead \<le> 90) (http 422 ''validation error''))
       (bind (list_for_appraiser (usr_id user) days_ahead) (\<lambda>xs. ret (xs, days_ahead))))"

end
