(* ===== verification/CalendarFacts.thy ===== *)
theory CalendarFacts
  imports Calendar
begin

section \<open>Facts about the calendar\<close>

text \<open>
  No appraiser is booked twice, by any order of calendar requests; what creating, moving and
  cancelling an appointment do to the other tables.
\<close>

subsection \<open>The interface to the calendar service\<close>

text \<open>A relation that lets the calendar, the driving-time cache and the statuses change admits
  every calendar operation; one that lets only the cache change admits the conflict check.\<close>

locale drive_relation = db_relation R for R :: "db \<Rightarrow> db \<Rightarrow> bool" +
  assumes R_drive: "R s (s\<lparr>drive_times := ds\<rparr>)"
begin

lemma confined_drive: "confined R (get_drive_time_seconds E a b)"
  unfolding get_drive_time_seconds_def parse_distance_matrix_def Let_def upsert_drive_time_def
  by (intro db_intros confined_none_on_bad_body confined_py_get confined_py_first R_drive)

lemma confined_fallback: "confined R (fallback_delta j)"
  by (cases j) (simp_all add: confined_ret confined_raise)

lemma confined_resolve: "confined R (resolve_buffer E a b j)"
  unfolding resolve_buffer_def by (intro db_intros confined_drive confined_fallback)

lemma confined_first_conflict: "confined R (first_conflict E a b addr j es)"
  by (induction es; unfold first_conflict.simps) (intro db_intros confined_resolve; assumption?)+

lemma confined_check_conflict: "confined R (check_conflict E x a b addr i)"
  unfolding check_conflict_def read_drive_time_fallback_minutes_def
  by (intro db_intros confined_get_typed confined_first_conflict)

end

locale calendar_relation = drive_relation R + transition_relation R for R :: "db \<Rightarrow> db \<Rightarrow> bool" +
  assumes R_events: "R s (s\<lparr>calendar_events := es\<rparr>)"
    and R_records: "R s (s\<lparr>equipment_records := rs\<rparr>)"
    and R_attendees: "R s (s\<lparr>event_attendees := as\<rparr>)"
begin

lemma confined_appraiser_email: "confined R (enqueue_appraiser_email E u r e k)"
  unfolding enqueue_appraiser_email_def by (intro transition_intros)

lemma confined_customer_email: "confined R (enqueue_customer_cancellation_email E u r e)"
  unfolding enqueue_customer_cancellation_email_def by (intro transition_intros)

lemma confined_require_appraiser: "confined R (require_appraiser u)"
  unfolding require_appraiser_def slug_of_user_def by (intro transition_intros)

lemma confined_load_record: "confined R (load_record_or_404 i)"
  unfolding load_record_or_404_def by (intro transition_intros)

lemma confined_get_event: "confined R (get_event_or_404 i)"
  unfolding get_event_or_404_def by (intro transition_intros)

lemma confined_audit_event: "confined R (audit_event ty a r i b e)"
  unfolding audit_event_def by (intro transition_intros)

lemma confined_announce: "confined R (announce_event E a role r u e)"
  unfolding announce_event_def customer_user_of_def
  by (intro transition_intros confined_audit_event confined_appraiser_email)

lemma confined_replace_event: "confined R (replace_event e)"
  unfolding replace_event_def by (intro transition_intros R_events)

lemma confined_mirror: "confined R (mirror_appraiser e)"
  unfolding mirror_appraiser_def by (intro transition_intros R_attendees)

lemmas calendar_intros = confined_mirror transition_intros confined_check_conflict confined_announce
  confined_require_appraiser confined_load_record confined_get_event confined_audit_event
  confined_replace_event

lemma confined_create_event: "confined R (create_event E a role r u t d addr)"
  unfolding create_event_def insert_event_def Let_def by (intro calendar_intros R_events)

lemma confined_update_event: "confined R (update_event E a role i p)"
  unfolding update_event_def Let_def by (intro calendar_intros)

lemma confined_cancel_event: "confined R (cancel_event E a role i)"
  unfolding cancel_event_def reopen_record_def announce_cancellation_def customer_user_of_def Let_def
  by (intro calendar_intros R_records confined_appraiser_email confined_customer_email)

end

interpretation grow_cal: calendar_relation jobs_grow
  by unfold_locales (simp_all add: jobs_grow_def)

interpretation keys_cal: calendar_relation "preserves keys_unique"
  by unfold_locales (simp_all add: preserves_def keys_unique_def)

interpretation cal_drive: drive_relation "same calendar_events"
  by unfold_locales (simp_all add: same_def)

interpretation cal_queue: queue_relation "same calendar_events"
  by unfold_locales (rule cal_drive.confined_enqueueI, simp add: same_def)

interpretation cal_frame: transition_relation "same calendar_events"
  by unfold_locales (simp_all add: same_def written_def)

definition but_drive_times :: "db \<Rightarrow> db" where
  "but_drive_times s = s\<lparr>drive_times := [], draws := 0\<rparr>"

interpretation drive_db: db_relation "same but_drive_times"
  by unfold_locales (simp add: same_def but_drive_times_def)

interpretation drive_frame: drive_relation "same but_drive_times"
  by unfold_locales (simp add: same_def but_drive_times_def)

subsection \<open>What no conflict means\<close>

lemma fallback_pure: "fallback_delta j s = (r, t) \<Longrightarrow> t = s"
  by (cases j) auto

lemma first_conflict_none:
  "first_conflict E a b addr j es s = (Inr None, t) \<Longrightarrow>
     \<forall>e \<in> set es. \<not> ranges_overlap a b (cal_scheduled_at e) (ends_at e)"
  by (induction es arbitrary: s) (auto simp: bind_return_iff split: if_splits)

lemma check_conflict_none:
  assumes "check_conflict E x start end_at addr ignore s = (Inr None, t)"
    and "e \<in> set (calendar_events s)" "in_window x start ignore e"
  shows "\<not> ranges_overlap start end_at (cal_scheduled_at e) (ends_at e)"
proof -
  obtain j u v where "first_conflict E start end_at addr j
      (sort_key cal_scheduled_at (filter (in_window x start ignore) (calendar_events s))) u = (Inr None, v)"
    using assms(1) by (auto simp: check_conflict_def bind_return_iff)
  from first_conflict_none [OF this] assms(2,3) show ?thesis by simp
qed

definition live_of :: "uuid \<Rightarrow> calendar_event \<Rightarrow> bool" where
  "live_of x e \<longleftrightarrow> cal_appraiser_id e = x \<and> cal_cancelled_at e = None"

definition clash :: "calendar_event \<Rightarrow> calendar_event \<Rightarrow> bool" where
  "clash e f \<longleftrightarrow> cal_appraiser_id e = cal_appraiser_id f \<and> cal_cancelled_at e = None \<and>
     cal_cancelled_at f = None \<and> ranges_overlap (cal_scheduled_at e) (ends_at e) (cal_scheduled_at f) (ends_at f)"

lemma clash_sym: "clash e f \<longleftrightarrow> clash f e"
  by (auto simp: clash_def ranges_overlap_def)

definition calendar_ok :: "db \<Rightarrow> bool" where
  "calendar_ok s \<longleftrightarrow> distinct (map cal_id (calendar_events s)) \<and>
     (\<forall>e \<in> set (calendar_events s). duration_ok (cal_duration_minutes e)) \<and>
     (\<forall>e \<in> set (calendar_events s). \<forall>f \<in> set (calendar_events s). cal_id e \<noteq> cal_id f \<longrightarrow> \<not> clash e f)"

text \<open>The window of a day around the start is wide enough, as no appointment is longer than eight hours.\<close>

lemma no_clash_with:
  assumes "check_conflict E (cal_appraiser_id e') (cal_scheduled_at e') (ends_at e') addr ignore s = (Inr None, t)"
    and "duration_ok (cal_duration_minutes e')" "duration_ok (cal_duration_minutes f)"
    and "f \<in> set (calendar_events s)" "case ignore of None \<Rightarrow> True | Some i \<Rightarrow> cal_id f \<noteq> i"
  shows "\<not> clash e' f"
proof
  assume c: "clash e' f"
  then have "in_window (cal_appraiser_id e') (cal_scheduled_at e') ignore f"
    using assms(2,3,5)
    by (auto simp: in_window_def clash_def ranges_overlap_def ends_at_def duration_ok_def days_def minutes_def seconds_def)
  from check_conflict_none [OF assms(1,4) this] c show False by (simp add: clash_def)
qed

lemma calendar_ok_cong: "calendar_events t = calendar_events s \<Longrightarrow> calendar_ok s \<Longrightarrow> calendar_ok t"
  by (simp add: calendar_ok_def)

lemma calendar_ok_insert:
  assumes "calendar_ok s" "calendar_events t = calendar_events s @ [e]" "duration_ok (cal_duration_minutes e)"
    and "cal_id e \<notin> cal_id ` set (calendar_events s)" "\<And>f. f \<in> set (calendar_events s) \<Longrightarrow> \<not> clash e f"
  shows "calendar_ok t"
  using assms clash_sym by (auto simp: calendar_ok_def)

lemma calendar_ok_replace:
  assumes "calendar_ok s" "calendar_events t = update_where (\<lambda>x. cal_id x = cal_id e) (\<lambda>_. e) (calendar_events s)"
    and "duration_ok (cal_duration_minutes e)"
    and "\<And>f. f \<in> set (calendar_events s) \<Longrightarrow> cal_id f \<noteq> cal_id e \<Longrightarrow> \<not> clash e f"
  shows "calendar_ok t"
proof -
  have ids: "map cal_id (calendar_events t) = map cal_id (calendar_events s)"
    unfolding assms(2) by (auto simp: update_where_def)
  have mem: "f \<in> set (calendar_events s) \<and> cal_id f \<noteq> cal_id e \<or> f = e" if "f \<in> set (calendar_events t)" for f
    using that unfolding assms(2) by (auto simp: update_where_def split: if_splits)
  have "\<not> clash f g" if "f \<in> set (calendar_events t)" "g \<in> set (calendar_events t)" "cal_id f \<noteq> cal_id g" for f g
    using mem [OF that(1)] mem [OF that(2)] that(3) assms(1,4) clash_sym by (auto simp: calendar_ok_def)
  moreover have "duration_ok (cal_duration_minutes f)" if "f \<in> set (calendar_events t)" for f
    using mem [OF that] assms(1,3) by (auto simp: calendar_ok_def)
  ultimately show ?thesis using ids assms(1) by (simp add: calendar_ok_def)
qed

subsection \<open>Creating, moving, cancelling\<close>

lemma load_record_returns:
  "load_record_or_404 i s = (Inr r, t) \<longleftrightarrow> t = s \<and> filter (\<lambda>r. er_id r = i) (equipment_records s) = [r]"
  by (auto simp: load_record_or_404_def run_simps split: list.splits)

lemma get_event_returns:
  "get_event_or_404 i s = (Inr e, t) \<longleftrightarrow> t = s \<and> filter (\<lambda>e. cal_id e = i) (calendar_events s) = [e]"
  by (auto simp: get_event_or_404_def run_simps split: list.splits)

lemma create_event_returns:
  assumes "create_event E a role rid u st d addr s = (Inr res, t)"
  shows "case res of
      Inl c \<Rightarrow> calendar_events t = calendar_events s
    | Inr e \<Rightarrow> calendar_events t = calendar_events s @ [e] \<and> cal_cancelled_at e = None \<and>
        cal_duration_minutes e = int_or d 60 \<and> cal_appraiser_id e = u \<and> cal_scheduled_at e = st \<and>
        (\<exists>addr v. check_conflict E u st (ends_at e) addr None s = (Inr None, v)) \<and>
        cal_id e \<notin> cal_id ` set (calendar_events s) \<and>
        (\<exists>r ap w. filter (\<lambda>r. er_id r = rid) (equipment_records s) = [r] \<and> er_status r = ''new_request'' \<and>
           announce_event E a role r ap e w = (Inr (), t) \<and> equipment_records w = equipment_records s \<and>
           status_events w = status_events s)"
proof -
  obtain r where r: "filter (\<lambda>r. er_id r = rid) (equipment_records s) = [r]" "er_status r = ''new_request''"
    and rest: "bind (require_appraiser u) (\<lambda>appraiser.
          let address = nonempty (strip (if str_truthy addr then the addr else str_or (er_customer_location_text r) ''''))
          in bind (check_conflict E u st (st + minutes (int_or d 60)) address None) (\<lambda>conflict.
             case conflict of
               Some c \<Rightarrow> ret (Inl c)
             | None \<Rightarrow>
                 bind (insert_event E (er_id r) u st (int_or d 60) address) (\<lambda>e.
                 seq (announce_event E a role r appraiser e) (ret (Inr e))))) s = (Inr res, t)"
    using assms
    by (auto simp: create_event_def Let_def bind_return_iff [of "load_record_or_404 _"] load_record_returns seq_return_iff
        require_return_iff SCHEDULABLE_FROM_STATUSES_def DEFAULT_DURATION_MINUTES_def)
  obtain ap s1 where q: "require_appraiser u s = (Inr ap, s1)"
    using rest by (auto simp: bind_return_iff)
  then have s1: "s1 = s" by (auto simp: require_appraiser_def slug_of_user_def run_simps split: option.splits if_splits)
  let ?addr = "nonempty (strip (if str_truthy addr then the addr else str_or (er_customer_location_text r) ''''))"
  obtain conflict v where k: "check_conflict E u st (st + minutes (int_or d 60)) ?addr None s = (Inr conflict, v)"
    using rest q s1 by (auto simp: bind_run [of "require_appraiser u"] Let_def bind_return_iff)
  have b: "but_drive_times v = but_drive_times s" by (rule confined_sameD [OF drive_frame.confined_check_conflict k])
  have cv: "calendar_events v = calendar_events s" "equipment_records v = equipment_records s" "status_events v = status_events s"
    using arg_cong [OF b, of calendar_events] arg_cong [OF b, of equipment_records] arg_cong [OF b, of status_events]
    by (simp_all add: but_drive_times_def)
  show ?thesis
  proof (cases conflict)
    case (Some c)
    with rest q s1 k cv show ?thesis by (auto simp: bind_run Let_def)
  next
    case None
    let ?e = "new_event (random_uuid E (draws v)) (er_id r) u st (int_or d 60) ?addr"
    let ?v = "v\<lparr>draws := Suc (draws v), calendar_events := calendar_events v @ [?e],
      event_attendees := add_primary ?e (event_attendees v)\<rparr>"
    have ins: "insert_event E (er_id r) u st (int_or d 60) ?addr v =
        (if \<exists>x \<in> set (calendar_events v). cal_id x = random_uuid E (draws v)
         then (Inl (IntegrityError ''calendar_events_pkey''), v\<lparr>draws := Suc (draws v)\<rparr>) else (Inr ?e, ?v))"
      by (simp add: insert_event_def mirror_appraiser_def run_simps Let_def)
    have "bind (insert_event E (er_id r) u st (int_or d 60) ?addr) (\<lambda>e. seq (announce_event E a role r ap e) (ret (Inr e))) v =
        (Inr res, t)"
      using rest q s1 k None by (simp add: bind_run [of "require_appraiser u"] bind_run [of "check_conflict _ _ _ _ _ _"] Let_def)
    then have fresh: "\<not> (\<exists>x \<in> set (calendar_events v). cal_id x = random_uuid E (draws v))"
      and "seq (announce_event E a role r ap ?e) (ret (Inr ?e)) ?v = (Inr res, t)"
      by (auto simp: bind_run ins split: if_splits)
    then have res: "res = Inr ?e" and an: "announce_event E a role r ap ?e ?v = (Inr (), t)"
      by (auto simp: seq_return_iff)
    have "confined (same calendar_events) (announce_event E a role r ap ?e)"
      unfolding announce_event_def audit_event_def customer_user_of_def enqueue_appraiser_email_def
      by (intro cal_frame.transition_intros)
    from confined_sameD [OF this an] have "calendar_events t = calendar_events s @ [?e]" by (simp add: cv)
    moreover have "\<exists>r ap w. filter (\<lambda>r. er_id r = rid) (equipment_records s) = [r] \<and> er_status r = ''new_request'' \<and>
           announce_event E a role r ap ?e w = (Inr (), t) \<and> equipment_records w = equipment_records s \<and>
           status_events w = status_events s"
      using r an cv by (intro exI [of _ r] exI [of _ ap] exI [of _ ?v]) simp
    moreover have "cal_id ?e \<notin> cal_id ` set (calendar_events s)"
      using fresh cv by (auto simp: new_event_def)
    moreover have "\<exists>addr v. check_conflict E u st (ends_at ?e) addr None s = (Inr None, v)"
      using k None by (auto simp: new_event_def ends_at_def)
    ultimately show ?thesis unfolding res sum.case
      by (intro conjI) (simp_all add: new_event_def)
  qed
qed

lemma update_event_returns:
  assumes "update_event E a role i p s = (Inr res, t)"
  shows "\<exists>e. filter (\<lambda>e. cal_id e = i) (calendar_events s) = [e] \<and> cal_cancelled_at e = None \<and>
    (case res of
       Inl c \<Rightarrow> calendar_events t = calendar_events s
     | Inr e' \<Rightarrow> e' = patched_event p e \<and>
         calendar_events t = update_where (\<lambda>x. cal_id x = cal_id e) (\<lambda>_. e') (calendar_events s) \<and>
         (schedule_changed e e' \<longrightarrow> (\<exists>v. check_conflict E (cal_appraiser_id e') (cal_scheduled_at e') (ends_at e')
            (cal_site_address e') (Some (cal_id e)) s = (Inr None, v))))"
proof -
  obtain e where e: "filter (\<lambda>e. cal_id e = i) (calendar_events s) = [e]" "cal_cancelled_at e = None"
    and rest: "seq (if cal_appraiser_id (patched_event p e) \<noteq> cal_appraiser_id e
              then bind (require_appraiser (cal_appraiser_id (patched_event p e))) (\<lambda>_. ret ()) else ret ())
         (bind (if schedule_changed e (patched_event p e)
                then check_conflict E (cal_appraiser_id (patched_event p e)) (cal_scheduled_at (patched_event p e))
                       (ends_at (patched_event p e)) (cal_site_address (patched_event p e)) (Some (cal_id e))
                else ret None) (\<lambda>conflict.
          case conflict of
            Some c \<Rightarrow> ret (Inl c)
          | None \<Rightarrow>
              seq (replace_event (patched_event p e))
              (seq (when_true (cal_appraiser_id (patched_event p e) \<noteq> cal_appraiser_id e) (mirror_appraiser (patched_event p e)))
              (seq (audit_event ''calendar_event.updated'' a role (cal_id (patched_event p e)) (Some (event_state e)) (patched_event p e))
                 (ret (Inr (patched_event p e))))))) s = (Inr res, t)"
    using assms by (auto simp: update_event_def Let_def bind_return_iff [of "get_event_or_404 _"] get_event_returns
        seq_return_iff [of "require _ _"] require_return_iff)
  have pure: "require_appraiser u s = (Inr ap, s1) \<Longrightarrow> s1 = s" for u ap s1
    by (auto simp: require_appraiser_def slug_of_user_def run_simps split: option.splits if_splits)
  have rest': "bind (if schedule_changed e (patched_event p e)
                then check_conflict E (cal_appraiser_id (patched_event p e)) (cal_scheduled_at (patched_event p e))
                       (ends_at (patched_event p e)) (cal_site_address (patched_event p e)) (Some (cal_id e))
                else ret None) (\<lambda>conflict.
          case conflict of
            Some c \<Rightarrow> ret (Inl c)
          | None \<Rightarrow>
              seq (replace_event (patched_event p e))
              (seq (when_true (cal_appraiser_id (patched_event p e) \<noteq> cal_appraiser_id e) (mirror_appraiser (patched_event p e)))
              (seq (audit_event ''calendar_event.updated'' a role (cal_id (patched_event p e)) (Some (event_state e)) (patched_event p e))
                 (ret (Inr (patched_event p e)))))) s = (Inr res, t)"
    using rest by (auto simp: seq_return_iff bind_return_iff [of "require_appraiser _"] dest!: pure split: if_splits)
  then obtain conflict v where k: "(if schedule_changed e (patched_event p e)
                then check_conflict E (cal_appraiser_id (patched_event p e)) (cal_scheduled_at (patched_event p e))
                       (ends_at (patched_event p e)) (cal_site_address (patched_event p e)) (Some (cal_id e))
                else ret None) s = (Inr conflict, v)" by (auto simp: bind_return_iff)
  have cv: "calendar_events v = calendar_events s"
    using k confined_sameD [OF cal_drive.confined_check_conflict] by (auto split: if_splits)
  have id: "cal_id (patched_event p e) = cal_id e" by (simp add: patched_event_def)
  show ?thesis
  proof (cases conflict)
    case (Some c)
    with rest' k cv e show ?thesis by (auto simp: bind_run)
  next
    case None
    with rest' k have "res = Inr (patched_event p e)"
      "calendar_events t = update_where (\<lambda>x. cal_id x = cal_id e) (\<lambda>_. patched_event p e) (calendar_events v)"
      by (auto simp: bind_run replace_event_def audit_event_def seq_run add_audit_run id when_true_run mirror_appraiser_def split: if_splits)
    with None k e cv show ?thesis by auto
  qed
qed

text \<open>The calendar after a cancellation, and the record, which is reopened without a status event.\<close>

lemma update_where_single:
  assumes "filter p rows = [r]" "f r = g r"
  shows "update_where p f rows = update_where p g rows"
proof -
  have "x = r" if "x \<in> set rows" "p x" for x
  proof -
    have "x \<in> set (filter p rows)" using that by simp
    then show ?thesis using assms(1) by simp
  qed
  then show ?thesis using assms(2) by (auto simp: update_where_def)
qed

definition reopened :: "equipment_record \<Rightarrow> equipment_record" where
  "reopened r = (if er_status r = ''appraisal_scheduled'' then r\<lparr>er_status := ''new_request''\<rparr> else r)"

lemma cancel_event_returns:
  assumes "cancel_event E a role i s = (Inr e', t)"
  shows "\<exists>e. filter (\<lambda>e. cal_id e = i) (calendar_events s) = [e] \<and>
    (if cal_cancelled_at e \<noteq> None then e' = e \<and> t = s
     else e' = e\<lparr>cal_cancelled_at := Some (clock s)\<rparr> \<and>
       calendar_events t = update_where (\<lambda>x. cal_id x = cal_id e) (\<lambda>_. e') (calendar_events s) \<and>
       (\<exists>r. filter (\<lambda>r. er_id r = cal_equipment_record_id e) (equipment_records s) = [r] \<and>
          equipment_records t = update_where (\<lambda>x. er_id x = er_id r) reopened (equipment_records s)) \<and>
       status_events t = status_events s \<and> clock t = clock s)"
proof -
  obtain e where e: "filter (\<lambda>e. cal_id e = i) (calendar_events s) = [e]"
    and rest: "(if cal_cancelled_at e \<noteq> None then ret e
     else bind now (\<lambda>t. let e' = e\<lparr>cal_cancelled_at := Some t\<rparr>
       in seq (replace_event e')
          (seq (audit_event ''calendar_event.cancelled'' a role (cal_id e) (Some (event_state e)) e')
          (bind (load_record_or_404 (cal_equipment_record_id e)) (\<lambda>record.
           bind (reopen_record record) (\<lambda>record'.
           seq (announce_cancellation E record' e') (ret e'))))))) s = (Inr e', t)"
    using assms by (auto simp: cancel_event_def bind_return_iff [of "get_event_or_404 _"] get_event_returns)
  show ?thesis
  proof (cases "cal_cancelled_at e = None")
    case False
    with e rest show ?thesis by auto
  next
    case True
    let ?c = "e\<lparr>cal_cancelled_at := Some (clock s)\<rparr>"
    define s1 where "s1 = snd (seq (replace_event ?c)
      (audit_event ''calendar_event.cancelled'' a role (cal_id e) (Some (event_state e)) ?c) s)"
    have s1: "calendar_events s1 = update_where (\<lambda>x. cal_id x = cal_id e) (\<lambda>_. ?c) (calendar_events s)"
      "equipment_records s1 = equipment_records s" "status_events s1 = status_events s" "clock s1 = clock s"
      by (simp_all add: s1_def seq_run replace_event_def audit_event_def add_audit_run)
    have "bind (load_record_or_404 (cal_equipment_record_id e)) (\<lambda>record.
           bind (reopen_record record) (\<lambda>record'.
           seq (announce_cancellation E record' ?c) (ret ?c))) s1 = (Inr e', t)"
      using rest True by (simp add: bind_run [of now] now_run Let_def seq_run replace_event_def audit_event_def add_audit_run s1_def)
    then obtain r where r: "filter (\<lambda>r. er_id r = cal_equipment_record_id e) (equipment_records s1) = [r]"
      and r2: "bind (reopen_record r) (\<lambda>record'. seq (announce_cancellation E record' ?c) (ret ?c)) s1 = (Inr e', t)"
      by (auto simp: bind_return_iff [of "load_record_or_404 _"] load_record_returns)
    obtain s2 where s2: "reopen_record r s1 = (Inr (reopened r), s2)"
      "calendar_events s2 = calendar_events s1" "status_events s2 = status_events s1" "clock s2 = clock s1"
      "equipment_records s2 = update_where (\<lambda>x. er_id x = er_id r) reopened (equipment_records s1)"
    proof (cases "er_status r = ''appraisal_scheduled''")
      case True
      have "er_id r = cal_equipment_record_id e" using r by (auto simp: filter_eq_Cons_iff)
      with r True have "update_where (\<lambda>x. er_id x = er_id r) reopened (equipment_records s1) =
          update_where (\<lambda>x. er_id x = er_id r) (\<lambda>r. r\<lparr>er_status := ''new_request''\<rparr>) (equipment_records s1)"
        by (intro update_where_single [of _ _ r]) (simp_all add: reopened_def)
      with True that show ?thesis by (simp add: reopen_record_def seq_run reopened_def)
    next
      case False
      have "er_id r = cal_equipment_record_id e" using r by (auto simp: filter_eq_Cons_iff)
      with r False have "update_where (\<lambda>x. er_id x = er_id r) reopened (equipment_records s1) =
          update_where (\<lambda>x. er_id x = er_id r) (\<lambda>r. r) (equipment_records s1)"
        by (intro update_where_single [of _ _ r]) (simp_all add: reopened_def)
      then have "update_where (\<lambda>x. er_id x = er_id r) reopened (equipment_records s1) = equipment_records s1"
        by (simp add: update_where_def)
      with False that [of s1] show ?thesis by (simp add: reopen_record_def reopened_def)
    qed
    have "seq (announce_cancellation E (reopened r) ?c) (ret ?c) s2 = (Inr e', t)"
      using r2 by (simp add: bind_run [of "reopen_record r"] s2(1))
    then have an: "announce_cancellation E (reopened r) ?c s2 = (Inr (), t)" and e': "e' = ?c"
      by (auto simp: seq_return_iff)
    have "confined (same business) (announce_cancellation E (reopened r) ?c)"
      unfolding announce_cancellation_def customer_user_of_def enqueue_appraiser_email_def
        enqueue_customer_cancellation_email_def
      by (intro business_frame.queue_intros)
    from confined_sameD [OF this an] have b: "business t = business s2" .
    have "calendar_events t = calendar_events s2" "equipment_records t = equipment_records s2"
      "status_events t = status_events s2" "clock t = clock s2"
      using arg_cong [OF b, of calendar_events] arg_cong [OF b, of equipment_records]
        arg_cong [OF b, of status_events] arg_cong [OF b, of clock] by (simp_all add: business_def)
    then show ?thesis using e r e' s1 s2 True by auto
  qed
qed

subsection \<open>Every order of calendar requests\<close>

lemma create_keeps_calendar:
  assumes "create_event E a role rid u st (Some d) addr s = (Inr res, t)" "duration_ok d" "calendar_ok s"
  shows "calendar_ok t"
proof (cases res)
  case (Inl c)
  with create_event_returns [OF assms(1)] assms(3) calendar_ok_cong show ?thesis by simp
next
  case (Inr e)
  then obtain addr v where e: "calendar_events t = calendar_events s @ [e]" "cal_duration_minutes e = int_or (Some d) 60"
    "cal_appraiser_id e = u" "cal_scheduled_at e = st" "check_conflict E u st (ends_at e) addr None s = (Inr None, v)"
    "cal_id e \<notin> cal_id ` set (calendar_events s)"
    using create_event_returns [OF assms(1)] by auto
  have d: "duration_ok (cal_duration_minutes e)" using e(2) assms(2) by (simp add: int_or_def duration_ok_def)
  have "\<not> clash e f" if "f \<in> set (calendar_events s)" for f
    by (rule no_clash_with [OF _ d _ that, where addr = addr and ignore = None and E = E and t = v])
      (use e that assms(3) in \<open>auto simp: calendar_ok_def\<close>)
  from calendar_ok_insert [OF assms(3) e(1) d e(6) this] show ?thesis .
qed

lemma update_keeps_calendar:
  assumes "update_event E a role i p s = (Inr res, t)" "calendar_ok s"
    and "case ep_duration_minutes p of None \<Rightarrow> True | Some d \<Rightarrow> duration_ok d"
  shows "calendar_ok t"
proof -
  obtain e where e: "filter (\<lambda>e. cal_id e = i) (calendar_events s) = [e]" "cal_cancelled_at e = None"
    and res: "case res of
       Inl c \<Rightarrow> calendar_events t = calendar_events s
     | Inr e' \<Rightarrow> e' = patched_event p e \<and>
         calendar_events t = update_where (\<lambda>x. cal_id x = cal_id e) (\<lambda>_. e') (calendar_events s) \<and>
         (schedule_changed e e' \<longrightarrow> (\<exists>v. check_conflict E (cal_appraiser_id e') (cal_scheduled_at e') (ends_at e')
            (cal_site_address e') (Some (cal_id e)) s = (Inr None, v)))"
    using update_event_returns [OF assms(1)] by blast
  have mem: "e \<in> set (calendar_events s)" using e(1) by (auto simp: filter_eq_Cons_iff)
  show ?thesis
  proof (cases res)
    case (Inl c)
    with res assms(2) calendar_ok_cong show ?thesis by simp
  next
    case (Inr e')
    with res have e': "e' = patched_event p e"
      "calendar_events t = update_where (\<lambda>x. cal_id x = cal_id e') (\<lambda>_. e') (calendar_events s)"
      and checked: "schedule_changed e e' \<Longrightarrow> \<exists>v. check_conflict E (cal_appraiser_id e') (cal_scheduled_at e') (ends_at e')
            (cal_site_address e') (Some (cal_id e')) s = (Inr None, v)" by (auto simp: patched_event_def)
    have d: "duration_ok (cal_duration_minutes e')"
      using assms(2,3) mem by (auto simp: e'(1) patched_event_def int_or_def calendar_ok_def split: option.splits)
    have "\<not> clash e' f" if f: "f \<in> set (calendar_events s)" "cal_id f \<noteq> cal_id e'" for f
    proof (cases "schedule_changed e e'")
      case True
      then obtain v where v: "check_conflict E (cal_appraiser_id e') (cal_scheduled_at e') (ends_at e')
            (cal_site_address e') (Some (cal_id e')) s = (Inr None, v)" using checked by blast
      show ?thesis by (rule no_clash_with [OF v d _ f(1)]) (use f assms(2) in \<open>auto simp: calendar_ok_def\<close>)
    next
      case False
      then have "clash e' f = clash e f" by (simp add: e'(1) patched_event_def schedule_changed_def clash_def ends_at_def)
      moreover have "\<not> clash e f" using assms(2) mem f by (auto simp: calendar_ok_def e'(1) patched_event_def)
      ultimately show ?thesis by simp
    qed
    from calendar_ok_replace [OF assms(2) e'(2) d this] show ?thesis .
  qed
qed

lemma cancel_keeps_calendar:
  assumes "cancel_event E a role i s = (Inr e', t)" "calendar_ok s"
  shows "calendar_ok t"
proof -
  obtain e where e: "filter (\<lambda>e. cal_id e = i) (calendar_events s) = [e]"
    and res: "if cal_cancelled_at e \<noteq> None then t = s
     else e' = e\<lparr>cal_cancelled_at := Some (clock s)\<rparr> \<and>
       calendar_events t = update_where (\<lambda>x. cal_id x = cal_id e) (\<lambda>_. e') (calendar_events s)"
    using cancel_event_returns [OF assms(1)] by (auto split: if_splits)
  have mem: "e \<in> set (calendar_events s)" using e by (auto simp: filter_eq_Cons_iff)
  show ?thesis
  proof (cases "cal_cancelled_at e = None")
    case True
    with res have e': "e' = e\<lparr>cal_cancelled_at := Some (clock s)\<rparr>"
      "calendar_events t = update_where (\<lambda>x. cal_id x = cal_id e') (\<lambda>_. e') (calendar_events s)" by auto
    have d: "duration_ok (cal_duration_minutes e')" using assms(2) mem by (auto simp: e'(1) calendar_ok_def)
    have "\<not> clash e' f" for f by (simp add: clash_def e'(1))
    from calendar_ok_replace [OF assms(2) e'(2) d this] show ?thesis .
  qed (use res assms(2) in simp)
qed

text \<open>A request of the calendar, in its transaction.\<close>

inductive calendar_step :: "env \<Rightarrow> db \<Rightarrow> db \<Rightarrow> bool" for E where
  created: "calendar_step E s (snd (create_event_route E cred rid u st d addr s))"
| moved: "calendar_step E s (snd (update_event_route E cred i p s))"
| cancelled: "calendar_step E s (snd (cancel_event_route E cred i s))"

lemma hydrate_pure: "hydrate_event i s = (r, t) \<Longrightarrow> t = s"
  by (auto simp: hydrate_event_def bind_run dest!: scalar_one_pure split: prod.splits sum.splits)

lemma answer_event_pure: "answer_event res s = (r, t) \<Longrightarrow> t = s"
  by (auto simp: answer_event_def bind_run dest!: hydrate_pure split: sum.splits prod.splits)

lemmas guarded_keeps = guarded_route_keeps [where I = calendar_ok]

lemma acting_role_slug_pure': "acting_role_slug u s = (r, t) \<Longrightarrow> t = s"
  by (auto simp: acting_role_slug_def primary_role_slug_def run_simps split: list.splits option.splits)

lemma calendar_step_keeps:
  assumes "calendar_step E s t" "calendar_ok s"
  shows "calendar_ok t"
  using assms(1)
proof cases
  case (created cred rid u st d addr)
  show ?thesis
    unfolding created create_event_route_def
    by (rule guarded_keeps [OF assms(2)])
      (use assms(2) create_keeps_calendar in \<open>auto simp: seq_return_iff bind_return_iff require_return_iff
        dest!: acting_role_slug_pure' answer_event_pure\<close>)
next
  case (moved cred i p)
  show ?thesis
    unfolding moved update_event_route_def
    by (rule guarded_keeps [OF assms(2)])
      (use assms(2) update_keeps_calendar in \<open>auto simp: seq_return_iff bind_return_iff require_return_iff
        dest!: acting_role_slug_pure' answer_event_pure\<close>)
next
  case (cancelled cred i)
  show ?thesis
    unfolding cancelled cancel_event_route_def
    by (rule guarded_keeps [OF assms(2)])
      (use assms(2) cancel_keeps_calendar in \<open>auto simp: bind_return_iff
        dest!: acting_role_slug_pure' hydrate_pure\<close>)
qed

subsection \<open>Scheduling, cancelling, scheduling again\<close>

lemma new_request_schedules: "allowed ''new_request'' ''appraisal_scheduled''"
  by (simp add: allowed_def forbidden_iff is_known_iff_value all_status_values_def all_status_def)

text \<open>A created appointment leaves the record scheduled, with a status event that says so.\<close>

lemma create_event_schedules:
  assumes "create_event E a role rid u st d addr s = (Inr (Inr e), t)"
  shows "\<exists>r ev. filter (\<lambda>r. er_id r = rid) (equipment_records s) = [r] \<and>
    equipment_records t = update_where (\<lambda>x. er_id x = rid) (\<lambda>x. x\<lparr>er_status := ''appraisal_scheduled''\<rparr>) (equipment_records s) \<and>
    status_events t = status_events s @ [ev] \<and> ev_to_status ev = ''appraisal_scheduled'' \<and> ev_equipment_record_id ev = rid"
proof -
  obtain r ap w where r: "filter (\<lambda>r. er_id r = rid) (equipment_records s) = [r]" "er_status r = ''new_request''"
    "announce_event E a role r ap e w = (Inr (), t)" "equipment_records w = equipment_records s"
    "status_events w = status_events s"
    using create_event_returns [OF assms] by auto
  have rid: "er_id r = rid" using r(1) by (auto simp: filter_eq_Cons_iff)
  define w1 where "w1 = snd (audit_event ''calendar_event.created'' a role (cal_id e) None e w)"
  have w1: "audit_event ''calendar_event.created'' a role (cal_id e) None e w = (Inr (), w1)"
    "equipment_records w1 = equipment_records w" "status_events w1 = status_events w"
    by (simp_all add: w1_def audit_event_def add_audit_run)
  obtain c x w2 where x: "record_transition E r ''appraisal_scheduled'' (Some a) None c None w1 = (Inr x, w2)"
    and y: "enqueue_appraiser_email E ap (snd x) e ''scheduled'' w2 = (Inr (), t)"
    using r(3) w1(1) by (auto simp: announce_event_def seq_run bind_return_iff customer_user_of_def)
  note tt = transition_tables [OF x]
  obtain ev r' where ev: "x = (ev, r')" by fastforce
  have "ev_to_status (fst x) = ''appraisal_scheduled''" "ev_equipment_record_id (fst x) = rid"
    using record_transition_returns(2) [OF x [unfolded ev]] by (simp_all add: ev transition_event_def rid)
  moreover have "confined (same business) (enqueue_appraiser_email E ap (snd x) e ''scheduled'')"
    unfolding enqueue_appraiser_email_def by (intro business_frame.queue_intros)
  from confined_sameD [OF this y] have b: "business t = business w2" .
  have "equipment_records t = equipment_records w2" "status_events t = status_events w2"
    using arg_cong [OF b, of equipment_records] arg_cong [OF b, of status_events] by (simp_all add: business_def)
  ultimately show ?thesis using r rid w1 tt(1,2) by auto
qed

lemma safe_transition:
  "allowed (er_status r) st \<Longrightarrow> safe (notify_ready E) (record_transition E r st by note c ov)"
  unfolding safe_def using record_transition_succeeds by blast

lemma safe_appraiser_email: "safe (notify_ready E) (enqueue_appraiser_email E u r e k)"
  unfolding enqueue_appraiser_email_def by (intro notify_safe_intros)

lemma safe_audit: "safe (notify_ready E) (audit_event ty a r i b e)"
  by (simp add: safe_def audit_event_def add_audit_run notify_ready_def recipients_ok_def overrides_ok_def)

lemma create_event_succeeds:
  assumes "filter (\<lambda>r. er_id r = rid) (equipment_records s) = [r]" "er_status r = ''new_request''"
    and "require_appraiser u s = (Inr ap, s)"
    and "check_conflict E u st (st + minutes (int_or d 60))
      (nonempty (strip (if str_truthy addr then the addr else str_or (er_customer_location_text r) ''''))) None s = (Inr None, v)"
    and "\<not> (\<exists>x \<in> set (calendar_events v). cal_id x = random_uuid E (draws v))" "notify_ready E v"
  shows "\<exists>e t. create_event E a role rid u st d addr s = (Inr (Inr e), t) \<and> notify_ready E t"
proof -
  let ?addr = "nonempty (strip (if str_truthy addr then the addr else str_or (er_customer_location_text r) ''''))"
  let ?e = "new_event (random_uuid E (draws v)) (er_id r) u st (int_or d 60) ?addr"
  let ?v = "v\<lparr>draws := Suc (draws v), calendar_events := calendar_events v @ [?e],
    event_attendees := add_primary ?e (event_attendees v)\<rparr>"
  have ins: "insert_event E (er_id r) u st (int_or d 60) ?addr v = (Inr ?e, ?v)"
    using assms(5) by (simp add: insert_event_def mirror_appraiser_def run_simps Let_def)
  have "notify_ready E ?v" using assms(6) by (simp add: notify_ready_def recipients_ok_def overrides_ok_def)
  moreover have "safe (notify_ready E) (announce_event E a role r ap ?e)"
    unfolding announce_event_def customer_user_of_def
    by (intro safe_intros safe_audit safe_transition safe_appraiser_email) (simp add: assms(2) new_request_schedules)
  ultimately obtain t where t: "announce_event E a role r ap ?e ?v = (Inr (), t)" "notify_ready E t"
    using safeD [where m = "announce_event E a role r ap ?e" and I = "notify_ready E" and s = ?v] by auto
  have "load_record_or_404 rid s = (Inr r, s)" using assms(1) by (simp add: load_record_returns)
  then have "create_event E a role rid u st d addr s = (Inr (Inr ?e), t)"
    using assms(2,3,4) ins t(1)
    by (simp add: create_event_def Let_def bind_run seq_run require_run SCHEDULABLE_FROM_STATUSES_def DEFAULT_DURATION_MINUTES_def)
  with t(2) show ?thesis by blast
qed

lemma cancel_event_succeeds:
  assumes "filter (\<lambda>e. cal_id e = i) (calendar_events s) = [e]" "cal_cancelled_at e = None"
    and "filter (\<lambda>r. er_id r = cal_equipment_record_id e) (equipment_records s) = [r]" "notify_ready E s"
  shows "\<exists>e' t. cancel_event E a role i s = (Inr e', t) \<and> notify_ready E t"
proof -
  let ?c = "e\<lparr>cal_cancelled_at := Some (clock s)\<rparr>"
  let ?s = "s\<lparr>calendar_events := update_where (\<lambda>x. cal_id x = cal_id ?c) (\<lambda>_. ?c) (calendar_events s)\<rparr>"
  define s1 where "s1 = snd (audit_event ''calendar_event.cancelled'' a role (cal_id e) (Some (event_state e)) ?c ?s)"
  have s1: "audit_event ''calendar_event.cancelled'' a role (cal_id e) (Some (event_state e)) ?c ?s = (Inr (), s1)"
    "equipment_records s1 = equipment_records s" "notify_ready E s1"
    using assms(4) by (simp_all add: s1_def audit_event_def add_audit_run notify_ready_def recipients_ok_def overrides_ok_def)
  have "safe (notify_ready E) (bind (reopen_record r) (\<lambda>r'. seq (announce_cancellation E r' ?c) (ret ?c)))"
    unfolding reopen_record_def announce_cancellation_def customer_user_of_def enqueue_customer_cancellation_email_def
    by (intro notify_safe_intros safe_appraiser_email)
      (simp add: notify_ready_def recipients_ok_def overrides_ok_def)
  from safeD [OF this s1(3)] obtain x t where t: "bind (reopen_record r) (\<lambda>r'. seq (announce_cancellation E r' ?c) (ret ?c)) s1 = (Inr x, t)"
    "notify_ready E t" by blast
  have "load_record_or_404 (cal_equipment_record_id e) s1 = (Inr r, s1)" using assms(3) s1(2) by (simp add: load_record_returns)
  moreover have "get_event_or_404 i s = (Inr e, s)" using assms(1) by (simp add: get_event_returns)
  moreover have "replace_event ?c s = (Inr (), ?s)" by (simp add: replace_event_def)
  ultimately have "cancel_event E a role i s = (Inr x, t)"
    using assms(2) s1(1) t(1) by (simp add: cancel_event_def bind_run seq_run now_run Let_def)
  with t(2) show ?thesis by blast
qed

end
