(* ===== verification/AdminUsers.thy ===== *)
theory AdminUsers
  imports Calendar Sales
begin

section \<open>Administration of users and records\<close>

text \<open>
  \<^verbatim>\<open>api/services/admin_user_service.py\<close> and the routes of \<^verbatim>\<open>routers/admin.py\<close> on users and records: the
  deactivation of a user with the reassignment of the open work, the override of a status, the watchers,
  the merged notification settings. The body of the answer 409 to a deactivation is its text here; rows of
  the audit log have no id in the model, so the answer to an override has none.
\<close>

subsection \<open>Deactivating a user\<close>

definition OPEN_STATUSES_EXCLUDED :: "string list" where
  "OPEN_STATUSES_EXCLUDED = [''sold'', ''declined'', ''withdrawn'']"

definition WORK_ROLES :: "string set" where
  "WORK_ROLES = {''sales'', ''sales_manager'', ''admin'', ''appraiser''}"

definition is_open_record_of :: "uuid \<Rightarrow> equipment_record \<Rightarrow> bool" where
  "is_open_record_of user_id r \<longleftrightarrow>
     (er_assigned_sales_rep_id r = Some user_id \<or> er_assigned_appraiser_id r = Some user_id) \<and>
     er_deleted_at r = None \<and> er_status r \<notin> set OPEN_STATUSES_EXCLUDED"

definition open_records_assigned_to :: "uuid \<Rightarrow> equipment_record list op" where
  "open_records_assigned_to user_id = reads (\<lambda>s. filter (is_open_record_of user_id) (equipment_records s))"

definition is_future_event_of :: "uuid \<Rightarrow> datetime \<Rightarrow> calendar_event \<Rightarrow> bool" where
  "is_future_event_of user_id t e \<longleftrightarrow>
     cal_appraiser_id e = user_id \<and> t \<le> cal_scheduled_at e \<and> cal_cancelled_at e = None"

definition future_events_for_appraiser :: "uuid \<Rightarrow> calendar_event list op" where
  "future_events_for_appraiser user_id =
     bind now (\<lambda>t. reads (\<lambda>s. filter (is_future_event_of user_id t) (calendar_events s)))"

definition resolve_reassignee :: "uuid \<Rightarrow> user \<Rightarrow> user op" where
  "resolve_reassignee reassign_to_id target =
     bind (select_one users (\<lambda>u. usr_id u = reassign_to_id)) (\<lambda>found.
     case found of
       None \<Rightarrow> raise (http 422 ''Reassignment target not found.'')
     | Some reassignee \<Rightarrow>
         seq (require (usr_status reassignee = ''active'') (http 422 ''Reassignment target is not active.''))
         (seq (require (usr_id reassignee \<noteq> usr_id target)
                 (http 422 ''Cannot reassign to the user being deactivated.''))
         (bind (role_slugs_for_user target) (\<lambda>target_roles.
          bind (role_slugs_for_user reassignee) (\<lambda>new_roles.
          seq (require ((target_roles \<inter> WORK_ROLES) \<inter> (new_roles \<inter> WORK_ROLES) \<noteq> {})
                 (http 422 (''Reassignment target does not share a work role with the leaving '' @
                    ''user. Pick a teammate who can take on this work.'')))
            (ret reassignee))))))"

text \<open>The record with its assignments moved; the columns of the row that are written back.\<close>

definition taken_over :: "uuid \<Rightarrow> uuid \<Rightarrow> equipment_record \<Rightarrow> equipment_record" where
  "taken_over leaving joining r =
     r\<lparr>er_assigned_sales_rep_id := (if er_assigned_sales_rep_id r = Some leaving then Some joining
          else er_assigned_sales_rep_id r),
       er_assigned_appraiser_id := (if er_assigned_appraiser_id r = Some leaving then Some joining
          else er_assigned_appraiser_id r)\<rparr>"

definition with_trigger :: "json \<Rightarrow> uuid \<Rightarrow> json" where
  "with_trigger j leaving =
     (case j of JObj kvs \<Rightarrow> JObj (kvs @ [(''trigger_user_id'', JStr (uuid_str leaving))]) | _ \<Rightarrow> j)"

definition reassign_record :: "env \<Rightarrow> user \<Rightarrow> user \<Rightarrow> user \<Rightarrow> equipment_record \<Rightarrow> uuid op" where
  "reassign_record E leaving joining actor rec =
     (let rec' = taken_over (usr_id leaving) (usr_id joining) rec
      in seq (writes (\<lambda>s. s\<lparr>equipment_records := update_where (\<lambda>x. er_id x = er_id rec)
                (\<lambda>x. x\<lparr>er_assigned_sales_rep_id := er_assigned_sales_rep_id rec',
                   er_assigned_appraiser_id := er_assigned_appraiser_id rec'\<rparr>) (equipment_records s)\<rparr>))
         (seq (add_audit \<lparr>aud_event_type = ''equipment_record.deactivation_reassigned'',
                 aud_actor_id = Some (usr_id actor), aud_actor_role = Some ''admin'',
                 aud_target_type = Some ''equipment_record'', aud_target_id = Some (er_id rec),
                 aud_before_state = Some (assignment_state rec),
                 aud_after_state = Some (with_trigger (assignment_state rec') (usr_id leaving))\<rparr>)
         (seq (enqueue_assignment_notification E rec' (usr_id joining) ''admin_deactivation'')
         (ret (er_id rec)))))"

definition reassign_event :: "user \<Rightarrow> user \<Rightarrow> user \<Rightarrow> calendar_event \<Rightarrow> uuid op" where
  "reassign_event leaving joining actor ev =
     (let ev' = ev\<lparr>cal_appraiser_id := usr_id joining\<rparr>
      in seq (writes (\<lambda>s. s\<lparr>calendar_events := update_where (\<lambda>x. cal_id x = cal_id ev)
                (\<lambda>x. x\<lparr>cal_appraiser_id := usr_id joining\<rparr>) (calendar_events s)\<rparr>))
         (seq (mirror_appraiser ev')
         (seq (add_audit \<lparr>aud_event_type = ''calendar_event.deactivation_reassigned'',
                 aud_actor_id = Some (usr_id actor), aud_actor_role = Some ''admin'',
                 aud_target_type = Some ''calendar_event'', aud_target_id = Some (cal_id ev),
                 aud_before_state = Some (JObj [(''appraiser_id'', JStr (uuid_str (cal_appraiser_id ev)))]),
                 aud_after_state = Some (JObj [(''appraiser_id'', JStr (uuid_str (usr_id joining))),
                    (''trigger_user_id'', JStr (uuid_str (usr_id leaving)))])\<rparr>)
         (ret (cal_id ev)))))"

record deactivation =
  dea_user_id :: uuid
  dea_reassigned_records :: "uuid list"
  dea_reassigned_events :: "uuid list"
  dea_new_status :: string

definition ids_array :: "uuid list \<Rightarrow> json" where
  "ids_array is = JArr (map (\<lambda>i. JStr (uuid_str i)) is)"

definition open_work_detail :: "equipment_record list \<Rightarrow> calendar_event list \<Rightarrow> string" where
  "open_work_detail open_records future_events =
     ''User has '' @ nat_str (length open_records) @ '' open record(s) and '' @
     nat_str (length future_events) @ '' upcoming calendar event(s). Pick a reassignment target.''"

definition move_work ::
  "env \<Rightarrow> user \<Rightarrow> user \<Rightarrow> user option \<Rightarrow> equipment_record list \<Rightarrow> calendar_event list \<Rightarrow>
   (uuid list \<times> uuid list) op" where
  "move_work E target actor reassignee open_records future_events =
     (case reassignee of
        None \<Rightarrow> ret ([], [])
      | Some joining \<Rightarrow>
          bind (map_each open_records (reassign_record E target joining actor)) (\<lambda>rids.
          bind (map_each future_events (reassign_event target joining actor)) (\<lambda>eids.
          ret (rids, eids))))"

definition deactivate_user :: "env \<Rightarrow> uuid \<Rightarrow> uuid option \<Rightarrow> user \<Rightarrow> deactivation op" where
  "deactivate_user E user_id reassign_to_id actor =
     bind (select_one users (\<lambda>u. usr_id u = user_id)) (\<lambda>found.
     case found of
       None \<Rightarrow> raise (http 404 ''User not found.'')
     | Some target \<Rightarrow>
         seq (require (usr_id target \<noteq> usr_id actor)
                (http 409 ''Admins cannot deactivate their own account from this endpoint.''))
         (seq (require (usr_status target \<noteq> ''deactivated'') (http 409 ''User is already deactivated.''))
         (bind (open_records_assigned_to (usr_id target)) (\<lambda>open_records.
          bind (future_events_for_appraiser (usr_id target)) (\<lambda>future_events.
          seq (require (open_records = [] \<and> future_events = [] \<or> reassign_to_id \<noteq> None)
                 (http 409 (open_work_detail open_records future_events)))
          (bind (case reassign_to_id of
                   None \<Rightarrow> ret None
                 | Some i \<Rightarrow> bind (resolve_reassignee i target) (\<lambda>u. ret (Some u))) (\<lambda>reassignee.
           bind (move_work E target actor reassignee open_records future_events) (\<lambda>(rids, eids).
           seq (writes (\<lambda>s. s\<lparr>users := update_where (\<lambda>u. usr_id u = usr_id target)
                  (\<lambda>u. u\<lparr>usr_status := ''deactivated''\<rparr>) (users s)\<rparr>))
           (seq (add_audit \<lparr>aud_event_type = ''user.admin_deactivated'', aud_actor_id = Some (usr_id actor),
                   aud_actor_role = Some ''admin'', aud_target_type = Some ''user'',
                   aud_target_id = Some (usr_id target),
                   aud_before_state = Some (JObj [(''status'', JStr ''active'')]),
                   aud_after_state = Some (JObj [(''status'', JStr ''deactivated''),
                     (''reassign_to_id'', jopt (\<lambda>u. JStr (uuid_str (usr_id u))) reassignee),
                     (''reassigned_record_ids'', ids_array rids),
                     (''reassigned_event_ids'', ids_array eids)])\<rparr>)
           (ret \<lparr>dea_user_id = usr_id target, dea_reassigned_records = rids,
                  dea_reassigned_events = eids, dea_new_status = ''deactivated''\<rparr>))))))))))"

definition deactivate_user_route :: "env \<Rightarrow> string option \<Rightarrow> uuid \<Rightarrow> uuid option \<Rightarrow> deactivation op" where
  "deactivate_user_route E cred user_id reassign_to_id =
     guarded_route E [''admin''] cred (\<lambda>admin. deactivate_user E user_id reassign_to_id admin)"

subsection \<open>Overriding a status\<close>

record transition_request =
  tq_to_status :: string
  tq_reason :: string
  tq_send_notifications :: "bool option"

definition transition_request_ok :: "transition_request \<Rightarrow> bool" where
  "transition_request_ok b \<longleftrightarrow> 1 \<le> char_count (tq_to_status b) \<and> char_count (tq_to_status b) \<le> 40 \<and>
     1 \<le> char_count (tq_reason b) \<and> char_count (tq_reason b) \<le> 2000"

record transition_response =
  ts_record_id :: uuid
  ts_from_status :: string
  ts_to_status :: string
  ts_notifications_dispatched :: bool

definition resolve_customer_user :: "equipment_record \<Rightarrow> user option op" where
  "resolve_customer_user record =
     bind (reads (\<lambda>s. concat (map (\<lambda>u. map (\<lambda>_. u) (filter (\<lambda>c. cus_user_id c = Some (usr_id u) \<and>
        cus_id c = er_customer_id record) (customers s))) (users s)))) scalar_one_or_none"

definition notifications_dispatched :: "transition_request \<Rightarrow> bool" where
  "notifications_dispatched b =
     (case tq_send_notifications b of
        Some x \<Rightarrow> x
      | None \<Rightarrow> notifies_customer (tq_to_status b) \<or> notifies_sales_rep (tq_to_status b))"

definition override_status :: "env \<Rightarrow> user \<Rightarrow> uuid \<Rightarrow> transition_request \<Rightarrow> transition_response op" where
  "override_status E admin record_id body =
     seq (require (is_known (tq_to_status body))
            (http 422 (''Unknown status '' @ quoted (tq_to_status body) @ ''.'')))
     (bind (select_one equipment_records (\<lambda>r. er_id r = record_id \<and> er_deleted_at r = None)) (\<lambda>found.
      case found of
        None \<Rightarrow> raise (http 404 ''Equipment record not found.'')
      | Some record \<Rightarrow>
          bind (resolve_customer_user record) (\<lambda>customer_user.
          bind (record_transition E record (tq_to_status body) (Some admin) (Some (tq_reason body))
                  customer_user (tq_send_notifications body)) (\<lambda>(event, record').
          seq (add_audit \<lparr>aud_event_type = ''equipment_record.status_admin_override'',
                 aud_actor_id = Some (usr_id admin), aud_actor_role = Some ''admin'',
                 aud_target_type = Some ''equipment_record'', aud_target_id = Some (er_id record),
                 aud_before_state = Some (JObj [(''status'', JStr (er_status record))]),
                 aud_after_state = Some (JObj [(''status'', JStr (tq_to_status body)),
                   (''reason'', JStr (tq_reason body)),
                   (''notifications_dispatched'', JBool (notifications_dispatched body)),
                   (''status_event_id'', JStr (uuid_str (ev_id event)))])\<rparr>)
          (ret \<lparr>ts_record_id = er_id record, ts_from_status = er_status record,
                 ts_to_status = tq_to_status body,
                 ts_notifications_dispatched = notifications_dispatched body\<rparr>)))))"

definition manual_transition ::
  "env \<Rightarrow> string option \<Rightarrow> uuid \<Rightarrow> transition_request \<Rightarrow> transition_response op" where
  "manual_transition E cred record_id body =
     guarded_route E [''admin''] cred (\<lambda>admin.
       seq (require (transition_request_ok body) (http 422 ''validation error''))
         (override_status E admin record_id body))"

subsection \<open>Watchers and notification settings\<close>

record watcher_out =
  wo_user_id :: uuid
  wo_email :: string
  wo_first_name :: string
  wo_last_name :: string
  wo_added_by :: "uuid option"
  wo_added_at :: datetime

definition watcher_to_out :: "record_watcher \<Rightarrow> watcher_out op" where
  "watcher_to_out w =
     bind (get_row users usr_id (wat_user_id w)) (\<lambda>found.
     case found of
       None \<Rightarrow> raise (AttributeError ''email'')
     | Some u \<Rightarrow> ret \<lparr>wo_user_id = wat_user_id w, wo_email = usr_email u, wo_first_name = usr_first_name u,
                     wo_last_name = usr_last_name u, wo_added_by = wat_added_by w, wo_added_at = wat_added_at w\<rparr>)"

definition list_record_watchers :: "env \<Rightarrow> string option \<Rightarrow> uuid \<Rightarrow> watcher_out list op" where
  "list_record_watchers E cred record_id =
     guarded_route E [''admin''] cred (\<lambda>admin.
       bind (list_watchers record_id) (\<lambda>rows. map_each rows watcher_to_out))"

definition add_record_watcher :: "env \<Rightarrow> string option \<Rightarrow> uuid \<Rightarrow> uuid \<Rightarrow> watcher_out op" where
  "add_record_watcher E cred record_id user_id =
     guarded_route E [''admin''] cred (\<lambda>admin.
       bind (add_watcher record_id user_id (Some (usr_id admin))) watcher_to_out)"

definition remove_record_watcher :: "env \<Rightarrow> string option \<Rightarrow> uuid \<Rightarrow> uuid \<Rightarrow> unit op" where
  "remove_record_watcher E cred record_id user_id =
     guarded_route E [''admin''] cred (\<lambda>admin.
       bind (remove_watcher record_id user_id) (\<lambda>removed.
       require removed (http 404 ''Watcher not found.'')))"

definition get_user_notification_summary :: "env \<Rightarrow> string option \<Rightarrow> uuid \<Rightarrow> unified_view op" where
  "get_user_notification_summary E cred user_id =
     guarded_route E [''admin''] cred (\<lambda>admin. unified_for_user user_id)"

end
