(* ===== verification/AdminCustomers.thy ===== *)
theory AdminCustomers
  imports Categories Mails
begin

section \<open>Administration of customers\<close>

text \<open>
  \<^verbatim>\<open>api/services/admin_customer_service.py\<close> and its routes: search, edits, walk-in customers, their
  invitation, and the soft deletion that cascades to the records. The time of the last change of a row is
  not a column of the model.
\<close>

subsection \<open>SQL's LIKE\<close>

text \<open>A percent sign stands for any text, an underscore for one character, a backslash takes the next one literally.\<close>

definition after_char :: "string \<Rightarrow> string" where
  "after_char = dropWhile (\<lambda>c. 128 \<le> (of_char c :: nat) \<and> (of_char c :: nat) < 192)"

function sql_like :: "string \<Rightarrow> string \<Rightarrow> bool" where
  "sql_like [] t = (t = [])"
| "sql_like (c # p) [] = (c = CHR ''%'' \<and> sql_like p [])"
| "sql_like (c # p) (d # t) =
     (if c = CHR ''%'' then sql_like p (d # t) \<or> sql_like (c # p) t
      else if c = CHR ''_'' then sql_like p (after_char t)
      else if c = char_of (92::nat) \<and> p \<noteq> [] then d = hd p \<and> sql_like (tl p) t
      else d = c \<and> sql_like p t)"
  by pat_completeness auto
termination
  by (relation "measure (\<lambda>(p, t). length p + length t)")
    (auto simp: after_char_def less_Suc_eq_le intro: le_SucI length_dropWhile_le)

definition like_opt :: "string \<Rightarrow> string option \<Rightarrow> bool" where
  "like_opt pattern x = (case x of None \<Rightarrow> False | Some v \<Rightarrow> sql_like pattern (lower v))"

subsection \<open>What the answers hold\<close>

definition is_email_char :: "char \<Rightarrow> bool" where
  "is_email_char c \<longleftrightarrow> c \<noteq> CHR ''@'' \<and> \<not> is_space c"

text \<open>The regular expression asks for one at sign and a dot inside what follows it.\<close>

definition email_core :: "string \<Rightarrow> bool" where
  "email_core s = (case split_on (CHR ''@'') s of
     [a, b] \<Rightarrow> a \<noteq> '''' \<and> list_all is_email_char a \<and> list_all is_email_char b \<and>
               CHR ''.'' \<in> set (butlast (drop 1 b))
   | _ \<Rightarrow> False)"

definition email_regex :: "string \<Rightarrow> bool" where
  "email_regex s \<longleftrightarrow> email_core s \<or> (s \<noteq> '''' \<and> last s = newline \<and> email_core (butlast s))"

record equipment_summary =
  es_id :: uuid
  es_reference_number :: "string option"
  es_status :: string
  es_make :: "string option"
  es_model :: "string option"
  es_year :: "int option"
  es_deleted_at :: "datetime option"

definition summary_of :: "equipment_record \<Rightarrow> equipment_summary" where
  "summary_of r = \<lparr>es_id = er_id r, es_reference_number = er_reference_number r, es_status = er_status r,
     es_make = er_customer_make r, es_model = er_customer_model r, es_year = er_customer_year r,
     es_deleted_at = er_deleted_at r\<rparr>"

record admin_customer_out =
  aco_customer :: customer
  aco_user_email :: "string option"
  aco_is_walkin :: bool
  aco_is_deleted :: bool
  aco_equipment_records :: "equipment_summary list"

definition records_of_customer :: "customer \<Rightarrow> db \<Rightarrow> equipment_record list" where
  "records_of_customer c s = filter (\<lambda>r. er_customer_id r = cus_id c) (equipment_records s)"

definition user_of_customer :: "customer \<Rightarrow> db \<Rightarrow> user option" where
  "user_of_customer c s = find (\<lambda>u. Some (usr_id u) = cus_user_id c) (users s)"

definition serialize_customer :: "bool \<Rightarrow> db \<Rightarrow> customer \<Rightarrow> admin_customer_out" where
  "serialize_customer include_records s c =
     \<lparr>aco_customer = c, aco_user_email = map_option usr_email (user_of_customer c s),
      aco_is_walkin = (cus_user_id c = None), aco_is_deleted = (cus_deleted_at c \<noteq> None),
      aco_equipment_records = (if include_records then map summary_of (records_of_customer c s) else [])\<rparr>"

definition load_customer :: "uuid \<Rightarrow> customer op" where
  "load_customer customer_id =
     bind (select_one customers (\<lambda>c. cus_id c = customer_id)) (\<lambda>found.
     case found of None \<Rightarrow> raise (http 404 ''Customer not found.'') | Some c \<Rightarrow> ret c)"

definition customer_audit :: "user \<Rightarrow> string \<Rightarrow> uuid \<Rightarrow> json option \<Rightarrow> json \<Rightarrow> unit op" where
  "customer_audit actor event target_id before after =
     add_audit \<lparr>aud_event_type = event, aud_actor_id = Some (usr_id actor), aud_actor_role = Some ''admin'',
       aud_target_type = Some ''customer'', aud_target_id = Some target_id,
       aud_before_state = before, aud_after_state = Some after\<rparr>"

subsection \<open>Search\<close>

definition customer_matches :: "db \<Rightarrow> string \<Rightarrow> customer \<Rightarrow> bool" where
  "customer_matches s search c \<longleftrightarrow>
     (let like = ''%'' @ lower search @ ''%''
      in sql_like like (lower (cus_submitter_name c)) \<or> like_opt like (cus_business_name c) \<or>
         like_opt like (cus_invite_email c) \<or>
         like_opt like (map_option usr_email (user_of_customer c s)) \<or>
         like_opt like (cus_business_phone c) \<or> like_opt like (cus_cell_phone c))"

definition customer_listed :: "db \<Rightarrow> string option \<Rightarrow> bool \<Rightarrow> bool \<Rightarrow> customer \<Rightarrow> bool" where
  "customer_listed s search include_deleted walkins_only c \<longleftrightarrow>
     (include_deleted \<or> cus_deleted_at c = None) \<and> (walkins_only \<longrightarrow> cus_user_id c = None) \<and>
     (str_truthy search \<longrightarrow> customer_matches s (the search) c)"

definition list_customers ::
  "string option \<Rightarrow> bool \<Rightarrow> bool \<Rightarrow> int \<Rightarrow> int \<Rightarrow> (admin_customer_out list \<times> nat) op" where
  "list_customers search include_deleted walkins_only page per_page =
     (let page = max 1 page; per_page = max 1 (min 200 per_page)
      in reads (\<lambda>s. let found = filter (customer_listed s search include_deleted walkins_only) (customers s)
           in (map (serialize_customer False s)
                 (take (nat per_page) (drop (nat ((page - 1) * per_page)) (sort_key (\<lambda>c. - cus_created_at c) found))),
               length found)))"

definition get_customer :: "uuid \<Rightarrow> admin_customer_out op" where
  "get_customer customer_id =
     bind (load_customer customer_id) (\<lambda>c. reads (\<lambda>s. serialize_customer True s c))"

subsection \<open>Edits\<close>

text \<open>A field that was sent is \<open>Some\<close>, a sent null \<open>Some None\<close>.\<close>

record customer_patch =
  cpt_submitter_name :: "string option option"
  cpt_business_name :: "string option option"
  cpt_title :: "string option option"
  cpt_address_street :: "string option option"
  cpt_address_city :: "string option option"
  cpt_address_state :: "string option option"
  cpt_address_zip :: "string option option"
  cpt_business_phone :: "string option option"
  cpt_business_phone_ext :: "string option option"
  cpt_cell_phone :: "string option option"
  cpt_invite_email :: "string option option"

definition patch_fields :: "customer_patch \<Rightarrow> (string \<times> string option option) list" where
  "patch_fields p = [(''submitter_name'', cpt_submitter_name p), (''business_name'', cpt_business_name p),
     (''title'', cpt_title p), (''address_street'', cpt_address_street p), (''address_city'', cpt_address_city p),
     (''address_state'', cpt_address_state p), (''address_zip'', cpt_address_zip p),
     (''business_phone'', cpt_business_phone p), (''business_phone_ext'', cpt_business_phone_ext p),
     (''cell_phone'', cpt_cell_phone p), (''invite_email'', cpt_invite_email p)]"

definition customer_patch_ok :: "customer_patch \<Rightarrow> bool" where
  "customer_patch_ok p \<longleftrightarrow> sent_ok (text_within 0 200) (cpt_submitter_name p) \<and>
     sent_ok (text_within 0 200) (cpt_business_name p) \<and> sent_ok (text_within 0 100) (cpt_title p) \<and>
     sent_ok (text_within 0 255) (cpt_address_street p) \<and> sent_ok (text_within 0 100) (cpt_address_city p) \<and>
     sent_ok (text_within 0 2) (cpt_address_state p) \<and> sent_ok (text_within 0 10) (cpt_address_zip p) \<and>
     sent_ok (text_within 0 20) (cpt_business_phone p) \<and> sent_ok (text_within 0 10) (cpt_business_phone_ext p) \<and>
     sent_ok (text_within 0 20) (cpt_cell_phone p) \<and> sent_ok (text_within 0 255) (cpt_invite_email p)"

definition upper_state :: "string \<Rightarrow> string" where "upper_state x = upper (strip x)"

definition set_sent :: "'a option \<Rightarrow> 'a \<Rightarrow> 'a" where
  "set_sent sent old = (case sent of None \<Rightarrow> old | Some v \<Rightarrow> v)"

text \<open>
  The column of the name admits no null; every other column takes what was sent. The constraint
  \<open>ck_customers_user_or_invite\<close> asks for a portal account or an address to invite.
\<close>

definition patched_customer :: "customer_patch \<Rightarrow> customer \<Rightarrow> customer" where
  "patched_customer p c =
     c\<lparr>cus_submitter_name := (case cpt_submitter_name p of Some (Some v) \<Rightarrow> v | _ \<Rightarrow> cus_submitter_name c),
       cus_business_name := set_sent (cpt_business_name p) (cus_business_name c),
       cus_title := set_sent (cpt_title p) (cus_title c),
       cus_address_street := set_sent (cpt_address_street p) (cus_address_street c),
       cus_address_city := set_sent (cpt_address_city p) (cus_address_city c),
       cus_address_state := set_sent (map_option (map_option upper_state) (cpt_address_state p)) (cus_address_state c),
       cus_address_zip := set_sent (cpt_address_zip p) (cus_address_zip c),
       cus_business_phone := set_sent (cpt_business_phone p) (cus_business_phone c),
       cus_business_phone_ext := set_sent (cpt_business_phone_ext p) (cus_business_phone_ext c),
       cus_cell_phone := set_sent (cpt_cell_phone p) (cus_cell_phone c),
       cus_invite_email := set_sent (cpt_invite_email p) (cus_invite_email c)\<rparr>"

definition user_or_invite :: "customer \<Rightarrow> bool" where
  "user_or_invite c \<longleftrightarrow> cus_user_id c \<noteq> None \<or> cus_invite_email c \<noteq> None"

definition customer_values :: "customer \<Rightarrow> (string \<times> string option) list" where
  "customer_values c = [(''submitter_name'', Some (cus_submitter_name c)), (''business_name'', cus_business_name c),
     (''title'', cus_title c), (''address_street'', cus_address_street c), (''address_city'', cus_address_city c),
     (''address_state'', cus_address_state c), (''address_zip'', cus_address_zip c),
     (''business_phone'', cus_business_phone c), (''business_phone_ext'', cus_business_phone_ext c),
     (''cell_phone'', cus_cell_phone c), (''invite_email'', cus_invite_email c)]"

definition sent_names :: "customer_patch \<Rightarrow> string list" where
  "sent_names p = map fst (filter (\<lambda>(k, v). v \<noteq> None) (patch_fields p))"

definition sent_values :: "customer_patch \<Rightarrow> customer \<Rightarrow> json" where
  "sent_values p c =
     JObj (map (\<lambda>k. (k, case map_of (customer_values c) k of Some v \<Rightarrow> jopt JStr v | None \<Rightarrow> JNull)) (sent_names p))"

definition update_customer :: "uuid \<Rightarrow> customer_patch \<Rightarrow> user \<Rightarrow> admin_customer_out op" where
  "update_customer customer_id p actor =
     bind (load_customer customer_id) (\<lambda>c.
     seq (require (sent_names p \<noteq> []) (http 400 ''No fields to update.''))
     (seq (require (case cpt_invite_email p of Some (Some x) \<Rightarrow> email_regex x | _ \<Rightarrow> True)
             (http 422 ''invite_email is not a valid address.''))
     (seq (require (cpt_submitter_name p \<noteq> Some None) (IntegrityError ''customers.submitter_name''))
     (seq (require (user_or_invite (patched_customer p c)) (IntegrityError ''ck_customers_user_or_invite''))
     (seq (writes (\<lambda>s. s\<lparr>customers := update_where (\<lambda>x. cus_id x = cus_id c) (patched_customer p) (customers s)\<rparr>))
     (seq (customer_audit actor ''customer.admin_update'' (cus_id c) (Some (sent_values p c))
             (sent_values p (patched_customer p c)))
     (get_customer (cus_id c))))))))"

subsection \<open>Deletion\<close>

definition soft_delete_customer :: "uuid \<Rightarrow> user \<Rightarrow> admin_customer_out op" where
  "soft_delete_customer customer_id actor =
     bind (load_customer customer_id) (\<lambda>c.
     if cus_deleted_at c \<noteq> None then reads (\<lambda>s. serialize_customer True s c)
     else
       bind now (\<lambda>t.
       bind (reads (\<lambda>s. map er_id (filter (\<lambda>r. er_deleted_at r = None) (records_of_customer c s)))) (\<lambda>affected.
       seq (writes (\<lambda>s. s\<lparr>customers := update_where (\<lambda>x. cus_id x = cus_id c)
              (\<lambda>x. x\<lparr>cus_deleted_at := Some t\<rparr>) (customers s),
              equipment_records := update_where (\<lambda>r. er_customer_id r = cus_id c \<and> er_deleted_at r = None)
              (\<lambda>r. r\<lparr>er_deleted_at := Some t\<rparr>) (equipment_records s)\<rparr>))
       (seq (customer_audit actor ''customer.admin_soft_delete'' (cus_id c) (Some (JObj [(''deleted_at'', JNull)]))
               (JObj [(''deleted_at'', JStr (isoformat t)),
                 (''cascaded_record_ids'', JArr (map (\<lambda>i. JStr (uuid_str i)) affected))]))
       (reads (\<lambda>s. serialize_customer True s (c\<lparr>cus_deleted_at := Some t\<rparr>)))))))"

subsection \<open>Walk-in customers\<close>

record customer_create =
  ccr_submitter_name :: string
  ccr_invite_email :: string
  ccr_business_name :: "string option"
  ccr_title :: "string option"
  ccr_address_street :: "string option"
  ccr_address_city :: "string option"
  ccr_address_state :: "string option"
  ccr_address_zip :: "string option"
  ccr_business_phone :: "string option"
  ccr_business_phone_ext :: "string option"
  ccr_cell_phone :: "string option"

definition customer_create_ok :: "customer_create \<Rightarrow> bool" where
  "customer_create_ok p \<longleftrightarrow> text_within 1 200 (ccr_submitter_name p) \<and> text_within 3 255 (ccr_invite_email p) \<and>
     pred_option (text_within 0 200) (ccr_business_name p) \<and> pred_option (text_within 0 100) (ccr_title p) \<and>
     pred_option (text_within 0 255) (ccr_address_street p) \<and> pred_option (text_within 0 100) (ccr_address_city p) \<and>
     pred_option (text_within 0 2) (ccr_address_state p) \<and> pred_option (text_within 0 10) (ccr_address_zip p) \<and>
     pred_option (text_within 0 20) (ccr_business_phone p) \<and>
     pred_option (text_within 0 10) (ccr_business_phone_ext p) \<and> pred_option (text_within 0 20) (ccr_cell_phone p)"

definition new_walkin :: "uuid \<Rightarrow> datetime \<Rightarrow> customer_create \<Rightarrow> customer" where
  "new_walkin i t p =
     \<lparr>cus_id = i, cus_user_id = None, cus_invite_email = Some (lower (strip (ccr_invite_email p))),
      cus_business_name = ccr_business_name p, cus_submitter_name = strip (ccr_submitter_name p),
      cus_title = ccr_title p, cus_address_street = ccr_address_street p, cus_address_city = ccr_address_city p,
      cus_address_state = map_option upper_state (ccr_address_state p), cus_address_zip = ccr_address_zip p,
      cus_business_phone = ccr_business_phone p, cus_business_phone_ext = ccr_business_phone_ext p,
      cus_cell_phone = ccr_cell_phone p, cus_communication_prefs = None, cus_created_at = t,
      cus_deleted_at = None\<rparr>"

definition create_walkin :: "env \<Rightarrow> customer_create \<Rightarrow> user \<Rightarrow> admin_customer_out op" where
  "create_walkin E p actor =
     seq (require (email_regex (ccr_invite_email p)) (http 422 ''invite_email is not a valid address.''))
     (bind (uuid4 E) (\<lambda>i.
      bind now (\<lambda>t.
      let c = new_walkin i t p
      in seq (fresh_key customers cus_id i)
         (seq (writes (\<lambda>s. s\<lparr>customers := customers s @ [c]\<rparr>))
         (seq (customer_audit actor ''customer.admin_walkin_created'' i None
                 (JObj [(''submitter_name'', JStr (cus_submitter_name c)),
                   (''invite_email'', jopt JStr (cus_invite_email c)),
                   (''business_name'', jopt JStr (cus_business_name c))]))
         (get_customer i))))))"

definition full_or_email :: "user \<Rightarrow> string" where
  "full_or_email u =
     (let name = join '' '' (filter (\<lambda>p. p \<noteq> '''') [usr_first_name u, usr_last_name u])
      in if name = '''' then usr_email u else name)"

definition rstrip_slash :: "string \<Rightarrow> string" where
  "rstrip_slash x = rev (dropWhile (\<lambda>c. c = CHR ''/'') (rev x))"

record invite_out =
  ivo_customer_id :: uuid
  ivo_invite_email :: string
  ivo_sent_at :: datetime

definition send_walkin_invite :: "uuid \<Rightarrow> user \<Rightarrow> string \<Rightarrow> invite_out op" where
  "send_walkin_invite customer_id actor base_url =
     bind (load_customer customer_id) (\<lambda>c.
     seq (require (cus_user_id c = None)
            (http 409 ''Customer already has a portal account; nothing to invite.''))
     (seq (require (str_truthy (cus_invite_email c))
             (http 409 ''Customer has no invite_email set. Update the record first.''))
     (let email = the (cus_invite_email c)
      in seq (send_walkin_invite_email email (rstrip_slash base_url @ ''/register?email='' @ email)
                (cus_submitter_name c) (full_or_email actor))
         (bind now (\<lambda>sent_at.
          seq (customer_audit actor ''customer.admin_invite_sent'' (cus_id c) None
                 (JObj [(''invite_email'', JStr email), (''sent_at'', JStr (isoformat sent_at))]))
          (ret \<lparr>ivo_customer_id = cus_id c, ivo_invite_email = email, ivo_sent_at = sent_at\<rparr>))))))"

subsection \<open>Routes\<close>

definition list_customers_route ::
  "env \<Rightarrow> string option \<Rightarrow> string option \<Rightarrow> bool \<Rightarrow> bool \<Rightarrow> int \<Rightarrow> int \<Rightarrow> (admin_customer_out list \<times> nat) op" where
  "list_customers_route E cred search include_deleted walkins_only page per_page =
     guarded_route E [''admin''] cred (\<lambda>admin.
       seq (require (1 \<le> page \<and> 1 \<le> per_page \<and> per_page \<le> 200) (http 422 ''validation error''))
         (list_customers search include_deleted walkins_only page per_page))"

definition get_customer_route :: "env \<Rightarrow> string option \<Rightarrow> uuid \<Rightarrow> admin_customer_out op" where
  "get_customer_route E cred i = guarded_route E [''admin''] cred (\<lambda>admin. get_customer i)"

definition create_walkin_route :: "env \<Rightarrow> string option \<Rightarrow> customer_create \<Rightarrow> admin_customer_out op" where
  "create_walkin_route E cred body =
     guarded_route E [''admin''] cred (\<lambda>admin.
       seq (require (customer_create_ok body) (http 422 ''validation error'')) (create_walkin E body admin))"

definition update_customer_route :: "env \<Rightarrow> string option \<Rightarrow> uuid \<Rightarrow> customer_patch \<Rightarrow> admin_customer_out op" where
  "update_customer_route E cred i body =
     guarded_route E [''admin''] cred (\<lambda>admin.
       seq (require (customer_patch_ok body) (http 422 ''validation error'')) (update_customer i body admin))"

definition soft_delete_customer_route :: "env \<Rightarrow> string option \<Rightarrow> uuid \<Rightarrow> admin_customer_out op" where
  "soft_delete_customer_route E cred i = guarded_route E [''admin''] cred (soft_delete_customer i)"

definition send_walkin_invite_route :: "env \<Rightarrow> string option \<Rightarrow> uuid \<Rightarrow> string \<Rightarrow> invite_out op" where
  "send_walkin_invite_route E cred i base_url =
     guarded_route E [''admin''] cred (\<lambda>admin. send_walkin_invite i admin (rstrip_slash base_url))"

end
