(* ===== verification/AdminOperations.thy ===== *)
theory AdminOperations
  imports Categories StatusService
begin

section \<open>The operations dashboard, configuration and template overrides\<close>

text \<open>
  \<^verbatim>\<open>api/services/admin_operations_service.py\<close>, \<^verbatim>\<open>routers/admin_config.py\<close> and \<^verbatim>\<open>routers/admin_templates.py\<close>.
  The column \<open>updated_at\<close> of a record is kept by a trigger of the database; it is the argument
  \<open>updated\<close> here. Strings are ordered by their bytes.
\<close>

definition DEFAULT_OVERDUE_THRESHOLD_DAYS :: int where "DEFAULT_OVERDUE_THRESHOLD_DAYS = 7"

subsection \<open>One row\<close>

definition operations_name :: "string \<Rightarrow> string \<Rightarrow> string" where
  "operations_name first_name last_name =
     (let parts = filter (\<lambda>p. p \<noteq> '''') [first_name, last_name]
      in if parts = [] then ''(no name)'' else join '' '' parts)"

record operations_row =
  or_record :: equipment_record
  or_status_display :: string
  or_days_in_status :: int
  or_customer_id :: uuid
  or_customer_name :: string
  or_business_name :: "string option"
  or_state :: "string option"
  or_sales_rep_name :: "string option"
  or_appraiser_name :: "string option"
  or_is_overdue :: bool
  or_updated_at :: datetime

definition event_times :: "db \<Rightarrow> uuid \<Rightarrow> datetime list" where
  "event_times s record_id = map ev_created_at (filter (\<lambda>e. ev_equipment_record_id e = record_id) (status_events s))"

text \<open>The time of the last status event, else the creation of the record.\<close>

definition entered_at :: "db \<Rightarrow> equipment_record \<Rightarrow> datetime" where
  "entered_at s r = (let ts = event_times s (er_id r) in if ts = [] then er_created_at r else Max (set ts))"

definition days_in_status :: "datetime \<Rightarrow> datetime \<Rightarrow> int" where
  "days_in_status t entered = max 0 ((t - entered) div days 1)"

type_synonym joined = "equipment_record \<times> customer \<times> user option \<times> user option"

definition row_from_join :: "db \<Rightarrow> (uuid \<Rightarrow> datetime) \<Rightarrow> int \<Rightarrow> joined \<Rightarrow> operations_row" where
  "row_from_join s updated threshold j =
     (case j of (r, c, rep, app) \<Rightarrow>
        let n = days_in_status (clock s) (entered_at s r)
        in \<lparr>or_record = r, or_status_display = display_name (er_status r), or_days_in_status = n,
            or_customer_id = cus_id c, or_customer_name = cus_submitter_name c,
            or_business_name = cus_business_name c, or_state = cus_address_state c,
            or_sales_rep_name = map_option (\<lambda>u. operations_name (usr_first_name u) (usr_last_name u)) rep,
            or_appraiser_name = map_option (\<lambda>u. operations_name (usr_first_name u) (usr_last_name u)) app,
            or_is_overdue = (threshold \<le> n), or_updated_at = updated (er_id r)\<rparr>)"

subsection \<open>The query\<close>

record operations_filter =
  of_status :: "string option"
  of_assignee_id :: "uuid option"
  of_customer_id :: "uuid option"
  of_overdue_only :: bool

definition overdue_predicate :: "db \<Rightarrow> int \<Rightarrow> equipment_record \<Rightarrow> bool" where
  "overdue_predicate s threshold r \<longleftrightarrow> entered_at s r < clock s - days threshold"

definition operations_selected :: "db \<Rightarrow> operations_filter \<Rightarrow> int \<Rightarrow> equipment_record \<Rightarrow> bool" where
  "operations_selected s f threshold r \<longleftrightarrow>
     er_deleted_at r = None \<and> (str_truthy (of_status f) \<longrightarrow> Some (er_status r) = of_status f) \<and>
     (of_assignee_id f \<noteq> None \<longrightarrow>
        er_assigned_sales_rep_id r = of_assignee_id f \<or> er_assigned_appraiser_id r = of_assignee_id f) \<and>
     (of_customer_id f \<noteq> None \<longrightarrow> Some (er_customer_id r) = of_customer_id f) \<and>
     (of_overdue_only f \<longrightarrow> overdue_predicate s threshold r)"

definition join_record :: "db \<Rightarrow> equipment_record \<Rightarrow> joined list" where
  "join_record s r =
     map (\<lambda>c. (r, c, find (\<lambda>u. Some (usr_id u) = er_assigned_sales_rep_id r) (users s),
                find (\<lambda>u. Some (usr_id u) = er_assigned_appraiser_id r) (users s)))
       (filter (\<lambda>c. cus_id c = er_customer_id r) (customers s))"

definition build_base_query :: "db \<Rightarrow> operations_filter \<Rightarrow> int \<Rightarrow> joined list" where
  "build_base_query s f threshold =
     concat (map (join_record s) (filter (operations_selected s f threshold) (equipment_records s)))"

text \<open>\<^verbatim>\<open>ORDER BY key ASC\<close> with nulls last, \<^verbatim>\<open>DESC\<close> with nulls first.\<close>

definition ordered :: "bool \<Rightarrow> ('x \<Rightarrow> 'k::linorder) \<Rightarrow> 'x list \<Rightarrow> 'x list" where
  "ordered descending key xs = (if descending then rev (sort_key key (rev xs)) else sort_key key xs)"

definition nulls_last :: "int option \<Rightarrow> bool \<times> int" where
  "nulls_last x = (case x of None \<Rightarrow> (True, 0) | Some v \<Rightarrow> (False, v))"

definition apply_sort :: "string \<Rightarrow> bool \<Rightarrow> (uuid \<Rightarrow> datetime) \<Rightarrow> joined list \<Rightarrow> joined list" where
  "apply_sort srt descending updated =
     (if srt = ''submitted_at'' then ordered descending (\<lambda>(r, _). nulls_last (er_customer_submitted_at r))
      else if srt = ''status'' then ordered descending (\<lambda>(r, _). er_status r)
      else if srt = ''customer_name'' then ordered descending (\<lambda>(_, c, _). cus_submitter_name c)
      else ordered descending (\<lambda>(r, _). updated (er_id r)))"

definition resolve_overdue_threshold :: "int option \<Rightarrow> int op" where
  "resolve_overdue_threshold override =
     (case override of
        Some n \<Rightarrow> ret n
      | None \<Rightarrow>
          bind (get_typed (ks_name EQUIPMENT_RECORD_OVERDUE_THRESHOLD_DAYS)) (\<lambda>v.
          ret (case v of
              JInt i \<Rightarrow> (if 1 \<le> i then i else DEFAULT_OVERDUE_THRESHOLD_DAYS)
            | JBool b \<Rightarrow> (if b then 1 else DEFAULT_OVERDUE_THRESHOLD_DAYS)
            | _ \<Rightarrow> DEFAULT_OVERDUE_THRESHOLD_DAYS)))"

definition list_records ::
  "(uuid \<Rightarrow> datetime) \<Rightarrow> operations_filter \<Rightarrow> int option \<Rightarrow> string \<Rightarrow> bool \<Rightarrow> int \<Rightarrow> int \<Rightarrow>
   (operations_row list \<times> nat) op" where
  "list_records updated f override srt descending page per_page =
     (let page = max 1 page; per_page = max 1 (min 200 per_page)
      in bind (resolve_overdue_threshold override) (\<lambda>threshold.
         reads (\<lambda>s.
           let total = length (filter (operations_selected s f threshold) (equipment_records s));
               rows = map (row_from_join s updated threshold)
                 (take (nat per_page) (drop (nat ((page - 1) * per_page))
                   (apply_sort srt descending updated (build_base_query s f threshold))))
           in (if srt = ''days_in_status'' then ordered descending or_days_in_status rows else rows, total))))"

subsection \<open>The CSV file\<close>

text \<open>\<^verbatim>\<open>csv.writer\<close> with minimal quoting and lines that end with a line feed.\<close>

definition csv_field :: "string \<Rightarrow> string" where
  "csv_field x =
     (if \<exists>c \<in> set x. c = CHR '','' \<or> c = char_of (34::nat) \<or> c = newline \<or> c = char_of (13::nat)
      then [char_of (34::nat)] @ concat (map (\<lambda>c. if c = char_of (34::nat) then [c, c] else [c]) x) @ [char_of (34::nat)]
      else x)"

definition csv_line :: "string list \<Rightarrow> string" where
  "csv_line xs = join '','' (map csv_field xs) @ [newline]"

definition csv_header :: "string list" where
  "csv_header = [''reference_number'', ''status'', ''status_display'', ''days_in_status'', ''is_overdue'',
     ''customer_name'', ''business_name'', ''state'', ''make'', ''model'', ''year'', ''assigned_sales_rep'',
     ''assigned_appraiser'', ''submitted_at'', ''updated_at'']"

definition csv_cells :: "operations_row \<Rightarrow> string list" where
  "csv_cells r =
     (let x = or_record r
      in [str_or (er_reference_number x) '''', er_status x, or_status_display r, int_str (or_days_in_status r),
          (if or_is_overdue r then ''yes'' else ''no''), or_customer_name r, str_or (or_business_name r) '''',
          str_or (or_state r) '''', str_or (er_customer_make x) '''', str_or (er_customer_model x) '''',
          (case er_customer_year x of None \<Rightarrow> '''' | Some y \<Rightarrow> int_str y), str_or (or_sales_rep_name r) '''',
          str_or (or_appraiser_name r) '''',
          (case er_customer_submitted_at x of None \<Rightarrow> '''' | Some t \<Rightarrow> isoformat t), isoformat (or_updated_at r)])"

definition export_operations ::
  "(uuid \<Rightarrow> datetime) \<Rightarrow> operations_filter \<Rightarrow> int option \<Rightarrow> string \<Rightarrow> bool \<Rightarrow> string op" where
  "export_operations updated f override srt descending =
     bind (list_records updated f override srt descending 1 5000) (\<lambda>(rows, _).
     ret (csv_line csv_header @ concat (map (\<lambda>r. csv_line (csv_cells r)) rows)))"

subsection \<open>Routes of the dashboard\<close>

definition SORT_FIELDS :: "string list" where
  "SORT_FIELDS = [''updated_at'', ''submitted_at'', ''days_in_status'', ''customer_name'', ''status'']"

definition list_operations_route ::
  "env \<Rightarrow> string option \<Rightarrow> (uuid \<Rightarrow> datetime) \<Rightarrow> operations_filter \<Rightarrow> string \<Rightarrow> bool \<Rightarrow> int \<Rightarrow> int \<Rightarrow>
   (operations_row list \<times> nat) op" where
  "list_operations_route E cred updated f srt descending page per_page =
     guarded_route E [''admin''] cred (\<lambda>admin.
       seq (require (srt \<in> set SORT_FIELDS \<and> 1 \<le> page \<and> 1 \<le> per_page \<and> per_page \<le> 200)
              (http 422 ''validation error''))
         (list_records updated f None srt descending page per_page))"

definition export_operations_route ::
  "env \<Rightarrow> string option \<Rightarrow> (uuid \<Rightarrow> datetime) \<Rightarrow> operations_filter \<Rightarrow> string \<Rightarrow> bool \<Rightarrow> string op" where
  "export_operations_route E cred updated f srt descending =
     guarded_route E [''admin''] cred (\<lambda>admin.
       seq (require (srt \<in> set SORT_FIELDS) (http 422 ''validation error''))
         (export_operations updated f None srt descending))"

subsection \<open>Configuration\<close>

record config_item =
  ci_name :: string
  ci_category :: string
  ci_field_type :: string
  ci_default :: json
  ci_value :: json

definition config_item_of :: "key_spec \<Rightarrow> json \<Rightarrow> config_item" where
  "config_item_of spec v = \<lparr>ci_name = ks_name spec, ci_category = ks_category spec,
     ci_field_type = ks_field_type spec, ci_default = ks_default spec, ci_value = v\<rparr>"

definition list_config :: "env \<Rightarrow> string option \<Rightarrow> config_item list op" where
  "list_config E cred =
     guarded_route E [''admin''] cred (\<lambda>admin.
       map_each (sort_key (\<lambda>k. (ks_category k, ks_name k)) registry_keys)
         (\<lambda>spec. bind (get_typed (ks_name spec)) (\<lambda>v. ret (config_item_of spec v))))"

fun config_refusal :: "exn \<Rightarrow> exn" where
  "config_refusal (ValueError m) = http 422 m"
| "config_refusal e = e"

definition update_config :: "env \<Rightarrow> string option \<Rightarrow> string \<Rightarrow> json \<Rightarrow> config_item op" where
  "update_config E cred key v =
     guarded_route E [''admin''] cred (\<lambda>admin.
       case find (\<lambda>k. ks_name k = key) registry_keys of
         None \<Rightarrow> raise (http 404 (''Unknown config key: '' @ key))
       | Some spec \<Rightarrow>
           seq (map_exn config_refusal (set_typed key v))
             (bind (get_typed key) (\<lambda>v'. ret (config_item_of spec v'))))"

subsection \<open>Template overrides\<close>

record template_out =
  to_spec :: notification_template
  to_has_override :: bool
  to_override_subject :: "string option"
  to_override_body :: "string option"

definition build_template_out :: "notification_template \<Rightarrow> template_out op" where
  "build_template_out spec =
     bind (select_one template_overrides (\<lambda>r. ov_name r = tpl_name spec)) (\<lambda>found.
     ret \<lparr>to_spec = spec, to_has_override = (found \<noteq> None),
          to_override_subject = Option.bind found ov_subject_md, to_override_body = map_option ov_body_md found\<rparr>)"

definition list_templates :: "env \<Rightarrow> string option \<Rightarrow> template_out list op" where
  "list_templates E cred = guarded_route E [''admin''] cred (\<lambda>admin. map_each all_specs build_template_out)"

record override_request =
  ovr_subject_md :: "string option"
  ovr_body_md :: "string option"
  ovr_delete :: bool

definition blank :: "string option \<Rightarrow> bool" where
  "blank x \<longleftrightarrow> (case x of None \<Rightarrow> True | Some v \<Rightarrow> strip v = '''')"

definition put_override :: "notification_template \<Rightarrow> override_request \<Rightarrow> template_override option \<Rightarrow> unit op" where
  "put_override spec body existing =
     (let subject = (if tpl_channel spec = ''email'' then ovr_subject_md body else None);
          text = the (ovr_body_md body)
      in writes (\<lambda>s. s\<lparr>template_overrides :=
           (case existing of
              None \<Rightarrow> template_overrides s @ [\<lparr>ov_name = tpl_name spec, ov_subject_md = subject, ov_body_md = text\<rparr>]
            | Some r \<Rightarrow> update_where (\<lambda>x. ov_name x = tpl_name spec)
                (\<lambda>x. x\<lparr>ov_subject_md := subject, ov_body_md := text\<rparr>) (template_overrides s))\<rparr>))"

definition store_override :: "string \<Rightarrow> override_request \<Rightarrow> template_out op" where
  "store_override name body =
     (case map_of builtin_registry name of
        None \<Rightarrow> raise (http 404 (''Unknown template: '' @ name))
      | Some spec \<Rightarrow>
          bind (select_one template_overrides (\<lambda>r. ov_name r = name)) (\<lambda>existing.
          if ovr_delete body
          then seq (when_true (existing \<noteq> None)
                      (writes (\<lambda>s. s\<lparr>template_overrides := delete_where (\<lambda>r. ov_name r = name) (template_overrides s)\<rparr>)))
                 (build_template_out spec)
          else
            seq (require (\<not> blank (ovr_body_md body)) (http 422 ''body_md is required.''))
            (seq (require (tpl_channel spec = ''email'' \<longrightarrow> \<not> blank (ovr_subject_md body))
                    (http 422 ''subject_md is required for email templates.''))
            (seq (put_override spec body existing) (build_template_out spec)))))"

definition update_template_override ::
  "env \<Rightarrow> string option \<Rightarrow> string \<Rightarrow> override_request \<Rightarrow> template_out op" where
  "update_template_override E cred name body =
     guarded_route E [''admin''] cred (\<lambda>admin. store_override name body)"

end
