(* ===== verification/AdminFacts.thy ===== *)
theory AdminFacts
  imports AdminUsers AdminCustomers AdminOperations CalendarFacts
begin

section \<open>Facts about the administration\<close>

text \<open>
  What the deactivation of a user does to the records and the appointments, what the pages of the operations
  dashboard hold, and what the deletion of a customer reaches.
\<close>

subsection \<open>Updating the rows of a selection one by one\<close>

lemma update_where_row:
  assumes "distinct (map k rows)" "x \<in> set rows"
  shows "update_where (\<lambda>y. k y = k x) g rows = map (\<lambda>y. if y = x then g x else y) rows"
  unfolding update_where_def using assms by (auto simp: distinct_map dest: inj_onD)

definition changed_in :: "'r list \<Rightarrow> ('r \<Rightarrow> 'r) \<Rightarrow> 'r list \<Rightarrow> 'r list" where
  "changed_in xs f rows = map (\<lambda>y. if y \<in> set xs then f y else y) rows"

lemma changed_in_Cons:
  assumes "distinct (map k rows)" "set (x # xs) \<subseteq> set rows" "distinct (x # xs)" "\<And>y. k (f y) = k y"
  shows "changed_in xs f (map (\<lambda>y. if y = x then f x else y) rows) = changed_in (x # xs) f rows"
proof -
  have "f x \<notin> set xs"
  proof
    assume "f x \<in> set xs"
    then have "f x = x" using assms by (auto simp: distinct_map dest: inj_onD)
    with \<open>f x \<in> set xs\<close> assms(3) show False by simp
  qed
  then show ?thesis using assms(3) by (auto simp: changed_in_def)
qed

lemma map_each_changes:
  assumes step: "\<And>x s y t. f x s = (Inr y, t) \<Longrightarrow> y = k x \<and> tbl t = update_where (\<lambda>z. k z = k x) (upd x) (tbl s)"
    and upd: "\<And>x. upd x x = g x" "\<And>x. k (g x) = k x"
    and run: "map_each xs f s = (Inr ys, t)"
    and rows: "distinct (map k (tbl s))" "set xs \<subseteq> set (tbl s)" "distinct xs"
  shows "tbl t = changed_in xs g (tbl s) \<and> ys = map k xs"
  using run rows
proof (induction xs arbitrary: s ys)
  case Nil
  then show ?case by (simp add: changed_in_def)
next
  case (Cons x xs)
  from Cons.prems(1) obtain y v zs where first: "f x s = (Inr y, v)" and rest: "map_each xs f v = (Inr zs, t)"
    and ys: "ys = y # zs" by (auto simp: bind_return_iff)
  have v: "tbl v = map (\<lambda>z. if z = x then g x else z) (tbl s)"
    using step [OF first] update_where_row [of k "tbl s" x "upd x"] Cons.prems(2,3) upd(1) by simp
  have keys: "map k (tbl v) = map k (tbl s)" unfolding v by (auto simp: upd(2))
  have "tbl t = changed_in xs g (tbl v) \<and> zs = map k xs"
  proof (rule Cons.IH [OF rest])
    show "distinct (map k (tbl v))" using Cons.prems(2) by (simp only: keys)
    show "set xs \<subseteq> set (tbl v)" unfolding v using Cons.prems(3,4) by (force simp: image_iff)
    show "distinct xs" using Cons.prems(4) by simp
  qed
  moreover have "changed_in xs g (tbl v) = changed_in (x # xs) g (tbl s)"
    unfolding v by (rule changed_in_Cons [OF Cons.prems(2,3,4)]) (rule upd(2))
  ultimately show ?case using ys step [OF first] by simp
qed

lemma changed_in_filter: "changed_in (filter p rows) f rows = map (\<lambda>y. if p y then f y else y) rows"
  by (auto simp: changed_in_def)

subsection \<open>Deactivation\<close>

definition event_taken_over :: "uuid \<Rightarrow> calendar_event \<Rightarrow> calendar_event" where
  "event_taken_over joining e = e\<lparr>cal_appraiser_id := joining\<rparr>"

lemma reassign_record_returns:
  assumes "reassign_record E leaving joining actor rec s = (Inr x, t)"
  shows "x = er_id rec" "calendar_events t = calendar_events s" "users t = users s" "clock t = clock s"
    "equipment_records t = update_where (\<lambda>y. er_id y = er_id rec)
       (\<lambda>y. y\<lparr>er_assigned_sales_rep_id := er_assigned_sales_rep_id (taken_over (usr_id leaving) (usr_id joining) rec),
          er_assigned_appraiser_id := er_assigned_appraiser_id (taken_over (usr_id leaving) (usr_id joining) rec)\<rparr>)
       (equipment_records s)"
proof -
  obtain v a where run: "enqueue_assignment_notification E (taken_over (usr_id leaving) (usr_id joining) rec)
      (usr_id joining) ''admin_deactivation'' v = (Inr a, t)" and x: "x = er_id rec"
    and v: "calendar_events v = calendar_events s" "users v = users s" "clock v = clock s"
      "equipment_records v = update_where (\<lambda>y. er_id y = er_id rec)
       (\<lambda>y. y\<lparr>er_assigned_sales_rep_id := er_assigned_sales_rep_id (taken_over (usr_id leaving) (usr_id joining) rec),
          er_assigned_appraiser_id := er_assigned_appraiser_id (taken_over (usr_id leaving) (usr_id joining) rec)\<rparr>)
       (equipment_records s)"
    using assms by (auto simp: reassign_record_def Let_def seq_return_iff writes_run add_audit_run)
  have "business t = business v"
    by (rule confined_sameD [OF business_frame.confined_enqueue_assignment run])
  note eq = arg_cong [OF this]
  show "x = er_id rec" by (rule x)
  show "calendar_events t = calendar_events s" using eq [of calendar_events] v by (simp add: business_def)
  show "users t = users s" using eq [of users] v by (simp add: business_def)
  show "clock t = clock s" using eq [of clock] v by (simp add: business_def)
  show "equipment_records t = update_where (\<lambda>y. er_id y = er_id rec)
       (\<lambda>y. y\<lparr>er_assigned_sales_rep_id := er_assigned_sales_rep_id (taken_over (usr_id leaving) (usr_id joining) rec),
          er_assigned_appraiser_id := er_assigned_appraiser_id (taken_over (usr_id leaving) (usr_id joining) rec)\<rparr>)
       (equipment_records s)"
    using eq [of equipment_records] v by (simp add: business_def)
qed

lemma reassign_event_returns:
  assumes "reassign_event leaving joining actor ev s = (Inr x, t)"
  shows "x = cal_id ev" "equipment_records t = equipment_records s" "users t = users s" "clock t = clock s"
    "calendar_events t = update_where (\<lambda>y. cal_id y = cal_id ev) (event_taken_over (usr_id joining)) (calendar_events s)"
  using assms
  by (auto simp: reassign_event_def Let_def seq_return_iff writes_run add_audit_run mirror_appraiser_def
      event_taken_over_def [abs_def])

lemma map_each_keeps:
  assumes "\<And>x s y t. f x s = (Inr y, t) \<Longrightarrow> g t = g s" "map_each xs f s = (Inr ys, t)"
  shows "g t = g s"
  using assms(2) by (induction xs arbitrary: s ys) (auto simp: bind_return_iff dest!: assms(1))

lemma reassign_records_return:
  assumes "map_each (filter p (equipment_records s)) (reassign_record E leaving joining actor) s = (Inr ids, t)"
    and "distinct (map er_id (equipment_records s))"
  shows "equipment_records t = map (\<lambda>r. if p r then taken_over (usr_id leaving) (usr_id joining) r else r) (equipment_records s)"
    and "ids = map er_id (filter p (equipment_records s))"
    and "calendar_events t = calendar_events s" "users t = users s" "clock t = clock s"
proof -
  have rows: "set (filter p (equipment_records s)) \<subseteq> set (equipment_records s)"
    "distinct (filter p (equipment_records s))"
    using assms(2) by (auto simp: distinct_map)
  have "equipment_records t = changed_in (filter p (equipment_records s))
      (taken_over (usr_id leaving) (usr_id joining)) (equipment_records s) \<and>
    ids = map er_id (filter p (equipment_records s))"
    by (rule map_each_changes [where k = er_id and tbl = equipment_records and
        upd = "\<lambda>x y. y\<lparr>er_assigned_sales_rep_id := er_assigned_sales_rep_id (taken_over (usr_id leaving) (usr_id joining) x),
          er_assigned_appraiser_id := er_assigned_appraiser_id (taken_over (usr_id leaving) (usr_id joining) x)\<rparr>",
        OF _ _ _ assms(1,2) rows])
      (use reassign_record_returns(1,5) in blast, simp_all add: taken_over_def)
  then show "equipment_records t = map (\<lambda>r. if p r then taken_over (usr_id leaving) (usr_id joining) r else r) (equipment_records s)"
    and "ids = map er_id (filter p (equipment_records s))"
    by (simp_all add: changed_in_filter)
  show "calendar_events t = calendar_events s"
    by (rule map_each_keeps [OF _ assms(1), of calendar_events]) (rule reassign_record_returns(2))
  show "users t = users s" by (rule map_each_keeps [OF _ assms(1), of users]) (rule reassign_record_returns(3))
  show "clock t = clock s" by (rule map_each_keeps [OF _ assms(1), of clock]) (rule reassign_record_returns(4))
qed

lemma reassign_events_return:
  assumes "map_each (filter p (calendar_events s)) (reassign_event leaving joining actor) s = (Inr ids, t)"
    and "distinct (map cal_id (calendar_events s))"
  shows "calendar_events t = map (\<lambda>e. if p e then event_taken_over (usr_id joining) e else e) (calendar_events s)"
    and "ids = map cal_id (filter p (calendar_events s))"
    and "equipment_records t = equipment_records s" "users t = users s" "clock t = clock s"
proof -
  have rows: "set (filter p (calendar_events s)) \<subseteq> set (calendar_events s)"
    "distinct (filter p (calendar_events s))"
    using assms(2) by (auto simp: distinct_map)
  have "calendar_events t = changed_in (filter p (calendar_events s))
      (event_taken_over (usr_id joining)) (calendar_events s) \<and>
    ids = map cal_id (filter p (calendar_events s))"
    by (rule map_each_changes [where k = cal_id and tbl = calendar_events and
        upd = "\<lambda>_. event_taken_over (usr_id joining)", OF _ _ _ assms(1,2) rows])
      (use reassign_event_returns(1,5) in blast, simp_all add: event_taken_over_def)
  then show "calendar_events t = map (\<lambda>e. if p e then event_taken_over (usr_id joining) e else e) (calendar_events s)"
    and "ids = map cal_id (filter p (calendar_events s))"
    by (simp_all add: changed_in_filter)
  show "equipment_records t = equipment_records s"
    by (rule map_each_keeps [OF _ assms(1), of equipment_records]) (rule reassign_event_returns(2))
  show "users t = users s" by (rule map_each_keeps [OF _ assms(1), of users]) (rule reassign_event_returns(3))
  show "clock t = clock s" by (rule map_each_keeps [OF _ assms(1), of clock]) (rule reassign_event_returns(4))
qed

text \<open>What a row becomes when the open work of a user goes to the optional colleague.\<close>

definition record_handed :: "uuid \<Rightarrow> uuid option \<Rightarrow> equipment_record \<Rightarrow> equipment_record" where
  "record_handed i to r =
     (case to of Some j \<Rightarrow> (if is_open_record_of i r then taken_over i j r else r) | None \<Rightarrow> r)"

definition event_handed :: "uuid \<Rightarrow> uuid option \<Rightarrow> datetime \<Rightarrow> calendar_event \<Rightarrow> calendar_event" where
  "event_handed i to now_at e =
     (case to of Some j \<Rightarrow> (if is_future_event_of i now_at e then event_taken_over j e else e) | None \<Rightarrow> e)"

lemma resolve_reassignee_returns:
  assumes "resolve_reassignee j target s = (Inr u, t)"
  shows "t = s" "u \<in> set (users s)" "usr_id u = j" "usr_status u = ''active''" "usr_id u \<noteq> usr_id target"
  using assms
  by (auto simp: resolve_reassignee_def bind_return_iff seq_return_iff require_return_iff select_one_return_iff
      role_slugs_for_user_def filter_eq_Cons_iff split: option.splits)

lemma reassignee_returns:
  assumes "(case to of None \<Rightarrow> ret None | Some j \<Rightarrow> bind (resolve_reassignee j target) (\<lambda>u. ret (Some u))) s = (Inr re, v)"
  shows "v = s \<and> (case to of None \<Rightarrow> re = None
    | Some j \<Rightarrow> \<exists>u. re = Some u \<and> usr_id u = j \<and> u \<in> set (users s) \<and> usr_status u = ''active'' \<and> j \<noteq> usr_id target)"
  using assms by (auto simp: bind_return_iff dest: resolve_reassignee_returns split: option.splits)

lemma open_records_run:
  "open_records_assigned_to i s = (Inr (filter (is_open_record_of i) (equipment_records s)), s)"
  by (simp add: open_records_assigned_to_def)

lemma future_events_run:
  "future_events_for_appraiser i s = (Inr (filter (is_future_event_of i (clock s)) (calendar_events s)), s)"
  by (simp add: future_events_for_appraiser_def bind_run now_run)

lemma deactivate_user_steps:
  assumes "deactivate_user E i to actor s = (Inr d, t)"
  obtains target re ids v where "usr_id target = i" "i \<noteq> usr_id actor"
    and "to = None \<longrightarrow> filter (is_open_record_of i) (equipment_records s) = [] \<and>
       filter (is_future_event_of i (clock s)) (calendar_events s) = []"
    and "(case to of None \<Rightarrow> ret None | Some j \<Rightarrow> bind (resolve_reassignee j target) (\<lambda>u. ret (Some u))) s = (Inr re, s)"
    and "move_work E target actor re (filter (is_open_record_of i) (equipment_records s))
       (filter (is_future_event_of i (clock s)) (calendar_events s)) s = (Inr ids, v)"
    and "users t = update_where (\<lambda>u. usr_id u = i) (\<lambda>u. u\<lparr>usr_status := ''deactivated''\<rparr>) (users v)"
    and "clock t = clock v" "equipment_records t = equipment_records v" "calendar_events t = calendar_events v"
proof -
  obtain target where target: "filter (\<lambda>u. usr_id u = i) (users s) = [target]"
    using assms by (auto simp: deactivate_user_def bind_return_iff select_one_return_iff split: option.splits)
  then have "target \<in> set (filter (\<lambda>u. usr_id u = i) (users s))" by simp
  then have i: "usr_id target = i" by simp
  have sel: "select_one users (\<lambda>u. usr_id u = i) s = (Inr (Some target), s)"
    by (simp add: select_one_return_iff target)
  have own: "i \<noteq> usr_id actor"
    and none: "to = None \<longrightarrow> filter (is_open_record_of i) (equipment_records s) = [] \<and>
       filter (is_future_event_of i (clock s)) (calendar_events s) = []"
    using assms i
    by (auto simp: deactivate_user_def bind_run [of "select_one _ _"] sel seq_return_iff require_return_iff
        bind_run [of "open_records_assigned_to _"] open_records_run
        bind_run [of "future_events_for_appraiser _"] future_events_run)
  have "\<exists>re w ids v. (case to of None \<Rightarrow> ret None | Some j \<Rightarrow> bind (resolve_reassignee j target) (\<lambda>u. ret (Some u))) s = (Inr re, w) \<and>
      move_work E target actor re (filter (is_open_record_of i) (equipment_records s))
        (filter (is_future_event_of i (clock s)) (calendar_events s)) w = (Inr ids, v) \<and>
      users t = update_where (\<lambda>u. usr_id u = i) (\<lambda>u. u\<lparr>usr_status := ''deactivated''\<rparr>) (users v) \<and>
      clock t = clock v \<and> equipment_records t = equipment_records v \<and> calendar_events t = calendar_events v"
    using assms i
    unfolding deactivate_user_def bind_run [of "select_one _ _"] sel prod.case sum.case option.case
    by (auto simp: seq_return_iff require_return_iff bind_run [of "open_records_assigned_to _"] open_records_run
      bind_run [of "future_events_for_appraiser _"] future_events_run
      bind_return_iff [of "move_work _ _ _ _ _ _"] bind_return_iff [of "case to of None \<Rightarrow> _ | Some j \<Rightarrow> _ j"]
      add_audit_run)
  then obtain re w ids v where re: "(case to of None \<Rightarrow> ret None | Some j \<Rightarrow> bind (resolve_reassignee j target) (\<lambda>u. ret (Some u))) s = (Inr re, w)"
    and move: "move_work E target actor re (filter (is_open_record_of i) (equipment_records s))
        (filter (is_future_event_of i (clock s)) (calendar_events s)) w = (Inr ids, v)"
    and last: "users t = update_where (\<lambda>u. usr_id u = i) (\<lambda>u. u\<lparr>usr_status := ''deactivated''\<rparr>) (users v)"
      "clock t = clock v" "equipment_records t = equipment_records v" "calendar_events t = calendar_events v"
    by blast
  have "w = s" using reassignee_returns [OF re] by simp
  with that [OF i own none] re move last show ?thesis by blast
qed

lemma move_work_returns:
  assumes "move_work E target actor re (filter p (equipment_records s)) (filter q (calendar_events s)) s = (Inr ids, v)"
    and "distinct (map er_id (equipment_records s))" "distinct (map cal_id (calendar_events s))"
  shows "equipment_records v = (case re of None \<Rightarrow> equipment_records s | Some u \<Rightarrow>
      map (\<lambda>r. if p r then taken_over (usr_id target) (usr_id u) r else r) (equipment_records s))"
    and "calendar_events v = (case re of None \<Rightarrow> calendar_events s | Some u \<Rightarrow>
      map (\<lambda>e. if q e then event_taken_over (usr_id u) e else e) (calendar_events s))"
    and "users v = users s" "clock v = clock s"
proof -
  have "equipment_records v = (case re of None \<Rightarrow> equipment_records s | Some u \<Rightarrow>
      map (\<lambda>r. if p r then taken_over (usr_id target) (usr_id u) r else r) (equipment_records s)) \<and>
    calendar_events v = (case re of None \<Rightarrow> calendar_events s | Some u \<Rightarrow>
      map (\<lambda>e. if q e then event_taken_over (usr_id u) e else e) (calendar_events s)) \<and>
    users v = users s \<and> clock v = clock s"
  proof (cases re)
    case None
    then show ?thesis using assms(1) by (simp add: move_work_def)
  next
    case (Some u)
    then obtain w rids eids where recs: "map_each (filter p (equipment_records s)) (reassign_record E target u actor) s = (Inr rids, w)"
      and evs: "map_each (filter q (calendar_events s)) (reassign_event target u actor) w = (Inr eids, v)"
      using assms(1) by (auto simp: move_work_def bind_return_iff)
    note r = reassign_records_return [OF recs assms(2)]
    have "map_each (filter q (calendar_events w)) (reassign_event target u actor) w = (Inr eids, v)"
      using evs by (simp only: r(3))
    note e = reassign_events_return [OF this, unfolded r(3), OF assms(3)]
    show ?thesis using r e by (simp add: Some)
  qed
  then show "equipment_records v = (case re of None \<Rightarrow> equipment_records s | Some u \<Rightarrow>
      map (\<lambda>r. if p r then taken_over (usr_id target) (usr_id u) r else r) (equipment_records s))"
    and "calendar_events v = (case re of None \<Rightarrow> calendar_events s | Some u \<Rightarrow>
      map (\<lambda>e. if q e then event_taken_over (usr_id u) e else e) (calendar_events s))"
    and "users v = users s" "clock v = clock s" by simp_all
qed

lemma deactivate_user_returns:
  assumes "distinct (map er_id (equipment_records s))" "distinct (map cal_id (calendar_events s))"
    and "deactivate_user E i to actor s = (Inr d, t)"
  shows "pred_option (\<lambda>j. j \<noteq> i \<and> (\<exists>u \<in> set (users s). usr_id u = j \<and> usr_status u = ''active'')) to"
    and "equipment_records t = map (record_handed i to) (equipment_records s)"
    and "calendar_events t = map (event_handed i to (clock s)) (calendar_events s)"
    and "users t = update_where (\<lambda>u. usr_id u = i) (\<lambda>u. u\<lparr>usr_status := ''deactivated''\<rparr>) (users s)"
    and "clock t = clock s" "i \<noteq> usr_id actor"
    and "to = None \<Longrightarrow> filter (is_open_record_of i) (equipment_records s) = [] \<and>
       filter (is_future_event_of i (clock s)) (calendar_events s) = []"
proof -
  obtain target re ids v where i: "usr_id target = i" and own: "i \<noteq> usr_id actor"
    and none: "to = None \<longrightarrow> filter (is_open_record_of i) (equipment_records s) = [] \<and>
       filter (is_future_event_of i (clock s)) (calendar_events s) = []"
    and re: "(case to of None \<Rightarrow> ret None | Some j \<Rightarrow> bind (resolve_reassignee j target) (\<lambda>u. ret (Some u))) s = (Inr re, s)"
    and move: "move_work E target actor re (filter (is_open_record_of i) (equipment_records s))
       (filter (is_future_event_of i (clock s)) (calendar_events s)) s = (Inr ids, v)"
    and t: "users t = update_where (\<lambda>u. usr_id u = i) (\<lambda>u. u\<lparr>usr_status := ''deactivated''\<rparr>) (users v)"
      "clock t = clock v" "equipment_records t = equipment_records v" "calendar_events t = calendar_events v"
    by (rule deactivate_user_steps [OF assms(3)])
  note m = move_work_returns [OF move assms(1,2)] and u = reassignee_returns [OF re, THEN conjunct2]
  show "pred_option (\<lambda>j. j \<noteq> i \<and> (\<exists>u \<in> set (users s). usr_id u = j \<and> usr_status u = ''active'')) to"
    using u i by (cases to) auto
  show "equipment_records t = map (record_handed i to) (equipment_records s)"
    using u i by (cases to) (auto simp: t m record_handed_def [abs_def])
  show "calendar_events t = map (event_handed i to (clock s)) (calendar_events s)"
    using u i by (cases to) (auto simp: t m event_handed_def [abs_def])
  show "users t = update_where (\<lambda>u. usr_id u = i) (\<lambda>u. u\<lparr>usr_status := ''deactivated''\<rparr>) (users s)"
    "clock t = clock s" "i \<noteq> usr_id actor" by (simp_all add: t m own)
  show "to = None \<Longrightarrow> filter (is_open_record_of i) (equipment_records s) = [] \<and>
       filter (is_future_event_of i (clock s)) (calendar_events s) = []" by (rule none [THEN mp])
qed

lemma record_handed_closed:
  assumes "pred_option (\<lambda>j. j \<noteq> i) to" "to = None \<Longrightarrow> \<not> is_open_record_of i r"
  shows "\<not> is_open_record_of i (record_handed i to r)"
  using assms by (cases to) (auto simp: record_handed_def is_open_record_of_def taken_over_def split: if_splits)

lemma event_handed_closed:
  assumes "pred_option (\<lambda>j. j \<noteq> i) to" "to = None \<Longrightarrow> \<not> is_future_event_of i c e"
  shows "\<not> is_future_event_of i c (event_handed i to c e)"
  using assms by (cases to) (auto simp: event_handed_def is_future_event_of_def event_taken_over_def split: if_splits)

subsection \<open>The operations dashboard\<close>

lemma resolve_threshold_return:
  "resolve_overdue_threshold ov s = (Inr n, t) \<Longrightarrow> t = s"
  by (auto simp: resolve_overdue_threshold_def bind_return_iff dest: get_typed_pure split: option.splits)

lemma set_ordered [simp]: "set (ordered descending k xs) = set xs"
  by (simp add: ordered_def)

lemma set_apply_sort [simp]: "set (apply_sort srt descending updated xs) = set xs"
  by (simp add: apply_sort_def)

lemma length_ordered [simp]: "length (ordered descending k xs) = length xs"
  by (simp add: ordered_def)

lemma length_apply_sort [simp]: "length (apply_sort srt descending updated xs) = length xs"
  by (simp add: apply_sort_def)

text \<open>A record that the filter of the late records selects is also shown as late.\<close>

lemma overdue_selected_is_shown:
  assumes "overdue_predicate s n r"
  shows "n \<le> days_in_status (clock s) (entered_at s r)"
proof -
  have "n * days 1 \<le> clock s - entered_at s r"
    using assms by (simp add: overdue_predicate_def days_def seconds_def)
  then have "n * days 1 div days 1 \<le> (clock s - entered_at s r) div days 1"
    by (rule zdiv_mono1) (simp add: days_def seconds_def)
  then show ?thesis by (simp add: days_in_status_def days_def seconds_def)
qed

lemma base_query_rows:
  assumes "j \<in> set (build_base_query s f n)"
  obtains r c rep app where "j = (r, c, rep, app)" "r \<in> set (equipment_records s)" "operations_selected s f n r"
    "c \<in> set (customers s)" "cus_id c = er_customer_id r"
    "rep = find (\<lambda>u. Some (usr_id u) = er_assigned_sales_rep_id r) (users s)"
    "app = find (\<lambda>u. Some (usr_id u) = er_assigned_appraiser_id r) (users s)"
  using assms that by (auto simp: build_base_query_def join_record_def)

lemma list_records_returns:
  assumes "list_records updated f ov srt descending page per_page s = (Inr (rows, found_count), t)"
  obtains n js where "t = s" "resolve_overdue_threshold ov s = (Inr n, s)"
    "found_count = length (filter (operations_selected s f n) (equipment_records s))"
    "js = take (nat (max 1 (min 200 per_page))) (drop (nat ((max 1 page - 1) * max 1 (min 200 per_page)))
       (apply_sort srt descending updated (build_base_query s f n)))"
    "rows = (if srt = ''days_in_status'' then ordered descending or_days_in_status (map (row_from_join s updated n) js)
       else map (row_from_join s updated n) js)"
  using assms resolve_threshold_return [of ov s]
  by (fastforce simp: list_records_def Let_def bind_return_iff)

lemma list_records_row:
  assumes "list_records updated f ov srt descending page per_page s = (Inr (rows, found_count), t)" "row \<in> set rows"
  obtains n r c rep app where "resolve_overdue_threshold ov s = (Inr n, s)"
    "(r, c, rep, app) \<in> set (build_base_query s f n)" "row = row_from_join s updated n (r, c, rep, app)"
proof -
  obtain n js where n: "resolve_overdue_threshold ov s = (Inr n, s)"
    and js: "js = take (nat (max 1 (min 200 per_page))) (drop (nat ((max 1 page - 1) * max 1 (min 200 per_page)))
       (apply_sort srt descending updated (build_base_query s f n)))"
    and rows: "rows = (if srt = ''days_in_status'' then ordered descending or_days_in_status (map (row_from_join s updated n) js)
       else map (row_from_join s updated n) js)"
    by (rule list_records_returns [OF assms(1)])
  then obtain j where j: "j \<in> set js" "row = row_from_join s updated n j"
    using assms(2) by (auto split: if_splits)
  then have "j \<in> set (build_base_query s f n)"
    unfolding js using set_take_subset set_drop_subset set_apply_sort by fastforce
  moreover obtain r c rep app where "j = (r, c, rep, app)" by (cases j) auto
  ultimately show ?thesis using that [of n r c rep app] n j(2) by simp
qed

lemma list_records_length:
  assumes "list_records updated f ov srt descending page per_page s = (Inr (rows, found_count), t)"
  shows "length rows \<le> 200"
proof -
  obtain n js where "js = take (nat (max 1 (min 200 per_page))) (drop (nat ((max 1 page - 1) * max 1 (min 200 per_page)))
       (apply_sort srt descending updated (build_base_query s f n)))"
    and "rows = (if srt = ''days_in_status'' then ordered descending or_days_in_status (map (row_from_join s updated n) js)
       else map (row_from_join s updated n) js)"
    by (rule list_records_returns [OF assms])
  then show ?thesis by (simp add: min_le_iff_disj nat_le_iff)
qed

subsection \<open>Deleting a customer\<close>

lemma load_customer_return_iff:
  "load_customer i s = (Inr c, t) \<longleftrightarrow> t = s \<and> filter (\<lambda>c. cus_id c = i) (customers s) = [c]"
  by (auto simp: load_customer_def bind_return_iff select_one_return_iff split: option.splits)

lemma soft_delete_returns:
  assumes "filter (\<lambda>c. cus_id c = i) (customers s) = [c]" "cus_deleted_at c = None"
    and "soft_delete_customer i actor s = (Inr x, t)"
  shows "customers t = update_where (\<lambda>x. cus_id x = i) (\<lambda>x. x\<lparr>cus_deleted_at := Some (clock s)\<rparr>) (customers s)"
    and "equipment_records t = update_where (\<lambda>r. er_customer_id r = i \<and> er_deleted_at r = None)
       (\<lambda>r. r\<lparr>er_deleted_at := Some (clock s)\<rparr>) (equipment_records s)"
    and "x = serialize_customer True t (c\<lparr>cus_deleted_at := Some (clock s)\<rparr>)"
    and "public_listings t = public_listings s" "users t = users s" "clock t = clock s"
proof -
  have "c \<in> set (filter (\<lambda>c. cus_id c = i) (customers s))" by (simp add: assms(1))
  then have i: "cus_id c = i" by simp
  show "customers t = update_where (\<lambda>x. cus_id x = i) (\<lambda>x. x\<lparr>cus_deleted_at := Some (clock s)\<rparr>) (customers s)"
    and "equipment_records t = update_where (\<lambda>r. er_customer_id r = i \<and> er_deleted_at r = None)
       (\<lambda>r. r\<lparr>er_deleted_at := Some (clock s)\<rparr>) (equipment_records s)"
    and "x = serialize_customer True t (c\<lparr>cus_deleted_at := Some (clock s)\<rparr>)"
    and "public_listings t = public_listings s" "users t = users s" "clock t = clock s"
    using assms(2,3) i
    by (auto simp: soft_delete_customer_def bind_return_iff seq_return_iff load_customer_return_iff assms(1)
        now_run customer_audit_def add_audit_run)
qed

lemma soft_delete_again:
  assumes "filter (\<lambda>c. cus_id c = i) (customers s) = [c]" "cus_deleted_at c \<noteq> None"
  shows "soft_delete_customer i actor s = (Inr (serialize_customer True s c), s)"
proof -
  have "load_customer i s = (Inr c, s)" using assms(1) by (simp add: load_customer_return_iff)
  then show ?thesis using assms(2) by (simp add: soft_delete_customer_def bind_run)
qed

subsection \<open>Every customer can be reached\<close>

definition contactable :: "db \<Rightarrow> bool" where
  "contactable s \<longleftrightarrow> (\<forall>c \<in> set (customers s). user_or_invite c)"

lemma user_or_invite_deleted [simp]: "user_or_invite (c\<lparr>cus_deleted_at := x\<rparr>) = user_or_invite c"
  by (simp add: user_or_invite_def)

lemma contactable_create:
  "contactable s \<Longrightarrow> create_walkin E p actor s = (Inr x, t) \<Longrightarrow> contactable t"
  by (auto simp: create_walkin_def bind_return_iff seq_return_iff require_return_iff Let_def contactable_def user_or_invite_def
      new_walkin_def uuid4_run now_run fresh_key_return_iff customer_audit_def add_audit_run get_customer_def
      load_customer_return_iff)

lemma patched_contact:
  "cus_user_id (patched_customer p c) = cus_user_id c"
  "cus_invite_email (patched_customer p c) = set_sent (cpt_invite_email p) (cus_invite_email c)"
  by (simp_all add: patched_customer_def)

lemma contactable_update:
  assumes "contactable s" "distinct (map cus_id (customers s))" "update_customer i p actor s = (Inr x, t)"
  shows "contactable t"
proof -
  obtain c where c: "filter (\<lambda>c. cus_id c = i) (customers s) = [c]" and ok: "user_or_invite (patched_customer p c)"
    and t: "customers t = update_where (\<lambda>x. cus_id x = cus_id c) (patched_customer p) (customers s)"
    using assms(3)
    by (auto simp: update_customer_def bind_return_iff seq_return_iff require_return_iff load_customer_return_iff
        customer_audit_def add_audit_run get_customer_def)
  have "c \<in> set (filter (\<lambda>c. cus_id c = i) (customers s))" by (simp add: c)
  then have "c \<in> set (customers s)" by simp
  then show ?thesis
    using assms(1) ok
    by (auto simp: contactable_def t update_where_row [OF assms(2) \<open>c \<in> set (customers s)\<close>])
qed

lemma contactable_delete:
  assumes "contactable s" "soft_delete_customer i actor s = (Inr x, t)"
  shows "contactable t"
proof -
  obtain c where c: "filter (\<lambda>c. cus_id c = i) (customers s) = [c]"
    using assms(2) by (auto simp: soft_delete_customer_def bind_return_iff load_customer_return_iff)
  show ?thesis
  proof (cases "cus_deleted_at c")
    case None
    show ?thesis using assms(1) soft_delete_returns(1) [OF c None assms(2)]
      by (auto simp: contactable_def update_where_def)
  next
    case (Some d)
    then show ?thesis using soft_delete_again [OF c, of actor] assms by simp
  qed
qed

end
