(* ===== verification/Spec2Isabelle.thy ===== *)
theory Spec2Isabelle
  imports Demo Scoring RedFlags IntakeFacts ExchangeFacts AccountFacts CalendarFacts Sales AdminFacts
begin

text \<open>
A verification library for the backend of the consignment platform (Python, FastAPI with
  SQLAlchemy, under \<open>src/api\<close>). Customers hand in heavy equipment; an appraiser scores it, a
  manager approves a price, the customer signs a consignment contract and sales lists and sells
  the machine. Every step writes a PostgreSQL database through an ORM session and queues
  notices that a separate worker process (\<open>src/scripts/notification_worker.py\<close>) delivers.

  The model. The database is the record \<open>db\<close> of the theory Models, one list of rows per table, in
  order of insertion, rows being records with the columns the modelled code reads or writes.
  A handler is a function from the database to a result and a database (the type \<open>op\<close> of the theory
  PyStd): \<open>Inl\<close> an exception, \<open>Inr\<close> a value. The state survives an exception, as it does for a Python session; a request runs under
  \<open>get_db\<close>, which restores the state before the request on any exception, as the dependency of that
  name in \<open>database/base.py\<close> rolls back. An ORM row is a value; assigning to its attributes becomes
  an update of the table at the row's id. The clock is a field of the database that no
  operation changes, so all calls of \<open>datetime.now\<close> within one operation agree. Ids are 128-bit words,
  times are integers counting microseconds, Python integers are \<open>int\<close>, JSON is the datatype \<open>json\<close>.
  Everything that is not under src (hashing, token and cipher libraries, the template engine,
  the HTML sanitizer, e-mail, SMS, chat and push providers, the map provider, the environment settings) is a
  field of the record \<open>env\<close>; no theorem depends on how they compute unless it says so.

  The theories.
  \<^item> Prelude: the result and state monad with its laws, and the locales of step relations and
    state predicates through which one proof per operation gives an invariant or a frame.
  \<^item> PyStd: the parts of the Python standard library the code uses (truthiness, dict access,
    slices, time stamps, UUID text, numeric rendering).
  \<^item> Models: \<open>database/models.py\<close> and \<open>database/base.py\<close>: rows, the database, select, get, insert, \<open>get_db\<close>.
  \<^item> StatusMachine, StatusService: \<open>equipment_status_machine.py\<close> and \<open>equipment_status_service.py\<close>:
    statuses, their registry, the denylist, and \<open>record_transition\<close> with its four notices.
  \<^item> Templates: \<open>notification_templates.py\<close>: the built-in templates, overrides, rendering.
  \<^item> Notifications: \<open>notification_service.py\<close>, the dispatchers, the worker and \<open>credentials_vault.py\<close>:
    the job queue, claiming, dispatching, backoff.
  \<^item> Recipients: notification preferences, push tokens, watchers.
  \<^item> AppConfig: \<open>app_config_registry.py\<close>: every configuration key with its validator.
  \<^item> Roles: \<open>user_roles_service.py\<close>, \<open>middleware/auth.py\<close>, \<open>middleware/rbac.py\<close>.
  \<^item> RecordLocks: \<open>record_lock_service.py\<close>, \<open>lock_registry.py\<close>, \<open>routers/record_locks.py\<close>.
  \<^item> Scoring, RedFlags: the appraisal score and its bands, the red-flag rules.
  \<^item> Workflow: what the handlers that move a record share: their frame conditions, the
    queued jobs as a function of the key.
  \<^item> Sanitization, Esign, Approval, ChangeRequests: the services and routes of the same names,
    with the price re-approval of \<open>price_change_service.py\<close> between the last two.
  \<^item> Sales: \<open>sales_service.py\<close>, \<open>routers/sales.py\<close> and the writing half of \<open>listing_service.py\<close>: the
    dashboard, the record detail, assignment, the cascade over a customer, publishing.
  \<^item> Maps: \<open>google_maps_service.py\<close>: geocoding and driving times behind their caches.
  \<^item> LeadRouting: \<open>lead_routing_service.py\<close>, \<open>schemas/routing.py\<close>, \<open>routers/admin_routing.py\<close>: the
    waterfall that assigns a new record and the administration of its rules.
  \<^item> RoutingFacts: turns of the round robin, the priority slots, the refinement of the waterfall.
  \<^item> Mails, RateLimit: the texts of \<open>email_service.py\<close>; \<open>middleware/rate_limit.py\<close>.
  \<^item> Accounts, AccountRoutes: \<open>session_service.py\<close>, \<open>legal_service.py\<close>, \<open>auth_service.py\<close>,
    \<open>account_deletion_service.py\<close>, and the routers \<open>auth.py\<close>, \<open>account.py\<close> and \<open>legal.py\<close>.
  \<^item> AccountFacts: windows and counters, failed logins, the life of refresh tokens and recovery codes,
    the uniqueness of addresses over every order of account requests.
  \<^item> Calendar, CalendarFacts: \<open>calendar_service.py\<close>, \<open>appraiser_appointments_service.py\<close> and their
    routers: the appointments of appraisers; the schedule no request to the calendar can make overlap.
  \<^item> Submissions: \<open>appraisal_submission_service.py\<close>, its router and schema: drafts, their updates with
    answers and scores, the snapshot of a submission and its checks, the submission itself.
  \<^item> SubmissionFacts: the steps of the submission routes, what they keep (one draft per record and
    appraiser, the types of the rows), when a submission goes through, the range of a stored score.
  \<^item> Photos, PhotoFacts: \<open>photo_upload_service.py\<close>, \<open>appraisal_photo_service.py\<close> and their routes: the form
    of a storage key, who may use it, the replacement of the photo of a slot.
  \<^item> Intake, IntakeFacts: \<open>equipment_service.py\<close>, \<open>customer_service.py\<close>, \<open>intake_visibility_service.py\<close> and
    their routes: the profile of a customer, the form, the new record with its routing and notices.
  \<^item> Categories, CategoryExchange: \<open>admin_category_service.py\<close>, \<open>category_versioning_service.py\<close> and
    \<open>routers/admin_categories.py\<close>: the category tree, its versions, its export and import.
  \<^item> CategoryFacts: the locale of a table whose rows are versions (content never changes, ids are not
    reused, a replaced row stays replaced), interpreted on prompts and on rules, along every sequence
    of administration requests; what an edit of a category leaves. ExchangeFacts: decimal text read
    back, an export imported again.
  \<^item> AdminUsers, AdminCustomers, AdminOperations: \<open>admin_user_service.py\<close>, \<open>admin_customer_service.py\<close>,
    \<open>admin_operations_service.py\<close> and the routers \<open>admin.py\<close>, \<open>admin_config.py\<close> and \<open>admin_templates.py\<close>: the
    deactivation of a user, the override of a status, customers and walk-ins, the dashboard with its
    export, configuration and template overrides.
  \<^item> AdminFacts: the rows a deactivation hands over, the rows of a page of the dashboard, the cascade of a
    customer's deletion, the address every customer keeps.
  \<^item> Demo: a concrete environment and database for the theorems at concrete inputs.

  The theorems. Each theory proves what its operations do on every branch: when they return,
  what state they leave, which tables they cannot touch. The statements that span theories
  are at the end of this file, each with its number: the denylist and the refinement of a
  transition to its specification, the exclusion the record locks give, the life of a notification
  job against a small state machine, the invariants of the tables (one contract per record, one pending
  request per record, one draft per record, no overlapping appointment, immutable versions), the hand-over of work, the authorization of routes, and several
  places where the code does not do what its documentation says.

  Bounds. No operation of the code loops without a bound, so no fuel is used: loops over rows are
  structural recursions, retries are bounded by the \<open>max_attempts\<close> column. Columns of type Integer are
  not truncated to 32 bits; PostgreSQL refuses larger values, which is outside the model. Strings are
  byte strings (UTF-8), so lengths and slices count bytes. Decimal prices are kept as given, and JSON
  numbers are rationals. A new row takes the id the environment draws; where a primary key or a unique
  index could be hit, the insertion raises IntegrityError in the model as it does in the database.

  Not modelled: logging, tracing and metrics; the wire formats of the providers; the time of the last change
  of a row, which triggers of the database keep (the dashboard takes it as an argument), and the column of who changed a setting last; concurrency
  inside one database transaction (row locks taken with \<open>FOR UPDATE\<close> make the modelled operations
  atomic, and operations of several users interleave as sequences of operations); the schema
  migrations and seeds; stored credentials of integrations with their tests, health probes, valuation, the
  public catalogue and inquiries, reports, data exports, analytics and the iOS configuration, which read or copy tables modelled here.
\<close>

section \<open>Concrete inputs for the witnesses\<close>

lemmas allowed_simps = allowed_def forbidden_iff is_known_iff_value all_status_values_def
  all_status_def

lemma demo_allowed:
  "allowed (er_status (demo_record 2 ''appraiser_assigned'')) ''appraisal_complete''"
  by (simp add: allowed_simps demo_record_def)

lemma demo_ready: "notify_ready demo_env demo_db"
  by (simp add: notify_ready_def renders_def recipients_ok_def overrides_ok_def demo_simps)

lemma demo_ready_review: "notify_ready demo_env demo_review"
  using demo_ready
  by (simp add: notify_ready_def recipients_ok_def overrides_ok_def demo_review_def)

text \<open>In a queue that only grew and has no key twice, the jobs under a taken key are the same.\<close>

lemma keyed_jobs_stable:
  assumes "jobs_grow s t" "keys_unique t" "has_key k s"
  shows "filter (\<lambda>j. job_idempotency_key j = k) (notification_jobs t) =
    filter (\<lambda>j. job_idempotency_key j = k) (notification_jobs s)"
proof -
  obtain js where js: "notification_jobs t = notification_jobs s @ js"
    using assms(1) by (auto simp: jobs_grow_def)
  have "filter (\<lambda>j. job_idempotency_key j = k) js = []"
    using assms(2,3) by (force simp: js keys_unique_def has_key_def filter_empty_conv)
  then show ?thesis by (simp add: js)
qed

lemma claim_returns: "\<exists>js t. claim_next_batch limit s = (Inr js, t)"
  by (simp add: claim_run Let_def)

text \<open>A draft of category 60, whose one rule asks for a manager when the serial number is missing.\<close>

definition demo_flag_rule :: red_flag_rule where
  "demo_flag_rule = \<lparr>rf_id = 61, rf_category_id = 60, rf_label = ''serial'', rf_condition_field = ''serial_number'',
     rf_condition_operator = ''is_false'', rf_condition_value = None,
     rf_actions = [(''set_management_review_required'', JBool True)], rf_active = True, rf_version = 1,
     rf_replaced_at = None\<rparr>"

definition demo_slot :: photo_slot where
  "demo_slot = \<lparr>slot_id = 62, slot_category_id = 60, slot_label = ''front'', slot_helper_text = None,
     slot_required = True, slot_display_order = 0, slot_active = True\<rparr>"

definition demo_photo :: appraisal_photo where
  "demo_photo = \<lparr>aph_id = 63, aph_submission_id = 20, aph_slot_label = ''front'', aph_gcs_path = ''p'',
     aph_capture_timestamp = None, aph_gps_latitude = None, aph_gps_longitude = None, aph_gps_missing = True,
     aph_gps_out_of_range = False, aph_file_size_bytes = None, aph_sha256 = None, aph_content_type = None,
     aph_gps_timestamp = None, aph_created_at = 0, aph_deleted_at = None\<rparr>"

definition demo_manager_role :: role where
  "demo_manager_role = \<lparr>role_id = 8, role_slug = ''sales_manager'', role_display_name = ''Manager''\<rparr>"

definition demo_draft :: appraisal_submission where
  "demo_draft = (demo_submission 20 2 ''draft'')\<lparr>sub_category_id := Some 60\<rparr>"

definition demo_drafts :: db where
  "demo_drafts = demo_db\<lparr>appraisal_submissions := [demo_draft], red_flag_rules := [demo_flag_rule],
     photo_slots := [demo_slot], appraisal_photos := [demo_photo], roles := [demo_role, demo_manager_role],
     users := [demo_user 1 9, (demo_user 3 8)\<lparr>usr_email := ''m@b.c''\<rparr>]\<rparr>"

definition demo_sent :: appraisal_submission where
  "demo_sent = (snapshot demo_drafts 60 demo_draft)\<lparr>sub_management_review_required := True,
     sub_status := ''submitted'', sub_submitted_at := Some (clock demo_drafts)\<rparr>"

lemmas drafts_simps = demo_drafts_def demo_db_def empty_db_def demo_draft_def demo_submission_def

lemma demo_ready_drafts: "notify_ready demo_env demo_drafts"
  using demo_ready
  by (simp add: notify_ready_def recipients_ok_def overrides_ok_def demo_drafts_def demo_db_def empty_db_def
      demo_user_def)

lemma demo_labels:
  "required_labels demo_drafts 60 = [''front'']" "captured_labels demo_drafts 20 = [''front'']"
  by (simp_all add: required_labels_def captured_labels_def drafts_simps demo_slot_def demo_photo_def)

lemma demo_flags:
  "evaluate_red_flags demo_env (snapshot demo_drafts 60 demo_draft) demo_drafts =
     (Inr \<lparr>rfr_management_review_required = True, rfr_hold_for_title_review = False,
       rfr_marketability_rating = JNull, rfr_review_notes = JNull, rfr_triggered_rules = [uuid_str 61]\<rparr>, demo_drafts)"
  by (simp add: evaluate_red_flags_def run_simps snapshot_def drafts_simps demo_flag_rule_def to_rule_spec_def
      evaluate_rules_def condition_matches_def extract_fields_def apply_actions_def obj_get_def jopt_def)

lemma demo_flagged:
  "flagged \<lparr>rfr_management_review_required = True, rfr_hold_for_title_review = False,
       rfr_marketability_rating = JNull, rfr_review_notes = JNull, rfr_triggered_rules = [uuid_str 61]\<rparr>
     (clock demo_drafts) (snapshot demo_drafts 60 demo_draft) s = (Inr demo_sent, s)"
  by (simp add: flagged_def text_or_kept_def run_simps demo_sent_def snapshot_def drafts_simps)

lemma demo_draft_found:
  "filter (\<lambda>x. sub_id x = 20 \<and> sub_deleted_at x = None) (appraisal_submissions demo_drafts) = [demo_draft]"
  "find (\<lambda>r. er_id r = sub_equipment_record_id demo_draft) (equipment_records demo_drafts) =
     Some (demo_record 2 ''appraiser_assigned'')"
  "distinct (map sub_id (appraisal_submissions demo_drafts))" "may_edit demo_drafts (demo_user 1 9) demo_draft"
  by (simp_all add: drafts_simps demo_record_def may_edit_def demo_user_def)

lemma demo_submits:
  "\<exists>t. submit demo_env 20 (demo_user 1 9) demo_drafts = (Inr demo_sent, t)"
  by (rule submit_succeeds [OF demo_draft_found(1,4) _ _ demo_flags demo_flagged demo_draft_found(2)
      demo_allowed demo_ready_drafts demo_draft_found(3)])
    (simp_all add: snapshot_and_validate_return missing_labels_empty red_flag_summary_def run_simps,
     simp_all add: missing_labels_empty demo_draft_def demo_submission_def demo_sent_def snapshot_def demo_labels)

definition demo_patch :: submission_patch where
  "demo_patch = \<lparr>sp_category_id = None, sp_make = Some ''Deere'', sp_model = None, sp_year = Some 1999,
     sp_hours_condition = None, sp_running_status = None, sp_serial_number = None, sp_title_status = None,
     sp_field_values = None, sp_component_scores = None, sp_marketability_rating = None, sp_transport_notes = None,
     sp_listing_notes = None, sp_comparable_sales_data = None, sp_red_flags = None\<rparr>"





text \<open>A form without photos.\<close>

definition demo_form :: intake_submission where
  "demo_form = \<lparr>int_category_id = None, int_make = Some ''Volvo'', int_model = None, int_year = Some 1999,
     int_serial_number = None, int_hours = None, int_running_status = None, int_ownership_type = None,
     int_location_text = None, int_description = None, int_photos = []\<rparr>"

lemma spec_found:
  "find (\<lambda>k. ks_name k = ks_name DEFAULT_SALES_REP_ID) registry_keys = Some DEFAULT_SALES_REP_ID"
  "find (\<lambda>k. ks_name k = ks_name INTAKE_FIELDS_VISIBLE) registry_keys = Some INTAKE_FIELDS_VISIBLE"
  "find (\<lambda>k. ks_name k = ks_name INTAKE_FIELDS_ORDER) registry_keys = Some INTAKE_FIELDS_ORDER"
  by (simp_all add: registry_keys_def key_spec_def TOS_CURRENT_VERSION_def PRIVACY_CURRENT_VERSION_def
      DRIVE_TIME_FALLBACK_MINUTES_def DEFAULT_SALES_REP_ID_def NOTIFICATION_PREFERENCES_HIDDEN_ROLES_def
      INTAKE_FIELDS_VISIBLE_def INTAKE_FIELDS_ORDER_def)

lemma demo_intake:
  "\<exists>r t. submit_intake demo_env (demo_user 1 9) demo_form demo_db = (Inr r, t)"
proof -
  have "find (\<lambda>k. ks_name k = ks_name DEFAULT_SALES_REP_ID) registry_keys = Some DEFAULT_SALES_REP_ID"
    by (rule spec_found)
  then have rep: "read_default_sales_rep demo_env s = (Inr None, s)" if "app_configs s = []" for s
    using that by (simp add: read_default_sales_rep_def get_typed_def run_simps DEFAULT_SALES_REP_ID_def key_spec_def)
  have m: "MAX_REF_ATTEMPTS = Suc 9" by (simp add: MAX_REF_ATTEMPTS_def)
  have u: "random_uuid demo_env n = word_of_nat (n + 1000)" for n by (simp add: demo_env_def)
  have "reserve_attempts demo_env (Suc n) s =
      (Inr (''THE-'' @ random_text demo_env (draws s) REF_ALPHABET REF_LENGTH), s\<lparr>draws := Suc (draws s)\<rparr>)"
    if "equipment_records s = [demo_record 2 ''appraiser_assigned'']" for s n
    using that by (simp add: generate_reference_number_def run_simps demo_record_def)
  then have ref: "reserve_reference_number demo_env s =
      (Inr (''THE-'' @ random_text demo_env (draws s) REF_ALPHABET REF_LENGTH), s\<lparr>draws := Suc (draws s)\<rparr>)"
    if "equipment_records s = [demo_record 2 ''appraiser_assigned'']" for s
    using that unfolding reserve_reference_number_def m by blast
  have f: "er_id (demo_record 2 st) = 2" for st by (simp add: demo_record_def)
  have route: "route_for_record demo_env c em s = (Inr \<lparr>dec_assigned_user_id = None, dec_rule_id = None,
      dec_rule_type = None, dec_trigger = ''unassigned''\<rparr>, s)"
    if "routing_rules s = []" "app_configs s = []" for c em s
    using that rep [of s] by (simp add: route_for_record_def bind_run load_active_rules_run active_rules_def ad_hoc_rule_def
        bucket_def fallback_decision_def)
  show ?thesis
    by (simp add: submit_intake_def validate_category_def ensure_profile_for_user_def run_simps Let_def demo_form_def
        demo_db_def empty_db_def new_profile_def ref u f route route_and_assign_def enqueue_confirmation_def
        new_record_fields)
qed

text \<open>Category 60 with one weighted component, its rule and its slot.\<close>

definition demo_category :: category where
  "demo_category = \<lparr>cat_id = 60, cat_name = ''dozers'', cat_slug = ''dozers'', cat_status = ''active'',
     cat_display_order = 0, cat_created_by = None, cat_deleted_at = None, cat_version = 1, cat_replaced_at = None\<rparr>"

definition demo_catalog :: db where
  "demo_catalog = demo_drafts\<lparr>categories := [demo_category],
     category_components := [\<lparr>cc_id = 70, cc_category_id = 60, cc_name = ''engine'', cc_weight_pct = Dec 2550 2,
       cc_display_order = 0, cc_active = True\<rparr>]\<rparr>"

lemmas catalog_simps = demo_catalog_def demo_category_def drafts_simps demo_flag_rule_def demo_slot_def

lemma demo_renamed:
  "\<exists>d t. update_category demo_env 60 (unset_category\<lparr>cp_name := Some (Some ''loaders'')\<rparr>) (demo_user 1 9) demo_catalog =
     (Inr d, t)"
proof -
  have ne: "unset_category\<lparr>cp_name := Some (Some ''loaders'')\<rparr> \<noteq> unset_category" by (simp add: unset_category_def)
  have u: "random_uuid demo_env n = word_of_nat (n + 1000)" for n by (simp add: demo_env_def)
  show ?thesis
    by (simp add: update_category_def load_category_def ne run_simps catalog_simps unset_category_def slug_clash_def
        supersede_category_def insert_category_def sent_value_def new_or_def Let_def u update_where_def
        is_current_slug_def category_audit_def add_audit_run get_category_def fresh_key_def)
qed

lemma demo_exchangeable: "exchangeable demo_catalog demo_category"
  by (simp add: exchangeable_def catalog_simps components_of_def prompts_of_def rules_of_def is_current_slug_def dec_val_def)

text \<open>
  Three sales users: the second and the third have an appointment at the same time, the second also an
  open record; the first is the administrator of the examples.
\<close>

definition demo_visit :: "uuid \<Rightarrow> uuid \<Rightarrow> calendar_event" where
  "demo_visit i appraiser = new_event i 2 appraiser 2000000 60 None"

definition demo_mate :: "uuid \<Rightarrow> string \<Rightarrow> user" where
  "demo_mate i email = (demo_user i 9)\<lparr>usr_email := email\<rparr>"

lemma demo_mate_simps [simp]: "usr_id (demo_mate i m) = i" "usr_status (demo_mate i m) = ''active''"
  "usr_id (demo_user i r) = i"
  by (simp_all add: demo_mate_def demo_user_def)

definition demo_team :: db where
  "demo_team = demo_db\<lparr>users := [demo_user 1 9, demo_mate 3 ''c@b.c'', demo_mate 4 ''d@b.c''],
     user_roles := [demo_grant 1 9, demo_grant 3 9, demo_grant 4 9],
     equipment_records := [(demo_record 2 ''appraiser_assigned'')\<lparr>er_assigned_appraiser_id := Some 3\<rparr>],
     calendar_events := [demo_visit 70 3, demo_visit 71 4]\<rparr>"

lemma demo_deactivation:
  "\<exists>d t. deactivate_user demo_env 3 (Some 4) (demo_user 1 9) demo_team = (Inr d, t)"
proof -
  have target: "select_one users (\<lambda>u. usr_id u = 3) demo_team = (Inr (Some (demo_mate 3 ''c@b.c'')), demo_team)"
    by (simp add: select_one_return_iff demo_team_def demo_mate_def demo_simps)
  have resolved: "resolve_reassignee 4 (demo_mate 3 ''c@b.c'') demo_team = (Inr (demo_mate 4 ''d@b.c''), demo_team)"
    by (auto simp: resolve_reassignee_def run_simps role_slugs_for_user_def holds_role_def is_grant_def
        WORK_ROLES_def demo_team_def demo_mate_def demo_simps image_iff)
  have "open_records_assigned_to 3 demo_team = (Inr (equipment_records demo_team), demo_team)"
    "future_events_for_appraiser 3 demo_team = (Inr [demo_visit 70 3], demo_team)"
    by (simp_all add: open_records_run future_events_run is_open_record_of_def is_future_event_of_def
        OPEN_STATUSES_EXCLUDED_def demo_team_def demo_visit_def new_event_def demo_simps)
  moreover have "\<exists>v. move_work demo_env (demo_mate 3 ''c@b.c'') (demo_user 1 9) (Some (demo_mate 4 ''d@b.c''))
      (equipment_records demo_team) [demo_visit 70 3] demo_team = (Inr ([2], [70]), v)"
    by (simp add: move_work_def reassign_record_def reassign_event_def mirror_appraiser_def run_simps Let_def
        enqueue_assignment_notification_def enqueue_run tokens_for_user_def taken_over_def has_key_def CHANNELS_def
        demo_team_def demo_visit_def new_event_def demo_mate_def demo_simps)
  ultimately show ?thesis
    using target resolved
    by (auto simp: deactivate_user_def bind_run seq_run require_run add_audit_run)
qed











text \<open>
  C6. The versions that a submitted appraisal points to stay what they were: along every sequence of calls of the
  administration routes the row of an id is unique, its content is unchanged except for being active,
  and a replaced row stays replaced.
\<close>

theorem versions_are_immutable:
  assumes "(category_step E)\<^sup>*\<^sup>* s t"
    and "distinct (map ipr_id (inspection_prompts s))" "distinct (map rf_id (red_flag_rules s))"
  shows "(\<forall>p \<in> set (inspection_prompts s). \<exists>q. filter (\<lambda>x. ipr_id x = ipr_id p) (inspection_prompts t) = [q] \<and>
      prompt_content q = prompt_content p \<and> (ipr_replaced_at p \<noteq> None \<longrightarrow> ipr_replaced_at q \<noteq> None)) \<and>
    (\<forall>r \<in> set (red_flag_rules s). \<exists>q. filter (\<lambda>x. rf_id x = rf_id r) (red_flag_rules t) = [q] \<and>
      rule_content q = rule_content r \<and> (rf_replaced_at r \<noteq> None \<longrightarrow> rf_replaced_at q \<noteq> None))"
  using category_steps_history [OF assms(1)] prompts.row_stays [OF _ assms(2)] rules.row_stays [OF _ assms(3)]
  unfolding history_def by blast

theorem versions_are_immutable_witness:
  "\<exists>q. filter (\<lambda>x. rf_id x = 61) (red_flag_rules (snd (update_category_route demo_env (Some ''tok-1'') 60
       (unset_category\<lparr>cp_name := Some (Some ''Loaders'')\<rparr>) demo_drafts))) = [q] \<and> rule_content q = rule_content demo_flag_rule"
proof -
  have d: "distinct (map ipr_id (inspection_prompts demo_drafts))" "distinct (map rf_id (red_flag_rules demo_drafts))"
    "demo_flag_rule \<in> set (red_flag_rules demo_drafts)" "rf_id demo_flag_rule = 61"
    by (simp_all add: drafts_simps demo_flag_rule_def)
  show ?thesis
    using versions_are_immutable [OF r_into_rtranclp [where r = "category_step demo_env", OF category_step.intros(2)] d(1,2)]
      d(3,4) by metis
qed

text \<open>
  C7. With unique locks and a new id that is not in the table, \<open>acquire\<close> returns if and only if
  no other user has an unexpired lock on the record. When it does, the caller has the lock until
  900 seconds from now; when it does not, nothing changed. Either way the uniqueness holds and
  the other records' locks are as they were.
\<close>

theorem acquire_exactly_when_free:
  assumes "locks_ok s" "\<forall>l \<in> set (record_locks s). lock_id l \<noteq> random_uuid E (draws s)"
    and "acquire E rid ty u s = (r, t)"
  shows "locks_ok t \<and> others rid ty t = others rid ty s \<and>
    (if \<forall>v e. locked_until ty s rid v e \<and> clock s < e \<longrightarrow> v = u
     then (\<exists>i. r = Inr i) \<and> locked_until ty t rid u (clock s + seconds 900)
     else (\<exists>e. r = Inl e) \<and> t = s)"
proof -
  have free: "(\<exists>i. r = Inr i) \<longleftrightarrow> (\<forall>v e. locked_until ty s rid v e \<and> clock s < e \<longrightarrow> v = u)"
    using acquire_available [OF assms(1), of ty rid u E] acquire_busy [OF assms(1), of ty rid _ _ u E]
      assms(2,3) by force
  have yes: "(\<exists>i. r = Inr i) \<Longrightarrow> locked_until ty t rid u (clock s + seconds 900)"
    using acquire_holds [OF assms(1), of E rid ty u] assms(3)
    by (auto simp: new_expiry_def LOCK_TTL_SECONDS_def)
  have no: "(\<exists>e. r = Inl e) \<Longrightarrow> t = s"
    using free acquire_busy [OF assms(1), of ty rid _ _ u E] assms(3) by fastforce
  moreover have "locks_ok t \<and> others rid ty t = others rid ty s"
    using acquire_keeps [OF assms(1,3)] by simp
  ultimately show ?thesis using yes free by (cases r) auto
qed

theorem acquire_exactly_when_free_witness:
  "\<exists>i t. acquire demo_env 2 ''equipment_record'' 1 demo_db = (Inr i, t) \<and>
     locked_until ''equipment_record'' t 2 1 (clock demo_db + seconds 900)"
proof -
  obtain r t where a: "acquire demo_env 2 ''equipment_record'' 1 demo_db = (r, t)" by fastforce
  have ok: "locks_ok demo_db" "\<forall>l \<in> set (record_locks demo_db). lock_id l \<noteq> random_uuid demo_env (draws demo_db)"
    and free: "\<forall>v e. \<not> locked_until ''equipment_record'' demo_db 2 v e"
    by (simp_all add: locks_ok_def locked_until_def demo_simps)
  then show ?thesis using acquire_exactly_when_free [OF ok a] a by auto
qed

text \<open>
  C8. A refresh token works once. When it is exchanged, it belonged to exactly one session that was
  neither revoked nor expired, of a user who is active; the token handed out instead is live and
  belongs to that user; and any later presentation of the old token, at the same or a later time, is
  refused without a trace.
\<close>

theorem refresh_token_is_used_once:
  assumes "refresh_access_token E raw ip ua s = (Inr (a, new), t)" and "0 < cfg_refresh_token_days E"
  shows "(\<exists>x u y. filter (live_session E raw (clock s)) (user_sessions s) = [x] \<and>
      filter (\<lambda>z. usr_id z = ses_user_id x) (users t) = [u] \<and> usr_status u = ''active'' \<and>
      y \<in> set (user_sessions t) \<and> live_session E new (clock t) y \<and> ses_user_id y = usr_id u) \<and>
    (\<forall>ip ua d. 0 \<le> d \<longrightarrow> refresh_access_token E raw ip ua (t\<lparr>clock := clock t + d\<rparr>) =
      (Inl (http 401 ''Refresh token is invalid or expired.''), t\<lparr>clock := clock t + d\<rparr>))"
proof
  obtain uid u where v: "validate_and_rotate E raw ip ua s = (Inr (Some (uid, new)), t)"
    and u: "filter (\<lambda>x. usr_id x = uid) (users s) = [u]" "usr_status u = ''active''"
    by (rule refresh_returns [OF assms(1)])
  obtain x y where r: "filter (live_session E raw (clock s)) (user_sessions s) = [x]" "ses_user_id x = uid"
    "user_sessions t = update_where (\<lambda>z. ses_id z = ses_id x) (\<lambda>z. z\<lparr>ses_revoked_at := Some (clock s)\<rparr>)
       (user_sessions s) @ [y]"
    "ses_token_hash y = hash_token E new" "ses_revoked_at y = None" "ses_user_id y = uid"
    "ses_expires_at y = clock s + days (cfg_refresh_token_days E)" "clock t = clock s" "users t = users s"
    by (rule rotate_returns [OF v])
  have "live_session E new (clock t) y"
    using r assms(2) by (simp add: live_session_def days_def minutes_def seconds_def)
  then show "\<exists>x u y. filter (live_session E raw (clock s)) (user_sessions s) = [x] \<and>
      filter (\<lambda>z. usr_id z = ses_user_id x) (users t) = [u] \<and> usr_status u = ''active'' \<and>
      y \<in> set (user_sessions t) \<and> live_session E new (clock t) y \<and> ses_user_id y = usr_id u"
    using r u filter_single [OF u(1)] by (intro exI [of _ x] exI [of _ u] exI [of _ y]) simp
  have dead: "filter (live_session E raw (clock t)) (user_sessions t) = []" by (rule rotated_token_is_dead [OF v])
  show "\<forall>ip ua d. 0 \<le> d \<longrightarrow> refresh_access_token E raw ip ua (t\<lparr>clock := clock t + d\<rparr>) =
      (Inl (http 401 ''Refresh token is invalid or expired.''), t\<lparr>clock := clock t + d\<rparr>)"
  proof (intro allI impI)
    fix ip ua and d :: int assume "0 \<le> d"
    with dead have "filter (live_session E raw (clock (t\<lparr>clock := clock t + d\<rparr>))) (user_sessions (t\<lparr>clock := clock t + d\<rparr>)) = []"
      by (auto simp: filter_empty_conv live_session_def)
    then show "refresh_access_token E raw ip ua (t\<lparr>clock := clock t + d\<rparr>) =
        (Inl (http 401 ''Refresh token is invalid or expired.''), t\<lparr>clock := clock t + d\<rparr>)"
      by (rule dead_token_refused)
  qed
qed

definition demo_session :: user_session where
  "demo_session = \<lparr>ses_id = 70, ses_user_id = 1, ses_token_hash = ''old'', ses_expires_at = 2000000,
     ses_revoked_at = None, ses_ip_address = None, ses_user_agent = None\<rparr>"

theorem refresh_token_is_used_once_witness:
  "\<exists>a new t. refresh_access_token demo_env ''old'' None None (demo_db\<lparr>user_sessions := [demo_session]\<rparr>) = (Inr (a, new), t) \<and>
     fst (refresh_access_token demo_env ''old'' None None t) = Inl (http 401 ''Refresh token is invalid or expired.'')"
proof -
  let ?s = "demo_db\<lparr>user_sessions := [demo_session]\<rparr>"
  have "nat_str 0 \<noteq> ''old''" by (simp add: nat_str.simps)
  then obtain a new t where r: "refresh_access_token demo_env ''old'' None None ?s = (Inr (a, new), t)"
    by (simp add: refresh_access_token_def validate_and_rotate_def revoke_session_def issue_refresh_token_def
        find_user_def get_role_slug_def create_access_token_def create_signed_token_def run_simps hash_token_def
        demo_session_def demo_simps update_where_def)
  have "0 < cfg_refresh_token_days demo_env" by (simp add: demo_env_def)
  from refresh_token_is_used_once [OF r this]
  have "refresh_access_token demo_env ''old'' None None (t\<lparr>clock := clock t + 0\<rparr>) =
      (Inl (http 401 ''Refresh token is invalid or expired.''), t\<lparr>clock := clock t + 0\<rparr>)" by blast
  with r show ?thesis by (intro exI [of _ a] exI [of _ new] exI [of _ t]) simp
qed

text \<open>
  C9. Whatever the provider does, processing a claimed job returns, and the table then has, in
  the place of that row only, a successor of it in the abstract life of a job.
\<close>

theorem processing_refines_job_life:
  assumes "j \<in> set (notification_jobs s)" "distinct (map job_id (notification_jobs s))"
    and "job_status j = ''processing''" "job_ok j"
  shows "\<exists>j' t. job_step j j' \<and> job_ok j' \<and> process_job E j s = (Inr (job_status j'), t) \<and>
    notification_jobs t = map (\<lambda>x. if x = j then j' else x) (notification_jobs s)"
proof -
  have "0 \<le> job_attempts j" using assms(4) by (simp add: job_ok_def)
  from process_job_refines [OF assms(1-3) this] obtain j' t where
    "job_step j j'" "process_job E j s = (Inr (job_status j'), t)"
    "notification_jobs t = map (\<lambda>x. if x = j then j' else x) (notification_jobs s)" by blast
  then show ?thesis using job_step_ok [OF _ assms(4)] by blast
qed

theorem processing_refines_job_life_witness:
  "let j = (new_job 7 ''k'' None ''email'' ''t'' [] 0)\<lparr>job_status := ''processing''\<rparr>
   in \<exists>st t. process_job demo_env j (demo_db\<lparr>notification_jobs := [j]\<rparr>) = (Inr st, t)"
proof -
  let ?j = "(new_job 7 ''k'' None ''email'' ''t'' [] 0)\<lparr>job_status := ''processing''\<rparr>"
  let ?s = "demo_db\<lparr>notification_jobs := [?j]\<rparr>"
  have h: "?j \<in> set (notification_jobs ?s)" "distinct (map job_id (notification_jobs ?s))"
    "job_status ?j = ''processing''" by simp_all
  have ok: "job_ok ?j" by (simp add: new_job_def job_ok_def)
  show ?thesis using processing_refines_job_life [OF h ok, of demo_env] unfolding Let_def by blast
qed

text \<open>
  C10. When \<open>submit_intake\<close> returns, one record was added and nothing else changed in the table: its reference
  number and id are fresh, its status is \<open>new_request\<close>, it belongs to the caller's profile, it has one pending
  photo row per photo of the form, and its representative, if it has one, exists. So reference numbers
  stay distinct. The confirmation is queued.
\<close>

theorem intake_creates_its_record:
  assumes "submit_intake E user payload s = (Inr r, t)"
  shows "intake_created s user payload r t \<and> has_key (confirmation_key (er_id r)) t \<and>
    (distinct (map er_reference_number (equipment_records s)) \<longrightarrow>
     distinct (map er_reference_number (equipment_records t)))"
  using intake_creates [OF assms] by (auto simp: intake_created_def)

theorem intake_creates_its_record_witness:
  "\<exists>r t. submit_intake demo_env (demo_user 1 9) demo_form demo_db = (Inr r, t) \<and>
     equipment_records t = equipment_records demo_db @ [r] \<and> er_status r = ''new_request''"
  using demo_intake intake_creates_its_record [where payload = demo_form] unfolding intake_created_def by metis

text \<open>
  C11. In every state that requests of accounts reach, in any order, the users have distinct ids and
  distinct addresses, and each holds a grant of the role that is the primary one. A request that is
  refused changes nothing; a registration is assumed to draw an id that is new.
\<close>

theorem addresses_stay_unique:
  assumes "(account_step E)\<^sup>*\<^sup>* s t" "accounts_ok s"
  shows "distinct (map usr_id (users t)) \<and> distinct (map usr_email (users t)) \<and>
    (\<forall>u \<in> set (users t). holds_role t (usr_id u) (usr_role_id u))"
proof -
  from assms have "accounts_ok t" by (induction rule: rtranclp_induct) (auto intro: account_step_keeps)
  then show ?thesis by (simp add: accounts_ok_def roles_mirrored_def)
qed

theorem addresses_stay_unique_witness:
  "distinct (map usr_email (users (snd (get_db (recover_2fa demo_env ''x'' ''y'')
     (snd (get_db (request_deletion demo_env (demo_user 1 9)) demo_db))))))"
proof -
  have ok: "accounts_ok demo_db"
    by (simp add: accounts_ok_def roles_mirrored_def holds_role_def is_grant_def demo_simps)
  have "(account_step demo_env)\<^sup>*\<^sup>* demo_db (snd (get_db (recover_2fa demo_env ''x'' ''y'')
     (snd (get_db (request_deletion demo_env (demo_user 1 9)) demo_db))))"
    by (rule rtranclp.rtrancl_into_rtrancl [OF r_into_rtranclp]) (rule account_step.intros)+
  from addresses_stay_unique [OF this ok] show ?thesis by simp
qed

text \<open>
  C12. Along every sequence of calls of the submission and approval routes, whoever calls them, a record has at
  most one draft. While it has one, another attempt to create a draft fails and leaves the database as it was.
\<close>

theorem one_draft_per_record:
  assumes "(submission_step E)\<^sup>*\<^sup>* s t" "drafts_unique s"
  shows "drafts_unique t \<and> ((\<exists>x \<in> set (appraisal_submissions t). is_draft_of rid x) \<longrightarrow>
    (\<exists>e. create_draft_route E cred rid t = (Inl e, t)))"
proof
  show "drafts_unique t"
    using assms by (induction rule: rtranclp_induct) (auto intro: submission_step_keeps)
qed (use second_draft_refused in blast)

theorem one_draft_per_record_witness:
  "(\<exists>e. create_draft_route demo_env (Some ''tok-1'') 2 demo_drafts = (Inl e, demo_drafts)) \<and>
   drafts_unique (snd (create_draft_route demo_env None 2 demo_drafts))"
proof -
  have u: "drafts_unique demo_drafts" by (simp add: drafts_unique_def drafts_simps)
  have "\<exists>x \<in> set (appraisal_submissions demo_drafts). is_draft_of 2 x"
    by (simp add: drafts_simps is_draft_of_def)
  then show ?thesis
    using one_draft_per_record [where E = demo_env and rid = 2 and cred = "Some ''tok-1''", OF rtranclp.rtrancl_refl u]
      one_draft_per_record [OF r_into_rtranclp [where r = "submission_step demo_env"] u] submission_step.created by blast
qed

text \<open>
  C13. When only round-robin rules are active and \<open>rule\<close> is the one of lowest priority that has
  reps, routing one record per rep succeeds each time, assigns the reps of the pool in rotation
  starting at the stored counter, each position once, and changes no row but the counter of that
  rule, which grows by the number of records.
\<close>

theorem routing_takes_turns:
  assumes "distinct (map rule_id (routing_rules s))" "only_round_robin s" "turn_rule E s = Some rule"
    and "0 \<le> rule_round_robin_index rule" "length cs = length (round_robin_rep_ids E rule)"
  shows "\<exists>ds. map_each cs (\<lambda>(c, email). route_for_record E c email) s =
      (Inr ds, s\<lparr>routing_rules := update_where (\<lambda>r. rule_id r = rule_id rule)
         (\<lambda>r. r\<lparr>rule_round_robin_index := rule_round_robin_index r + int (length cs)\<rparr>) (routing_rules s)\<rparr>) \<and>
    map dec_assigned_user_id ds =
      map Some (rotate (nat (rule_round_robin_index rule)) (round_robin_rep_ids E rule)) \<and>
    (\<forall>d \<in> set ds. dec_rule_id d = Some (rule_id rule))"
proof -
  let ?reps = "round_robin_rep_ids E rule"
  have adv: "advance (length cs) = (\<lambda>r. r\<lparr>rule_round_robin_index := rule_round_robin_index r + int (length cs)\<rparr>)"
    by (simp add: fun_eq_iff advance_def)
  have "map dec_assigned_user_id (map (\<lambda>j. decided (next_rep ?reps rule j) rule ''round_robin'') [0..<length cs]) =
      map Some (map (next_rep ?reps rule) [0..<length ?reps])"
    by (simp add: decided_def assms(5))
  also have "\<dots> = map Some (rotate (nat (rule_round_robin_index rule)) ?reps)"
    by (simp only: one_round [OF assms(4)])
  finally show ?thesis
    unfolding routes_in_turn [OF assms(1-3)] adv by (auto simp: decided_def)
qed

definition demo_rule :: "uuid \<Rightarrow> string \<Rightarrow> int \<Rightarrow> (string \<times> json) list \<Rightarrow> uuid option \<Rightarrow> routing_rule" where
  "demo_rule i ty p c u = \<lparr>rule_id = i, rule_type = ty, rule_priority = p, rule_conditions = Some c,
     rule_assigned_user_id = u, rule_round_robin_index = 3, rule_is_active = True,
     rule_created_by = None, rule_deleted_at = None\<rparr>"

definition demo_pool :: routing_rule where
  "demo_pool = demo_rule 60 ''round_robin'' 0 [(''rep_ids'', JArr [JStr (uuid_str 1), JStr (uuid_str 7)])] None"

lemma demo_pool_reps: "round_robin_rep_ids E demo_pool = [1, 7]"
  by (simp add: demo_pool_def demo_rule_def round_robin_rep_ids_def conds_def obj_get_def List.map_filter_def)

theorem routing_takes_turns_witness:
  "\<exists>ds. fst (map_each [(demo_customer None, None), (demo_customer (Some 1), Some ''a@b.c'')]
       (\<lambda>(c, email). route_for_record demo_env c email) (demo_review\<lparr>routing_rules := [demo_pool]\<rparr>)) = Inr ds \<and>
     map dec_assigned_user_id ds = [Some 7, Some 1]"
proof -
  let ?s = "demo_review\<lparr>routing_rules := [demo_pool]\<rparr>"
  have d: "distinct (map rule_id (routing_rules ?s))" by simp
  have act: "active_rules ?s = [demo_pool]" by (simp add: active_rules_def demo_pool_def demo_rule_def)
  have o: "only_round_robin ?s" unfolding only_round_robin_def act by (simp add: demo_pool_def demo_rule_def)
  have "bucket ''round_robin'' [demo_pool] = [demo_pool]" by (simp add: bucket_def demo_pool_def demo_rule_def)
  then have t: "turn_rule demo_env ?s = Some demo_pool" by (simp add: turn_rule_def act demo_pool_reps)
  have i: "rule_round_robin_index demo_pool = 3" by (simp add: demo_pool_def demo_rule_def)
  then have nonneg: "0 \<le> rule_round_robin_index demo_pool" by simp
  have len: "length [(demo_customer None, None), (demo_customer (Some 1), Some ''a@b.c'')] =
      length (round_robin_rep_ids demo_env demo_pool)" by (simp add: demo_pool_reps)
  have r: "map Some (rotate (nat (rule_round_robin_index demo_pool)) (round_robin_rep_ids demo_env demo_pool)) =
      [Some 7, Some 1]" by (simp add: demo_pool_reps i eval_nat_numeral)
  obtain ds u where "map_each [(demo_customer None, None), (demo_customer (Some 1), Some ''a@b.c'')]
      (\<lambda>(c, email). route_for_record demo_env c email) ?s = (Inr ds, u)" "map dec_assigned_user_id ds = [Some 7, Some 1]"
    using routing_takes_turns [OF d o t nonneg len] unfolding r by (elim exE conjE) (rule that)
  then show ?thesis by (intro exI [of _ ds]) (simp only: fst_conv simp_thms)
qed

text \<open>
  C14. An appraiser is never in two places: from a calendar with unique ids, durations the schema
  accepts and no overlap, every sequence of requests to create, move or cancel an appointment leads
  to one where two appointments of the same appraiser that are not cancelled lie one after the other.
  The window of a day on either side that the conflict query reads is wide enough because no
  appointment is longer than eight hours.
\<close>

theorem no_double_booking:
  assumes "(calendar_step E)\<^sup>*\<^sup>* s t" "calendar_ok s"
    and "e \<in> set (calendar_events t)" "f \<in> set (calendar_events t)" "cal_id e \<noteq> cal_id f"
    and "cal_appraiser_id e = cal_appraiser_id f" "cal_cancelled_at e = None" "cal_cancelled_at f = None"
  shows "ends_at e \<le> cal_scheduled_at f \<or> ends_at f \<le> cal_scheduled_at e"
proof -
  from assms(1,2) have "calendar_ok t" by (induction rule: rtranclp_induct) (auto intro: calendar_step_keeps)
  with assms(3-5) have "\<not> clash e f" by (simp add: calendar_ok_def)
  with assms(6-8) show ?thesis by (auto simp: clash_def ranges_overlap_def)
qed

definition hours :: "int \<Rightarrow> int" where "hours n = minutes (n * 60)"

definition demo_event :: "uuid \<Rightarrow> datetime \<Rightarrow> calendar_event" where
  "demo_event i start = new_event i 2 3 start 60 None"

definition demo_calendar :: db where
  "demo_calendar = demo_db\<lparr>users := [demo_user 1 9, (demo_user 3 8)\<lparr>usr_email := ''app@b.c''\<rparr>],
     roles := [demo_role, \<lparr>role_id = 8, role_slug = ''appraiser'', role_display_name = ''Appraiser''\<rparr>],
     equipment_records := [demo_record 2 ''new_request'']\<rparr>"

theorem no_double_booking_witness:
  "let t = snd (create_event_route demo_env (Some ''tok-1'') 2 3 (hours 1) 60 None
       (demo_calendar\<lparr>calendar_events := [demo_event 90 0, demo_event 91 (hours 8)]\<rparr>))
   in \<forall>e \<in> set (calendar_events t). \<forall>f \<in> set (calendar_events t).
        cal_id e \<noteq> cal_id f \<and> cal_appraiser_id e = cal_appraiser_id f \<and> cal_cancelled_at e = None \<and>
        cal_cancelled_at f = None \<longrightarrow> ends_at e \<le> cal_scheduled_at f \<or> ends_at f \<le> cal_scheduled_at e"
proof -
  let ?s = "demo_calendar\<lparr>calendar_events := [demo_event 90 0, demo_event 91 (hours 8)]\<rparr>"
  have ok: "calendar_ok ?s"
    by (simp add: calendar_ok_def demo_event_def new_event_def duration_ok_def clash_def ranges_overlap_def
        ends_at_def hours_def minutes_def seconds_def)
  have "(calendar_step demo_env)\<^sup>*\<^sup>* ?s (snd (create_event_route demo_env (Some ''tok-1'') 2 3 (hours 1) 60 None ?s))"
    by (rule r_into_rtranclp) (rule calendar_step.created)
  from no_double_booking [OF this ok] show ?thesis unfolding Let_def by blast
qed

text \<open>
  C15. When the deactivation of a user returns, exactly the open records and the live future
  appointments of the user have gone to the colleague named in the request, who is another, active user;
  all other records and appointments are what they were, the user's status is deactivated, and nothing open
  is left with the user. Without a colleague in the request, it only returns if nothing was open.
\<close>

theorem deactivation_hands_over_open_work:
  assumes "distinct (map er_id (equipment_records s))" "distinct (map cal_id (calendar_events s))"
    and "deactivate_user E i to actor s = (Inr d, t)"
  shows "pred_option (\<lambda>j. j \<noteq> i \<and> (\<exists>u \<in> set (users s). usr_id u = j \<and> usr_status u = ''active'')) to \<and>
    equipment_records t = map (record_handed i to) (equipment_records s) \<and>
    calendar_events t = map (event_handed i to (clock s)) (calendar_events s) \<and>
    users t = update_where (\<lambda>u. usr_id u = i) (\<lambda>u. u\<lparr>usr_status := ''deactivated''\<rparr>) (users s) \<and>
    filter (is_open_record_of i) (equipment_records t) = [] \<and>
    filter (is_future_event_of i (clock t)) (calendar_events t) = []"
proof -
  note r = deactivate_user_returns [OF assms]
  have j: "pred_option (\<lambda>j. j \<noteq> i) to" using r(1) by (cases to) auto
  have "\<not> is_open_record_of i (record_handed i to x)" if "x \<in> set (equipment_records s)" for x
    using j by (rule record_handed_closed) (use r(7) that in \<open>auto simp: filter_empty_conv\<close>)
  moreover have "\<not> is_future_event_of i (clock s) (event_handed i to (clock s) e)"
    if "e \<in> set (calendar_events s)" for e
    using j by (rule event_handed_closed) (use r(7) that in \<open>auto simp: filter_empty_conv\<close>)
  ultimately show ?thesis
    using r(1,4) by (simp add: r(2,3,5) filter_empty_conv)
qed

theorem deactivation_hands_over_open_work_witness:
  "\<exists>d t. deactivate_user demo_env 3 (Some 4) (demo_user 1 9) demo_team = (Inr d, t) \<and>
     map er_assigned_appraiser_id (equipment_records t) = [Some 4] \<and>
     map cal_appraiser_id (calendar_events t) = [4, 4] \<and>
     filter (is_future_event_of 3 (clock t)) (calendar_events t) = []"
proof -
  obtain d t where run: "deactivate_user demo_env 3 (Some 4) (demo_user 1 9) demo_team = (Inr d, t)"
    using demo_deactivation by blast
  have keys: "distinct (map er_id (equipment_records demo_team))" "distinct (map cal_id (calendar_events demo_team))"
    by (simp_all add: demo_team_def demo_visit_def new_event_def)
  show ?thesis
    using deactivation_hands_over_open_work [OF keys run] run
    by (simp add: record_handed_def event_handed_def is_open_record_of_def is_future_event_of_def taken_over_def
        event_taken_over_def OPEN_STATUSES_EXCLUDED_def demo_team_def demo_visit_def new_event_def demo_simps)
qed

text \<open>
  C16. Encryption and decryption of a credential round trip across a rotation of the keys. The cipher
  is assumed to return the text under the key that encrypted it and nothing under another of the
  configured keys. What was encrypted under one configuration is read back under a later one exactly
  when the key that was first then is still listed, at whatever place.
\<close>

theorem credentials_survive_rotation:
  assumes "resolve_keys E = Inr old" "list_all (fernet_valid_key E) old"
    and "resolve_keys F = Inr keys" "list_all (fernet_valid_key F) keys" "plaintext \<noteq> ''''"
    and "\<And>k n. k \<in> set keys \<Longrightarrow>
      fernet_decrypt F k (fernet_encrypt E (hd old) n plaintext) = (if k = hd old then Some plaintext else None)"
  shows "\<exists>c t. vault_encrypt E plaintext s = (Inr c, t) \<and> t = s\<lparr>draws := Suc (draws s)\<rparr> \<and>
    (\<forall>u. vault_decrypt F c u = (if hd old \<in> set keys then Inr plaintext else Inl VaultDecryptError, u))"
proof -
  let ?c = "fernet_encrypt E (hd old) (draws s) plaintext"
  have "multi_decrypt F ks ?c = (if hd old \<in> set ks then Some plaintext else None)" if "set ks \<subseteq> set keys" for ks
    using that assms(6) by (induction ks) auto
  then have "vault_decrypt F ?c u = (if hd old \<in> set keys then Inr plaintext else Inl VaultDecryptError, u)" for u
    using assms(3,4) by (simp add: vault_decrypt_def build_keys_def run_simps)
  moreover have "vault_encrypt E plaintext s = (Inr ?c, s\<lparr>draws := Suc (draws s)\<rparr>)"
    using assms(1,2,5) by (simp add: vault_encrypt_def build_keys_def run_simps)
  ultimately show ?thesis by blast
qed

theorem credentials_survive_rotation_witness:
  "\<exists>c t. vault_encrypt demo_env ''secret'' demo_db = (Inr c, t) \<and>
     vault_decrypt (demo_env\<lparr>cfg_totp_encryption_key := ''k2,k1''\<rparr>) c t = (Inr ''secret'', t)"
proof -
  let ?F = "demo_env\<lparr>cfg_totp_encryption_key := ''k2,k1''\<rparr>"
  have old: "resolve_keys demo_env = Inr [''k1'']" "list_all (fernet_valid_key demo_env) [''k1'']"
    and new: "resolve_keys ?F = Inr [''k2'', ''k1'']" "list_all (fernet_valid_key ?F) [''k2'', ''k1'']"
    by (simp_all add: resolve_keys_def demo_env_def strip_def is_space_def)
  have "(''secret'' :: string) \<noteq> ''''" by simp
  moreover have "fernet_decrypt ?F k (fernet_encrypt demo_env (hd [''k1'']) n ''secret'') =
      (if k = hd [''k1''] then Some ''secret'' else None)" if "k \<in> set [''k2'', ''k1'']" for k n
    using that by (auto simp: demo_env_def)
  ultimately show ?thesis using credentials_survive_rotation [OF old new, of "''secret''" demo_db] by auto
qed

text \<open>
  C17. One contract per record, unsigned while it is sent, stamped when it is completed: kept by
  the dispatch of a contract and by both webhook events, also on their error paths.
\<close>

theorem contracts_stay_consistent:
  assumes "contracts_ok s"
    and "t \<in> {snd (dispatch_contract E rec s), snd (handle_envelope_completed E i s),
      snd (handle_envelope_declined E i s)}"
  shows "contracts_ok t"
  using assms contracts_ok_dispatch [of E rec] contracts_ok_completed [of E i]
    contracts_ok_declined [of E i]
  by (auto simp: confined_def preserves_def)

theorem contracts_stay_consistent_witness:
  "contracts_ok (snd (handle_envelope_declined demo_env (JStr ''env-1'')
     (demo_review\<lparr>consignment_contracts := [demo_contract ''completed'']\<rparr>)))"
proof -
  let ?s = "demo_review\<lparr>consignment_contracts := [demo_contract ''completed'']\<rparr>"
  have "contracts_ok ?s" by (simp add: contracts_ok_def contract_ok_def demo_contract_def)
  then show ?thesis
    using contracts_stay_consistent [where s = ?s and E = demo_env and i = "JStr ''env-1''"] by blast
qed



text \<open>
  C19. A category whose labels are distinct is exported, and the export imported into the same database
  supersedes nothing, adds nothing and reports so: the weights are read back from their text as the numbers
  they were, and only an audit row is written.
\<close>

theorem exported_category_imports_unchanged:
  assumes "exchangeable s c"
  shows "export_to_payload (cat_id c) s = (Inr (export_of s c), s) \<and>
    (\<exists>log. import_from_payload E (export_of s c) a s =
       (Inr \<lparr>ir_category_id = cat_id c, ir_created = False, ir_superseded_prompt_ids = [], ir_superseded_rule_ids = [],
          ir_added_component_ids = [], ir_added_prompt_ids = [], ir_added_attachment_ids = [],
          ir_added_photo_slot_ids = [], ir_added_rule_ids = []\<rparr>, s\<lparr>audit_logs := audit_logs s @ [log]\<rparr>))"
proof
  have "load_category (cat_id c) s = (Inr c, s)"
    unfolding load_category_return_iff using assms by (simp add: exchangeable_def)
  then show "export_to_payload (cat_id c) s = (Inr (export_of s c), s)"
    by (simp add: export_to_payload_def bind_run reads_run)
qed (use import_of_export [OF assms] in blast)

theorem exported_category_imports_unchanged_witness:
  "export_to_payload 60 demo_catalog = (Inr (export_of demo_catalog demo_category), demo_catalog) \<and>
     xp_components (export_of demo_catalog demo_category) \<noteq> []"
proof -
  have "cat_id demo_category = 60" by (simp add: demo_category_def)
  with exported_category_imports_unchanged [OF demo_exchangeable] show ?thesis
    by (simp add: export_of_def components_of_def catalog_simps)
qed



text \<open>
  C21. The lockout is computed and then lost. Five calls of \<open>login\<close> with a wrong password lock the
  account that starts without failures; but the route raises after each of them, the transaction of
  the request is rolled back, and any sequence of requests with wrong passwords leaves the database
  as it was: no failure is counted, nothing is locked, no attempt is audited, and the rate limiter
  counts none of them.
\<close>

theorem lockout_is_never_stored:
  assumes "account_row email u s" "\<not> is_locked (clock s) u" "usr_status u = ''active''"
    and "usr_failed_login_count u = 0" "length ps = 5" "\<forall>p \<in> set ps. \<not> password_ok E u p"
  shows "(\<exists>v. account_row email v (fold (\<lambda>p s. snd (login E email p ip ua s)) ps s) \<and>
      is_locked (clock (fold (\<lambda>p s. snd (login E email p ip ua s)) ps s)) v) \<and>
    (\<forall>qs. (\<forall>(rq, p) \<in> set qs. \<not> password_ok E u p) \<longrightarrow>
      fold (\<lambda>(rq, p) s. snd (login_route E rq email p s)) qs s = s)"
proof
  show "\<exists>v. account_row email v (fold (\<lambda>p s. snd (login E email p ip ua s)) ps s) \<and>
      is_locked (clock (fold (\<lambda>p s. snd (login E email p ip ua s)) ps s)) v"
    by (rule five_wrong_logins_lock [OF assms])
  have one: "snd (login_route E rq email p s) = s" if "\<not> password_ok E u p" for rq p
    using wrong_password_leaves_no_trace [OF assms(1) that] .
  show "\<forall>qs. (\<forall>(rq, p) \<in> set qs. \<not> password_ok E u p) \<longrightarrow>
      fold (\<lambda>(rq, p) s. snd (login_route E rq email p s)) qs s = s"
  proof (intro allI impI)
    fix qs :: "(request \<times> string) list" assume "\<forall>(rq, p) \<in> set qs. \<not> password_ok E u p"
    then show "fold (\<lambda>(rq, p) s. snd (login_route E rq email p s)) qs s = s"
      by (induction qs) (auto simp: one)
  qed
qed

definition demo_request :: request where
  "demo_request = \<lparr>rq_headers = [], rq_client_host = Some ''10.0.0.1'', rq_cookies = [], rq_base_url = ''web'',
     rq_json = Some (JObj [(''email'', JStr ''a@b.c'')])\<rparr>"

theorem lockout_is_never_stored_witness:
  "fold (\<lambda>(rq, p) s. snd (login_route demo_env rq ''a@b.c'' p s))
     (replicate 100 (demo_request, ''guess'')) demo_db = demo_db"
proof -
  have u: "account_row ''a@b.c'' (demo_user 1 9) demo_db" "\<not> is_locked (clock demo_db) (demo_user 1 9)"
    "usr_status (demo_user 1 9) = ''active''" "usr_failed_login_count (demo_user 1 9) = 0"
    by (simp_all add: account_row_def is_locked_def demo_simps lower_def lower_char_def)
  have wrong: "\<not> password_ok demo_env (demo_user 1 9) ''guess''"
    by (simp add: password_ok_def str_truthy_def demo_simps)
  then have "length (replicate 5 ''guess'') = 5" "\<forall>p \<in> set (replicate 5 ''guess''). \<not> password_ok demo_env (demo_user 1 9) p"
    by simp_all
  note conjunct2 [OF lockout_is_never_stored [OF u this, of None None]]
  moreover have "\<forall>(rq, p) \<in> set (replicate 100 (demo_request, ''guess'')). \<not> password_ok demo_env (demo_user 1 9) p"
    using wrong by simp
  ultimately show ?thesis by blast
qed

text \<open>
  C22. A storage key made for a record passes the checks of its own finalization, and only there: for
  another record the same key is refused. The same holds for the keys of the appraiser's submissions.
\<close>

theorem upload_key_opens_only_its_owner:
  assumes "case sha of None \<Rightarrow> True | Some h \<Rightarrow> sha256_ok h"
  shows "(\<forall>k t. generate_upload_intent E rid filename ct s = (Inr k, t) \<longrightarrow>
      validate_finalize_inputs (upi_storage_key k) rid' ct sha v =
        (if rid' = rid then Inr () else Inl (http 422 ''storage_key does not belong to this equipment record.''), v)) \<and>
    (\<forall>k t. generate_appraisal_upload E sid ct u s = (Inr k, t) \<longrightarrow>
      validate_storage_key (upi_storage_key k) sid' v =
        (if sid' = sid then Inr () else Inl (http 422 ''storage_key does not belong to this submission.''), v))"
proof (intro conjI allI impI)
  fix k t assume "generate_upload_intent E rid filename ct s = (Inr k, t)"
  then show "validate_finalize_inputs (upi_storage_key k) rid' ct sha v =
    (if rid' = rid then Inr () else Inl (http 422 ''storage_key does not belong to this equipment record.''), v)"
  proof (rule intake_key_shape)
    fix n ext assume k: "upi_storage_key k = intake_prefix rid @ uuid_str n @ ''.'' @ ext"
      and e: "ext \<in> set IMAGE_EXTENSIONS" and c: "lower ct \<in> set IMAGE_CONTENT_TYPES"
    show ?thesis
      using built_key_checked [OF e, of "''photos/''" rid' _ rid n v] assms c
      by (simp add: validate_finalize_inputs_def validate_intake_content_type_def run_simps k intake_prefix_def)
  qed
next
  fix k t assume "generate_appraisal_upload E sid ct u s = (Inr k, t)"
  then show "validate_storage_key (upi_storage_key k) sid' v =
    (if sid' = sid then Inr () else Inl (http 422 ''storage_key does not belong to this submission.''), v)"
  proof (rule appraisal_key_shape)
    fix n ext assume k: "upi_storage_key k = appraisal_prefix sid @ uuid_str n @ ''.'' @ ext"
      and e: "ext \<in> set IMAGE_EXTENSIONS"
    show ?thesis
      using built_key_checked [OF e, of "''appraisal-photos/''" sid' _ sid n v]
      by (simp add: validate_storage_key_def k appraisal_prefix_def)
  qed
qed

theorem upload_key_opens_only_its_owner_witness:
  "\<exists>k t. generate_upload_intent (demo_env\<lparr>cfg_r2_access_key_id := ''a'', cfg_r2_secret_access_key := ''b''\<rparr>) 2
      ''dir/front.jpg'' ''image/png'' demo_db = (Inr k, t) \<and>
    validate_finalize_inputs (upi_storage_key k) 2 ''image/png'' None demo_db = (Inr (), demo_db) \<and>
    fst (validate_finalize_inputs (upi_storage_key k) 3 ''image/png'' None demo_db) \<noteq> Inr ()"
proof -
  let ?E = "demo_env\<lparr>cfg_r2_access_key_id := ''a'', cfg_r2_secret_access_key := ''b''\<rparr>"
  have "\<exists>k t. generate_upload_intent ?E 2 ''dir/front.jpg'' ''image/png'' demo_db = (Inr k, t)"
    by (simp add: generate_upload_intent_def build_storage_key_def validate_intake_content_type_def r2_client_def
        normalize_extension_def path_suffix_def path_name_def IMAGE_CONTENT_TYPES_def IMAGE_EXTENSIONS_def
        lower_def lower_char_def run_simps Let_def)
  then obtain k t where "generate_upload_intent ?E 2 ''dir/front.jpg'' ''image/png'' demo_db = (Inr k, t)" by blast
  then show ?thesis
    using upload_key_opens_only_its_owner [of None ?E 2 "''dir/front.jpg''" "''image/png''" demo_db 2 demo_db]
      upload_key_opens_only_its_owner [of None ?E 2 "''dir/front.jpg''" "''image/png''" demo_db 3 demo_db] by simp
qed

text \<open>
  C23. A request that requires a manager can be resolved by the sales route: it returns a resolved
  request that still carries the flag, the price of the appraisal is not touched, and the
  manager's re-approval of that request fails from then on.
\<close>

theorem sales_resolution_skips_manager:
  assumes "resolve_change_request E i u slug ''resolved'' n s = (Inr c, t)"
    and "one_pending s" "\<forall>x \<in> set (change_requests s). cr_id x = i \<longrightarrow> cr_requires_manager_reapproval x"
  shows "cr_status c = ''resolved'' \<and> cr_requires_manager_reapproval c \<and>
    appraisal_submissions t = appraisal_submissions s \<and>
    (\<exists>e. approve_price_change E i v t = (Inl e, t))"
  using assms(1)
proof (rule resolve_returns)
  fix change rec
  assume h: "filter (\<lambda>c. cr_id c = i) (change_requests s) = [change]"
    "c = change\<lparr>cr_status := ''resolved'', cr_resolution_notes := sanitize_plain E n,
      cr_resolved_at := Some (clock s), cr_resolved_by := Some (usr_id u)\<rparr>"
    "change_requests t = update_where (\<lambda>y. cr_id y = cr_id change) (\<lambda>_. c) (change_requests s)"
    "appraisal_submissions t = appraisal_submissions s"
  have ch: "change \<in> set (change_requests s)" "cr_id change = i"
    using h(1) by (auto simp: filter_eq_Cons_iff)
  have "filter (\<lambda>c. cr_id c = i) (update_where (\<lambda>y. cr_id y = cr_id change) (\<lambda>_. c) xs) =
      map (\<lambda>_. c) (filter (\<lambda>c. cr_id c = i) xs)" for xs
    using ch(2) by (induction xs) (auto simp: update_where_def h(2))
  then have f: "filter (\<lambda>c. cr_id c = i) (change_requests t) = [c]" using h(1,3) by simp
  then have "\<exists>e. approve_price_change E i v t = (Inl e, t)"
    by (simp add: approve_price_change_def run_simps h(2))
  then show ?thesis using assms(3) ch h(2,4) by simp
qed

theorem sales_resolution_skips_manager_witness:
  "\<exists>c t. resolve_change_request demo_env 40 (demo_user 1 9) (Some ''sales'') ''resolved'' None
      (demo_review\<lparr>change_requests := [demo_change ''update_consignment_price'' True]\<rparr>) = (Inr c, t) \<and>
    cr_requires_manager_reapproval c \<and>
    map sub_suggested_consignment_price (appraisal_submissions t) = [Some (Dec 10000 0)]"
proof -
  let ?s = "demo_review\<lparr>change_requests := [demo_change ''update_consignment_price'' True]\<rparr>"
  obtain c t where r: "resolve_change_request demo_env 40 (demo_user 1 9) (Some ''sales'') ''resolved''
      None ?s = (Inr c, t)"
    by (simp add: resolve_change_request_def change_and_record_def customer_of_record_def
        complete_resolution_def notify_resolution_def run_simps review_simps Let_def sanitize_plain_def
        save_change_def has_key_def CHANNELS_def)
  have "one_pending ?s" "\<forall>x \<in> set (change_requests ?s). cr_id x = 40 \<longrightarrow> cr_requires_manager_reapproval x"
    by (simp_all add: one_pending_def demo_change_def)
  from sales_resolution_skips_manager [OF r this] r show ?thesis
    by (auto simp: demo_review_def demo_submission_def)
qed



text \<open>
  C25. With no active rule and a default representative that no user has as id, no intake goes through:
  whatever the form and the caller, the route raises and its transaction is rolled back. The handler
  around the routing does not catch it, because the foreign key fails when the record is flushed.
\<close>

theorem dangling_default_rep_stops_every_intake:
  assumes "active_rules s = []" "read_default_sales_rep E s = (Inr (Some u), s)" "u \<notin> usr_id ` set (users s)"
  shows "\<exists>e. submit_intake_route E cred body s = (Inl e, s)"
  unfolding submit_intake_route_def
proof (rule guarded_route_refuses, rule notI)
  fix user x t
  assume "(case parse_intake body of None \<Rightarrow> raise (http 422 ''validation error'')
      | Some payload \<Rightarrow> bind (submit_intake E user payload) (\<lambda>r. reads (\<lambda>s. serialize_record s r))) s = (Inr x, t)"
  then obtain payload r v where "submit_intake E user payload s = (Inr r, v)"
    by (auto simp: bind_return_iff split: option.splits)
  with dangling_rep_stops_intake [OF assms] show False by blast
qed

theorem dangling_default_rep_stops_every_intake_witness:
  "\<exists>e. submit_intake_route demo_env (Some ''tok-1'') demo_form
     (demo_db\<lparr>app_configs := [\<lparr>cfg_key = ''default_sales_rep_id'', cfg_value = JObj [(''user_id'', JStr (uuid_str 99))]\<rparr>]\<rparr>) =
   (Inl e, demo_db\<lparr>app_configs := [\<lparr>cfg_key = ''default_sales_rep_id'', cfg_value = JObj [(''user_id'', JStr (uuid_str 99))]\<rparr>]\<rparr>)"
proof -
  let ?s = "demo_db\<lparr>app_configs := [\<lparr>cfg_key = ''default_sales_rep_id'', cfg_value = JObj [(''user_id'', JStr (uuid_str 99))]\<rparr>]\<rparr>"
  have "read_default_sales_rep demo_env ?s = (Inr (Some 99), ?s)"
    using spec_found(1)
    by (simp add: read_default_sales_rep_def get_typed_def run_simps DEFAULT_SALES_REP_ID_def key_spec_def
        parse_dict_field.simps obj_get_def)
  moreover have "active_rules ?s = []" "(99 :: uuid) \<notin> usr_id ` set (users ?s)"
    by (simp_all add: active_rules_def demo_simps)
  ultimately show ?thesis by (rule_tac dangling_default_rep_stops_every_intake)
qed

text \<open>
  C26. Whatever field of a category an administrator edits, the category is replaced by a new row to which none
  of its components, prompts, photo slots, rules and attachments belongs: they stay with the replaced row.
  Appraisals of the new row need no photo and are judged by no rule.
\<close>

theorem edited_category_starts_empty:
  assumes "update_category E i patch a s = (Inr d, t)" "children_owned s"
  shows "cat_id (cd_category d) \<noteq> i \<and> cd_category d \<in> set (categories t) \<and> cat_replaced_at (cd_category d) = None \<and>
    (\<forall>k \<in> set (categories t). cat_id k = i \<longrightarrow> cat_replaced_at k \<noteq> None) \<and>
    cd_components d = [] \<and> cd_prompts d = [] \<and> cd_photo_slots d = [] \<and> cd_rules d = [] \<and> cd_attachments d = [] \<and>
    required_labels t (cat_id (cd_category d)) = [] \<and> rules_of (cat_id (cd_category d)) t = []"
  by (intro conjI edited_category(2-7) [OF assms])
    (use edited_category(1) [OF assms] in simp_all)

theorem edited_category_starts_empty_witness:
  "\<exists>d t. update_category demo_env 60 (unset_category\<lparr>cp_name := Some (Some ''loaders'')\<rparr>) (demo_user 1 9) demo_catalog =
     (Inr d, t) \<and> required_labels demo_catalog 60 = [''front''] \<and> required_labels t (cat_id (cd_category d)) = []"
proof -
  have o: "children_owned demo_catalog" by (simp add: children_owned_def catalog_simps)
  have "required_labels demo_catalog 60 = [''front'']" by (simp add: required_labels_def catalog_simps)
  then show ?thesis using demo_renamed edited_category_starts_empty [OF _ o] by blast
qed


text \<open>
  C28. With consistent rules, renumbering returns if and only if the type is known and the list
  names the live rules of that type, each once. Then the rules come back in the given order with
  priorities 0, 1, 2, and so on, each rule of the table has the position of its id in the list
  or is unchanged, and the rules are consistent again; in particular neither of the two phases
  runs into the unique index.
\<close>

theorem reorder_exactly_when_complete:
  assumes "rules_ok s" "ids \<noteq> []"
  shows "((\<exists>x t. reorder_priorities ty ids s = (Inr x, t)) \<longleftrightarrow>
      ty \<in> set ALLOWED_RULE_TYPES \<and> distinct ids \<and>
      set ids = {rule_id r |r. r \<in> set (routing_rules s) \<and> rule_type r = ty \<and> rule_deleted_at r = None}) \<and>
    (\<forall>x t. reorder_priorities ty ids s = (Inr x, t) \<longrightarrow>
      map rule_id x = ids \<and> map rule_priority x = map int [0..<length ids] \<and>
      set x \<subseteq> set (routing_rules t) \<and> rules_ok t \<and>
      t = s\<lparr>routing_rules := map (\<lambda>r. case map_of (zip ids (map int [0..<length ids])) (rule_id r) of
              None \<Rightarrow> r | Some p \<Rightarrow> r\<lparr>rule_priority := p\<rparr>) (routing_rules s)\<rparr>)"
proof (intro conjI iffI allI impI; (elim exE)?)
  fix x t assume run: "reorder_priorities ty ids s = (Inr x, t)"
  note r = reorder_returns [OF assms(1) run assms(2)]
  show "ty \<in> set ALLOWED_RULE_TYPES" "distinct ids" "map rule_id x = ids"
    "map rule_priority x = map int [0..<length ids]" "set x \<subseteq> set (routing_rules t)"
    "set ids = {rule_id r |r. r \<in> set (routing_rules s) \<and> rule_type r = ty \<and> rule_deleted_at r = None}"
    by (fact r(1,2,5-7) r(3) [unfolded live_ids_def])+
  show "rules_ok t" by (rule reorder_keeps [OF run assms(1)])
  have "renumber (final_priorities ids) = (\<lambda>r. case map_of (zip ids (map int [0..<length ids])) (rule_id r) of
      None \<Rightarrow> r | Some p \<Rightarrow> r\<lparr>rule_priority := p\<rparr>)" by (simp add: fun_eq_iff renumber_def final_priorities_def)
  then show "t = s\<lparr>routing_rules := map (\<lambda>r. case map_of (zip ids (map int [0..<length ids])) (rule_id r) of
      None \<Rightarrow> r | Some p \<Rightarrow> r\<lparr>rule_priority := p\<rparr>) (routing_rules s)\<rparr>"
    using r(4) by simp
next
  assume "ty \<in> set ALLOWED_RULE_TYPES \<and> distinct ids \<and>
      set ids = {rule_id r |r. r \<in> set (routing_rules s) \<and> rule_type r = ty \<and> rule_deleted_at r = None}"
  then show "\<exists>x t. reorder_priorities ty ids s = (Inr x, t)"
    using reorder_succeeds [OF assms(1)] unfolding live_ids_def by blast
qed

theorem reorder_exactly_when_complete_witness:
  "\<exists>x t. reorder_priorities ''ad_hoc'' [61, 60]
     (demo_review\<lparr>routing_rules := [demo_rule 60 ''ad_hoc'' 0 [] (Some 1), demo_rule 61 ''ad_hoc'' 1 [] (Some 1)]\<rparr>) =
     (Inr x, t) \<and> map rule_priority x = [0, 1] \<and> map rule_id x = [61, 60]"
proof -
  let ?s = "demo_review\<lparr>routing_rules := [demo_rule 60 ''ad_hoc'' 0 [] (Some 1), demo_rule 61 ''ad_hoc'' 1 [] (Some 1)]\<rparr>"
  have ok: "rules_ok ?s" by (simp add: rules_ok_def slots_unique_def demo_rule_def)
  have "{rule_id r |r. r \<in> set (routing_rules ?s) \<and> rule_type r = ''ad_hoc'' \<and> rule_deleted_at r = None} =
      set (map rule_id (filter (\<lambda>r. rule_type r = ''ad_hoc'' \<and> rule_deleted_at r = None) (routing_rules ?s)))"
    by auto
  also have "\<dots> = {60, 61}" by (simp add: demo_rule_def)
  finally have set: "{rule_id r |r. r \<in> set (routing_rules ?s) \<and> rule_type r = ''ad_hoc'' \<and> rule_deleted_at r = None} =
      {60, 61}" .
  have c: "''ad_hoc'' \<in> set ALLOWED_RULE_TYPES" "distinct [61, 60 :: uuid]" "set [61, 60] =
      {rule_id r |r. r \<in> set (routing_rules ?s) \<and> rule_type r = ''ad_hoc'' \<and> rule_deleted_at r = None}"
    unfolding set by (auto simp: ALLOWED_RULE_TYPES_def)
  have ne: "[61, 60 :: uuid] \<noteq> []" by simp
  note both = reorder_exactly_when_complete [OF ok ne, of "''ad_hoc''"]
  from both c obtain x t where "reorder_priorities ''ad_hoc'' [61, 60] ?s = (Inr x, t)" by blast
  moreover have "map rule_priority x = map int [0..<length [61, 60 :: uuid]]" "map rule_id x = [61, 60]"
    using both [THEN conjunct2] calculation by blast+
  ultimately show ?thesis by (auto simp: eval_nat_numeral)
qed

text \<open>
  C29. Scheduled, cancelled, scheduled again. The first appointment writes a status event; the
  cancellation puts the record back to \<open>new_request\<close> behind the back of \<open>record_transition\<close>, so the
  history still ends with \<open>appraisal_scheduled\<close>; and if a job under the key of the record and the
  status \<open>appraisal_scheduled\<close> existed after the first appointment, the second one adds none: the
  customer, who was told that the appointment is cancelled, never hears of the new time.
\<close>

theorem rescheduling_is_silent:
  assumes "create_event E a role rid u st d addr s = (Inr (Inr e), t1)"
    and "cancel_event E b role' (cal_id e) t1 = (Inr e', t2)"
    and "create_event E c role'' rid u' st' d' addr' t2 = (Inr (Inr e2), t3)"
    and "keys_unique s" "has_key (email_idempotency_key rid ''appraisal_scheduled'') t1"
  shows "(\<exists>r. filter (\<lambda>r. er_id r = rid) (equipment_records t2) = [r] \<and> er_status r = ''new_request'') \<and>
    status_events t2 = status_events t1 \<and> ev_to_status (last (status_events t2)) = ''appraisal_scheduled'' \<and>
    jobs_of (email_idempotency_key rid ''appraisal_scheduled'') t3 =
      jobs_of (email_idempotency_key rid ''appraisal_scheduled'') t1"
proof -
  obtain r where "filter (\<lambda>r. er_id r = rid) (equipment_records t2) = [r]" "er_status r = ''new_request''"
    using create_event_returns [OF assms(3)] by auto
  moreover have ev: "status_events t2 = status_events t1"
    using cancel_event_returns [OF assms(2)] by (auto split: if_splits)
  moreover have "ev_to_status (last (status_events t2)) = ''appraisal_scheduled''"
    using create_event_schedules [OF assms(1)] ev by auto
  moreover have "jobs_grow t1 t3"
    using confinedD [OF grow_cal.confined_cancel_event assms(2)] confinedD [OF grow_cal.confined_create_event assms(3)]
      grow_db.R_trans by blast
  moreover have "keys_unique t3"
    using confinedD [OF keys_cal.confined_create_event assms(1)] confinedD [OF keys_cal.confined_cancel_event assms(2)]
      confinedD [OF keys_cal.confined_create_event assms(3)] assms(4) by (simp add: preserves_def)
  ultimately show ?thesis using keyed_jobs_stable assms(5) by (auto simp: jobs_of_def)
qed

text \<open>An appraiser without an address, no customer account, and the customer's mail already queued.\<close>

definition demo_told :: db where
  "demo_told = demo_calendar\<lparr>users := [demo_user 1 9, (demo_user 3 8)\<lparr>usr_email := ''''\<rparr>],
     notification_jobs := [new_job 7 (email_idempotency_key 2 ''appraisal_scheduled'') (Some 1) ''email'' ''t'' [] 0]\<rparr>"

lemma told_schedules:
  assumes "users s = users demo_told" "roles s = roles demo_told" "app_configs s = []" "customers s = []" "watchers s = []"
    and "equipment_records s = [demo_record 2 ''new_request'']" "draws s = n"
    and "\<forall>e \<in> set (calendar_events s). cal_cancelled_at e \<noteq> None \<and> cal_id e \<noteq> word_of_nat (n + 1000)"
  shows "\<exists>e t. create_event demo_env (demo_user 1 9) ''sales'' 2 3 0 (Some 60) None s = (Inr (Inr e), t) \<and>
    users t = users demo_told \<and> roles t = roles demo_told \<and> app_configs t = [] \<and> customers t = [] \<and> watchers t = [] \<and>
    equipment_records t = [demo_record 2 ''appraisal_scheduled''] \<and> draws t = n + 2 \<and> cal_id e = word_of_nat (n + 1000) \<and>
    cal_equipment_record_id e = 2 \<and> calendar_events t = calendar_events s @ [e] \<and> cal_cancelled_at e = None \<and>
    cal_appraiser_id e = 3"
proof -
  have w: "filter (in_window 3 0 None) (calendar_events s) = []" using assms(8) by (auto simp: in_window_def filter_empty_conv)
  have r: "load_record_or_404 2 s = (Inr (demo_record 2 ''new_request''), s)"
    by (simp add: load_record_or_404_def run_simps assms demo_record_def)
  have q: "require_appraiser 3 s = (Inr ((demo_user 3 8)\<lparr>usr_email := ''''\<rparr>), s)"
    by (simp add: require_appraiser_def slug_of_user_def run_simps assms demo_told_def demo_calendar_def demo_user_def demo_role_def)
  have g: "get_typed (ks_name DRIVE_TIME_FALLBACK_MINUTES) s = (Inr (JInt 60), s)"
    by (simp add: get_typed_def run_simps assms registry_keys_def TOS_CURRENT_VERSION_def
        PRIVACY_CURRENT_VERSION_def DRIVE_TIME_FALLBACK_MINUTES_def key_spec_def)
  have k: "check_conflict demo_env 3 0 (minutes 60) None None s = (Inr None, s)"
    by (simp add: check_conflict_def read_drive_time_fallback_minutes_def run_simps g w)
  define e where "e = new_event (word_of_nat (n + 1000)) 2 3 0 60 None"
  have e: "cal_id e = word_of_nat (n + 1000)" "cal_equipment_record_id e = 2" "cal_cancelled_at e = None" "cal_appraiser_id e = 3"
    by (simp_all add: e_def new_event_def)
  have id: "random_uuid demo_env k = word_of_nat (k + 1000)" for k by (simp add: demo_env_def)
  obtain s1 where ins: "insert_event demo_env 2 3 0 60 None s = (Inr e, s1)" and
    s1: "s1 = s\<lparr>draws := Suc n, calendar_events := calendar_events s @ [e],
      event_attendees := add_primary e (event_attendees s)\<rparr>"
    using assms(7,8) by (auto simp: insert_event_def mirror_appraiser_def run_simps id Let_def e_def)
  obtain a where au: "audit_event ''calendar_event.created'' (demo_user 1 9) ''sales'' (cal_id e) None e s1 = (Inr (), a)"
    and a: "watchers a = []" "customers a = []" "draws a = Suc n" "users a = users s" "roles a = roles s" "app_configs a = []"
    "equipment_records a = equipment_records s" "calendar_events a = calendar_events s @ [e]"
    by (simp add: audit_event_def run_simps assms s1)
  let ?r = "demo_record 2 ''new_request''" and ?ap = "(demo_user 3 8)\<lparr>usr_email := ''''\<rparr>"
  have rec: "er_status ?r = ''new_request''" "er_id ?r = 2" "str_or (er_customer_location_text ?r) '''' = ''''"
    by (simp_all add: demo_record_def str_or_def)
  have "allowed (er_status ?r) ''appraisal_scheduled''" using new_request_schedules by (simp add: rec)
  then have "\<exists>x t. record_transition demo_env ?r ''appraisal_scheduled'' (Some (demo_user 1 9)) None None None a
      = (Inr x, t) \<and> users t = users s \<and> roles t = roles s \<and> app_configs t = [] \<and> customers t = [] \<and> watchers t = [] \<and>
      draws t = Suc (Suc n) \<and> calendar_events t = calendar_events s @ [e] \<and>
      equipment_records t = [demo_record 2 ''appraisal_scheduled'']"
    using a assms(6)
    by (simp add: record_transition_notices notices_def notify_watchers_def watcher_user_ids_def demo_record_def run_simps
        Let_def written_def update_where_def)
  then obtain x t where tr: "record_transition demo_env ?r ''appraisal_scheduled'' (Some (demo_user 1 9)) None None None a = (Inr x, t)"
    and t: "users t = users s" "roles t = roles s" "app_configs t = []" "customers t = []" "watchers t = []"
      "draws t = Suc (Suc n)" "calendar_events t = calendar_events s @ [e]"
      "equipment_records t = [demo_record 2 ''appraisal_scheduled'']" by blast
  have cu: "customer_user_of ?r a = (Inr None, a)" by (simp add: customer_user_of_def a(2))
  have em: "enqueue_appraiser_email demo_env ?ap r' e ''scheduled'' = ret ()" for r' e
    by (simp add: enqueue_appraiser_email_def)
  have an: "announce_event demo_env (demo_user 1 9) ''sales'' ?r ?ap e s1 = (Inr (), t)"
    unfolding announce_event_def by (simp add: seq_run au bind_run cu tr em split: prod.splits)
  have d: "int_or (Some 60) DEFAULT_DURATION_MINUTES = 60" by (simp add: int_or_def)
  have ad: "str_truthy None = False" "nonempty [] = None" "str_or (er_customer_location_text ?r) [] = []"
    by (simp_all add: nonempty_def str_truthy_def str_or_def demo_record_def)
  have "create_event demo_env (demo_user 1 9) ''sales'' 2 3 0 (Some 60) None s = (Inr (Inr e), t)"
    by (simp add: create_event_def Let_def d bind_run seq_run require_run r q k ins an rec ad SCHEDULABLE_FROM_STATUSES_def)
  then show ?thesis using t e assms by (intro exI [of _ e] exI [of _ t]) simp
qed

theorem rescheduling_is_silent_witness:
  "\<exists>e t1 e' t2 e2 t3. create_event demo_env (demo_user 1 9) ''sales'' 2 3 0 (Some 60) None demo_told = (Inr (Inr e), t1) \<and>
     cancel_event demo_env (demo_user 1 9) ''sales'' (cal_id e) t1 = (Inr e', t2) \<and>
     create_event demo_env (demo_user 1 9) ''sales'' 2 3 0 (Some 60) None t2 = (Inr (Inr e2), t3) \<and>
     jobs_of (email_idempotency_key 2 ''appraisal_scheduled'') t3 = jobs_of (email_idempotency_key 2 ''appraisal_scheduled'') t1"
proof -
  let ?u = "demo_user 1 9"
  obtain e t1 where c1: "create_event demo_env ?u ''sales'' 2 3 0 (Some 60) None demo_told = (Inr (Inr e), t1)"
    and t1: "users t1 = users demo_told" "roles t1 = roles demo_told" "app_configs t1 = []" "customers t1 = []" "watchers t1 = []"
    "equipment_records t1 = [demo_record 2 ''appraisal_scheduled'']" "draws t1 = 2" "cal_id e = word_of_nat 1000"
    "cal_equipment_record_id e = 2" "calendar_events t1 = [e]" "cal_cancelled_at e = None" "cal_appraiser_id e = 3"
    using told_schedules [of demo_told 0] by (auto simp: demo_told_def demo_calendar_def demo_simps)
  let ?c = "e\<lparr>cal_cancelled_at := Some (clock t1)\<rparr>"
  obtain t2 where c2: "cancel_event demo_env ?u ''sales'' (cal_id e) t1 = (Inr ?c, t2)"
    and t2: "users t2 = users demo_told" "roles t2 = roles demo_told" "app_configs t2 = []" "customers t2 = []" "watchers t2 = []"
    "equipment_records t2 = [demo_record 2 ''new_request'']" "draws t2 = 2" "calendar_events t2 = [?c]"
    using t1
    by (simp add: cancel_event_def get_event_or_404_def load_record_or_404_def reopen_record_def announce_cancellation_def
        replace_event_def audit_event_def customer_user_of_def enqueue_appraiser_email_def run_simps Let_def update_where_def
        demo_told_def demo_user_def demo_record_def)
  obtain e2 t3 where c3: "create_event demo_env ?u ''sales'' 2 3 0 (Some 60) None t2 = (Inr (Inr e2), t3)"
    using told_schedules [of t2 2] t2 t1(8) by auto
  have "keys_unique demo_told" "has_key (email_idempotency_key 2 ''appraisal_scheduled'') demo_told"
    by (simp_all add: keys_unique_def has_key_def new_job_def demo_told_def)
  moreover from this(2) have "has_key (email_idempotency_key 2 ''appraisal_scheduled'') t1"
    using has_key_grow [OF confinedD [OF grow_cal.confined_create_event c1]] by blast
  ultimately show ?thesis using rescheduling_is_silent [OF c1 c2 c3] c1 c2 c3
    by (intro exI [of _ e] exI [of _ t1] exI [of _ ?c] exI [of _ t2] exI [of _ e2] exI [of _ t3]) simp
qed






text \<open>
  C33. A record never has two pending requests. Whatever returns among submitting, resolving and
  the manager's re-approval keeps it so, and a second submission is refused with 409.
\<close>

theorem one_pending_request:
  assumes "one_pending s"
  shows "((\<exists>c. submit_change_request E u r ty n p s = (Inr c, t) \<or>
        resolve_change_request E i v slug st n s = (Inr c, t) \<or>
        approve_price_change E i v s = (Inr c, t)) \<longrightarrow> one_pending t) \<and>
    (ty \<in> set ALLOWED_REQUEST_TYPES \<and> (\<exists>x \<in> set (change_requests s). pending_for (er_id r) x) \<longrightarrow>
      submit_change_request E u r ty n p s = (Inl pending_conflict, s))"
  using one_pending_resolve [OF _ assms] one_pending_approve_price [OF _ assms]
    submit_conflict submit_returns [OF _ assms] by metis

theorem one_pending_request_witness:
  "submit_change_request demo_env (demo_user 1 9) (demo_record 2 ''listed'') ''withdraw'' None None
     (demo_db\<lparr>change_requests := [demo_change ''other'' False]\<rparr>) =
   (Inl pending_conflict, demo_db\<lparr>change_requests := [demo_change ''other'' False]\<rparr>)"
proof -
  let ?s = "demo_db\<lparr>change_requests := [demo_change ''other'' False]\<rparr>"
  have "one_pending ?s" "''withdraw'' \<in> set ALLOWED_REQUEST_TYPES"
    "\<exists>x \<in> set (change_requests ?s). pending_for (er_id (demo_record 2 ''listed'')) x"
    by (simp_all add: one_pending_def demo_change_def pending_for_def demo_record_def
        ALLOWED_REQUEST_TYPES_def)
  then show ?thesis using one_pending_request [of ?s] by blast
qed

text \<open>
  C34. If a route behind a role check answers, its handler ran for a user that exists, is active
  or waiting for deletion, and holds one of the roles of the check; if it fails, in the check or
  in the handler, the database is unchanged.
\<close>

theorem guarded_route_needs_role:
  assumes "guarded_route E slugs cred handler s = (r, t)"
  shows "case r of
      Inr x \<Rightarrow> \<exists>u \<in> set (users s). usr_status u \<in> {''active'', ''pending_deletion''} \<and>
        (\<exists>r \<in> set (roles s). role_slug r \<in> set slugs \<and> holds_role s (usr_id u) (role_id r)) \<and>
        handler u s = (Inr x, t)
    | Inl e \<Rightarrow> t = s"
proof (cases r)
  case (Inl e)
  then show ?thesis using guarded_route_denied [of E slugs cred handler s e] assms by simp
next
  case (Inr x)
  with assms have "guarded_route E slugs cred handler s = (Inr x, t)" by simp
  from guarded_route_permitted [OF this] show ?thesis unfolding Inr sum.case by metis
qed

theorem guarded_route_needs_role_witness:
  "(\<exists>x t. guarded_route demo_env [''sales''] (Some ''tok-1'') ret demo_db = (Inr x, t)) \<and>
   snd (guarded_route demo_env [''admin''] (Some ''tok-1'') ret demo_db) = demo_db"
proof -
  have s: "guarded_route demo_env [''sales''] (Some ''tok-1'') ret demo_db = (Inr (demo_user 1 9), demo_db)"
    by (simp add: guarded_route_def get_db_def get_current_user_def load_account_def run_simps
        require_roles_iff holds_role_def is_grant_def obj_get_def demo_simps)
  have a: "guarded_route demo_env [''admin''] (Some ''tok-1'') ret demo_db =
      (Inl (http 403 ''You do not have permission to perform this action.''), demo_db)"
    by (simp add: guarded_route_def get_db_def get_current_user_def load_account_def run_simps
        require_roles_iff holds_role_def is_grant_def obj_get_def demo_simps)
  show ?thesis
    using guarded_route_needs_role [OF s] guarded_route_needs_role [OF a] s a by auto
qed

text \<open>
  C35. Every column of a submission and of a score row stays within its type along every sequence of calls of the
  submission and approval routes, whatever the bodies: known statuses, lengths, the range of the year,
  scores on the scale from 0 to 5.
\<close>

theorem submissions_stay_typed:
  assumes "(submission_step E)\<^sup>*\<^sup>* s t" "typed_db s"
  shows "typed_db t"
  using assms by (induction rule: rtranclp_induct) (auto intro: submission_step_typed)

theorem submissions_stay_typed_witness:
  "typed_db (snd (update_submission_route demo_env (Some ''tok-1'') 20 demo_patch demo_drafts))"
proof -
  have "typed_db demo_drafts"
    by (simp add: typed_db_def typed_submission_def typed_rows_def drafts_simps VALID_STATUSES_def up_to_def char_count_def)
  from submissions_stay_typed [OF r_into_rtranclp [where r = "submission_step demo_env"] this, OF submission_step.updated]
  show ?thesis .
qed

text \<open>
  C36. The jobs under the key of a record and a status stay what they are once there is one,
  through any transition: a record that comes back to a status (scheduled, cancelled, scheduled
  again) sends its customer nothing the second time. The comment at the key says that such a
  return is blocked upstream; it is not, as the edge is allowed.
\<close>

theorem second_visit_is_silent:
  assumes "record_transition E record st by note customer ov s = (r, t)"
    and "keys_unique s" and "has_key (email_idempotency_key rid st') s"
  shows "filter (\<lambda>j. job_idempotency_key j = email_idempotency_key rid st') (notification_jobs t) =
    filter (\<lambda>j. job_idempotency_key j = email_idempotency_key rid st') (notification_jobs s)"
  using keyed_jobs_stable record_transition_jobs(1,2) [OF assms(1)] assms(2,3) by blast

theorem second_visit_is_silent_witness:
  "let K = email_idempotency_key 2 ''appraisal_scheduled'';
       j = new_job 7 K (Some 1) ''email'' ''status_appraisal_scheduled'' [] 0;
       s = demo_db\<lparr>notification_jobs := [j]\<rparr>
   in allowed ''appraiser_assigned'' ''appraisal_scheduled'' \<and>
      filter (\<lambda>j. job_idempotency_key j = K) (notification_jobs (snd (record_transition demo_env
        (demo_record 2 ''appraiser_assigned'') ''appraisal_scheduled'' None None
        (Some (demo_user 1 9)) None s))) = [j]"
proof -
  let ?K = "email_idempotency_key 2 ''appraisal_scheduled''"
  let ?j = "new_job 7 ?K (Some 1) ''email'' ''status_appraisal_scheduled'' [] 0"
  let ?s = "demo_db\<lparr>notification_jobs := [?j]\<rparr>"
  have "allowed ''appraiser_assigned'' ''appraisal_scheduled''"
    by (simp add: allowed_def forbidden_iff is_known_iff_value all_status_values_def all_status_def)
  moreover have "keys_unique ?s" "has_key ?K ?s"
    by (simp_all add: keys_unique_def has_key_def new_job_def)
  moreover have "filter (\<lambda>j. job_idempotency_key j = ?K) (notification_jobs ?s) = [?j]"
    by (simp add: new_job_def)
  ultimately show ?thesis
    using second_visit_is_silent [of demo_env "demo_record 2 ''appraiser_assigned''"
        "''appraisal_scheduled''" None None "Some (demo_user 1 9)" None ?s _ _ 2
        "''appraisal_scheduled''", OF surjective_pairing]
    unfolding Let_def by metis
qed

text \<open>
  C37. The customer's route never passes a price on. From a database without proposed prices,
  creating and resolving requests lead to such databases only, and in them the re-approval of a
  price change never returns: the threshold is never evaluated in practice.
\<close>

theorem price_reapproval_is_unreachable:
  assumes "unpriced s" "one_pending s"
  shows "(create_change_request E cred rid ty n s = (Inr c, t) \<longrightarrow> unpriced t \<and> one_pending t) \<and>
    (resolve_change_request E i u slug st n s = (Inr c, t) \<longrightarrow> unpriced t \<and> one_pending t) \<and>
    fst (approve_price_change E i u s) \<noteq> Inr c"
proof (intro conjI impI)
  assume "create_change_request E cred rid ty n s = (Inr c, t)"
  then obtain v r where r: "submit_change_request E v r ty n None s = (Inr c, t)"
    by (rule create_change_request_returns)
  show "unpriced t" by (rule unpriced_submit [OF r assms(2,1)])
  show "one_pending t" by (rule submit_returns [OF r assms(2)])
next
  assume "resolve_change_request E i u slug st n s = (Inr c, t)"
  then show "unpriced t" "one_pending t"
    by (rule unpriced_resolve [OF _ assms(1)], rule one_pending_resolve [OF _ assms(2)])
next
  show "fst (approve_price_change E i u s) \<noteq> Inr c" by (rule unpriced_nothing_to_approve [OF assms(1)])
qed

theorem price_reapproval_is_unreachable_witness:
  "\<forall>c. fst (approve_price_change demo_env 40 (demo_user 1 9)
     (demo_db\<lparr>change_requests := [demo_change ''update_consignment_price'' False]\<rparr>)) \<noteq> Inr c"
  using price_reapproval_is_unreachable
    [of "demo_db\<lparr>change_requests := [demo_change ''update_consignment_price'' False]\<rparr>"]
  by (auto simp: unpriced_def one_pending_def demo_change_def)





text \<open>
  C40. Reading the operations dashboard leaves the database as it was. Each row, of at most 200,
  belongs to a record that is not deleted, passes the filters on status, assignee and customer, and is
  shown with its own customer; it is flagged late exactly when it has its status for at least as many days
  as the threshold, which holds for every row when only late records are asked for. The total is the number of
  records that the filter selects.
\<close>

theorem operations_rows_match_the_filter:
  assumes "list_records updated f ov srt descending page per_page s = (Inr (rows, n_all), t)"
  shows "t = s \<and> length rows \<le> 200 \<and> (\<exists>n. resolve_overdue_threshold ov s = (Inr n, s) \<and>
    n_all = length (filter (operations_selected s f n) (equipment_records s)) \<and>
    (\<forall>row \<in> set rows. or_record row \<in> set (equipment_records s) \<and> er_deleted_at (or_record row) = None \<and>
      (str_truthy (of_status f) \<longrightarrow> Some (er_status (or_record row)) = of_status f) \<and>
      (of_customer_id f \<noteq> None \<longrightarrow> of_customer_id f = Some (or_customer_id row)) \<and>
      (of_assignee_id f \<noteq> None \<longrightarrow> of_assignee_id f \<in> {er_assigned_sales_rep_id (or_record row),
         er_assigned_appraiser_id (or_record row)}) \<and>
      or_customer_id row = er_customer_id (or_record row) \<and>
      (or_is_overdue row \<longleftrightarrow> n \<le> or_days_in_status row) \<and> (of_overdue_only f \<longrightarrow> or_is_overdue row)))"
proof -
  obtain n where n: "t = s" "resolve_overdue_threshold ov s = (Inr n, s)"
    "n_all = length (filter (operations_selected s f n) (equipment_records s))"
    by (rule list_records_returns [OF assms])
  have "or_record row \<in> set (equipment_records s) \<and> er_deleted_at (or_record row) = None \<and>
      (str_truthy (of_status f) \<longrightarrow> Some (er_status (or_record row)) = of_status f) \<and>
      (of_customer_id f \<noteq> None \<longrightarrow> of_customer_id f = Some (or_customer_id row)) \<and>
      (of_assignee_id f \<noteq> None \<longrightarrow> of_assignee_id f \<in> {er_assigned_sales_rep_id (or_record row),
         er_assigned_appraiser_id (or_record row)}) \<and>
      or_customer_id row = er_customer_id (or_record row) \<and>
      (or_is_overdue row \<longleftrightarrow> n \<le> or_days_in_status row) \<and> (of_overdue_only f \<longrightarrow> or_is_overdue row)"
    if row_in: "row \<in> set rows" for row
  proof -
    obtain m r c rep app where "resolve_overdue_threshold ov s = (Inr m, s)"
      and jm: "(r, c, rep, app) \<in> set (build_base_query s f m)" "row = row_from_join s updated m (r, c, rep, app)"
      by (rule list_records_row [OF assms row_in])
    then have "m = n" using n(2) by simp
    note j = jm(1) [unfolded this] and row = jm(2) [unfolded this]
    from j have "r \<in> set (equipment_records s)" "operations_selected s f n r" "cus_id c = er_customer_id r"
      by (auto elim: base_query_rows)
    then show ?thesis
      using overdue_selected_is_shown [of s n r]
      by (auto simp: row row_from_join_def Let_def operations_selected_def)
  qed
  with n list_records_length [OF assms] show ?thesis by blast
qed

theorem operations_rows_match_the_filter_witness:
  "\<exists>rows. list_records (\<lambda>i. 0) \<lparr>of_status = None, of_assignee_id = None, of_customer_id = None, of_overdue_only = True\<rparr>
      (Some 7) ''status'' False 1 50 (demo_review\<lparr>clock := days 9\<rparr>) = (Inr (rows, 1), demo_review\<lparr>clock := days 9\<rparr>) \<and>
    map (\<lambda>r. er_id (or_record r)) rows = [2] \<and> (\<forall>row \<in> set rows. or_is_overdue row)"
proof -
  let ?f = "\<lparr>of_status = None, of_assignee_id = None, of_customer_id = None, of_overdue_only = True\<rparr>"
  let ?s = "demo_review\<lparr>clock := days 9\<rparr>"
  have "operations_selected ?s ?f 7 (demo_record 2 ''appraisal_complete'')"
    by (simp add: operations_selected_def overdue_predicate_def entered_at_def event_times_def str_truthy_def days_def
        seconds_def review_simps)
  then have q: "build_base_query ?s ?f 7 = [(demo_record 2 ''appraisal_complete'', demo_customer (Some 1), None, None)]"
    "length (filter (operations_selected ?s ?f 7) (equipment_records ?s)) = 1"
    by (simp_all add: build_base_query_def join_record_def demo_review_def demo_db_def demo_customer_def demo_record_def)
  have ordered_one: "apply_sort ''status'' False u [x] = [x]" for u and x :: joined
    by (simp add: apply_sort_def ordered_def)
  have "resolve_overdue_threshold (Some 7) ?s = (Inr 7, ?s)" by (simp add: resolve_overdue_threshold_def)
  then have "list_records (\<lambda>i. 0) ?f (Some 7) ''status'' False 1 50 ?s =
      (Inr ([row_from_join ?s (\<lambda>i. 0) 7 (demo_record 2 ''appraisal_complete'', demo_customer (Some 1), None, None)], 1), ?s)"
    unfolding list_records_def Let_def bind_run by (simp add: q(1) q(2) [simplified] ordered_one)
  note run = this
  have "\<forall>row \<in> set [row_from_join ?s (\<lambda>i. 0) 7 (demo_record 2 ''appraisal_complete'', demo_customer (Some 1), None, None)].
      or_is_overdue row"
    using operations_rows_match_the_filter [OF run] by auto
  moreover have "or_record (row_from_join ?s (\<lambda>i. 0) 7 (demo_record 2 ''appraisal_complete'', demo_customer (Some 1), None, None)) =
      demo_record 2 ''appraisal_complete''"
    by (simp add: row_from_join_def Let_def)
  moreover have "er_id (demo_record 2 ''appraisal_complete'') = 2" by (simp add: demo_record_def)
  ultimately show ?thesis using run by (intro exI conjI) auto
qed

text \<open>
  The first completion of an envelope marks its contract completed now and moves its record
  along an allowed edge to \<open>esigned_pending_publish\<close>; delivered again, it changes nothing.
\<close>

theorem signature_counts_once:
  assumes "handle_envelope_completed E i s = (Inr (), t)"
    and "fetch_contract E i s = (Inr c, s)" "con_status c \<noteq> ''completed''"
    and "find (\<lambda>r. er_id r = con_equipment_record_id c) (equipment_records s) = Some r"
  shows "handle_envelope_completed E i t = (Inr (), t) \<and>
    allowed (er_status r) ''esigned_pending_publish'' \<and>
    equipment_records t = update_where (\<lambda>y. er_id y = er_id r)
      (\<lambda>y. y\<lparr>er_status := ''esigned_pending_publish''\<rparr>) (equipment_records s) \<and>
    consignment_contracts t = update_where (\<lambda>x. con_id x = con_id c)
      (\<lambda>x. x\<lparr>con_status := ''completed'', con_signed_at := Some (clock s)\<rparr>) (consignment_contracts s)"
proof -
  note spec = completed_spec [OF assms(1-3)]
  have "fetch_contract E i t = (Inr (c\<lparr>con_status := ''completed'', con_signed_at := Some (clock s)\<rparr>), t)"
    by (rule fetch_after_set [OF assms(2) spec(1)]) simp
  then have "handle_envelope_completed E i t = (Inr (), t)" by (rule completed_again) simp
  then show ?thesis using spec(1) spec(2) [OF assms(4)] by blast
qed

theorem signature_counts_once_witness:
  "\<exists>t. handle_envelope_completed demo_env (JStr ''env-1'') (demo_review\<lparr>
      equipment_records := [demo_record 2 ''approved_pending_esign''],
      consignment_contracts := [demo_contract ''sent'']\<rparr>) = (Inr (), t) \<and>
    handle_envelope_completed demo_env (JStr ''env-1'') t = (Inr (), t)"
proof -
  let ?s = "demo_review\<lparr>equipment_records := [demo_record 2 ''approved_pending_esign''],
      consignment_contracts := [demo_contract ''sent'']\<rparr>"
  have f: "fetch_contract demo_env (JStr ''env-1'') ?s = (Inr (demo_contract ''sent''), ?s)"
    by (simp add: fetch_contract_def run_simps demo_contract_def)
  have st: "con_status (demo_contract ''sent'') \<noteq> ''completed''"
    and r: "find (\<lambda>r. er_id r = con_equipment_record_id (demo_contract ''sent'')) (equipment_records ?s) =
      Some (demo_record 2 ''approved_pending_esign'')"
    by (simp_all add: demo_contract_def demo_record_def)
  have "allowed (er_status (demo_record 2 ''approved_pending_esign'')) ''esigned_pending_publish''"
    by (simp add: allowed_simps demo_record_def)
  moreover have "notify_ready demo_env ?s"
    using demo_ready_review by (simp add: notify_ready_def recipients_ok_def overrides_ok_def)
  ultimately obtain t where "handle_envelope_completed demo_env (JStr ''env-1'') ?s = (Inr (), t)"
    by (rule completed_succeeds [OF f st r])
  then show ?thesis using signature_counts_once [OF _ f st r] by blast
qed

text \<open>
  A transition to a status that the registry calls customer-facing, made with the customer
  at hand, leaves a job under the key of the record and the status. If no such job existed, it is
  an e-mail to this customer's address.
\<close>

theorem transition_tells_customer:
  assumes "record_transition E record st by note (Some c) None s = (Inr x, t)"
    and "notifies_customer st"
  shows "has_key (email_idempotency_key (er_id record) st) t \<and>
    (has_key (email_idempotency_key (er_id record) st) s \<or>
      (\<exists>j \<in> set (notification_jobs t). customer_job j c record st))"
  using transition_customer_job [OF assms(1)] assms(2) by (auto simp: should_notify_def)

theorem transition_tells_customer_witness:
  "\<exists>x t. record_transition demo_env (demo_record 2 ''appraiser_assigned'') ''appraisal_complete''
      None None (Some (demo_user 1 9)) None demo_db = (Inr x, t) \<and>
    (\<exists>j \<in> set (notification_jobs t). customer_job j (demo_user 1 9)
       (demo_record 2 ''appraiser_assigned'') ''appraisal_complete'')"
proof -
  obtain x t where r: "record_transition demo_env (demo_record 2 ''appraiser_assigned'')
      ''appraisal_complete'' None None (Some (demo_user 1 9)) None demo_db = (Inr x, t)"
    using record_transition_succeeds [OF demo_allowed demo_ready] by blast
  have "notifies_customer ''appraisal_complete''"
    using notifies_customer_value [of APPRAISAL_COMPLETE] by (simp add: meta_def)
  moreover have "\<not> has_key k demo_db" for k by (simp add: has_key_def demo_simps)
  ultimately show ?thesis using transition_tells_customer [OF r] r by blast
qed

text \<open>
  With one approved appraisal that has a non-zero price and a numeric threshold, the
  evaluation of a proposed price flags a new request if and only if the relative difference in
  per cent exceeds the threshold.
\<close>

theorem threshold_decides_reapproval:
  assumes "evaluate_price_change E change (Some p) s = (Inr flag, t)"
    and "filter (\<lambda>x. sub_equipment_record_id x = cr_equipment_record_id change \<and>
      sub_status x = ''approved'') (appraisal_submissions s) = [x]"
    and "sub_suggested_consignment_price x = Some price" "dec_val price > 0"
    and "get_typed (ks_name CONSIGNMENT_PRICE_CHANGE_THRESHOLD_PCT) s = (Inr th, s)"
    and "json_number th = Some limit" "\<not> cr_requires_manager_reapproval change"
  shows "flag \<longleftrightarrow> \<bar>p - dec_val price\<bar> * 100 > limit * dec_val price"
proof -
  have "flag \<longleftrightarrow> change_pct (dec_val price) p > limit"
    using evaluate_decides [OF assms(1-3) _ assms(5,6)] assms(4,7) by simp
  also have "\<dots> \<longleftrightarrow> \<bar>p - dec_val price\<bar> * 100 > limit * dec_val price"
    using assms(4) by (simp add: change_pct_def field_simps)
  finally show ?thesis .
qed

theorem threshold_decides_reapproval_witness:
  "\<exists>flag t. evaluate_price_change demo_env (demo_change ''update_consignment_price'' False) (Some 9500)
     (demo_db\<lparr>appraisal_submissions := [demo_submission 20 2 ''approved'']\<rparr>) = (Inr flag, t) \<and> \<not> flag"
proof -
  let ?s = "demo_db\<lparr>appraisal_submissions := [demo_submission 20 2 ''approved'']\<rparr>"
  let ?c = "demo_change ''update_consignment_price'' False"
  have g: "get_typed (ks_name CONSIGNMENT_PRICE_CHANGE_THRESHOLD_PCT) ?s = (Inr (JInt 10), ?s)"
    by (rule threshold_default) (simp add: demo_simps)
  have f: "filter (\<lambda>x. sub_equipment_record_id x = cr_equipment_record_id ?c \<and>
      sub_status x = ''approved'') (appraisal_submissions ?s) = [demo_submission 20 2 ''approved'']"
    by (simp add: demo_submission_def demo_change_def)
  obtain t where e: "evaluate_price_change demo_env ?c (Some 9500) ?s = (Inr False, t)"
    by (simp add: evaluate_price_change_def run_simps f Let_def change_pct_def threshold_default
        demo_submission_def dec_val_def demo_change_def demo_db_def empty_db_def)
  have "False \<longleftrightarrow> \<bar>9500 - dec_val (Dec 10000 0)\<bar> * 100 > 10 * dec_val (Dec 10000 0)"
    by (rule threshold_decides_reapproval [OF e f _ _ g])
      (simp_all add: demo_submission_def dec_val_def demo_change_def)
  then show ?thesis using e by blast
qed

text \<open>
  Nobody takes a lock away: from a table with unique locks, after a user acquired the lock of
  a record, every sequence of acquisitions and releases by other users, on this record or others,
  each at a time before the expiry, leaves the lock with that user.
\<close>

theorem lock_is_kept:
  assumes "locks_ok s" "acquire E r ty u s = (Inr i, t)"
    and "\<forall>(c, r', v, w) \<in> set qs. c < new_expiry (clock s) \<and> v \<noteq> u"
  shows "locked_until ty (rec_lock.serve E ty qs t) r u (new_expiry (clock s))"
  using rec_lock.kept [OF acquire_keeps(1) [OF assms(1,2)] acquire_holds [OF assms(1,2)] assms(3)] .

theorem lock_is_kept_witness:
  "\<exists>i t. acquire demo_env 2 ''equipment_record'' 1 demo_db = (Inr i, t) \<and>
     locked_until ''equipment_record''
       (rec_lock.serve demo_env ''equipment_record'' [(1000001, 2, 5, True), (1000002, 2, 5, False)] t)
       2 1 (new_expiry (clock demo_db))"
proof -
  have ok: "locks_ok demo_db" by (simp add: locks_ok_def demo_simps)
  obtain i t where a: "acquire demo_env 2 ''equipment_record'' 1 demo_db = (Inr i, t)"
    using acquire_available [OF ok, of "''equipment_record''" 2 1 demo_env]
    by (auto simp: locked_until_def demo_simps)
  show ?thesis
    using a lock_is_kept [OF ok a, of "[(1000001, 2, 5, True), (1000002, 2, 5, False)]"]
    by (auto simp: new_expiry_def LOCK_TTL_SECONDS_def seconds_def demo_simps)
qed

text \<open>
  A confirmed password reset changes one account: the one user with the id of the token gets the
  hash of the new password, is unlocked with no failures counted, and has no live session left, so
  that no session can be refreshed with any token; the rows of other users and their sessions stay.
\<close>

theorem password_reset_ends_sessions:
  assumes "confirm_password_reset E token new_password s = (Inr (), t)"
  shows "\<exists>u v. filter (\<lambda>x. usr_id x = usr_id u) (users s) = [u] \<and>
    filter (\<lambda>x. usr_id x = usr_id u) (users t) = [v] \<and>
    usr_password_hash v = Some (bcrypt_hash E (draws s) new_password) \<and>
    usr_failed_login_count v = 0 \<and> \<not> is_locked (clock t) v \<and>
    (\<forall>x \<in> set (user_sessions t). ses_user_id x = usr_id u \<longrightarrow> ses_revoked_at x \<noteq> None) \<and>
    filter (\<lambda>x. usr_id x \<noteq> usr_id u) (users t) = filter (\<lambda>x. usr_id x \<noteq> usr_id u) (users s) \<and>
    filter (\<lambda>x. ses_user_id x \<noteq> usr_id u) (user_sessions t) = filter (\<lambda>x. ses_user_id x \<noteq> usr_id u) (user_sessions s)"
proof -
  obtain u where u: "filter (\<lambda>x. usr_id x = usr_id u) (users s) = [u]"
    "users t = update_where (\<lambda>x. usr_id x = usr_id u) (after_reset (bcrypt_hash E (draws s) new_password)) (users s)"
    "user_sessions t = update_where (\<lambda>x. ses_user_id x = usr_id u \<and> ses_revoked_at x = None)
       (\<lambda>x. x\<lparr>ses_revoked_at := Some (clock s)\<rparr>) (user_sessions s)" "clock t = clock s"
    by (rule confirm_reset_returns [OF assms])
  let ?v = "after_reset (bcrypt_hash E (draws s) new_password) u"
  have id: "usr_id (after_reset h x) = usr_id x" for h x by (simp add: after_reset_def)
  have "filter (\<lambda>x. usr_id x = usr_id u) (users t) = [?v]"
    unfolding u(2) by (subst filter_update_where_same) (simp_all add: u(1) id)
  moreover have "filter (\<lambda>x. usr_id x \<noteq> usr_id u) (users t) = filter (\<lambda>x. usr_id x \<noteq> usr_id u) (users s)"
    unfolding u(2) by (rule filter_update_where_other) (simp_all add: id)
  moreover have "filter (\<lambda>x. ses_user_id x \<noteq> usr_id u) (user_sessions t) =
      filter (\<lambda>x. ses_user_id x \<noteq> usr_id u) (user_sessions s)"
    unfolding u(3) by (rule filter_update_where_other) simp_all
  moreover have "\<forall>x \<in> set (user_sessions t). ses_user_id x = usr_id u \<longrightarrow> ses_revoked_at x \<noteq> None"
    unfolding u(3) by (auto simp: update_where_def)
  ultimately show ?thesis
    using u(1) by (intro exI [of _ u] exI [of _ ?v]) (simp add: after_reset_def is_locked_def)
qed

definition reset_env :: env where
  "reset_env = demo_env\<lparr>jwt_decode := (\<lambda>t tok. Some [(''sub'', JStr (uuid_str 1)), (''type'', JStr ''reset_password'')])\<rparr>"

theorem password_reset_ends_sessions_witness:
  "\<exists>t. confirm_password_reset reset_env ''link'' ''new'' (demo_db\<lparr>user_sessions := [demo_session]\<rparr>) = (Inr (), t) \<and>
     (\<forall>x \<in> set (user_sessions t). ses_user_id x = 1 \<longrightarrow> ses_revoked_at x \<noteq> None)"
proof -
  let ?s = "demo_db\<lparr>user_sessions := [demo_session]\<rparr>"
  obtain m where m: "send_password_changed_email ''a@b.c'' = writes (\<lambda>s. s\<lparr>outbox := outbox s @ [m]\<rparr>)"
    using password_changed_mail_run by blast
  obtain t where t: "confirm_password_reset reset_env ''link'' ''new'' ?s = (Inr (), t)"
    by (simp add: confirm_password_reset_def decode_or_def decode_token_def subject_id_def find_user_def
        hash_password_def save_user_def revoke_user_sessions_def audit_user_def run_simps add_audit_run obj_get_def
        reset_env_def demo_simps update_where_def after_reset_def attempt_run m)
  from password_reset_ends_sessions [OF t] obtain u where
    "filter (\<lambda>x. usr_id x = usr_id u) (users ?s) = [u]"
    "\<forall>x \<in> set (user_sessions t). ses_user_id x = usr_id u \<longrightarrow> ses_revoked_at x \<noteq> None" by blast
  then have "\<forall>x \<in> set (user_sessions t). ses_user_id x = 1 \<longrightarrow> ses_revoked_at x \<noteq> None"
    by (auto simp: demo_simps split: if_splits)
  with t show ?thesis by blast
qed

text \<open>
  With unique keys in the tables it reads and a map provider whose answers have the
  documented shape (or none at all), routing returns a decision. It touches no table but the
  geocode cache and the rules, and keeps their consistency. When an ad hoc rule matches, the
  decision is that rule's and nothing is written.
\<close>

theorem routing_always_decides:
  assumes "routing_ready E s"
  shows "\<exists>d t. route_for_record E c email s = (Inr d, t) \<and> routing_ready E t \<and>
    t\<lparr>routing_rules := [], geocodes := [], draws := 0\<rparr> = s\<lparr>routing_rules := [], geocodes := [], draws := 0\<rparr> \<and>
    (rules_ok s \<longrightarrow> rules_ok t) \<and>
    (\<forall>rule. ad_hoc_rule E (active_rules s) (cus_id c) email = Some rule \<longrightarrow>
       dec_rule_id d = Some (rule_id rule) \<and> dec_assigned_user_id d = rule_assigned_user_id rule \<and> t = s)"
proof -
  obtain d t where run: "route_for_record E c email s = (Inr d, t)" and I: "routing_ready E t"
    using safeD [OF safe_route assms] by blast
  have "t\<lparr>routing_rules := [], geocodes := [], draws := 0\<rparr> = s\<lparr>routing_rules := [], geocodes := [], draws := 0\<rparr>"
    by (rule confined_sameD [OF routing_frame.confined_route run])
  moreover have "rules_ok s \<longrightarrow> rules_ok t"
    using confined_preservesD [OF routing_slots.confined_route run] by blast
  moreover have "dec_rule_id d = Some (rule_id rule) \<and> dec_assigned_user_id d = rule_assigned_user_id rule \<and> t = s"
    if "ad_hoc_rule E (active_rules s) (cus_id c) email = Some rule" for rule
  proof -
    have "rule_assigned_user_id rule \<noteq> None"
      using find_SomeD [OF that [unfolded ad_hoc_rule_def]] by simp
    then show ?thesis using run that
      by (auto simp: route_for_record_def bind_run load_active_rules_run decided_def)
  qed
  ultimately show ?thesis using run I by blast
qed

theorem routing_always_decides_witness:
  "\<forall>(c :: customer) email. \<exists>d t. route_for_record demo_env c email demo_review = (Inr d, t) \<and> routing_rules t = routing_rules demo_review"
proof (intro allI)
  fix c :: customer and email
  have ready: "routing_ready demo_env demo_review" by (simp add: routing_ready_def review_simps)
  have ok: "rules_ok demo_review" by (simp add: rules_ok_def slots_unique_def review_simps)
  have "ad_hoc_rule demo_env (active_rules demo_review) (cus_id c) email = None"
    by (simp add: ad_hoc_rule_def active_rules_def review_simps)
  obtain d t where run: "route_for_record demo_env c email demo_review = (Inr d, t)"
    using routing_always_decides [OF ready, of c email] by blast
  have "bucket ty [] = []" for ty by (simp add: bucket_def)
  then have "routing_rules t = []" using run confined_sameD [OF routing_frame.confined_route run]
    by (auto simp: route_for_record_def bind_run load_active_rules_run active_rules_def review_simps
        ad_hoc_rule_def fallback_decision_def read_default_sales_rep_def
        split: prod.splits sum.splits dest!: get_typed_pure)
  with run show "\<exists>d t. route_for_record demo_env c email demo_review = (Inr d, t) \<and>
      routing_rules t = routing_rules demo_review" by (simp add: review_simps)
qed

text \<open>
  Testing a live rule returns and changes nothing. For an ad hoc rule it reports the match
  that routing computes. For a geographic rule, given the customer's state and ZIP and the
  coordinates the geocoder gives for the address, it reports what the matcher of the waterfall
  decides, if the rule's radius is positive. For a round-robin rule with reps it names the rep
  that the next claim will return.
\<close>

theorem rule_test_agrees_with_routing:
  assumes "filter (\<lambda>r. rule_id r = i) (routing_rules s) = [rule]" "rule_deleted_at rule = None"
  shows "\<exists>res. test_rule E i inp s = (Inr res, s) \<and>
    (rule_type rule = ''ad_hoc'' \<longrightarrow>
       tst_matched res = ad_hoc_matches E rule (tin_customer_id inp) (tin_customer_email inp)) \<and>
    (rule_type rule = ''geographic'' \<longrightarrow>
       (\<forall>c address lat lng t. tin_customer_state inp = cus_address_state c \<and>
          tin_customer_zip inp = cus_address_zip c \<and> tin_customer_lat inp = Some lat \<and>
          tin_customer_lng inp = Some lng \<and> format_customer_address c = Some address \<and>
          geocode E address s = (Inr (Some (lat, lng)), t) \<and>
          (\<forall>a b r. metro_of rule = Some (a, b, r) \<longrightarrow> 0 < r) \<longrightarrow>
          fst (geo_hit E c rule s) = Inr (tst_matched res))) \<and>
    (rule_type rule \<notin> {''ad_hoc'', ''geographic''} \<and> round_robin_rep_ids E rule \<noteq> [] \<longrightarrow>
       fst (claim_next_round_robin i (round_robin_rep_ids E rule) s) = Inr (tst_would_assign_to res))"
proof -
  have run: "get_rule i s = (Inr rule, s)" by (rule get_rule_run [OF assms])
  consider "rule_type rule = ''ad_hoc''" | "rule_type rule = ''geographic''"
    | "rule_type rule \<noteq> ''ad_hoc''" "rule_type rule \<noteq> ''geographic''" by blast
  then show ?thesis
  proof cases
    case 1
    then show ?thesis by (simp add: test_rule_def bind_run run Let_def)
  next
    case 2
    then show ?thesis
      by (auto simp: test_rule_def bind_run run Let_def geo_hit_def metro_matches_def
          metro_matches_synthetic_def haversine_symmetric split: option.splits)
  next
    case 3
    then show ?thesis using claim_rep_run [OF assms(1)]
      by (simp add: test_rule_def bind_run run Let_def next_rep_def)
  qed
qed

theorem rule_test_agrees_with_routing_witness:
  "\<exists>res. test_rule demo_env 60 \<lparr>tin_customer_id = None, tin_customer_email = None, tin_customer_state = None,
       tin_customer_zip = None, tin_customer_lat = None, tin_customer_lng = None\<rparr>
       (demo_review\<lparr>routing_rules := [demo_pool]\<rparr>) = (Inr res, demo_review\<lparr>routing_rules := [demo_pool]\<rparr>) \<and>
     tst_would_assign_to res = Some 7"
proof -
  let ?s = "demo_review\<lparr>routing_rules := [demo_pool]\<rparr>"
  let ?inp = "\<lparr>tin_customer_id = None, tin_customer_email = None, tin_customer_state = None,
       tin_customer_zip = None, tin_customer_lat = None, tin_customer_lng = None\<rparr>"
  have f: "filter (\<lambda>r. rule_id r = 60) (routing_rules ?s) = [demo_pool]" "rule_deleted_at demo_pool = None"
    by (simp_all add: demo_pool_def demo_rule_def)
  have "rule_type demo_pool \<notin> {''ad_hoc'', ''geographic''}" "round_robin_rep_ids demo_env demo_pool \<noteq> []"
    by (simp add: demo_pool_def demo_rule_def, simp add: demo_pool_reps)
  moreover have "fst (claim_next_round_robin 60 (round_robin_rep_ids demo_env demo_pool) ?s) = Inr (Some 7)"
    by (subst claim_rep_run [OF f(1)]) (simp_all add: demo_pool_reps next_rep_def, simp add: demo_pool_def demo_rule_def)
  ultimately show ?thesis using rule_test_agrees_with_routing [OF f, of demo_env ?inp] by auto
qed

text \<open>
  Consistency of the rules (unique ids, at most one live rule per type and priority, no
  negative priority of a live rule) is kept by creating a rule with a new id and an accepted
  priority, by every patch with an accepted priority, by deleting, by renumbering, and by routing.
\<close>

theorem rule_slots_stay_consistent:
  assumes "rules_ok s"
  shows "(\<forall>u ty p c a b r t. create_rule E u ty p c a b s = (Inr r, t) \<and> 0 \<le> p \<and>
      random_uuid E (draws s) \<notin> rule_id ` set (routing_rules s) \<longrightarrow> rules_ok t) \<and>
    (\<forall>i patch r t. update_rule E i patch s = (Inr r, t) \<and>
      (case rpatch_priority patch of Some (Some p) \<Rightarrow> 0 \<le> p | _ \<Rightarrow> True) \<longrightarrow> rules_ok t) \<and>
    (\<forall>i r t. soft_delete_rule i s = (Inr r, t) \<longrightarrow> rules_ok t) \<and>
    (\<forall>ty ids x t. reorder_priorities ty ids s = (Inr x, t) \<longrightarrow> rules_ok t) \<and>
    (\<forall>c email r t. route_for_record E c email s = (r, t) \<longrightarrow> rules_ok t)"
proof (intro conjI allI impI)
  fix u ty p c a b r t
  assume "create_rule E u ty p c a b s = (Inr r, t) \<and> 0 \<le> p \<and>
    random_uuid E (draws s) \<notin> rule_id ` set (routing_rules s)"
  then show "rules_ok t" using create_rule_keeps [OF _ assms] by blast
next
  fix i patch r t
  assume "update_rule E i patch s = (Inr r, t) \<and>
    (case rpatch_priority patch of Some (Some p) \<Rightarrow> 0 \<le> p | _ \<Rightarrow> True)"
  then show "rules_ok t" using update_rule_keeps [OF _ assms] by blast
next
  fix i r t assume "soft_delete_rule i s = (Inr r, t)"
  then show "rules_ok t" by (rule soft_delete_keeps [OF _ assms])
next
  fix ty ids x t assume "reorder_priorities ty ids s = (Inr x, t)"
  then show "rules_ok t" by (rule reorder_keeps [OF _ assms])
next
  fix c email r t assume "route_for_record E c email s = (r, t)"
  then show "rules_ok t" by (rule confined_preservesD [OF routing_slots.confined_route _ assms])
qed

theorem rule_slots_stay_consistent_witness:
  "\<exists>r t. soft_delete_rule 60 (demo_review\<lparr>routing_rules := [demo_rule 60 ''ad_hoc'' 0 [] (Some 1)]\<rparr>) = (Inr r, t) \<and>
     rules_ok t"
proof -
  let ?s = "demo_review\<lparr>routing_rules := [demo_rule 60 ''ad_hoc'' 0 [] (Some 1)]\<rparr>"
  have ok: "rules_ok ?s" by (simp add: rules_ok_def slots_unique_def demo_rule_def)
  obtain r t where "soft_delete_rule 60 ?s = (Inr r, t)"
    by (simp add: soft_delete_rule_def get_rule_def run_simps demo_rule_def save_rule_def Let_def)
  moreover have "rules_ok t" if "soft_delete_rule 60 ?s = (Inr r, t)" for r t
    using rule_slots_stay_consistent [OF ok, of demo_env, THEN conjunct2, THEN conjunct2, THEN conjunct1] that
    by blast
  ultimately show ?thesis by blast
qed

text \<open>
  If the provider answers an uncached address with a JSON array, \<open>geocode\<close> raises an
  attribute error, and so does the walk over geographic rules that starts with a metro rule the
  state and ZIP of the customer do not match.
\<close>

theorem geocoder_array_raises:
  assumes "cfg_google_maps_api_key E \<noteq> ''''" "address \<noteq> ''''"
    and "google_get E GEOCODE_URL [(''address'', address), (''key'', cfg_google_maps_api_key E)] = Some (JArr xs)"
    and "\<forall>g \<in> set (geocodes s). gc_address_hash g \<noteq> cache_key E address"
  shows "geocode E address s = (Inl (AttributeError ''get''), s) \<and>
    (\<forall>c rule rules lat lon r. format_customer_address c = Some address \<and> metro_of rule = Some (lat, lon, r) \<and> 0 < r \<and>
       \<not> geo_matches rule (cus_address_state c) (cus_address_zip c) \<longrightarrow>
       geo_walk E c (rule # rules) s = (Inl (AttributeError ''get''), s))"
proof -
  have "filter (\<lambda>c. gc_address_hash c = cache_key E address \<and> clock s < gc_expires_at c) (geocodes s) = []"
    using assms(4) by (auto simp: filter_empty_conv)
  then have g: "geocode E address s = (Inl (AttributeError ''get''), s)"
    using assms(1-3)
    by (simp add: geocode_def run_simps Let_def none_on_bad_body_def parse_geocode_def py_get_def)
  then show ?thesis by (auto simp: geo_hit_def metro_matches_def bind_run)
qed

theorem geocoder_array_raises_witness:
  "geocode (demo_env\<lparr>cfg_google_maps_api_key := ''k'', google_get := \<lambda>_ _. Some (JArr [])\<rparr>) ''1 Main St'' demo_review =
     (Inl (AttributeError ''get''), demo_review)"
proof -
  let ?E = "demo_env\<lparr>cfg_google_maps_api_key := ''k'', google_get := \<lambda>_ _. Some (JArr [])\<rparr>"
  have "cfg_google_maps_api_key ?E \<noteq> ''''" "''1 Main St'' \<noteq> ''''"
    "google_get ?E GEOCODE_URL [(''address'', ''1 Main St''), (''key'', cfg_google_maps_api_key ?E)] = Some (JArr [])"
    "\<forall>g \<in> set (geocodes demo_review). gc_address_hash g \<noteq> cache_key ?E ''1 Main St''"
    by (simp_all add: review_simps)
  then show ?thesis using geocoder_array_raises by blast
qed

text \<open>
  On a known channel, enqueueing a key twice queues one job: the first call appends a pending
  job and returns it, the second returns \<open>None\<close> and leaves the queue. Keys stay unique, and an
  unknown channel is refused with nothing queued.
\<close>

theorem enqueue_once_per_key:
  assumes "keys_unique s" "\<not> has_key key s"
  shows "if c \<in> set CHANNELS
    then \<exists>job t t'. enqueue E key u c tpl p d s = (Inr (Some job), t) \<and>
        notification_jobs t = notification_jobs s @ [job] \<and> job_status job = ''pending'' \<and>
        keys_unique t \<and>
        enqueue E key u' c tpl' p' d' t = (Inr None, t') \<and> notification_jobs t' = notification_jobs t
    else \<exists>e. enqueue E key u c tpl p d s = (Inl e, s)"
  using assms
  by (auto simp: enqueue_run Let_def new_job_def has_key_def keys_unique_def)

theorem enqueue_once_per_key_witness:
  "\<exists>job t t'. enqueue demo_env ''k'' None ''email'' ''t'' [] None demo_db = (Inr (Some job), t) \<and>
     enqueue demo_env ''k'' None ''email'' ''t2'' [] None t = (Inr None, t')"
proof -
  have "keys_unique demo_db" "\<not> has_key ''k'' demo_db"
    by (simp_all add: keys_unique_def has_key_def demo_simps)
  from enqueue_once_per_key [OF this, of "''email''" demo_env None "''t''" "[]" None None "''t2''" "[]" None]
  show ?thesis unfolding if_P [OF CHANNELS_email(1)] by blast
qed

text \<open>
  Whatever returns among granting a role, revoking one and changing the primary role leaves
  the primary role of every user in the join table that role checks read.
\<close>

theorem primary_role_is_mirrored:
  assumes "roles_mirrored s" "user \<in> set (users s)" "distinct (map usr_id (users s))"
    and "grant user slug by s = (Inr (), t) \<or> revoke user slug s = (Inr (), t) \<or>
      (\<exists>u. set_primary_role user slug by s = (Inr u, t))"
  shows "roles_mirrored t"
  using assms(4) roles_mirrored_grant roles_mirrored_revoke [OF _ assms(1-3)]
    roles_mirrored_set_primary assms(1) by blast

theorem primary_role_is_mirrored_witness:
  "\<exists>t. grant (demo_user 1 9) ''sales'' None demo_db = (Inr (), t) \<and> roles_mirrored t"
proof -
  obtain t where g: "grant (demo_user 1 9) ''sales'' None demo_db = (Inr (), t)"
    by (auto simp: grant_def run_simps demo_simps)
  have "roles_mirrored demo_db"
    by (simp add: roles_mirrored_def holds_role_def is_grant_def demo_simps)
  then show ?thesis
    using g primary_role_is_mirrored [of demo_db "demo_user 1 9" "''sales''" None t]
    by (simp add: demo_simps)
qed

text \<open>
  Locks and edits together: a user acquires the lock of a record; other users then send any
  sequence of lock and release requests; at any later time before the expiry, an edit of the
  record's assignment that returns was authenticated as the holder of the lock.
\<close>

theorem locked_record_is_edited_by_holder_only:
  assumes "locks_ok s" "acquire E rid ''equipment_record'' v s = (Inr i, t)"
    and "\<forall>(c, r', w, q) \<in> set qs. c < new_expiry (clock s) \<and> w \<noteq> v"
    and "u = (rec_lock.serve E ''equipment_record'' qs t)\<lparr>clock := c\<rparr>" "c < new_expiry (clock s)"
    and "update_assignment E cred rid body u = (Inr d, t')"
  shows "\<exists>editor. get_current_user E cred u = (Inr editor, u) \<and> usr_id editor = v"
proof -
  have ok: "locks_ok t" by (rule acquire_keeps(1) [OF assms(1,2)])
  have "locked_until ''equipment_record'' (rec_lock.serve E ''equipment_record'' qs t) rid v
      (new_expiry (clock s))"
    by (rule rec_lock.kept [OF ok acquire_holds [OF assms(1,2)] assms(3)])
  moreover have "locks_ok (rec_lock.serve E ''equipment_record'' qs t)" by (rule rec_lock.serve_ok [OF ok])
  ultimately have "locked_until ''equipment_record'' u rid v (new_expiry (clock s))" "locks_ok u"
    "clock u < new_expiry (clock s)"
    using assms(5) by (simp_all add: assms(4) locked_until_def locks_ok_def)
  from other_user_cannot_assign [OF this(2,1,3) assms(6)] show ?thesis by blast
qed

theorem locked_record_is_edited_by_holder_only_witness:
  "\<exists>i t d t'. acquire demo_env 2 ''equipment_record'' 1 demo_review = (Inr i, t) \<and>
     update_assignment demo_env (Some ''tok-1'') 2 \<lparr>patch_sales_rep = None, patch_appraiser = Some None\<rparr>
       (t\<lparr>clock := 1000001\<rparr>) = (Inr d, t') \<and>
     (\<exists>editor. get_current_user demo_env (Some ''tok-1'') (t\<lparr>clock := 1000001\<rparr>) =
        (Inr editor, t\<lparr>clock := 1000001\<rparr>) \<and> usr_id editor = 1)"
proof -
  let ?b = "\<lparr>patch_sales_rep = None, patch_appraiser = Some None\<rparr>"
  have ok: "locks_ok demo_review" by (simp add: locks_ok_def review_simps)
  obtain i t where a: "acquire demo_env 2 ''equipment_record'' 1 demo_review = (Inr i, t)"
    using acquire_available [OF ok, of "''equipment_record''" 2 1 demo_env]
    by (auto simp: locked_until_def review_simps)
  let ?u = "t\<lparr>clock := 1000001\<rparr>"
  have t: "t = demo_review\<lparr>record_locks := record_locks t, draws := draws t\<rparr>"
    using a by (auto simp: acquire_def acquire_insert_def insert_lock_def find_lock_def run_simps
        Let_def review_simps)
  have exp: "clock ?u < new_expiry (clock demo_review)"
    by (simp add: new_expiry_def LOCK_TTL_SECONDS_def seconds_def review_simps)
  have "locked_until ''equipment_record'' ?u 2 1 (new_expiry (clock demo_review))" "locks_ok ?u"
    using acquire_holds [OF ok a] acquire_keeps(1) [OF ok a] by (simp_all add: locked_until_def locks_ok_def)
  with exp have lock: "ensure_lock_held 2 1 ?u = (Inr (), ?u)"
    using ensure_lock_held_iff [of ?u 2 1 ?u] by blast
  have tabs: "users t = [demo_user 1 9]" "roles t = [demo_role]" "user_roles t = [demo_grant 1 9]"
    "equipment_records t = [demo_record 2 ''appraisal_complete'']" "customers t = [demo_customer (Some 1)]"
    by (subst t, simp add: review_simps)+
  have me: "get_current_user demo_env (Some ''tok-1'') ?u = (Inr (demo_user 1 9), ?u)"
    by (simp add: get_current_user_def load_account_def run_simps obj_get_def demo_env_def tabs demo_user_def)
  have role: "\<exists>r \<in> set (roles ?u). role_slug r \<in> set SALES_ROLES \<and> holds_role ?u (usr_id (demo_user 1 9)) (role_id r)"
    by (simp add: tabs holds_role_def is_grant_def demo_grant_def demo_role_def demo_user_def SALES_ROLES_def)
  have "\<exists>d t'. update_assignment demo_env (Some ''tok-1'') 2 ?b ?u = (Inr d, t')"
    unfolding update_assignment_def guarded_route_run [OF me role]
    using lock by (simp add: acting_role_slug_def primary_role_slug_def get_record_detail_def load_detail_def
        detail_with_def apply_assignment_def check_assignees_def assigned_def run_simps tabs
        demo_user_def demo_role_def demo_record_def demo_customer_def update_where_def Let_def)
  then obtain d t' where run: "update_assignment demo_env (Some ''tok-1'') 2 ?b ?u = (Inr d, t')" by blast
  have "rec_lock.serve demo_env ''equipment_record'' [] t = t" by simp
  then show ?thesis
    using a run locked_record_is_edited_by_holder_only [OF ok a, of "[]" ?u 1000001, OF _ _ _ run] exp
    by auto
qed

text \<open>
  When the dashboard returns, its groups belong to distinct customers, hold together exactly
  the live records of the caller's scope and filters, each under its customer, and are sorted by
  their earliest record. For a caller with the plain sales role all of them are the caller's own,
  whatever scope was asked for.
\<close>

theorem dashboard_partitions_visible_records:
  assumes "list_dashboard u slug scope st rep s = (Inr (pairs, n), t)"
  shows "distinct (map (\<lambda>(c, _). cus_id c) pairs) \<and>
    (\<Union>(c, rs) \<in> set pairs. set rs) = {r \<in> set (equipment_records s). in_dashboard u slug scope st rep r} \<and>
    (\<forall>(c, rs) \<in> set pairs. rs \<noteq> [] \<and> (\<forall>r \<in> set rs. er_customer_id r = cus_id c \<and> er_deleted_at r = None)) \<and>
    sorted (map (\<lambda>(_, rs). earliest rs) pairs) \<and>
    (slug = ''sales'' \<longrightarrow> scope \<in> {''mine'', ''all''} \<longrightarrow>
      (\<forall>(c, rs) \<in> set pairs. \<forall>r \<in> set rs. er_assigned_sales_rep_id r = Some (usr_id u)))"
  using list_dashboard_groups [OF assms] by (fastforce simp: in_dashboard_def Let_def)

theorem dashboard_partitions_visible_records_witness:
  "\<exists>pairs n t. list_dashboard (demo_user 1 9) ''sales_manager'' ''all'' None None demo_review =
     (Inr (pairs, n), t) \<and> (\<Union>(c, rs) \<in> set pairs. set rs) = {demo_record 2 ''appraisal_complete''}"
proof -
  have "\<exists>p t. list_dashboard (demo_user 1 9) ''sales_manager'' ''all'' None None demo_review = (Inr p, t)"
    by (simp add: list_dashboard_def run_simps in_dashboard_def group_by_def review_simps)
  then obtain pairs n t where run:
    "list_dashboard (demo_user 1 9) ''sales_manager'' ''all'' None None demo_review = (Inr (pairs, n), t)"
    by auto
  have "{r \<in> set (equipment_records demo_review).
      in_dashboard (demo_user 1 9) ''sales_manager'' ''all'' None None r} =
      {demo_record 2 ''appraisal_complete''}"
    by (auto simp: in_dashboard_def review_simps)
  then show ?thesis using dashboard_partitions_visible_records [OF run] run by auto
qed

text \<open>
  A cascade that returns updates the assignees of the customer's live new requests and of no
  other record; no record changes its status, its id or its customer; the two lists it returns are
  the ids of the updated records and of the customer's other live records; nobody is notified.
\<close>

theorem cascade_leaves_started_work_alone:
  assumes "cascade_assignment cid u slug body s = (Inr (updated, skipped), t)"
  shows "equipment_records t = map (\<lambda>r. if in_cascade cid r then assigned body r else r) (equipment_records s) \<and>
    map er_status (equipment_records t) = map er_status (equipment_records s) \<and>
    set updated = er_id ` {r \<in> set (equipment_records s). in_cascade cid r} \<and>
    set skipped = er_id ` {r \<in> set (equipment_records s). er_customer_id r = cid \<and>
      er_deleted_at r = None \<and> er_status r \<noteq> ''new_request''} \<and>
    notification_jobs t = notification_jobs s"
  using cascade_returns [OF assms] by (auto simp: update_where_def assigned_same)

theorem cascade_leaves_started_work_alone_witness:
  "\<exists>updated skipped t. cascade_assignment 50 (demo_user 1 9) ''sales''
     \<lparr>patch_sales_rep = Some None, patch_appraiser = None\<rparr>
     (demo_review\<lparr>equipment_records := [demo_record 2 ''new_request'', demo_record 3 ''listed'']\<rparr>) =
     (Inr (updated, skipped), t) \<and> set updated = {2} \<and> set skipped = {3}"
proof -
  let ?s = "demo_review\<lparr>equipment_records := [demo_record 2 ''new_request'', demo_record 3 ''listed'']\<rparr>"
  let ?b = "\<lparr>patch_sales_rep = Some None, patch_appraiser = None\<rparr>"
  have "\<exists>p t. cascade_assignment 50 (demo_user 1 9) ''sales'' ?b ?s = (Inr p, t)"
    by (simp add: cascade_assignment_def check_assignees_def run_simps Let_def review_simps)
  then obtain updated skipped t where run:
    "cascade_assignment 50 (demo_user 1 9) ''sales'' ?b ?s = (Inr (updated, skipped), t)" by auto
  have "set (map er_id (filter (in_cascade 50) (equipment_records ?s))) = {2}"
    "set (map er_id (filter (\<lambda>r. er_customer_id r = 50 \<and> er_deleted_at r = None \<and>
      er_status r \<noteq> ''new_request'') (equipment_records ?s))) = {3}"
    by (simp_all add: in_cascade_def CASCADE_ASSIGNABLE_STATUSES_def review_simps)
  moreover have "set updated = er_id ` {r \<in> set (equipment_records ?s). in_cascade 50 r}"
    "set skipped = er_id ` {r \<in> set (equipment_records ?s). er_customer_id r = 50 \<and>
      er_deleted_at r = None \<and> er_status r \<noteq> ''new_request''}"
    using cascade_leaves_started_work_alone [OF run] by blast+
  ultimately have "set updated = {2}" "set skipped = {3}" by (simp_all only: set_map set_filter)
  with run show ?thesis by blast
qed

text \<open>
  A typed value survives its storage: for a registered key, writing succeeds exactly when the
  validator of the key accepts the value; afterwards reading that key returns the value as it was
  given, and every other key reads as before.
\<close>

theorem config_reads_what_was_written:
  assumes "config_keys_distinct s" "find (\<lambda>k. ks_name k = key) registry_keys = Some spec"
  shows "(ks_validator spec v = None \<longleftrightarrow> (\<exists>t. set_typed key v s = (Inr (), t))) \<and>
    (\<forall>t. set_typed key v s = (Inr (), t) \<longrightarrow> fst (get_typed key t) = Inr v \<and>
      (\<forall>other. other \<noteq> key \<longrightarrow> fst (get_typed other t) = fst (get_typed other s)))"
proof -
  have run: "set_typed key v s = (case ks_validator spec v of Some e \<Rightarrow> (Inl e, s)
      | None \<Rightarrow> (Inr (), s\<lparr>app_configs := upsert_config key (serialize_dict_field (ks_field spec) v) (app_configs s)\<rparr>))"
    using assms(2) by (simp add: set_typed_def run_simps split: option.splits)
  have other: "filter (\<lambda>c. cfg_key c = k) (upsert_config key w cs) = filter (\<lambda>c. cfg_key c = k) cs" if "k \<noteq> key" for k w cs
  proof -
    have "filter (\<lambda>c. cfg_key c = k) (update_where (\<lambda>c. cfg_key c = key) (\<lambda>c. c\<lparr>cfg_value := w\<rparr>) cs) =
        filter (\<lambda>c. cfg_key c = k) cs"
      using that by (induction cs) (auto simp: update_where_def)
    with that show ?thesis by (simp add: upsert_config_def)
  qed
  have "fst (get_typed key t) = Inr v \<and> (\<forall>k. k \<noteq> key \<longrightarrow> fst (get_typed k t) = fst (get_typed k s))"
    if "set_typed key v s = (Inr (), t)" for t
  proof -
    have t: "app_configs t = upsert_config key (serialize_dict_field (ks_field spec) v) (app_configs s)"
      using that run by (auto split: option.splits)
    obtain c where "filter (\<lambda>c. cfg_key c = key) (app_configs t) = [c]"
      "cfg_value c = serialize_dict_field (ks_field spec) v"
      using filter_upsert_config [of "app_configs s" key] assms(1) t by (auto simp: config_keys_distinct_def)
    then have "fst (get_typed key t) = Inr v"
      using assms(2) by (simp add: get_typed_def run_simps serialize_dict_field_def obj_get_def)
    moreover have "fst (get_typed k t) = fst (get_typed k s)" if "k \<noteq> key" for k
      using other [OF that] t by (simp add: get_typed_def run_simps split: option.splits list.splits)
    ultimately show ?thesis by blast
  qed
  with run show ?thesis by (cases "ks_validator spec v") auto
qed

theorem config_reads_what_was_written_witness:
  "\<exists>t. set_typed ''drive_time_fallback_minutes'' (JInt 45) demo_db = (Inr (), t) \<and>
     fst (get_typed ''drive_time_fallback_minutes'' t) = Inr (JInt 45)"
proof -
  have d: "config_keys_distinct demo_db" by (simp add: config_keys_distinct_def demo_simps)
  have f: "find (\<lambda>k. ks_name k = ''drive_time_fallback_minutes'') registry_keys = Some DRIVE_TIME_FALLBACK_MINUTES"
    by (simp add: registry_keys_def key_spec_def TOS_CURRENT_VERSION_def PRIVACY_CURRENT_VERSION_def
        DRIVE_TIME_FALLBACK_MINUTES_def)
  have "ks_validator DRIVE_TIME_FALLBACK_MINUTES (JInt 45) = None"
    by (simp add: DRIVE_TIME_FALLBACK_MINUTES_def key_spec_def validate_positive_int_def)
  with config_reads_what_was_written [OF d f, of "JInt 45"] show ?thesis by blast
qed

text \<open>
  What a worker claims: no more than its limit, only rows that were pending and due, which
  are now processing; so the next claim, by whichever worker, hands out none of them again.
\<close>

theorem claim_hands_out_due_jobs:
  assumes "claim_next_batch limit s = (Inr js, t)" "distinct (map job_id (notification_jobs s))"
    and "claim_next_batch limit' t = (Inr js', t')"
  shows "length js \<le> limit \<and>
    (\<forall>j \<in> set js. \<exists>i \<in> set (notification_jobs s).
      is_due (clock s) i \<and> j = i\<lparr>job_status := ''processing''\<rparr>) \<and>
    set (map job_id js') \<inter> set (map job_id js) = {}"
proof (intro conjI ballI)
  show "length js \<le> limit" by (rule claim_spec(1) [OF assms(1,2)])
  show sp: "\<exists>i \<in> set (notification_jobs s). is_due (clock s) i \<and> j = i\<lparr>job_status := ''processing''\<rparr>"
    if "j \<in> set js" for j
    using claim_spec(2) [OF assms(1,2) that] by blast
  have ids: "map job_id (notification_jobs t) = map job_id (notification_jobs s)"
    using assms(1) by (auto simp: claim_run Let_def map_update_where split: if_splits)
  then have d: "distinct (map job_id (notification_jobs t))" using assms(2) by simp
  show "set (map job_id js') \<inter> set (map job_id js) = {}"
  proof (rule ccontr)
    assume "set (map job_id js') \<inter> set (map job_id js) \<noteq> {}"
    then obtain j' j where j: "j' \<in> set js'" "j \<in> set js" "job_id j' = job_id j" by auto
    obtain i where i: "i \<in> set (notification_jobs t)" "is_due (clock t) i"
      "j' = i\<lparr>job_status := ''processing''\<rparr>"
      using claim_spec(2) [OF assms(3) d j(1)] by blast
    have "j \<in> set (notification_jobs t)" "job_status j = ''processing''"
      using claim_spec(2) [OF assms(1,2) j(2)] by blast+
    moreover have "i = j" using d i(1,3) j(3) calculation(1) by (auto simp: distinct_map dest: inj_onD)
    ultimately show False using i(2) by (simp add: is_due_def)
  qed
qed

theorem claim_hands_out_due_jobs_witness:
  "\<exists>js t. claim_next_batch 1 (demo_db\<lparr>notification_jobs := [new_job 7 ''k'' None ''email'' ''t'' [] 0]\<rparr>) =
      (Inr js, t) \<and> length js \<le> 1"
proof -
  obtain js t where c: "claim_next_batch 1
      (demo_db\<lparr>notification_jobs := [new_job 7 ''k'' None ''email'' ''t'' [] 0]\<rparr>) = (Inr js, t)"
    using claim_returns by blast
  then show ?thesis using claim_hands_out_due_jobs [OF c] claim_returns [of 1 t] by auto
qed

text \<open>
  The statuses in the table are known ones, and remain so through every transition that
  returns.
\<close>

theorem transition_keeps_statuses_known:
  assumes "record_transition E record st by note c ov s = (Inr x, t)" "statuses_known s"
  shows "statuses_known t"
  using assms by (rule statuses_known_transition)

theorem transition_keeps_statuses_known_witness:
  "\<exists>x t. record_transition demo_env (demo_record 2 ''appraiser_assigned'') ''appraisal_complete''
      None None None None demo_db = (Inr x, t) \<and> statuses_known t"
proof -
  obtain x t where r: "record_transition demo_env (demo_record 2 ''appraiser_assigned'')
      ''appraisal_complete'' None None None None demo_db = (Inr x, t)"
    using record_transition_succeeds [OF demo_allowed demo_ready] by blast
  have "statuses_known demo_db"
    by (simp add: statuses_known_def demo_simps is_known_iff_value all_status_values_def
        all_status_def)
  with r show ?thesis using transition_keeps_statuses_known [OF r] by blast
qed

text \<open>
  A heartbeat returns if and only if the caller's lock on the record has not expired; it then
  runs for another 900 seconds, and the locks of other records are untouched. So a lock that ran
  out cannot be revived by a heartbeat.
\<close>

theorem heartbeat_extends_only_live_locks:
  assumes "locks_ok s"
  shows "((\<exists>i t. heartbeat rid ty u s = (Inr i, t)) \<longleftrightarrow> (\<exists>e. locked_until ty s rid u e \<and> clock s < e)) \<and>
    (\<forall>i t. heartbeat rid ty u s = (Inr i, t) \<longrightarrow>
      locks_ok t \<and> locked_until ty t rid u (clock s + seconds 900) \<and> others rid ty t = others rid ty s)"
  using heartbeat_iff [OF assms] heartbeat_extends [OF assms]
  by (auto simp: new_expiry_def LOCK_TTL_SECONDS_def)

theorem heartbeat_extends_only_live_locks_witness:
  "\<not> (\<exists>i t. heartbeat 2 ''equipment_record'' 1 demo_db = (Inr i, t)) \<and>
   (\<exists>i t. heartbeat 2 ''equipment_record'' 1 (demo_db\<lparr>record_locks :=
      [\<lparr>lock_id = 3, lock_record_id = 2, lock_record_type = ''equipment_record'',
        lock_locked_by = 1, lock_locked_at = 0, lock_expires_at = 1000001\<rparr>]\<rparr>) = (Inr i, t))"
proof -
  let ?s = "demo_db\<lparr>record_locks := [\<lparr>lock_id = 3, lock_record_id = 2,
      lock_record_type = ''equipment_record'', lock_locked_by = 1, lock_locked_at = 0,
      lock_expires_at = 1000001\<rparr>]\<rparr>"
  have ok: "locks_ok demo_db" "locks_ok ?s"
    by (simp_all add: locks_ok_def demo_simps)
  have "\<not> (\<exists>e. locked_until ''equipment_record'' demo_db 2 1 e \<and> clock demo_db < e)"
    and "\<exists>e. locked_until ''equipment_record'' ?s 2 1 e \<and> clock ?s < e"
    by (simp_all add: locked_until_def is_lock_of_def demo_simps)
  then show ?thesis
    using heartbeat_extends_only_live_locks [OF ok(1), THEN conjunct1]
      heartbeat_extends_only_live_locks [OF ok(2), THEN conjunct1] by blast
qed

text \<open>
  When two active ad hoc rules match a customer, the earlier row decides, even if the later
  one has the smaller priority number; the comment at the load speaks of rules ordered by type
  and priority.
\<close>

theorem ad_hoc_priority_is_ignored:
  assumes "filter (\<lambda>r. rule_deleted_at r = None \<and> rule_is_active r) (routing_rules s) = [first, second]"
    and "rule_type first = ''ad_hoc''" "rule_type second = ''ad_hoc''"
    and "ad_hoc_matches E first (Some (cus_id c)) email" "ad_hoc_matches E second (Some (cus_id c)) email"
    and "rule_assigned_user_id first = Some u" "rule_assigned_user_id second = Some v"
    and "rule_priority second < rule_priority first"
  shows "\<exists>d. route_for_record E c email s = (Inr d, s) \<and> dec_assigned_user_id d = Some u"
  using assms(2,4,6)
  by (simp add: route_for_record_def bind_run load_active_rules_def assms(1) ad_hoc_rule_def decided_def)

theorem ad_hoc_priority_is_ignored_witness:
  "\<exists>d. route_for_record demo_env (demo_customer None) (Some ''x@acme.com'')
     (demo_review\<lparr>routing_rules :=
        [demo_rule 60 ''ad_hoc'' 5 [(''condition_type'', JStr ''email_domain''), (''value'', JStr ''acme.com'')] (Some 1),
         demo_rule 61 ''ad_hoc'' 0 [(''condition_type'', JStr ''email_domain''), (''value'', JStr ''acme.com'')] (Some 7)]\<rparr>) =
     (Inr d, demo_review\<lparr>routing_rules :=
        [demo_rule 60 ''ad_hoc'' 5 [(''condition_type'', JStr ''email_domain''), (''value'', JStr ''acme.com'')] (Some 1),
         demo_rule 61 ''ad_hoc'' 0 [(''condition_type'', JStr ''email_domain''), (''value'', JStr ''acme.com'')] (Some 7)]\<rparr>) \<and>
     dec_assigned_user_id d = Some 1"
proof -
  let ?c = "[(''condition_type'', JStr ''email_domain''), (''value'', JStr ''acme.com'')]"
  let ?s = "demo_review\<lparr>routing_rules := [demo_rule 60 ''ad_hoc'' 5 ?c (Some 1), demo_rule 61 ''ad_hoc'' 0 ?c (Some 7)]\<rparr>"
  have dom: "lower (strip ''acme.com'') = ''acme.com''" "lower ''x@acme.com'' = ''x@acme.com''"
    by (simp_all add: lower_def lower_char_def strip_def is_space_def)
  have m: "ad_hoc_matches demo_env (demo_rule i ''ad_hoc'' p ?c u) (Some j) (Some ''x@acme.com'')" for i p u j
    by (simp add: ad_hoc_matches_def demo_rule_def conds_def obj_get_def dom starts_with_def ends_with_def)
  have f: "filter (\<lambda>r. rule_deleted_at r = None \<and> rule_is_active r) (routing_rules ?s) =
      [demo_rule 60 ''ad_hoc'' 5 ?c (Some 1), demo_rule 61 ''ad_hoc'' 0 ?c (Some 7)]"
    by (simp add: demo_rule_def)
  show ?thesis
    by (rule ad_hoc_priority_is_ignored [OF f _ _ m m]) (simp_all add: demo_rule_def)
qed

text \<open>
  When a flagged submission is submitted, every active manager has one e-mail job under the key of
  this submission. Its payload lacks the subject and the body, so every attempt to process it
  ends with the status \<open>failed\<close>: no manager is told.
\<close>

theorem review_mail_fails:
  assumes "submit E i u s = (Inr z, t)" "sub_management_review_required z"
    and "m \<in> set (active_managers s)" "\<not> has_key (review_key (sub_id z) (usr_id m)) s"
  shows "\<exists>j. jobs_of (review_key (sub_id z) (usr_id m)) t = [j] \<and>
    (\<forall>E' v. fst (process_job E' j v) = Inr ''failed'' \<and> outbox (snd (process_job E' j v)) = outbox v)"
  using submit_queues_stuck_jobs [OF assms(1,3) _ assms(2)] assms(4) process_undeliverable
  unfolding jobs_of_empty stuck_job_def by blast

theorem review_mail_fails_witness:
  "\<exists>t j. submit demo_env 20 (demo_user 1 9) demo_drafts = (Inr demo_sent, t) \<and>
     jobs_of (review_key 20 3) t = [j] \<and> fst (process_job demo_env j t) = Inr ''failed''"
proof -
  obtain t where t: "submit demo_env 20 (demo_user 1 9) demo_drafts = (Inr demo_sent, t)" using demo_submits by blast
  let ?m = "(demo_user 3 8)\<lparr>usr_email := ''m@b.c''\<rparr>"
  have "sub_management_review_required demo_sent" "sub_id demo_sent = 20" "usr_id ?m = 3"
    by (simp_all add: demo_sent_def snapshot_def demo_draft_def demo_submission_def demo_user_def)
  moreover have "?m \<in> set (active_managers demo_drafts)"
    by (simp add: active_managers_def drafts_simps demo_user_def demo_role_def demo_manager_role_def)
  moreover have "\<not> has_key k demo_drafts" for k by (simp add: has_key_def drafts_simps)
  ultimately show ?thesis using review_mail_fails [OF t, of ?m] t by auto
qed

text \<open>
  When a rejection returns, the sales representative of the record has one e-mail job, if it
  is the first rejection of this submission. Its payload lacks the subject and the body, so every
  attempt to process it ends with the status \<open>failed\<close> and hands nothing to the mail provider:
  the notices of a rejection never arrive.
\<close>

theorem rejection_mail_fails:
  assumes "reject E i u notes back s = (Inr x, t)"
    and "find (\<lambda>r. er_id r = sub_equipment_record_id sub) (equipment_records s) = Some rec"
    and "filter (\<lambda>x. sub_id x = i \<and> sub_deleted_at x = None) (appraisal_submissions s) = [sub]"
    and "er_assigned_sales_rep_id rec \<noteq> None" "\<not> has_key (sales_rep_rejection_key i) s"
  shows "\<exists>j. jobs_of (sales_rep_rejection_key i) t = [j] \<and>
    (\<forall>E' v. fst (process_job E' j v) = Inr ''failed'' \<and> outbox (snd (process_job E' j v)) = outbox v)"
  using assms(1)
proof (rule reject_returns)
  fix submission rec'
  assume h: "filter (\<lambda>x. sub_id x = i \<and> sub_deleted_at x = None) (appraisal_submissions s) = [submission]"
    "find (\<lambda>r. er_id r = sub_equipment_record_id submission) (equipment_records s) = Some rec'"
    "er_assigned_sales_rep_id rec' \<noteq> None \<Longrightarrow> jobs_of (sales_rep_rejection_key i) s = [] \<Longrightarrow>
      \<exists>j. jobs_of (sales_rep_rejection_key i) t = [j] \<and> undeliverable j"
  then have "rec' = rec" using assms(2,3) by simp
  then obtain j where "jobs_of (sales_rep_rejection_key i) t = [j]" "undeliverable j"
    using h(3) assms(4,5) jobs_of_empty by blast
  then show ?thesis using process_undeliverable by blast
qed

theorem rejection_mail_fails_witness:
  "\<exists>x t j. reject demo_env 20 (demo_user 1 9) ''no'' False (demo_review\<lparr>equipment_records :=
       [(demo_record 2 ''appraisal_complete'')\<lparr>er_assigned_sales_rep_id := Some 1\<rparr>]\<rparr>) = (Inr x, t) \<and>
     jobs_of (sales_rep_rejection_key 20) t = [j] \<and>
     fst (process_job demo_env j t) = Inr ''failed''"
proof -
  let ?rec = "(demo_record 2 ''appraisal_complete'')\<lparr>er_assigned_sales_rep_id := Some 1\<rparr>"
  let ?s = "demo_review\<lparr>equipment_records := [?rec]\<rparr>"
  let ?sub = "demo_submission 20 2 ''submitted''"
  have f: "find (\<lambda>r. er_id r = sub_equipment_record_id ?sub) (equipment_records ?s) = Some ?rec"
    and g: "filter (\<lambda>x. sub_id x = 20 \<and> sub_deleted_at x = None) (appraisal_submissions ?s) = [?sub]"
    and k: "\<not> has_key (sales_rep_rejection_key 20) ?s" "er_assigned_sales_rep_id ?rec \<noteq> None"
    by (simp_all add: review_simps has_key_def)
  have al: "allowed (er_status ?rec) ''declined''" by (simp add: review_simps allowed_simps)
  have "\<exists>x t. reject demo_env 20 (demo_user 1 9) ''no'' False ?s = (Inr x, t)"
    by (rule reject_succeeds [OF g _ f]) (use al demo_ready_review in
      \<open>simp_all add: review_simps notify_ready_def recipients_ok_def overrides_ok_def\<close>)
  then obtain x t where r: "reject demo_env 20 (demo_user 1 9) ''no'' False ?s = (Inr x, t)" by blast
  show ?thesis using rejection_mail_fails [OF r f g k(2,1)] r by blast
qed

text \<open>
  A walk-in customer has no user account. The assignment route answers with the detail view,
  which reads the account's e-mail address; so on such a record the route raises after the write
  and the request's transaction is rolled back. Nobody can be assigned this way.
\<close>

theorem walk_in_assignment_always_fails:
  assumes "\<forall>c \<in> set (customers s). cus_id c = cid \<longrightarrow> cus_user_id c = None"
    and "\<forall>r \<in> set (equipment_records s). er_id r = rid \<longrightarrow> er_customer_id r = cid"
  shows "(\<exists>e. fst (update_assignment E cred rid body s) = Inl e) \<and>
    snd (update_assignment E cred rid body s) = s"
proof -
  have "fst (update_assignment E cred rid body s) \<noteq> Inr d" for d
  proof
    assume "fst (update_assignment E cred rid body s) = Inr d"
    then obtain t where "update_assignment E cred rid body s = (Inr d, t)"
      by (cases "update_assignment E cred rid body s") auto
    then show False using update_assignment_detail [OF _ assms] by blast
  qed
  then obtain e where "fst (update_assignment E cred rid body s) = Inl e"
    by (cases "fst (update_assignment E cred rid body s)") auto
  then show ?thesis
    using guarded_route_denied [of E SALES_ROLES cred _ s e] unfolding update_assignment_def by blast
qed

theorem walk_in_assignment_always_fails_witness:
  "snd (update_assignment demo_env (Some ''tok-1'') 2 \<lparr>patch_sales_rep = Some (Some 1), patch_appraiser = None\<rparr>
     (demo_review\<lparr>customers := [demo_customer None]\<rparr>)) = demo_review\<lparr>customers := [demo_customer None]\<rparr>"
  by (rule conjunct2 [OF walk_in_assignment_always_fails [where cid = 50]])
    (simp_all add: review_simps)

text \<open>
  With a secret configured, a webhook call whose header is not the HMAC of the body fails
  and leaves every table as it was: nobody without the secret moves a contract.
\<close>

theorem unsigned_webhook_is_refused:
  assumes "cfg_webhook_secret E \<noteq> ''''"
    and "header \<noteq> Some (hmac_sha256_hex E (cfg_webhook_secret E) body)"
    and "hmac_sha256_hex E (cfg_webhook_secret E) body \<noteq> ''''"
  shows "\<exists>e. esign_webhook E body header s = (Inl e, s)"
  by (rule esign_webhook_unsigned [OF assms(1)]) (use assms(2,3) in \<open>auto split: option.splits\<close>)

theorem unsigned_webhook_is_refused_witness:
  "\<exists>e. esign_webhook (demo_env\<lparr>cfg_webhook_secret := ''key''\<rparr>) ''body'' None demo_db = (Inl e, demo_db)"
  by (rule unsigned_webhook_is_refused) (simp_all add: demo_env_def)

text \<open>
  The two settings of the form agree: the ordered list contains a field if and only if it is visible, and
  only fields the form knows, whatever values the configuration holds.
\<close>

theorem form_order_shows_the_visible_fields:
  assumes "field_order s = (Inr ord, t)"
  shows "t = s \<and> (\<exists>v. visible_fields s = (Inr v, s) \<and> set ord = set v \<and> set v \<subseteq> set INTAKE_FIELDS_CANONICAL)"
  using field_order_return [OF assms] visible_fields_return by metis

theorem form_order_shows_the_visible_fields_witness:
  "\<exists>ord. field_order demo_db = (Inr ord, demo_db) \<and> set ord \<subseteq> set INTAKE_FIELDS_CANONICAL"
proof -
  have k: "\<exists>fs. keep_names names (JArr (map JStr xs)) s = (Inr fs, s)" for names xs s
    by (simp add: keep_names_def run_simps list_all_iff hashable_def)
  then have v: "\<exists>v. visible_fields demo_db = (Inr v, demo_db)"
    using spec_found(2)
    by (simp add: visible_fields_def get_typed_def run_simps INTAKE_FIELDS_VISIBLE_def key_spec_def demo_db_def empty_db_def)
  obtain fs where "visible_fields demo_db = (Inr fs, demo_db)" using v by blast
  moreover obtain xs where "ks_default INTAKE_FIELDS_ORDER = JArr (map JStr xs)"
    by (simp add: INTAKE_FIELDS_ORDER_def key_spec_def) 
  moreover obtain gs where "keep_names (filter (\<lambda>f. f \<in> set INTAKE_FIELDS_CANONICAL) fs) (JArr (map JStr xs)) demo_db = (Inr gs, demo_db)"
    using k by blast
  ultimately have "\<exists>ord. field_order demo_db = (Inr ord, demo_db)"
    using spec_found(3)
    by (simp add: field_order_def get_typed_def run_simps demo_db_def empty_db_def)
  then obtain ord where "field_order demo_db = (Inr ord, demo_db)" by blast
  then show ?thesis using form_order_shows_the_visible_fields by fastforce
qed

text \<open>
  The exported file has exactly the rows of the first page of 200, however many records the
  filter selects.
\<close>

theorem export_holds_one_page:
  assumes "export_operations updated f ov srt descending s = (Inr csv, t)"
  shows "\<exists>rows n. list_records updated f ov srt descending 1 200 s = (Inr (rows, n), t) \<and> length rows \<le> 200 \<and>
    csv = csv_line csv_header @ concat (map (\<lambda>r. csv_line (csv_cells r)) rows)"
proof -
  have "list_records updated f ov srt descending 1 5000 = list_records updated f ov srt descending 1 200"
    by (simp add: list_records_def)
  then show ?thesis
    using assms by (fastforce simp: export_operations_def bind_return_iff dest: list_records_length)
qed

text \<open>
  A patch that sends a null address for a walk-in customer passes every check of the service and
  ends in the violation of the table's constraint.
\<close>

theorem cleared_invite_fails_late:
  assumes "filter (\<lambda>c. cus_id c = i) (customers s) = [c]" "cus_user_id c = None"
    and "cpt_invite_email p = Some None" "cpt_submitter_name p \<noteq> Some None"
  shows "update_customer i p actor s = (Inl (IntegrityError ''ck_customers_user_or_invite''), s)"
proof -
  have "load_customer i s = (Inr c, s)" using assms(1) by (simp add: load_customer_return_iff)
  moreover have "\<not> user_or_invite (patched_customer p c)"
    using assms(2,3) by (simp add: user_or_invite_def patched_contact set_sent_def)
  moreover have "sent_names p \<noteq> []" using assms(3) by (simp add: sent_names_def patch_fields_def)
  ultimately show ?thesis
    using assms(3,4) by (simp add: update_customer_def bind_run seq_run require_run)
qed

end
